(* ===== verification/Prelude.thy ===== *)
theory Prelude
  imports Complex_Main
begin

text \<open>
  Shared base of the development of the AI provider gateway: the JavaScript values the
  sources handle as \<open>unknown\<close> (JSON values, thrown values), the string and list operations of
  the language the sources call, and the two effect types all components are written in:
  \<open>'a result\<close> for code that returns or throws, \<open>('w, 'a) io\<close> for code that also changes the
  world \<open>'w\<close> (Redis, provider SDKs, clock, random identifiers). The world is a type variable:
  the operations on it are parameters of the definitions that call them.

  Strings are \<open>string\<close>, one \<open>char\<close> per UTF-16 code unit below 256. Numbers that the sources
  only compare, clamp and forward are rationals (every finite double is one).
\<close>

section \<open>JavaScript values\<close>

datatype json =
    JNull
  | JBool bool
  | JNum rat
  | JStr string
  | JArr "json list"
  | JObj "(string \<times> json) list"

text \<open>Property access on an object literal, and the spread update \<open>{...o, k: v}\<close>, which keeps
  the position of a key that is already there.\<close>

fun jget :: "(string \<times> json) list \<Rightarrow> string \<Rightarrow> json option" where
  "jget [] k = None"
| "jget ((k', v) # o') k = (if k' = k then Some v else jget o' k)"

fun jset :: "(string \<times> json) list \<Rightarrow> string \<Rightarrow> json \<Rightarrow> (string \<times> json) list" where
  "jset [] k v = [(k, v)]"
| "jset ((k', v') # o') k v = (if k' = k then (k', v) # o' else (k', v') # jset o' k v)"

lemma jget_jset [simp]: "jget (jset o' k v) k' = (if k' = k then Some v else jget o' k')"
  by (induction o' k v rule: jset.induct) auto

lemma jget_append [simp]:
  "jget (a @ b) k = (case jget a k of None \<Rightarrow> jget b k | Some v \<Rightarrow> Some v)"
  by (induction a k rule: jget.induct) auto

text \<open>Reading of JSON values by the clients and vendors the theorems speak about.\<close>

fun jfield :: "string \<Rightarrow> json \<Rightarrow> json option" where
  "jfield k (JObj kvs) = jget kvs k"
| "jfield k _ = None"

fun jstring :: "json option \<Rightarrow> string" where
  "jstring (Some (JStr s)) = s"
| "jstring _ = []"

fun jlist :: "json option \<Rightarrow> json list" where
  "jlist (Some (JArr vs)) = vs"
| "jlist _ = []"

text \<open>
  What a \<open>catch\<close> clause can receive. \<open>HttpException\<close> is the exception class of the web framework
  (status and response body); \<open>ErrorInstance\<close> any other \<open>Error\<close>, with the vendor SDK class it is an
  instance of, its name, its message and its further own properties.
\<close>

datatype sdk_class =
    AnthropicRateLimitError
  | AnthropicAuthenticationError
  | AnthropicBadRequestError
  | AnthropicAPIError
  | OpenAIAPIError
  | NoSdkClass

datatype jserr =
    HttpException nat json
  | ErrorInstance sdk_class string string "(string \<times> json) list"
  | ThrownString string
  | ThrownObject "(string \<times> json) list"
  | ThrownOther

type_synonym 'a result = "jserr + 'a"

abbreviation plain_error :: "string \<Rightarrow> jserr" where
  "plain_error m \<equiv> ErrorInstance NoSdkClass ''Error'' m []"

section \<open>Strings\<close>

definition js_whitespace :: "char \<Rightarrow> bool" where
  "js_whitespace c \<longleftrightarrow> c \<in> {CHR '' '', CHR 0x09, CHR 0x0A, CHR 0x0B, CHR 0x0C, CHR 0x0D, CHR 0xA0}"

definition js_trim :: "string \<Rightarrow> string" where
  "js_trim s = rev (dropWhile js_whitespace (rev (dropWhile js_whitespace s)))"

lemma dropWhile_rev_idem:
  assumes "s = [] \<or> \<not> P (hd s)"
  shows "dropWhile P (rev (dropWhile P (rev s))) = rev (dropWhile P (rev s))"
proof -
  let ?t = "rev (dropWhile P (rev s))"
  have "?t = [] \<or> hd ?t = hd s"
  proof -
    obtain u where "s = ?t @ u"
      by (metis rev_append rev_rev_ident takeWhile_dropWhile_id)
    then show ?thesis by (metis hd_append2)
  qed
  moreover have "s = [] \<Longrightarrow> ?t = []" by simp
  ultimately show ?thesis using assms by (metis dropWhile_eq_self_iff)
qed

lemma js_trim_idem [simp]: "js_trim (js_trim s) = js_trim s"
proof -
  let ?d = "dropWhile js_whitespace s"
  have "?d = [] \<or> \<not> js_whitespace (hd ?d)" using hd_dropWhile by blast
  from dropWhile_rev_idem [of ?d js_whitespace, OF this] show ?thesis
    by (simp add: js_trim_def)
qed

lemma js_trim_Nil [simp]: "js_trim [] = []"
  by (simp add: js_trim_def)

text \<open>Decimal printing of the integers that appear in messages and keys.\<close>

definition digit_char :: "nat \<Rightarrow> char" where
  "digit_char d = char_of (48 + d)"

fun show_nat :: "nat \<Rightarrow> string" where
  "show_nat n = (if n < 10 then [digit_char n] else show_nat (n div 10) @ [digit_char (n mod 10)])"

declare show_nat.simps [simp del]

definition show_int :: "int \<Rightarrow> string" where
  "show_int i = (if i < 0 then ''-'' @ show_nat (nat (- i)) else show_nat (nat i))"

text \<open>
  \<open>String(n)\<close> of a number in decimal notation: the integer part and up to 24 fraction digits
  (a double between \<open>1e-6\<close> and \<open>1e21\<close> prints at most 17 significant ones). The exponent notation
  outside that range is not modelled.
\<close>

fun frac_digits :: "nat \<Rightarrow> rat \<Rightarrow> string" where
  "frac_digits 0 q = []"
| "frac_digits (Suc n) q =
     (if q = 0 then []
      else digit_char (nat \<lfloor>q * 10\<rfloor>) # frac_digits n (q * 10 - of_int \<lfloor>q * 10\<rfloor>))"

definition show_rat :: "rat \<Rightarrow> string" where
  "show_rat q =
     (let a = \<bar>q\<bar>; f = a - of_int \<lfloor>a\<rfloor>
      in (if q < 0 then ''-'' else []) @ show_nat (nat \<lfloor>a\<rfloor>) @
         (if f = 0 then [] else ''.'' @ frac_digits 24 f))"

definition js_ends_with :: "string \<Rightarrow> string \<Rightarrow> bool" where
  "js_ends_with s suf \<longleftrightarrow> length suf \<le> length s \<and> drop (length s - length suf) s = suf"

lemma js_ends_with_append [simp]: "js_ends_with (s @ suf) suf"
  by (simp add: js_ends_with_def)

text \<open>\<open>s.split(sep)[0]\<close> for a one-character separator.\<close>

definition before_char :: "char \<Rightarrow> string \<Rightarrow> string" where
  "before_char c s = takeWhile (\<lambda>x. x \<noteq> c) s"

text \<open>\<open>parts.join(sep)\<close>.\<close>

fun js_join :: "string \<Rightarrow> string list \<Rightarrow> string" where
  "js_join sep [] = []"
| "js_join sep [x] = x"
| "js_join sep (x # y # xs) = x @ sep @ js_join sep (y # xs)"

definition js_lower_char :: "char \<Rightarrow> char" where
  "js_lower_char c =
     (let n = of_char c :: nat
      in if (65 \<le> n \<and> n \<le> 90) \<or> (192 \<le> n \<and> n \<le> 222 \<and> n \<noteq> 215) then char_of (n + 32) else c)"

definition js_lower :: "string \<Rightarrow> string" where
  "js_lower s = map js_lower_char s"

text \<open>Truthiness: \<open>undefined\<close> and the empty string are falsy, so \<open>...(s && {s})\<close> drops them.\<close>

definition truthy_str :: "string option \<Rightarrow> string option" where
  "truthy_str x = (case x of Some s \<Rightarrow> (if s = [] then None else Some s) | None \<Rightarrow> None)"

definition truthy_list :: "'a list option \<Rightarrow> 'a list option" where
  "truthy_list x = (case x of Some s \<Rightarrow> (if s = [] then None else Some s) | None \<Rightarrow> None)"

lemma truthy_str_eq_Some [simp]: "truthy_str x = Some s \<longleftrightarrow> x = Some s \<and> s \<noteq> []"
  by (auto simp: truthy_str_def split: option.splits)

lemma truthy_list_eq_Some [simp]: "truthy_list x = Some s \<longleftrightarrow> x = Some s \<and> s \<noteq> []"
  by (auto simp: truthy_list_def split: option.splits)

lemma truthy_eq_None [simp]:
  "truthy_str x = None \<longleftrightarrow> x = None \<or> x = Some []"
  "truthy_list y = None \<longleftrightarrow> y = None \<or> y = Some []"
  by (auto simp: truthy_str_def truthy_list_def split: option.splits)

lemma truthy_simps [simp]:
  "truthy_str None = None" "truthy_str (Some []) = None"
  "truthy_str (Some (c # s)) = Some (c # s)"
  "truthy_list None = None" "truthy_list (Some []) = None"
  "truthy_list (Some (x # xs)) = Some (x # xs)"
  by (simp_all add: truthy_str_def truthy_list_def)

text \<open>The nullish default \<open>x ?? d\<close>.\<close>

definition nullish :: "'a option \<Rightarrow> 'a \<Rightarrow> 'a" where
  "nullish x d = (case x of Some v \<Rightarrow> v | None \<Rightarrow> d)"

lemma nullish_simps [simp]: "nullish None d = d" "nullish (Some v) d = v"
  by (simp_all add: nullish_def)

section \<open>Code that returns or throws\<close>

named_theorems effect_simps \<open>unfolding rules of the two effect types\<close>

definition res_bind :: "'a result \<Rightarrow> ('a \<Rightarrow> 'b result) \<Rightarrow> 'b result" where
  "res_bind m f = (case m of Inl e \<Rightarrow> Inl e | Inr x \<Rightarrow> f x)"

lemma res_bind_simps [simp, effect_simps]:
  "res_bind (Inl e) f = Inl e" "res_bind (Inr x) f = f x"
  by (simp_all add: res_bind_def)

lemma res_bind_eq_Inr [simp]: "res_bind m f = Inr y \<longleftrightarrow> (\<exists>x. m = Inr x \<and> f x = Inr y)"
  by (cases m) auto

lemma res_bind_eq_Inl:
  "res_bind m f = Inl e \<longleftrightarrow> m = Inl e \<or> (\<exists>x. m = Inr x \<and> f x = Inl e)"
  by (cases m) auto

lemma res_bind_assoc: "res_bind (res_bind m f) g = res_bind m (\<lambda>x. res_bind (f x) g)"
  by (cases m) auto

section \<open>Code that also changes the world\<close>

type_synonym ('w, 'a) io = "'w \<Rightarrow> 'a result \<times> 'w"

definition io_return :: "'a \<Rightarrow> ('w, 'a) io" where
  "io_return x = (\<lambda>w. (Inr x, w))"

definition io_throw :: "jserr \<Rightarrow> ('w, 'a) io" where
  "io_throw e = (\<lambda>w. (Inl e, w))"

definition io_lift :: "'a result \<Rightarrow> ('w, 'a) io" where
  "io_lift r = (\<lambda>w. (r, w))"

definition io_bind :: "('w, 'a) io \<Rightarrow> ('a \<Rightarrow> ('w, 'b) io) \<Rightarrow> ('w, 'b) io" where
  "io_bind m f = (\<lambda>w. case m w of (Inl e, w') \<Rightarrow> (Inl e, w') | (Inr x, w') \<Rightarrow> f x w')"

definition io_catch :: "('w, 'a) io \<Rightarrow> (jserr \<Rightarrow> ('w, 'a) io) \<Rightarrow> ('w, 'a) io" where
  "io_catch m h = (\<lambda>w. case m w of (Inl e, w') \<Rightarrow> h e w' | (Inr x, w') \<Rightarrow> (Inr x, w'))"

definition io_update :: "('w \<Rightarrow> 'w) \<Rightarrow> ('w, unit) io" where
  "io_update f = (\<lambda>w. (Inr (), f w))"

definition io_get :: "('w \<Rightarrow> 'a) \<Rightarrow> ('w, 'a) io" where
  "io_get f = (\<lambda>w. (Inr (f w), w))"

definition io_map :: "('a \<Rightarrow> 'b) \<Rightarrow> ('w, 'a) io \<Rightarrow> ('w, 'b) io" where
  "io_map f m = io_bind m (\<lambda>x. io_return (f x))"

lemma io_prim_simps [simp, effect_simps]:
  "io_return x w = (Inr x, w)" "io_throw e w = (Inl e, w)" "io_lift r w = (r, w)"
  "io_update f w = (Inr (), f w)" "io_get g w = (Inr (g w), w)"
  by (simp_all add: io_return_def io_throw_def io_lift_def io_update_def io_get_def)

lemma io_bind_apply [effect_simps]:
  "io_bind m f w = (case m w of (Inl e, w') \<Rightarrow> (Inl e, w') | (Inr x, w') \<Rightarrow> f x w')"
  by (simp add: io_bind_def)

lemma io_catch_apply [effect_simps]:
  "io_catch m h w = (case m w of (Inl e, w') \<Rightarrow> h e w' | (Inr x, w') \<Rightarrow> (Inr x, w'))"
  by (simp add: io_catch_def)

lemma io_bind_prim [simp]:
  "io_bind (io_return x) f = f x" "io_bind (io_throw e) f = io_throw e"
  "io_bind (io_lift (Inr x)) f = f x" "io_bind (io_lift (Inl e)) f = io_throw e"
  "io_catch (io_return x) h = io_return x" "io_catch (io_throw e) h = h e"
  by (simp_all add: io_bind_def io_catch_def fun_eq_iff)

lemma io_bind_assoc: "io_bind (io_bind m f) g = io_bind m (\<lambda>x. io_bind (f x) g)"
  by (rule ext) (auto simp: io_bind_def split: prod.splits sum.splits)

lemma io_bind_Inr:
  "io_bind m f w = (Inr y, w2) \<longleftrightarrow> (\<exists>x w1. m w = (Inr x, w1) \<and> f x w1 = (Inr y, w2))"
  by (auto simp: io_bind_def split: prod.splits sum.splits)

lemma io_bind_Inl:
  "io_bind m f w = (Inl e, w2) \<longleftrightarrow>
     m w = (Inl e, w2) \<or> (\<exists>x w1. m w = (Inr x, w1) \<and> f x w1 = (Inl e, w2))"
  by (auto simp: io_bind_def split: prod.splits sum.splits)

lemma io_catch_Inr:
  "io_catch m h w = (Inr y, w2) \<longleftrightarrow>
     m w = (Inr y, w2) \<or> (\<exists>e w1. m w = (Inl e, w1) \<and> h e w1 = (Inr y, w2))"
  by (auto simp: io_catch_def split: prod.splits sum.splits)

text \<open>Code whose every failure is handled inside: it never throws, whatever the world does.\<close>

definition never_throws :: "('w, 'a) io \<Rightarrow> bool" where
  "never_throws m \<longleftrightarrow> (\<forall>w. \<exists>x w'. m w = (Inr x, w'))"

named_theorems total_intros \<open>introduction rules for \<open>never_throws\<close>\<close>

lemma never_throws_prim [total_intros]:
  "never_throws (io_return x)" "never_throws (io_update f)" "never_throws (io_get g)"
  by (simp_all add: never_throws_def)

lemma never_throws_bind [total_intros]:
  assumes "never_throws m" and "\<And>x. never_throws (f x)"
  shows "never_throws (io_bind m f)"
  unfolding never_throws_def
proof
  fix w
  obtain x w1 where "m w = (Inr x, w1)" using assms(1) unfolding never_throws_def by blast
  moreover obtain y w2 where "f x w1 = (Inr y, w2)"
    using assms(2) unfolding never_throws_def by blast
  ultimately show "\<exists>x w'. io_bind m f w = (Inr x, w')" by (simp add: io_bind_apply)
qed

lemma never_throws_catch [total_intros]:
  assumes "\<And>e. never_throws (h e)"
  shows "never_throws (io_catch m h)"
  unfolding never_throws_def io_catch_apply
  using assms by (auto simp: never_throws_def split: prod.splits sum.splits)

lemma never_throws_map [total_intros]: "never_throws m \<Longrightarrow> never_throws (io_map f m)"
  by (simp add: io_map_def never_throws_bind never_throws_prim)

lemma never_throws_if [total_intros]:
  "(b \<Longrightarrow> never_throws m) \<Longrightarrow> (\<not> b \<Longrightarrow> never_throws n) \<Longrightarrow> never_throws (if b then m else n)"
  by simp

lemma never_throws_option [total_intros]:
  "(x = None \<Longrightarrow> never_throws m) \<Longrightarrow> (\<And>y. x = Some y \<Longrightarrow> never_throws (f y)) \<Longrightarrow>
   never_throws (case x of None \<Rightarrow> m | Some y \<Rightarrow> f y)"
  by (cases x) simp_all

lemma never_throwsE:
  assumes "never_throws m"
  obtains x w' where "m w = (Inr x, w')"
  using assms unfolding never_throws_def by blast

text \<open>What every value satisfies that the code returns (it may also throw).\<close>

definition returns :: "('w, 'a) io \<Rightarrow> ('a \<Rightarrow> bool) \<Rightarrow> bool" where
  "returns m Q \<longleftrightarrow> (\<forall>w x w'. m w = (Inr x, w') \<longrightarrow> Q x)"

named_theorems returns_intros \<open>introduction rules for \<open>returns\<close>\<close>

lemma returnsD: "returns m Q \<Longrightarrow> m w = (Inr x, w') \<Longrightarrow> Q x"
  unfolding returns_def by blast

lemma returns_return [returns_intros]: "Q x \<Longrightarrow> returns (io_return x) Q"
  by (simp add: returns_def)

lemma returns_throw [returns_intros]: "returns (io_throw e) Q"
  by (simp add: returns_def)

lemma returns_bind:
  "returns m P \<Longrightarrow> (\<And>x. P x \<Longrightarrow> returns (f x) Q) \<Longrightarrow> returns (io_bind m f) Q"
  unfolding returns_def io_bind_Inr by blast

lemma returns_bind_any [returns_intros]: "(\<And>x. returns (f x) Q) \<Longrightarrow> returns (io_bind m f) Q"
  unfolding returns_def io_bind_Inr by blast

lemma returns_catch [returns_intros]:
  "returns m Q \<Longrightarrow> (\<And>e. returns (h e) Q) \<Longrightarrow> returns (io_catch m h) Q"
  unfolding returns_def io_catch_Inr by blast

lemma returns_if [returns_intros]:
  "(b \<Longrightarrow> returns m Q) \<Longrightarrow> (\<not> b \<Longrightarrow> returns n Q) \<Longrightarrow> returns (if b then m else n) Q"
  by simp

lemma returns_option [returns_intros]:
  "(x = None \<Longrightarrow> returns m Q) \<Longrightarrow> (\<And>y. x = Some y \<Longrightarrow> returns (f y) Q) \<Longrightarrow>
   returns (case x of None \<Rightarrow> m | Some y \<Rightarrow> f y) Q"
  by (cases x) simp_all

lemma returns_sum [returns_intros]:
  "(\<And>a. x = Inl a \<Longrightarrow> returns (f a) Q) \<Longrightarrow> (\<And>b. x = Inr b \<Longrightarrow> returns (g b) Q) \<Longrightarrow>
   returns (case x of Inl a \<Rightarrow> f a | Inr b \<Rightarrow> g b) Q"
  by (cases x) simp_all

end
