(* ===== verification/Errors.thy ===== *)
theory Errors
  imports Prelude
begin

text \<open>
  The error vocabulary of the gateway: the codes of \<open>common/errors/api-error.code.ts\<close>, the
  status predicates of \<open>errors.utils.ts\<close>, the three vendor error mappers and the global
  exception filter that turns whatever was thrown into the public error envelope.
\<close>

section \<open>Codes and exceptions\<close>

datatype api_error_code =
    VALIDATION_FAILED
  | MODEL_ALIAS_NOT_FOUND
  | MODEL_NOT_ALLOWED
  | PROVIDER_UNSUPPORTED
  | PROVIDER_AUTH_FAILED
  | PROVIDER_RATE_LIMITED
  | RATE_LIMITED
  | PROVIDER_TIMEOUT
  | PROVIDER_UNAVAILABLE
  | STREAMING_NOT_SUPPORTED
  | GATEWAY_KEY_NOT_CONFIGURED
  | GATEWAY_KEY_MISSING
  | GATEWAY_KEY_INVALID
  | INTERNAL_SERVER_ERROR
  | TOOLS_NOT_SUPPORTED
  | THINKING_NOT_SUPPORTED

fun code_string :: "api_error_code \<Rightarrow> string" where
  "code_string VALIDATION_FAILED = ''VALIDATION_FAILED''"
| "code_string MODEL_ALIAS_NOT_FOUND = ''MODEL_ALIAS_NOT_FOUND''"
| "code_string MODEL_NOT_ALLOWED = ''MODEL_NOT_ALLOWED''"
| "code_string PROVIDER_UNSUPPORTED = ''PROVIDER_UNSUPPORTED''"
| "code_string PROVIDER_AUTH_FAILED = ''PROVIDER_AUTH_FAILED''"
| "code_string PROVIDER_RATE_LIMITED = ''PROVIDER_RATE_LIMITED''"
| "code_string RATE_LIMITED = ''RATE_LIMITED''"
| "code_string PROVIDER_TIMEOUT = ''PROVIDER_TIMEOUT''"
| "code_string PROVIDER_UNAVAILABLE = ''PROVIDER_UNAVAILABLE''"
| "code_string STREAMING_NOT_SUPPORTED = ''STREAMING_NOT_SUPPORTED''"
| "code_string GATEWAY_KEY_NOT_CONFIGURED = ''GATEWAY_KEY_NOT_CONFIGURED''"
| "code_string GATEWAY_KEY_MISSING = ''GATEWAY_KEY_MISSING''"
| "code_string GATEWAY_KEY_INVALID = ''GATEWAY_KEY_INVALID''"
| "code_string INTERNAL_SERVER_ERROR = ''INTERNAL_SERVER_ERROR''"
| "code_string TOOLS_NOT_SUPPORTED = ''TOOLS_NOT_SUPPORTED''"
| "code_string THINKING_NOT_SUPPORTED = ''THINKING_NOT_SUPPORTED''"

lemma code_string_inject [simp]: "code_string a = code_string b \<longleftrightarrow> a = b"
  by (cases a; cases b) simp_all

fun default_http_status_to_code :: "nat \<Rightarrow> api_error_code option" where
  "default_http_status_to_code s =
     (if s = 400 then Some VALIDATION_FAILED
      else if s = 401 then Some PROVIDER_AUTH_FAILED
      else if s = 403 then Some GATEWAY_KEY_INVALID
      else if s = 404 then Some MODEL_ALIAS_NOT_FOUND
      else if s = 413 then Some VALIDATION_FAILED
      else if s = 429 then Some RATE_LIMITED
      else if s = 500 then Some INTERNAL_SERVER_ERROR
      else if s = 502 then Some PROVIDER_UNAVAILABLE
      else if s = 503 then Some PROVIDER_UNAVAILABLE
      else if s = 504 then Some PROVIDER_TIMEOUT
      else None)"

text \<open>The payload shape \<open>{code, message, details}\<close> and the exception that carries it.\<close>

definition api_payload :: "api_error_code \<Rightarrow> string \<Rightarrow> json list \<Rightarrow> json" where
  "api_payload c m ds =
     JObj [(''code'', JStr (code_string c)), (''message'', JStr m), (''details'', JArr ds)]"

definition api_exception :: "nat \<Rightarrow> api_error_code \<Rightarrow> string \<Rightarrow> json list \<Rightarrow> jserr" where
  "api_exception st c m ds = HttpException st (api_payload c m ds)"

text \<open>The guards' variant \<open>{statusCode, code, message, requestId, details: []}\<close>.\<close>

definition api_exception_req :: "nat \<Rightarrow> api_error_code \<Rightarrow> string \<Rightarrow> string \<Rightarrow> jserr" where
  "api_exception_req st c m reqId =
     HttpException st (JObj [(''statusCode'', JNum (of_nat st)), (''code'', JStr (code_string c)),
       (''message'', JStr m), (''requestId'', JStr reqId), (''details'', JArr [])])"

definition http_code :: "jserr \<Rightarrow> string option" where
  "http_code e = (case e of
     HttpException st (JObj o') \<Rightarrow> (case jget o' ''code'' of Some (JStr c) \<Rightarrow> Some c | _ \<Rightarrow> None)
   | _ \<Rightarrow> None)"

definition http_status :: "jserr \<Rightarrow> nat option" where
  "http_status e = (case e of HttpException st r \<Rightarrow> Some st | _ \<Rightarrow> None)"

lemma http_observers [simp]:
  "http_status (api_exception st c m ds) = Some st"
  "http_code (api_exception st c m ds) = Some (code_string c)"
  "http_status (api_exception_req st c m r) = Some st"
  "http_code (api_exception_req st c m r) = Some (code_string c)"
  by (simp_all add: http_status_def http_code_def api_exception_def api_exception_req_def
      api_payload_def)

definition UnsupportedProviderException :: "string \<Rightarrow> jserr" where
  "UnsupportedProviderException m = api_exception 500 PROVIDER_UNSUPPORTED m []"

text \<open>\<open>exception.message\<close> of the framework's exception: the response text, or its
  \<open>message\<close> property, or the words of the class name.\<close>

fun exc_message :: "json \<Rightarrow> string" where
  "exc_message (JStr s) = s"
| "exc_message (JObj o') =
     (case jget o' ''message'' of Some (JStr m) \<Rightarrow> m | _ \<Rightarrow> ''Http Exception'')"
| "exc_message _ = ''Http Exception''"

fun err_props :: "jserr \<Rightarrow> (string \<times> json) list" where
  "err_props (HttpException st r) =
     [(''status'', JNum (of_nat st)), (''response'', r), (''message'', JStr (exc_message r))]"
| "err_props (ErrorInstance cls nm m ps) = ps @ [(''name'', JStr nm), (''message'', JStr m)]"
| "err_props (ThrownObject ps) = ps"
| "err_props _ = []"

section \<open>Status predicates (errors.utils.ts)\<close>

definition isProviderRateLimitError :: "jserr \<Rightarrow> bool" where
  "isProviderRateLimitError e = (case e of HttpException st r \<Rightarrow> st = 429 | _ \<Rightarrow> False)"

definition isRateLimitStatus :: "rat option \<Rightarrow> bool" where
  "isRateLimitStatus s = (case s of None \<Rightarrow> False | Some n \<Rightarrow> n \<noteq> 0 \<and> n = 429)"

definition isClientError :: "rat option \<Rightarrow> bool" where
  "isClientError s = (case s of None \<Rightarrow> False | Some n \<Rightarrow> n \<noteq> 0 \<and> n \<ge> 400 \<and> n \<le> 499)"

definition isAuthError :: "rat option \<Rightarrow> bool" where
  "isAuthError s = (case s of None \<Rightarrow> False | Some n \<Rightarrow> n \<noteq> 0 \<and> (n = 401 \<or> n = 403))"

definition isTimeoutStatus :: "rat option \<Rightarrow> bool" where
  "isTimeoutStatus s = (case s of None \<Rightarrow> False | Some n \<Rightarrow> n \<noteq> 0 \<and> (n = 408 \<or> n = 504))"

definition isServerError :: "rat option \<Rightarrow> bool" where
  "isServerError s = (case s of None \<Rightarrow> False | Some n \<Rightarrow> n \<noteq> 0 \<and> n \<ge> 500 \<and> n \<le> 599)"

definition isInvalidRequestStatus :: "rat option \<Rightarrow> bool" where
  "isInvalidRequestStatus s = (case s of None \<Rightarrow> False | Some n \<Rightarrow> n \<noteq> 0 \<and> n = 400)"

lemmas status_defs = isRateLimitStatus_def isClientError_def isAuthError_def isTimeoutStatus_def
  isServerError_def isInvalidRequestStatus_def

section \<open>Reading foreign errors (provider-error.mapper.helpers.ts)\<close>

definition readNumericStatus :: "jserr \<Rightarrow> rat option" where
  "readNumericStatus e =
     (case jget (err_props e) ''status'' of
        Some (JNum n) \<Rightarrow> Some n
      | _ \<Rightarrow> (case jget (err_props e) ''response'' of
               Some (JObj r) \<Rightarrow> (case jget r ''status'' of Some (JNum n) \<Rightarrow> Some n | _ \<Rightarrow> None)
             | _ \<Rightarrow> None))"

definition is_error_instance :: "jserr \<Rightarrow> bool" where
  "is_error_instance e = (case e of HttpException _ _ \<Rightarrow> True | ErrorInstance _ _ _ _ \<Rightarrow> True | _ \<Rightarrow> False)"

definition error_message :: "jserr \<Rightarrow> string" where
  "error_message e = (case e of HttpException st r \<Rightarrow> exc_message r | ErrorInstance c n m ps \<Rightarrow> m | _ \<Rightarrow> [])"

definition error_name :: "jserr \<Rightarrow> string" where
  "error_name e = (case e of HttpException st r \<Rightarrow> ''HttpException'' | ErrorInstance c n m ps \<Rightarrow> n | _ \<Rightarrow> [])"

definition readErrorMessage :: "jserr \<Rightarrow> string \<Rightarrow> string" where
  "readErrorMessage e fb =
     (if is_error_instance e \<and> js_trim (error_message e) \<noteq> [] then error_message e
      else case jget (err_props e) ''message'' of
             Some (JStr m) \<Rightarrow> if js_trim m \<noteq> [] then m else fb
           | _ \<Rightarrow> fb)"

definition nameLooksLikeTimeout :: "jserr \<Rightarrow> bool" where
  "nameLooksLikeTimeout e \<longleftrightarrow> error_name e = ''AbortError'' \<or> error_name e = ''TimeoutError''"

section \<open>Vendor error mappers\<close>

record mapped_provider_error =
  httpStatus :: nat
  payloadMessage :: string
  payloadCode :: api_error_code

definition mapped :: "nat \<Rightarrow> string \<Rightarrow> api_error_code \<Rightarrow> mapped_provider_error" where
  "mapped st m c = \<lparr>httpStatus = st, payloadMessage = m, payloadCode = c\<rparr>"

lemma mapped_sel [simp]:
  "httpStatus (mapped st m c) = st" "payloadCode (mapped st m c) = c"
  "payloadMessage (mapped st m c) = m"
  by (simp_all add: mapped_def)

definition sdk_status :: "jserr \<Rightarrow> rat" where
  "sdk_status e = (case jget (err_props e) ''status'' of Some (JNum n) \<Rightarrow> n | _ \<Rightarrow> 502)"

definition sdk_class_of :: "jserr \<Rightarrow> sdk_class" where
  "sdk_class_of e = (case e of ErrorInstance c n m ps \<Rightarrow> c | _ \<Rightarrow> NoSdkClass)"

text \<open>\<open>instanceof Anthropic.APIError\<close> holds for the three specific classes as well.\<close>

definition is_anthropic_api_error :: "jserr \<Rightarrow> bool" where
  "is_anthropic_api_error e \<longleftrightarrow> sdk_class_of e \<in> {AnthropicRateLimitError,
     AnthropicAuthenticationError, AnthropicBadRequestError, AnthropicAPIError}"

definition mapAnthropicSdkError :: "jserr \<Rightarrow> mapped_provider_error" where
  "mapAnthropicSdkError e =
     (let msg = readErrorMessage e ''Anthropic request failed.''; status = Some (sdk_status e) in
      if sdk_class_of e = AnthropicRateLimitError then mapped 429 msg PROVIDER_RATE_LIMITED
      else if sdk_class_of e = AnthropicAuthenticationError then mapped 401 msg PROVIDER_AUTH_FAILED
      else if sdk_class_of e = AnthropicBadRequestError then mapped 400 msg VALIDATION_FAILED
      else if is_anthropic_api_error e then
        (if isRateLimitStatus status then mapped 429 msg PROVIDER_RATE_LIMITED
         else if isAuthError status then mapped 401 msg PROVIDER_AUTH_FAILED
         else if isTimeoutStatus status then mapped 504 msg PROVIDER_TIMEOUT
         else if isServerError status then mapped 502 msg PROVIDER_UNAVAILABLE
         else if isClientError status then mapped 400 msg VALIDATION_FAILED
         else mapped 502 msg PROVIDER_UNAVAILABLE)
      else if error_name e = ''AbortError'' \<or> error_name e = ''TimeoutError''
        then mapped 504 msg PROVIDER_TIMEOUT
      else mapped 502 msg PROVIDER_UNAVAILABLE)"

definition mapGoogleGenAiError :: "jserr \<Rightarrow> mapped_provider_error" where
  "mapGoogleGenAiError e =
     (let msg = readErrorMessage e ''Google GenAI request failed.''; status = readNumericStatus e in
      if nameLooksLikeTimeout e then mapped 504 msg PROVIDER_TIMEOUT
      else if isRateLimitStatus status then mapped 429 msg PROVIDER_RATE_LIMITED
      else if isAuthError status then mapped 401 msg PROVIDER_AUTH_FAILED
      else if isTimeoutStatus status then mapped 504 msg PROVIDER_TIMEOUT
      else if isServerError status then mapped 502 msg PROVIDER_UNAVAILABLE
      else if isClientError status then mapped 400 msg VALIDATION_FAILED
      else mapped 502 msg PROVIDER_UNAVAILABLE)"

definition mapOpenAiSdkError :: "jserr \<Rightarrow> mapped_provider_error" where
  "mapOpenAiSdkError e =
     (let msg = readErrorMessage e ''OpenAI request failed.'';
          rest = (if nameLooksLikeTimeout e \<or> isTimeoutStatus (readNumericStatus e)
                  then mapped 504 msg PROVIDER_TIMEOUT else mapped 502 msg PROVIDER_UNAVAILABLE)
      in if sdk_class_of e = OpenAIAPIError then
           (let status = Some (sdk_status e) in
            if isRateLimitStatus status then mapped 429 msg PROVIDER_RATE_LIMITED
            else if isAuthError status then mapped 401 msg PROVIDER_AUTH_FAILED
            else if isTimeoutStatus status then mapped 504 msg PROVIDER_TIMEOUT
            else if isServerError status then mapped 502 msg PROVIDER_UNAVAILABLE
            else if isInvalidRequestStatus status then mapped 400 msg VALIDATION_FAILED
            else rest)
         else rest)"

definition toHttpException :: "mapped_provider_error \<Rightarrow> jserr" where
  "toHttpException m =
     HttpException (httpStatus m) (api_payload (payloadCode m) (payloadMessage m) [])"

text \<open>The contract every mapper promises its callers: a status of the gateway's own table,
  paired with the one code that belongs to it.\<close>

definition provider_status_code :: "nat \<Rightarrow> api_error_code option" where
  "provider_status_code st =
     (if st = 400 then Some VALIDATION_FAILED else if st = 401 then Some PROVIDER_AUTH_FAILED
      else if st = 429 then Some PROVIDER_RATE_LIMITED else if st = 502 then Some PROVIDER_UNAVAILABLE
      else if st = 504 then Some PROVIDER_TIMEOUT else None)"

locale provider_error_mapper =
  fixes mapError :: "jserr \<Rightarrow> mapped_provider_error"
  assumes mapped_in_table: "provider_status_code (httpStatus (mapError e)) = Some (payloadCode (mapError e))"
begin

lemma mapped_status_range: "httpStatus (mapError e) \<in> {400, 401, 429, 502, 504}"
  using mapped_in_table [of e] by (auto simp: provider_status_code_def split: if_splits)

lemma mapped_code_determines_status:
  "payloadCode (mapError e) = payloadCode (mapError f) \<Longrightarrow> httpStatus (mapError e) = httpStatus (mapError f)"
  using mapped_in_table [of e] mapped_in_table [of f]
  by (auto simp: provider_status_code_def split: if_splits)

lemma mapped_rate_limit_iff:
  "isProviderRateLimitError (toHttpException (mapError e)) \<longleftrightarrow> payloadCode (mapError e) = PROVIDER_RATE_LIMITED"
  using mapped_in_table [of e]
  by (auto simp: provider_status_code_def isProviderRateLimitError_def toHttpException_def split: if_splits)

end

interpretation anthropic_errors: provider_error_mapper mapAnthropicSdkError
  by unfold_locales (simp add: mapAnthropicSdkError_def Let_def provider_status_code_def)

interpretation google_errors: provider_error_mapper mapGoogleGenAiError
  by unfold_locales (simp add: mapGoogleGenAiError_def Let_def provider_status_code_def)

interpretation openai_errors: provider_error_mapper mapOpenAiSdkError
  by unfold_locales (simp add: mapOpenAiSdkError_def Let_def provider_status_code_def)

section \<open>The global exception filter (http-exception.filter.ts)\<close>

record error_envelope =
  envStatusCode :: nat
  envCode :: string
  envMessage :: string
  envRequestId :: string
  envDetails :: "json list"

abbreviation unexpected_message :: string where
  "unexpected_message \<equiv> ''An unexpected error occurred''"

definition isPayloadTooLargeError :: "jserr \<Rightarrow> bool" where
  "isPayloadTooLargeError e \<longleftrightarrow>
     is_error_instance e \<and> jget (err_props e) ''type'' = Some (JStr ''entity.too.large'')"

definition mapHttpStatusToCode :: "nat \<Rightarrow> string" where
  "mapHttpStatusToCode st = code_string (nullish (default_http_status_to_code st) INTERNAL_SERVER_ERROR)"

fun all_strings :: "json list \<Rightarrow> string list option" where
  "all_strings [] = Some []"
| "all_strings (JStr s # xs) = map_option ((#) s) (all_strings xs)"
| "all_strings (_ # xs) = None"

text \<open>The result of \<open>normalizeMessage\<close> after the final \<open>join\<close>.\<close>

definition normalizeMessage :: "json option \<Rightarrow> string" where
  "normalizeMessage m = (case m of
     Some (JArr xs) \<Rightarrow> (case all_strings xs of Some ss \<Rightarrow> js_join ''; '' ss | None \<Rightarrow> unexpected_message)
   | Some (JStr s) \<Rightarrow> s
   | _ \<Rightarrow> unexpected_message)"

definition filter_request_id :: "string option \<Rightarrow> string" where
  "filter_request_id r = (case truthy_str r of Some s \<Rightarrow> s | None \<Rightarrow> ''unknown'')"

definition filter_catch :: "jserr \<Rightarrow> string option \<Rightarrow> error_envelope" where
  "filter_catch e reqId =
     (case e of
        HttpException st r \<Rightarrow>
          (case r of
             JStr m \<Rightarrow> \<lparr>envStatusCode = st, envCode = mapHttpStatusToCode st, envMessage = m,
                       envRequestId = filter_request_id reqId, envDetails = []\<rparr>
           | JObj body \<Rightarrow>
               \<lparr>envStatusCode = st,
                envCode = (case jget body ''code'' of Some (JStr c) \<Rightarrow> c | _ \<Rightarrow> mapHttpStatusToCode st),
                envMessage = normalizeMessage (jget body ''message''),
                envRequestId = (case jget body ''requestId'' of
                    Some (JStr s) \<Rightarrow> if js_trim s \<noteq> [] then js_trim s else filter_request_id reqId
                  | _ \<Rightarrow> filter_request_id reqId),
                envDetails = (case jget body ''details'' of Some (JArr ds) \<Rightarrow> ds | _ \<Rightarrow> [])\<rparr>
           | _ \<Rightarrow> \<lparr>envStatusCode = st, envCode = mapHttpStatusToCode st,
                   envMessage = unexpected_message,
                   envRequestId = filter_request_id reqId, envDetails = []\<rparr>)
      | _ \<Rightarrow>
          (if isPayloadTooLargeError e
           then \<lparr>envStatusCode = 413, envCode = code_string VALIDATION_FAILED,
                 envMessage = ''request entity too large'',
                 envRequestId = filter_request_id reqId, envDetails = []\<rparr>
           else \<lparr>envStatusCode = 500, envCode = code_string INTERNAL_SERVER_ERROR,
                 envMessage = unexpected_message,
                 envRequestId = filter_request_id reqId, envDetails = []\<rparr>))"

lemma filter_request_id_nonempty: "filter_request_id r \<noteq> []"
  by (auto simp: filter_request_id_def truthy_str_def split: option.splits)

lemma filter_catch_request_id: "envRequestId (filter_catch e r) \<noteq> []"
  by (auto simp: filter_catch_def filter_request_id_nonempty split: jserr.splits json.splits option.splits)

lemma filter_catch_api:
  "filter_catch (api_exception st c m ds) r =
     \<lparr>envStatusCode = st, envCode = code_string c, envMessage = m,
      envRequestId = filter_request_id r, envDetails = ds\<rparr>"
  by (simp add: filter_catch_def api_exception_def api_payload_def normalizeMessage_def)

section \<open>Properties\<close>

text \<open>
  The three vendor mappers share one contract: whatever a provider SDK throws, the mapped
  error has a status from the gateway's table with exactly the code that belongs to it, and it
  is seen as a provider rate limit (which starts the cooldown) iff its code is
  \<open>PROVIDER_RATE_LIMITED\<close>.
\<close>

lemma provider_errors_normalised:
  "\<forall>m \<in> {mapAnthropicSdkError, mapGoogleGenAiError, mapOpenAiSdkError}.
     provider_status_code (httpStatus (m e)) = Some (payloadCode (m e)) \<and>
     (isProviderRateLimitError (toHttpException (m e)) \<longleftrightarrow> payloadCode (m e) = PROVIDER_RATE_LIMITED)"
  by (simp add: anthropic_errors.mapped_in_table google_errors.mapped_in_table
      openai_errors.mapped_in_table anthropic_errors.mapped_rate_limit_iff
      google_errors.mapped_rate_limit_iff openai_errors.mapped_rate_limit_iff)



text \<open>
  The filter is faithful to the gateway's own exceptions: one raised with a status, a code,
  a message and details reaches the client with exactly these, and every envelope, whatever was
  thrown, carries a non-empty request identifier.
\<close>

lemma filter_faithful:
  "filter_catch (api_exception st c m ds) reqId =
     \<lparr>envStatusCode = st, envCode = code_string c, envMessage = m,
      envRequestId = filter_request_id reqId, envDetails = ds\<rparr>
   \<and> envRequestId (filter_catch e reqId) \<noteq> []"
  by (simp add: filter_catch_api filter_catch_request_id)

end
