(* ===== verification/Gateway_Types.thy ===== *)
theory Gateway_Types
  imports Prelude
begin

text \<open>
  The data the components exchange, as the sources declare it: the request DTOs
  (\<open>chat/dto\<close>), the provider contract (\<open>providers/interfaces/ai-provider.interface.ts\<close>), the
  configuration after schema validation (\<open>config/gateway-config.schema.ts\<close>), the cached reply
  and the SSE events. An optional property is an \<open>option\<close>; branded identifiers are their base
  type; JavaScript objects used as dictionaries are association lists read with \<open>map_of\<close>
  (own properties only, in insertion order).
\<close>

section \<open>Tools and messages\<close>

record gateway_tool_call =
  tc_id :: string
  tc_name :: string
  tc_arguments :: string

record gateway_tool_definition =
  td_name :: string
  td_description :: "string option"
  td_parameters :: json

datatype gateway_tool_choice = ToolAuto | ToolNone | ToolRequired | ToolFunction string

datatype role = RUser | RAssistant | RTool

record chat_message =
  msg_role :: role
  msg_content :: string
  msg_toolCallId :: "string option"
  msg_toolCalls :: "gateway_tool_call list option"

definition isChatUserMessage :: "chat_message \<Rightarrow> bool" where
  "isChatUserMessage m \<longleftrightarrow> msg_role m = RUser"

definition isChatAssistantMessage :: "chat_message \<Rightarrow> bool" where
  "isChatAssistantMessage m \<longleftrightarrow> msg_role m = RAssistant"

definition isChatToolMessage :: "chat_message \<Rightarrow> bool" where
  "isChatToolMessage m \<longleftrightarrow> msg_role m = RTool \<and> truthy_str (msg_toolCallId m) \<noteq> None"

section \<open>Generation parameters\<close>

datatype thinking_effort = EffNone | EffMinimal | EffLow | EffMedium | EffHigh | EffXHigh | EffMax

datatype thinking_budget = Effort thinking_effort | BudgetTokens rat

datatype stop_param = StopOne string | StopMany "string list"

datatype response_format_type = RfText | RfJsonObject | RfJsonSchema

record response_format =
  rf_type :: response_format_type
  rf_jsonSchemaName :: "string option"
  rf_jsonSchema :: "json option"

text \<open>\<open>ChatParamsDto\<close> and \<open>ProviderCallOptions\<close> have the same generation fields; the abort signal
  of the latter is not data and is left out.\<close>

record generation_params =
  temperature :: "rat option"
  maxOutputTokens :: "rat option"
  topP :: "rat option"
  stop :: "stop_param option"
  frequencyPenalty :: "rat option"
  presencePenalty :: "rat option"
  seed :: "rat option"
  responseFormat :: "response_format option"
  topK :: "rat option"
  thinkingEnabled :: "bool option"
  thinkingBudget :: "thinking_budget option"
  parallelToolCalls :: "bool option"

type_synonym chat_params = generation_params
type_synonym call_options = generation_params

definition no_params :: generation_params where
  "no_params = \<lparr>temperature = None, maxOutputTokens = None, topP = None, stop = None,
     frequencyPenalty = None, presencePenalty = None, seed = None, responseFormat = None,
     topK = None, thinkingEnabled = None, thinkingBudget = None, parallelToolCalls = None\<rparr>"

section \<open>The chat request\<close>

record chat_tooling =
  definitions :: "gateway_tool_definition list option"
  toolChoice :: "gateway_tool_choice option"

record chat_request =
  modelAlias :: string
  messages :: "chat_message list"
  params :: "chat_params option"
  conversationId :: "string option"
  tooling :: "chat_tooling option"
  metadata :: "(string \<times> json) list option"

datatype ingress_profile = NativeProfile | FacadeOpenAi | FacadeAnthropic

section \<open>The provider contract\<close>

datatype provider_type = PAnthropic | PGoogle | POpenAI | POpenAICompatible

definition isOpenAiProviderType :: "provider_type \<Rightarrow> bool" where
  "isOpenAiProviderType t \<longleftrightarrow> t = POpenAI \<or> t = POpenAICompatible"

fun provider_type_string :: "provider_type \<Rightarrow> string" where
  "provider_type_string PAnthropic = ''anthropic''"
| "provider_type_string PGoogle = ''google''"
| "provider_type_string POpenAI = ''openai''"
| "provider_type_string POpenAICompatible = ''openai-compatible''"

datatype openai_api_surface = SurfaceResponses | SurfaceChatCompletions

datatype stop_reason =
    SrEndTurn | SrToolUse | SrMaxTokens | SrStopSequence | SrPauseTurn | SrRefusal
  | SrToolCalls | SrStop | SrLength | SrContentFilter | SrInsufficientSystemResource

datatype finish_reason = FinStop | FinToolCalls | FinLength | FinContentFilter

record usage_details =
  promptCacheHitTokens :: "int option"
  promptCacheCreationTokens :: "int option"

record token_usage =
  inputTokens :: int
  outputTokens :: int

record provider_chat_response =
  pr_text :: string
  pr_toolCalls :: "gateway_tool_call list option"
  pr_stopReason :: "stop_reason option"
  pr_model :: "string option"
  pr_usage :: "token_usage option"
  pr_usageDetails :: "usage_details option"
  pr_systemFingerprint :: "string option"
  pr_thinkingContent :: "string option"

datatype provider_chat_turn =
    UserTurn string
  | AssistantTurn string "gateway_tool_call list option"
  | ToolTurn string string

record provider_chat_input =
  pi_system :: "string option"
  pi_messages :: "provider_chat_turn list"
  pi_tools :: "gateway_tool_definition list option"
  pi_toolChoice :: "gateway_tool_choice option"
  pi_metadata :: "(string \<times> json) list option"

section \<open>Configuration after validation\<close>

record provider_instance_config =
  pic_type :: provider_type
  pic_apiKeyRef :: string
  pic_enabled :: bool
  pic_baseUrlRef :: "string option"
  pic_apiSurface :: "openai_api_surface option"

record capabilities =
  cap_streaming :: "bool option"
  cap_tools :: "bool option"
  cap_thinking :: "bool option"

definition no_capabilities :: capabilities where
  "no_capabilities = \<lparr>cap_streaming = None, cap_tools = None, cap_thinking = None\<rparr>"

record param_defaults =
  def_temperature :: "rat option"
  def_maxOutputTokens :: "rat option"
  def_topP :: "rat option"
  def_frequencyPenalty :: "rat option"
  def_presencePenalty :: "rat option"
  def_seed :: "rat option"
  def_thinkingEnabled :: "bool option"

record param_bounds =
  bnd_temperature :: "(rat \<times> rat) option"
  bnd_maxOutputTokens :: "(rat \<times> rat) option"
  bnd_topP :: "(rat \<times> rat) option"
  bnd_frequencyPenalty :: "(rat \<times> rat) option"
  bnd_presencePenalty :: "(rat \<times> rat) option"

record params_config =
  defaults :: param_defaults
  allowOverrides :: "string list"
  bounds :: param_bounds

definition no_params_config :: params_config where
  "no_params_config =
     \<lparr>defaults = \<lparr>def_temperature = None, def_maxOutputTokens = None, def_topP = None,
        def_frequencyPenalty = None, def_presencePenalty = None, def_seed = None,
        def_thinkingEnabled = None\<rparr>,
      allowOverrides = [],
      bounds = \<lparr>bnd_temperature = None, bnd_maxOutputTokens = None, bnd_topP = None,
        bnd_frequencyPenalty = None, bnd_presencePenalty = None\<rparr>\<rparr>"

record retry_config =
  rc_maxAttempts :: "nat option"
  rc_onStatus :: "nat list option"

record policy_config =
  pol_timeoutMs :: "nat option"
  pol_retry :: "retry_config option"
  pol_params :: "params_config option"

record model_config =
  mc_providerInstance :: string
  mc_modelId :: string
  mc_fallback :: "string option"
  mc_capabilities :: "capabilities option"
  mc_policy :: "policy_config option"

record rate_limit_row =
  rl_rps :: nat
  rl_burst :: nat
  rl_maxConcurrentStreams :: nat

record client_config =
  cc_name :: string
  cc_type :: string
  cc_gatewayKeyRef :: string
  cc_rateLimit :: "rate_limit_row option"

record gateway_config =
  schemaVersion :: nat
  masterKeyRef :: string
  gw_providers :: "(string \<times> provider_instance_config) list"
  gw_clients :: "(string \<times> client_config) list"
  gw_models :: "(string \<times> model_config) list"

record resolved_system_prompts =
  rsp_master :: string
  rsp_main :: "string option"
  rsp_perModelByAlias :: "(string \<times> string) list"

record resolved_gateway_client =
  rgc_instanceId :: string
  rgc_name :: string
  rgc_type :: string
  rgc_gatewayKeyRef :: string
  rgc_gatewayKey :: string
  rgc_rateLimit :: "rate_limit_row option"

record gateway_key_runtime =
  allowList :: "string list"
  masterKey :: string
  gk_clients :: "resolved_gateway_client list"

section \<open>Responses, cached replies and SSE events\<close>

record chat_warning =
  warn_code :: string
  warn_message :: string
  warn_field :: "string option"

record response_usage =
  ru_inputTokens :: "int option"
  ru_outputTokens :: "int option"
  ru_totalTokens :: "int option"

record chat_response_data =
  cr_id :: string
  cr_provider :: string
  cr_model :: string
  cr_effectiveModelAlias :: "string option"
  cr_text :: string
  cr_usage :: "response_usage option"
  cr_requestId :: string
  cr_conversationId :: string
  cr_toolCalls :: "gateway_tool_call list option"
  cr_finishReason :: "finish_reason option"
  cr_usageDetails :: "usage_details option"
  cr_systemFingerprint :: "string option"
  cr_thinkingContent :: "string option"
  cr_warnings :: "chat_warning list option"

text \<open>The literal fields \<open>cached: true\<close> and \<open>output.type: 'text'\<close> carry no information.\<close>

record cached_chat_response =
  cc_id :: string
  cc_provider :: string
  cc_model :: string
  cc_text :: string
  cc_usage :: "token_usage option"
  cc_cachedAt :: string
  cc_finishReason :: finish_reason
  cc_warnings :: "chat_warning list option"
  cc_thinkingContent :: "string option"
  cc_effectiveModelAlias :: "string option"
  cc_usageDetails :: "usage_details option"
  cc_systemFingerprint :: "string option"

datatype cache_source = CacheExact | CacheSemantic

record sse_meta =
  sm_id :: string
  sm_provider :: string
  sm_model :: string
  sm_effectiveModelAlias :: "string option"
  sm_requestId :: string
  sm_conversationId :: string
  sm_cached :: "(string \<times> cache_source) option"

record sse_usage =
  su_inputTokens :: int
  su_outputTokens :: int
  su_totalTokens :: int

record sse_done =
  sd_usage :: "sse_usage option"
  sd_toolCalls :: "gateway_tool_call list option"
  sd_finishReason :: finish_reason
  sd_usageDetails :: "usage_details option"
  sd_effectiveModelAlias :: "string option"
  sd_systemFingerprint :: "string option"
  sd_thinkingContent :: "string option"
  sd_warnings :: "chat_warning list option"

datatype sse_event = SseMeta sse_meta | SseDelta string | SseDone sse_done

text \<open>The text a client reads from a list of events.\<close>

definition delta_text :: "sse_event list \<Rightarrow> string" where
  "delta_text es = concat (map (\<lambda>e. case e of SseDelta t \<Rightarrow> t | _ \<Rightarrow> []) es)"

lemma delta_text_simps [simp]:
  "delta_text [] = []"
  "delta_text (SseMeta m # es) = delta_text es"
  "delta_text (SseDelta t # es) = t @ delta_text es"
  "delta_text (SseDone d # es) = delta_text es"
  "delta_text (es @ fs) = delta_text es @ delta_text fs"
  by (simp_all add: delta_text_def)

lemma delta_text_map_delta [simp]: "delta_text (map SseDelta ts) = concat ts"
  by (induction ts) simp_all

section \<open>Cache identity\<close>

record cache_identity_message =
  cim_role :: role
  cim_content :: string
  cim_toolCallId :: "string option"
  cim_toolCalls :: "gateway_tool_call list option"

record chat_cache_identity =
  ci_modelAlias :: string
  ci_clientId :: string
  ci_messages :: "cache_identity_message list"
  ci_callParams :: "call_options option"

section \<open>Metric events\<close>

text \<open>The calls the components make on the metrics service
  (\<open>observability/app-metrics/app-metrics.service.ts\<close>), one constructor per recording method used.\<close>

datatype rate_limit_reason = ReasonRate | ReasonConcurrency

datatype semantic_lookup_outcome = LookupHit | LookupHashHit | LookupBelowThreshold | LookupError | LookupSkip

datatype metric_event =
    MRateLimit string rate_limit_reason
  | MCacheAccess string bool
  | MSemanticLookup string semantic_lookup_outcome
  | MPipelineAccess string bool
  | MActiveStreams string nat
  | MProviderCall string string string bool

end
