(* ===== verification/Request_Policy.thy ===== *)
theory Request_Policy
  imports Errors Gateway_Types
begin

text \<open>
  What happens to a chat request before a provider sees it: the ingress limits
  (\<open>chat/validation\<close>), the resolution of generation parameters against the model's policy
  (\<open>resolve-provider-call-options.ts\<close>), system prompt and conversation turns
  (\<open>system-prompt.ts\<close>, \<open>provider-input.ts\<close>), conversation identifiers, and the two small
  normalisations of the answer: finish reason and warnings.
\<close>

section \<open>Ingress limits (chat-ingress.validator.ts)\<close>

record ingress_limits =
  maxMessages :: nat
  maxContentUser :: nat
  maxContentAssistant :: nat
  maxContentTool :: nat

fun INGRESS_LIMITS :: "ingress_profile \<Rightarrow> ingress_limits" where
  "INGRESS_LIMITS NativeProfile =
     \<lparr>maxMessages = 150, maxContentUser = 3000, maxContentAssistant = 3000, maxContentTool = 32000\<rparr>"
| "INGRESS_LIMITS FacadeOpenAi =
     \<lparr>maxMessages = 15000, maxContentUser = 128000, maxContentAssistant = 128000, maxContentTool = 128000\<rparr>"
| "INGRESS_LIMITS FacadeAnthropic =
     \<lparr>maxMessages = 15000, maxContentUser = 128000, maxContentAssistant = 128000, maxContentTool = 128000\<rparr>"

fun profile_string :: "ingress_profile \<Rightarrow> string" where
  "profile_string NativeProfile = ''native''"
| "profile_string FacadeOpenAi = ''facade-openai''"
| "profile_string FacadeAnthropic = ''facade-anthropic''"

fun role_string :: "role \<Rightarrow> string" where
  "role_string RUser = ''user''"
| "role_string RAssistant = ''assistant''"
| "role_string RTool = ''tool''"

definition max_length_for :: "ingress_limits \<Rightarrow> role \<Rightarrow> nat" where
  "max_length_for l r = (case r of RTool \<Rightarrow> maxContentTool l | RUser \<Rightarrow> maxContentUser l
     | RAssistant \<Rightarrow> maxContentAssistant l)"

definition field_issue :: "string \<Rightarrow> string \<Rightarrow> json" where
  "field_issue f i = JObj [(''field'', JStr f), (''issue'', JStr i)]"

fun check_contents :: "ingress_profile \<Rightarrow> nat \<Rightarrow> chat_message list \<Rightarrow> unit result" where
  "check_contents p i [] = Inr ()"
| "check_contents p i (m # ms) =
     (let maxLength = max_length_for (INGRESS_LIMITS p) (msg_role m) in
      if msg_content m \<noteq> [] \<and> length (msg_content m) > maxLength
      then Inl (api_exception 400 VALIDATION_FAILED
             (''Message content too long for '' @ profile_string p @ '' and role '' @
                role_string (msg_role m) @ ''.'')
             [field_issue (''messages['' @ show_nat i @ ''].content'')
                (''Content length '' @ show_nat (length (msg_content m)) @ '' exceeds maximum '' @
                 show_nat maxLength)])
      else check_contents p (Suc i) ms)"

definition validateChatIngress :: "chat_request \<Rightarrow> ingress_profile \<Rightarrow> unit result" where
  "validateChatIngress dto p =
     (let limits = INGRESS_LIMITS p; n = length (messages dto) in
      if n > maxMessages limits
      then Inl (api_exception 400 VALIDATION_FAILED
             (''Too many messages for '' @ profile_string p @ ''. Maximum allowed: '' @
                show_nat (maxMessages limits))
             [field_issue ''messages''
                (''Array length '' @ show_nat n @ '' exceeds maximum '' @ show_nat (maxMessages limits))])
      else check_contents p 0 (messages dto))"

definition within_limits :: "ingress_profile \<Rightarrow> chat_message \<Rightarrow> bool" where
  "within_limits p m \<longleftrightarrow> length (msg_content m) \<le> max_length_for (INGRESS_LIMITS p) (msg_role m)"

lemma check_contents_ok_iff:
  "check_contents p i ms = Inr () \<longleftrightarrow> (\<forall>m \<in> set ms. within_limits p m)"
  by (induction p i ms rule: check_contents.induct) (auto simp: within_limits_def Let_def)

lemma check_contents_error:
  "check_contents p i ms = Inl e \<Longrightarrow> http_status e = Some 400 \<and> http_code e = Some ''VALIDATION_FAILED''"
  by (induction p i ms rule: check_contents.induct) (auto simp: Let_def split: if_splits)

section \<open>Tooling requests (tooling-request.ts)\<close>

definition isToolingRequest :: "chat_request \<Rightarrow> bool" where
  "isToolingRequest r \<longleftrightarrow>
     (case tooling r of Some t \<Rightarrow> nullish (definitions t) [] \<noteq> [] | None \<Rightarrow> False) \<or>
     (\<exists>m \<in> set (messages r). msg_role m = RTool \<or> nullish (msg_toolCalls m) [] \<noteq> [])"

section \<open>Generation parameters (resolve-provider-call-options.ts)\<close>

definition OVERRIDE_KEYS :: "string list" where
  "OVERRIDE_KEYS = [''temperature'', ''maxOutputTokens'', ''topP'', ''stop'', ''frequencyPenalty'',
     ''presencePenalty'', ''seed'', ''topK'', ''responseFormat'', ''thinkingEnabled'', ''thinkingBudget'']"

definition isOverrideKey :: "string \<Rightarrow> bool" where
  "isOverrideKey k \<longleftrightarrow> k \<in> set OVERRIDE_KEYS"

text \<open>The keys of the request's \<open>params\<close> with a value, in the order the class declares them.\<close>

definition opt_key :: "'a option \<Rightarrow> string \<Rightarrow> string list" where
  "opt_key v k = (case v of None \<Rightarrow> [] | Some _ \<Rightarrow> [k])"

lemma in_opt_key [simp]: "x \<in> set (opt_key v k) \<longleftrightarrow> v \<noteq> None \<and> x = k"
  by (auto simp: opt_key_def split: option.splits)

definition param_keys :: "chat_params \<Rightarrow> string list" where
  "param_keys b = concat [
     opt_key (temperature b) ''temperature'',
     opt_key (maxOutputTokens b) ''maxOutputTokens'',
     opt_key (topP b) ''topP'',
     opt_key (stop b) ''stop'',
     opt_key (frequencyPenalty b) ''frequencyPenalty'',
     opt_key (presencePenalty b) ''presencePenalty'',
     opt_key (seed b) ''seed'',
     opt_key (responseFormat b) ''responseFormat'',
     opt_key (topK b) ''topK'',
     opt_key (thinkingEnabled b) ''thinkingEnabled'',
     opt_key (thinkingBudget b) ''thinkingBudget'',
     opt_key (parallelToolCalls b) ''parallelToolCalls'']"

definition clamp :: "rat \<Rightarrow> rat \<Rightarrow> rat \<Rightarrow> rat" where
  "clamp v lo hi = min hi (max lo v)"

lemma clamp_bounds: "lo \<le> hi \<Longrightarrow> lo \<le> clamp v lo hi \<and> clamp v lo hi \<le> hi"
  by (simp add: clamp_def)

lemma clamp_id: "lo \<le> v \<Longrightarrow> v \<le> hi \<Longrightarrow> clamp v lo hi = v"
  by (simp add: clamp_def)

definition clamp_opt :: "rat option \<Rightarrow> (rat \<times> rat) option \<Rightarrow> rat option" where
  "clamp_opt v b = (case (v, b) of (Some x, Some (lo, hi)) \<Rightarrow> Some (clamp x lo hi) | _ \<Rightarrow> v)"

definition override :: "'a option \<Rightarrow> 'a option \<Rightarrow> 'a option" where
  "override body dflt = (case body of Some v \<Rightarrow> Some v | None \<Rightarrow> dflt)"

lemma override_simps [simp]: "override None d = d" "override (Some v) d = Some v"
  by (simp_all add: override_def)

definition not_allowed :: "string \<Rightarrow> string \<Rightarrow> string list \<Rightarrow> jserr" where
  "not_allowed k suffix allow = api_exception 400 MODEL_NOT_ALLOWED
     (''Parameter '' @ k @ '' is not allowed for this model alias'' @ suffix)
     [JObj [(''field'', JStr (''params.'' @ k)), (''allowOverrides'', JArr (map JStr allow))]]"

fun check_override_keys :: "string list \<Rightarrow> string list \<Rightarrow> unit result" where
  "check_override_keys allow [] = Inr ()"
| "check_override_keys allow (k # ks) =
     (if \<not> isOverrideKey k then check_override_keys allow ks
      else if k \<notin> set allow then Inl (not_allowed k [] allow)
      else check_override_keys allow ks)"

definition check_thinking_tokens :: "bool option \<Rightarrow> thinking_budget option \<Rightarrow> rat option \<Rightarrow> unit result" where
  "check_thinking_tokens enabled budget maxTok =
     (case budget of
        Some (BudgetTokens b) \<Rightarrow>
          (if enabled = Some True then
             (let effectiveMaxTokens = nullish maxTok 1024; minRequired = b + 512 in
              if effectiveMaxTokens < minRequired
              then Inl (api_exception 400 VALIDATION_FAILED
                   (''maxOutputTokens ('' @ show_rat effectiveMaxTokens @
                    '') is insufficient for thinking mode with budget '' @ show_rat b @
                    ''. Minimum required: '' @ show_rat minRequired @
                    '' tokens (thinking budget + 512 token buffer for response text).'')
                   [JObj [(''field'', JStr ''params.maxOutputTokens''),
                     (''currentValue'', JNum effectiveMaxTokens), (''thinkingBudget'', JNum b),
                     (''minimumRequired'', JNum minRequired),
                     (''hint'', JStr (''Increase maxOutputTokens in request/config, reduce thinkingBudget, or '' @
                        ''use string effort level (e.g. \"medium\") for adaptive thinking without fixed budget.''))]])
              else Inr ())
           else Inr ())
      | _ \<Rightarrow> Inr ())"

definition resolveProviderCallOptions ::
  "params_config option \<Rightarrow> chat_params option \<Rightarrow> call_options result" where
  "resolveProviderCallOptions policyParams bodyParams =
     (let pc = nullish policyParams no_params_config;
          dflt = defaults pc; allow = allowOverrides pc; bnd = bounds pc;
          body = nullish bodyParams no_params;
          temp = clamp_opt (override (temperature body) (def_temperature dflt)) (bnd_temperature bnd);
          maxTok = clamp_opt (override (maxOutputTokens body) (def_maxOutputTokens dflt)) (bnd_maxOutputTokens bnd);
          tp = clamp_opt (override (topP body) (def_topP dflt)) (bnd_topP bnd);
          fp = clamp_opt (override (frequencyPenalty body) (def_frequencyPenalty dflt)) (bnd_frequencyPenalty bnd);
          pp = clamp_opt (override (presencePenalty body) (def_presencePenalty dflt)) (bnd_presencePenalty bnd);
          thinkOn = override (thinkingEnabled body) (def_thinkingEnabled dflt)
      in
      res_bind (case bodyParams of Some b \<Rightarrow> check_override_keys allow (param_keys b) | None \<Rightarrow> Inr ()) (\<lambda>_.
      res_bind (if thinkingEnabled body \<noteq> None \<and> ''thinkingEnabled'' \<notin> set allow
                then Inl (not_allowed ''thinkingEnabled'' [] allow) else Inr ()) (\<lambda>_.
      res_bind (if thinkingBudget body \<noteq> None \<and> ''thinkingBudget'' \<notin> set allow
                then Inl (not_allowed ''thinkingBudget'' ''.'' allow) else Inr ()) (\<lambda>_.
      res_bind (check_thinking_tokens thinkOn (thinkingBudget body) maxTok) (\<lambda>_.
      Inr \<lparr>temperature = temp, maxOutputTokens = maxTok, topP = tp, stop = stop body,
           frequencyPenalty = fp, presencePenalty = pp,
           seed = override (seed body) (def_seed dflt), responseFormat = responseFormat body,
           topK = topK body, thinkingEnabled = thinkOn, thinkingBudget = thinkingBudget body,
           parallelToolCalls = parallelToolCalls body\<rparr>)))))"

lemma check_override_keys_ok:
  "check_override_keys allow ks = Inr () \<longleftrightarrow> (\<forall>k \<in> set ks. isOverrideKey k \<longrightarrow> k \<in> set allow)"
  by (induction allow ks rule: check_override_keys.induct) auto

lemma check_override_keys_error:
  "check_override_keys allow ks = Inl e \<Longrightarrow>
   \<exists>k \<in> set ks. isOverrideKey k \<and> k \<notin> set allow \<and> e = not_allowed k [] allow"
  by (induction allow ks rule: check_override_keys.induct) (auto split: if_splits)

lemma set_param_keys_simps [simp]:
  "''temperature'' \<in> set (param_keys b) \<longleftrightarrow> temperature b \<noteq> None"
  "''maxOutputTokens'' \<in> set (param_keys b) \<longleftrightarrow> maxOutputTokens b \<noteq> None"
  "''topP'' \<in> set (param_keys b) \<longleftrightarrow> topP b \<noteq> None"
  "''stop'' \<in> set (param_keys b) \<longleftrightarrow> stop b \<noteq> None"
  "''frequencyPenalty'' \<in> set (param_keys b) \<longleftrightarrow> frequencyPenalty b \<noteq> None"
  "''presencePenalty'' \<in> set (param_keys b) \<longleftrightarrow> presencePenalty b \<noteq> None"
  "''seed'' \<in> set (param_keys b) \<longleftrightarrow> seed b \<noteq> None"
  "''responseFormat'' \<in> set (param_keys b) \<longleftrightarrow> responseFormat b \<noteq> None"
  "''topK'' \<in> set (param_keys b) \<longleftrightarrow> topK b \<noteq> None"
  "''thinkingEnabled'' \<in> set (param_keys b) \<longleftrightarrow> thinkingEnabled b \<noteq> None"
  "''thinkingBudget'' \<in> set (param_keys b) \<longleftrightarrow> thinkingBudget b \<noteq> None"
  by (simp_all add: param_keys_def)

lemma clamp_opt_bounds:
  "clamp_opt v (Some (lo, hi)) = Some x \<Longrightarrow> lo \<le> hi \<Longrightarrow> lo \<le> x \<and> x \<le> hi"
  by (auto simp: clamp_opt_def clamp_bounds split: option.splits)

lemma check_thinking_tokens_error:
  "check_thinking_tokens en b mx = Inl e \<Longrightarrow> http_status e = Some 400"
  by (auto simp: check_thinking_tokens_def Let_def split: option.splits thinking_budget.splits if_splits)

lemma resolveProviderCallOptions_error_status:
  "resolveProviderCallOptions pc b = Inl e \<Longrightarrow> http_status e = Some 400"
  unfolding resolveProviderCallOptions_def Let_def
  by (auto simp: res_bind_eq_Inl not_allowed_def split: option.splits if_splits
      dest!: check_override_keys_error check_thinking_tokens_error)

section \<open>Thinking flags of the OpenAI surface (openai-thinking-provider.mapper.ts)\<close>

definition numericBudget :: "thinking_budget option \<Rightarrow> bool" where
  "numericBudget b = (case b of Some (BudgetTokens _) \<Rightarrow> True | _ \<Rightarrow> False)"

definition openAiNumericThinkingBudgetWithoutEnable :: "call_options \<Rightarrow> bool" where
  "openAiNumericThinkingBudgetWithoutEnable opts \<longleftrightarrow>
     thinkingEnabled opts \<noteq> Some True \<and> numericBudget (thinkingBudget opts)"

definition isOpenAiReasoningRequested :: "call_options \<Rightarrow> bool" where
  "isOpenAiReasoningRequested opts =
     (if thinkingEnabled opts = Some False then False
      else if thinkingEnabled opts = Some True then True
      else case thinkingBudget opts of None \<Rightarrow> False | Some (Effort _) \<Rightarrow> True | Some (BudgetTokens _) \<Rightarrow> False)"

definition openAiNumericThinkingBudgetIgnored :: "call_options \<Rightarrow> bool" where
  "openAiNumericThinkingBudgetIgnored opts \<longleftrightarrow>
     thinkingEnabled opts = Some True \<and> numericBudget (thinkingBudget opts)"

definition mapThinkingBudgetToEffort :: "thinking_budget option \<Rightarrow> thinking_effort option" where
  "mapThinkingBudgetToEffort b = (case b of None \<Rightarrow> None | Some (BudgetTokens _) \<Rightarrow> None
     | Some (Effort EffMax) \<Rightarrow> Some EffXHigh | Some (Effort f) \<Rightarrow> Some f)"

definition mapThinkingToResponsesReasoning :: "call_options \<Rightarrow> thinking_effort option" where
  "mapThinkingToResponsesReasoning opts =
     (if \<not> isOpenAiReasoningRequested opts then None
      else Some (nullish (mapThinkingBudgetToEffort (thinkingBudget opts)) EffMedium))"

section \<open>Finish reason (map-provider-finish-reason.ts)\<close>

definition mapStopReasonToFinishReason ::
  "stop_reason option \<Rightarrow> gateway_tool_call list option \<Rightarrow> finish_reason" where
  "mapStopReasonToFinishReason sr tcs =
     (if sr = Some SrMaxTokens \<or> sr = Some SrLength then FinLength
      else if nullish tcs [] \<noteq> [] then FinToolCalls
      else case sr of
             Some SrToolUse \<Rightarrow> FinToolCalls
           | Some SrToolCalls \<Rightarrow> FinToolCalls
           | Some SrContentFilter \<Rightarrow> FinContentFilter
           | Some SrRefusal \<Rightarrow> FinContentFilter
           | _ \<Rightarrow> FinStop)"

section \<open>Warnings (generation-warnings.ts)\<close>

definition ignored_warning :: "string \<Rightarrow> string \<Rightarrow> chat_warning" where
  "ignored_warning msg field =
     \<lparr>warn_code = ''PARAM_IGNORED_BY_PROVIDER'', warn_message = msg, warn_field = Some field\<rparr>"

definition unsupported_by_provider :: "string \<Rightarrow> provider_type \<Rightarrow> string" where
  "unsupported_by_provider p t =
     ''Parameter '' @ p @ '' is not supported by provider '' @ provider_type_string t @ '' and was ignored.''"

definition unsupported_by_responses :: "string \<Rightarrow> string" where
  "unsupported_by_responses p =
     ''Parameter '' @ p @ '' is not supported by OpenAI Responses API and was ignored.''"

definition buildGenerationWarnings :: "call_options \<Rightarrow> provider_type \<Rightarrow> chat_warning list" where
  "buildGenerationWarnings opts t =
     (if frequencyPenalty opts \<noteq> None \<and> (t = PAnthropic \<or> t = PGoogle)
      then [ignored_warning (unsupported_by_provider ''frequencyPenalty'' t) ''params.frequencyPenalty''] else []) @
     (if presencePenalty opts \<noteq> None \<and> (t = PAnthropic \<or> t = PGoogle)
      then [ignored_warning (unsupported_by_provider ''presencePenalty'' t) ''params.presencePenalty''] else []) @
     (if seed opts \<noteq> None \<and> t = PAnthropic
      then [ignored_warning (unsupported_by_provider ''seed'' t) ''params.seed''] else []) @
     (if topK opts \<noteq> None \<and> t = POpenAI
      then [ignored_warning (unsupported_by_responses ''topK'') ''params.topK''] else []) @
     (if topK opts \<noteq> None \<and> t = POpenAICompatible
      then [ignored_warning (unsupported_by_provider ''topK'' t) ''params.topK''] else []) @
     (if openAiNumericThinkingBudgetIgnored opts \<and> (t = POpenAI \<or> t = POpenAICompatible)
      then [ignored_warning (''Numeric thinkingBudget is not mapped to OpenAI reasoning API; effort level '' @
              ''\"medium\" is used instead. Use string effort (low/medium/high) or reasoning_effort via OpenAI facade.'')
              ''params.thinkingBudget''] else []) @
     (if openAiNumericThinkingBudgetWithoutEnable opts \<and> t = POpenAI
      then [ignored_warning (''Numeric thinkingBudget is ignored without thinkingEnabled: true. '' @
              ''Enable thinking or use string effort (low/medium/high).'') ''params.thinkingBudget''] else []) @
     (if t = POpenAICompatible \<and> isOpenAiReasoningRequested opts
      then [ignored_warning (''Extended thinking / reasoning parameters are not supported by '' @
              ''openai-compatible providers and were ignored'') ''params.thinkingEnabled''] else []) @
     (if t = POpenAI then
        (if frequencyPenalty opts \<noteq> None
         then [ignored_warning (unsupported_by_responses ''frequencyPenalty'') ''params.frequencyPenalty''] else []) @
        (if presencePenalty opts \<noteq> None
         then [ignored_warning (unsupported_by_responses ''presencePenalty'') ''params.presencePenalty''] else []) @
        (if seed opts \<noteq> None
         then [ignored_warning (unsupported_by_responses ''seed'') ''params.seed''] else []) @
        (if stop opts \<noteq> None
         then [ignored_warning (unsupported_by_responses ''stop'') ''params.stop''] else [])
      else [])"

section \<open>System prompt and turns (system-prompt.ts, provider-input.ts)\<close>

definition getResolvedSystemPrompts :: "resolved_system_prompts option \<Rightarrow> resolved_system_prompts result" where
  "getResolvedSystemPrompts cfg = (case cfg of
     None \<Rightarrow> Inl (plain_error ''[Chat] resolvedSystemPrompts fot found in config'') | Some p \<Rightarrow> Inr p)"

definition composeSystemPrompt :: "resolved_system_prompts \<Rightarrow> string \<Rightarrow> string" where
  "composeSystemPrompt r alias =
     js_join [CHR 0x0A, CHR 0x0A]
       ([js_trim (rsp_master r)] @
        (case truthy_str (rsp_main r) of Some m \<Rightarrow> [js_trim m] | None \<Rightarrow> []) @
        (case truthy_str (map_of (rsp_perModelByAlias r) alias) of Some m \<Rightarrow> [js_trim m] | None \<Rightarrow> []))"

fun toProviderTurns :: "chat_message list \<Rightarrow> provider_chat_turn list result" where
  "toProviderTurns [] = Inr []"
| "toProviderTurns (m # ms) =
     (if isChatUserMessage m then
        res_bind (toProviderTurns ms) (\<lambda>ts. Inr (UserTurn (msg_content m) # ts))
      else if isChatAssistantMessage m then
        res_bind (toProviderTurns ms)
          (\<lambda>ts. Inr (AssistantTurn (msg_content m) (truthy_list (msg_toolCalls m)) # ts))
      else if isChatToolMessage m then
        res_bind (toProviderTurns ms) (\<lambda>ts. Inr (ToolTurn (nullish (msg_toolCallId m) []) (msg_content m) # ts))
      else Inl (api_exception 400 VALIDATION_FAILED ''Tool messages must include toolCallId''
                  [JObj [(''field'', JStr ''messages[].toolCallId'')]]))"

definition buildProviderInputForAlias ::
  "chat_request \<Rightarrow> string \<Rightarrow> resolved_system_prompts \<Rightarrow> provider_chat_input result" where
  "buildProviderInputForAlias r alias prompts =
     res_bind (toProviderTurns (messages r)) (\<lambda>turns.
       Inr \<lparr>pi_system = Some (composeSystemPrompt prompts alias),
            pi_messages = turns,
            pi_tools = (case tooling r of Some t \<Rightarrow> truthy_list (definitions t) | None \<Rightarrow> None),
            pi_toolChoice = (case tooling r of
                Some t \<Rightarrow> (if truthy_list (definitions t) = None then None else toolChoice t)
              | None \<Rightarrow> None),
            pi_metadata = metadata r\<rparr>)"

lemma toProviderTurns_length: "toProviderTurns ms = Inr ts \<Longrightarrow> length ts = length ms"
  by (induction ms arbitrary: ts) (auto split: if_splits)

lemma toProviderTurns_ok_iff:
  "(\<exists>ts. toProviderTurns ms = Inr ts) \<longleftrightarrow> (\<forall>m \<in> set ms. msg_role m = RTool \<longrightarrow> isChatToolMessage m)"
proof (induction ms)
  case (Cons m ms)
  then show ?case
    by (cases "msg_role m")
      (auto simp: isChatUserMessage_def isChatAssistantMessage_def isChatToolMessage_def)
qed simp

section \<open>Conversation identifiers (conversation-id.ts, branded.guards.ts)\<close>

definition lower_hex :: "char \<Rightarrow> bool" where
  "lower_hex c \<longleftrightarrow> js_lower_char c \<in> set ''0123456789abcdef''"

definition lower_lit :: "char \<Rightarrow> char \<Rightarrow> bool" where
  "lower_lit l c \<longleftrightarrow> js_lower_char c = l"

definition uuid_shape :: "(char \<Rightarrow> bool) list" where
  "uuid_shape = replicate 8 lower_hex @ [(=) CHR ''-''] @ replicate 4 lower_hex @ [(=) CHR ''-''] @
     [\<lambda>c. c \<in> set ''12345''] @ replicate 3 lower_hex @ [(=) CHR ''-''] @
     [\<lambda>c. js_lower_char c \<in> set ''89ab''] @ replicate 3 lower_hex @ [(=) CHR ''-''] @ replicate 12 lower_hex"

definition matches_shape :: "(char \<Rightarrow> bool) list \<Rightarrow> string \<Rightarrow> bool" where
  "matches_shape sh s \<longleftrightarrow> length s = length sh \<and> list_all2 (\<lambda>p c. p c) sh s"

definition isConversationId :: "string \<Rightarrow> bool" where
  "isConversationId s \<longleftrightarrow> matches_shape (map lower_lit ''conv_'' @ uuid_shape) s"

definition createConversationId :: "string \<Rightarrow> string result" where
  "createConversationId s =
     (if \<not> isConversationId s then Inl (plain_error (''Invalid ConversationId format: '' @ s)) else Inr s)"

definition getClientConversationId :: "chat_request \<Rightarrow> string option result" where
  "getClientConversationId r =
     (case truthy_str (map_option js_trim (conversationId r)) of
        None \<Rightarrow> Inr None
      | Some i \<Rightarrow> res_bind (createConversationId i) (\<lambda>c. Inr (Some c)))"

definition getOrCreateConversationIdForResponse ::
  "('w \<Rightarrow> string \<times> 'w) \<Rightarrow> chat_request \<Rightarrow> ('w, string) io" where
  "getOrCreateConversationIdForResponse uuidv4 r =
     io_bind (io_lift (getClientConversationId r)) (\<lambda>c.
       case c of
         Some i \<Rightarrow> io_return i
       | None \<Rightarrow> (\<lambda>w. case uuidv4 w of (u, w') \<Rightarrow> (createConversationId (''conv_'' @ u), w')))"

lemma getOrCreateConversationId_valid:
  "getOrCreateConversationIdForResponse uuidv4 r w = (Inr i, w') \<Longrightarrow> isConversationId i"
  by (auto simp: getOrCreateConversationIdForResponse_def getClientConversationId_def
      createConversationId_def io_bind_Inr split: option.splits prod.splits if_splits)

section \<open>Properties\<close>

text \<open>
  Ingress validation is exact for every profile: a request passes iff it has at most the
  profile's number of messages and every message is within the length limit of its role, and a
  request that does not pass is rejected with 400 \<open>VALIDATION_FAILED\<close>.
\<close>

lemma ingress_exact:
  "(validateChatIngress dto p = Inr () \<longleftrightarrow>
      length (messages dto) \<le> maxMessages (INGRESS_LIMITS p) \<and>
      list_all (within_limits p) (messages dto)) \<and>
   (\<forall>e. validateChatIngress dto p = Inl e \<longrightarrow>
      http_status e = Some 400 \<and> http_code e = Some ''VALIDATION_FAILED'')"
  using check_contents_error [of p 0 "messages dto"]
  by (auto simp: validateChatIngress_def Let_def check_contents_ok_iff list_all_iff not_less)

definition sample_message :: "role \<Rightarrow> string \<Rightarrow> chat_message" where
  "sample_message r t = \<lparr>msg_role = r, msg_content = t, msg_toolCallId = None, msg_toolCalls = None\<rparr>"

definition sample_request :: "string \<Rightarrow> chat_message list \<Rightarrow> chat_request" where
  "sample_request a ms = \<lparr>modelAlias = a, messages = ms, params = None, conversationId = None,
     tooling = None, metadata = None\<rparr>"

text \<open>A resolved value respects a configured bound, when the bound is not empty.\<close>

definition obeys_bound :: "(rat \<times> rat) option \<Rightarrow> rat option \<Rightarrow> bool" where
  "obeys_bound b v = (case (b, v) of
     (Some (lo, hi), Some x) \<Rightarrow> (lo \<le> hi \<longrightarrow> lo \<le> x \<and> x \<le> hi) | _ \<Rightarrow> True)"

lemma obeys_bound_clamp: "obeys_bound b (clamp_opt v b)"
  by (auto simp: obeys_bound_def clamp_opt_def clamp_bounds split: option.splits)

lemma check_thinking_tokens_ok:
  "check_thinking_tokens (Some True) (Some (BudgetTokens n)) mx = Inr () \<Longrightarrow> n + 512 \<le> nullish mx 1024"
  by (auto simp: check_thinking_tokens_def Let_def split: if_splits)


definition sample_params_config :: params_config where
  "sample_params_config = no_params_config\<lparr>allowOverrides := [''temperature''],
     bounds := (bounds no_params_config)\<lparr>bnd_temperature := Some (0, 1)\<rparr>\<rparr>"


text \<open>
  The parameter \<open>parallelToolCalls\<close> is exempt from the policy: whatever the alias allows,
  even with no override allowed at all, a request that sets only it is accepted and the value is
  forwarded unchanged (the key is not one of the \<open>OVERRIDE_KEYS\<close>).
\<close>

lemma parallel_tool_calls_bypass_policy:
  "resolveProviderCallOptions (Some no_params_config) (Some (no_params\<lparr>parallelToolCalls := Some v\<rparr>))
     = Inr (no_params\<lparr>parallelToolCalls := Some v\<rparr>)"
  by (simp add: resolveProviderCallOptions_def no_params_def no_params_config_def clamp_opt_def
      param_keys_def opt_key_def isOverrideKey_def OVERRIDE_KEYS_def check_thinking_tokens_def)

fun turn_text :: "provider_chat_turn \<Rightarrow> string" where
  "turn_text (UserTurn t) = t"
| "turn_text (AssistantTurn t tcs) = t"
| "turn_text (ToolTurn i t) = t"

lemma toProviderTurns_text: "toProviderTurns ms = Inr ts \<Longrightarrow> map turn_text ts = map msg_content ms"
  by (induction ms arbitrary: ts) (auto split: if_splits)

text \<open>
  The conversation reaches the provider unchanged: the conversion to provider turns succeeds
  iff every tool message names its tool call, and then it keeps the number, the order and the
  text of the messages.
\<close>

lemma conversation_preserved:
  "((\<exists>inp. buildProviderInputForAlias r alias prompts = Inr inp) \<longleftrightarrow>
      list_all (\<lambda>m. msg_role m = RTool \<longrightarrow> isChatToolMessage m) (messages r)) \<and>
   (\<forall>inp. buildProviderInputForAlias r alias prompts = Inr inp \<longrightarrow>
      map turn_text (pi_messages inp) = map msg_content (messages r))"
  using toProviderTurns_ok_iff [of "messages r"]
  by (auto simp: buildProviderInputForAlias_def list_all_iff toProviderTurns_text)

end
