(* ===== verification/Config.thy ===== *)
theory Config
  imports Gateway_Types
begin

text \<open>
  The configuration the process starts with: the cross-field rules of the YAML schema
  (\<open>gateway-config.schema.ts\<close>), the presence checks on the secrets of the environment
  (\<open>configuration-validation.service.ts\<close> and the files it composes), the effective
  configuration (\<open>buildEffectiveGatewayConfig\<close> drops disabled providers and their models) and the
  accepted gateway keys (\<open>buildGatewayKeyRuntime\<close>). The environment is a function from names to
  values; the URL parser of the runtime is the parameter \<open>urlProtocol\<close>, which gives the protocol of
  a well-formed URL.
\<close>

section \<open>Cross-field schema rules (gateway-config.schema.ts)\<close>

text \<open>Each rule yields the list of issue messages it adds, in order.\<close>

fun provider_row_issues ::
  "(string \<times> string) list \<Rightarrow> (string \<times> provider_instance_config) list \<Rightarrow> string list" where
  "provider_row_issues refs [] = []"
| "provider_row_issues refs ((i, row) # ps) =
     (case truthy_str (map_of refs (pic_apiKeyRef row)) of
        Some _ \<Rightarrow> [''Duplicate API key reference '' @ pic_apiKeyRef row] | None \<Rightarrow> []) @
     (if isOpenAiProviderType (pic_type row) \<and> truthy_str (map_option js_trim (pic_baseUrlRef row)) = None
      then [''baseUrlRef is required for provider type '' @ provider_type_string (pic_type row)] else []) @
     (if pic_type row = POpenAI \<and> pic_apiSurface row \<noteq> None
      then [''apiSurface is not supported for type \"openai\" (always uses Responses API). Remove apiSurface from provider \"''
            @ i @ ''\".''] else []) @
     (if pic_type row = POpenAICompatible \<and> pic_apiSurface row \<noteq> None \<and>
         pic_apiSurface row \<noteq> Some SurfaceChatCompletions
      then [''apiSurface for openai-compatible must be \"chat-completions\" or omitted.''] else []) @
     provider_row_issues ((pic_apiKeyRef row, i) # refs) ps"

definition fallback_issues :: "gateway_config \<Rightarrow> string \<times> model_config \<Rightarrow> string list" where
  "fallback_issues cfg = (\<lambda>(alias, m).
     case truthy_str (mc_fallback m) of
       None \<Rightarrow> []
     | Some f \<Rightarrow>
         (if f = alias then [''Model alias '' @ alias @ '' cannot have itself as fallback.'']
          else case map_of (gw_models cfg) f of
                 None \<Rightarrow> [''Model alias '' @ alias @ '' references non-existent fallback '' @ f]
               | Some m' \<Rightarrow>
                   (if mc_fallback m' = Some alias
                    then [''Circular fallback detected: '' @ alias @ '' => '' @ f @ '' => '' @ alias]
                    else [])))"

definition unknown_provider_issues :: "gateway_config \<Rightarrow> string \<times> model_config \<Rightarrow> string list" where
  "unknown_provider_issues cfg = (\<lambda>(alias, m).
     if map_of (gw_providers cfg) (mc_providerInstance m) = None
     then [''Model \"'' @ alias @ ''\" references unknown provider instance '' @ mc_providerInstance m @ '' '']
     else [])"

definition model_provider_issues :: "gateway_config \<Rightarrow> string list" where
  "model_provider_issues cfg =
     concat (map (unknown_provider_issues cfg) (gw_models cfg)) @
     (if gw_models cfg = [] then [''Models section must contain at least one model alias.'']
      else concat (map (\<lambda>(i, row).
        if pic_enabled row \<and> \<not> list_ex (\<lambda>(a, m). mc_providerInstance m = i) (gw_models cfg)
        then [''Provider instance '' @ i @ '' is declared but has no model aliases.''] else [])
        (gw_providers cfg)))"

definition schema_issues :: "gateway_config \<Rightarrow> string list" where
  "schema_issues cfg = provider_row_issues [] (gw_providers cfg) @
     concat (map (fallback_issues cfg) (gw_models cfg)) @ model_provider_issues cfg"

section \<open>Secrets of the environment\<close>

definition env_value :: "(string \<Rightarrow> string option) \<Rightarrow> string \<Rightarrow> string" where
  "env_value env r = js_trim (nullish (env r) [])"

definition assertMasterKeyPresent :: "(string \<Rightarrow> string option) \<Rightarrow> gateway_config \<Rightarrow> unit result" where
  "assertMasterKeyPresent env cfg =
     (if env_value env (masterKeyRef cfg) = [] then Inl (plain_error ''[GatewayKey] Missing master key.'')
      else Inr ())"

definition isApiKeyRequiredForProviderType :: "provider_type \<Rightarrow> bool" where
  "isApiKeyRequiredForProviderType t \<longleftrightarrow> \<not> isOpenAiProviderType t"

definition collectMissingEnabledProviderApiKeyErrors ::
  "(string \<Rightarrow> string option) \<Rightarrow> gateway_config \<Rightarrow> (string \<times> string) list" where
  "collectMissingEnabledProviderApiKeyErrors env cfg =
     map (\<lambda>(i, row). (i, pic_apiKeyRef row))
       (filter (\<lambda>(i, row). pic_enabled row \<and> isApiKeyRequiredForProviderType (pic_type row) \<and>
          env_value env (pic_apiKeyRef row) = []) (gw_providers cfg))"

definition assertEnabledProviderApiKeysPresent ::
  "(string \<Rightarrow> string option) \<Rightarrow> gateway_config \<Rightarrow> unit result" where
  "assertEnabledProviderApiKeysPresent env cfg =
     (case collectMissingEnabledProviderApiKeyErrors env cfg of
        [] \<Rightarrow> Inr ()
      | (i, r) # _ \<Rightarrow> Inl (plain_error (''[GatewayConfig] Missing API key for enabled provider instance \"'' @ i @
          ''\" (expected non-empty env '' @ r @ '')'')))"

definition strip_slash :: "string \<Rightarrow> string" where
  "strip_slash s = (if js_ends_with s ''/'' then butlast s else s)"

definition resolveBaseUrlFromEnv ::
  "(string \<Rightarrow> string option) \<Rightarrow> string option \<Rightarrow> (string \<Rightarrow> string option) \<Rightarrow> string" where
  "resolveBaseUrlFromEnv urlProtocol baseUrlRef env =
     (case baseUrlRef of
        None \<Rightarrow> []
      | Some r \<Rightarrow>
          (if js_trim r = [] then []
           else let raw = env_value env r in
             if raw = [] then []
             else case urlProtocol raw of
                    None \<Rightarrow> []
                  | Some p \<Rightarrow> if p \<noteq> ''http:'' \<and> p \<noteq> ''https:'' then [] else strip_slash raw))"

definition collectMissingBaseUrlErrors ::
  "(string \<Rightarrow> string option) \<Rightarrow> (string \<Rightarrow> string option) \<Rightarrow> gateway_config \<Rightarrow> (string \<times> string) list" where
  "collectMissingBaseUrlErrors urlProtocol env cfg =
     map (\<lambda>(i, row). (i, nullish (pic_baseUrlRef row) []))
       (filter (\<lambda>(i, row). pic_enabled row \<and> isOpenAiProviderType (pic_type row) \<and>
          truthy_str (map_option js_trim (pic_baseUrlRef row)) \<noteq> None \<and>
          resolveBaseUrlFromEnv urlProtocol (pic_baseUrlRef row) env = []) (gw_providers cfg))"

definition assertEnabledProviderBaseUrlPresent ::
  "(string \<Rightarrow> string option) \<Rightarrow> (string \<Rightarrow> string option) \<Rightarrow> gateway_config \<Rightarrow> unit result" where
  "assertEnabledProviderBaseUrlPresent urlProtocol env cfg =
     (case collectMissingBaseUrlErrors urlProtocol env cfg of
        [] \<Rightarrow> Inr ()
      | (i, r) # _ \<Rightarrow> Inl (plain_error (''[GatewayConfig] Missing or invalid base URL for enabled provider instance \"''
          @ i @ ''\" (expected valid http(s) URL in env '' @ r @ '')'')))"

definition assertEnabledProviderSecretsPresent ::
  "(string \<Rightarrow> string option) \<Rightarrow> (string \<Rightarrow> string option) \<Rightarrow> gateway_config \<Rightarrow> unit result" where
  "assertEnabledProviderSecretsPresent urlProtocol env cfg =
     res_bind (assertEnabledProviderApiKeysPresent env cfg)
       (\<lambda>_. assertEnabledProviderBaseUrlPresent urlProtocol env cfg)"

lemmas secrets_defs = assertEnabledProviderSecretsPresent_def assertEnabledProviderApiKeysPresent_def
  assertEnabledProviderBaseUrlPresent_def collectMissingEnabledProviderApiKeyErrors_def
  collectMissingBaseUrlErrors_def isApiKeyRequiredForProviderType_def env_value_def

section \<open>Effective configuration (configuration.ts)\<close>

definition enabled_providers :: "gateway_config \<Rightarrow> (string \<times> provider_instance_config) list" where
  "enabled_providers raw = filter (\<lambda>(i, row). pic_enabled row) (gw_providers raw)"

definition model_is_active :: "gateway_config \<Rightarrow> model_config \<Rightarrow> bool" where
  "model_is_active raw m = (case map_of (gw_providers raw) (mc_providerInstance m) of
     None \<Rightarrow> False | Some row \<Rightarrow> pic_enabled row)"

definition active_models :: "gateway_config \<Rightarrow> (string \<times> model_config) list" where
  "active_models raw = filter (\<lambda>(a, m). model_is_active raw m) (gw_models raw)"

fun check_providers_used ::
  "(string \<times> model_config) list \<Rightarrow> (string \<times> provider_instance_config) list \<Rightarrow> unit result" where
  "check_providers_used ms [] = Inr ()"
| "check_providers_used ms ((i, row) # ps) =
     (if \<not> list_ex (\<lambda>(a, m). mc_providerInstance m = i) ms
      then Inl (plain_error (''[GatewayConfig] Enabled provider instance \"'' @ i @
             ''\" has no active model aliases. Add a model with providerInstance: '' @ i @
             '' or set enabled: false on the provider.''))
      else check_providers_used ms ps)"

text \<open>\<open>allowMissing\<close> is the option \<open>allowMissingProviderApiKeys\<close>.\<close>

definition buildEffectiveGatewayConfig ::
  "(string \<Rightarrow> string option) \<Rightarrow> (string \<Rightarrow> string option) \<Rightarrow> bool \<Rightarrow> gateway_config \<Rightarrow> gateway_config result" where
  "buildEffectiveGatewayConfig urlProtocol env allowMissing raw =
     (let ps = enabled_providers raw; ms = active_models raw in
      if ms = [] then Inl (plain_error (''[GatewayConfig] No active models after applying enabled flags; '' @
           ''enable a provider used by your models or add models for an enabled provider.''))
      else res_bind (check_providers_used ms ps) (\<lambda>_.
           res_bind (if allowMissing then Inr () else assertEnabledProviderSecretsPresent urlProtocol env raw) (\<lambda>_.
           Inr (raw\<lparr>gw_providers := ps, gw_models := ms\<rparr>))))"

lemma check_providers_used_ok:
  "check_providers_used ms ps = Inr () \<longleftrightarrow>
     (\<forall>i \<in> fst ` set ps. \<exists>m \<in> snd ` set ms. mc_providerInstance m = i)"
  by (induction ms ps rule: check_providers_used.induct) (auto simp: list_ex_iff case_prod_unfold)

lemma map_of_filter_Some:
  "map_of (filter (\<lambda>(k, v). P v) xs) k = Some v \<Longrightarrow> P v"
  by (auto dest!: map_of_SomeD)

lemma map_of_filter_distinct:
  "distinct (map fst xs) \<Longrightarrow>
   map_of (filter (\<lambda>(k, v). P v) xs) k = (case map_of xs k of Some v \<Rightarrow> if P v then Some v else None | None \<Rightarrow> None)"
  by (induction xs) (auto split: option.splits simp: map_of_eq_None_iff image_iff dest!: map_of_SomeD)

section \<open>Accepted gateway keys (configuration.ts)\<close>

text \<open>A JavaScript \<open>Set\<close> keeps first insertions in order, as \<open>remdups\<close> on the reversed list does.\<close>

definition resolve_client :: "(string \<Rightarrow> string option) \<Rightarrow> string \<times> client_config \<Rightarrow> resolved_gateway_client" where
  "resolve_client env = (\<lambda>(i, row).
     \<lparr>rgc_instanceId = i, rgc_name = cc_name row, rgc_type = cc_type row,
      rgc_gatewayKeyRef = cc_gatewayKeyRef row,
      rgc_gatewayKey = env_value env (cc_gatewayKeyRef row), rgc_rateLimit = cc_rateLimit row\<rparr>)"

definition insertion_set :: "'a list \<Rightarrow> 'a list" where
  "insertion_set xs = rev (remdups (rev xs))"

lemma distinct_insertion_set: "distinct (insertion_set xs)"
  by (simp add: insertion_set_def)

lemma set_insertion_set [simp]: "set (insertion_set xs) = set xs"
  by (simp add: insertion_set_def)

definition buildGatewayKeyRuntime ::
  "(string \<Rightarrow> string option) \<Rightarrow> gateway_config \<Rightarrow> gateway_key_runtime result" where
  "buildGatewayKeyRuntime env cfg =
     res_bind (assertMasterKeyPresent env cfg) (\<lambda>_.
       let master = env_value env (masterKeyRef cfg);
           clients = map (resolve_client env) (gw_clients cfg)
       in Inr \<lparr>allowList = insertion_set (master # filter (\<lambda>k. k \<noteq> []) (map rgc_gatewayKey clients)),
               masterKey = master, gk_clients = clients\<rparr>)"

lemma effective_model_enabled:
  assumes "buildEffectiveGatewayConfig urlProtocol env allowMissing raw = Inr cfg"
    and "map_of (gw_models cfg) a = Some m"
  shows "\<exists>row. map_of (gw_providers raw) (mc_providerInstance m) = Some row \<and> pic_enabled row"
proof -
  from assms have "map_of (filter (\<lambda>(a, m). model_is_active raw m) (gw_models raw)) a = Some m"
    by (auto simp: buildEffectiveGatewayConfig_def Let_def active_models_def split: if_splits)
  then have "model_is_active raw m" by (rule map_of_filter_Some)
  then show ?thesis by (auto simp: model_is_active_def split: option.splits)
qed

section \<open>Consequences of the schema rules\<close>

lemma schema_fallback:
  assumes "schema_issues cfg = []" and "(alias, m) \<in> set (gw_models cfg)"
    and "mc_fallback m = Some f" and "f \<noteq> []"
  shows "f \<noteq> alias \<and> (\<exists>m'. map_of (gw_models cfg) f = Some m' \<and> mc_fallback m' \<noteq> Some alias)"
proof -
  from assms(1,2) have "fallback_issues cfg (alias, m) = []" by (auto simp: schema_issues_def)
  with assms(3,4) show ?thesis
    by (auto simp: fallback_issues_def truthy_str_def split: if_splits option.splits)
qed

lemma schema_provider_known:
  assumes "schema_issues cfg = []" and "(alias, m) \<in> set (gw_models cfg)"
  shows "map_of (gw_providers cfg) (mc_providerInstance m) \<noteq> None"
proof -
  from assms have "unknown_provider_issues cfg (alias, m) = []"
    by (auto simp: schema_issues_def model_provider_issues_def)
  then show ?thesis by (auto simp: unknown_provider_issues_def split: if_splits)
qed

lemma provider_row_issues_distinct:
  assumes "provider_row_issues refs ps = []" and "\<forall>r \<in> set refs. snd r \<noteq> []" and "\<forall>p \<in> set ps. fst p \<noteq> []"
  shows "distinct (map (pic_apiKeyRef \<circ> snd) ps) \<and>
         (\<forall>p \<in> set ps. pic_apiKeyRef (snd p) \<notin> fst ` set refs)"
  using assms
proof (induction refs ps rule: provider_row_issues.induct)
  case (2 refs i row ps)
  have none: "map_of refs (pic_apiKeyRef row) = None"
  proof (cases "map_of refs (pic_apiKeyRef row)")
    case (Some v)
    with "2.prems"(1) have "v = []" by (auto simp: truthy_str_def split: if_splits)
    with Some "2.prems"(2) show ?thesis by (fastforce dest: map_of_SomeD)
  qed simp
  moreover from "2.prems" have "provider_row_issues ((pic_apiKeyRef row, i) # refs) ps = []" by simp
  ultimately show ?case using "2.IH" "2.prems" by (auto simp: map_of_eq_None_iff)
qed simp

section \<open>Properties\<close>

lemma allow_list_build:
  "buildGatewayKeyRuntime env cfg = Inr rt \<longleftrightarrow>
     env_value env (masterKeyRef cfg) \<noteq> [] \<and>
     rt = \<lparr>allowList = insertion_set (env_value env (masterKeyRef cfg) #
              filter (\<lambda>k. k \<noteq> []) (map (\<lambda>(i, c). env_value env (cc_gatewayKeyRef c)) (gw_clients cfg))),
           masterKey = env_value env (masterKeyRef cfg), gk_clients = map (resolve_client env) (gw_clients cfg)\<rparr>"
proof -
  have keys: "map rgc_gatewayKey (map (resolve_client env) cs) = map (\<lambda>(i, c). env_value env (cc_gatewayKeyRef c)) cs"
    for cs by (simp add: resolve_client_def case_prod_unfold)
  show ?thesis
    unfolding buildGatewayKeyRuntime_def Let_def keys by (auto simp: assertMasterKeyPresent_def)
qed

lemma allow_list_set:
  assumes "buildGatewayKeyRuntime env cfg = Inr rt"
  shows "set (allowList rt) = insert (env_value env (masterKeyRef cfg))
          ({env_value env (cc_gatewayKeyRef c) | i c. (i, c) \<in> set (gw_clients cfg)} - {[]})"
    and "[] \<notin> set (allowList rt)" and "distinct (allowList rt)" and "allowList rt \<noteq> []"
  using assms by (auto simp: allow_list_build distinct_insertion_set insertion_set_def)

text \<open>
  The allow list of the running gateway is exactly the set of configured keys: it contains
  the trimmed master key and the trimmed non-empty key of every client and nothing else, it never
  contains the empty key, and without a master key the process does not start.
\<close>

lemma allow_list_exact:
  "(case buildGatewayKeyRuntime env cfg of
      Inl e \<Rightarrow> env_value env (masterKeyRef cfg) = []
    | Inr rt \<Rightarrow>
        set (allowList rt) = insert (env_value env (masterKeyRef cfg))
          ({env_value env (cc_gatewayKeyRef c) | i c. (i, c) \<in> set (gw_clients cfg)} - {[]}) \<and>
        [] \<notin> set (allowList rt) \<and> distinct (allowList rt))"
proof (cases "buildGatewayKeyRuntime env cfg")
  case (Inl e)
  then show ?thesis
    by (auto simp: buildGatewayKeyRuntime_def assertMasterKeyPresent_def Let_def split: if_splits)
next
  case (Inr rt)
  then show ?thesis using allow_list_set [OF Inr] by simp
qed

text \<open>
  A configuration the schema accepts has well-founded one-step fallbacks, known providers and
  distinct key references: a fallback names another existing alias that does not fall back to its
  origin, every model's provider instance is declared, and no two provider rows share an API key
  reference.
\<close>

lemma schema_rules_sound:
  assumes "schema_issues cfg = []" and "\<forall>p \<in> set (gw_providers cfg). fst p \<noteq> []"
  shows "(\<forall>(a, m) \<in> set (gw_models cfg). map_of (gw_providers cfg) (mc_providerInstance m) \<noteq> None \<and>
      (\<forall>f. mc_fallback m = Some f \<and> f \<noteq> [] \<longrightarrow>
         f \<noteq> a \<and> (\<exists>m'. map_of (gw_models cfg) f = Some m' \<and> mc_fallback m' \<noteq> Some a))) \<and>
    distinct (map (pic_apiKeyRef \<circ> snd) (gw_providers cfg))"
  using assms schema_fallback [OF assms(1)] schema_provider_known [OF assms(1)]
    provider_row_issues_distinct [of "[]" "gw_providers cfg"]
  by (auto simp: schema_issues_def)

definition sample_schema_config :: gateway_config where
  "sample_schema_config = \<lparr>schemaVersion = 1, masterKeyRef = ''MK'',
     gw_providers = [(''p'', \<lparr>pic_type = PGoogle, pic_apiKeyRef = ''K1'', pic_enabled = True,
         pic_baseUrlRef = None, pic_apiSurface = None\<rparr>)],
     gw_clients = [],
     gw_models = [
       (''a'', \<lparr>mc_providerInstance = ''p'', mc_modelId = ''x'', mc_fallback = Some ''b'',
          mc_capabilities = None, mc_policy = None\<rparr>),
       (''b'', \<lparr>mc_providerInstance = ''p'', mc_modelId = ''y'', mc_fallback = None,
          mc_capabilities = None, mc_policy = None\<rparr>)]\<rparr>"

end
