(* ===== verification/Registry.thy ===== *)
theory Registry
  imports Request_Policy Config
begin

text \<open>
  Routing by model alias: the provider registry (\<open>providers/provider-registry.service.ts\<close>)
  resolves an alias against the effective configuration and the registered instances; the
  capability checks of \<open>chat/services/chat-validation.service.ts\<close> follow.
\<close>

section \<open>The provider registry (provider-registry.service.ts)\<close>

record 'p registered_instance =
  ri_instanceId :: string
  ri_type :: provider_type
  ri_provider :: 'p

type_synonym 'p registry = "string \<Rightarrow> 'p registered_instance option"

definition registerInstance :: "string \<Rightarrow> provider_type \<Rightarrow> 'p \<Rightarrow> 'p registry \<Rightarrow> 'p registry" where
  "registerInstance i t p reg = reg(i \<mapsto> \<lparr>ri_instanceId = i, ri_type = t, ri_provider = p\<rparr>)"

record resolved_retry =
  rr_maxAttempts :: "nat option"
  rr_onStatus :: "nat list option"

record resolved_policy =
  rp_timeoutMs :: "nat option"
  rp_retry :: "resolved_retry option"

record 'p resolved_provider =
  rv_provider :: 'p
  rv_providerName :: string
  rv_modelId :: string
  rv_modelAlias :: string
  rv_fallbackAlias :: "string option"
  rv_capabilities :: capabilities
  rv_policy :: "resolved_policy option"
  rv_params :: "params_config option"
  rv_providerType :: provider_type
  rv_openAiApiSurface :: "openai_api_surface option"

text \<open>\<open>RETRY_POLICY_DEFAULTS\<close> (common/retry-policy-defaults.ts).\<close>

record retry_defaults =
  rd_maxAttempts :: nat
  rd_onStatus :: "nat list"
  rd_timeoutMs :: nat
  rd_initialDelayMs :: nat
  rd_maxDelayMs :: nat

definition RETRY_POLICY_DEFAULTS :: retry_defaults where
  "RETRY_POLICY_DEFAULTS = \<lparr>rd_maxAttempts = 3, rd_onStatus = [429, 500, 502, 503, 504],
     rd_timeoutMs = 30000, rd_initialDelayMs = 500, rd_maxDelayMs = 8000\<rparr>"

definition internal_error :: "string \<Rightarrow> jserr" where
  "internal_error m = HttpException 500 (JObj [(''message'', JStr m),
     (''error'', JStr ''Internal Server Error''), (''statusCode'', JNum 500)])"

definition getGatewayConfig :: "gateway_config option \<Rightarrow> gateway_config result" where
  "getGatewayConfig cfg = (case cfg of None \<Rightarrow> Inl (internal_error ''Gateway config not found'') | Some c \<Rightarrow> Inr c)"

definition resolveModelAlias :: "gateway_config \<Rightarrow> string \<Rightarrow> model_config result" where
  "resolveModelAlias cfg alias = (case map_of (gw_models cfg) alias of
     None \<Rightarrow> Inl (api_exception 400 MODEL_ALIAS_NOT_FOUND
               (''Model alias '' @ alias @ '' not found in config'') [])
   | Some m \<Rightarrow> Inr m)"

definition resolveProviderEntry ::
  "'p registry \<Rightarrow> gateway_config \<Rightarrow> model_config \<Rightarrow> 'p registered_instance result" where
  "resolveProviderEntry reg cfg m =
     (let i = mc_providerInstance m in
      case map_of (gw_providers cfg) i of
        None \<Rightarrow> Inl (api_exception 400 VALIDATION_FAILED (''Provider instance '' @ i @ '' not found'') [])
      | Some pc \<Rightarrow>
          (case reg i of
             None \<Rightarrow> Inl (UnsupportedProviderException (''Provider instance '' @ i @
                 '' not registered (type: '' @ provider_type_string (pic_type pc) @ '')''))
           | Some entry \<Rightarrow>
               (if ri_type entry \<noteq> pic_type pc
                then Inl (internal_error (''Provider instance \"'' @ i @ ''\" type mismatch: config='' @
                  provider_type_string (pic_type pc) @ '', registry='' @ provider_type_string (ri_type entry)))
                else Inr entry)))"

definition resolved_policy_of :: "policy_config \<Rightarrow> resolved_policy" where
  "resolved_policy_of p =
     \<lparr>rp_timeoutMs = Some (nullish (pol_timeoutMs p) (rd_timeoutMs RETRY_POLICY_DEFAULTS)),
      rp_retry = map_option (\<lambda>r.
        \<lparr>rr_maxAttempts = Some (nullish (rc_maxAttempts r) (rd_maxAttempts RETRY_POLICY_DEFAULTS)),
         rr_onStatus = Some (nullish (rc_onStatus r) (rd_onStatus RETRY_POLICY_DEFAULTS))\<rparr>) (pol_retry p)\<rparr>"

definition resolve :: "gateway_config option \<Rightarrow> 'p registry \<Rightarrow> string \<Rightarrow> 'p resolved_provider result" where
  "resolve config reg alias =
     res_bind (getGatewayConfig config) (\<lambda>cfg.
     res_bind (resolveModelAlias cfg alias) (\<lambda>m.
     res_bind (resolveProviderEntry reg cfg m) (\<lambda>entry.
       Inr \<lparr>rv_provider = ri_provider entry,
            rv_providerName = ri_instanceId entry,
            rv_modelId = mc_modelId m,
            rv_modelAlias = alias,
            rv_fallbackAlias = (case truthy_str (mc_fallback m) of
                None \<Rightarrow> None
              | Some f \<Rightarrow> (case map_of (gw_models cfg) f of None \<Rightarrow> None | Some _ \<Rightarrow> Some f)),
            rv_capabilities = nullish (mc_capabilities m) no_capabilities,
            rv_policy = map_option resolved_policy_of (mc_policy m),
            rv_params = (case mc_policy m of None \<Rightarrow> None | Some p \<Rightarrow> pol_params p),
            rv_providerType = ri_type entry,
            rv_openAiApiSurface =
              (if isOpenAiProviderType (ri_type entry)
               then Some (if ri_type entry = POpenAI then SurfaceResponses else SurfaceChatCompletions)
               else None)\<rparr>)))"

text \<open>Every instance is stored under its own identifier; \<open>registerInstance\<close> keeps this.\<close>

definition registry_ok :: "'p registry \<Rightarrow> bool" where
  "registry_ok reg \<longleftrightarrow> (\<forall>i e. reg i = Some e \<longrightarrow> ri_instanceId e = i)"

lemma registry_ok_empty: "registry_ok (\<lambda>_. None)"
  by (simp add: registry_ok_def)

lemma registry_ok_register: "registry_ok reg \<Longrightarrow> registry_ok (registerInstance i t p reg)"
  by (auto simp: registry_ok_def registerInstance_def)

lemma resolve_Inr_iff:
  "resolve (Some cfg) reg alias = Inr rv \<Longrightarrow>
   \<exists>m pc entry. map_of (gw_models cfg) alias = Some m \<and>
     map_of (gw_providers cfg) (mc_providerInstance m) = Some pc \<and>
     reg (mc_providerInstance m) = Some entry \<and> ri_type entry = pic_type pc \<and>
     rv_provider rv = ri_provider entry \<and> rv_providerType rv = pic_type pc \<and>
     rv_providerName rv = ri_instanceId entry \<and> rv_modelAlias rv = alias"
  unfolding resolve_def getGatewayConfig_def resolveModelAlias_def resolveProviderEntry_def Let_def
  by (auto split: option.splits if_splits)

lemma resolve_fallback:
  "resolve (Some cfg) reg alias = Inr rv \<Longrightarrow> rv_fallbackAlias rv = Some f \<Longrightarrow>
   \<exists>m m'. map_of (gw_models cfg) alias = Some m \<and> mc_fallback m = Some f \<and>
     map_of (gw_models cfg) f = Some m'"
  unfolding resolve_def getGatewayConfig_def resolveModelAlias_def
  by (auto split: option.splits)

section \<open>Capability checks (chat-validation.service.ts)\<close>

definition validateTooling :: "chat_request \<Rightarrow> 'p resolved_provider \<Rightarrow> unit result" where
  "validateTooling r rv =
     (if \<not> isToolingRequest r then Inr ()
      else if cap_tools (rv_capabilities rv) \<noteq> Some True
      then Inl (api_exception 400 TOOLS_NOT_SUPPORTED ''Tools are not supported for this model alias.'' [])
      else Inr ())"

definition validateThinking :: "'p resolved_provider \<Rightarrow> call_options \<Rightarrow> unit result" where
  "validateThinking rv opts =
     (let reasoningRequested = (if rv_providerType rv = POpenAI then isOpenAiReasoningRequested opts
                                else thinkingEnabled opts = Some True)
      in if reasoningRequested \<and> cap_thinking (rv_capabilities rv) \<noteq> Some True
         then Inl (api_exception 400 THINKING_NOT_SUPPORTED
                ''Extended thinking is not supported for this model alias.'' [])
         else Inr ())"

text \<open>\<open>has_stream\<close> tells whether the adapter object has a \<open>stream\<close> method.\<close>

definition validateForStreaming ::
  "gateway_config option \<Rightarrow> 'p registry \<Rightarrow> ('p \<Rightarrow> bool) \<Rightarrow> string \<Rightarrow> 'p resolved_provider result" where
  "validateForStreaming config reg has_stream alias =
     res_bind (resolve config reg alias) (\<lambda>rv.
       if cap_streaming (rv_capabilities rv) \<noteq> Some True
       then Inl (api_exception 400 STREAMING_NOT_SUPPORTED ''Streaming not supported for this model.'' [])
       else if \<not> has_stream (rv_provider rv)
       then Inl (api_exception 400 STREAMING_NOT_SUPPORTED
              ''Streaming adapter not implemented for this provider.'' [])
       else Inr rv)"

section \<open>Properties\<close>

text \<open>
  C35. Disabled providers are unreachable. After the effective configuration is built, an alias
  that resolves, and the fallback alias it resolves to, both belong to a provider row that is
  enabled in the raw configuration, so no request can be routed to a disabled provider, directly
  or by fallback.
\<close>

theorem disabled_providers_unreachable:
  assumes eff: "buildEffectiveGatewayConfig urlProtocol env allowMissing raw = Inr cfg"
    and res: "resolve (Some cfg) reg alias = Inr rv"
    and ok: "registry_ok reg"
  shows "(\<exists>row. map_of (gw_providers raw) (rv_providerName rv) = Some row \<and> pic_enabled row) \<and>
    (\<forall>f. rv_fallbackAlias rv = Some f \<longrightarrow>
      (\<exists>m row. map_of (gw_models raw) f \<noteq> None \<and> map_of (gw_models cfg) f = Some m \<and>
         map_of (gw_providers raw) (mc_providerInstance m) = Some row \<and> pic_enabled row))"
proof (intro conjI allI impI)
  from resolve_Inr_iff [OF res] obtain m entry where
    m: "map_of (gw_models cfg) alias = Some m" "reg (mc_providerInstance m) = Some entry"
      "rv_providerName rv = ri_instanceId entry" by blast
  with ok have "rv_providerName rv = mc_providerInstance m" by (simp add: registry_ok_def)
  with effective_model_enabled [OF eff m(1)]
  show "\<exists>row. map_of (gw_providers raw) (rv_providerName rv) = Some row \<and> pic_enabled row" by simp
next
  fix f assume "rv_fallbackAlias rv = Some f"
  from resolve_fallback [OF res this] obtain m where m: "map_of (gw_models cfg) f = Some m" by blast
  from eff have "gw_models cfg = active_models raw"
    by (auto simp: buildEffectiveGatewayConfig_def Let_def split: if_splits)
  with m have "map_of (gw_models raw) f \<noteq> None"
    by (auto simp: active_models_def map_of_eq_None_iff image_iff dest!: map_of_SomeD) force
  with m effective_model_enabled [OF eff m]
  show "\<exists>m row. map_of (gw_models raw) f \<noteq> None \<and> map_of (gw_models cfg) f = Some m \<and>
         map_of (gw_providers raw) (mc_providerInstance m) = Some row \<and> pic_enabled row" by blast
qed


definition sample_provider :: "bool \<Rightarrow> provider_instance_config" where
  "sample_provider en = \<lparr>pic_type = PAnthropic, pic_apiKeyRef = ''K'', pic_enabled = en,
     pic_baseUrlRef = None, pic_apiSurface = None\<rparr>"

definition sample_model :: "string \<Rightarrow> string option \<Rightarrow> model_config" where
  "sample_model i fb = \<lparr>mc_providerInstance = i, mc_modelId = ''x'', mc_fallback = fb,
     mc_capabilities = None, mc_policy = None\<rparr>"

definition sample_config :: gateway_config where
  "sample_config = \<lparr>schemaVersion = 1, masterKeyRef = ''MK'',
     gw_providers = [(''p'', sample_provider True), (''q'', sample_provider False), (''r'', sample_provider True)],
     gw_clients = [],
     gw_models = [(''a'', sample_model ''p'' (Some ''b'')), (''b'', sample_model ''r'' (Some ''c'')),
                  (''c'', sample_model ''q'' None)]\<rparr>"

definition sample_registry :: "unit registry" where
  "sample_registry = registerInstance ''r'' PAnthropic () (registerInstance ''p'' PAnthropic () (\<lambda>_. None))"

lemmas sample_defs = sample_provider_def sample_model_def sample_config_def sample_registry_def

theorem disabled_providers_unreachable_witness:
  "\<exists>cfg rv. buildEffectiveGatewayConfig (\<lambda>_. None) (\<lambda>_. Some ''k'') False sample_config = Inr cfg \<and>
     resolve (Some cfg) sample_registry ''a'' = Inr rv \<and> rv_fallbackAlias rv = Some ''b'' \<and>
     (\<exists>row. map_of (gw_providers sample_config) (rv_providerName rv) = Some row \<and> pic_enabled row)"
proof -
  let ?cfg = "sample_config\<lparr>gw_providers := [(''p'', sample_provider True), (''r'', sample_provider True)],
     gw_models := [(''a'', sample_model ''p'' (Some ''b'')), (''b'', sample_model ''r'' (Some ''c''))]\<rparr>"
  have eff: "buildEffectiveGatewayConfig (\<lambda>_. None) (\<lambda>_. Some ''k'') False sample_config = Inr ?cfg"
    by (simp add: buildEffectiveGatewayConfig_def enabled_providers_def active_models_def
        model_is_active_def secrets_defs sample_defs isOpenAiProviderType_def js_trim_def js_whitespace_def)
  obtain rv where rv: "resolve (Some ?cfg) sample_registry ''a'' = Inr rv" "rv_fallbackAlias rv = Some ''b''"
    by (simp add: resolve_def getGatewayConfig_def resolveModelAlias_def resolveProviderEntry_def
        registerInstance_def truthy_str_def sample_defs)
  have "registry_ok sample_registry"
    by (simp add: sample_registry_def registry_ok_register registry_ok_empty)
  with disabled_providers_unreachable [OF eff rv(1)] eff rv show ?thesis by blast
qed

lemma effective_provider_row:
  assumes "buildEffectiveGatewayConfig urlProtocol env allowMissing raw = Inr cfg"
    and "distinct (map fst (gw_providers raw))"
    and "map_of (gw_providers raw) i = Some row" and "pic_enabled row"
  shows "map_of (gw_providers cfg) i = Some row"
proof -
  from assms(1) have "gw_providers cfg = filter (\<lambda>(i, row). pic_enabled row) (gw_providers raw)"
    by (auto simp: buildEffectiveGatewayConfig_def Let_def enabled_providers_def split: if_splits)
  with assms(2-4) show ?thesis by (simp add: map_of_filter_distinct)
qed

text \<open>
  Every active alias is routable: once each enabled provider instance is registered with the
  type the configuration gives it, \<open>resolve\<close> succeeds for every alias of the effective
  configuration and returns the instance the alias names, under that alias.
\<close>

lemma active_aliases_resolve:
  assumes eff: "buildEffectiveGatewayConfig urlProtocol env allowMissing raw = Inr cfg"
    and dist: "distinct (map fst (gw_providers raw))"
    and reg: "\<forall>i row. map_of (gw_providers cfg) i = Some row \<longrightarrow>
      (\<exists>e. reg i = Some e \<and> ri_type e = pic_type row)"
    and m: "map_of (gw_models cfg) alias = Some m"
  shows "\<exists>rv e. resolve (Some cfg) reg alias = Inr rv \<and> rv_modelAlias rv = alias \<and>
    reg (mc_providerInstance m) = Some e \<and> rv_provider rv = ri_provider e \<and> rv_modelId rv = mc_modelId m"
proof -
  from effective_model_enabled [OF eff m] obtain row where
    "map_of (gw_providers raw) (mc_providerInstance m) = Some row" "pic_enabled row" by blast
  with eff dist have row: "map_of (gw_providers cfg) (mc_providerInstance m) = Some row"
    by (rule effective_provider_row)
  with reg obtain e where "reg (mc_providerInstance m) = Some e" "ri_type e = pic_type row" by blast
  with row m show ?thesis
    by (simp add: resolve_def getGatewayConfig_def resolveModelAlias_def resolveProviderEntry_def)
qed

end
