(* ===== verification/Resilience.thy ===== *)
theory Resilience
  imports Registry
begin

text \<open>
  Retry, timeout and fallback (\<open>chat/resilience\<close>, \<open>chat/helpers/retry-policy.ts\<close>). The runtime's
  timers are parameters: \<open>race t m w\<close> runs \<open>m\<close> against a deadline of \<open>t\<close> milliseconds
  (\<open>setTimeout\<close>, \<open>AbortController\<close> and \<open>Promise.race\<close>) and gives \<open>None\<close> when the deadline fired
  first; \<open>sleep d w\<close> waits \<open>d\<close> milliseconds. The provider call itself is \<open>runOnce\<close>.
\<close>

section \<open>Policy\<close>

record retry_policy =
  maxAttempts :: nat
  onStatus :: "nat list"
  timeoutMs :: "nat option"
  initialDelayMs :: "nat option"
  maxDelayMs :: "nat option"

definition buildRetryPolicyFromResolved :: "resolved_policy option \<Rightarrow> retry_policy" where
  "buildRetryPolicyFromResolved pol =
     (let retry = (case pol of None \<Rightarrow> None | Some p \<Rightarrow> rp_retry p);
          rawMax = (case retry of None \<Rightarrow> None | Some r \<Rightarrow> rr_maxAttempts r);
          rawOn = (case retry of None \<Rightarrow> None | Some r \<Rightarrow> rr_onStatus r);
          rawTimeout = (case pol of None \<Rightarrow> None | Some p \<Rightarrow> rp_timeoutMs p)
      in \<lparr>maxAttempts = nullish rawMax (rd_maxAttempts RETRY_POLICY_DEFAULTS),
          onStatus = nullish rawOn (rd_onStatus RETRY_POLICY_DEFAULTS),
          timeoutMs = Some (nullish rawTimeout (rd_timeoutMs RETRY_POLICY_DEFAULTS)),
          initialDelayMs = Some (rd_initialDelayMs RETRY_POLICY_DEFAULTS),
          maxDelayMs = Some (rd_maxDelayMs RETRY_POLICY_DEFAULTS)\<rparr>)"

definition isRetryableHttpError :: "jserr \<Rightarrow> nat list \<Rightarrow> bool" where
  "isRetryableHttpError e codes = (case e of HttpException st r \<Rightarrow> st \<in> set codes | _ \<Rightarrow> False)"

definition assertNoFallbackCycle :: "string \<Rightarrow> string option \<Rightarrow> unit result" where
  "assertNoFallbackCycle primary fb = (case truthy_str fb of
     None \<Rightarrow> Inr ()
   | Some f \<Rightarrow> (if f = primary
       then Inl (api_exception 400 VALIDATION_FAILED (''Circular fallback detected: alias \"'' @ primary @
              ''\" cannot fallback to itself'') [])
       else Inr ()))"

definition extractErrorMessage :: "jserr \<Rightarrow> string" where
  "extractErrorMessage e =
     (if is_error_instance e then error_message e
      else case e of ThrownString s \<Rightarrow> s | _ \<Rightarrow> ''Unknown error'')"

text \<open>\<open>attempt\<close> is the number of the failed attempt, from 1.\<close>

definition computeBackoffDelayMs :: "nat \<Rightarrow> retry_policy \<Rightarrow> nat" where
  "computeBackoffDelayMs attempt retry =
     (let initial = nullish (initialDelayMs retry) (rd_initialDelayMs RETRY_POLICY_DEFAULTS);
          mx = nullish (maxDelayMs retry) (rd_maxDelayMs RETRY_POLICY_DEFAULTS)
      in min mx (initial * 2 ^ (attempt - 1)))"

section \<open>One alias: attempts with a deadline each\<close>

definition timeoutHttpError :: "nat \<Rightarrow> jserr" where
  "timeoutHttpError t =
     api_exception 504 PROVIDER_TIMEOUT (''Request timeout after '' @ show_nat t @ ''ms'') []"

type_synonym ('w, 'a) race = "nat \<Rightarrow> ('w, 'a) io \<Rightarrow> 'w \<Rightarrow> 'a result option \<times> 'w"

definition runWithTimeout :: "('w, 'a) race \<Rightarrow> nat option \<Rightarrow> ('w, 'a) io \<Rightarrow> ('w, 'a) io" where
  "runWithTimeout race t fn =
     (if t = None \<or> t = Some 0 then fn
      else (\<lambda>w. case race (the t) fn w of
                  (Some r, w') \<Rightarrow> (r, w')
                | (None, w') \<Rightarrow> (Inl (timeoutHttpError (the t)), w')))"

definition asAttemptNumber :: "nat \<Rightarrow> nat result" where
  "asAttemptNumber n = (if n < 1 then Inl (plain_error ''AttemptNumber must be >=1'') else Inr n)"

datatype 'a attempt_result = AttemptOk 'a nat | AttemptFailed jserr nat

text \<open>The \<open>for\<close> loop of \<open>tryAlias\<close>; the first argument counts the iterations that are left, so
  \<open>n + attempt = maxAttempts + 1\<close>.\<close>

fun tryAlias_loop ::
  "('w, 'a) race \<Rightarrow> (nat \<Rightarrow> 'w \<Rightarrow> 'w) \<Rightarrow> retry_policy \<Rightarrow> (string \<Rightarrow> nat \<Rightarrow> ('w, 'a) io) \<Rightarrow> string \<Rightarrow>
   nat \<Rightarrow> nat \<Rightarrow> jserr \<Rightarrow> ('w, 'a attempt_result) io" where
  "tryAlias_loop race sleep retry runOnce alias 0 attempt lastError w =
     (map_sum id (AttemptFailed lastError) (asAttemptNumber (attempt - 1)), w)"
| "tryAlias_loop race sleep retry runOnce alias (Suc n) attempt lastError w =
     (case runWithTimeout race (timeoutMs retry) (runOnce alias attempt) w of
        (Inr v, w1) \<Rightarrow> (Inr (AttemptOk v attempt), w1)
      | (Inl e, w1) \<Rightarrow>
          (if \<not> isRetryableHttpError e (onStatus retry)
           then (map_sum id (AttemptFailed e) (asAttemptNumber attempt), w1)
           else let w2 = (if n \<noteq> 0 then sleep (computeBackoffDelayMs attempt retry) w1 else w1)
                in tryAlias_loop race sleep retry runOnce alias n (Suc attempt) e w2))"

definition tryAlias ::
  "('w, 'a) race \<Rightarrow> (nat \<Rightarrow> 'w \<Rightarrow> 'w) \<Rightarrow> retry_policy \<Rightarrow> (string \<Rightarrow> nat \<Rightarrow> ('w, 'a) io) \<Rightarrow> string \<Rightarrow>
   nat \<Rightarrow> ('w, 'a attempt_result) io" where
  "tryAlias race sleep retry runOnce alias mx = tryAlias_loop race sleep retry runOnce alias mx 1 ThrownOther"

section \<open>Primary alias, then fallback\<close>

record 'a execution_result =
  er_value :: 'a
  er_usedAlias :: string
  er_attempts :: nat
  er_didFallback :: bool

definition opt_json_str :: "string \<Rightarrow> string option \<Rightarrow> (string \<times> json) list" where
  "opt_json_str k v = (case v of None \<Rightarrow> [] | Some s \<Rightarrow> [(k, JStr s)])"

definition exhausted_message :: "nat \<Rightarrow> string \<Rightarrow> string option \<Rightarrow> string" where
  "exhausted_message mx primary fb =
     ''Provider exhausted after '' @ show_nat mx @ '' retries on primary ('' @ primary @ '')'' @
     (case truthy_str fb of Some f \<Rightarrow> '' and fallback ('' @ f @ '')'' | None \<Rightarrow> [])"

definition toExhaustedException :: "jserr \<Rightarrow> jserr \<Rightarrow> nat \<Rightarrow> string \<Rightarrow> string option \<Rightarrow> jserr" where
  "toExhaustedException primaryError fallbackError mx primary fb =
     (let message = exhausted_message mx primary fb;
          generic = api_exception 502 PROVIDER_UNAVAILABLE message
            [JObj ([(''primaryAlias'', JStr primary)] @ opt_json_str ''fallbackAlias'' fb @
               [(''primaryError'', JStr (extractErrorMessage primaryError))] @
               (case truthy_str fb of
                  Some _ \<Rightarrow> [(''fallbackError'', JStr (extractErrorMessage fallbackError))] | None \<Rightarrow> []))]
      in case primaryError of
           HttpException st (JObj body) \<Rightarrow>
             (if jget body ''code'' = None then generic
              else HttpException st (JObj (jset (jset body ''message'' (JStr message)) ''details''
                (JArr [JObj ([(''primaryAlias'', JStr primary)] @ opt_json_str ''fallbackAlias'' fb @
                   [(''totalAttempts'', JNum (of_nat (mx * (if truthy_str fb = None then 1 else 2))))])]))))
         | _ \<Rightarrow> generic)"

definition executeWithRetryAndFallback ::
  "('w, 'a) race \<Rightarrow> (nat \<Rightarrow> 'w \<Rightarrow> 'w) \<Rightarrow> (string \<Rightarrow> string option \<Rightarrow> unit result) option \<Rightarrow>
   string \<Rightarrow> string option \<Rightarrow> retry_policy \<Rightarrow> (string \<Rightarrow> nat \<Rightarrow> ('w, 'a) io) \<Rightarrow> ('w, 'a execution_result) io" where
  "executeWithRetryAndFallback race sleep validateChain primary fallback retry runOnce =
     io_bind (io_lift (case validateChain of Some v \<Rightarrow> v primary fallback
                       | None \<Rightarrow> assertNoFallbackCycle primary fallback)) (\<lambda>_.
     io_bind (tryAlias race sleep retry runOnce primary (maxAttempts retry)) (\<lambda>p.
       case p of
         AttemptOk v n \<Rightarrow> io_return \<lparr>er_value = v, er_usedAlias = primary, er_attempts = n, er_didFallback = False\<rparr>
       | AttemptFailed pe pn \<Rightarrow>
           (case truthy_str fallback of
              None \<Rightarrow> io_throw pe
            | Some fb \<Rightarrow>
                io_bind (tryAlias race sleep retry runOnce fb (maxAttempts retry)) (\<lambda>f.
                  case f of
                    AttemptOk v fn \<Rightarrow> io_bind (io_lift (asAttemptNumber (pn + fn))) (\<lambda>total.
                      io_return \<lparr>er_value = v, er_usedAlias = fb, er_attempts = total, er_didFallback = True\<rparr>)
                  | AttemptFailed fe fn \<Rightarrow>
                      io_throw (toExhaustedException pe fe (maxAttempts retry) primary fallback)))))"

section \<open>The retry protocol as an abstract specification\<close>

text \<open>
  What an observer of one alias sees: an attempt with its error, if it had one, or a pause. The
  relation \<open>attempt_trace\<close> is the protocol: a success ends it, an error outside the policy ends
  it, an error inside the policy is followed by the backoff pause and the next attempt as long as
  attempts are left.
\<close>

datatype call_event = Attempt string nat "jserr option" | Pause nat

inductive attempt_trace :: "retry_policy \<Rightarrow> string \<Rightarrow> nat \<Rightarrow> call_event list \<Rightarrow> 'a attempt_result \<Rightarrow> bool"
  for retry :: retry_policy and al :: string where
  succeeded: "k \<le> maxAttempts retry \<Longrightarrow> attempt_trace retry al k [Attempt al k None] (AttemptOk v k)"
| fatal: "k \<le> maxAttempts retry \<Longrightarrow> \<not> isRetryableHttpError e (onStatus retry) \<Longrightarrow>
    attempt_trace retry al k [Attempt al k (Some e)] (AttemptFailed e k)"
| exhausted: "k = maxAttempts retry \<Longrightarrow> isRetryableHttpError e (onStatus retry) \<Longrightarrow>
    attempt_trace retry al k [Attempt al k (Some e)] (AttemptFailed e k)"
| retried: "k < maxAttempts retry \<Longrightarrow> isRetryableHttpError e (onStatus retry) \<Longrightarrow>
    attempt_trace retry al (Suc k) es r \<Longrightarrow>
    attempt_trace retry al k (Attempt al k (Some e) # Pause (computeBackoffDelayMs k retry) # es) r"

fun result_attempts :: "'a attempt_result \<Rightarrow> nat" where
  "result_attempts (AttemptOk v n) = n"
| "result_attempts (AttemptFailed e n) = n"

definition attempts_in :: "call_event list \<Rightarrow> nat" where
  "attempts_in es = length (filter (\<lambda>e. case e of Attempt _ _ _ \<Rightarrow> True | Pause _ \<Rightarrow> False) es)"

definition pause_total :: "call_event list \<Rightarrow> nat" where
  "pause_total es = sum_list (map (\<lambda>e. case e of Attempt _ _ _ \<Rightarrow> 0 | Pause d \<Rightarrow> d) es)"

lemma attempt_trace_counts:
  "attempt_trace retry alias k es r \<Longrightarrow>
     k \<le> result_attempts r \<and> result_attempts r \<le> maxAttempts retry \<and>
     attempts_in es = Suc (result_attempts r) - k"
  by (induction rule: attempt_trace.induct) (auto simp: attempts_in_def)

lemma backoff_bound: "computeBackoffDelayMs k retry \<le> nullish (maxDelayMs retry) 8000"
  by (simp add: computeBackoffDelayMs_def RETRY_POLICY_DEFAULTS_def)

lemma attempt_trace_pause:
  "attempt_trace retry alias k es r \<Longrightarrow>
     pause_total es \<le> (maxAttempts retry - k) * nullish (maxDelayMs retry) 8000"
proof (induction rule: attempt_trace.induct)
  case (retried k e es r)
  let ?D = "nullish (maxDelayMs retry) 8000"
  have "pause_total (Attempt alias k (Some e) # Pause (computeBackoffDelayMs k retry) # es)
      = computeBackoffDelayMs k retry + pause_total es"
    by (simp add: pause_total_def)
  also have "\<dots> \<le> ?D + (maxAttempts retry - Suc k) * ?D"
    using retried.IH backoff_bound [of k retry] by (rule add_mono [rotated])
  also have "\<dots> = (maxAttempts retry - k) * ?D"
    using retried.hyps(1) by (metis Suc_diff_Suc mult_Suc)
  finally show ?case .
qed (simp_all add: pause_total_def)

text \<open>
  \<open>observes lg race sleep retry runOnce\<close>: the world keeps a log \<open>lg\<close> to which every attempt
  (with the error it ended with, the deadline included) and every pause is appended.
\<close>

definition err_of :: "'a result \<Rightarrow> jserr option" where
  "err_of r = (case r of Inl e \<Rightarrow> Some e | Inr _ \<Rightarrow> None)"

definition observes ::
  "('w \<Rightarrow> call_event list) \<Rightarrow> ('w, 'a) race \<Rightarrow> (nat \<Rightarrow> 'w \<Rightarrow> 'w) \<Rightarrow> retry_policy \<Rightarrow>
   (string \<Rightarrow> nat \<Rightarrow> ('w, 'a) io) \<Rightarrow> bool" where
  "observes lg race sleep retry runOnce \<longleftrightarrow>
     (\<forall>a k w. lg (snd (runWithTimeout race (timeoutMs retry) (runOnce a k) w)) =
        lg w @ [Attempt a k (err_of (fst (runWithTimeout race (timeoutMs retry) (runOnce a k) w)))]) \<and>
     (\<forall>d w. lg (sleep d w) = lg w @ [Pause d])"

lemma tryAlias_loop_trace:
  assumes obs: "observes lg race sleep retry runOnce"
  shows "n \<noteq> 0 \<Longrightarrow> 1 \<le> k \<Longrightarrow> n + k = Suc (maxAttempts retry) \<Longrightarrow>
    \<exists>r es. fst (tryAlias_loop race sleep retry runOnce alias n k le w) = Inr r \<and>
      lg (snd (tryAlias_loop race sleep retry runOnce alias n k le w)) = lg w @ es \<and>
      attempt_trace retry alias k es r"
proof (induction n arbitrary: k le w)
  case (Suc n)
  obtain r1 w1 where run: "runWithTimeout race (timeoutMs retry) (runOnce alias k) w = (r1, w1)"
    by fastforce
  with obs have lg1: "lg w1 = lg w @ [Attempt alias k (err_of r1)]"
    unfolding observes_def by (metis fst_conv snd_conv)
  show ?case
  proof (cases r1)
    case (Inr v)
    with run lg1 Suc.prems show ?thesis
      by (auto simp: err_of_def intro!: exI [of _ "AttemptOk v k"] attempt_trace.succeeded)
  next
    case (Inl e)
    show ?thesis
    proof (cases "isRetryableHttpError e (onStatus retry)")
      case False
      with Inl run lg1 Suc.prems show ?thesis
        by (auto simp: err_of_def asAttemptNumber_def intro!: attempt_trace.fatal)
    next
      case retryable: True
      show ?thesis
      proof (cases n)
        case 0
        with Inl retryable run lg1 Suc.prems show ?thesis
          by (auto simp: err_of_def asAttemptNumber_def intro!: attempt_trace.exhausted)
      next
        case (Suc m)
        let ?w2 = "sleep (computeBackoffDelayMs k retry) w1"
        let ?rec = "tryAlias_loop race sleep retry runOnce alias n (Suc k) e ?w2"
        from Suc.prems Suc obtain r es where IH: "fst ?rec = Inr r" "lg (snd ?rec) = lg ?w2 @ es"
            "attempt_trace retry alias (Suc k) es r"
          using Suc.IH [of "Suc k" e ?w2] by auto
        have step: "tryAlias_loop race sleep retry runOnce alias (Suc n) k le w = ?rec"
          using Inl retryable run Suc by simp
        have "lg ?w2 = lg w1 @ [Pause (computeBackoffDelayMs k retry)]"
          using obs unfolding observes_def by blast
        with IH(2) lg1 Inl have "lg (snd ?rec) = lg w @
            (Attempt alias k (Some e) # Pause (computeBackoffDelayMs k retry) # es)"
          by (simp add: err_of_def)
        moreover have "k < maxAttempts retry" using Suc.prems Suc by simp
        ultimately show ?thesis
          unfolding step using IH retryable attempt_trace.retried by blast
      qed
    qed
  qed
qed simp

lemma tryAlias_trace:
  assumes "observes lg race sleep retry runOnce" and "1 \<le> maxAttempts retry"
  shows "\<exists>r es w'. tryAlias race sleep retry runOnce alias (maxAttempts retry) w = (Inr r, w') \<and>
    lg w' = lg w @ es \<and> attempt_trace retry alias 1 es r"
  using tryAlias_loop_trace [OF assms(1), of "maxAttempts retry" 1 "alias" ThrownOther w] assms(2)
  by (metis One_nat_def Suc_n_not_le_n add_Suc_right add.right_neutral le_refl not_one_le_zero
      prod.collapse tryAlias_def)

section \<open>Shape of the exhausted exception\<close>

lemma toExhausted_keeps_status:
  "pe = HttpException st (JObj body) \<Longrightarrow> jget body ''code'' = Some (JStr c) \<Longrightarrow>
   http_status (toExhaustedException pe fe mx p fb) = Some st \<and>
   http_code (toExhaustedException pe fe mx p fb) = Some c"
  by (simp add: toExhaustedException_def Let_def http_status_def http_code_def)

lemma toExhausted_generic:
  "http_code pe = None \<Longrightarrow> (\<And>st body. pe = HttpException st (JObj body) \<Longrightarrow> jget body ''code'' = None) \<Longrightarrow>
   http_status (toExhaustedException pe fe mx p fb) = Some 502"
  by (auto simp: toExhaustedException_def Let_def split: jserr.splits json.splits)

section \<open>Which provider errors are retried\<close>

context provider_error_mapper
begin

lemma mapped_retryable_iff:
  "isRetryableHttpError (toHttpException (mapError e)) (onStatus (buildRetryPolicyFromResolved None)) \<longleftrightarrow>
   payloadCode (mapError e) \<in> {PROVIDER_RATE_LIMITED, PROVIDER_UNAVAILABLE, PROVIDER_TIMEOUT}"
  using mapped_in_table [of e]
  by (auto simp: provider_status_code_def isRetryableHttpError_def toHttpException_def
      buildRetryPolicyFromResolved_def RETRY_POLICY_DEFAULTS_def split: if_splits)

end

section \<open>The execution protocol: primary alias, then fallback\<close>

inductive execution_trace ::
  "retry_policy \<Rightarrow> string \<Rightarrow> string option \<Rightarrow> call_event list \<Rightarrow> 'a execution_result result \<Rightarrow> bool"
  for retry :: retry_policy and primary :: string and fb :: "string option" where
  primary_ok: "attempt_trace retry primary 1 es (AttemptOk v n) \<Longrightarrow>
    execution_trace retry primary fb es
      (Inr \<lparr>er_value = v, er_usedAlias = primary, er_attempts = n, er_didFallback = False\<rparr>)"
| no_fallback: "attempt_trace retry primary 1 es (AttemptFailed e n :: 'a attempt_result) \<Longrightarrow>
    truthy_str fb = None \<Longrightarrow> execution_trace retry primary fb es (Inl e)"
| fallback_ok: "attempt_trace retry primary 1 es (AttemptFailed e n :: 'a attempt_result) \<Longrightarrow>
    truthy_str fb = Some f \<Longrightarrow> attempt_trace retry f 1 fs (AttemptOk v m) \<Longrightarrow>
    execution_trace retry primary fb (es @ fs)
      (Inr \<lparr>er_value = v, er_usedAlias = f, er_attempts = n + m, er_didFallback = True\<rparr>)"
| both_failed: "attempt_trace retry primary 1 es (AttemptFailed e n :: 'a attempt_result) \<Longrightarrow>
    truthy_str fb = Some f \<Longrightarrow> attempt_trace retry f 1 fs (AttemptFailed e' m :: 'a attempt_result) \<Longrightarrow>
    execution_trace retry primary fb (es @ fs)
      (Inl (toExhaustedException e e' (maxAttempts retry) primary fb))"

inductive_cases execution_traceE: "execution_trace retry primary fb es r"

lemma executor_trace:
  assumes obs: "observes lg race sleep retry runOnce" and mx: "1 \<le> maxAttempts retry"
    and chain: "assertNoFallbackCycle primary fb = Inr ()"
    and run: "executeWithRetryAndFallback race sleep None primary fb retry runOnce w = (r, w')"
  shows "\<exists>es. lg w' = lg w @ es \<and> execution_trace retry primary fb es r"
proof -
  from tryAlias_trace [OF obs mx, of primary w] obtain p es w1 where
    P: "tryAlias race sleep retry runOnce primary (maxAttempts retry) w = (Inr p, w1)"
       "lg w1 = lg w @ es" "attempt_trace retry primary 1 es p" by blast
  show ?thesis
  proof (cases p)
    case (AttemptOk v n)
    with P chain run show ?thesis
      by (auto simp: executeWithRetryAndFallback_def io_bind_apply intro: execution_trace.primary_ok)
  next
    case failed: (AttemptFailed e n)
    show ?thesis
    proof (cases "truthy_str fb")
      case None
      with failed P chain run show ?thesis
        by (auto simp: executeWithRetryAndFallback_def io_bind_apply intro: execution_trace.no_fallback)
    next
      case (Some f)
      from tryAlias_trace [OF obs mx, of f w1] obtain q fs w2 where
        F: "tryAlias race sleep retry runOnce f (maxAttempts retry) w1 = (Inr q, w2)"
           "lg w2 = lg w1 @ fs" "attempt_trace retry f 1 fs q" by blast
      have n: "1 \<le> n" using attempt_trace_counts [OF P(3)] failed by simp
      from run failed Some P(1) F(1) chain n have r: "w' = w2 \<and> r = (case q of
          AttemptOk v m \<Rightarrow> Inr \<lparr>er_value = v, er_usedAlias = f, er_attempts = n + m, er_didFallback = True\<rparr>
        | AttemptFailed e' m \<Rightarrow> Inl (toExhaustedException e e' (maxAttempts retry) primary fb))"
        by (cases q) (auto simp: executeWithRetryAndFallback_def io_bind_apply asAttemptNumber_def)
      have "execution_trace retry primary fb (es @ fs) r"
        using r P(3) F(3) Some unfolding failed
        by (cases q) (auto intro: execution_trace.fallback_ok execution_trace.both_failed)
      moreover have "lg w' = lg w @ (es @ fs)" using r P(2) F(2) by simp
      ultimately show ?thesis by blast
    qed
  qed
qed

lemma attempt_trace_max: "attempt_trace retry a 1 es p \<Longrightarrow> attempts_in es \<le> maxAttempts retry"
  by (drule attempt_trace_counts) simp

lemma attempts_in_append: "attempts_in (xs @ ys) = attempts_in xs + attempts_in ys"
  by (simp add: attempts_in_def)

lemma execution_trace_bound:
  "execution_trace retry primary fb es r \<Longrightarrow>
   attempts_in es \<le> (if truthy_str fb = None then 1 else 2) * maxAttempts retry"
  by (induction rule: execution_trace.induct)
    (auto simp: attempts_in_append simp del: One_nat_def dest!: attempt_trace_max)

section \<open>Properties\<close>

text \<open>
  \<open>tryAlias\<close> implements the retry protocol: for any provider, deadline and world, the
  attempts and pauses it makes on an alias form a trace of the protocol that ends with the
  result it returns. It always returns, makes at least one and at most \<open>maxAttempts\<close> calls, the
  number it reports is the number it made, and its pauses add up to at most
  \<open>(maxAttempts - 1) * maxDelayMs\<close>.
\<close>

lemma tryAlias_implements_protocol:
  assumes "observes lg race sleep retry runOnce" and "1 \<le> maxAttempts retry"
  shows "\<exists>r es w'. tryAlias race sleep retry runOnce a (maxAttempts retry) w = (Inr r, w') \<and>
    lg w' = lg w @ es \<and> attempt_trace retry a 1 es r \<and>
    1 \<le> attempts_in es \<and> attempts_in es \<le> maxAttempts retry \<and> attempts_in es = result_attempts r \<and>
    pause_total es \<le> (maxAttempts retry - 1) * nullish (maxDelayMs retry) 8000"
proof -
  from tryAlias_trace [OF assms, of a w] obtain r es w' where
    t: "tryAlias race sleep retry runOnce a (maxAttempts retry) w = (Inr r, w')"
       "lg w' = lg w @ es" "attempt_trace retry a 1 es r" by blast
  from attempt_trace_counts [OF t(3)] attempt_trace_pause [OF t(3)] t show ?thesis by auto
qed

text \<open>A world that is its own log, for closed instances.\<close>

definition log_race :: "(call_event list, 'a) race" where
  "log_race t m w = (case m w of (r, w') \<Rightarrow> (Some r, w'))"

definition log_sleep :: "nat \<Rightarrow> call_event list \<Rightarrow> call_event list" where
  "log_sleep d w = w @ [Pause d]"

definition log_run :: "(string \<Rightarrow> nat \<Rightarrow> 'a result) \<Rightarrow> string \<Rightarrow> nat \<Rightarrow> (call_event list, 'a) io" where
  "log_run out a k w = (out a k, w @ [Attempt a k (err_of (out a k))])"

lemma log_observes: "observes id log_race log_sleep retry (log_run out)"
  by (auto simp: observes_def runWithTimeout_def log_race_def log_sleep_def log_run_def)

definition sample_retry :: retry_policy where
  "sample_retry = buildRetryPolicyFromResolved None"

lemma sample_retry_sel [simp]:
  "maxAttempts sample_retry = 3" "onStatus sample_retry = [429, 500, 502, 503, 504]"
  "timeoutMs sample_retry = Some 30000" "initialDelayMs sample_retry = Some 500"
  "maxDelayMs sample_retry = Some 8000"
  by (simp_all add: sample_retry_def buildRetryPolicyFromResolved_def RETRY_POLICY_DEFAULTS_def)

text \<open>
  C1. The executor tries the primary alias first and the fallback only after the primary has
  failed. Every run is a trace of the execution protocol: a primary success is returned without
  any call to the fallback; with no fallback the primary's last error is rethrown unchanged; a
  fallback success is returned under the fallback's alias with both attempt counts added; when
  both fail the exhausted exception is thrown.
\<close>

theorem executor_follows_protocol:
  assumes "observes lg race sleep retry runOnce" and "1 \<le> maxAttempts retry"
    and "assertNoFallbackCycle primary fb = Inr ()"
    and "executeWithRetryAndFallback race sleep None primary fb retry runOnce w = (r, w')"
  shows "\<exists>es. lg w' = lg w @ es \<and> execution_trace retry primary fb es r"
  using assms by (rule executor_trace)

definition flaky :: "string \<Rightarrow> nat \<Rightarrow> string result" where
  "flaky a k = (if a = ''b'' then Inr ''ok'' else Inl (plain_error ''reset''))"

theorem executor_follows_protocol_witness:
  "\<exists>es. snd (executeWithRetryAndFallback log_race log_sleep None ''a'' (Some ''b'') sample_retry
      (log_run flaky) []) = es \<and>
    execution_trace sample_retry ''a'' (Some ''b'') es
      (fst (executeWithRetryAndFallback log_race log_sleep None ''a'' (Some ''b'') sample_retry (log_run flaky) []))"
proof -
  have "assertNoFallbackCycle ''a'' (Some ''b'') = Inr ()" by (simp add: assertNoFallbackCycle_def)
  from executor_follows_protocol [OF log_observes _ this prod.collapse [symmetric], of sample_retry flaky "[]"]
  show ?thesis by simp
qed

text \<open>
  A request costs at most \<open>2 * maxAttempts\<close> provider calls, whatever the providers answer,
  and at most \<open>maxAttempts\<close> when the alias has no fallback.
\<close>

lemma executor_calls_bounded:
  assumes "observes lg race sleep retry runOnce" and "1 \<le> maxAttempts retry"
    and "assertNoFallbackCycle primary fb = Inr ()"
    and "executeWithRetryAndFallback race sleep None primary fb retry runOnce w = (r, w')"
  shows "\<exists>es. lg w' = lg w @ es \<and>
    attempts_in es \<le> (if truthy_str fb = None then 1 else 2) * maxAttempts retry"
  using executor_trace [OF assms] execution_trace_bound by blast

definition always_503 :: "string \<Rightarrow> nat \<Rightarrow> string result" where
  "always_503 a k = Inl (api_exception 503 PROVIDER_UNAVAILABLE ''down'' [])"

definition always_400 :: "string \<Rightarrow> nat \<Rightarrow> string result" where
  "always_400 a k = Inl (api_exception 400 VALIDATION_FAILED ''bad'' [])"

lemma always_400_run:
  "executeWithRetryAndFallback log_race log_sleep None ''a'' (Some ''b'') sample_retry (log_run always_400) [] =
     (Inl (toExhaustedException (api_exception 400 VALIDATION_FAILED ''bad'' [])
             (api_exception 400 VALIDATION_FAILED ''bad'' []) 3 ''a'' (Some ''b'')),
      [Attempt ''a'' 1 (Some (api_exception 400 VALIDATION_FAILED ''bad'' [])),
       Attempt ''b'' 1 (Some (api_exception 400 VALIDATION_FAILED ''bad'' []))])"
  by (simp add: executeWithRetryAndFallback_def assertNoFallbackCycle_def io_bind_apply tryAlias_def
      numeral_3_eq_3 runWithTimeout_def log_race_def log_run_def always_400_def isRetryableHttpError_def
      api_exception_def asAttemptNumber_def err_of_def)

text \<open>
  The exhausted exception overstates the work done: when both aliases fail at once with an
  error outside the retry policy, exactly two calls were made, but the exception's details report
  \<open>2 * maxAttempts\<close> attempts (and its message the configured number of retries).
\<close>

lemma exhausted_overstates_attempts:
  "\<exists>e w'. executeWithRetryAndFallback log_race log_sleep None ''a'' (Some ''b'') sample_retry
       (log_run always_400) [] = (Inl e, w') \<and>
     attempts_in w' = 2 \<and>
     (\<exists>st body d. e = HttpException st (JObj body) \<and> jget body ''details'' = Some (JArr [JObj d]) \<and>
        jget d ''totalAttempts'' = Some (JNum 6))"
  unfolding always_400_run
  by (simp add: attempts_in_def toExhaustedException_def Let_def api_exception_def api_payload_def
      opt_json_str_def)

text \<open>
  Under the default policy a mapped vendor error is retried iff its code is a rate limit, an
  outage or a timeout, for each of the three vendors; authentication and validation errors never
  are.
\<close>

lemma mapped_errors_retried_iff_transient:
  "m \<in> {mapAnthropicSdkError, mapGoogleGenAiError, mapOpenAiSdkError} \<Longrightarrow>
   isRetryableHttpError (toHttpException (m e)) (onStatus (buildRetryPolicyFromResolved None)) \<longleftrightarrow>
   payloadCode (m e) \<in> {PROVIDER_RATE_LIMITED, PROVIDER_UNAVAILABLE, PROVIDER_TIMEOUT}"
  using anthropic_errors.mapped_retryable_iff google_errors.mapped_retryable_iff
    openai_errors.mapped_retryable_iff by blast

definition openai_404 :: jserr where
  "openai_404 = ErrorInstance OpenAIAPIError ''NotFoundError'' ''no such model'' [(''status'', JNum 404)]"

text \<open>
  The OpenAI mapper treats client errors unlike the other two: for an API error with a 4xx
  status other than 400, 401, 403, 408 and 429 (404 for an unknown model, 422) it answers
  502 \<open>PROVIDER_UNAVAILABLE\<close>, which the default policy retries, where the Anthropic mapper answers
  400 \<open>VALIDATION_FAILED\<close>, which is not retried.
\<close>

lemma openai_client_errors_look_transient:
  assumes "400 < n" and "n \<le> 499" and "n \<notin> {401, 403, 408, 429}"
  shows "payloadCode (mapOpenAiSdkError (ErrorInstance OpenAIAPIError nm msg [(''status'', JNum n)])) =
      (if nm = ''AbortError'' \<or> nm = ''TimeoutError'' then PROVIDER_TIMEOUT else PROVIDER_UNAVAILABLE) \<and>
    payloadCode (mapAnthropicSdkError (ErrorInstance AnthropicAPIError nm msg [(''status'', JNum n)])) =
      VALIDATION_FAILED"
  using assms
  by (auto simp: mapOpenAiSdkError_def mapAnthropicSdkError_def sdk_class_of_def sdk_status_def
      is_anthropic_api_error_def status_defs Let_def nameLooksLikeTimeout_def error_name_def
      readNumericStatus_def)

end
