(* ===== verification/Rate_Limit.thy ===== *)
theory Rate_Limit
  imports Config Errors
begin

text \<open>
  Rate limiting (\<open>rate-limit/smart-rate-limiter.service.ts\<close>): a token bucket per gateway key, run as
  a Lua script inside Redis, a counter of concurrent streams and a cooldown per key and provider.
  Redis is a record of commands over the world; each may fail. Field values of the bucket hash are
  the integers the script wrote. \<open>Date.now()\<close> is the parameter \<open>le_now\<close>, and the metrics service is
  \<open>le_metric\<close>. The script's division is exact here, where the Lua number is a double.
\<close>

section \<open>Redis commands the limiter uses\<close>

record 'w redis_ops =
  r_hgetall :: "string \<Rightarrow> ('w, (string \<times> int) list) io"
  r_hset :: "string \<Rightarrow> (string \<times> int) list \<Rightarrow> ('w, unit) io"
  r_expire :: "string \<Rightarrow> nat \<Rightarrow> ('w, unit) io"
  r_incr :: "string \<Rightarrow> ('w, int) io"
  r_decr :: "string \<Rightarrow> ('w, int) io"
  r_ttl :: "string \<Rightarrow> ('w, int) io"
  r_setex :: "string \<Rightarrow> string \<Rightarrow> nat \<Rightarrow> ('w, unit) io"

record rate_limit_runtime =
  rlr_rps :: nat
  rlr_burst :: nat
  rlr_maxConcurrentStreams :: nat
  rlr_cooldownAfter429 :: nat

record 'w limiter_env =
  le_ready :: "'w \<Rightarrow> bool"
  le_client :: "'w \<Rightarrow> 'w redis_ops option"
  le_clients :: "resolved_gateway_client list"
  le_rateLimit :: "rate_limit_runtime option"
  le_now :: "'w \<Rightarrow> int"
  le_metric :: "metric_event \<Rightarrow> 'w \<Rightarrow> 'w"

record rate_limit_result =
  allowed :: bool
  remaining :: int
  resetAt :: int
  reason :: "string option"

section \<open>The token bucket script\<close>

fun read_bucket :: "(string \<times> int) list \<Rightarrow> int \<times> int \<Rightarrow> int \<times> int" where
  "read_bucket [] acc = acc"
| "read_bucket ((f, v) # fs) (t, l) =
     read_bucket fs (if f = ''tokens'' then (v, l) else if f = ''lastRefill'' then (t, v) else (t, l))"

definition refill_amount :: "int \<Rightarrow> int \<Rightarrow> int \<Rightarrow> int" where
  "refill_amount elapsed window rate = \<lfloor>(rat_of_int elapsed / rat_of_int window) * rat_of_int rate\<rfloor>"

text \<open>The reply \<open>{allowed, tokens, lastRefill}\<close> and the fields to write, if any.\<close>

definition bucket_step ::
  "int \<Rightarrow> int \<Rightarrow> int \<Rightarrow> int \<Rightarrow> (string \<times> int) list \<Rightarrow> (bool \<times> int \<times> int) \<times> (string \<times> int) list option" where
  "bucket_step now rate burst window bucket =
     (let (tokens, lastRefill) =
        (if bucket \<noteq> [] then
           (let (t, l) = read_bucket bucket (burst, now)
            in (min burst (t + refill_amount (now - l) window rate), now))
         else (burst, now))
      in if tokens \<ge> 1
         then ((True, tokens - 1, lastRefill), Some [(''tokens'', tokens - 1), (''lastRefill'', lastRefill)])
         else ((False, 0, lastRefill), None))"

definition rate_script :: "'w redis_ops \<Rightarrow> string \<Rightarrow> int \<Rightarrow> int \<Rightarrow> int \<Rightarrow> int \<Rightarrow> ('w, bool \<times> int \<times> int) io" where
  "rate_script rd key now rate burst window =
     io_bind (r_hgetall rd key) (\<lambda>bucket.
       case bucket_step now rate burst window bucket of
         (reply, Some fvs) \<Rightarrow>
           io_bind (r_hset rd key fvs) (\<lambda>_. io_bind (r_expire rd key 60) (\<lambda>_. io_return reply))
       | (reply, None) \<Rightarrow> io_return reply)"

section \<open>The limiter's operations\<close>

text \<open>\<open>new Map(pairs)\<close>: the last client with a key wins; clients without a key are left out.\<close>

definition clientsMap :: "resolved_gateway_client list \<Rightarrow> string \<Rightarrow> resolved_gateway_client option" where
  "clientsMap cs = map_of (rev (map (\<lambda>c. (rgc_gatewayKey c, c)) (filter (\<lambda>c. rgc_gatewayKey c \<noteq> []) cs)))"

text \<open>\<open>Array.from(clientsMap.values())\<close>: one client per key, in the order the keys came first.\<close>

definition clients_values :: "resolved_gateway_client list \<Rightarrow> resolved_gateway_client list" where
  "clients_values cs =
     List.map_filter (clientsMap cs) (rev (remdups (rev (map rgc_gatewayKey (filter (\<lambda>c. rgc_gatewayKey c \<noteq> []) cs)))))"

definition getLimitsForClient :: "'w limiter_env \<Rightarrow> string \<Rightarrow> rate_limit_row" where
  "getLimitsForClient env key =
     (case clientsMap (le_clients env) key of
        Some c \<Rightarrow>
          (case rgc_rateLimit c of
             Some rl \<Rightarrow> rl
           | None \<Rightarrow> (case le_rateLimit env of
               Some r \<Rightarrow> \<lparr>rl_rps = rlr_rps r, rl_burst = rlr_burst r, rl_maxConcurrentStreams = rlr_maxConcurrentStreams r\<rparr>
             | None \<Rightarrow> \<lparr>rl_rps = 10, rl_burst = 20, rl_maxConcurrentStreams = 3\<rparr>))
      | None \<Rightarrow> (case le_rateLimit env of
          Some r \<Rightarrow> \<lparr>rl_rps = rlr_rps r, rl_burst = rlr_burst r, rl_maxConcurrentStreams = rlr_maxConcurrentStreams r\<rparr>
        | None \<Rightarrow> \<lparr>rl_rps = 10, rl_burst = 20, rl_maxConcurrentStreams = 3\<rparr>))"

text \<open>\<open>resolveClientIdFromKey.ts\<close>: the first client with the key; an empty name counts as none.\<close>

definition resolveClientIdFromKey :: "string \<Rightarrow> resolved_gateway_client list \<Rightarrow> string" where
  "resolveClientIdFromKey key cs =
     (case truthy_str (map_option rgc_name (find (\<lambda>c. rgc_gatewayKey c = key) cs)) of
        Some n \<Rightarrow> n | None \<Rightarrow> ''unknown'')"

definition allow_result :: "int \<Rightarrow> 'w limiter_env \<Rightarrow> ('w, rate_limit_result) io" where
  "allow_result rem env =
     io_get (\<lambda>w. \<lparr>allowed = True, remaining = rem, resetAt = le_now env w, reason = None\<rparr>)"

definition rate_key :: "string \<Rightarrow> string" where
  "rate_key key = ''rateLimit:key:'' @ key"

definition streams_key :: "string \<Rightarrow> string" where
  "streams_key key = ''rateLimit:streams:'' @ key"

definition cooldown_key :: "string \<Rightarrow> string \<Rightarrow> string" where
  "cooldown_key key provider = ''rateLimit:cooldown:'' @ key @ '':'' @ provider"

definition checkRateLimit :: "'w limiter_env \<Rightarrow> string \<Rightarrow> ('w, rate_limit_result) io" where
  "checkRateLimit env key =
     io_bind (io_get (le_ready env)) (\<lambda>ready.
       if \<not> ready then allow_result 9999999 env
       else let limits = getLimitsForClient env key in
         io_bind (io_get (le_now env)) (\<lambda>now.
           io_catch
             (io_bind (io_get (le_client env)) (\<lambda>cl.
                case cl of
                  None \<Rightarrow> allow_result 999 env
                | Some rd \<Rightarrow>
                    io_bind (rate_script rd (rate_key key) now (int (rl_rps limits)) (int (rl_burst limits)) 1000)
                      (\<lambda>(ok, rem, lastRefill).
                        io_bind (if ok then io_return ()
                                 else io_update (le_metric env (MRateLimit
                                   (resolveClientIdFromKey key (clients_values (le_clients env)))
                                   ReasonRate)))
                          (\<lambda>_. if ok
                            then io_return \<lparr>allowed = True, remaining = rem, resetAt = lastRefill + 1000, reason = None\<rparr>
                            else io_get (\<lambda>w. \<lparr>allowed = False, remaining = 0, resetAt = le_now env w,
                                   reason = Some ''Rate limit exceeded for gateway key.''\<rparr>)))))
             (\<lambda>e. allow_result 999 env)))"

definition checkConcurrentStreams :: "'w limiter_env \<Rightarrow> string \<Rightarrow> string \<Rightarrow> ('w, rate_limit_result) io" where
  "checkConcurrentStreams env key clientId =
     io_bind (io_get (le_ready env)) (\<lambda>ready.
       if \<not> ready then allow_result 999 env
       else let mx = int (rl_maxConcurrentStreams (getLimitsForClient env key)) in
         io_catch
           (io_bind (io_get (le_client env)) (\<lambda>cl.
              case cl of
                None \<Rightarrow> allow_result 999 env
              | Some rd \<Rightarrow>
                  io_bind (r_incr rd (streams_key key)) (\<lambda>current.
                  io_bind (r_expire rd (streams_key key) 300) (\<lambda>_.
                    if current \<le> mx
                    then io_get (\<lambda>w. \<lparr>allowed = True, remaining = mx - current,
                           resetAt = le_now env w + 300000, reason = None\<rparr>)
                    else
                      io_bind (r_decr rd (streams_key key)) (\<lambda>_.
                      io_bind (io_update (le_metric env (MRateLimit clientId ReasonConcurrency))) (\<lambda>_.
                        io_get (\<lambda>w. \<lparr>allowed = False, remaining = 0, resetAt = le_now env w + 300000,
                          reason = Some (''Max concurrent streams ('' @ show_int mx @
                            '') exceeded for gateway key.'')\<rparr>)))))))
           (\<lambda>e. allow_result 999 env))"

definition releaseStream :: "'w limiter_env \<Rightarrow> string \<Rightarrow> ('w, unit) io" where
  "releaseStream env key =
     io_bind (io_get (le_ready env)) (\<lambda>ready.
       if \<not> ready then io_return ()
       else io_catch
         (io_bind (io_get (le_client env)) (\<lambda>cl.
            case cl of
              None \<Rightarrow> io_return ()
            | Some rd \<Rightarrow> io_bind (r_decr rd (streams_key key)) (\<lambda>_. io_return ())))
         (\<lambda>e. io_return ()))"

definition checkCooldown :: "'w limiter_env \<Rightarrow> string \<Rightarrow> string \<Rightarrow> ('w, rate_limit_result) io" where
  "checkCooldown env key provider =
     io_bind (io_get (le_ready env)) (\<lambda>ready.
       if \<not> ready then allow_result 999 env
       else io_catch
         (io_bind (io_get (le_client env)) (\<lambda>cl.
            case cl of
              None \<Rightarrow> allow_result 999 env
            | Some rd \<Rightarrow>
                io_bind (r_ttl rd (cooldown_key key provider)) (\<lambda>ttl.
                  if ttl > 0
                  then io_get (\<lambda>w. \<lparr>allowed = False, remaining = 0, resetAt = le_now env w + ttl * 1000,
                         reason = Some (''Provider '' @ provider @ '' in cooldown after 429. '' @
                           show_int ttl @ '' remaining.'')\<rparr>)
                  else allow_result 999 env)))
         (\<lambda>e. allow_result 999 env))"

definition setCooldown :: "'w limiter_env \<Rightarrow> string \<Rightarrow> string \<Rightarrow> ('w, unit) io" where
  "setCooldown env key provider =
     io_bind (io_get (le_ready env)) (\<lambda>ready.
       if \<not> ready then io_return ()
       else let cooldownSeconds = (case le_rateLimit env of Some r \<Rightarrow> rlr_cooldownAfter429 r | None \<Rightarrow> 60) in
         io_catch
           (io_bind (io_get (le_client env)) (\<lambda>cl.
              case cl of
                None \<Rightarrow> io_return ()
              | Some rd \<Rightarrow> r_setex rd (cooldown_key key provider) (show_nat cooldownSeconds) cooldownSeconds))
           (\<lambda>e. io_return ()))"

section \<open>The interface of the limiter\<close>

text \<open>What the guards and the chat services rely on: no operation of the limiter throws, and with
  Redis down every check answers yes without touching anything.\<close>

lemmas limiter_defs = checkRateLimit_def checkConcurrentStreams_def releaseStream_def checkCooldown_def
  setCooldown_def allow_result_def Let_def

lemma checkRateLimit_total: "never_throws (checkRateLimit env k)"
  unfolding limiter_defs by (intro total_intros)

lemma checkConcurrentStreams_total: "never_throws (checkConcurrentStreams env k c)"
  unfolding limiter_defs by (intro total_intros)

lemma releaseStream_total: "never_throws (releaseStream env k)"
  unfolding limiter_defs by (intro total_intros)

lemma checkCooldown_total: "never_throws (checkCooldown env k p)"
  unfolding limiter_defs by (intro total_intros)

lemma setCooldown_total: "never_throws (setCooldown env k p)"
  unfolding limiter_defs by (intro total_intros)

locale rate_limiter =
  fixes ready :: "'w \<Rightarrow> bool"
    and rate :: "string \<Rightarrow> ('w, rate_limit_result) io"
    and streams :: "string \<Rightarrow> string \<Rightarrow> ('w, rate_limit_result) io"
    and release :: "string \<Rightarrow> ('w, unit) io"
    and cooldown :: "string \<Rightarrow> string \<Rightarrow> ('w, rate_limit_result) io"
    and start_cooldown :: "string \<Rightarrow> string \<Rightarrow> ('w, unit) io"
  assumes rate_total: "never_throws (rate k)"
    and streams_total: "never_throws (streams k c)"
    and release_total: "never_throws (release k)"
    and cooldown_total: "never_throws (cooldown k p)"
    and start_cooldown_total: "never_throws (start_cooldown k p)"
    and rate_open: "\<not> ready w \<Longrightarrow> \<exists>r. rate k w = (Inr r, w) \<and> allowed r"
    and streams_open: "\<not> ready w \<Longrightarrow> \<exists>r. streams k c w = (Inr r, w) \<and> allowed r"
    and cooldown_open: "\<not> ready w \<Longrightarrow> \<exists>r. cooldown k p w = (Inr r, w) \<and> allowed r"
    and release_idle: "\<not> ready w \<Longrightarrow> release k w = (Inr (), w)"
    and start_cooldown_idle: "\<not> ready w \<Longrightarrow> start_cooldown k p w = (Inr (), w)"
    and denial_has_reason: "rate k w = (Inr r, w') \<Longrightarrow> \<not> allowed r \<Longrightarrow> reason r \<noteq> None"
begin

text \<open>A whole admission check on a stream request never throws and passes with Redis down.\<close>

lemma admission_total: "never_throws (io_bind (rate k) (\<lambda>r. if allowed r then streams k c else io_return r))"
  by (intro total_intros rate_total streams_total)

lemma admission_open:
  assumes "\<not> ready w"
  shows "\<exists>r. io_bind (rate k) (\<lambda>r. if allowed r then streams k c else io_return r) w = (Inr r, w) \<and> allowed r"
proof -
  from rate_open [OF assms, of k] obtain r where "rate k w = (Inr r, w)" "allowed r" by blast
  with streams_open [OF assms, of k c] show ?thesis by (auto simp: io_bind_apply)
qed

end

lemma checkRateLimit_denied:
  "checkRateLimit env k w = (Inr r, w') \<Longrightarrow> \<not> allowed r \<Longrightarrow>
   reason r = Some ''Rate limit exceeded for gateway key.''"
  by (auto simp: checkRateLimit_def allow_result_def Let_def io_bind_apply io_catch_apply
      split: if_splits sum.splits prod.splits option.splits)

lemma limiter_open:
  assumes "\<not> le_ready env w"
  shows "\<exists>r. checkRateLimit env k w = (Inr r, w) \<and> allowed r"
    "\<exists>r. checkConcurrentStreams env k c w = (Inr r, w) \<and> allowed r"
    "\<exists>r. checkCooldown env k p w = (Inr r, w) \<and> allowed r"
    "releaseStream env k w = (Inr (), w)" "setCooldown env k p w = (Inr (), w)"
  using assms by (simp_all add: limiter_defs io_bind_apply)

interpretation limiter: rate_limiter "le_ready env" "checkRateLimit env" "checkConcurrentStreams env"
  "releaseStream env" "checkCooldown env" "setCooldown env"
  for env :: "'w limiter_env"
  by unfold_locales
    (simp_all add: checkRateLimit_total checkConcurrentStreams_total releaseStream_total checkCooldown_total
       setCooldown_total limiter_open checkRateLimit_denied)

end
