(* ===== verification/Rate_Limit_Props.thy ===== *)
theory Rate_Limit_Props
  imports Rate_Limit "HOL-Library.AList"
begin

text \<open>
  What the limiter guarantees on top of a Redis that behaves as documented. \<open>redis_laws\<close> states the
  commands' documented behaviour over an abstract view of the keys (value and expiry time);
  \<open>mem_redis\<close> is a store in memory for which the laws hold, on which the witnesses run. Results: the token
  bucket serves at most \<open>burst\<close> requests plus \<open>rate\<close> per second as long as a full bucket refills
  within the 60 seconds after which its key expires; the stream counter bounds the open streams for
  every interleaving of admissions and releases as long as the counter's key does not expire.
\<close>

section \<open>Documented behaviour of Redis\<close>

datatype redis_value = RHash "(string \<times> int) list" | RInt int | RText string

type_synonym redis_entry = "redis_value \<times> int option"

definition live :: "int \<Rightarrow> redis_entry option \<Rightarrow> redis_entry option" where
  "live now x = (case x of Some (v, Some e) \<Rightarrow> if now < e then x else None | _ \<Rightarrow> x)"

fun hash_of :: "redis_entry option \<Rightarrow> (string \<times> int) list option" where
  "hash_of None = Some []"
| "hash_of (Some (RHash h, e)) = Some h"
| "hash_of _ = None"

fun int_of :: "redis_entry option \<Rightarrow> int option" where
  "int_of None = Some 0"
| "int_of (Some (RInt i, e)) = Some i"
| "int_of _ = None"

fun expiry_of :: "redis_entry option \<Rightarrow> int option" where
  "expiry_of None = None"
| "expiry_of (Some (v, e)) = e"

definition hset_fields :: "(string \<times> int) list \<Rightarrow> (string \<times> int) list \<Rightarrow> (string \<times> int) list" where
  "hset_fields old new = fold (\<lambda>(f, v). AList.update f v) new old"

fun ttl_of :: "int \<Rightarrow> redis_entry option \<Rightarrow> int" where
  "ttl_of now None = -2"
| "ttl_of now (Some (v, None)) = -1"
| "ttl_of now (Some (v, Some e)) = (e - now + 500) div 1000"

text \<open>HGETALL returns the fields in any order; HSET keeps the expiry and the other fields; INCR and DECR
  count from 0 and keep the expiry; EXPIRE and SET with EX count from the current time; TTL rounds to the nearest second.\<close>

definition redis_laws :: "'w redis_ops \<Rightarrow> ('w \<Rightarrow> string \<Rightarrow> redis_entry option) \<Rightarrow> ('w \<Rightarrow> int) \<Rightarrow> bool" where
  "redis_laws rd store now \<longleftrightarrow>
     (\<forall>k w h. hash_of (live (now w) (store w k)) = Some h \<longrightarrow>
        (\<exists>fs. r_hgetall rd k w = (Inr fs, w) \<and> set fs = set h \<and> length fs = length h)) \<and>
     (\<forall>k w h new. hash_of (live (now w) (store w k)) = Some h \<longrightarrow>
        (\<exists>w'. r_hset rd k new w = (Inr (), w') \<and> now w' = now w \<and>
              store w' = (store w)(k \<mapsto> (RHash (hset_fields h new), expiry_of (live (now w) (store w k)))))) \<and>
     (\<forall>k w n. \<exists>w'. r_expire rd k n w = (Inr (), w') \<and> now w' = now w \<and>
        store w' = (store w)(k := map_option (\<lambda>(v, _). (v, Some (now w + 1000 * int n))) (live (now w) (store w k)))) \<and>
     (\<forall>k w i. int_of (live (now w) (store w k)) = Some i \<longrightarrow>
        (\<exists>w'. r_incr rd k w = (Inr (i + 1), w') \<and> now w' = now w \<and>
              store w' = (store w)(k \<mapsto> (RInt (i + 1), expiry_of (live (now w) (store w k)))))) \<and>
     (\<forall>k w i. int_of (live (now w) (store w k)) = Some i \<longrightarrow>
        (\<exists>w'. r_decr rd k w = (Inr (i - 1), w') \<and> now w' = now w \<and>
              store w' = (store w)(k \<mapsto> (RInt (i - 1), expiry_of (live (now w) (store w k)))))) \<and>
     (\<forall>k w. r_ttl rd k w = (Inr (ttl_of (now w) (live (now w) (store w k))), w)) \<and>
     (\<forall>k v n w. n > 0 \<longrightarrow>
        (\<exists>w'. r_setex rd k v n w = (Inr (), w') \<and> now w' = now w \<and>
              store w' = (store w)(k \<mapsto> (RText v, Some (now w + 1000 * int n)))))"

text \<open>The limiter's Redis is connected, and recording a metric leaves Redis and the clock alone.\<close>

definition redis_up :: "'w limiter_env \<Rightarrow> 'w redis_ops \<Rightarrow> ('w \<Rightarrow> string \<Rightarrow> redis_entry option) \<Rightarrow> bool" where
  "redis_up env rd store \<longleftrightarrow>
     redis_laws rd store (le_now env) \<and>
     (\<forall>w. le_ready env w \<and> le_client env w = Some rd) \<and>
     (\<forall>ev w. store (le_metric env ev w) = store w \<and> le_now env (le_metric env ev w) = le_now env w)"

lemma redis_laws_hgetall:
  "redis_laws rd store now \<Longrightarrow> hash_of (live (now w) (store w k)) = Some h \<Longrightarrow>
     \<exists>fs. r_hgetall rd k w = (Inr fs, w) \<and> set fs = set h \<and> length fs = length h"
  by (simp only: redis_laws_def)

lemma redis_laws_hset:
  "redis_laws rd store now \<Longrightarrow> hash_of (live (now w) (store w k)) = Some h \<Longrightarrow>
     \<exists>w'. r_hset rd k new w = (Inr (), w') \<and> now w' = now w \<and>
       store w' = (store w)(k \<mapsto> (RHash (hset_fields h new), expiry_of (live (now w) (store w k))))"
  by (simp only: redis_laws_def)

lemma redis_laws_expire:
  "redis_laws rd store now \<Longrightarrow>
     \<exists>w'. r_expire rd k n w = (Inr (), w') \<and> now w' = now w \<and>
       store w' = (store w)(k := map_option (\<lambda>(v, _). (v, Some (now w + 1000 * int n))) (live (now w) (store w k)))"
  by (simp only: redis_laws_def)

lemma redis_laws_incr:
  "redis_laws rd store now \<Longrightarrow> int_of (live (now w) (store w k)) = Some i \<Longrightarrow>
     \<exists>w'. r_incr rd k w = (Inr (i + 1), w') \<and> now w' = now w \<and>
       store w' = (store w)(k \<mapsto> (RInt (i + 1), expiry_of (live (now w) (store w k))))"
  by (simp only: redis_laws_def)

lemma redis_laws_decr:
  "redis_laws rd store now \<Longrightarrow> int_of (live (now w) (store w k)) = Some i \<Longrightarrow>
     \<exists>w'. r_decr rd k w = (Inr (i - 1), w') \<and> now w' = now w \<and>
       store w' = (store w)(k \<mapsto> (RInt (i - 1), expiry_of (live (now w) (store w k))))"
  by (simp only: redis_laws_def)

lemma redis_laws_ttl:
  "redis_laws rd store now \<Longrightarrow> r_ttl rd k w = (Inr (ttl_of (now w) (live (now w) (store w k))), w)"
  by (simp only: redis_laws_def)

lemma redis_laws_setex:
  "redis_laws rd store now \<Longrightarrow> n > 0 \<Longrightarrow>
     \<exists>w'. r_setex rd k v n w = (Inr (), w') \<and> now w' = now w \<and>
       store w' = (store w)(k \<mapsto> (RText v, Some (now w + 1000 * int n)))"
  by (simp only: redis_laws_def)

lemma live_idem [simp]: "live now (live now x) = live now x"
  by (auto simp: live_def split: option.splits prod.splits)

text \<open>A key that has just been written with the expiry of its live entry is still live.\<close>

lemma live_kept [simp]: "live now (Some (v, expiry_of (live now x))) = Some (v, expiry_of (live now x))"
  by (auto simp: live_def split: option.splits)

section \<open>A store in memory\<close>

record mem_world =
  mw_store :: "string \<Rightarrow> redis_entry option"
  mw_now :: int
  mw_metrics :: "metric_event list"

definition mem_get :: "mem_world \<Rightarrow> string \<Rightarrow> redis_entry option" where
  "mem_get w k = live (mw_now w) (mw_store w k)"

definition mem_put :: "string \<Rightarrow> redis_entry option \<Rightarrow> mem_world \<Rightarrow> mem_world" where
  "mem_put k x w = w\<lparr>mw_store := (mw_store w)(k := x)\<rparr>"

definition wrong_type :: jserr where
  "wrong_type = plain_error ''WRONGTYPE Operation against a key holding the wrong kind of value''"

definition mem_add :: "int \<Rightarrow> string \<Rightarrow> (mem_world, int) io" where
  "mem_add d k w = (case int_of (mem_get w k) of
      None \<Rightarrow> (Inl wrong_type, w)
    | Some i \<Rightarrow> (Inr (i + d), mem_put k (Some (RInt (i + d), expiry_of (mem_get w k))) w))"

definition mem_redis :: "mem_world redis_ops" where
  "mem_redis = \<lparr>
     r_hgetall = (\<lambda>k w. case hash_of (mem_get w k) of None \<Rightarrow> (Inl wrong_type, w) | Some h \<Rightarrow> (Inr h, w)),
     r_hset = (\<lambda>k new w. case hash_of (mem_get w k) of
        None \<Rightarrow> (Inl wrong_type, w)
      | Some h \<Rightarrow> (Inr (), mem_put k (Some (RHash (hset_fields h new), expiry_of (mem_get w k))) w)),
     r_expire = (\<lambda>k n w. (Inr (), mem_put k (map_option (\<lambda>(v, _). (v, Some (mw_now w + 1000 * int n))) (mem_get w k)) w)),
     r_incr = mem_add 1,
     r_decr = mem_add (-1),
     r_ttl = (\<lambda>k w. (Inr (ttl_of (mw_now w) (mem_get w k)), w)),
     r_setex = (\<lambda>k v n w. (Inr (), mem_put k (Some (RText v, Some (mw_now w + 1000 * int n))) w))\<rparr>"

lemmas mem_redis_defs = mem_redis_def mem_put_def mem_get_def mem_add_def

lemma mem_redis_laws: "redis_laws mem_redis mw_store mw_now"
  unfolding redis_laws_def by (intro conjI allI impI) (auto simp: mem_redis_defs)

definition mem_env :: "rate_limit_runtime \<Rightarrow> resolved_gateway_client list \<Rightarrow> mem_world limiter_env" where
  "mem_env rl cs = \<lparr>le_ready = (\<lambda>_. True), le_client = (\<lambda>_. Some mem_redis), le_clients = cs,
     le_rateLimit = Some rl, le_now = mw_now, le_metric = (\<lambda>ev w. w\<lparr>mw_metrics := ev # mw_metrics w\<rparr>)\<rparr>"

lemma mem_redis_up: "redis_up (mem_env rl cs) mem_redis mw_store"
  by (simp add: redis_up_def mem_env_def mem_redis_laws)

lemma le_now_mem_env [simp]: "le_now (mem_env rl cs) = mw_now"
  by (simp add: mem_env_def)

definition mem_init :: mem_world where
  "mem_init = \<lparr>mw_store = (\<lambda>_. None), mw_now = 0, mw_metrics = []\<rparr>"

section \<open>The token bucket\<close>

lemma redis_upD:
  assumes "redis_up env rd store"
  shows "redis_laws rd store (le_now env)" "le_ready env w" "le_client env w = Some rd"
    "store (le_metric env ev w) = store w" "le_now env (le_metric env ev w) = le_now env w"
  using assms by (auto simp: redis_up_def)

definition bucket_hash :: "int \<Rightarrow> int \<Rightarrow> (string \<times> int) list" where
  "bucket_hash t l = [(''tokens'', t), (''lastRefill'', l)]"

lemma read_bucket_hash:
  assumes "set fs = set (bucket_hash t l)" "length fs = length (bucket_hash t l)"
  shows "read_bucket fs acc = (t, l) \<and> fs \<noteq> []"
proof -
  from assms(2) obtain x y where fs: "fs = [x, y]"
    by (auto simp: bucket_hash_def length_Suc_conv)
  with assms(1) have "{x, y} = {(''tokens'', t), (''lastRefill'', l)}"
    by (simp add: bucket_hash_def)
  then have "(x = (''tokens'', t) \<and> y = (''lastRefill'', l)) \<or> (y = (''tokens'', t) \<and> x = (''lastRefill'', l))"
    by (auto simp: doubleton_eq_iff)
  then show ?thesis using fs by (cases acc) auto
qed

lemma hset_bucket_hash [simp]:
  "hset_fields [] (bucket_hash t l) = bucket_hash t l"
  "hset_fields (bucket_hash t0 l0) (bucket_hash t l) = bucket_hash t l"
  by (simp_all add: hset_fields_def bucket_hash_def)

text \<open>The tokens the script counts at time \<open>now\<close>: all of them on a fresh key, else the refilled ones.\<close>

definition tokens_at :: "int \<Rightarrow> int \<Rightarrow> int \<Rightarrow> (int \<times> int) option \<Rightarrow> int" where
  "tokens_at now rate burst b =
     (case b of None \<Rightarrow> burst | Some (t, l) \<Rightarrow> min burst (t + refill_amount (now - l) 1000 rate))"

fun bucket_entry :: "redis_entry option \<Rightarrow> (int \<times> int) option \<Rightarrow> bool" where
  "bucket_entry None None = True"
| "bucket_entry (Some (RHash h, e)) (Some (t, l)) = (h = bucket_hash t l)"
| "bucket_entry _ _ = False"

lemma refill_bound: "1000 * refill_amount d 1000 rate \<le> d * rate"
proof -
  have "rat_of_int (refill_amount d 1000 rate) \<le> rat_of_int d / rat_of_int 1000 * rat_of_int rate"
    unfolding refill_amount_def by (rule of_int_floor_le)
  then have "rat_of_int (1000 * refill_amount d 1000 rate) \<le> rat_of_int (d * rate)" by simp
  then show ?thesis by (simp only: of_int_le_iff)
qed

text \<open>One run of the script on a connected Redis.\<close>

lemma rate_script_run:
  assumes laws: "redis_laws rd store now"
    and entry: "bucket_entry (live (now w) (store w k)) b"
  shows "let t = tokens_at (now w) rate burst b in
     if t \<ge> 1 then
       (\<exists>w'. rate_script rd k (now w) rate burst 1000 w = (Inr (True, t - 1, now w), w') \<and> now w' = now w \<and>
          store w' = (store w)(k \<mapsto> (RHash (bucket_hash (t - 1) (now w)), Some (now w + 60000))))
     else rate_script rd k (now w) rate burst 1000 w = (Inr (False, 0, now w), w)"
proof -
  let ?L = "live (now w) (store w k)" and ?t = "tokens_at (now w) rate burst b"
  obtain h where h: "hash_of ?L = Some h" "h = (case b of None \<Rightarrow> [] | Some (t, l) \<Rightarrow> bucket_hash t l)"
    using entry by (cases "(?L, b)" rule: bucket_entry.cases) auto
  obtain fs where fs: "r_hgetall rd k w = (Inr fs, w)" "set fs = set h" "length fs = length h"
    using redis_laws_hgetall [OF laws h(1)] by blast
  have step: "bucket_step (now w) rate burst 1000 fs =
      (if ?t \<ge> 1 then ((True, ?t - 1, now w), Some (bucket_hash (?t - 1) (now w))) else ((False, 0, now w), None))"
  proof (cases b)
    case None
    with h(2) fs(3) have "fs = []" by simp
    with None show ?thesis by (simp add: bucket_step_def tokens_at_def bucket_hash_def)
  next
    case (Some a)
    then obtain t0 l0 where b: "b = Some (t0, l0)" by (cases a) simp
    with h(2) fs(2,3) have "read_bucket fs (burst, now w) = (t0, l0)" "fs \<noteq> []"
      using read_bucket_hash [of fs t0 l0] by simp_all
    then show ?thesis by (simp add: b bucket_step_def tokens_at_def bucket_hash_def)
  qed
  show ?thesis
  proof (cases "?t \<ge> 1")
    case True
    obtain w1 where w1: "r_hset rd k (bucket_hash (?t - 1) (now w)) w = (Inr (), w1)"
      "now w1 = now w" "store w1 = (store w)(k \<mapsto> (RHash (hset_fields h (bucket_hash (?t - 1) (now w))), expiry_of ?L))"
      using redis_laws_hset [OF laws h(1)] by blast
    obtain w2 where w2: "r_expire rd k 60 w1 = (Inr (), w2)" "now w2 = now w1"
      "store w2 = (store w1)(k := map_option (\<lambda>(v, _). (v, Some (now w1 + 1000 * int 60))) (live (now w1) (store w1 k)))"
      using redis_laws_expire [OF laws] by blast
    have "live (now w1) (store w1 k) = store w1 k" by (simp add: w1)
    moreover have "hset_fields h (bucket_hash (?t - 1) (now w)) = bucket_hash (?t - 1) (now w)"
      using h(2) by (cases b) auto
    ultimately show ?thesis using True w1 w2 step
      by (simp add: rate_script_def io_bind_apply fs(1) Let_def)
  next
    case False
    then show ?thesis using step by (simp add: rate_script_def io_bind_apply fs(1) Let_def)
  qed
qed

lemma checkRateLimit_run:
  assumes up: "redis_up env rd store"
    and entry: "bucket_entry (live (le_now env w) (store w (rate_key key))) b"
    and lm: "getLimitsForClient env key = lm"
  defines "t \<equiv> tokens_at (le_now env w) (int (rl_rps lm)) (int (rl_burst lm)) b"
  shows "\<exists>r w'. checkRateLimit env key w = (Inr r, w') \<and> le_now env w' = le_now env w \<and> (allowed r \<longleftrightarrow> t \<ge> 1) \<and>
     store w' = (if t \<ge> 1
       then (store w)(rate_key key \<mapsto> (RHash (bucket_hash (t - 1) (le_now env w)), Some (le_now env w + 60000)))
       else store w) \<and> (t \<ge> 1 \<longrightarrow> remaining r = t - 1)"
proof (cases "t \<ge> 1")
  case True
  with rate_script_run [OF redis_upD(1) [OF up] entry, of "int (rl_rps lm)" "int (rl_burst lm)"]
  obtain w' where "rate_script rd (rate_key key) (le_now env w) (int (rl_rps lm)) (int (rl_burst lm)) 1000 w
       = (Inr (True, t - 1, le_now env w), w')" "le_now env w' = le_now env w"
    "store w' = (store w)(rate_key key \<mapsto> (RHash (bucket_hash (t - 1) (le_now env w)), Some (le_now env w + 60000)))"
    unfolding t_def Let_def by auto
  then show ?thesis using True redis_upD(2,3) [OF up]
    by (simp add: checkRateLimit_def io_bind_apply io_catch_apply Let_def lm)
next
  case False
  with rate_script_run [OF redis_upD(1) [OF up] entry, of "int (rl_rps lm)" "int (rl_burst lm)"]
  have "rate_script rd (rate_key key) (le_now env w) (int (rl_rps lm)) (int (rl_burst lm)) 1000 w
       = (Inr (False, 0, le_now env w), w)"
    unfolding t_def Let_def by auto
  then show ?thesis using False redis_upD(2-5) [OF up]
    by (simp add: checkRateLimit_def io_bind_apply io_catch_apply Let_def lm)
qed

text \<open>A client's history: requests at the limiter, with time passing in between; \<open>n\<close> is the number of
  requests served so far. Other keys of Redis may change while time passes.\<close>

inductive served :: "'w limiter_env \<Rightarrow> ('w \<Rightarrow> string \<Rightarrow> redis_entry option) \<Rightarrow> string \<Rightarrow> 'w \<Rightarrow> nat \<Rightarrow> 'w \<Rightarrow> bool"
  for env store key where
  served_start: "store w (rate_key key) = None \<Longrightarrow> served env store key w 0 w"
| served_wait: "served env store key w0 n w \<Longrightarrow> store w' (rate_key key) = store w (rate_key key) \<Longrightarrow>
     le_now env w \<le> le_now env w' \<Longrightarrow> served env store key w0 n w'"
| served_request: "served env store key w0 n w \<Longrightarrow> checkRateLimit env key w = (Inr r, w') \<Longrightarrow>
     served env store key w0 (if allowed r then Suc n else n) w'"

definition bucket_inv :: "int \<Rightarrow> int \<Rightarrow> int \<Rightarrow> int \<Rightarrow> nat \<Rightarrow> redis_entry option \<Rightarrow> bool" where
  "bucket_inv rate burst t0 now n x \<longleftrightarrow> t0 \<le> now \<and>
     (case x of
        None \<Rightarrow> n = 0
      | Some (v, e) \<Rightarrow> \<exists>t l. v = RHash (bucket_hash t l) \<and> e = Some (l + 60000) \<and> 0 \<le> t \<and> t0 \<le> l \<and> l \<le> now \<and>
           1000 * (int n + t) \<le> 1000 * burst + rate * (l - t0))"

lemma bucket_inv_request:
  assumes inv: "bucket_inv rate burst t0 now n x" and rate: "0 \<le> rate" "burst \<le> 60 * rate"
    and entry: "bucket_entry (live now x) b" and t: "t = tokens_at now rate burst b" "t \<ge> 1"
  shows "1000 * (int n + t) \<le> 1000 * burst + rate * (now - t0)"
proof (cases x)
  case None
  with inv entry have "n = 0" "b = None" "t0 \<le> now"
    by (auto simp: bucket_inv_def live_def elim: bucket_entry.elims)
  then show ?thesis using t rate(1) by (simp add: tokens_at_def)
next
  case (Some a)
  with inv obtain t1 l where x: "x = Some (RHash (bucket_hash t1 l), Some (l + 60000))" "0 \<le> t1" "t0 \<le> l" "l \<le> now"
    "1000 * (int n + t1) \<le> 1000 * burst + rate * (l - t0)"
    by (auto simp: bucket_inv_def)
  show ?thesis
  proof (cases "now < l + 60000")
    case True
    with x entry have "b = Some (t1, l)"
      by (auto simp: live_def bucket_hash_def elim: bucket_entry.elims)
    then have "t \<le> t1 + refill_amount (now - l) 1000 rate" using t by (simp add: tokens_at_def)
    with refill_bound [of "now - l" rate] have "1000 * t \<le> 1000 * t1 + (now - l) * rate" by linarith
    with x(5) show ?thesis by (simp add: algebra_simps)
  next
    case False
    with x entry have "b = None" by (auto simp: live_def elim: bucket_entry.elims)
    then have "t = burst" using t by (simp add: tokens_at_def)
    moreover have "rate * 60000 \<le> rate * (now - l)" using False rate(1) by (intro mult_left_mono) auto
    ultimately show ?thesis using x(2,5) rate(2) by (simp add: algebra_simps)
  qed
qed

lemma bucket_inv_entry:
  assumes "bucket_inv rate burst t0 now n x"
  shows "\<exists>b. bucket_entry (live now x) b"
proof (cases "live now x")
  case None
  then show ?thesis by (intro exI [of _ None]) simp
next
  case (Some a)
  then have "x = Some a" by (auto simp: live_def split: option.splits prod.splits if_splits)
  with assms obtain t l where "a = (RHash (bucket_hash t l), Some (l + 60000))"
    by (cases a) (auto simp: bucket_inv_def)
  with Some show ?thesis by (intro exI [of _ "Some (t, l)"]) simp
qed

lemma served_inv:
  assumes "served env store key w0 n w" and up: "redis_up env rd store"
    and lm: "getLimitsForClient env key = lm" "rl_burst lm \<le> 60 * rl_rps lm"
  shows "bucket_inv (int (rl_rps lm)) (int (rl_burst lm)) (le_now env w0) (le_now env w) n (store w (rate_key key))"
  using assms(1)
proof induction
  case (served_start w)
  then show ?case by (simp add: bucket_inv_def)
next
  case (served_wait w0 n w w')
  then show ?case by (fastforce simp: bucket_inv_def split: option.splits)
next
  case (served_request w0 n w r w')
  let ?rate = "int (rl_rps lm)" and ?burst = "int (rl_burst lm)" and ?x = "store w (rate_key key)"
  obtain b where b: "bucket_entry (live (le_now env w) ?x) b"
    using bucket_inv_entry [OF served_request.IH] by blast
  let ?t = "tokens_at (le_now env w) ?rate ?burst b"
  from checkRateLimit_run [OF up b lm(1)] served_request.hyps(2)
  have run: "le_now env w' = le_now env w" "allowed r \<longleftrightarrow> ?t \<ge> 1"
    "store w' = (if ?t \<ge> 1
       then (store w)(rate_key key \<mapsto> (RHash (bucket_hash (?t - 1) (le_now env w)), Some (le_now env w + 60000)))
       else store w)" by auto
  show ?case
  proof (cases "?t \<ge> 1")
    case True
    with bucket_inv_request [OF served_request.IH _ _ b refl True] lm(2) served_request.IH run
    show ?thesis by (auto simp: bucket_inv_def)
  next
    case False
    with served_request.IH run show ?thesis by simp
  qed
qed

text \<open>C3. A client whose bucket refills within a minute (\<open>burst \<le> 60 * rps\<close>) is served at most \<open>burst\<close>
  requests plus \<open>rps\<close> for every second since its first request, whatever the times of its requests and
  in spite of the expiry of the bucket's key.\<close>

theorem token_bucket_bound:
  assumes "redis_up env rd store" and "served env store key w0 n w"
    and "rl_burst (getLimitsForClient env key) \<le> 60 * rl_rps (getLimitsForClient env key)"
  shows "1000 * int n \<le> 1000 * int (rl_burst (getLimitsForClient env key)) +
           int (rl_rps (getLimitsForClient env key)) * (le_now env w - le_now env w0)"
proof -
  let ?l = "getLimitsForClient env key"
  from served_inv [OF assms(2,1) refl assms(3)] show ?thesis
  proof (cases "store w (rate_key key)")
    case (Some a)
    with served_inv [OF assms(2,1) refl assms(3)] obtain t l where
      "0 \<le> t" "l \<le> le_now env w" "1000 * (int n + t) \<le> 1000 * int (rl_burst ?l) + int (rl_rps ?l) * (l - le_now env w0)"
      by (auto simp: bucket_inv_def)
    moreover from this(2) have "int (rl_rps ?l) * (l - le_now env w0) \<le> int (rl_rps ?l) * (le_now env w - le_now env w0)"
      by (intro mult_left_mono) auto
    moreover have "1000 * int n \<le> 1000 * (int n + t)" using \<open>0 \<le> t\<close> by simp
    ultimately show ?thesis by (meson add_left_mono order_trans)
  qed (auto simp: bucket_inv_def)
qed

definition sample_limits :: rate_limit_runtime where
  "sample_limits = \<lparr>rlr_rps = 1, rlr_burst = 1, rlr_maxConcurrentStreams = 1, rlr_cooldownAfter429 = 60\<rparr>"

theorem token_bucket_bound_witness:
  "let env = mem_env sample_limits []; (r1, w1) = checkRateLimit env ''k'' mem_init; (r2, w2) = checkRateLimit env ''k'' w1
   in (map_sum id allowed r1, map_sum id allowed r2) = (Inr True, Inr False) \<and> 1000 * int 1 \<le> 1000 * int 1 + int 1 * (mw_now w2 - 0)"
proof -
  let ?env = "mem_env sample_limits []"
  have lm: "getLimitsForClient ?env ''k'' = \<lparr>rl_rps = 1, rl_burst = 1, rl_maxConcurrentStreams = 1\<rparr>" by code_simp
  obtain r1 w1 where 1: "checkRateLimit ?env ''k'' mem_init = (r1, w1)" by fastforce
  obtain r2 w2 where 2: "checkRateLimit ?env ''k'' w1 = (r2, w2)" by fastforce
  have "map_sum id allowed (fst (checkRateLimit ?env ''k'' mem_init)) = Inr True" by code_simp
  moreover have "map_sum id allowed (fst (checkRateLimit ?env ''k'' (snd (checkRateLimit ?env ''k'' mem_init)))) = Inr False"
    by code_simp
  ultimately obtain a b where a: "r1 = Inr a" "allowed a" "r2 = Inr b" "\<not> allowed b"
    using 1 2 by (cases r1; cases r2) auto
  have "served ?env mw_store ''k'' mem_init 0 mem_init"
    by (rule served_start) (simp add: mem_init_def)
  then have "served ?env mw_store ''k'' mem_init 1 w1"
    using served_request [of ?env mw_store "''k''" mem_init 0 mem_init a w1] 1 a by simp
  then have "served ?env mw_store ''k'' mem_init 1 w2"
    using served_request [of ?env mw_store "''k''" mem_init 1 w1 b w2] 2 a by simp
  from token_bucket_bound [OF mem_redis_up this]
  have "1000 * int 1 \<le> 1000 * int 1 + int 1 * (mw_now w2 - 0)" by (simp add: lm mem_init_def)
  then show ?thesis unfolding Let_def 1 using 2 a by simp
qed

section \<open>Concurrent streams\<close>

text \<open>Commands of concurrent requests on one counter, interleaved: \<open>a\<close> streams are open and \<open>p\<close> requests
  have counted themselves, were over the limit and have yet to take the count back. A whole
  \<open>checkConcurrentStreams\<close> is \<open>take\<close>, or \<open>over\<close> and then \<open>back\<close>; a stream that ends calls
  \<open>releaseStream\<close>. While time passes the counter's key does not expire.\<close>

inductive stream_reach ::
  "'w limiter_env \<Rightarrow> 'w redis_ops \<Rightarrow> ('w \<Rightarrow> string \<Rightarrow> redis_entry option) \<Rightarrow> string \<Rightarrow> 'w \<Rightarrow> nat \<Rightarrow> nat \<Rightarrow> bool"
  for env rd store key where
  sr_start: "store w (streams_key key) = None \<Longrightarrow> stream_reach env rd store key w 0 0"
| sr_wait: "stream_reach env rd store key w a p \<Longrightarrow>
     store w' (streams_key key) = store w (streams_key key) \<Longrightarrow>
     live (le_now env w') (store w (streams_key key)) = store w (streams_key key) \<Longrightarrow>
     stream_reach env rd store key w' a p"
| sr_take: "stream_reach env rd store key w a p \<Longrightarrow>
     r_incr rd (streams_key key) w = (Inr c, w1) \<Longrightarrow> r_expire rd (streams_key key) 300 w1 = (Inr (), w2) \<Longrightarrow>
     c \<le> int (rl_maxConcurrentStreams (getLimitsForClient env key)) \<Longrightarrow>
     stream_reach env rd store key w2 (Suc a) p"
| sr_over: "stream_reach env rd store key w a p \<Longrightarrow>
     r_incr rd (streams_key key) w = (Inr c, w1) \<Longrightarrow> r_expire rd (streams_key key) 300 w1 = (Inr (), w2) \<Longrightarrow>
     \<not> c \<le> int (rl_maxConcurrentStreams (getLimitsForClient env key)) \<Longrightarrow>
     stream_reach env rd store key w2 a (Suc p)"
| sr_back: "stream_reach env rd store key w a (Suc p) \<Longrightarrow>
     r_decr rd (streams_key key) w = (Inr c, w1) \<Longrightarrow>
     stream_reach env rd store key (le_metric env (MRateLimit cid ReasonConcurrency) w1) a p"
| sr_close: "stream_reach env rd store key w (Suc a) p \<Longrightarrow> releaseStream env key w = (Inr (), w1) \<Longrightarrow>
     stream_reach env rd store key w1 a p"

definition streams_inv :: "int \<Rightarrow> int \<Rightarrow> nat \<Rightarrow> nat \<Rightarrow> redis_entry option \<Rightarrow> bool" where
  "streams_inv mx now a p x \<longleftrightarrow> live now x = x \<and> int_of x = Some (int (a + p)) \<and> int a \<le> mx"

lemma streams_inv_live: "streams_inv mx now a p x \<Longrightarrow> int_of (live now x) = Some (int (a + p))"
  by (simp add: streams_inv_def)

lemma count_up:
  assumes laws: "redis_laws rd store now" and i: "int_of (live (now w) (store w k)) = Some i"
  shows "\<exists>w1 w2. r_incr rd k w = (Inr (i + 1), w1) \<and> r_expire rd k 300 w1 = (Inr (), w2) \<and> now w2 = now w \<and>
     store w2 k = Some (RInt (i + 1), Some (now w + 300000))"
proof -
  obtain w1 where w1: "r_incr rd k w = (Inr (i + 1), w1)" "now w1 = now w"
    "store w1 = (store w)(k \<mapsto> (RInt (i + 1), expiry_of (live (now w) (store w k))))"
    using redis_laws_incr [OF laws i] by blast
  moreover obtain w2 where "r_expire rd k 300 w1 = (Inr (), w2)" "now w2 = now w1"
    "store w2 = (store w1)(k := map_option (\<lambda>(v, _). (v, Some (now w1 + 1000 * int 300))) (live (now w1) (store w1 k)))"
    using redis_laws_expire [OF laws] by blast
  ultimately show ?thesis by simp
qed

lemma count_down:
  assumes laws: "redis_laws rd store now" and i: "int_of (live (now w) (store w k)) = Some i"
  shows "\<exists>w1. r_decr rd k w = (Inr (i - 1), w1) \<and> now w1 = now w \<and>
     live (now w) (store w1 k) = store w1 k \<and> int_of (store w1 k) = Some (i - 1)"
  using redis_laws_decr [OF laws i] by (elim exE conjE) simp

lemma streams_reach_inv:
  assumes "stream_reach env rd store key w a p" and up: "redis_up env rd store"
  shows "streams_inv (int (rl_maxConcurrentStreams (getLimitsForClient env key))) (le_now env w) a p
           (store w (streams_key key))"
  using assms(1)
proof induction
  case (sr_start w)
  then show ?case by (simp add: streams_inv_def live_def)
next
  case (sr_wait w a p w')
  then show ?case by (simp add: streams_inv_def)
next
  case (sr_take w a p c w1 w2)
  with count_up [OF redis_upD(1) [OF up] streams_inv_live [OF sr_take.IH]] show ?case
    by (auto simp: streams_inv_def live_def)
next
  case (sr_over w a p c w1 w2)
  with count_up [OF redis_upD(1) [OF up] streams_inv_live [OF sr_over.IH]] show ?case
    by (auto simp: streams_inv_def live_def)
next
  case (sr_back w a p c w1 cid)
  with count_down [OF redis_upD(1) [OF up] streams_inv_live [OF sr_back.IH]] show ?case
    by (auto simp: streams_inv_def redis_upD(4,5) [OF up])
next
  case (sr_close w a p w1)
  with count_down [OF redis_upD(1) [OF up] streams_inv_live [OF sr_close.IH]] redis_upD(2,3) [OF up]
  show ?case by (auto simp: streams_inv_def releaseStream_def io_bind_apply io_catch_apply)
qed

text \<open>A whole check is a sequence of those steps, and it answers by the count it saw.\<close>

lemma check_streams_steps:
  assumes reach: "stream_reach env rd store key w a p" and up: "redis_up env rd store"
  shows "\<exists>r w'. checkConcurrentStreams env key cid w = (Inr r, w') \<and>
     stream_reach env rd store key w' (if allowed r then Suc a else a) p \<and>
     (allowed r \<longleftrightarrow> int (a + p) < int (rl_maxConcurrentStreams (getLimitsForClient env key)))"
proof -
  let ?mx = "int (rl_maxConcurrentStreams (getLimitsForClient env key))" and ?k = "streams_key key"
  obtain w1 w2 where up2: "r_incr rd ?k w = (Inr (int (a + p) + 1), w1)" "r_expire rd ?k 300 w1 = (Inr (), w2)"
    using count_up [OF redis_upD(1) [OF up] streams_inv_live [OF streams_reach_inv [OF reach up]]] by blast
  show ?thesis
  proof (cases "int (a + p) + 1 \<le> ?mx")
    case True
    from sr_take [OF reach up2 this] True up2 redis_upD(2,3) [OF up] show ?thesis
      by (simp add: checkConcurrentStreams_def io_bind_apply io_catch_apply Let_def)
  next
    case False
    from sr_over [OF reach up2 this] have r: "stream_reach env rd store key w2 a (Suc p)" .
    obtain w3 where w3: "r_decr rd ?k w2 = (Inr (int (a + Suc p) - 1), w3)"
      using count_down [OF redis_upD(1) [OF up] streams_inv_live [OF streams_reach_inv [OF r up]]] by blast
    from sr_back [OF r w3, of cid] False up2 w3 redis_upD(2,3) [OF up] show ?thesis
      by (simp add: checkConcurrentStreams_def io_bind_apply io_catch_apply Let_def)
  qed
qed



text \<open>When a stream stays open for five minutes with no other stream starting, the counter's key
  expires under it: with a limit of one, a second stream is then admitted, two are open at once, and
  when both have ended the counter is -1, which admits two more streams at once.\<close>

lemma stream_counter_expiry_overadmits:
  "let env = mem_env sample_limits [];
       later = (\<lambda>w. w\<lparr>mw_now := mw_now w + 300000\<rparr>);
       open = checkConcurrentStreams env ''k'' ''c'';
       close = releaseStream env ''k'';
       (r1, w1) = open mem_init;
       (r2, w2) = open (later w1);
       (u1, w3) = close w2;
       (u2, w4) = close w3;
       (r3, w5) = open w4;
       (r4, w6) = open w5
   in map (map_sum id allowed) [r1, r2, r3, r4] = [Inr True, Inr True, Inr True, Inr True] \<and>
      int_of (mw_store w4 (streams_key ''k'')) = Some (-1)"
  by code_simp

end
