(* ===== verification/Guards.thy ===== *)
theory Guards
  imports Rate_Limit_Props
begin

text \<open>
  What stands before a chat request: reading the gateway key, \<open>GatewayKeyGuard\<close>, \<open>SmartRateLimitGuard\<close>,
  the interceptor that gives a stream slot back, and the pair of services that start and enforce the
  cooldown after a provider's 429. Logging is left out; everything else each operation does is here.
\<close>

section \<open>Requests\<close>

datatype header_value = HdrString string | HdrArray "string list"

record http_request =
  rq_header :: "header_value option"
  rq_url :: "string option"
  rq_requestId :: string
  rq_gatewayKey :: "string option"
  rq_clientId :: "string option"

definition readGatewayKeyHeader :: "http_request \<Rightarrow> string option" where
  "readGatewayKeyHeader req =
     truthy_str (case rq_header req of
         None \<Rightarrow> None
       | Some (HdrString s) \<Rightarrow> Some (js_trim s)
       | Some (HdrArray []) \<Rightarrow> None
       | Some (HdrArray (s # _)) \<Rightarrow> Some (js_trim s))"

definition readClientGatewayKey :: "http_request \<Rightarrow> string option" where
  "readClientGatewayKey req =
     (case truthy_str (map_option js_trim (rq_gatewayKey req)) of
        Some k \<Rightarrow> Some k
      | None \<Rightarrow> readGatewayKeyHeader req)"

definition requireClientGatewayKey :: "http_request \<Rightarrow> string result" where
  "requireClientGatewayKey req =
     (case readClientGatewayKey req of
        Some k \<Rightarrow> Inr k
      | None \<Rightarrow> Inl (api_exception_req 401 GATEWAY_KEY_MISSING ''Missing client gateway key.'' (rq_requestId req)))"

section \<open>The gateway key guard\<close>

definition config_clients :: "gateway_key_runtime option \<Rightarrow> resolved_gateway_client list" where
  "config_clients cfg = nullish (map_option gk_clients cfg) []"

definition enrichRequestWithClientId :: "http_request \<Rightarrow> string \<Rightarrow> gateway_key_runtime option \<Rightarrow> http_request" where
  "enrichRequestWithClientId req key cfg =
     req\<lparr>rq_gatewayKey := Some key, rq_clientId := Some (resolveClientIdFromKey key (config_clients cfg))\<rparr>"

text \<open>The guard returns the request it let through, with the key and the client's name set.\<close>

definition GatewayKeyGuard_canActivate :: "gateway_key_runtime option \<Rightarrow> http_request \<Rightarrow> http_request result" where
  "GatewayKeyGuard_canActivate cfg req =
     (let headerValue = readGatewayKeyHeader req;
          allowed_keys = nullish (map_option allowList cfg) []
      in if allowed_keys = []
         then Inl (api_exception_req 500 GATEWAY_KEY_NOT_CONFIGURED
                ''Gateway key allowlist is not configured.'' (rq_requestId req))
         else case headerValue of
           None \<Rightarrow> Inl (api_exception_req 401 GATEWAY_KEY_MISSING
                ''Missing X-Gateway-Key header value.'' (rq_requestId req))
         | Some key \<Rightarrow>
             if key \<notin> set allowed_keys
             then Inl (api_exception_req 403 GATEWAY_KEY_INVALID
                ''Invalid X-Gateway-Key header value.'' (rq_requestId req))
             else Inr (enrichRequestWithClientId req key cfg))"

section \<open>The rate limit guard\<close>

definition request_path :: "http_request \<Rightarrow> string" where
  "request_path req = nullish (map_option (before_char (CHR ''?'')) (rq_url req)) []"

definition too_many_requests :: "rate_limit_result \<Rightarrow> string \<Rightarrow> http_request \<Rightarrow> jserr" where
  "too_many_requests r deflt req =
     api_exception_req 429 RATE_LIMITED (nullish (truthy_str (reason r)) deflt) (rq_requestId req)"

definition SmartRateLimitGuard_canActivate ::
  "bool \<Rightarrow> gateway_key_runtime option \<Rightarrow> 'w limiter_env \<Rightarrow> http_request \<Rightarrow> ('w, unit) io" where
  "SmartRateLimitGuard_canActivate smartEnabled cfg env req =
     (let path = request_path req in
      if path = ''/api/v1/health'' then io_return ()
      else if \<not> smartEnabled then io_return ()
      else
        io_bind (io_lift (requireClientGatewayKey req)) (\<lambda>gatewayKey.
        io_bind (checkRateLimit env gatewayKey) (\<lambda>rateLimitResult.
          if \<not> allowed rateLimitResult
          then io_throw (too_many_requests rateLimitResult ''Rate limit exceeded'' req)
          else if js_ends_with path ''/stream''
          then io_bind (checkConcurrentStreams env gatewayKey (resolveClientIdFromKey gatewayKey (config_clients cfg)))
                 (\<lambda>streamsResult.
                    if \<not> allowed streamsResult
                    then io_throw (too_many_requests streamsResult ''Concurrent streams limit exceeded'' req)
                    else io_return ())
          else io_return ())))"

section \<open>The stream endpoint\<close>

text \<open>\<open>finalize\<close>: the clean-up runs after the handler, whether it returned or threw; its own promise is not
  awaited and cannot throw.\<close>

definition io_finally :: "('w, 'a) io \<Rightarrow> ('w, unit) io \<Rightarrow> ('w, 'a) io" where
  "io_finally m f = (\<lambda>w. case m w of (r, w') \<Rightarrow> (r, snd (f w')))"

definition StreamCleanupInterceptor_intercept ::
  "'w limiter_env \<Rightarrow> http_request \<Rightarrow> ('w, 'a) io \<Rightarrow> ('w, 'a) io" where
  "StreamCleanupInterceptor_intercept env req handle =
     (let gatewayKey = readClientGatewayKey req;
          isStreaming = (case rq_url req of Some u \<Rightarrow> js_ends_with u ''/stream'' | None \<Rightarrow> False)
      in io_finally handle
           (case gatewayKey of
              Some k \<Rightarrow> if isStreaming then releaseStream env k else io_return ()
            | None \<Rightarrow> io_return ()))"

text \<open>The framework runs the guards of \<open>GatewayKeyAndSmartRateLimit\<close> in their order, then the interceptor
  around the handler.\<close>

definition GatewayKeyAndSmartRateLimit ::
  "bool \<Rightarrow> gateway_key_runtime option \<Rightarrow> 'w limiter_env \<Rightarrow> http_request \<Rightarrow> (http_request \<Rightarrow> ('w, 'a) io) \<Rightarrow> ('w, 'a) io" where
  "GatewayKeyAndSmartRateLimit smartEnabled cfg env req handle =
     io_bind (io_lift (GatewayKeyGuard_canActivate cfg req)) (\<lambda>req'.
     io_bind (SmartRateLimitGuard_canActivate smartEnabled cfg env req') (\<lambda>_. handle req'))"

definition stream_endpoint ::
  "bool \<Rightarrow> gateway_key_runtime option \<Rightarrow> 'w limiter_env \<Rightarrow> http_request \<Rightarrow> (http_request \<Rightarrow> ('w, 'a) io) \<Rightarrow> ('w, 'a) io" where
  "stream_endpoint smartEnabled cfg env req handle =
     GatewayKeyAndSmartRateLimit smartEnabled cfg env req
       (\<lambda>req'. StreamCleanupInterceptor_intercept env req' (handle req'))"

section \<open>The cooldown after a provider's 429\<close>

definition assertNotInCooldown :: "'w limiter_env \<Rightarrow> string \<Rightarrow> string \<Rightarrow> string \<Rightarrow> ('w, unit) io" where
  "assertNotInCooldown env gatewayKey providerName requestId =
     io_bind (checkCooldown env gatewayKey providerName) (\<lambda>r.
       if \<not> allowed r
       then io_throw (api_exception_req 429 RATE_LIMITED (nullish (truthy_str (reason r)) ''Rate limit exceeded'') requestId)
       else io_return ())"

definition handleProviderError :: "'w limiter_env \<Rightarrow> jserr \<Rightarrow> string \<Rightarrow> string option \<Rightarrow> ('w, unit) io" where
  "handleProviderError env err providerName gatewayKey =
     (case truthy_str gatewayKey of
        Some k \<Rightarrow> if isProviderRateLimitError err then setCooldown env k providerName else io_return ()
      | None \<Rightarrow> io_return ())"

lemma handleProviderError_total: "never_throws (handleProviderError env e p k)"
  unfolding handleProviderError_def by (intro total_intros setCooldown_total)

section \<open>Lemmas\<close>

lemma readGatewayKeyHeader_trimmed:
  "readGatewayKeyHeader req = Some k \<Longrightarrow> js_trim k = k \<and> k \<noteq> []"
  by (auto simp: readGatewayKeyHeader_def split: option.splits header_value.splits list.splits)

lemma guard_ok_iff:
  "GatewayKeyGuard_canActivate (Some rt) req = Inr req' \<longleftrightarrow>
     (\<exists>k. readGatewayKeyHeader req = Some k \<and> k \<in> set (allowList rt) \<and>
          req' = enrichRequestWithClientId req k (Some rt))"
  by (auto simp: GatewayKeyGuard_canActivate_def Let_def split: option.splits)

lemma readClientGatewayKey_enriched [simp]:
  "js_trim k = k \<Longrightarrow> k \<noteq> [] \<Longrightarrow> readClientGatewayKey (enrichRequestWithClientId req k cfg) = Some k"
  by (cases k) (simp_all add: readClientGatewayKey_def enrichRequestWithClientId_def)

lemma enriched_request [simp]:
  "rq_url (enrichRequestWithClientId req k cfg) = rq_url req"
  "rq_requestId (enrichRequestWithClientId req k cfg) = rq_requestId req"
  "request_path (enrichRequestWithClientId req k cfg) = request_path req"
  by (simp_all add: enrichRequestWithClientId_def request_path_def)

lemma keys_differ [simp]: "rate_key k \<noteq> streams_key k'" "streams_key k' \<noteq> rate_key k"
  by (simp_all add: rate_key_def streams_key_def)

lemma before_char_id: "c \<notin> set u \<Longrightarrow> before_char c u = u"
  by (induction u) (auto simp: before_char_def)

section \<open>Properties\<close>

text \<open>C2. With the runtime keys built from a configuration, the key guard lets a request through exactly
  if its trimmed header is the master key or the non-empty key of a configured client, and then the
  request carries that key and the name of its client; otherwise it answers 401 when the header is
  missing or blank and 403 when the key is not configured, never 500.\<close>

theorem key_guard_exact:
  assumes "buildGatewayKeyRuntime env cfg = Inr rt"
  shows "case GatewayKeyGuard_canActivate (Some rt) req of
      Inr req' \<Rightarrow> \<exists>k. readGatewayKeyHeader req = Some k \<and>
         (k = env_value env (masterKeyRef cfg) \<or> (\<exists>i c. (i, c) \<in> set (gw_clients cfg) \<and> k = env_value env (cc_gatewayKeyRef c))) \<and>
         readClientGatewayKey req' = Some k \<and> rq_clientId req' = Some (resolveClientIdFromKey k (gk_clients rt))
    | Inl e \<Rightarrow>
         (readGatewayKeyHeader req = None \<and> http_status e = Some 401 \<and> http_code e = Some ''GATEWAY_KEY_MISSING'') \<or>
         (\<exists>k. readGatewayKeyHeader req = Some k \<and> k \<noteq> env_value env (masterKeyRef cfg) \<and>
            (\<forall>i c. (i, c) \<in> set (gw_clients cfg) \<longrightarrow> k \<noteq> env_value env (cc_gatewayKeyRef c)) \<and>
            http_status e = Some 403 \<and> http_code e = Some ''GATEWAY_KEY_INVALID'')"
proof (cases "readGatewayKeyHeader req")
  case None
  then show ?thesis using allow_list_set(4) [OF assms] by (simp add: GatewayKeyGuard_canActivate_def)
next
  case (Some k)
  have mem: "k \<in> set (allowList rt) \<longleftrightarrow> k = env_value env (masterKeyRef cfg) \<or>
      (\<exists>i c. (i, c) \<in> set (gw_clients cfg) \<and> k = env_value env (cc_gatewayKeyRef c))"
    using readGatewayKeyHeader_trimmed [OF Some] unfolding allow_list_set(1) [OF assms] by auto
  show ?thesis
  proof (cases "k \<in> set (allowList rt)")
    case True
    with Some have "GatewayKeyGuard_canActivate (Some rt) req = Inr (enrichRequestWithClientId req k (Some rt))"
      by (simp add: guard_ok_iff)
    moreover have "rq_clientId (enrichRequestWithClientId req k (Some rt)) = Some (resolveClientIdFromKey k (gk_clients rt))"
      by (simp add: enrichRequestWithClientId_def config_clients_def)
    ultimately show ?thesis using True Some mem readGatewayKeyHeader_trimmed [OF Some] by simp
  next
    case False
    then show ?thesis using Some mem allow_list_set(4) [OF assms]
      by (simp add: GatewayKeyGuard_canActivate_def)
  qed
qed

definition sample_stream_request :: "string \<Rightarrow> http_request" where
  "sample_stream_request url = \<lparr>rq_header = Some (HdrString '' mk ''), rq_url = Some url, rq_requestId = ''r1'',
     rq_gatewayKey = None, rq_clientId = None\<rparr>"

definition sample_keys :: gateway_key_runtime where
  "sample_keys = \<lparr>allowList = [''mk''], masterKey = ''mk'', gk_clients = []\<rparr>"

lemma sample_header: "readGatewayKeyHeader (sample_stream_request u) = Some ''mk''"
proof -
  have "js_trim '' mk '' = ''mk''" by (simp add: js_trim_def js_whitespace_def)
  then show ?thesis by (simp add: readGatewayKeyHeader_def sample_stream_request_def)
qed

lemma sample_key_trimmed: "js_trim ''mk'' = ''mk''"
  by code_simp

theorem key_guard_exact_witness:
  "\<exists>req'. GatewayKeyGuard_canActivate (Some sample_keys) (sample_stream_request ''/x'') = Inr req' \<and>
     readClientGatewayKey req' = Some ''mk'' \<and> rq_clientId req' = Some ''unknown''"
proof -
  let ?req = "sample_stream_request ''/x''"
  define cfg where "cfg = sample_schema_config\<lparr>masterKeyRef := ''MK'', gw_clients := []\<rparr>"
  have b: "buildGatewayKeyRuntime (\<lambda>_. Some ''mk'') cfg = Inr sample_keys"
    by (simp add: allow_list_build cfg_def env_value_def sample_keys_def insertion_set_def sample_key_trimmed)
  obtain req' where r: "GatewayKeyGuard_canActivate (Some sample_keys) ?req = Inr req'"
    using guard_ok_iff [of sample_keys ?req] sample_header by (auto simp: sample_keys_def)
  from key_guard_exact [OF b, of ?req] r
  have "readClientGatewayKey req' = Some ''mk'' \<and> rq_clientId req' = Some (resolveClientIdFromKey ''mk'' (gk_clients sample_keys))"
    by (simp add: sample_header)
  with r show ?thesis by (simp add: resolveClientIdFromKey_def sample_keys_def)
qed

text \<open>What the check of the concurrent streams and the rate guard do to the stream counter.\<close>

lemma check_streams_count:
  assumes up: "redis_up env rd store" and cnt: "int_of (live (le_now env w) (store w (streams_key k))) = Some i"
  shows "\<exists>r w'. checkConcurrentStreams env k c w = (Inr r, w') \<and> le_now env w' = le_now env w \<and>
    (allowed r \<longleftrightarrow> i < int (rl_maxConcurrentStreams (getLimitsForClient env k))) \<and>
    (if allowed r then store w' (streams_key k) = Some (RInt (i + 1), Some (le_now env w + 300000))
     else int_of (live (le_now env w') (store w' (streams_key k))) = Some i)"
proof -
  let ?s = "streams_key k"
  obtain w2 w3 where up2: "r_incr rd ?s w = (Inr (i + 1), w2)" "r_expire rd ?s 300 w2 = (Inr (), w3)"
    "le_now env w3 = le_now env w" "store w3 ?s = Some (RInt (i + 1), Some (le_now env w + 300000))"
    using count_up [OF redis_upD(1) [OF up] cnt] by auto
  have "int_of (live (le_now env w3) (store w3 ?s)) = Some (i + 1)" using up2 by (simp add: live_def)
  from count_down [OF redis_upD(1) [OF up] this] obtain w4 where
    down: "r_decr rd ?s w3 = (Inr i, w4)" "le_now env w4 = le_now env w" "live (le_now env w) (store w4 ?s) = store w4 ?s"
    "int_of (store w4 ?s) = Some i" using up2(3) by auto
  show ?thesis
    using up2 down redis_upD(2-5) [OF up]
    by (cases "i + 1 \<le> int (rl_maxConcurrentStreams (getLimitsForClient env k))")
      (simp_all add: checkConcurrentStreams_def Let_def io_bind_apply io_catch_apply)
qed

lemma rate_guard_stream:
  assumes up: "redis_up env rd store"
    and key: "readClientGatewayKey req = Some k"
    and path: "js_ends_with (request_path req) ''/stream''" "request_path req \<noteq> ''/api/v1/health''"
    and bucket: "bucket_entry (live (le_now env w) (store w (rate_key k))) b"
    and cnt: "int_of (live (le_now env w) (store w (streams_key k))) = Some i"
    and run: "SmartRateLimitGuard_canActivate True cfg env req w = (r, w')"
  shows "le_now env w' = le_now env w \<and>
     (case r of
        Inr _ \<Rightarrow> store w' (streams_key k) = Some (RInt (i + 1), Some (le_now env w + 300000))
      | Inl e \<Rightarrow> http_status e = Some 429 \<and> int_of (live (le_now env w') (store w' (streams_key k))) = Some i)"
proof -
  let ?s = "streams_key k"
  obtain r1 w1 where r1: "checkRateLimit env k w = (Inr r1, w1)" "le_now env w1 = le_now env w"
    "store w1 ?s = store w ?s"
    using checkRateLimit_run [OF up bucket refl] by (auto split: if_splits)
  show ?thesis
  proof (cases "allowed r1")
    case False
    with run key path r1 cnt show ?thesis
      by (auto simp: SmartRateLimitGuard_canActivate_def requireClientGatewayKey_def io_bind_apply too_many_requests_def)
  next
    case True
    have "int_of (live (le_now env w1) (store w1 ?s)) = Some i" using cnt r1 by simp
    from check_streams_count [OF up this, of "resolveClientIdFromKey k (config_clients cfg)"] obtain r2 w2 where
      "checkConcurrentStreams env k (resolveClientIdFromKey k (config_clients cfg)) w1 = (Inr r2, w2)" "le_now env w2 = le_now env w1"
      "if allowed r2 then store w2 ?s = Some (RInt (i + 1), Some (le_now env w1 + 300000)) else int_of (live (le_now env w2) (store w2 ?s)) = Some i"
      by blast
    with run True path key r1 show ?thesis
      by (auto simp: SmartRateLimitGuard_canActivate_def requireClientGatewayKey_def io_bind_apply Let_def too_many_requests_def split: if_splits)
  qed
qed

lemma release_stream_run:
  assumes up: "redis_up env rd store" and "int_of (live (le_now env w) (store w (streams_key k))) = Some i"
    and "releaseStream env k w = (u, w')"
  shows "int_of (live (le_now env w') (store w' (streams_key k))) = Some (i - 1)"
  using count_down [OF redis_upD(1) [OF up] assms(2)] assms(3) redis_upD(2,3) [OF up]
  by (auto simp: releaseStream_def io_bind_apply io_catch_apply)



text \<open>With a query string the slot is lost: the guard strips the query string before it looks for
  \<open>/stream\<close> and takes a slot, the interceptor looks at the whole URL and does not give it back. A
  client with a limit of one stream that has had one such request answered is refused the next one
  with 429, although no stream of it is open.\<close>

lemma query_string_leaks_stream_slot:
  "let call = stream_endpoint True (Some sample_keys) (mem_env (sample_limits\<lparr>rlr_burst := 9\<rparr>) [])
        (sample_stream_request ''/api/v1/chat/stream?trace=1'') (\<lambda>_. io_return ());
       (r1, w1) = call mem_init;
       (r2, w2) = call w1
   in r1 = Inr () \<and> int_of (mw_store w1 (streams_key ''mk'')) = Some 1 \<and>
      (case r2 of Inl e \<Rightarrow> http_status e = Some 429 | Inr _ \<Rightarrow> False)"
  by code_simp

section \<open>Cooldown\<close>

lemma setCooldown_run:
  assumes up: "redis_up env rd store" and c: "le_rateLimit env = Some rl" "rlr_cooldownAfter429 rl > 0"
  shows "\<exists>w'. setCooldown env k p w = (Inr (), w') \<and> le_now env w' = le_now env w \<and>
     store w' (cooldown_key k p) = Some (RText (show_nat (rlr_cooldownAfter429 rl)),
        Some (le_now env w + 1000 * int (rlr_cooldownAfter429 rl)))"
proof -
  obtain w' where "r_setex rd (cooldown_key k p) (show_nat (rlr_cooldownAfter429 rl)) (rlr_cooldownAfter429 rl) w = (Inr (), w')"
    "le_now env w' = le_now env w" "store w' = (store w)(cooldown_key k p \<mapsto> (RText (show_nat (rlr_cooldownAfter429 rl)),
        Some (le_now env w + 1000 * int (rlr_cooldownAfter429 rl))))"
    using redis_laws_setex [OF redis_upD(1) [OF up] c(2)] by blast
  then show ?thesis using redis_upD(2,3) [OF up] c(1)
    by (simp add: setCooldown_def io_bind_apply io_catch_apply Let_def)
qed

lemma cooldown_run:
  assumes "redis_up env rd store" and "le_rateLimit env = Some rl" and "rlr_cooldownAfter429 rl > 0"
    and "k \<noteq> []" and "handleProviderError env e p (Some k) w = (r, w1)"
    and "store w2 (cooldown_key k p) = store w1 (cooldown_key k p)"
  shows "(isProviderRateLimitError e \<and> le_now env w2 + 500 \<le> le_now env w + 1000 * int (rlr_cooldownAfter429 rl) \<longrightarrow>
            (\<exists>err. assertNotInCooldown env k p reqId w2 = (Inl err, w2) \<and>
               http_status err = Some 429 \<and> http_code err = Some ''RATE_LIMITED'')) \<and>
         (isProviderRateLimitError e \<and> le_now env w2 \<ge> le_now env w + 1000 * int (rlr_cooldownAfter429 rl) \<longrightarrow>
            assertNotInCooldown env k p reqId w2 = (Inr (), w2)) \<and>
         (\<not> isProviderRateLimitError e \<longrightarrow> w1 = w)"
proof -
  let ?e = "le_now env w + 1000 * int (rlr_cooldownAfter429 rl)"
  from assms(4) obtain c cs where k: "k = c # cs" by (cases k) auto
  note ttl = redis_laws_ttl [OF redis_upD(1) [OF assms(1)], of "cooldown_key k p" w2]
  have entry: "store w2 (cooldown_key k p) = Some (RText (show_nat (rlr_cooldownAfter429 rl)), Some ?e)"
    if "isProviderRateLimitError e"
    using setCooldown_run [OF assms(1-3), of k p w] assms(5,6) that by (auto simp: handleProviderError_def k)
  have check: "assertNotInCooldown env k p reqId w2 =
      (if ttl_of (le_now env w2) (live (le_now env w2) (store w2 (cooldown_key k p))) > 0
       then (Inl (api_exception_req 429 RATE_LIMITED (''Provider '' @ p @ '' in cooldown after 429. '' @
         show_int (ttl_of (le_now env w2) (live (le_now env w2) (store w2 (cooldown_key k p)))) @ '' remaining.'') reqId), w2)
       else (Inr (), w2))"
    using ttl redis_upD(2,3) [OF assms(1)]
    by (simp add: assertNotInCooldown_def checkCooldown_def allow_result_def io_bind_apply io_catch_apply)
  show ?thesis
  proof (intro conjI impI)
    assume *: "isProviderRateLimitError e \<and> le_now env w2 + 500 \<le> ?e"
    then have "1000 \<le> ?e - le_now env w2 + 500" by linarith
    then have "(?e - le_now env w2 + 500) div 1000 > 0" by linarith
    moreover have "le_now env w2 < ?e" using * by linarith
    ultimately show "\<exists>err. assertNotInCooldown env k p reqId w2 = (Inl err, w2) \<and>
               http_status err = Some 429 \<and> http_code err = Some ''RATE_LIMITED''"
      using check entry * by (simp add: live_def)
  next
    assume *: "isProviderRateLimitError e \<and> le_now env w2 \<ge> ?e"
    then show "assertNotInCooldown env k p reqId w2 = (Inr (), w2)" using check entry by (simp add: live_def)
  next
    assume "\<not> isProviderRateLimitError e"
    then show "w1 = w" using assms(5) by (simp add: handleProviderError_def k)
  qed
qed

text \<open>After a provider answered 429, the same gateway key is refused that provider with the gateway's
  own 429 until the configured cooldown has passed (up to the half second to which Redis rounds the
  remaining time), and is let through from then on; an error other than 429 starts no cooldown.\<close>

lemma cooldown_enforced:
  assumes "redis_up env rd store" and "le_rateLimit env = Some rl" and "rlr_cooldownAfter429 rl > 0"
    and "k \<noteq> []" and "handleProviderError env e p (Some k) w = (r, w1)"
    and "store w2 (cooldown_key k p) = store w1 (cooldown_key k p)"
  shows "(isProviderRateLimitError e \<and> le_now env w2 + 500 \<le> le_now env w + 1000 * int (rlr_cooldownAfter429 rl) \<longrightarrow>
            (\<exists>err. assertNotInCooldown env k p reqId w2 = (Inl err, w2) \<and>
               http_status err = Some 429 \<and> http_code err = Some ''RATE_LIMITED'')) \<and>
         (isProviderRateLimitError e \<and> le_now env w2 \<ge> le_now env w + 1000 * int (rlr_cooldownAfter429 rl) \<longrightarrow>
            assertNotInCooldown env k p reqId w2 = (Inr (), w2)) \<and>
         (\<not> isProviderRateLimitError e \<longrightarrow> w1 = w)"
  using assms by (rule cooldown_run)

end
