(* ===== verification/Json_Codec.thy ===== *)
theory Json_Codec
  imports Prelude
begin

text \<open>
  \<open>JSON.stringify\<close> and \<open>JSON.parse\<close> of the language, as the caches use them: the printer writes no
  white space and escapes quotes, backslashes and control characters; the parser is the full
  grammar over characters below 256, written with fuel twice the length of its input. An escape
  of a code unit above 255 is outside the string model and counts as an error. Main result: what was
  printed is read back, for every value whose numbers print in decimal notation.
\<close>

section \<open>Printing\<close>

definition hex_digit :: "nat \<Rightarrow> char" where
  "hex_digit d = (if d < 10 then char_of (48 + d) else char_of (87 + d))"

definition json_escape :: "char \<Rightarrow> string" where
  "json_escape c =
     (if c = CHR 0x22 then [CHR 0x5C, CHR 0x22]
      else if c = CHR 0x5C then [CHR 0x5C, CHR 0x5C]
      else if c = CHR 0x08 then [CHR 0x5C, CHR ''b'']
      else if c = CHR 0x0C then [CHR 0x5C, CHR ''f'']
      else if c = CHR 0x0A then [CHR 0x5C, CHR ''n'']
      else if c = CHR 0x0D then [CHR 0x5C, CHR ''r'']
      else if c = CHR 0x09 then [CHR 0x5C, CHR ''t'']
      else let n = of_char c :: nat in
        if n < 32 then [CHR 0x5C, CHR ''u'', CHR ''0'', CHR ''0'', hex_digit (n div 16), hex_digit (n mod 16)]
        else [c])"

definition json_quote :: "string \<Rightarrow> string" where
  "json_quote s = CHR 0x22 # concat (map json_escape s) @ [CHR 0x22]"

function json_stringify :: "json \<Rightarrow> string" where
  "json_stringify JNull = ''null''"
| "json_stringify (JBool b) = (if b then ''true'' else ''false'')"
| "json_stringify (JNum q) = show_rat q"
| "json_stringify (JStr s) = json_quote s"
| "json_stringify (JArr vs) = ''['' @ js_join '','' (map json_stringify vs) @ '']''"
| "json_stringify (JObj kvs) =
     ''{'' @ js_join '','' (map (\<lambda>kv. json_quote (fst kv) @ '':'' @ json_stringify (snd kv)) kvs) @ ''}''"
  by pat_completeness auto

lemma size_snd_less [termination_simp]: "kv \<in> set kvs \<Longrightarrow> size (snd kv) < Suc (size_list (size_prod (\<lambda>_. 0) size) kvs)"
proof (induction kvs)
  case (Cons a kvs)
  then show ?case by (cases a) auto
qed simp

termination json_stringify
  by (relation "measure size") (auto simp: termination_simp)

section \<open>Parsing\<close>

definition json_ws :: "char \<Rightarrow> bool" where
  "json_ws c \<longleftrightarrow> c \<in> {CHR '' '', CHR 0x09, CHR 0x0A, CHR 0x0D}"

definition skip_ws :: "string \<Rightarrow> string" where
  "skip_ws s = dropWhile json_ws s"

definition is_digit :: "char \<Rightarrow> bool" where
  "is_digit c \<longleftrightarrow> 48 \<le> (of_char c :: nat) \<and> (of_char c :: nat) \<le> 57"

definition digit_val :: "char \<Rightarrow> nat" where
  "digit_val c = of_char c - 48"

definition hex_val :: "char \<Rightarrow> nat option" where
  "hex_val c = (let n = of_char c :: nat in
     if 48 \<le> n \<and> n \<le> 57 then Some (n - 48)
     else if 65 \<le> n \<and> n \<le> 70 then Some (n - 55)
     else if 97 \<le> n \<and> n \<le> 102 then Some (n - 87)
     else None)"

definition hex4 :: "char \<Rightarrow> char \<Rightarrow> char \<Rightarrow> char \<Rightarrow> nat option" where
  "hex4 a b c d = (case (hex_val a, hex_val b, hex_val c, hex_val d) of
     (Some w, Some x, Some y, Some z) \<Rightarrow> Some (w * 4096 + x * 256 + y * 16 + z) | _ \<Rightarrow> None)"

definition simple_escape :: "char \<Rightarrow> char option" where
  "simple_escape c =
     (if c = CHR 0x22 then Some (CHR 0x22) else if c = CHR 0x5C then Some (CHR 0x5C)
      else if c = CHR 0x2F then Some (CHR 0x2F) else if c = CHR ''b'' then Some (CHR 0x08)
      else if c = CHR ''f'' then Some (CHR 0x0C) else if c = CHR ''n'' then Some (CHR 0x0A)
      else if c = CHR ''r'' then Some (CHR 0x0D) else if c = CHR ''t'' then Some (CHR 0x09) else None)"

text \<open>The characters after the opening quote, up to the closing one.\<close>

fun parse_chars :: "string \<Rightarrow> (string \<times> string) option" where
  "parse_chars [] = None"
| "parse_chars (c # s) =
     (if c = CHR 0x22 then Some ([], s)
      else if c = CHR 0x5C then
        (case s of
           [] \<Rightarrow> None
         | e # s1 \<Rightarrow>
             (if e = CHR ''u'' then
                (case s1 of
                   h1 # h2 # h3 # h4 # s2 \<Rightarrow>
                     (case hex4 h1 h2 h3 h4 of
                        Some n \<Rightarrow> if n < 256 then map_option (apfst ((#) (char_of n))) (parse_chars s2) else None
                      | None \<Rightarrow> None)
                 | _ \<Rightarrow> None)
              else (case simple_escape e of
                      Some x \<Rightarrow> map_option (apfst ((#) x)) (parse_chars s1)
                    | None \<Rightarrow> None)))
      else if (of_char c :: nat) < 32 then None
      else map_option (apfst ((#) c)) (parse_chars s))"

fun nat_val :: "nat \<Rightarrow> string \<Rightarrow> nat" where
  "nat_val acc [] = acc"
| "nat_val acc (c # s) = nat_val (acc * 10 + digit_val c) s"

fun frac_val :: "string \<Rightarrow> rat" where
  "frac_val [] = 0"
| "frac_val (c # s) = (of_nat (digit_val c) + frac_val s) / 10"

definition parse_exponent :: "rat \<Rightarrow> string \<Rightarrow> (rat \<times> string) option" where
  "parse_exponent q s =
     (case s of
        c # r \<Rightarrow>
          if c = CHR ''e'' \<or> c = CHR ''E'' then
            (let neg = (case r of x # _ \<Rightarrow> x = CHR ''-'' | [] \<Rightarrow> False);
                 r1 = (case r of x # r' \<Rightarrow> if x = CHR ''-'' \<or> x = CHR ''+'' then r' else r | [] \<Rightarrow> []);
                 ds = takeWhile is_digit r1
             in if ds = [] then None
                else Some (if neg then q / 10 ^ nat_val 0 ds else q * 10 ^ nat_val 0 ds, dropWhile is_digit r1))
          else Some (q, s)
      | [] \<Rightarrow> Some (q, s))"

definition parse_unsigned :: "string \<Rightarrow> (rat \<times> string) option" where
  "parse_unsigned s =
     (let ds = takeWhile is_digit s; r = dropWhile is_digit s
      in if ds = [] \<or> (length ds > 1 \<and> hd ds = CHR ''0'') then None
         else case r of
           c # r1 \<Rightarrow>
             if c = CHR ''.'' then
               (let fs = takeWhile is_digit r1
                in if fs = [] then None
                   else parse_exponent (of_nat (nat_val 0 ds) + frac_val fs) (dropWhile is_digit r1))
             else parse_exponent (of_nat (nat_val 0 ds)) r
         | [] \<Rightarrow> parse_exponent (of_nat (nat_val 0 ds)) r)"

definition parse_num :: "string \<Rightarrow> (rat \<times> string) option" where
  "parse_num s = (case s of
     c # r \<Rightarrow> if c = CHR ''-'' then map_option (apfst uminus) (parse_unsigned r) else parse_unsigned s
   | [] \<Rightarrow> None)"

definition strip_prefix :: "string \<Rightarrow> string \<Rightarrow> string option" where
  "strip_prefix p s = (if take (length p) s = p then Some (drop (length p) s) else None)"

text \<open>A repeated key keeps its first position and takes the last value.\<close>

definition obj_of :: "(string \<times> json) list \<Rightarrow> (string \<times> json) list" where
  "obj_of kvs = fold (\<lambda>(k, v) acc. jset acc k v) kvs []"

fun parse_value :: "nat \<Rightarrow> string \<Rightarrow> (json \<times> string) option"
  and parse_elems :: "nat \<Rightarrow> string \<Rightarrow> (json list \<times> string) option"
  and parse_members :: "nat \<Rightarrow> string \<Rightarrow> ((string \<times> json) list \<times> string) option" where
  "parse_value 0 s = None"
| "parse_value (Suc n) s =
     (case skip_ws s of
        [] \<Rightarrow> None
      | c # r \<Rightarrow>
          if c = CHR 0x22 then map_option (apfst JStr) (parse_chars r)
          else if c = CHR 0x5B then
            (case skip_ws r of
               [] \<Rightarrow> None
             | d # r1 \<Rightarrow> if d = CHR 0x5D then Some (JArr [], r1) else map_option (apfst JArr) (parse_elems n r))
          else if c = CHR 0x7B then
            (case skip_ws r of
               [] \<Rightarrow> None
             | d # r1 \<Rightarrow> if d = CHR 0x7D then Some (JObj [], r1) else map_option (apfst (JObj \<circ> obj_of)) (parse_members n r))
          else if c = CHR ''n'' then map_option (Pair JNull) (strip_prefix ''null'' (c # r))
          else if c = CHR ''t'' then map_option (Pair (JBool True)) (strip_prefix ''true'' (c # r))
          else if c = CHR ''f'' then map_option (Pair (JBool False)) (strip_prefix ''false'' (c # r))
          else map_option (apfst JNum) (parse_num (c # r)))"
| "parse_elems 0 s = None"
| "parse_elems (Suc n) s =
     (case parse_value n s of
        None \<Rightarrow> None
      | Some (v, r) \<Rightarrow>
          (case skip_ws r of
             [] \<Rightarrow> None
           | c # r1 \<Rightarrow>
               if c = CHR '','' then map_option (apfst ((#) v)) (parse_elems n r1)
               else if c = CHR 0x5D then Some ([v], r1) else None))"
| "parse_members 0 s = None"
| "parse_members (Suc n) s =
     (case skip_ws s of
        [] \<Rightarrow> None
      | q # s1 \<Rightarrow>
          if q \<noteq> CHR 0x22 then None
          else case parse_chars s1 of
            None \<Rightarrow> None
          | Some (k, s2) \<Rightarrow>
              (case skip_ws s2 of
                 [] \<Rightarrow> None
               | c # s3 \<Rightarrow>
                   if c \<noteq> CHR '':'' then None
                   else case parse_value n s3 of
                     None \<Rightarrow> None
                   | Some (v, r) \<Rightarrow>
                       (case skip_ws r of
                          [] \<Rightarrow> None
                        | d # r1 \<Rightarrow>
                            if d = CHR '','' then map_option (apfst ((#) (k, v))) (parse_members n r1)
                            else if d = CHR 0x7D then Some ([(k, v)], r1) else None)))"

definition syntax_error :: jserr where
  "syntax_error = ErrorInstance NoSdkClass ''SyntaxError'' ''Unexpected token in JSON'' []"

definition json_parse :: "string \<Rightarrow> json result" where
  "json_parse s = (case parse_value (2 * length s + 1) s of
     Some (v, r) \<Rightarrow> if skip_ws r = [] then Inr v else Inl syntax_error
   | None \<Rightarrow> Inl syntax_error)"

text \<open>\<open>parseJsonObject\<close> of \<open>providers/helpers/parse-json-object.ts\<close>, with its default fallback.\<close>

definition parseJsonObject :: "string \<Rightarrow> (string \<times> json) list" where
  "parseJsonObject raw = (case json_parse raw of Inr (JObj kvs) \<Rightarrow> kvs | _ \<Rightarrow> [])"

section \<open>Strings\<close>

lemma hex_val_digit: "d < 16 \<Longrightarrow> hex_val (hex_digit d) = Some d"
  by (auto simp: hex_val_def hex_digit_def Let_def)

lemma hex4_low:
  assumes "n < 32"
  shows "hex4 (CHR ''0'') (CHR ''0'') (hex_digit (n div 16)) (hex_digit (n mod 16)) = Some n"
proof -
  have "hex_val (CHR ''0'') = Some 0" by (simp add: hex_val_def)
  moreover have "n div 16 < 16" "n mod 16 < 16" using assms by auto
  moreover have "n div 16 * 16 + n mod 16 = n" by simp
  ultimately show ?thesis by (simp add: hex4_def hex_val_digit)
qed

lemma parse_chars_escape: "parse_chars (json_escape c @ s) = map_option (apfst ((#) c)) (parse_chars s)"
proof -
  have "hex4 (CHR ''0'') (CHR ''0'') (hex_digit (of_char c div 16)) (hex_digit (of_char c mod 16)) = Some (of_char c)"
    if "(of_char c :: nat) < 32" using hex4_low [OF that] .
  then show ?thesis by (auto simp: json_escape_def simple_escape_def Let_def split: list.splits)
qed

lemma parse_chars_quoted: "parse_chars (concat (map json_escape s) @ CHR 0x22 # rest) = Some (s, rest)"
  by (induction s) (simp_all add: parse_chars_escape)

section \<open>Numbers\<close>

lemma is_digit_char [simp]: "d < 10 \<Longrightarrow> is_digit (digit_char d)"
  by (simp add: is_digit_def digit_char_def)

lemma digit_val_char [simp]: "d < 10 \<Longrightarrow> digit_val (digit_char d) = d"
  by (simp add: digit_val_def digit_char_def)

lemma show_nat_digits: "\<forall>c \<in> set (show_nat n). is_digit c"
proof (induction n rule: show_nat.induct)
  case (1 n)
  then show ?case by (subst show_nat.simps) auto
qed

lemma nat_val_append: "nat_val acc (s @ [c]) = nat_val acc s * 10 + digit_val c"
  by (induction s arbitrary: acc) simp_all

lemma nat_val_show [simp]: "nat_val 0 (show_nat n) = n"
proof (induction n rule: show_nat.induct)
  case (1 n)
  then show ?case by (subst show_nat.simps) (auto simp: nat_val_append)
qed

lemma show_nat_nonempty [simp]: "show_nat n \<noteq> []"
  by (subst show_nat.simps) simp

lemma show_nat_hd: "n > 0 \<Longrightarrow> hd (show_nat n) \<noteq> CHR ''0''"
proof (induction n rule: show_nat.induct)
  case (1 n)
  have "digit_char n \<noteq> CHR ''0''" if "n < 10" using digit_val_char [OF that] 1(2) by (auto simp: digit_val_def)
  moreover have "hd (show_nat n) = hd (show_nat (n div 10))" if "\<not> n < 10"
    using that by (subst show_nat.simps) simp
  moreover have "hd (show_nat n) = digit_char n" if "n < 10" using that by (subst show_nat.simps) simp
  ultimately show ?case using 1 by (cases "n < 10") auto
qed

lemma show_nat_no_leading_zero: "\<not> (length (show_nat n) > 1 \<and> hd (show_nat n) = CHR ''0'')"
proof (cases "n = 0")
  case True
  then show ?thesis by (simp add: show_nat.simps)
next
  case False
  then show ?thesis using show_nat_hd [of n] by simp
qed

text \<open>Numbers that print in decimal notation: at most 24 fraction digits.\<close>

definition decimal :: "rat \<Rightarrow> bool" where
  "decimal q \<longleftrightarrow> (\<exists>i. q * 10 ^ 24 = of_int i)"

lemma frac_digits_digits: "0 \<le> q \<Longrightarrow> q < 1 \<Longrightarrow> \<forall>c \<in> set (frac_digits n q). is_digit c"
proof (induction n q rule: frac_digits.induct)
  case (2 n q)
  have d: "nat \<lfloor>q * 10\<rfloor> < 10" using 2(2,3) by (simp add: floor_less_iff nat_less_iff)
  have "q * 10 - of_int \<lfloor>q * 10\<rfloor> < 1" by linarith
  then show ?case using 2 d by auto
qed simp

lemma frac_val_digits:
  "0 \<le> q \<Longrightarrow> q < 1 \<Longrightarrow> q * 10 ^ n = of_int i \<Longrightarrow> frac_val (frac_digits n q) = q"
proof (induction n q arbitrary: i rule: frac_digits.induct)
  case (1 q)
  then have "of_int 0 \<le> rat_of_int i" "rat_of_int i < of_int 1" by auto
  then have "i = 0" unfolding of_int_le_iff of_int_less_iff by simp
  then show ?case using 1 by simp
next
  case (2 n q)
  let ?d = "\<lfloor>q * 10\<rfloor>" and ?r = "q * 10 - of_int \<lfloor>q * 10\<rfloor>"
  show ?case
  proof (cases "q = 0")
    case False
    have d: "nat ?d < 10" "0 \<le> ?d" using 2(2,3) by (simp_all add: floor_less_iff nat_less_iff)
    have "?r * 10 ^ n = of_int (i - ?d * 10 ^ n)" using 2(4) by (simp add: algebra_simps)
    then have "frac_val (frac_digits n ?r) = ?r"
      by (rule 2(1) [OF False, rotated 2]) linarith+
    then show ?thesis using False d by (simp add: of_nat_nat)
  qed simp
qed

definition num_end :: "string \<Rightarrow> bool" where
  "num_end s \<longleftrightarrow> (case s of [] \<Rightarrow> True | c # _ \<Rightarrow> \<not> is_digit c \<and> c \<noteq> CHR ''.'' \<and> c \<noteq> CHR ''e'' \<and> c \<noteq> CHR ''E'')"

lemma digits_split:
  assumes "\<forall>c \<in> set ds. is_digit c" and "case r of [] \<Rightarrow> True | c # _ \<Rightarrow> \<not> is_digit c"
  shows "takeWhile is_digit (ds @ r) = ds" "dropWhile is_digit (ds @ r) = r"
  using assms by (induction ds) (auto split: list.splits)

lemma not_digit_dot [simp]: "\<not> is_digit (CHR ''.'')" "\<not> is_digit (CHR ''-'')"
  by (simp_all add: is_digit_def)

lemma parse_exponent_end: "num_end s \<Longrightarrow> parse_exponent q s = Some (q, s)"
  by (auto simp: parse_exponent_def num_end_def split: list.splits)

definition show_abs :: "rat \<Rightarrow> string" where
  "show_abs a = show_nat (nat \<lfloor>a\<rfloor>) @
     (if a - of_int \<lfloor>a\<rfloor> = 0 then [] else ''.'' @ frac_digits 24 (a - of_int \<lfloor>a\<rfloor>))"

lemma show_rat_abs: "show_rat q = (if q < 0 then ''-'' else []) @ show_abs \<bar>q\<bar>"
  by (simp add: show_rat_def show_abs_def Let_def)

lemma show_abs_hd: "\<exists>c s. show_abs a = c # s \<and> is_digit c"
  using show_nat_digits [of "nat \<lfloor>a\<rfloor>"] show_nat_nonempty [of "nat \<lfloor>a\<rfloor>"]
  by (cases "show_nat (nat \<lfloor>a\<rfloor>)") (auto simp: show_abs_def)

lemma parse_unsigned_show:
  assumes "0 \<le> a" and "a * 10 ^ 24 = of_int i" and "num_end rest"
  shows "parse_unsigned (show_abs a @ rest) = Some (a, rest)"
proof -
  let ?n = "nat \<lfloor>a\<rfloor>" and ?f = "a - of_int \<lfloor>a\<rfloor>"
  have n: "rat_of_nat ?n = of_int \<lfloor>a\<rfloor>" using assms(1) by simp
  have rest: "case rest of [] \<Rightarrow> True | c # _ \<Rightarrow> \<not> is_digit c"
    using assms(3) by (simp add: num_end_def split: list.splits)
  note lead = show_nat_no_leading_zero [of ?n]
  show ?thesis
  proof (cases "?f = 0")
    case True
    have sp: "takeWhile is_digit (show_abs a @ rest) = show_nat ?n" "dropWhile is_digit (show_abs a @ rest) = rest"
      using digits_split [OF show_nat_digits rest, of ?n] True by (simp_all add: show_abs_def)
    have "parse_unsigned (show_abs a @ rest) = parse_exponent (of_nat ?n) rest"
      using lead assms(3) unfolding parse_unsigned_def Let_def sp
      by (auto simp: num_end_def split: list.splits)
    then show ?thesis using True assms(3) n by (simp add: parse_exponent_end)
  next
    case False
    have f: "0 \<le> ?f" "?f < 1" by linarith+
    have "?f * 10 ^ 24 = of_int (i - \<lfloor>a\<rfloor> * 10 ^ 24)" using assms(2) by (simp add: algebra_simps)
    from frac_val_digits [OF f this] have fv: "frac_val (frac_digits 24 ?f) = ?f" .
    have fne: "frac_digits 24 ?f \<noteq> []" using False fv by auto
    have str: "show_abs a @ rest = show_nat ?n @ CHR ''.'' # frac_digits 24 ?f @ rest"
      using False by (simp add: show_abs_def)
    have sp: "takeWhile is_digit (show_abs a @ rest) = show_nat ?n"
      "dropWhile is_digit (show_abs a @ rest) = CHR ''.'' # frac_digits 24 ?f @ rest"
      unfolding str by (rule digits_split [OF show_nat_digits]; simp)+
    have "parse_unsigned (show_abs a @ rest) = parse_exponent (of_nat ?n + ?f) rest"
      using lead fne fv unfolding parse_unsigned_def Let_def sp
      by (auto simp: digits_split [OF frac_digits_digits [OF f] rest])
    then show ?thesis using assms(3) n by (simp add: parse_exponent_end)
  qed
qed

lemma parse_num_show:
  assumes "decimal q" and "num_end rest"
  shows "parse_num (show_rat q @ rest) = Some (q, rest)"
proof -
  obtain i where i: "q * 10 ^ 24 = of_int i" using assms(1) by (auto simp: decimal_def)
  have a: "\<bar>q\<bar> * 10 ^ 24 = of_int \<bar>i\<bar>" using i by (metis abs_mult abs_numeral of_int_abs power_abs)
  note un = parse_unsigned_show [OF abs_ge_zero a assms(2)]
  obtain c s where c: "show_abs \<bar>q\<bar> = c # s" "is_digit c" using show_abs_hd by blast
  then have "c \<noteq> CHR ''-''" using not_digit_dot(2) by metis
  then show ?thesis using un c by (auto simp: parse_num_def show_rat_abs)
qed

section \<open>Values\<close>

text \<open>Values with distinct keys in every object and decimal numbers throughout.\<close>

function json_ok :: "json \<Rightarrow> bool" where
  "json_ok JNull = True"
| "json_ok (JBool b) = True"
| "json_ok (JNum q) = decimal q"
| "json_ok (JStr s) = True"
| "json_ok (JArr vs) = list_all json_ok vs"
| "json_ok (JObj kvs) = (distinct (map fst kvs) \<and> list_all (\<lambda>kv. json_ok (snd kv)) kvs)"
  by pat_completeness auto

termination json_ok
  by (relation "measure size") (auto simp: termination_simp)

lemma jset_fresh: "k \<notin> fst ` set kvs \<Longrightarrow> jset kvs k v = kvs @ [(k, v)]"
  by (induction kvs k v rule: jset.induct) auto

lemma obj_of_fold: "distinct (map fst (acc @ kvs)) \<Longrightarrow> fold (\<lambda>(k, v) acc. jset acc k v) kvs acc = acc @ kvs"
  by (induction kvs arbitrary: acc) (auto simp: jset_fresh)

lemma obj_of_distinct [simp]: "distinct (map fst kvs) \<Longrightarrow> obj_of kvs = kvs"
  using obj_of_fold [of "[]" kvs] by (simp add: obj_of_def)

lemma not_ws [simp]:
  "\<not> json_ws (CHR 0x22)" "\<not> json_ws (CHR 0x5B)" "\<not> json_ws (CHR 0x5D)" "\<not> json_ws (CHR 0x7B)" "\<not> json_ws (CHR 0x7D)"
  "\<not> json_ws (CHR '','')" "\<not> json_ws (CHR '':'')" "\<not> json_ws (CHR ''n'')" "\<not> json_ws (CHR ''t'')" "\<not> json_ws (CHR ''f'')"
  "\<not> json_ws (CHR ''-'')"
  by (simp_all add: json_ws_def)

lemma skip_ws_simps [simp]: "skip_ws [] = []" "\<not> json_ws c \<Longrightarrow> skip_ws (c # s) = c # s"
  by (simp_all add: skip_ws_def)

lemma digit_plain: "is_digit c \<Longrightarrow> \<not> json_ws c \<and> c \<notin> {CHR 0x22, CHR 0x5B, CHR 0x5D, CHR 0x7B, CHR 0x7D, CHR ''n'', CHR ''t'', CHR ''f''}"
  by (auto simp: is_digit_def json_ws_def)

lemma show_rat_hd:
  "\<exists>c s. show_rat q = c # s \<and> \<not> json_ws c \<and> c \<notin> {CHR 0x22, CHR 0x5B, CHR 0x5D, CHR 0x7B, CHR 0x7D, CHR ''n'', CHR ''t'', CHR ''f''}"
proof -
  obtain c s where "show_abs \<bar>q\<bar> = c # s" "is_digit c" using show_abs_hd by blast
  then show ?thesis using digit_plain [of c] by (simp add: show_rat_abs)
qed

lemma stringify_hd: "\<exists>c s. json_stringify j = c # s \<and> \<not> json_ws c \<and> c \<noteq> CHR 0x5D"
proof (cases j)
  case (JNum q)
  with show_rat_hd [of q] show ?thesis by auto
qed (auto simp: json_quote_def)

lemma num_end_sep [simp]: "num_end []" "num_end (CHR '','' # s)" "num_end (CHR 0x5D # s)" "num_end (CHR 0x7D # s)"
  by (simp_all add: num_end_def is_digit_def)

abbreviation reads_back :: "json \<Rightarrow> bool" where
  "reads_back v \<equiv> \<forall>f rest. 2 * length (json_stringify v) \<le> f \<longrightarrow> num_end rest \<longrightarrow>
     parse_value f (json_stringify v @ rest) = Some (v, rest)"

lemma parse_elems_print:
  assumes "\<forall>v \<in> set vs. reads_back v" and "vs \<noteq> []"
    and "2 * length (js_join '','' (map json_stringify vs) @ '']'') + 1 \<le> f"
  shows "parse_elems f (js_join '','' (map json_stringify vs) @ '']'' @ rest) = Some (vs, rest)"
  using assms
proof (induction vs arbitrary: f)
  case (Cons v vs)
  from Cons.prems(3) obtain n where f: "f = Suc n" by (cases f) auto
  show ?case
  proof (cases vs)
    case Nil
    then have "2 * length (json_stringify v) \<le> n" using Cons.prems(3) f by simp
    then have "parse_value n (json_stringify v @ '']'' @ rest) = Some (v, '']'' @ rest)"
      using Cons.prems(1) by simp
    then show ?thesis by (simp add: f Nil)
  next
    case (Cons v2 vs2)
    let ?tail = "js_join '','' (map json_stringify vs) @ '']'' @ rest"
    have join: "js_join '','' (map json_stringify (v # vs)) = json_stringify v @ '','' @ js_join '','' (map json_stringify vs)"
      by (simp add: Cons)
    have "2 * length (json_stringify v) \<le> n" using Cons.prems(3) f join by simp
    then have v: "parse_value n (json_stringify v @ '','' @ ?tail) = Some (v, '','' @ ?tail)"
      using Cons.prems(1) by simp
    have "2 * length (js_join '','' (map json_stringify vs) @ '']'') + 1 \<le> n" using Cons.prems(3) f join by simp
    from Cons.IH [OF _ _ this] have "parse_elems n ?tail = Some (vs, rest)" using Cons.prems(1) Cons by simp
    then show ?thesis using v unfolding join by (simp add: f)
  qed
qed simp

abbreviation member_str :: "string \<times> json \<Rightarrow> string" where
  "member_str kv \<equiv> json_quote (fst kv) @ '':'' @ json_stringify (snd kv)"

lemma parse_members_step:
  assumes "reads_back v" and "2 * length (member_str (k, v)) \<le> n" and "num_end (c # rest)"
  shows "parse_members (Suc n) (member_str (k, v) @ c # rest) =
     (case skip_ws (c # rest) of
        [] \<Rightarrow> None
      | d # r1 \<Rightarrow> if d = CHR '','' then map_option (apfst ((#) (k, v))) (parse_members n r1)
                  else if d = CHR 0x7D then Some ([(k, v)], r1) else None)"
proof -
  have "parse_value n (json_stringify v @ c # rest) = Some (v, c # rest)"
    using assms by simp
  then show ?thesis by (simp add: json_quote_def parse_chars_quoted)
qed

lemma parse_members_print:
  assumes "\<forall>kv \<in> set kvs. reads_back (snd kv)" and "kvs \<noteq> []"
    and "2 * length (js_join '','' (map member_str kvs) @ ''}'') + 1 \<le> f"
  shows "parse_members f (js_join '','' (map member_str kvs) @ ''}'' @ rest) = Some (kvs, rest)"
  using assms
proof (induction kvs arbitrary: f)
  case (Cons kv kvs)
  obtain k v where kv: "kv = (k, v)" by fastforce
  from Cons.prems(3) obtain n where f: "f = Suc n" by (cases f) auto
  have v: "reads_back v" using Cons.prems(1) kv by simp
  show ?case
  proof (cases kvs)
    case Nil
    then have "2 * length (member_str (k, v)) \<le> n" using Cons.prems(3) f kv by simp
    from parse_members_step [OF v this, of "CHR 0x7D" rest] show ?thesis by (simp add: f Nil kv)
  next
    case (Cons kv2 kvs2)
    let ?tail = "js_join '','' (map member_str kvs) @ ''}'' @ rest"
    have join: "js_join '','' (map member_str (kv # kvs)) = member_str (k, v) @ '','' @ js_join '','' (map member_str kvs)"
      by (simp add: Cons kv)
    have "2 * length (member_str (k, v)) \<le> n" using Cons.prems(3) f unfolding join by simp
    note step = parse_members_step [OF v this, of "CHR '',''" ?tail]
    have "2 * length (js_join '','' (map member_str kvs) @ ''}'') + 1 \<le> n"
      using Cons.prems(3) f unfolding join by simp
    from Cons.IH [OF _ _ this] have "parse_members n ?tail = Some (kvs, rest)" using Cons.prems(1) Cons by simp
    then show ?thesis using step unfolding join by (simp add: f kv)
  qed
qed simp

lemma parse_value_print: "json_ok j \<Longrightarrow> reads_back j"
proof (induction j rule: json_stringify.induct)
  case (3 q)
  show ?case
  proof (intro allI impI)
    fix f rest
    assume f: "2 * length (json_stringify (JNum q)) \<le> f" and r: "num_end rest"
    obtain c s where c: "show_rat q = c # s" "\<not> json_ws c"
      "c \<notin> {CHR 0x22, CHR 0x5B, CHR 0x5D, CHR 0x7B, CHR 0x7D, CHR ''n'', CHR ''t'', CHR ''f''}"
      using show_rat_hd [of q] by blast
    obtain n where "f = Suc n" using f c by (cases f) auto
    moreover have "parse_num (c # s @ rest) = Some (q, rest)" using parse_num_show [of q rest] 3 r c by simp
    ultimately show "parse_value f (json_stringify (JNum q) @ rest) = Some (JNum q, rest)" using c by simp
  qed
next
  case (4 s)
  show ?case by (auto simp: json_quote_def parse_chars_quoted Suc_le_eq gr0_conv_Suc dest!: less_imp_Suc_add)
next
  case (5 vs)
  then have vs: "\<forall>v \<in> set vs. reads_back v" by (auto simp: list_all_iff)
  show ?case
  proof (intro allI impI)
    fix f rest
    assume f: "2 * length (json_stringify (JArr vs)) \<le> f"
    then obtain n where n: "f = Suc n" by (cases f) auto
    show "parse_value f (json_stringify (JArr vs) @ rest) = Some (JArr vs, rest)"
    proof (cases vs)
      case Nil
      then show ?thesis by (simp add: n)
    next
      case (Cons v vs')
      have "2 * length (js_join '','' (map json_stringify vs) @ '']'') + 1 \<le> n" using f n by simp
      note el = parse_elems_print [OF vs _ this, of rest]
      obtain c s where "json_stringify v = c # s" "\<not> json_ws c" "c \<noteq> CHR 0x5D" using stringify_hd by blast
      then obtain t where "js_join '','' (map json_stringify vs) @ '']'' @ rest = c # t" using Cons by (cases vs') auto
      with el Cons \<open>\<not> json_ws c\<close> \<open>c \<noteq> CHR 0x5D\<close> show ?thesis by (simp add: n)
    qed
  qed
next
  case (6 kvs)
  then have kvs: "\<forall>kv \<in> set kvs. reads_back (snd kv)" and d: "distinct (map fst kvs)" by (auto simp: list_all_iff)
  show ?case
  proof (intro allI impI)
    fix f rest
    assume f: "2 * length (json_stringify (JObj kvs)) \<le> f"
    then obtain n where n: "f = Suc n" by (cases f) auto
    show "parse_value f (json_stringify (JObj kvs) @ rest) = Some (JObj kvs, rest)"
    proof (cases kvs)
      case Nil
      then show ?thesis by (simp add: n)
    next
      case (Cons kv kvs')
      have "2 * length (js_join '','' (map member_str kvs) @ ''}'') + 1 \<le> n" using f n by simp
      note el = parse_members_print [OF kvs _ this, of rest]
      obtain t where "js_join '','' (map member_str kvs) @ ''}'' @ rest = CHR 0x22 # t"
        using Cons by (cases kvs') (auto simp: json_quote_def)
      with el Cons d show ?thesis by (simp add: n)
    qed
  qed
qed (auto simp: numeral_eq_Suc Suc_le_eq strip_prefix_def dest!: less_imp_Suc_add)

text \<open>A JSON value that has been printed is read back unchanged, whatever characters its strings
  contain and however deep it nests, provided its objects have no repeated keys and its
  numbers print in decimal notation; in particular the printer is injective on such values.\<close>

lemma json_roundtrip:
  assumes "json_ok j"
  shows "json_parse (json_stringify j) = Inr j"
proof -
  have "parse_value (2 * length (json_stringify j) + 1) (json_stringify j @ []) = Some (j, [])"
    using parse_value_print [OF assms] by (meson le_add1 num_end_sep(1))
  then show ?thesis by (simp add: json_parse_def)
qed

lemma json_stringify_inject:
  assumes "json_ok a" "json_ok b" "json_stringify a = json_stringify b"
  shows "a = b"
proof -
  have "reads_back a" "reads_back b" using assms parse_value_print by blast+
  then have "parse_value (2 * length (json_stringify a)) (json_stringify a @ []) = Some (a, [])"
    "parse_value (2 * length (json_stringify a)) (json_stringify b @ []) = Some (b, [])"
    using assms(3) by (metis le_refl num_end_sep(1))+
  then show ?thesis using assms(3) by simp
qed

lemma decimal_int [simp]: "decimal (of_int i)" "decimal 0" "decimal 1" "decimal (of_nat n)"
  unfolding decimal_def
  by (rule exI [of _ "i * 10 ^ 24"], simp) (rule exI [of _ 0], simp, rule exI [of _ "10 ^ 24"], simp,
      rule exI [of _ "int n * 10 ^ 24"], simp)

end
