(* ===== verification/Cache_Identity.thy ===== *)
theory Cache_Identity
  imports Json_Codec Request_Policy
begin

text \<open>
  What makes two chat requests the same for the caches (\<open>cache/cache-identity.ts\<close>,
  \<open>chat/helpers/to-chat-cache-identity.ts\<close> and \<open>buildIdentityKey\<close> of the response cache). The hash
  function is the parameter \<open>sha256\<close>, from strings to hexadecimal digests; that it does not collide
  on the values at hand is a hypothesis of the theorems that need it.
\<close>

section \<open>Building the identity\<close>

definition to_identity_message :: "chat_message \<Rightarrow> cache_identity_message" where
  "to_identity_message m = \<lparr>cim_role = msg_role m, cim_content = msg_content m,
     cim_toolCallId = msg_toolCallId m, cim_toolCalls = msg_toolCalls m\<rparr>"

definition toChatCacheIdentity :: "chat_request \<Rightarrow> string \<Rightarrow> call_options option \<Rightarrow> chat_cache_identity" where
  "toChatCacheIdentity r clientId callParams =
     \<lparr>ci_modelAlias = modelAlias r, ci_clientId = clientId,
      ci_messages = map to_identity_message (messages r), ci_callParams = callParams\<rparr>"

section \<open>Serialised parameters\<close>

definition opt_json :: "('a \<Rightarrow> json) \<Rightarrow> 'a option \<Rightarrow> json" where
  "opt_json f x = (case x of Some v \<Rightarrow> f v | None \<Rightarrow> JNull)"

fun stop_json :: "stop_param \<Rightarrow> json" where
  "stop_json (StopOne s) = JStr s"
| "stop_json (StopMany ss) = JArr (map JStr ss)"

fun effort_string :: "thinking_effort \<Rightarrow> string" where
  "effort_string EffNone = ''none''"
| "effort_string EffMinimal = ''minimal''"
| "effort_string EffLow = ''low''"
| "effort_string EffMedium = ''medium''"
| "effort_string EffHigh = ''high''"
| "effort_string EffXHigh = ''xhigh''"
| "effort_string EffMax = ''max''"

fun budget_json :: "thinking_budget \<Rightarrow> json" where
  "budget_json (Effort e) = JStr (effort_string e)"
| "budget_json (BudgetTokens n) = JNum n"

fun rf_type_string :: "response_format_type \<Rightarrow> string" where
  "rf_type_string RfText = ''text''"
| "rf_type_string RfJsonObject = ''json_object''"
| "rf_type_string RfJsonSchema = ''json_schema''"

text \<open>A property that is \<open>undefined\<close> is left out of the printed object.\<close>

definition opt_prop :: "string \<Rightarrow> ('a \<Rightarrow> json) \<Rightarrow> 'a option \<Rightarrow> (string \<times> json) list" where
  "opt_prop k f x = (case x of Some v \<Rightarrow> [(k, f v)] | None \<Rightarrow> [])"

definition response_format_json :: "response_format \<Rightarrow> json" where
  "response_format_json rf = JObj ([(''type'', JStr (rf_type_string (rf_type rf)))] @
     opt_prop ''jsonSchemaName'' JStr (rf_jsonSchemaName rf) @ opt_prop ''jsonSchema'' id (rf_jsonSchema rf))"

definition serializeCallParamsForCache :: "call_options option \<Rightarrow> json" where
  "serializeCallParamsForCache callParams =
     (let p = nullish callParams no_params in
      JObj [(''temperature'', opt_json JNum (temperature p)),
            (''maxOutputTokens'', opt_json JNum (maxOutputTokens p)),
            (''topP'', opt_json JNum (topP p)),
            (''topK'', opt_json JNum (topK p)),
            (''stop'', opt_json stop_json (stop p)),
            (''frequencyPenalty'', opt_json JNum (frequencyPenalty p)),
            (''presencePenalty'', opt_json JNum (presencePenalty p)),
            (''seed'', opt_json JNum (seed p)),
            (''responseFormat'', opt_json response_format_json (responseFormat p)),
            (''thinkingEnabled'', opt_json JBool (thinkingEnabled p)),
            (''thinkingBudget'', opt_json budget_json (thinkingBudget p)),
            (''parallelToolCalls'', opt_json JBool (parallelToolCalls p))])"

definition hashCallParams :: "(string \<Rightarrow> string) \<Rightarrow> call_options option \<Rightarrow> string" where
  "hashCallParams sha256 callParams = sha256 (json_stringify (serializeCallParamsForCache callParams))"

section \<open>System signature and key\<close>

definition per_model_prompt :: "resolved_system_prompts \<Rightarrow> string \<Rightarrow> string" where
  "per_model_prompt p a = nullish (map_of (rsp_perModelByAlias p) a) []"

definition computeSystemSignature :: "(string \<Rightarrow> string) \<Rightarrow> resolved_system_prompts \<Rightarrow> string \<Rightarrow> string" where
  "computeSystemSignature sha256 p a =
     sha256 (rsp_master p @ ''|'' @ nullish (rsp_main p) [] @ ''|'' @ per_model_prompt p a)"

definition tool_call_json :: "gateway_tool_call \<Rightarrow> json" where
  "tool_call_json c = JObj [(''id'', JStr (tc_id c)), (''name'', JStr (tc_name c)), (''arguments'', JStr (tc_arguments c))]"

definition identity_message_json :: "cache_identity_message \<Rightarrow> json" where
  "identity_message_json m = JObj ([(''role'', JStr (role_string (cim_role m))), (''content'', JStr (cim_content m))] @
     opt_prop ''toolCallId'' JStr (cim_toolCallId m) @
     opt_prop ''toolCalls'' (\<lambda>cs. JArr (map tool_call_json cs)) (cim_toolCalls m))"

definition identity_payload :: "string \<Rightarrow> chat_cache_identity \<Rightarrow> json" where
  "identity_payload systemSignature i = JObj [(''modelAlias'', JStr (ci_modelAlias i)), (''clientId'', JStr (ci_clientId i)),
     (''messages'', JArr (map identity_message_json (ci_messages i))),
     (''systemSignature'', JStr systemSignature),
     (''callParams'', serializeCallParamsForCache (ci_callParams i))]"

record cache_config =
  ca_prompts :: "resolved_system_prompts option"
  ca_cachePrefix :: "string option"
  ca_redisPrefix :: "string option"
  ca_ttl :: "nat option"

definition key_prefix :: "cache_config \<Rightarrow> string" where
  "key_prefix cfg = (case truthy_str (ca_cachePrefix cfg) of
     Some p \<Rightarrow> p | None \<Rightarrow> (case truthy_str (ca_redisPrefix cfg) of Some p \<Rightarrow> p | None \<Rightarrow> ''aigw:''))"

definition buildIdentityKey :: "(string \<Rightarrow> string) \<Rightarrow> cache_config \<Rightarrow> chat_cache_identity \<Rightarrow> string result" where
  "buildIdentityKey sha256 cfg i =
     (case ca_prompts cfg of
        None \<Rightarrow> Inl (plain_error ''Missing config key: resolvedSystemPrompts'')
      | Some prompts \<Rightarrow>
          (let systemSignature = computeSystemSignature sha256 prompts (ci_modelAlias i)
           in Inr (key_prefix cfg @ ''cache:chat:'' @ sha256 (json_stringify (identity_payload systemSignature i)))))"

section \<open>Injectivity\<close>

lemma opt_json_inj:
  assumes "\<And>a b. f a = f b \<Longrightarrow> a = b" and "\<And>a. f a \<noteq> JNull" and "opt_json f x = opt_json f y"
  shows "x = y"
  using assms by (cases x; cases y) (auto simp: opt_json_def dest: sym)

lemma stop_json_inj: "stop_json a = stop_json b \<longleftrightarrow> a = b"
  by (cases a; cases b) (auto simp: inj_map_eq_map inj_def)

lemma effort_string_inj: "effort_string a = effort_string b \<longleftrightarrow> a = b"
  by (cases a; cases b) simp_all

lemma budget_json_inj: "budget_json a = budget_json b \<longleftrightarrow> a = b"
  by (cases a; cases b) (auto simp: effort_string_inj)

lemma rf_type_string_inj: "rf_type_string a = rf_type_string b \<longleftrightarrow> a = b"
  by (cases a; cases b) simp_all

lemma response_format_json_inj: "response_format_json a = response_format_json b \<longleftrightarrow> a = b"
  by (cases a; cases b)
    (auto simp: response_format_json_def opt_prop_def rf_type_string_inj split: option.splits)

lemma role_string_inj: "role_string a = role_string b \<longleftrightarrow> a = b"
  by (cases a; cases b) simp_all

lemma not_JNull: "stop_json s \<noteq> JNull" "budget_json t \<noteq> JNull" "response_format_json r \<noteq> JNull"
proof -
  show "stop_json s \<noteq> JNull" by (cases s) simp_all
  show "budget_json t \<noteq> JNull" by (cases t) simp_all
qed (simp add: response_format_json_def)

text \<open>The serialised parameters determine the parameters.\<close>

lemma serializeCallParams_inj:
  assumes "serializeCallParamsForCache p = serializeCallParamsForCache q"
  shows "nullish p no_params = nullish q no_params"
  using assms
  by (auto simp: serializeCallParamsForCache_def Let_def
      intro!: generation_params.equality
      elim!: opt_json_inj [rotated 2] simp: stop_json_inj budget_json_inj response_format_json_inj not_JNull)

lemma tool_call_json_inj: "inj tool_call_json"
  by (auto simp: inj_def tool_call_json_def intro!: gateway_tool_call.equality)

lemma identity_message_json_inj: "inj identity_message_json"
proof (rule injI)
  fix a b
  assume "identity_message_json a = identity_message_json b"
  then show "a = b"
    by (cases a; cases b)
      (auto simp: identity_message_json_def opt_prop_def role_string_inj inj_map_eq_map [OF tool_call_json_inj] split: option.splits)
qed

lemma identity_payload_inj:
  assumes "identity_payload s i = identity_payload t j"
  shows "ci_modelAlias i = ci_modelAlias j" "ci_clientId i = ci_clientId j" "ci_messages i = ci_messages j" "s = t"
    "nullish (ci_callParams i) no_params = nullish (ci_callParams j) no_params"
proof -
  from assms have eqs: "ci_modelAlias i = ci_modelAlias j \<and> ci_clientId i = ci_clientId j \<and> s = t \<and>
      map identity_message_json (ci_messages i) = map identity_message_json (ci_messages j) \<and>
      serializeCallParamsForCache (ci_callParams i) = serializeCallParamsForCache (ci_callParams j)"
    by (simp add: identity_payload_def)
  then show "ci_modelAlias i = ci_modelAlias j" "ci_clientId i = ci_clientId j" "s = t" by simp_all
  from eqs show "ci_messages i = ci_messages j" by (simp add: inj_map_eq_map [OF identity_message_json_inj])
  from eqs show "nullish (ci_callParams i) no_params = nullish (ci_callParams j) no_params"
    by (blast intro: serializeCallParams_inj)
qed

section \<open>Printable identities\<close>

definition opt_all :: "('a \<Rightarrow> bool) \<Rightarrow> 'a option \<Rightarrow> bool" where
  "opt_all P x = (case x of Some v \<Rightarrow> P v | None \<Rightarrow> True)"

fun budget_ok :: "thinking_budget \<Rightarrow> bool" where
  "budget_ok (Effort e) = True"
| "budget_ok (BudgetTokens n) = decimal n"

definition params_ok :: "call_options option \<Rightarrow> bool" where
  "params_ok callParams =
     (let p = nullish callParams no_params in
      opt_all decimal (temperature p) \<and> opt_all decimal (maxOutputTokens p) \<and> opt_all decimal (topP p) \<and>
      opt_all decimal (topK p) \<and> opt_all decimal (frequencyPenalty p) \<and> opt_all decimal (presencePenalty p) \<and>
      opt_all decimal (seed p) \<and> opt_all (\<lambda>rf. opt_all json_ok (rf_jsonSchema rf)) (responseFormat p) \<and>
      opt_all budget_ok (thinkingBudget p))"

lemma opt_json_ok: "json_ok (opt_json f x) \<longleftrightarrow> opt_all (\<lambda>v. json_ok (f v)) x"
  by (cases x) (simp_all add: opt_json_def opt_all_def)

lemma opt_all_True [simp]: "opt_all (\<lambda>_. True) x"
  by (simp add: opt_all_def split: option.splits)

lemma stop_json_ok [simp]: "json_ok (stop_json s)"
  by (cases s) (simp_all add: list_all_iff)

lemma budget_json_ok [simp]: "json_ok (budget_json b) = budget_ok b"
  by (cases b) simp_all

lemma response_format_json_ok [simp]: "json_ok (response_format_json rf) = opt_all json_ok (rf_jsonSchema rf)"
  by (simp add: response_format_json_def opt_prop_def opt_all_def split: option.splits)

lemma serializeCallParams_ok: "json_ok (serializeCallParamsForCache p) = params_ok p"
  by (simp add: serializeCallParamsForCache_def params_ok_def Let_def opt_json_ok)

lemma identity_payload_ok: "params_ok (ci_callParams i) \<Longrightarrow> json_ok (identity_payload s i)"
  by (simp add: identity_payload_def serializeCallParams_ok list_all_iff identity_message_json_def opt_prop_def
      tool_call_json_def split: option.splits)

section \<open>Properties\<close>

text \<open>C7. Two requests have the same exact-cache key only if they come from the same client, name the same
  alias, carry the same messages and the same effective generation parameters and were made under
  system prompts with the same signature, provided the hash does not collide on the two payloads. So an exact hit is never served
  across clients, aliases, conversations or parameter settings.\<close>

theorem exact_key_separates:
  assumes "buildIdentityKey sha256 cfg1 i = Inr key" and "buildIdentityKey sha256 cfg2 j = Inr key"
    and "key_prefix cfg1 = key_prefix cfg2" and "ca_prompts cfg1 = Some p1" and "ca_prompts cfg2 = Some p2"
    and "params_ok (ci_callParams i)" and "params_ok (ci_callParams j)"
    and "\<And>s t. sha256 (json_stringify (identity_payload s i)) = sha256 (json_stringify (identity_payload t j)) \<Longrightarrow>
           json_stringify (identity_payload s i) = json_stringify (identity_payload t j)"
  shows "ci_clientId i = ci_clientId j \<and> ci_modelAlias i = ci_modelAlias j \<and> ci_messages i = ci_messages j \<and>
     nullish (ci_callParams i) no_params = nullish (ci_callParams j) no_params \<and>
     computeSystemSignature sha256 p1 (ci_modelAlias i) = computeSystemSignature sha256 p2 (ci_modelAlias j)"
proof -
  let ?s = "computeSystemSignature sha256 p1 (ci_modelAlias i)" and ?t = "computeSystemSignature sha256 p2 (ci_modelAlias j)"
  have "sha256 (json_stringify (identity_payload ?s i)) = sha256 (json_stringify (identity_payload ?t j))"
    using assms(1,2) unfolding buildIdentityKey_def Let_def assms(4,5) assms(3) by (auto simp del: json_stringify.simps)
  from assms(8) [OF this] have "identity_payload ?s i = identity_payload ?t j"
    by (rule json_stringify_inject [OF identity_payload_ok [OF assms(6)] identity_payload_ok [OF assms(7)]])
  from identity_payload_inj [OF this] show ?thesis by simp
qed

definition sample_identity :: "string \<Rightarrow> chat_cache_identity" where
  "sample_identity c = \<lparr>ci_modelAlias = ''m'', ci_clientId = c, ci_messages = [to_identity_message (sample_message RUser ''hi'')],
     ci_callParams = None\<rparr>"

definition sample_cache_config :: cache_config where
  "sample_cache_config = \<lparr>ca_prompts = Some \<lparr>rsp_master = ''be kind'', rsp_main = None, rsp_perModelByAlias = []\<rparr>,
     ca_cachePrefix = None, ca_redisPrefix = None, ca_ttl = None\<rparr>"

lemma sample_params_ok: "params_ok (ci_callParams (sample_identity c))"
  by (simp add: params_ok_def sample_identity_def no_params_def opt_all_def)

theorem exact_key_separates_witness:
  "buildIdentityKey id sample_cache_config (sample_identity ''a'') \<noteq> buildIdentityKey id sample_cache_config (sample_identity ''b'')"
proof
  assume eq: "buildIdentityKey id sample_cache_config (sample_identity ''a'') = buildIdentityKey id sample_cache_config (sample_identity ''b'')"
  obtain k where k: "buildIdentityKey id sample_cache_config (sample_identity ''b'') = Inr k"
    by (simp add: buildIdentityKey_def sample_cache_config_def Let_def)
  obtain p where "ca_prompts sample_cache_config = Some p" by (simp add: sample_cache_config_def)
  from exact_key_separates [OF eq [unfolded k] k refl this this sample_params_ok sample_params_ok]
  show False by (simp add: sample_identity_def)
qed

text \<open>The signature joins the three prompts with a bar that may occur in the prompts, so different
  prompt configurations share a signature whatever the hash function: replies computed under one system prompt
  can be served under another that reads differently.\<close>

lemma system_signature_ambiguous:
  "let p1 = \<lparr>rsp_master = ''a|b'', rsp_main = Some [], rsp_perModelByAlias = []\<rparr>;
       p2 = \<lparr>rsp_master = ''a'', rsp_main = Some ''b|'', rsp_perModelByAlias = []\<rparr>
   in computeSystemSignature sha256 p1 m = computeSystemSignature sha256 p2 m \<and>
      composeSystemPrompt p1 m \<noteq> composeSystemPrompt p2 m"
proof -
  have "js_trim ''a|b'' = ''a|b''" "js_trim ''a'' = ''a''" by code_simp+
  then show ?thesis
    by (simp add: Let_def computeSystemSignature_def per_model_prompt_def composeSystemPrompt_def)
qed

end
