(* ===== verification/Response_Cache.thy ===== *)
theory Response_Cache
  imports Cache_Identity "HOL-Library.Monad_Syntax"
begin

text \<open>
  The exact response cache: the backends (\<open>noop\<close>, Redis) behind one interface, their registry, the schema that
  checks what comes out of the cache, and \<open>ResponseCacheService\<close>. The Redis client is a record of
  commands that may fail. The interface of a backend is the locale \<open>response_cache_backend\<close>; it is
  interpreted for both adapters, and the service's totality is proved once for it.
\<close>

section \<open>Backends\<close>

record 'w cache_backend =
  cb_isAvailable :: "'w \<Rightarrow> bool"
  cb_get :: "string \<Rightarrow> ('w, string option) io"
  cb_set :: "string \<Rightarrow> string \<Rightarrow> nat \<Rightarrow> ('w, bool) io"
  cb_delete :: "string \<Rightarrow> ('w, bool) io"

definition NoOpCacheBackend :: "'w cache_backend" where
  "NoOpCacheBackend = \<lparr>cb_isAvailable = (\<lambda>_. False), cb_get = (\<lambda>k. io_return None),
     cb_set = (\<lambda>k v ttl. io_return False), cb_delete = (\<lambda>k. io_return False)\<rparr>"

text \<open>The commands of the Redis client: \<open>SET key value [EX ttl] NX\<close> answers whether it stored the value.\<close>

record 'w redis_kv =
  rk_get :: "string \<Rightarrow> ('w, string option) io"
  rk_set_nx :: "string \<Rightarrow> string \<Rightarrow> nat option \<Rightarrow> ('w, bool) io"
  rk_del :: "string \<Rightarrow> ('w, nat) io"

record 'w redis_connection =
  rc_isReady :: "'w \<Rightarrow> bool"
  rc_getClient :: "'w \<Rightarrow> 'w redis_kv option"

definition RedisCacheAdapter_get :: "'w redis_connection \<Rightarrow> string \<Rightarrow> ('w, string option) io" where
  "RedisCacheAdapter_get conn key =
     io_bind (io_get (rc_getClient conn)) (\<lambda>client.
       case client of
         None \<Rightarrow> io_return None
       | Some c \<Rightarrow> io_catch (rk_get c key) (\<lambda>e. io_return None))"

definition RedisCacheAdapter_set :: "'w redis_connection \<Rightarrow> string \<Rightarrow> string \<Rightarrow> nat \<Rightarrow> ('w, bool) io" where
  "RedisCacheAdapter_set conn key value ttl =
     io_bind (io_get (rc_getClient conn)) (\<lambda>client.
       case client of
         None \<Rightarrow> io_return False
       | Some c \<Rightarrow>
           io_catch
             (io_bind (rk_set_nx c key value (if ttl > 0 then Some ttl else None)) (\<lambda>stored. io_return True))
             (\<lambda>e. io_return False))"

definition RedisCacheAdapter_delete :: "'w redis_connection \<Rightarrow> string \<Rightarrow> ('w, bool) io" where
  "RedisCacheAdapter_delete conn key =
     io_bind (io_get (rc_getClient conn)) (\<lambda>client.
       case client of
         None \<Rightarrow> io_return False
       | Some c \<Rightarrow> io_catch (io_bind (rk_del c key) (\<lambda>removed. io_return (removed > 0))) (\<lambda>e. io_return False))"

definition RedisCacheAdapter :: "'w redis_connection \<Rightarrow> 'w cache_backend" where
  "RedisCacheAdapter conn = \<lparr>cb_isAvailable = rc_isReady conn, cb_get = RedisCacheAdapter_get conn,
     cb_set = RedisCacheAdapter_set conn, cb_delete = RedisCacheAdapter_delete conn\<rparr>"

section \<open>The registry of backends\<close>

type_synonym 'w cache_registry = "string \<Rightarrow> 'w cache_backend option"

definition register_backend :: "'w cache_registry \<Rightarrow> string \<Rightarrow> 'w cache_backend \<Rightarrow> 'w cache_registry" where
  "register_backend reg backendId backend = reg(js_lower backendId \<mapsto> backend)"

definition getNoopOrThrow :: "'w cache_registry \<Rightarrow> 'w cache_backend result" where
  "getNoopOrThrow reg = (case reg ''noop'' of
     Some b \<Rightarrow> Inr b
   | None \<Rightarrow> Inl (plain_error ''[CacheRegistryService] cache backend \"noop\" is required''))"

definition resolve_backend :: "'w cache_registry \<Rightarrow> string option \<Rightarrow> 'w cache_backend result" where
  "resolve_backend reg configured =
     (case reg (js_lower (nullish configured ''noop'')) of
        None \<Rightarrow> getNoopOrThrow reg
      | Some b \<Rightarrow> Inr b)"

section \<open>The schema of a cached reply\<close>

fun finish_reason_string :: "finish_reason \<Rightarrow> string" where
  "finish_reason_string FinStop = ''stop''"
| "finish_reason_string FinToolCalls = ''tool_calls''"
| "finish_reason_string FinLength = ''length''"
| "finish_reason_string FinContentFilter = ''content_filter''"

definition warning_json :: "chat_warning \<Rightarrow> json" where
  "warning_json w = JObj ([(''code'', JStr (warn_code w)), (''message'', JStr (warn_message w))] @
     opt_prop ''field'' JStr (warn_field w))"

definition usage_json :: "token_usage \<Rightarrow> json" where
  "usage_json u = JObj [(''inputTokens'', JNum (of_int (inputTokens u))), (''outputTokens'', JNum (of_int (outputTokens u)))]"

definition usage_details_json :: "usage_details \<Rightarrow> json" where
  "usage_details_json d = JObj (opt_prop ''promptCacheHitTokens'' (JNum \<circ> of_int) (promptCacheHitTokens d) @
     opt_prop ''promptCacheCreationTokens'' (JNum \<circ> of_int) (promptCacheCreationTokens d))"

text \<open>The object literal of \<open>toCachedChatResponse\<close>, in its key order, as \<open>JSON.stringify\<close> sees it.\<close>

definition cached_json :: "cached_chat_response \<Rightarrow> json" where
  "cached_json c = JObj
     ([(''id'', JStr (cc_id c)), (''provider'', JStr (cc_provider c)), (''model'', JStr (cc_model c)),
       (''output'', JObj [(''type'', JStr ''text''), (''text'', JStr (cc_text c))]),
       (''finishReason'', JStr (finish_reason_string (cc_finishReason c)))] @
      opt_prop ''usage'' usage_json (cc_usage c) @
      opt_prop ''warnings'' (\<lambda>ws. JArr (map warning_json ws)) (cc_warnings c) @
      opt_prop ''thinkingContent'' JStr (cc_thinkingContent c) @
      opt_prop ''effectiveModelAlias'' JStr (cc_effectiveModelAlias c) @
      opt_prop ''usageDetails'' usage_details_json (cc_usageDetails c) @
      opt_prop ''systemFingerprint'' JStr (cc_systemFingerprint c) @
      [(''cached'', JBool True), (''cachedAt'', JStr (cc_cachedAt c))])"

text \<open>Decoders: \<open>None\<close> is a value the schema rejects.\<close>

fun dec_string :: "json \<Rightarrow> string option" where
  "dec_string (JStr s) = Some s"
| "dec_string _ = None"

fun dec_count :: "json \<Rightarrow> int option" where
  "dec_count (JNum q) = (if q = of_int \<lfloor>q\<rfloor> \<and> q \<ge> 0 then Some \<lfloor>q\<rfloor> else None)"
| "dec_count _ = None"

fun dec_object :: "json \<Rightarrow> (string \<times> json) list option" where
  "dec_object (JObj kvs) = Some kvs"
| "dec_object _ = None"

definition dec_req :: "(json \<Rightarrow> 'a option) \<Rightarrow> (string \<times> json) list \<Rightarrow> string \<Rightarrow> 'a option" where
  "dec_req d obj k = (case jget obj k of Some j \<Rightarrow> d j | None \<Rightarrow> None)"

definition dec_opt :: "(json \<Rightarrow> 'a option) \<Rightarrow> (string \<times> json) list \<Rightarrow> string \<Rightarrow> 'a option option" where
  "dec_opt d obj k = (case jget obj k of Some j \<Rightarrow> map_option Some (d j) | None \<Rightarrow> Some None)"

fun dec_list :: "(json \<Rightarrow> 'a option) \<Rightarrow> json list \<Rightarrow> 'a list option" where
  "dec_list d [] = Some []"
| "dec_list d (j # js) = (case d j of None \<Rightarrow> None | Some x \<Rightarrow> map_option ((#) x) (dec_list d js))"

fun dec_array :: "(json \<Rightarrow> 'a option) \<Rightarrow> json \<Rightarrow> 'a list option" where
  "dec_array d (JArr js) = dec_list d js"
| "dec_array d _ = None"

definition dec_literal :: "json \<Rightarrow> json \<Rightarrow> unit option" where
  "dec_literal x j = (if j = x then Some () else None)"

definition dec_finish_reason :: "json \<Rightarrow> finish_reason option" where
  "dec_finish_reason j = (case dec_string j of
     None \<Rightarrow> None
   | Some s \<Rightarrow> (if s = ''stop'' then Some FinStop else if s = ''tool_calls'' then Some FinToolCalls
       else if s = ''length'' then Some FinLength else if s = ''content_filter'' then Some FinContentFilter else None))"

definition dec_warning :: "json \<Rightarrow> chat_warning option" where
  "dec_warning j = do {
     obj \<leftarrow> dec_object j;
     c \<leftarrow> dec_req dec_string obj ''code'';
     m \<leftarrow> dec_req dec_string obj ''message'';
     f \<leftarrow> dec_opt dec_string obj ''field'';
     Some \<lparr>warn_code = c, warn_message = m, warn_field = f\<rparr> }"

definition dec_usage :: "json \<Rightarrow> token_usage option" where
  "dec_usage j = do {
     obj \<leftarrow> dec_object j;
     i \<leftarrow> dec_req dec_count obj ''inputTokens'';
     u \<leftarrow> dec_req dec_count obj ''outputTokens'';
     Some \<lparr>inputTokens = i, outputTokens = u\<rparr> }"

definition dec_usage_details :: "json \<Rightarrow> usage_details option" where
  "dec_usage_details j = do {
     obj \<leftarrow> dec_object j;
     h \<leftarrow> dec_opt dec_count obj ''promptCacheHitTokens'';
     c \<leftarrow> dec_opt dec_count obj ''promptCacheCreationTokens'';
     Some \<lparr>promptCacheHitTokens = h, promptCacheCreationTokens = c\<rparr> }"

definition parseCachedChatResponse :: "json \<Rightarrow> cached_chat_response option" where
  "parseCachedChatResponse raw = do {
     obj \<leftarrow> dec_object raw;
     i \<leftarrow> dec_req dec_string obj ''id'';
     p \<leftarrow> dec_req dec_string obj ''provider'';
     m \<leftarrow> dec_req dec_string obj ''model'';
     out \<leftarrow> dec_req dec_object obj ''output'';
     _ \<leftarrow> dec_req (dec_literal (JStr ''text'')) out ''type'';
     t \<leftarrow> dec_req dec_string out ''text'';
     u \<leftarrow> dec_opt dec_usage obj ''usage'';
     _ \<leftarrow> dec_req (dec_literal (JBool True)) obj ''cached'';
     ca \<leftarrow> dec_req dec_string obj ''cachedAt'';
     fr \<leftarrow> dec_req dec_finish_reason obj ''finishReason'';
     ws \<leftarrow> dec_opt (dec_array dec_warning) obj ''warnings'';
     th \<leftarrow> dec_opt dec_string obj ''thinkingContent'';
     ea \<leftarrow> dec_opt dec_string obj ''effectiveModelAlias'';
     ud \<leftarrow> dec_opt dec_usage_details obj ''usageDetails'';
     sf \<leftarrow> dec_opt dec_string obj ''systemFingerprint'';
     Some \<lparr>cc_id = i, cc_provider = p, cc_model = m, cc_text = t, cc_usage = u, cc_cachedAt = ca, cc_finishReason = fr,
       cc_warnings = ws, cc_thinkingContent = th, cc_effectiveModelAlias = ea, cc_usageDetails = ud,
       cc_systemFingerprint = sf\<rparr> }"

definition isUnservableCachedReply :: "cached_chat_response \<Rightarrow> bool" where
  "isUnservableCachedReply c \<longleftrightarrow> cc_finishReason c \<noteq> FinStop \<or> js_trim (cc_text c) = []"

section \<open>The service\<close>

record 'w response_cache =
  rs_backend :: "'w cache_backend"
  rs_config :: cache_config
  rs_sha256 :: "string \<Rightarrow> string"
  rs_metric :: "metric_event \<Rightarrow> 'w \<Rightarrow> 'w"

definition recordCacheAccess :: "'w response_cache \<Rightarrow> chat_cache_identity \<Rightarrow> bool \<Rightarrow> ('w, unit) io" where
  "recordCacheAccess s i hit = io_update (rs_metric s (MCacheAccess (ci_modelAlias i) hit))"

definition drop_entry :: "'w response_cache \<Rightarrow> chat_cache_identity \<Rightarrow> string \<Rightarrow> ('w, cached_chat_response option) io" where
  "drop_entry s i key =
     io_bind (cb_delete (rs_backend s) key) (\<lambda>_. io_bind (recordCacheAccess s i False) (\<lambda>_. io_return None))"

definition getCachedResponse :: "'w response_cache \<Rightarrow> chat_cache_identity \<Rightarrow> ('w, cached_chat_response option) io" where
  "getCachedResponse s i =
     io_bind (io_get (cb_isAvailable (rs_backend s))) (\<lambda>available.
       if \<not> available then io_return None
       else
         io_bind (io_lift (buildIdentityKey (rs_sha256 s) (rs_config s) i)) (\<lambda>key.
         io_bind (cb_get (rs_backend s) key) (\<lambda>cached.
           case truthy_str cached of
             None \<Rightarrow> io_bind (recordCacheAccess s i False) (\<lambda>_. io_return None)
           | Some text \<Rightarrow>
               io_catch
                 (io_bind (io_lift (json_parse text)) (\<lambda>raw.
                    case parseCachedChatResponse raw of
                      None \<Rightarrow> drop_entry s i key
                    | Some parsed \<Rightarrow>
                        if isUnservableCachedReply parsed then drop_entry s i key
                        else io_bind (recordCacheAccess s i True) (\<lambda>_. io_return (Some parsed))))
                 (\<lambda>e. drop_entry s i key))))"

definition setCachedResponse ::
  "'w response_cache \<Rightarrow> chat_cache_identity \<Rightarrow> cached_chat_response \<Rightarrow> nat option \<Rightarrow> ('w, unit) io" where
  "setCachedResponse s i c ttlSeconds =
     io_bind (io_get (cb_isAvailable (rs_backend s))) (\<lambda>available.
       if \<not> available then io_return ()
       else
         io_bind (io_lift (buildIdentityKey (rs_sha256 s) (rs_config s) i)) (\<lambda>key.
           io_bind (cb_set (rs_backend s) key (json_stringify (cached_json c))
                     (nullish ttlSeconds (nullish (ca_ttl (rs_config s)) 3600)))
             (\<lambda>success. io_return ())))"

definition invalidateCache :: "'w response_cache \<Rightarrow> chat_cache_identity \<Rightarrow> ('w, unit) io" where
  "invalidateCache s i =
     io_bind (io_lift (buildIdentityKey (rs_sha256 s) (rs_config s) i)) (\<lambda>key.
       io_bind (cb_delete (rs_backend s) key) (\<lambda>success. io_return ()))"

section \<open>Backends never throw\<close>

locale response_cache_backend =
  fixes backend :: "'w cache_backend"
  assumes get_total: "never_throws (cb_get backend k)"
    and set_total: "never_throws (cb_set backend k v ttl)"
    and delete_total: "never_throws (cb_delete backend k)"
begin

lemma drop_entry_total:
  assumes "rs_backend s = backend"
  shows "never_throws (drop_entry s i key)"
  unfolding drop_entry_def recordCacheAccess_def assms by (intro total_intros delete_total)

text \<open>With a backend that keeps its contract the service throws only when no system prompts are configured.\<close>

lemma service_total:
  assumes s: "rs_backend s = backend" and p: "ca_prompts (rs_config s) \<noteq> None"
  shows "never_throws (getCachedResponse s i)" "never_throws (setCachedResponse s i c t)" "never_throws (invalidateCache s i)"
proof -
  obtain key where key: "buildIdentityKey (rs_sha256 s) (rs_config s) i = Inr key"
    using p by (auto simp: buildIdentityKey_def Let_def)
  show "never_throws (getCachedResponse s i)"
    unfolding getCachedResponse_def recordCacheAccess_def key s io_bind_prim
    by (intro total_intros get_total drop_entry_total s)
  show "never_throws (setCachedResponse s i c t)" "never_throws (invalidateCache s i)"
    unfolding setCachedResponse_def invalidateCache_def key s io_bind_prim
    by (intro total_intros set_total delete_total)+
qed

end

interpretation noop_backend: response_cache_backend "NoOpCacheBackend :: 'w cache_backend"
  by unfold_locales (simp_all add: NoOpCacheBackend_def never_throws_prim)

interpretation redis_backend: response_cache_backend "RedisCacheAdapter conn"
  for conn :: "'w redis_connection"
proof
  show "never_throws (cb_get (RedisCacheAdapter conn) k)" for k
    unfolding RedisCacheAdapter_def RedisCacheAdapter_get_def cache_backend.simps by (intro total_intros)
  show "never_throws (cb_set (RedisCacheAdapter conn) k v ttl)" for k v ttl
    unfolding RedisCacheAdapter_def RedisCacheAdapter_set_def cache_backend.simps by (intro total_intros)
  show "never_throws (cb_delete (RedisCacheAdapter conn) k)" for k
    unfolding RedisCacheAdapter_def RedisCacheAdapter_delete_def cache_backend.simps by (intro total_intros)
qed

section \<open>The schema reads what the gateway writes\<close>

lemma jget_opt_prop [simp]:
  "jget (opt_prop k f x) k' = (if k = k' then map_option f x else None)"
  "k \<noteq> k' \<Longrightarrow> jget (opt_prop k f x @ b) k' = jget b k'"
  "jget b k = None \<Longrightarrow> jget (opt_prop k f x @ b) k = map_option f x"
  by (cases x; simp add: opt_prop_def)+

lemma opt_prop_keys [simp]:
  "fst ` set (opt_prop k f x) = (if x = None then {} else {k})"
  "distinct (map fst (opt_prop k f x))"
  "list_all P (opt_prop k f x) = opt_all (\<lambda>v. P (k, f v)) x"
  by (cases x; simp add: opt_prop_def opt_all_def)+

definition counts_ok :: "cached_chat_response \<Rightarrow> bool" where
  "counts_ok c \<longleftrightarrow> opt_all (\<lambda>u. 0 \<le> inputTokens u \<and> 0 \<le> outputTokens u) (cc_usage c) \<and>
     opt_all (\<lambda>d. opt_all ((\<le>) 0) (promptCacheHitTokens d) \<and> opt_all ((\<le>) 0) (promptCacheCreationTokens d)) (cc_usageDetails c)"

lemma dec_opt_enc:
  assumes "jget obj k = map_option f x" and "opt_all (\<lambda>v. d (f v) = Some v) x"
  shows "dec_opt d obj k = Some x"
  using assms by (cases x) (simp_all add: dec_opt_def opt_all_def)

lemma opt_allI: "(\<And>v. x = Some v \<Longrightarrow> P v) \<Longrightarrow> opt_all P x"
  by (cases x) (simp_all add: opt_all_def)

lemma opt_all_mono: "opt_all P x \<Longrightarrow> (\<And>v. P v \<Longrightarrow> Q v) \<Longrightarrow> opt_all Q x"
  by (cases x) (simp_all add: opt_all_def)

lemma dec_warning_json: "dec_warning (warning_json w) = Some w"
proof -
  have "dec_opt dec_string ([(''code'', JStr (warn_code w)), (''message'', JStr (warn_message w))] @
      opt_prop ''field'' JStr (warn_field w)) ''field'' = Some (warn_field w)"
    by (rule dec_opt_enc [where f = JStr]) (simp_all add: opt_allI)
  then show ?thesis by (simp add: dec_warning_def warning_json_def dec_req_def)
qed

lemma dec_list_map: "(\<And>x. d (f x) = Some x) \<Longrightarrow> dec_list d (map f xs) = Some xs"
  by (induction xs) simp_all

lemma dec_usage_json: "0 \<le> inputTokens u \<and> 0 \<le> outputTokens u \<Longrightarrow> dec_usage (usage_json u) = Some u"
  by (simp add: dec_usage_def usage_json_def dec_req_def)

lemma dec_usage_details_json:
  assumes "opt_all ((\<le>) 0) (promptCacheHitTokens d) \<and> opt_all ((\<le>) 0) (promptCacheCreationTokens d)"
  shows "dec_usage_details (usage_details_json d) = Some d"
proof -
  let ?o = "opt_prop ''promptCacheHitTokens'' (JNum \<circ> of_int) (promptCacheHitTokens d) @
     opt_prop ''promptCacheCreationTokens'' (JNum \<circ> of_int) (promptCacheCreationTokens d)"
  have "dec_opt dec_count ?o ''promptCacheHitTokens'' = Some (promptCacheHitTokens d)"
    "dec_opt dec_count ?o ''promptCacheCreationTokens'' = Some (promptCacheCreationTokens d)"
    using assms by (auto intro!: dec_opt_enc [where f = "JNum \<circ> of_int"] elim: opt_all_mono simp del: jget_append)
  then show ?thesis by (simp add: dec_usage_details_def usage_details_json_def)
qed

lemma dec_finish_reason_string [simp]: "dec_finish_reason (JStr (finish_reason_string r)) = Some r"
  by (cases r) (simp_all add: dec_finish_reason_def)

lemma parse_cached_json:
  assumes "counts_ok c"
  shows "parseCachedChatResponse (cached_json c) = Some c"
proof -
  obtain obj where obj: "cached_json c = JObj obj" by (simp add: cached_json_def)
  have req: "jget obj ''id'' = Some (JStr (cc_id c))" "jget obj ''provider'' = Some (JStr (cc_provider c))"
    "jget obj ''model'' = Some (JStr (cc_model c))"
    "jget obj ''output'' = Some (JObj [(''type'', JStr ''text''), (''text'', JStr (cc_text c))])"
    "jget obj ''finishReason'' = Some (JStr (finish_reason_string (cc_finishReason c)))"
    "jget obj ''cached'' = Some (JBool True)" "jget obj ''cachedAt'' = Some (JStr (cc_cachedAt c))"
    and opt: "jget obj ''usage'' = map_option usage_json (cc_usage c)"
    "jget obj ''warnings'' = map_option (\<lambda>ws. JArr (map warning_json ws)) (cc_warnings c)"
    "jget obj ''thinkingContent'' = map_option JStr (cc_thinkingContent c)"
    "jget obj ''effectiveModelAlias'' = map_option JStr (cc_effectiveModelAlias c)"
    "jget obj ''usageDetails'' = map_option usage_details_json (cc_usageDetails c)"
    "jget obj ''systemFingerprint'' = map_option JStr (cc_systemFingerprint c)"
    using obj by (auto simp: cached_json_def simp del: jget_append)
  have strs: "opt_all (\<lambda>v. dec_string (JStr v) = Some v) x" for x by (rule opt_allI) simp
  have "opt_all (\<lambda>v. dec_usage (usage_json v) = Some v) (cc_usage c)"
    "opt_all (\<lambda>v. dec_usage_details (usage_details_json v) = Some v) (cc_usageDetails c)"
    using assms dec_usage_json dec_usage_details_json by (auto simp: counts_ok_def elim!: opt_all_mono)
  moreover have "opt_all (\<lambda>ws. dec_array dec_warning (JArr (map warning_json ws)) = Some ws) (cc_warnings c)"
    by (rule opt_allI) (simp add: dec_list_map dec_warning_json)
  ultimately show ?thesis
    unfolding parseCachedChatResponse_def obj
    by (simp add: dec_req_def req dec_literal_def dec_opt_enc [OF opt(1)] dec_opt_enc [OF opt(2)]
        dec_opt_enc [OF opt(3) strs] dec_opt_enc [OF opt(4) strs] dec_opt_enc [OF opt(5)] dec_opt_enc [OF opt(6) strs])
qed

lemma cached_json_ok: "json_ok (cached_json c)"
proof -
  have "json_ok (warning_json w)" "json_ok (usage_json u)" "json_ok (usage_details_json d)" for w u d
    by (simp_all add: warning_json_def usage_json_def usage_details_json_def opt_allI)
  then show ?thesis
    by (simp add: cached_json_def opt_allI list_all_iff [of json_ok])
qed

text \<open>Printed, stored, read and checked, a reply is what it was.\<close>

lemma cached_reply_roundtrip:
  assumes "counts_ok c"
  shows "res_bind (json_parse (json_stringify (cached_json c))) (\<lambda>raw. Inr (parseCachedChatResponse raw)) = Inr (Some c)"
  using assms by (simp add: json_roundtrip cached_json_ok parse_cached_json)

section \<open>Properties\<close>

text \<open>Documented behaviour of the Redis commands on a view of the keys: \<open>GET\<close> reads, \<open>SET NX\<close> writes only a missing
  key, \<open>DEL\<close> removes; a connection that is ready has a client and stays ready across a command.\<close>

definition kv_laws :: "'w redis_connection \<Rightarrow> ('w \<Rightarrow> string \<Rightarrow> string option) \<Rightarrow> bool" where
  "kv_laws conn store \<longleftrightarrow> (\<forall>w. rc_isReady conn w \<longrightarrow>
     (\<exists>c. rc_getClient conn w = Some c \<and>
       (\<forall>k. rk_get c k w = (Inr (store w k), w)) \<and>
       (\<forall>k v t. if store w k = None
          then \<exists>w'. rk_set_nx c k v t w = (Inr True, w') \<and> store w' = (store w)(k \<mapsto> v) \<and> rc_isReady conn w'
          else rk_set_nx c k v t w = (Inr False, w)) \<and>
       (\<forall>k. \<exists>n w'. rk_del c k w = (Inr n, w') \<and> store w' = (store w)(k := None) \<and> rc_isReady conn w')))"

lemma kv_get:
  "kv_laws conn store \<Longrightarrow> rc_isReady conn w \<Longrightarrow> RedisCacheAdapter_get conn k w = (Inr (store w k), w)"
  unfolding kv_laws_def RedisCacheAdapter_get_def by (fastforce simp: io_bind_apply io_catch_apply)

lemma kv_set:
  assumes "kv_laws conn store" "rc_isReady conn w"
  shows "\<exists>w'. RedisCacheAdapter_set conn k v t w = (Inr True, w') \<and> rc_isReady conn w' \<and>
    store w' = (if store w k = None then (store w)(k \<mapsto> v) else store w)"
proof -
  obtain c where c: "rc_getClient conn w = Some c"
    "\<forall>k v t. if store w k = None
       then \<exists>w'. rk_set_nx c k v t w = (Inr True, w') \<and> store w' = (store w)(k \<mapsto> v) \<and> rc_isReady conn w'
       else rk_set_nx c k v t w = (Inr False, w)"
    using assms unfolding kv_laws_def by blast
  show ?thesis
    using c(2) [rule_format, where k = k and v = v and t = "if t > 0 then Some t else None"] assms(2)
    by (auto simp: RedisCacheAdapter_set_def c(1) io_bind_apply io_catch_apply split: if_splits)
qed

lemma kv_delete:
  assumes "kv_laws conn store" "rc_isReady conn w"
  shows "\<exists>b w'. RedisCacheAdapter_delete conn k w = (Inr b, w') \<and> store w' = (store w)(k := None)"
proof -
  obtain c n w' where "rc_getClient conn w = Some c" "rk_del c k w = (Inr n, w')" "store w' = (store w)(k := None)"
    using assms unfolding kv_laws_def by blast
  then show ?thesis by (simp add: RedisCacheAdapter_delete_def io_bind_apply io_catch_apply)
qed

lemma stringify_nonempty: "json_stringify j \<noteq> []"
  using stringify_hd [of j] by auto

text \<open>Whatever bytes the backend holds, a reply the exact cache serves passed the schema, ended with
  \<open>stop\<close> and is not blank; an entry that is not such a reply is removed from Redis and reported as a miss.\<close>

lemma exact_cache_serves_only_valid:
  assumes "rs_backend s = RedisCacheAdapter conn" and "kv_laws conn store" and "rc_isReady conn w"
    and "buildIdentityKey (rs_sha256 s) (rs_config s) i = Inr key"
    and "\<And>ev v. store (rs_metric s ev v) = store v"
    and "getCachedResponse s i w = (Inr r, w')"
  shows "case r of
      Some c \<Rightarrow> \<exists>text raw. store w key = Some text \<and> json_parse text = Inr raw \<and> parseCachedChatResponse raw = Some c \<and>
        cc_finishReason c = FinStop \<and> js_trim (cc_text c) \<noteq> []
    | None \<Rightarrow> truthy_str (store w' key) = None"
proof (cases "truthy_str (store w key)")
  case None
  then show ?thesis using assms kv_get [OF assms(2,3), of key]
    by (auto simp: getCachedResponse_def RedisCacheAdapter_def io_bind_apply recordCacheAccess_def)
next
  case (Some txt0)
  have drop: "drop_entry s i key w = (Inr r, w') \<Longrightarrow> r = None \<and> store w' key = None"
    using kv_delete [OF assms(2,3), of key] assms(1,5)
    by (auto simp: drop_entry_def recordCacheAccess_def RedisCacheAdapter_def io_bind_apply)
  obtain b wd where del: "RedisCacheAdapter_delete conn key w = (Inr b, wd)" using kv_delete [OF assms(2,3)] by blast
  have no_throw: "drop_entry s i key w = (Inr None, rs_metric s (MCacheAccess (ci_modelAlias i) False) wd)"
    using del by (simp add: drop_entry_def recordCacheAccess_def assms(1) RedisCacheAdapter_def io_bind_apply)
  have "getCachedResponse s i w =
      io_catch (io_bind (io_lift (json_parse txt0)) (\<lambda>raw.
        case parseCachedChatResponse raw of
          None \<Rightarrow> drop_entry s i key
        | Some parsed \<Rightarrow> if isUnservableCachedReply parsed then drop_entry s i key
            else io_bind (recordCacheAccess s i True) (\<lambda>_. io_return (Some parsed)))) (\<lambda>e. drop_entry s i key) w"
    using Some assms(1,3,4) kv_get [OF assms(2,3), of key]
    by (simp add: getCachedResponse_def RedisCacheAdapter_def io_bind_apply truthy_str_def)
  with assms(6) Some drop no_throw show ?thesis
    by (auto simp: io_catch_apply io_bind_apply recordCacheAccess_def isUnservableCachedReply_def
        split: sum.splits option.splits if_splits)
qed

lemma exact_cache_store_read:
  assumes "rs_backend s = RedisCacheAdapter conn" and "kv_laws conn store" and "rc_isReady conn w"
    and "buildIdentityKey (rs_sha256 s) (rs_config s) i = Inr key"
    and "counts_ok c" and "\<not> isUnservableCachedReply c"
    and "setCachedResponse s i c ttl w = (r, w1)"
  shows "r = Inr () \<and>
     (store w key = None \<longrightarrow> (\<exists>w2. getCachedResponse s i w1 = (Inr (Some c), w2))) \<and>
     (store w key \<noteq> None \<longrightarrow> store w1 = store w)"
proof -
  let ?text = "json_stringify (cached_json c)"
  obtain w' where set: "RedisCacheAdapter_set conn key ?text (nullish ttl (nullish (ca_ttl (rs_config s)) 3600)) w = (Inr True, w')"
    "rc_isReady conn w'" "store w' = (if store w key = None then (store w)(key \<mapsto> ?text) else store w)"
    using kv_set [OF assms(2,3)] by blast
  have w1: "r = Inr ()" "w1 = w'"
    using assms(1,3,4,7) set(1) by (simp_all add: setCachedResponse_def RedisCacheAdapter_def io_bind_apply)
  have "\<exists>w2. getCachedResponse s i w1 = (Inr (Some c), w2)" if "store w key = None"
    using that set w1 assms(1,4,6) kv_get [OF assms(2) set(2), of key] stringify_nonempty [of "cached_json c"]
      parse_cached_json [OF assms(5)] json_roundtrip [OF cached_json_ok, of c]
    by (cases ?text)
      (auto simp: getCachedResponse_def RedisCacheAdapter_def io_bind_apply io_catch_apply recordCacheAccess_def)
  then show ?thesis using w1 set(3) by simp
qed

text \<open>The exact cache returns what was stored: after storing a servable reply under a free key, the next lookup with the same
  identity yields that very reply, whatever characters its texts contain; a key that is taken keeps
  its first value.\<close>

lemma exact_cache_returns_stored:
  assumes "rs_backend s = RedisCacheAdapter conn" and "kv_laws conn store" and "rc_isReady conn w"
    and "buildIdentityKey (rs_sha256 s) (rs_config s) i = Inr key"
    and "counts_ok c" and "\<not> isUnservableCachedReply c"
    and "setCachedResponse s i c ttl w = (r, w1)"
  shows "r = Inr () \<and>
     (store w key = None \<longrightarrow> (\<exists>w2. getCachedResponse s i w1 = (Inr (Some c), w2))) \<and>
     (store w key \<noteq> None \<longrightarrow> store w1 = store w)"
  using exact_cache_store_read [OF assms] .

text \<open>An in-memory store for the witnesses.\<close>

definition mem_kv :: "(string \<Rightarrow> string option) redis_kv" where
  "mem_kv = \<lparr>rk_get = (\<lambda>k w. (Inr (w k), w)),
     rk_set_nx = (\<lambda>k v t w. if w k = None then (Inr True, w(k \<mapsto> v)) else (Inr False, w)),
     rk_del = (\<lambda>k w. (Inr (if w k = None then 0 else 1), w(k := None)))\<rparr>"

definition mem_conn :: "(string \<Rightarrow> string option) redis_connection" where
  "mem_conn = \<lparr>rc_isReady = (\<lambda>_. True), rc_getClient = (\<lambda>_. Some mem_kv)\<rparr>"

lemma mem_kv_laws: "kv_laws mem_conn (\<lambda>w. w)"
  by (auto simp: kv_laws_def mem_conn_def mem_kv_def)

definition mem_cache :: "(string \<Rightarrow> string option) response_cache" where
  "mem_cache = \<lparr>rs_backend = RedisCacheAdapter mem_conn, rs_config = sample_cache_config, rs_sha256 = id, rs_metric = (\<lambda>_ w. w)\<rparr>"

definition sample_reply :: "string \<Rightarrow> cached_chat_response" where
  "sample_reply t = \<lparr>cc_id = ''r1'', cc_provider = ''p'', cc_model = ''m'', cc_text = t,
     cc_usage = Some \<lparr>inputTokens = 3, outputTokens = 5\<rparr>, cc_cachedAt = ''2026-01-01T00:00:00.000Z'', cc_finishReason = FinStop,
     cc_warnings = None, cc_thinkingContent = None, cc_effectiveModelAlias = None, cc_usageDetails = None, cc_systemFingerprint = None\<rparr>"

lemma sample_reply_ok: "counts_ok (sample_reply t)"
  by (simp add: counts_ok_def sample_reply_def opt_all_def)

lemma mem_cache_simps:
  "rs_backend mem_cache = RedisCacheAdapter mem_conn" "rc_isReady mem_conn w"
  "\<exists>key. buildIdentityKey (rs_sha256 mem_cache) (rs_config mem_cache) i = Inr key"
  by (simp_all add: mem_cache_def mem_conn_def buildIdentityKey_def sample_cache_config_def Let_def)

lemma sample_reply_servable: "\<not> isUnservableCachedReply (sample_reply ''say \"hi\"'')"
proof -
  have "js_trim ''say \"hi\"'' \<noteq> []" by code_simp
  then show ?thesis by (simp add: isUnservableCachedReply_def sample_reply_def)
qed

text \<open>A lookup, a store or an invalidation in the exact cache never throws, with either backend and
  whatever Redis does, as long as system prompts are configured; with the no-op backend the
  lookup always misses and changes nothing.\<close>

lemma exact_cache_fails_open:
  assumes "ca_prompts (rs_config s) \<noteq> None" and "rs_backend s = RedisCacheAdapter conn \<or> rs_backend s = NoOpCacheBackend"
  shows "never_throws (getCachedResponse s i) \<and> never_throws (setCachedResponse s i c ttl) \<and> never_throws (invalidateCache s i) \<and>
     (rs_backend s = NoOpCacheBackend \<longrightarrow> getCachedResponse s i w = (Inr None, w))"
  using assms(2)
proof
  assume "rs_backend s = RedisCacheAdapter conn"
  moreover have "RedisCacheAdapter conn = NoOpCacheBackend \<longrightarrow> getCachedResponse s i w = (Inr None, w)"
    by (simp add: getCachedResponse_def calculation NoOpCacheBackend_def io_bind_apply)
  ultimately show ?thesis using redis_backend.service_total [OF _ assms(1)] by simp
next
  assume "rs_backend s = NoOpCacheBackend"
  then show ?thesis using noop_backend.service_total [OF _ assms(1)]
    by (simp add: getCachedResponse_def NoOpCacheBackend_def io_bind_apply)
qed

end
