(* ===== verification/Circuit_Breaker.thy ===== *)
theory Circuit_Breaker
  imports Prelude
begin

text \<open>
  The circuit breaker before the embedding service (\<open>cache/semantic/embedding-circuit-breaker.ts\<close>): its
  three fields, its four operations, and the equivalence of its answers with a specification over
  the history of calls.
\<close>

record breaker =
  br_failures :: nat
  br_openedAtMs :: int
  br_trialInFlight :: bool

definition new_breaker :: breaker where
  "new_breaker = \<lparr>br_failures = 0, br_openedAtMs = 0, br_trialInFlight = False\<rparr>"

definition EMBEDDING_CIRCUIT_OPEN_AFTER :: nat where
  "EMBEDDING_CIRCUIT_OPEN_AFTER = 3"

definition EMBEDDING_CIRCUIT_COOLDOWN_MS :: int where
  "EMBEDDING_CIRCUIT_COOLDOWN_MS = 30000"

definition shouldSkipEmbed :: "nat \<Rightarrow> int \<Rightarrow> int \<Rightarrow> breaker \<Rightarrow> bool \<times> breaker" where
  "shouldSkipEmbed openAfter cooldownMs now b =
     (if br_failures b < openAfter then (False, b)
      else if \<not> (now - br_openedAtMs b \<ge> cooldownMs) then (True, b)
      else if br_trialInFlight b then (True, b)
      else (False, b\<lparr>br_trialInFlight := True\<rparr>))"

definition isCircuitOpen :: "nat \<Rightarrow> int \<Rightarrow> int \<Rightarrow> breaker \<Rightarrow> bool" where
  "isCircuitOpen openAfter cooldownMs now b \<longleftrightarrow> br_failures b \<ge> openAfter \<and> now - br_openedAtMs b < cooldownMs"

definition recordEmbedFailure :: "nat \<Rightarrow> int \<Rightarrow> breaker \<Rightarrow> breaker" where
  "recordEmbedFailure openAfter now b =
     (let b1 = b\<lparr>br_failures := br_failures b + 1, br_trialInFlight := False\<rparr>
      in if br_failures b1 \<ge> openAfter then b1\<lparr>br_openedAtMs := now\<rparr> else b1)"

definition recordEmbedSuccess :: "breaker \<Rightarrow> breaker" where
  "recordEmbedSuccess b = b\<lparr>br_failures := 0, br_openedAtMs := 0, br_trialInFlight := False\<rparr>"

section \<open>The specification over the history\<close>

text \<open>What the users of the breaker do, with the time at which they do it; the latest call comes first.\<close>

datatype breaker_call = Ask int | Fail int | Succeed

fun breaker_after :: "nat \<Rightarrow> int \<Rightarrow> breaker_call list \<Rightarrow> breaker" where
  "breaker_after n c [] = new_breaker"
| "breaker_after n c (Ask t # h) = snd (shouldSkipEmbed n c t (breaker_after n c h))"
| "breaker_after n c (Fail t # h) = recordEmbedFailure n t (breaker_after n c h)"
| "breaker_after n c (Succeed # h) = recordEmbedSuccess (breaker_after n c h)"

text \<open>Failures since the last success.\<close>

fun consecutive_failures :: "breaker_call list \<Rightarrow> nat" where
  "consecutive_failures [] = 0"
| "consecutive_failures (Ask t # h) = consecutive_failures h"
| "consecutive_failures (Fail t # h) = Suc (consecutive_failures h)"
| "consecutive_failures (Succeed # h) = 0"

text \<open>Whether some call was made at least \<open>c\<close> after the last failure, and since then nothing was recorded.\<close>

fun last_failure :: "breaker_call list \<Rightarrow> int" where
  "last_failure [] = 0"
| "last_failure (Fail t # h) = t"
| "last_failure (x # h) = last_failure h"

fun asked_after_cooldown :: "int \<Rightarrow> int \<Rightarrow> breaker_call list \<Rightarrow> bool" where
  "asked_after_cooldown l c (Ask t # h) = (t - l \<ge> c \<or> asked_after_cooldown l c h)"
| "asked_after_cooldown l c _ = False"

lemma breaker_represents:
  assumes "n \<ge> 1"
  shows "br_failures (breaker_after n c h) = consecutive_failures h \<and>
    (consecutive_failures h \<ge> n \<longrightarrow> br_openedAtMs (breaker_after n c h) = last_failure h) \<and>
    br_trialInFlight (breaker_after n c h) =
      (consecutive_failures h \<ge> n \<and> asked_after_cooldown (last_failure h) c h)"
proof (induction h)
  case Nil
  then show ?case by (simp add: new_breaker_def)
next
  case (Cons x h)
  show ?case
  proof (cases x)
    case (Ask t)
    then show ?thesis using Cons by (auto simp: shouldSkipEmbed_def)
  next
    case (Fail t)
    then show ?thesis using Cons by (auto simp: recordEmbedFailure_def Let_def)
  next
    case Succeed
    then show ?thesis using Cons assms by (auto simp: recordEmbedSuccess_def)
  qed
qed

text \<open>C38. After any history of calls the breaker skips an embedding exactly if the last \<open>openAfter\<close> or more recorded
  calls failed and either less than the cooldown has passed since the last failure or a trial
  has already been let through since. So the circuit opens after that many consecutive failures and not before, stays
  shut for the cooldown after each further failure, lets a single trial through per cooldown
  until that trial's outcome is recorded, and one success closes it.\<close>

theorem breaker_meets_history_spec:
  assumes "n \<ge> 1"
  shows "fst (shouldSkipEmbed n c now (breaker_after n c h)) \<longleftrightarrow>
    consecutive_failures h \<ge> n \<and> (now - last_failure h < c \<or> asked_after_cooldown (last_failure h) c h)"
  using breaker_represents [OF assms, of c h] by (auto simp: shouldSkipEmbed_def)

theorem breaker_meets_history_spec_witness:
  "let b = breaker_after EMBEDDING_CIRCUIT_OPEN_AFTER EMBEDDING_CIRCUIT_COOLDOWN_MS [Ask 40000, Fail 9, Fail 8, Fail 7, Succeed]
   in fst (shouldSkipEmbed EMBEDDING_CIRCUIT_OPEN_AFTER EMBEDDING_CIRCUIT_COOLDOWN_MS 50000 b)"
proof -
  have "EMBEDDING_CIRCUIT_OPEN_AFTER \<ge> 1" by (simp add: EMBEDDING_CIRCUIT_OPEN_AFTER_def)
  then show ?thesis
    unfolding Let_def
    by (subst breaker_meets_history_spec)
      (simp_all add: EMBEDDING_CIRCUIT_OPEN_AFTER_def EMBEDDING_CIRCUIT_COOLDOWN_MS_def)
qed

end
