(* ===== verification/Vector_Store.thy ===== *)
theory Vector_Store
  imports Response_Cache Errors
begin

text \<open>
  The Redis Search vector store of the semantic cache (\<open>cache/semantic/adapters/redis-vector-store.adapter.ts\<close>
  with \<open>escape-tag.ts\<close>, \<open>index-name.ts\<close>, \<open>parse-knn-hits.ts\<close>, \<open>redis-search-error.ts\<close>). The Redis commands it sends are
  parameters that may fail. The shared promise of concurrent \<open>ensureIndex\<close> calls is not modelled: each
  call runs \<open>createIndexIfNeeded\<close>, which does nothing once the index is known.
\<close>

section \<open>Tags and names\<close>

definition tag_special :: "char \<Rightarrow> bool" where
  "tag_special c \<longleftrightarrow> c \<in> set (''.,<>{}[]:;!@#$%^&*()-+=~|/ '' @ [CHR 0x22, CHR 0x27, CHR 0x5C])"

definition tag_id_forbidden :: "char \<Rightarrow> bool" where
  "tag_id_forbidden c \<longleftrightarrow> tag_special c \<and> c \<noteq> CHR ''-''"

definition escapeRedisSearchTag :: "string \<Rightarrow> string" where
  "escapeRedisSearchTag v = concat (map (\<lambda>c. if tag_special c then [CHR 0x5C, c] else [c]) v)"

definition isRedisSearchTagSafeId :: "string \<Rightarrow> bool" where
  "isRedisSearchTagSafeId v \<longleftrightarrow> length v > 0 \<and> \<not> list_ex tag_id_forbidden v"

definition index_char :: "char \<Rightarrow> bool" where
  "index_char c = (let n = of_char c :: nat in (97 \<le> n \<and> n \<le> 122) \<or> (48 \<le> n \<and> n \<le> 57))"

fun collapse_runs :: "bool \<Rightarrow> string \<Rightarrow> string" where
  "collapse_runs in_run [] = []"
| "collapse_runs in_run (c # s) =
     (if index_char c then c # collapse_runs False s
      else if in_run then collapse_runs True s else CHR ''-'' # collapse_runs True s)"

definition strip_dashes :: "string \<Rightarrow> string" where
  "strip_dashes s = rev (dropWhile (\<lambda>c. c = CHR ''-'') (rev (dropWhile (\<lambda>c. c = CHR ''-'') s)))"

definition normalizeEmbeddingModelForIndex :: "string \<Rightarrow> string" where
  "normalizeEmbeddingModelForIndex m = strip_dashes (collapse_runs False (js_lower (js_trim m)))"

definition SEMANTIC_SCHEMA_TAG_FIELDS :: "string list" where
  "SEMANTIC_SCHEMA_TAG_FIELDS = [''modelAlias'', ''clientId'', ''embeddingModel'', ''systemSignature'', ''callParams'']"

definition canonicalSemanticSchema :: "nat \<Rightarrow> string" where
  "canonicalSemanticSchema dims = js_join [CHR 0x0A]
     (map (\<lambda>f. f @ '':TAG:CASESENSITIVE'') SEMANTIC_SCHEMA_TAG_FIELDS @
      [''reply:TEXT'', ''vector:VECTOR:FLAT:FLOAT32:'' @ show_nat dims @ '':COSINE''])"

definition semanticSchemaFtCreateArgs :: "nat \<Rightarrow> string list" where
  "semanticSchemaFtCreateArgs dims =
     concat (map (\<lambda>f. [f, ''TAG'', ''CASESENSITIVE'']) SEMANTIC_SCHEMA_TAG_FIELDS) @
     [''reply'', ''TEXT'', ''vector'', ''VECTOR'', ''FLAT'', ''6'', ''TYPE'', ''FLOAT32'', ''DIM'', show_nat dims,
      ''DISTANCE_METRIC'', ''COSINE'']"

definition semanticIndexName :: "(string \<Rightarrow> string) \<Rightarrow> string \<Rightarrow> nat \<Rightarrow> string" where
  "semanticIndexName sha256 model dims =
     (let projectId = ''ai-provider-gateway'';
          schemaHash8 = take 8 (sha256 (projectId @ [CHR 0x0A] @ model @ [CHR 0x0A] @ show_nat dims @ [CHR 0x0A] @
            canonicalSemanticSchema dims))
      in projectId @ '':sem:idx:'' @ normalizeEmbeddingModelForIndex model @ ''-'' @ show_nat dims @ ''-'' @ schemaHash8)"

section \<open>Errors of the search module\<close>

definition redisSearchErrorMessage :: "jserr \<Rightarrow> string" where
  "redisSearchErrorMessage e =
     (if is_error_instance e then error_message e
      else case e of ThrownString s \<Rightarrow> s | ThrownObject _ \<Rightarrow> ''[object Object]'' | _ \<Rightarrow> [])"

fun starts_with :: "string \<Rightarrow> string \<Rightarrow> bool" where
  "starts_with [] s = True"
| "starts_with (p # ps) [] = False"
| "starts_with (p # ps) (c # s) = (p = c \<and> starts_with ps s)"

fun js_includes :: "string \<Rightarrow> string \<Rightarrow> bool" where
  "js_includes p [] = (p = [])"
| "js_includes p (c # s) = (starts_with p (c # s) \<or> js_includes p s)"

definition matches_i :: "string \<Rightarrow> jserr \<Rightarrow> bool" where
  "matches_i p e = js_includes p (js_lower (redisSearchErrorMessage e))"

definition isRedisSearchIndexAlreadyExistsError :: "jserr \<Rightarrow> bool" where
  "isRedisSearchIndexAlreadyExistsError e = matches_i ''already exists'' e"

definition isRedisSearchMissingIndexError :: "jserr \<Rightarrow> bool" where
  "isRedisSearchMissingIndexError e \<longleftrightarrow> matches_i ''unknown index'' e \<or> matches_i ''no such index'' e"

definition isRedisSearchModuleMissingError :: "jserr \<Rightarrow> bool" where
  "isRedisSearchModuleMissingError e = matches_i ''unknown command'' e"

section \<open>Reading search results\<close>

text \<open>Values of the Redis protocol as the client returns them; a buffer is its UTF-8 text.\<close>

datatype resp = RespStr string | RespNum rat | RespArr "resp list" | RespNil

fun asString :: "resp \<Rightarrow> string" where
  "asString (RespStr s) = s"
| "asString (RespNum q) = show_rat q"
| "asString _ = []"

text \<open>\<open>Number(x)\<close> of the count and \<open>Number.parseFloat\<close> of the distance; \<open>None\<close> is not finite.\<close>

definition parse_float :: "string \<Rightarrow> rat option" where
  "parse_float s0 =
     (let s = dropWhile js_whitespace s0;
          neg = (case s of c # _ \<Rightarrow> c = CHR ''-'' | [] \<Rightarrow> False);
          s1 = (case s of c # r \<Rightarrow> if c = CHR ''-'' \<or> c = CHR ''+'' then r else s | [] \<Rightarrow> []);
          ds = takeWhile is_digit s1; r1 = dropWhile is_digit s1;
          fs = (case r1 of c # r \<Rightarrow> if c = CHR ''.'' then takeWhile is_digit r else [] | [] \<Rightarrow> []);
          r2 = (case r1 of c # r \<Rightarrow> if c = CHR ''.'' then dropWhile is_digit r else r1 | [] \<Rightarrow> []);
          v = of_nat (nat_val 0 ds) + frac_val fs;
          v' = (case parse_exponent v r2 of Some (x, _) \<Rightarrow> x | None \<Rightarrow> v)
      in if ds = [] \<and> fs = [] then None else Some (if neg then - v' else v'))"

fun js_number :: "resp \<Rightarrow> rat option" where
  "js_number (RespNum q) = Some q"
| "js_number (RespStr s) = (if js_trim s = [] then Some 0
     else case parse_num (js_trim s) of Some (q, []) \<Rightarrow> Some q | _ \<Rightarrow> None)"
| "js_number RespNil = Some 0"
| "js_number (RespArr _) = None"

fun field_pairs :: "resp list \<Rightarrow> (string \<times> string) list" where
  "field_pairs (k # v # fs) = (asString k, asString v) # field_pairs fs"
| "field_pairs _ = []"

text \<open>\<open>new Map\<close> filled in order: the last pair with a key wins.\<close>

definition field_map :: "resp list \<Rightarrow> string \<Rightarrow> string option" where
  "field_map fs = map_of (rev (field_pairs fs))"

record vector_search_hit =
  vh_similarity :: rat
  vh_reply :: cached_chat_response

definition stored_reply :: "string \<Rightarrow> cached_chat_response option" where
  "stored_reply s = (case json_parse s of
     Inl e \<Rightarrow> None
   | Inr raw \<Rightarrow> (case parseCachedChatResponse raw of
       None \<Rightarrow> None
     | Some c \<Rightarrow> if isUnservableCachedReply c then None else Some c))"

text \<open>One pair of key and fields: a hit, a key to delete, or nothing.\<close>

definition parse_hit :: "resp \<Rightarrow> resp \<Rightarrow> vector_search_hit list \<times> string list" where
  "parse_hit k f =
     (let key = asString k; corrupt = (if key = [] then [] else [key]) in
      case f of
        RespArr fvs \<Rightarrow>
          (case truthy_str (field_map fvs ''reply'') of
             None \<Rightarrow> ([], corrupt)
           | Some replyRaw \<Rightarrow>
               (case stored_reply replyRaw of
                  None \<Rightarrow> ([], corrupt)
                | Some reply \<Rightarrow>
                    (case parse_float (nullish (field_map fvs ''dist'') []) of
                       None \<Rightarrow> ([], [])
                     | Some d \<Rightarrow> ([\<lparr>vh_similarity = 1 - d, vh_reply = reply\<rparr>], []))))
      | _ \<Rightarrow> ([], []))"

fun parse_hits :: "resp list \<Rightarrow> vector_search_hit list \<times> string list" where
  "parse_hits (k # f # rest) =
     (let (h, c) = parse_hit k f; (hs, cs) = parse_hits rest in (h @ hs, c @ cs))"
| "parse_hits _ = ([], [])"

definition parseKnnHits :: "resp \<Rightarrow> vector_search_hit list \<times> string list" where
  "parseKnnHits raw =
     (case raw of
        RespArr (c # items) \<Rightarrow>
          if length items < 2 then ([], [])
          else (case js_number c of
                  None \<Rightarrow> ([], [])
                | Some n \<Rightarrow> if n < 1 then ([], []) else parse_hits items)
      | _ \<Rightarrow> ([], []))"

lemma parse_hits_servable: "h \<in> set (fst (parse_hits items)) \<Longrightarrow> \<not> isUnservableCachedReply (vh_reply h)"
proof (induction items rule: parse_hits.induct)
  case (1 k f rest)
  have "\<not> isUnservableCachedReply (vh_reply h)" if "h \<in> set (fst (parse_hit k f))"
    using that by (auto simp: parse_hit_def stored_reply_def Let_def split: resp.splits option.splits sum.splits if_splits)
  with 1 show ?case by (auto simp: Let_def split: prod.splits)
qed simp_all

lemma parseKnnHits_servable: "h \<in> set (fst (parseKnnHits raw)) \<Longrightarrow> \<not> isUnservableCachedReply (vh_reply h)"
  by (auto simp: parseKnnHits_def parse_hits_servable split: resp.splits list.splits option.splits if_splits)

section \<open>The store\<close>

record semantic_config =
  sc_enabled :: bool
  sc_embeddingModel :: string
  sc_embeddingDim :: nat
  sc_embeddingTimeoutMs :: int
  sc_minSimilarity :: rat
  sc_ttl :: nat
  sc_k :: nat

record text_identity =
  ti_text :: string
  ti_modelAlias :: string
  ti_clientId :: string
  ti_systemSignature :: string
  ti_callParams :: string

datatype hash_field = FText string | FVector "rat list"

record 'w search_client =
  sc_hmget :: "string \<Rightarrow> ('w, string option \<times> string option) io"
  sc_del :: "string \<Rightarrow> ('w, nat) io"
  sc_ft_info :: "string \<Rightarrow> ('w, unit) io"
  sc_ft_create :: "string \<Rightarrow> string list \<Rightarrow> ('w, unit) io"
  sc_ft_search :: "string \<Rightarrow> string \<Rightarrow> rat list \<Rightarrow> nat \<Rightarrow> ('w, resp) io"
  sc_hsetnx_reply :: "string \<Rightarrow> string \<Rightarrow> ('w, bool) io"
  sc_multi_hset_expire :: "string \<Rightarrow> (string \<times> hash_field) list \<Rightarrow> nat \<Rightarrow> ('w, unit) io"
  sc_hexists_vector :: "string \<Rightarrow> ('w, bool) io"
  sc_ttl_of :: "string \<Rightarrow> ('w, int) io"

record 'w vector_store_env =
  ve_getClient :: "'w \<Rightarrow> 'w search_client option"
  ve_config :: "semantic_config option"
  ve_sha256 :: "string \<Rightarrow> string"
  ve_indexCreated :: "'w \<Rightarrow> bool"
  ve_setIndexCreated :: "bool \<Rightarrow> 'w \<Rightarrow> 'w"

definition store_config :: "'w vector_store_env \<Rightarrow> semantic_config result" where
  "store_config env = (case ve_config env of
     Some c \<Rightarrow> Inr c | None \<Rightarrow> Inl (plain_error ''Missing config key: semanticCache''))"

definition indexName :: "'w vector_store_env \<Rightarrow> string result" where
  "indexName env = res_bind (store_config env) (\<lambda>c.
     Inr (semanticIndexName (ve_sha256 env) (sc_embeddingModel c) (sc_embeddingDim c)))"

definition deleteCorruptEntry :: "'w vector_store_env \<Rightarrow> string \<Rightarrow> ('w, unit) io" where
  "deleteCorruptEntry env key =
     io_bind (io_get (ve_getClient env)) (\<lambda>client.
       case client of
         None \<Rightarrow> io_return ()
       | Some c \<Rightarrow> if key = [] then io_return ()
           else io_catch (io_bind (sc_del c key) (\<lambda>_. io_return ())) (\<lambda>e. io_return ()))"

definition mark_index :: "'w vector_store_env \<Rightarrow> bool \<Rightarrow> ('w, unit) io" where
  "mark_index env b = io_update (ve_setIndexCreated env b)"

definition try_io :: "('w, 'a) io \<Rightarrow> ('w, jserr + 'a) io" where
  "try_io m = io_catch (io_bind m (\<lambda>x. io_return (Inr x))) (\<lambda>e. io_return (Inl e))"

definition createIndexIfNeeded :: "'w vector_store_env \<Rightarrow> ('w, unit) io" where
  "createIndexIfNeeded env =
     io_bind (io_get (ve_indexCreated env)) (\<lambda>done.
       if done then io_return ()
       else io_bind (io_get (ve_getClient env)) (\<lambda>client.
         case client of
           None \<Rightarrow> io_return ()
         | Some c \<Rightarrow>
             io_bind (io_lift (store_config env)) (\<lambda>cfg.
             io_bind (io_lift (indexName env)) (\<lambda>index.
             io_bind (try_io (sc_ft_info c index)) (\<lambda>info.
               case info of
                 Inr _ \<Rightarrow> mark_index env True
               | Inl infoErr \<Rightarrow>
                   if isRedisSearchModuleMissingError infoErr then io_return ()
                   else io_bind (try_io (sc_ft_create c index (semanticSchemaFtCreateArgs (sc_embeddingDim cfg)))) (\<lambda>created.
                     case created of
                       Inr _ \<Rightarrow> mark_index env True
                     | Inl createErr \<Rightarrow>
                         if isRedisSearchIndexAlreadyExistsError createErr then mark_index env True
                         else io_return ()))))))"

definition ensureIndex :: "'w vector_store_env \<Rightarrow> ('w, unit) io" where
  "ensureIndex env = io_bind (io_get (ve_indexCreated env)) (\<lambda>done.
     if done then io_return () else createIndexIfNeeded env)"

definition buildKnnQuery :: "semantic_config \<Rightarrow> text_identity \<Rightarrow> nat \<Rightarrow> string" where
  "buildKnnQuery cfg i k =
     ''(@modelAlias:{'' @ escapeRedisSearchTag (ti_modelAlias i) @ ''} @clientId:{'' @ escapeRedisSearchTag (ti_clientId i) @
     ''} @embeddingModel:{'' @ escapeRedisSearchTag (sc_embeddingModel cfg) @ ''} @systemSignature:{'' @
     escapeRedisSearchTag (ti_systemSignature i) @ ''} @callParams:{'' @ escapeRedisSearchTag (ti_callParams i) @
     ''})=>[KNN '' @ show_nat k @ '' @vector $blob AS dist]''"

fun delete_all :: "'w vector_store_env \<Rightarrow> string list \<Rightarrow> ('w, unit) io" where
  "delete_all env [] = io_return ()"
| "delete_all env (k # ks) = io_bind (deleteCorruptEntry env k) (\<lambda>_. delete_all env ks)"

definition searchKnn :: "'w vector_store_env \<Rightarrow> rat list \<Rightarrow> text_identity \<Rightarrow> nat \<Rightarrow> ('w, vector_search_hit list) io" where
  "searchKnn env vector i k =
     io_bind (io_get (ve_getClient env)) (\<lambda>client.
       case client of
         None \<Rightarrow> io_return []
       | Some c \<Rightarrow>
           io_bind (io_lift (indexName env)) (\<lambda>index.
           io_bind (io_lift (store_config env)) (\<lambda>cfg.
           io_bind (sc_ft_search c index (buildKnnQuery cfg i k) vector k) (\<lambda>raw.
             io_bind (delete_all env (snd (parseKnnHits raw))) (\<lambda>_. io_return (fst (parseKnnHits raw)))))))"

definition knn :: "'w vector_store_env \<Rightarrow> rat list \<Rightarrow> text_identity \<Rightarrow> nat \<Rightarrow> ('w, vector_search_hit list) io" where
  "knn env vector i k =
     io_bind (io_get (ve_getClient env)) (\<lambda>client.
       if client = None then io_return []
       else
         io_bind (ensureIndex env) (\<lambda>_.
           io_catch (searchKnn env vector i k) (\<lambda>err.
             if isRedisSearchMissingIndexError err
             then io_bind (mark_index env False) (\<lambda>_.
                  io_bind (ensureIndex env) (\<lambda>_.
                    io_catch (searchKnn env vector i k) (\<lambda>retryErr. io_return [])))
             else io_throw err)))"

definition entryKey :: "'w vector_store_env \<Rightarrow> text_identity \<Rightarrow> string result" where
  "entryKey env i =
     res_bind (store_config env) (\<lambda>cfg. res_bind (indexName env) (\<lambda>index.
       Inr (index @ '':'' @ take 32 (ve_sha256 env (ti_clientId i @ ''|'' @ ti_modelAlias i @ ''|'' @ sc_embeddingModel cfg @ ''|'' @
         ti_systemSignature i @ ''|'' @ ti_callParams i @ ''|'' @ ti_text i)))))"

definition getByTextIdentity :: "'w vector_store_env \<Rightarrow> text_identity \<Rightarrow> ('w, cached_chat_response option) io" where
  "getByTextIdentity env i =
     io_bind (io_get (ve_getClient env)) (\<lambda>client.
       case client of
         None \<Rightarrow> io_return None
       | Some c \<Rightarrow>
           io_bind (io_lift (entryKey env i)) (\<lambda>key.
             io_catch
               (io_bind (sc_hmget c key) (\<lambda>(replyRaw, vectorRaw).
                  case truthy_str replyRaw of
                    None \<Rightarrow> io_return None
                  | Some r \<Rightarrow>
                      if truthy_str vectorRaw = None then io_return None
                      else
                        io_bind (io_lift (json_parse r)) (\<lambda>raw.
                          case parseCachedChatResponse raw of
                            None \<Rightarrow> io_bind (deleteCorruptEntry env key) (\<lambda>_. io_return None)
                          | Some reply \<Rightarrow>
                              if isUnservableCachedReply reply
                              then io_bind (deleteCorruptEntry env key) (\<lambda>_. io_return None)
                              else io_return (Some reply))))
               (\<lambda>e. io_bind (deleteCorruptEntry env key) (\<lambda>_. io_return None))))"

definition metaFields :: "text_identity \<Rightarrow> rat list \<Rightarrow> string \<Rightarrow> (string \<times> hash_field) list" where
  "metaFields i vector embeddingModel =
     [(''modelAlias'', FText (ti_modelAlias i)), (''clientId'', FText (ti_clientId i)),
      (''embeddingModel'', FText embeddingModel), (''systemSignature'', FText (ti_systemSignature i)),
      (''callParams'', FText (ti_callParams i)), (''vector'', FVector vector)]"

definition healIncompleteEntry :: "'w vector_store_env \<Rightarrow> string \<Rightarrow> (string \<times> hash_field) list \<Rightarrow> nat \<Rightarrow> ('w, unit) io" where
  "healIncompleteEntry env key fs ttl =
     io_bind (io_get (ve_getClient env)) (\<lambda>client.
       case client of None \<Rightarrow> io_return () | Some c \<Rightarrow> sc_multi_hset_expire c key fs ttl)"

definition upsert_write ::
  "'w vector_store_env \<Rightarrow> 'w search_client \<Rightarrow> text_identity \<Rightarrow> rat list \<Rightarrow> cached_chat_response \<Rightarrow> nat \<Rightarrow> ('w, unit) io" where
  "upsert_write env c i vector reply ttl =
     io_bind (io_lift (store_config env)) (\<lambda>cfg.
     io_bind (io_lift (entryKey env i)) (\<lambda>key.
       let fs = metaFields i vector (sc_embeddingModel cfg) in
       io_bind (sc_hsetnx_reply c key (json_stringify (cached_json reply))) (\<lambda>claimed.
         if claimed then sc_multi_hset_expire c key fs ttl
         else
           io_bind (sc_hexists_vector c key) (\<lambda>hasVector.
           io_bind (sc_ttl_of c key) (\<lambda>keyTtl.
             if \<not> hasVector \<or> keyTtl < 0 then healIncompleteEntry env key fs ttl else io_return ())))))"

definition upsert ::
  "'w vector_store_env \<Rightarrow> text_identity \<Rightarrow> rat list \<Rightarrow> cached_chat_response \<Rightarrow> nat \<Rightarrow> ('w, unit) io" where
  "upsert env i vector reply ttl =
     io_bind (io_get (ve_getClient env)) (\<lambda>client.
       case client of
         None \<Rightarrow> io_return ()
       | Some c \<Rightarrow>
           if \<not> ttl \<ge> 1 then io_return ()
           else
             io_bind (ensureIndex env) (\<lambda>_.
               io_catch (upsert_write env c i vector reply ttl) (\<lambda>err.
                 if isRedisSearchMissingIndexError err
                 then io_bind (mark_index env False) (\<lambda>_.
                      io_bind (ensureIndex env) (\<lambda>_. upsert_write env c i vector reply ttl))
                 else io_throw err)))"

section \<open>Lemmas\<close>

lemma deleteCorruptEntry_total: "never_throws (deleteCorruptEntry env key)"
  unfolding deleteCorruptEntry_def by (intro total_intros)

lemma getByTextIdentity_total:
  assumes "ve_config env = Some cfg"
  shows "never_throws (getByTextIdentity env i)"
proof -
  obtain key where key: "entryKey env i = Inr key"
    using assms by (simp add: entryKey_def store_config_def indexName_def)
  show ?thesis
    unfolding getByTextIdentity_def key io_bind_prim by (intro total_intros deleteCorruptEntry_total)
qed

lemma getByTextIdentity_servable:
  "getByTextIdentity env i w = (Inr (Some r), w') \<Longrightarrow> \<not> isUnservableCachedReply r"
  by (auto simp: getByTextIdentity_def io_bind_Inr io_catch_Inr split: option.splits if_splits)

lemma searchKnn_servable:
  "searchKnn env v i k w = (Inr hs, w') \<Longrightarrow> h \<in> set hs \<Longrightarrow> \<not> isUnservableCachedReply (vh_reply h)"
  by (auto simp: searchKnn_def io_bind_Inr parseKnnHits_servable split: option.splits)

lemma knn_servable:
  assumes "knn env v i k w = (Inr hs, w')" "h \<in> set hs"
  shows "\<not> isUnservableCachedReply (vh_reply h)"
  using assms
  by (auto simp: knn_def io_bind_Inr io_catch_Inr dest: searchKnn_servable split: if_splits)

text \<open>How the search module reads a tag: a backslash takes the next character literally, a bar
  separates alternatives, a closing brace ends the set.\<close>

fun read_tags :: "string \<Rightarrow> string \<Rightarrow> (string list \<times> string) option" where
  "read_tags acc [] = None"
| "read_tags acc (c # s) =
     (if c = CHR 0x5C then (case s of [] \<Rightarrow> None | d # s' \<Rightarrow> read_tags (acc @ [d]) s')
      else if c = CHR 0x7D then Some ([acc], s)
      else if c = CHR 0x7C then map_option (apfst ((#) acc)) (read_tags [] s)
      else read_tags (acc @ [c]) s)"

lemma read_tags_escape: "read_tags acc (escapeRedisSearchTag v @ CHR 0x7D # rest) = Some ([acc @ v], rest)"
proof (induction v arbitrary: acc)
  case (Cons c v)
  then show ?case by (auto simp: escapeRedisSearchTag_def tag_special_def)
qed (simp add: escapeRedisSearchTag_def)

text \<open>The filter part of a query: one tag set per field, in this order, separated by blanks.\<close>

fun read_filters :: "string list \<Rightarrow> string \<Rightarrow> (string list list \<times> string) option" where
  "read_filters [] s = Some ([], s)"
| "read_filters (f # fs) s =
     (case strip_prefix (''@'' @ f @ '':{'') s of
        None \<Rightarrow> None
      | Some r \<Rightarrow>
          (case read_tags [] r of
             None \<Rightarrow> None
           | Some (ts, r1) \<Rightarrow>
               map_option (apfst ((#) ts)) (read_filters fs (case r1 of c # r2 \<Rightarrow> if c = CHR '' '' then r2 else r1 | [] \<Rightarrow> []))))"

lemma strip_prefix_append [simp]: "strip_prefix p (p @ s) = Some s"
  by (simp add: strip_prefix_def)

lemma read_filters_step:
  "read_filters (f # fs) (''@'' @ f @ '':{'' @ escapeRedisSearchTag v @ CHR 0x7D # CHR '' '' # rest) =
     map_option (apfst ((#) [v])) (read_filters fs rest)"
  "read_filters [f] (''@'' @ f @ '':{'' @ escapeRedisSearchTag v @ CHR 0x7D # CHR '')'' # rest) =
     Some ([[v]], CHR '')'' # rest)"
  using strip_prefix_append [of "''@'' @ f @ '':{''"] read_tags_escape [of "[]" v] by simp_all

section \<open>Properties\<close>

text \<open>C36. A KNN query is confined to its partition whatever characters the values contain: read back as the search
  module reads it, its filter has exactly one value per field, the alias, the client, the
  embedding model, the system signature and the parameter hash it was built from; no value can close its
  tag set, add an alternative or open another field.\<close>

theorem knn_query_confined:
  "\<exists>rest. buildKnnQuery cfg i k = ''('' @ rest \<and>
     read_filters SEMANTIC_SCHEMA_TAG_FIELDS rest =
       Some ([[ti_modelAlias i], [ti_clientId i], [sc_embeddingModel cfg], [ti_systemSignature i], [ti_callParams i]],
             '')=>[KNN '' @ show_nat k @ '' @vector $blob AS dist]'')"
proof -
  define rest where "rest = ''@'' @ ''modelAlias'' @ '':{'' @ escapeRedisSearchTag (ti_modelAlias i) @ CHR 0x7D # CHR '' '' #
    ''@'' @ ''clientId'' @ '':{'' @ escapeRedisSearchTag (ti_clientId i) @ CHR 0x7D # CHR '' '' #
    ''@'' @ ''embeddingModel'' @ '':{'' @ escapeRedisSearchTag (sc_embeddingModel cfg) @ CHR 0x7D # CHR '' '' #
    ''@'' @ ''systemSignature'' @ '':{'' @ escapeRedisSearchTag (ti_systemSignature i) @ CHR 0x7D # CHR '' '' #
    ''@'' @ ''callParams'' @ '':{'' @ escapeRedisSearchTag (ti_callParams i) @ CHR 0x7D # CHR '')'' #
    ''=>[KNN '' @ show_nat k @ '' @vector $blob AS dist]''"
  have "buildKnnQuery cfg i k = ''('' @ rest" by (simp add: buildKnnQuery_def rest_def)
  moreover have "read_filters SEMANTIC_SCHEMA_TAG_FIELDS rest =
       Some ([[ti_modelAlias i], [ti_clientId i], [sc_embeddingModel cfg], [ti_systemSignature i], [ti_callParams i]],
             '')=>[KNN '' @ show_nat k @ '' @vector $blob AS dist]'')"
    unfolding rest_def SEMANTIC_SCHEMA_TAG_FIELDS_def by (simp only: read_filters_step) simp
  ultimately show ?thesis by blast
qed

definition read_timeout :: jserr where
  "read_timeout = plain_error ''Command timed out''"

text \<open>A client whose reads time out; the world lists the keys it was asked to delete.\<close>

definition failing_client :: "string list search_client" where
  "failing_client = \<lparr>sc_hmget = (\<lambda>k. io_throw read_timeout), sc_del = (\<lambda>k w. (Inr 1, k # w)),
     sc_ft_info = (\<lambda>_. io_return ()), sc_ft_create = (\<lambda>_ _. io_return ()), sc_ft_search = (\<lambda>_ _ _ _. io_throw read_timeout),
     sc_hsetnx_reply = (\<lambda>_ _. io_throw read_timeout), sc_multi_hset_expire = (\<lambda>_ _ _. io_return ()),
     sc_hexists_vector = (\<lambda>_. io_return True), sc_ttl_of = (\<lambda>_. io_return 60)\<rparr>"

definition failing_env :: "string list vector_store_env" where
  "failing_env = \<lparr>ve_getClient = (\<lambda>_. Some failing_client),
     ve_config = Some \<lparr>sc_enabled = True, sc_embeddingModel = ''m'', sc_embeddingDim = 1, sc_embeddingTimeoutMs = 500,
       sc_minSimilarity = 1, sc_ttl = 60, sc_k = 3\<rparr>, ve_sha256 = id, ve_indexCreated = (\<lambda>_. True), ve_setIndexCreated = (\<lambda>_ w. w)\<rparr>"

text \<open>A read of the semantic cache that merely fails (a time-out, a lost connection) deletes the entry it
  could not read, while the exact cache treats the same failure as a miss and leaves its entry alone.\<close>

lemma failed_semantic_read_deletes_entry:
  "\<exists>key. entryKey failing_env i = Inr key \<and> getByTextIdentity failing_env i [] = (Inr None, [key]) \<and>
     RedisCacheAdapter_get \<lparr>rc_isReady = (\<lambda>_. True), rc_getClient = (\<lambda>_. Some
       \<lparr>rk_get = (\<lambda>_. io_throw read_timeout), rk_set_nx = (\<lambda>_ _ _. io_return True), rk_del = (\<lambda>k w. (Inr 1, k # w))\<rparr>)\<rparr> key []
       = (Inr None, [])"
proof -
  obtain key where key: "entryKey failing_env i = Inr key" "key \<noteq> []"
    by (simp add: entryKey_def store_config_def indexName_def failing_env_def)
  have "getByTextIdentity failing_env i [] = (Inr None, [key])"
    using key by (simp add: getByTextIdentity_def io_bind_apply io_catch_apply deleteCorruptEntry_def failing_env_def
        failing_client_def)
  with key show ?thesis by (simp add: RedisCacheAdapter_get_def io_bind_apply)
qed

end
