(* ===== verification/Semantic_Cache.thy ===== *)
theory Semantic_Cache
  imports Vector_Store Circuit_Breaker
begin

text \<open>
  The semantic cache service (\<open>cache/semantic/semantic-cache.service.ts\<close>): which requests it looks at, the
  lookup by text identity, the embedding behind the circuit breaker, the nearest-neighbour search
  and the store of a reply. The embedding backend is a parameter; the vector store is used through the locale
  \<open>vector_store_contract\<close>, interpreted for the Redis adapter.
\<close>

section \<open>Which requests are looked at\<close>

definition lastUserMessageText :: "cache_identity_message list \<Rightarrow> string option" where
  "lastUserMessageText ms =
     map_option (\<lambda>m. js_trim (cim_content m))
       (find (\<lambda>m. cim_role m = RUser \<and> js_trim (cim_content m) \<noteq> []) (rev ms))"

fun count_user_turns :: "nat \<Rightarrow> cache_identity_message list \<Rightarrow> nat option" where
  "count_user_turns n [] = Some n"
| "count_user_turns n (m # ms) =
     (if cim_role m = RAssistant \<or> cim_role m = RTool then None
      else count_user_turns (if cim_role m = RUser then n + 1 else n) ms)"

definition isSingleTurnUserRequest :: "cache_identity_message list \<Rightarrow> bool" where
  "isSingleTurnUserRequest ms \<longleftrightarrow> count_user_turns 0 ms = Some 1"

definition embeddingProbeTimeoutMs :: "int \<Rightarrow> int" where
  "embeddingProbeTimeoutMs embeddingTimeoutMs =
     (let cap = min 2000 (3000 - 1); budget = min cap embeddingTimeoutMs in max 1 budget)"

section \<open>The service\<close>

record 'w vector_store =
  vs_getByTextIdentity :: "text_identity \<Rightarrow> ('w, cached_chat_response option) io"
  vs_knn :: "rat list \<Rightarrow> text_identity \<Rightarrow> nat \<Rightarrow> ('w, vector_search_hit list) io"
  vs_upsert :: "text_identity \<Rightarrow> rat list \<Rightarrow> cached_chat_response \<Rightarrow> nat \<Rightarrow> ('w, unit) io"

definition RedisVectorStoreAdapter :: "'w vector_store_env \<Rightarrow> 'w vector_store" where
  "RedisVectorStoreAdapter env = \<lparr>vs_getByTextIdentity = getByTextIdentity env, vs_knn = knn env, vs_upsert = upsert env\<rparr>"

record 'w semantic_service =
  ss_config :: "semantic_config option"
  ss_prompts :: "resolved_system_prompts option"
  ss_sha256 :: "string \<Rightarrow> string"
  ss_embed :: "string \<Rightarrow> int option \<Rightarrow> ('w, rat list) io"
  ss_store :: "'w vector_store"
  ss_circuit :: "'w \<Rightarrow> breaker"
  ss_setCircuit :: "breaker \<Rightarrow> 'w \<Rightarrow> 'w"
  ss_now :: "'w \<Rightarrow> int"
  ss_metric :: "metric_event \<Rightarrow> 'w \<Rightarrow> 'w"

record semantic_lookup_result =
  sl_reply :: "cached_chat_response option"
  sl_vector :: "rat list option"
  sl_embedAttempted :: bool

record semantic_embed_state =
  es_vector :: "rat list option"
  es_embedAttempted :: bool

definition require_config :: "string \<Rightarrow> 'a option \<Rightarrow> 'a result" where
  "require_config k x = (case x of Some v \<Rightarrow> Inr v | None \<Rightarrow> Inl (plain_error (''Missing config key: '' @ k)))"

definition record_lookup :: "'w semantic_service \<Rightarrow> chat_cache_identity \<Rightarrow> semantic_lookup_outcome \<Rightarrow> ('w, unit) io" where
  "record_lookup s i out = io_update (ss_metric s (MSemanticLookup (ci_modelAlias i) out))"

definition recordLookupSkip :: "'w semantic_service \<Rightarrow> chat_cache_identity \<Rightarrow> ('w, semantic_lookup_result) io" where
  "recordLookupSkip s i = io_bind (record_lookup s i LookupSkip)
     (\<lambda>_. io_return \<lparr>sl_reply = None, sl_vector = None, sl_embedAttempted = False\<rparr>)"

definition ask_circuit :: "'w semantic_service \<Rightarrow> ('w, bool) io" where
  "ask_circuit s = (\<lambda>w. case shouldSkipEmbed EMBEDDING_CIRCUIT_OPEN_AFTER EMBEDDING_CIRCUIT_COOLDOWN_MS (ss_now s w) (ss_circuit s w) of
     (skip, b) \<Rightarrow> (Inr skip, ss_setCircuit s b w))"

definition circuit_success :: "'w semantic_service \<Rightarrow> ('w, unit) io" where
  "circuit_success s = io_update (\<lambda>w. ss_setCircuit s (recordEmbedSuccess (ss_circuit s w)) w)"

definition circuit_failure :: "'w semantic_service \<Rightarrow> ('w, unit) io" where
  "circuit_failure s = io_update (\<lambda>w. ss_setCircuit s
     (recordEmbedFailure EMBEDDING_CIRCUIT_OPEN_AFTER (ss_now s w) (ss_circuit s w)) w)"

definition semantic_identity :: "'w semantic_service \<Rightarrow> resolved_system_prompts \<Rightarrow> chat_cache_identity \<Rightarrow> string \<Rightarrow> text_identity" where
  "semantic_identity s prompts i txt = \<lparr>ti_text = txt, ti_modelAlias = ci_modelAlias i, ti_clientId = ci_clientId i,
     ti_systemSignature = computeSystemSignature (ss_sha256 s) prompts (ci_modelAlias i),
     ti_callParams = hashCallParams (ss_sha256 s) (ci_callParams i)\<rparr>"

text \<open>The embedding and the search, after the text identity missed.\<close>

definition lookup_neighbours ::
  "'w semantic_service \<Rightarrow> semantic_config \<Rightarrow> chat_cache_identity \<Rightarrow> text_identity \<Rightarrow> ('w, semantic_lookup_result) io" where
  "lookup_neighbours s cfg i ti =
     io_bind (ask_circuit s) (\<lambda>skip.
       if skip then recordLookupSkip s i
       else
         io_bind (try_io (ss_embed s (ti_text ti) None)) (\<lambda>embedded.
           case embedded of
             Inl err \<Rightarrow>
               io_bind (circuit_failure s) (\<lambda>_. io_bind (record_lookup s i LookupError) (\<lambda>_.
                 io_return \<lparr>sl_reply = None, sl_vector = None, sl_embedAttempted = True\<rparr>))
           | Inr vector \<Rightarrow>
               io_bind (circuit_success s) (\<lambda>_.
               io_bind (try_io (vs_knn (ss_store s) vector ti (sc_k cfg))) (\<lambda>found.
                 case found of
                   Inl err \<Rightarrow> io_bind (record_lookup s i LookupError) (\<lambda>_.
                     io_return \<lparr>sl_reply = None, sl_vector = Some vector, sl_embedAttempted = True\<rparr>)
                 | Inr hits \<Rightarrow>
                     (case find (\<lambda>h. vh_similarity h \<ge> sc_minSimilarity cfg) hits of
                        None \<Rightarrow> io_bind (record_lookup s i LookupBelowThreshold) (\<lambda>_.
                          io_return \<lparr>sl_reply = None, sl_vector = Some vector, sl_embedAttempted = True\<rparr>)
                      | Some best \<Rightarrow> io_bind (record_lookup s i LookupHit) (\<lambda>_.
                          io_return \<lparr>sl_reply = Some (vh_reply best), sl_vector = Some vector, sl_embedAttempted = True\<rparr>))))))"

definition semantic_lookup :: "'w semantic_service \<Rightarrow> chat_cache_identity \<Rightarrow> ('w, semantic_lookup_result) io" where
  "semantic_lookup s i =
     io_bind (io_lift (require_config ''semanticCache'' (ss_config s))) (\<lambda>cfg.
       if \<not> sc_enabled cfg then recordLookupSkip s i
       else if \<not> isSingleTurnUserRequest (ci_messages i) then recordLookupSkip s i
       else case truthy_str (lastUserMessageText (ci_messages i)) of
         None \<Rightarrow> recordLookupSkip s i
       | Some txt \<Rightarrow>
           io_bind (io_lift (require_config ''resolvedSystemPrompts'' (ss_prompts s))) (\<lambda>prompts.
             let ti = semantic_identity s prompts i txt in
             io_bind (vs_getByTextIdentity (ss_store s) ti) (\<lambda>identityReply.
               case identityReply of
                 Some r \<Rightarrow> io_bind (record_lookup s i LookupHashHit) (\<lambda>_.
                   io_return \<lparr>sl_reply = Some r, sl_vector = None, sl_embedAttempted = False\<rparr>)
               | None \<Rightarrow> lookup_neighbours s cfg i ti)))"

text \<open>The vector to store: the one of the lookup, or a fresh one unless the lookup already tried.\<close>

definition vector_for_store :: "'w semantic_service \<Rightarrow> string \<Rightarrow> semantic_embed_state \<Rightarrow> ('w, rat list option) io" where
  "vector_for_store s txt st =
     (case es_vector st of
        Some v \<Rightarrow> io_return (Some v)
      | None \<Rightarrow>
          if es_embedAttempted st then io_return None
          else
            io_bind (ask_circuit s) (\<lambda>skip.
              if skip then io_return None
              else
                io_bind (try_io (ss_embed s txt None)) (\<lambda>embedded.
                  case embedded of
                    Inl err \<Rightarrow> io_bind (circuit_failure s) (\<lambda>_. io_return None)
                  | Inr v \<Rightarrow> io_bind (circuit_success s) (\<lambda>_. io_return (Some v)))))"

definition storeReply :: "'w semantic_service \<Rightarrow> chat_cache_identity \<Rightarrow> cached_chat_response \<Rightarrow> semantic_embed_state \<Rightarrow> ('w, unit) io" where
  "storeReply s i reply st =
     io_bind (io_lift (require_config ''semanticCache'' (ss_config s))) (\<lambda>cfg.
       if \<not> sc_enabled cfg then io_return ()
       else if \<not> isSingleTurnUserRequest (ci_messages i) then io_return ()
       else case truthy_str (lastUserMessageText (ci_messages i)) of
         None \<Rightarrow> io_return ()
       | Some txt \<Rightarrow>
           io_bind (vector_for_store s txt st) (\<lambda>vector.
             case vector of
               None \<Rightarrow> io_return ()
             | Some v \<Rightarrow>
                 io_bind (io_lift (require_config ''resolvedSystemPrompts'' (ss_prompts s))) (\<lambda>prompts.
                   io_bind (try_io (vs_upsert (ss_store s) (semantic_identity s prompts i txt) v reply (sc_ttl cfg))) (\<lambda>_. io_return ()))))"

definition probeEmbedding :: "'w semantic_service \<Rightarrow> ('w, bool) io" where
  "probeEmbedding s =
     io_bind (io_lift (require_config ''semanticCache'' (ss_config s))) (\<lambda>cfg.
       io_bind (try_io (ss_embed s ''ping'' (Some (embeddingProbeTimeoutMs (sc_embeddingTimeoutMs cfg))))) (\<lambda>r.
         io_return (case r of Inr _ \<Rightarrow> True | Inl _ \<Rightarrow> False)))"

section \<open>The contract of a vector store\<close>

lemma try_io_total [total_intros]: "never_throws (try_io m)"
  unfolding try_io_def by (intro total_intros)

lemma try_io_Inr: "try_io m w = (Inr (Inr x), w') \<longleftrightarrow> m w = (Inr x, w')"
  by (auto simp: try_io_def io_catch_Inr io_bind_Inr)

lemma ask_circuit_total [total_intros]: "never_throws (ask_circuit s)"
  by (auto simp: ask_circuit_def never_throws_def split: prod.splits)

lemma never_throws_sum [total_intros]:
  "(\<And>a. x = Inl a \<Longrightarrow> never_throws (f a)) \<Longrightarrow> (\<And>b. x = Inr b \<Longrightarrow> never_throws (g b)) \<Longrightarrow>
   never_throws (case x of Inl a \<Rightarrow> f a | Inr b \<Rightarrow> g b)"
  by (cases x) simp_all

lemmas service_steps = record_lookup_def recordLookupSkip_def circuit_success_def circuit_failure_def

lemma lookup_neighbours_total: "never_throws (lookup_neighbours s cfg i ti)"
  unfolding lookup_neighbours_def service_steps by (intro total_intros)

lemma vector_for_store_total: "never_throws (vector_for_store s txt st)"
  unfolding vector_for_store_def service_steps by (intro total_intros)

locale vector_store_contract =
  fixes store :: "'w vector_store"
  assumes identity_total: "never_throws (vs_getByTextIdentity store ti)"
    and identity_servable: "vs_getByTextIdentity store ti w = (Inr (Some c), w') \<Longrightarrow> \<not> isUnservableCachedReply c"
    and knn_hits_servable: "vs_knn store v ti k w = (Inr hs, w') \<Longrightarrow> h \<in> set hs \<Longrightarrow> \<not> isUnservableCachedReply (vh_reply h)"
begin

lemma lookup_total:
  assumes "ss_store s = store" "ss_config s = Some cfg" "ss_prompts s = Some prompts"
  shows "never_throws (semantic_lookup s i)"
  unfolding semantic_lookup_def require_config_def assms option.case io_bind_prim Let_def service_steps
  by (intro total_intros identity_total lookup_neighbours_total)

lemma store_total:
  assumes "ss_config s = Some cfg" "ss_prompts s = Some prompts"
  shows "never_throws (storeReply s i reply st)"
  unfolding storeReply_def require_config_def assms option.case io_bind_prim
  by (intro total_intros vector_for_store_total)

lemma neighbours_servable:
  assumes "ss_store s = store"
  shows "returns (lookup_neighbours s cfg i ti) (\<lambda>r. \<forall>c. sl_reply r = Some c \<longrightarrow> \<not> isUnservableCachedReply c)"
proof -
  have "returns (try_io (vs_knn store v ti k)) (\<lambda>x. \<forall>hs h. x = Inr hs \<longrightarrow> h \<in> set hs \<longrightarrow> \<not> isUnservableCachedReply (vh_reply h))" for v k
    unfolding returns_def by (auto simp: try_io_Inr dest: knn_hits_servable)
  note searched = returns_bind [OF this]
  have "h \<in> set hs" if "find P hs = Some h" for P h and hs :: "vector_search_hit list"
    using that by (auto simp: find_Some_iff)
  then show ?thesis
    unfolding lookup_neighbours_def recordLookupSkip_def assms
    by (intro returns_if returns_sum returns_option searched returns_bind_any returns_return) fastforce+
qed

lemma lookup_servable:
  assumes "ss_store s = store"
  shows "returns (semantic_lookup s i) (\<lambda>r. \<forall>c. sl_reply r = Some c \<longrightarrow> \<not> isUnservableCachedReply c)"
proof -
  have "returns (vs_getByTextIdentity store ti) (\<lambda>x. \<forall>c. x = Some c \<longrightarrow> \<not> isUnservableCachedReply c)" for ti
    unfolding returns_def by (auto dest: identity_servable)
  note hit = returns_bind [OF this]
  show ?thesis
    unfolding semantic_lookup_def recordLookupSkip_def Let_def assms
    by (intro returns_if returns_option hit neighbours_servable [OF assms] returns_bind_any returns_return; simp)
qed

end

interpretation redis_vectors: vector_store_contract "RedisVectorStoreAdapter (env\<lparr>ve_config := Some cfg\<rparr>)"
  for env :: "'w vector_store_env" and cfg
proof
  show "never_throws (vs_getByTextIdentity (RedisVectorStoreAdapter (env\<lparr>ve_config := Some cfg\<rparr>)) ti)" for ti
    unfolding RedisVectorStoreAdapter_def vector_store.simps by (rule getByTextIdentity_total) simp
qed (auto simp: RedisVectorStoreAdapter_def dest: getByTextIdentity_servable knn_servable)

section \<open>Properties\<close>

text \<open>C26. With the Redis vector store and its configuration in place, a semantic lookup and the store of a reply never
  throw, whatever Redis and the embedding service do, and a lookup serves only replies that
  passed the schema, ended with \<open>stop\<close> and are not blank, be it by text identity or by
  nearest neighbour.\<close>

theorem semantic_cache_fails_open:
  assumes "ss_store s = RedisVectorStoreAdapter (env\<lparr>ve_config := Some cfg\<rparr>)"
    and "ss_config s = Some cfg" and "ss_prompts s = Some prompts"
  shows "(\<forall>w. \<exists>r w'. semantic_lookup s i w = (Inr r, w') \<and>
       (case sl_reply r of Some c \<Rightarrow> cc_finishReason c = FinStop \<and> js_trim (cc_text c) \<noteq> [] | None \<Rightarrow> True)) \<and>
     never_throws (storeReply s i reply st)"
proof (intro conjI allI)
  fix w
  from redis_vectors.lookup_total [OF assms] obtain r w' where run: "semantic_lookup s i w = (Inr r, w')"
    by (rule never_throwsE)
  from returnsD [OF redis_vectors.lookup_servable [OF assms(1)] run]
  have "case sl_reply r of Some c \<Rightarrow> cc_finishReason c = FinStop \<and> js_trim (cc_text c) \<noteq> [] | None \<Rightarrow> True"
    by (auto simp: isUnservableCachedReply_def split: option.splits)
  with run show "\<exists>r w'. semantic_lookup s i w = (Inr r, w') \<and>
      (case sl_reply r of Some c \<Rightarrow> cc_finishReason c = FinStop \<and> js_trim (cc_text c) \<noteq> [] | None \<Rightarrow> True)" by blast
next
  show "never_throws (storeReply s i reply st)" using redis_vectors.store_total [OF assms(2,3)] .
qed

definition failing_config :: semantic_config where
  "failing_config = \<lparr>sc_enabled = True, sc_embeddingModel = ''m'', sc_embeddingDim = 1, sc_embeddingTimeoutMs = 500,
     sc_minSimilarity = 1, sc_ttl = 60, sc_k = 3\<rparr>"

definition failing_service :: "string list semantic_service" where
  "failing_service = \<lparr>ss_config = Some failing_config,
     ss_prompts = Some \<lparr>rsp_master = ''be kind'', rsp_main = None, rsp_perModelByAlias = []\<rparr>, ss_sha256 = id,
     ss_embed = (\<lambda>_ _. io_throw read_timeout), ss_store = RedisVectorStoreAdapter (failing_env\<lparr>ve_config := Some failing_config\<rparr>),
     ss_circuit = (\<lambda>_. new_breaker), ss_setCircuit = (\<lambda>_ w. w), ss_now = (\<lambda>_. 0), ss_metric = (\<lambda>_ w. w)\<rparr>"

theorem semantic_cache_fails_open_witness:
  "\<exists>r w'. semantic_lookup failing_service (sample_identity ''a'') [] = (Inr r, w') \<and> never_throws (storeReply failing_service (sample_identity ''a'') (sample_reply ''hi'') \<lparr>es_vector = None, es_embedAttempted = False\<rparr>)"
proof -
  have "ss_store failing_service = RedisVectorStoreAdapter (failing_env\<lparr>ve_config := Some failing_config\<rparr>)"
    "ss_config failing_service = Some failing_config"
    "ss_prompts failing_service = Some \<lparr>rsp_master = ''be kind'', rsp_main = None, rsp_perModelByAlias = []\<rparr>"
    by (simp_all add: failing_service_def)
  from semantic_cache_fails_open [OF this] show ?thesis by blast
qed

end
