(* ===== verification/Cache_Pipeline.thy ===== *)
theory Cache_Pipeline
  imports Semantic_Cache Registry
begin

text \<open>
  The two caches as the chat service uses them: the caching policy (\<open>chat/helpers/cache-policy.ts\<close>), the
  conversion of a live response (\<open>to-cached-chat-response.ts\<close>) and \<open>ChatCachePipelineService\<close>. The semantic cache is
  optional, as in the code. \<open>new Date().toISOString()\<close> is the parameter \<open>pl_nowIso\<close>.
\<close>

section \<open>Policy\<close>

definition isCachedChatAllowedForModelAlias :: "gateway_config option \<Rightarrow> string \<Rightarrow> bool" where
  "isCachedChatAllowedForModelAlias gateway a =
     (case gateway of
        None \<Rightarrow> False
      | Some g \<Rightarrow>
          (case map_of (gw_models g) a of
             None \<Rightarrow> False
           | Some m \<Rightarrow>
               (case map_of (gw_providers g) (mc_providerInstance m) of
                  None \<Rightarrow> False
                | Some row \<Rightarrow> pic_enabled row)))"

definition shouldStoreChatResponse :: "chat_response_data \<Rightarrow> bool" where
  "shouldStoreChatResponse r =
     (if cr_finishReason r \<noteq> Some FinStop then False
      else if length (js_trim (cr_text r)) = 0 then False
      else if nullish (map_option length (cr_toolCalls r)) 0 > 0 then False
      else True)"

definition toCachedChatResponse :: "string \<Rightarrow> chat_response_data \<Rightarrow> cached_chat_response" where
  "toCachedChatResponse nowIso r =
     \<lparr>cc_id = cr_id r, cc_provider = cr_provider r, cc_model = cr_model r, cc_text = cr_text r,
      cc_usage = map_option (\<lambda>u. \<lparr>inputTokens = nullish (ru_inputTokens u) 0, outputTokens = nullish (ru_outputTokens u) 0\<rparr>) (cr_usage r),
      cc_cachedAt = nowIso, cc_finishReason = nullish (cr_finishReason r) FinStop,
      cc_warnings = truthy_list (cr_warnings r), cc_thinkingContent = truthy_str (cr_thinkingContent r),
      cc_effectiveModelAlias = truthy_str (cr_effectiveModelAlias r), cc_usageDetails = cr_usageDetails r,
      cc_systemFingerprint = truthy_str (cr_systemFingerprint r)\<rparr>"

section \<open>The pipeline\<close>

record 'w cache_pipeline =
  pl_exact :: "'w response_cache"
  pl_semantic :: "'w semantic_service option"
  pl_gateway :: "gateway_config option"
  pl_nowIso :: "'w \<Rightarrow> string"
  pl_metric :: "metric_event \<Rightarrow> 'w \<Rightarrow> 'w"

datatype cache_lookup_result =
    CacheHit cached_chat_response cache_source
  | CacheMiss "semantic_embed_state option"

definition bypasses_cache :: "chat_request \<Rightarrow> string \<Rightarrow> string \<Rightarrow> bool" where
  "bypasses_cache r clientId gatewayKey \<longleftrightarrow> isToolingRequest r \<or> gatewayKey = [] \<or> clientId = ''unknown''"

definition getCachedIfAllowed ::
  "'w cache_pipeline \<Rightarrow> chat_request \<Rightarrow> call_options \<Rightarrow> string \<Rightarrow> string \<Rightarrow> ('w, cache_lookup_result) io" where
  "getCachedIfAllowed pl r options clientId gatewayKey =
     (if bypasses_cache r clientId gatewayKey then io_return (CacheMiss None)
      else
        io_bind (io_lift (require_config ''gateway'' (pl_gateway pl))) (\<lambda>gateway.
          if \<not> isCachedChatAllowedForModelAlias (Some gateway) (modelAlias r) then io_return (CacheMiss None)
          else
            let identity = toChatCacheIdentity r clientId (Some options) in
            io_bind (getCachedResponse (pl_exact pl) identity) (\<lambda>exact.
              case exact of
                Some c \<Rightarrow>
                  io_bind (io_update (pl_metric pl (MPipelineAccess (modelAlias r) True))) (\<lambda>_. io_return (CacheHit c CacheExact))
              | None \<Rightarrow>
                  (case pl_semantic pl of
                     None \<Rightarrow> io_return (CacheMiss None)
                   | Some sem \<Rightarrow>
                       io_bind (semantic_lookup sem identity) (\<lambda>sr.
                         case sl_reply sr of
                           Some c \<Rightarrow>
                             io_bind (io_update (pl_metric pl (MPipelineAccess (modelAlias r) True)))
                               (\<lambda>_. io_return (CacheHit c CacheSemantic))
                         | None \<Rightarrow> io_return (CacheMiss (Some \<lparr>es_vector = sl_vector sr, es_embedAttempted = sl_embedAttempted sr\<rparr>)))))))"

definition pipeline_buildIdentityKey :: "'w cache_pipeline \<Rightarrow> chat_request \<Rightarrow> string \<Rightarrow> call_options \<Rightarrow> string result" where
  "pipeline_buildIdentityKey pl r clientId options =
     buildIdentityKey (rs_sha256 (pl_exact pl)) (rs_config (pl_exact pl)) (toChatCacheIdentity r clientId (Some options))"

definition setCachedIfAllowed ::
  "'w cache_pipeline \<Rightarrow> chat_request \<Rightarrow> chat_response_data \<Rightarrow> call_options \<Rightarrow> string \<Rightarrow> string \<Rightarrow> semantic_embed_state option \<Rightarrow> ('w, unit) io" where
  "setCachedIfAllowed pl r response options clientId gatewayKey embedState =
     (if bypasses_cache r clientId gatewayKey then io_return ()
      else
        io_bind (io_lift (require_config ''gateway'' (pl_gateway pl))) (\<lambda>gateway.
          if \<not> isCachedChatAllowedForModelAlias (Some gateway) (modelAlias r) then io_return ()
          else if \<not> shouldStoreChatResponse response then io_return ()
          else
            let identity = toChatCacheIdentity r clientId (Some options) in
            io_bind (io_get (pl_nowIso pl)) (\<lambda>nowIso.
              let cached = toCachedChatResponse nowIso response in
              io_bind (setCachedResponse (pl_exact pl) identity cached None) (\<lambda>_.
                case pl_semantic pl of
                  None \<Rightarrow> io_return ()
                | Some sem \<Rightarrow> storeReply sem identity cached (nullish embedState \<lparr>es_vector = None, es_embedAttempted = False\<rparr>)))))"

section \<open>Lemmas\<close>

text \<open>What the policy stores can be served.\<close>

lemma stored_is_servable: "shouldStoreChatResponse r \<Longrightarrow> \<not> isUnservableCachedReply (toCachedChatResponse t r)"
  by (auto simp: shouldStoreChatResponse_def isUnservableCachedReply_def toCachedChatResponse_def split: if_splits)

lemma getCachedResponse_servable:
  "returns (getCachedResponse s i) (\<lambda>r. \<forall>c. r = Some c \<longrightarrow> \<not> isUnservableCachedReply c)"
  unfolding getCachedResponse_def drop_entry_def
  by (intro returns_if returns_option returns_catch returns_bind_any returns_return; simp)

lemma bypass_unchanged:
  assumes "bypasses_cache r c k"
  shows "getCachedIfAllowed pl r o' c k w = (Inr (CacheMiss None), w)" "setCachedIfAllowed pl r resp o' c k es w = (Inr (), w)"
  using assms by (simp_all add: getCachedIfAllowed_def setCachedIfAllowed_def)

lemma lookup_hit_conditions:
  assumes sem: "\<And>sem. pl_semantic pl = Some sem \<Longrightarrow>
      returns (semantic_lookup sem (toChatCacheIdentity r c (Some o'))) (\<lambda>sr. \<forall>x. sl_reply sr = Some x \<longrightarrow> \<not> isUnservableCachedReply x)"
  shows "returns (getCachedIfAllowed pl r o' c k) (\<lambda>res. \<forall>x src. res = CacheHit x src \<longrightarrow>
     \<not> bypasses_cache r c k \<and> isCachedChatAllowedForModelAlias (pl_gateway pl) (modelAlias r) \<and> \<not> isUnservableCachedReply x)"
proof -
  have gw: "returns (io_lift (require_config ''gateway'' (pl_gateway pl))) (\<lambda>g. pl_gateway pl = Some g)"
    by (auto simp: returns_def require_config_def split: option.splits)
  note steps = returns_bind [OF gw] returns_bind [OF getCachedResponse_servable] returns_bind [OF sem]
  show ?thesis
    unfolding getCachedIfAllowed_def Let_def
    by (intro returns_if returns_option steps returns_bind_any returns_return) auto
qed

lemma setCachedIfAllowed_total:
  assumes "pl_gateway pl = Some g" and "\<And>i c. never_throws (setCachedResponse (pl_exact pl) i c None)"
    and "\<And>sem i c st. pl_semantic pl = Some sem \<Longrightarrow> never_throws (storeReply sem i c st)"
  shows "never_throws (setCachedIfAllowed pl r resp o' c k es)"
  unfolding setCachedIfAllowed_def require_config_def assms(1) option.case io_bind_prim Let_def
  by (intro total_intros assms(2,3))

section \<open>Properties\<close>


lemma pipeline_store_then_serve:
  assumes "rs_backend (pl_exact pl) = RedisCacheAdapter conn" and "kv_laws conn store" and "rc_isReady conn w"
    and "pl_gateway pl = Some gateway" and "isCachedChatAllowedForModelAlias (Some gateway) (modelAlias r)"
    and "\<not> bypasses_cache r clientId gatewayKey"
    and "shouldStoreChatResponse response" and "counts_ok (toCachedChatResponse (pl_nowIso pl w) response)"
    and "pipeline_buildIdentityKey pl r clientId options = Inr key" and "store w key = None"
    and "\<And>sem i c st v v'. pl_semantic pl = Some sem \<Longrightarrow> storeReply sem i c st v = (Inr (), v') \<Longrightarrow>
           getCachedResponse (pl_exact pl) (toChatCacheIdentity r clientId (Some options)) v = getCachedResponse (pl_exact pl) (toChatCacheIdentity r clientId (Some options)) v'"
    and "setCachedIfAllowed pl r response options clientId gatewayKey es w = (Inr (), w1)"
  shows "\<exists>w2. getCachedIfAllowed pl r options clientId gatewayKey w1 =
           (Inr (CacheHit (toCachedChatResponse (pl_nowIso pl w) response) CacheExact), w2)"
proof -
  let ?i = "toChatCacheIdentity r clientId (Some options)" and ?c = "toCachedChatResponse (pl_nowIso pl w) response"
  obtain x v where set: "setCachedResponse (pl_exact pl) ?i ?c None w = (x, v)" by fastforce
  have key: "buildIdentityKey (rs_sha256 (pl_exact pl)) (rs_config (pl_exact pl)) ?i = Inr key"
    using assms(9) by (simp add: pipeline_buildIdentityKey_def)
  note stored = stored_is_servable [OF assms(7)]
  obtain w2 where get: "x = Inr ()" "getCachedResponse (pl_exact pl) ?i v = (Inr (Some ?c), w2)"
    using exact_cache_store_read [OF assms(1-3) key assms(8) stored set] assms(10) by blast
  have "getCachedResponse (pl_exact pl) ?i w1 = (Inr (Some ?c), w2)"
  proof (cases "pl_semantic pl")
    case None
    then show ?thesis using assms(4-7,12) set get
      by (simp add: setCachedIfAllowed_def require_config_def io_bind_apply Let_def)
  next
    case (Some sem)
    then have "storeReply sem ?i ?c (nullish es \<lparr>es_vector = None, es_embedAttempted = False\<rparr>) v = (Inr (), w1)"
      using assms(4-7,12) set get by (simp add: setCachedIfAllowed_def require_config_def io_bind_apply Let_def)
    from assms(11) [OF Some this] show ?thesis using get by simp
  qed
  then show ?thesis using assms(4-6)
    by (simp add: getCachedIfAllowed_def require_config_def io_bind_apply Let_def)
qed


definition sample_gateway :: gateway_config where
  "sample_gateway = sample_config\<lparr>gw_providers := [(''p'', sample_provider True)], gw_models := [(''m'', sample_model ''p'' None)]\<rparr>"

definition mem_pipeline :: "(string \<Rightarrow> string option) cache_pipeline" where
  "mem_pipeline = \<lparr>pl_exact = mem_cache, pl_semantic = None, pl_gateway = Some sample_gateway, pl_nowIso = (\<lambda>_. ''2026-01-01T00:00:00.000Z''),
     pl_metric = (\<lambda>_ w. w)\<rparr>"

definition sample_chat_response :: "string \<Rightarrow> chat_response_data" where
  "sample_chat_response t = \<lparr>cr_id = ''r1'', cr_provider = ''p'', cr_model = ''m'', cr_effectiveModelAlias = None, cr_text = t,
     cr_usage = None, cr_requestId = ''req'', cr_conversationId = ''conv'', cr_toolCalls = None, cr_finishReason = Some FinStop,
     cr_usageDetails = None, cr_systemFingerprint = None, cr_thinkingContent = None, cr_warnings = None\<rparr>"

abbreviation hello :: chat_request where
  "hello \<equiv> sample_request ''m'' [sample_message RUser ''hi'']"

lemma sample_pipeline_facts:
  "isCachedChatAllowedForModelAlias (Some sample_gateway) (modelAlias hello)"
  "\<not> bypasses_cache hello ''a'' ''k''"
  "shouldStoreChatResponse (sample_chat_response ''hey'')"
  "counts_ok (toCachedChatResponse t (sample_chat_response x))"
proof -
  have "length (js_trim ''hey'') \<noteq> 0" by code_simp
  then show "shouldStoreChatResponse (sample_chat_response ''hey'')"
    by (simp add: shouldStoreChatResponse_def sample_chat_response_def)
qed (simp_all add: isCachedChatAllowedForModelAlias_def sample_gateway_def sample_defs sample_request_def bypasses_cache_def
    isToolingRequest_def counts_ok_def toCachedChatResponse_def sample_chat_response_def opt_all_def sample_message_def)

lemma sample_store_then_serve:
  "\<exists>w1 w2. setCachedIfAllowed mem_pipeline hello (sample_chat_response ''hey'') no_params ''a'' ''k'' None (\<lambda>_. None) = (Inr (), w1) \<and>
     getCachedIfAllowed mem_pipeline hello no_params ''a'' ''k'' w1 =
       (Inr (CacheHit (toCachedChatResponse ''2026-01-01T00:00:00.000Z'' (sample_chat_response ''hey'')) CacheExact), w2)"
proof -
  let ?r = "sample_chat_response ''hey''" and ?pl = mem_pipeline
  have pl: "pl_exact ?pl = mem_cache" "pl_semantic ?pl = None" "pl_gateway ?pl = Some sample_gateway"
    "pl_nowIso ?pl w = ''2026-01-01T00:00:00.000Z''" for w by (simp_all add: mem_pipeline_def)
  obtain key where key: "pipeline_buildIdentityKey ?pl hello ''a'' no_params = Inr key"
    using mem_cache_simps(3) by (auto simp: pipeline_buildIdentityKey_def pl)
  obtain u w1 where run: "setCachedIfAllowed ?pl hello ?r no_params ''a'' ''k'' None (\<lambda>_. None) = (u, w1)" by fastforce
  have "never_throws (setCachedResponse mem_cache i c t)" for i c t
    by (rule redis_backend.service_total(2)) (simp_all add: mem_cache_def sample_cache_config_def)
  then have "never_throws (setCachedIfAllowed ?pl hello ?r no_params ''a'' ''k'' None)"
    by (intro setCachedIfAllowed_total [OF pl(3)]) (simp_all add: pl)
  then have "u = Inr ()" using run by (auto elim: never_throwsE [of _ "\<lambda>_. None"])
  with pipeline_store_then_serve [where pl = ?pl and gateway = sample_gateway and r = hello and w = "\<lambda>_. None", OF _ mem_kv_laws mem_cache_simps(2) pl(3) sample_pipeline_facts(1-3)
      sample_pipeline_facts(4) key _ _ run [unfolded \<open>u = Inr ()\<close>]] run show ?thesis
    by (auto simp: pl mem_cache_simps(1))
qed



end
