(* ===== verification/Response_Builder.thy ===== *)
theory Response_Builder
  imports Response_Cache
begin

text \<open>
  What the gateway answers: \<open>ChatResponseBuilderService\<close>, the API objects of \<open>chat-response.dto.ts\<close>, the
  SSE wire format (\<open>sse.serializer.ts\<close>) and \<open>StreamCacheReplayService\<close>. \<open>emit\<close> is the function the
  caller passes, a change of the world; the abort test \<open>shouldAbort\<close> reads the world.
\<close>

section \<open>Responses of a live call (chat-response-builder.service.ts)\<close>

record provider_response =
  prr_text :: string
  prr_usage :: "response_usage option"
  prr_toolCalls :: "gateway_tool_call list option"
  prr_stopReason :: "stop_reason option"
  prr_usageDetails :: "usage_details option"
  prr_systemFingerprint :: "string option"
  prr_thinkingContent :: "string option"

definition response_warnings :: "call_options option \<Rightarrow> provider_type option \<Rightarrow> chat_warning list" where
  "response_warnings options providerType =
     (case (options, providerType) of (Some o', Some t) \<Rightarrow> buildGenerationWarnings o' t | _ \<Rightarrow> [])"

definition buildChatResponse ::
  "('w \<Rightarrow> string \<times> 'w) \<Rightarrow> provider_response \<Rightarrow> string \<Rightarrow> string \<Rightarrow> string \<Rightarrow> string \<Rightarrow> string option \<Rightarrow>
   call_options option \<Rightarrow> provider_type option \<Rightarrow> string option \<Rightarrow> 'w \<Rightarrow> chat_response_data \<times> 'w" where
  "buildChatResponse uuidv4 response providerName alias' requestId convId effectiveModelAlias options providerType responseId w =
     (let warnings = response_warnings options providerType;
          (rid, w') = (case responseId of
              Some i \<Rightarrow> (i, w)
            | None \<Rightarrow> (case uuidv4 w of (u, w1) \<Rightarrow> (''gw_'' @ u, w1)))
      in (\<lparr>cr_id = rid, cr_provider = providerName, cr_model = alias',
           cr_effectiveModelAlias = truthy_str effectiveModelAlias,
           cr_text = prr_text response, cr_usage = prr_usage response,
           cr_requestId = requestId, cr_conversationId = convId,
           cr_toolCalls = truthy_list (prr_toolCalls response),
           cr_finishReason = Some (mapStopReasonToFinishReason (prr_stopReason response) (prr_toolCalls response)),
           cr_usageDetails = prr_usageDetails response,
           cr_systemFingerprint = truthy_str (prr_systemFingerprint response),
           cr_thinkingContent = truthy_str (prr_thinkingContent response),
           cr_warnings = (if warnings = [] then None else Some warnings)\<rparr>, w'))"

definition sse_usage_of :: "token_usage \<Rightarrow> sse_usage" where
  "sse_usage_of u = \<lparr>su_inputTokens = inputTokens u, su_outputTokens = outputTokens u,
     su_totalTokens = inputTokens u + outputTokens u\<rparr>"

definition buildStreamDoneEvent ::
  "token_usage option \<Rightarrow> gateway_tool_call list option \<Rightarrow> stop_reason option \<Rightarrow> string option \<Rightarrow> string option \<Rightarrow>
   call_options option \<Rightarrow> provider_type option \<Rightarrow> usage_details option \<Rightarrow> string option \<Rightarrow> sse_event" where
  "buildStreamDoneEvent usageMetadata toolCalls stopReason systemFingerprint thinkingContent options providerType
     usageDetails effectiveModelAlias =
     (let warnings = response_warnings options providerType
      in SseDone \<lparr>sd_usage = map_option sse_usage_of usageMetadata, sd_toolCalls = truthy_list toolCalls,
           sd_finishReason = mapStopReasonToFinishReason stopReason toolCalls, sd_usageDetails = usageDetails,
           sd_effectiveModelAlias = truthy_str effectiveModelAlias, sd_systemFingerprint = truthy_str systemFingerprint,
           sd_thinkingContent = truthy_str thinkingContent,
           sd_warnings = (if warnings = [] then None else Some warnings)\<rparr>)"

section \<open>API objects (chat-response.dto.ts)\<close>

record chat_response_dto =
  dto_id :: string
  dto_provider :: string
  dto_model :: string
  dto_effectiveModelAlias :: "string option"
  dto_toolCalls :: "gateway_tool_call list option"
  dto_finishReason :: "finish_reason option"
  dto_text :: string
  dto_usage :: "response_usage option"
  dto_requestId :: string
  dto_conversationId :: string
  dto_cached :: "(string \<times> cache_source) option"
  dto_usageDetails :: "usage_details option"
  dto_systemFingerprint :: "string option"
  dto_thinkingContent :: "string option"
  dto_warnings :: "chat_warning list option"

definition toChatResponseDto :: "chat_response_data \<Rightarrow> chat_response_dto" where
  "toChatResponseDto d =
     \<lparr>dto_id = cr_id d, dto_provider = cr_provider d, dto_model = cr_model d,
      dto_effectiveModelAlias = truthy_str (cr_effectiveModelAlias d), dto_toolCalls = truthy_list (cr_toolCalls d),
      dto_finishReason = cr_finishReason d, dto_text = cr_text d, dto_usage = cr_usage d,
      dto_requestId = cr_requestId d, dto_conversationId = cr_conversationId d, dto_cached = None,
      dto_usageDetails = cr_usageDetails d, dto_systemFingerprint = truthy_str (cr_systemFingerprint d),
      dto_thinkingContent = truthy_str (cr_thinkingContent d), dto_warnings = truthy_list (cr_warnings d)\<rparr>"

definition toChatResponseDtoFromCache ::
  "cached_chat_response \<Rightarrow> string \<Rightarrow> cache_source \<Rightarrow> string \<Rightarrow> chat_response_dto" where
  "toChatResponseDtoFromCache d convId cacheSource requestId =
     \<lparr>dto_id = cc_id d, dto_provider = cc_provider d, dto_model = cc_model d,
      dto_effectiveModelAlias = truthy_str (cc_effectiveModelAlias d), dto_toolCalls = None,
      dto_finishReason = Some (cc_finishReason d), dto_text = cc_text d,
      dto_usage = map_option (\<lambda>u. \<lparr>ru_inputTokens = Some (inputTokens u), ru_outputTokens = Some (outputTokens u),
        ru_totalTokens = Some (inputTokens u + outputTokens u)\<rparr>) (cc_usage d),
      dto_requestId = requestId, dto_conversationId = convId, dto_cached = Some (cc_cachedAt d, cacheSource),
      dto_usageDetails = cc_usageDetails d, dto_systemFingerprint = truthy_str (cc_systemFingerprint d),
      dto_thinkingContent = truthy_str (cc_thinkingContent d), dto_warnings = truthy_list (cc_warnings d)\<rparr>"

section \<open>The SSE wire format (sse.serializer.ts)\<close>

fun cache_source_string :: "cache_source \<Rightarrow> string" where
  "cache_source_string CacheExact = ''exact''"
| "cache_source_string CacheSemantic = ''semantic''"

fun event_name :: "sse_event \<Rightarrow> string" where
  "event_name (SseMeta _) = ''meta''"
| "event_name (SseDelta _) = ''delta''"
| "event_name (SseDone _) = ''done''"

definition meta_json :: "sse_meta \<Rightarrow> json" where
  "meta_json m = JObj
     ([(''id'', JStr (sm_id m)), (''provider'', JStr (sm_provider m)), (''model'', JStr (sm_model m))] @
      opt_prop ''effectiveModelAlias'' JStr (sm_effectiveModelAlias m) @
      [(''requestId'', JStr (sm_requestId m)), (''conversationId'', JStr (sm_conversationId m))] @
      (case sm_cached m of
         Some (cachedAt, src) \<Rightarrow> [(''cached'', JBool True), (''cachedAt'', JStr cachedAt), (''cacheSource'', JStr (cache_source_string src))]
       | None \<Rightarrow> []))"

definition sse_usage_json :: "sse_usage \<Rightarrow> json" where
  "sse_usage_json u = JObj [(''inputTokens'', JNum (of_int (su_inputTokens u))), (''outputTokens'', JNum (of_int (su_outputTokens u))),
     (''totalTokens'', JNum (of_int (su_totalTokens u)))]"

definition done_json :: "sse_done \<Rightarrow> json" where
  "done_json d = JObj
     (opt_prop ''usage'' sse_usage_json (sd_usage d) @
      opt_prop ''toolCalls'' (\<lambda>cs. JArr (map tool_call_json cs)) (sd_toolCalls d) @
      [(''finishReason'', JStr (finish_reason_string (sd_finishReason d)))] @
      opt_prop ''systemFingerprint'' JStr (sd_systemFingerprint d) @
      opt_prop ''thinkingContent'' JStr (sd_thinkingContent d) @
      opt_prop ''usageDetails'' usage_details_json (sd_usageDetails d) @
      opt_prop ''effectiveModelAlias'' JStr (sd_effectiveModelAlias d) @
      opt_prop ''warnings'' (\<lambda>ws. JArr (map warning_json ws)) (sd_warnings d))"

fun event_data :: "sse_event \<Rightarrow> json" where
  "event_data (SseMeta m) = meta_json m"
| "event_data (SseDelta t) = JObj [(''text'', JStr t)]"
| "event_data (SseDone d) = done_json d"

abbreviation newline :: char where
  "newline \<equiv> CHR 0x0A"

definition serialize :: "sse_event \<Rightarrow> string" where
  "serialize e = ''event: '' @ event_name e @ [newline] @ ''data: '' @ json_stringify (event_data e) @ [newline, newline]"

text \<open>A client of the wire format: lines up to an empty one make an event.\<close>

fun split_lines :: "string \<Rightarrow> string list" where
  "split_lines [] = [[]]"
| "split_lines (c # s) =
     (if c = newline then [] # split_lines s
      else case split_lines s of [] \<Rightarrow> [[c]] | l # ls \<Rightarrow> (c # l) # ls)"

fun read_frames :: "string list \<Rightarrow> (string \<times> json result) list" where
  "read_frames (ev # da # e # ls) =
     (if take 7 ev = ''event: '' \<and> take 6 da = ''data: '' \<and> e = []
      then (drop 7 ev, json_parse (drop 6 da)) # read_frames ls else [])"
| "read_frames _ = []"

section \<open>Replay of a cached reply (stream-cache-replay.service.ts)\<close>

definition STREAM_CACHE_REPLAY_CHUNK_SIZE :: nat where
  "STREAM_CACHE_REPLAY_CHUNK_SIZE = 64"

definition aborts :: "('w \<Rightarrow> bool) option \<Rightarrow> 'w \<Rightarrow> bool" where
  "aborts shouldAbort w = (case shouldAbort of Some f \<Rightarrow> f w | None \<Rightarrow> False)"

text \<open>The loop over \<open>i\<close>; the first component tells that it returned from inside.\<close>

function replay_deltas :: "(sse_event \<Rightarrow> 'w \<Rightarrow> 'w) \<Rightarrow> ('w \<Rightarrow> bool) option \<Rightarrow> string \<Rightarrow> nat \<Rightarrow> 'w \<Rightarrow> bool \<times> 'w" where
  "replay_deltas emit shouldAbort s i w =
     (if i < length s then
        if aborts shouldAbort w then (True, w)
        else replay_deltas emit shouldAbort s (i + STREAM_CACHE_REPLAY_CHUNK_SIZE)
               (emit (SseDelta (take STREAM_CACHE_REPLAY_CHUNK_SIZE (drop i s))) w)
      else (False, w))"
  by pat_completeness auto

termination replay_deltas
  by (relation "measure (\<lambda>(_, _, s, i, _). length s - i)") (auto simp: STREAM_CACHE_REPLAY_CHUNK_SIZE_def)

declare replay_deltas.simps [simp del]

definition replay_meta :: "cached_chat_response \<Rightarrow> cache_source \<Rightarrow> string \<Rightarrow> string \<Rightarrow> sse_event" where
  "replay_meta c src requestId convId =
     SseMeta \<lparr>sm_id = cc_id c, sm_provider = cc_provider c, sm_model = cc_model c,
       sm_effectiveModelAlias = truthy_str (cc_effectiveModelAlias c), sm_requestId = requestId,
       sm_conversationId = convId, sm_cached = Some (cc_cachedAt c, src)\<rparr>"

definition replay_done :: "cached_chat_response \<Rightarrow> sse_event" where
  "replay_done c =
     SseDone \<lparr>sd_usage = map_option sse_usage_of (cc_usage c), sd_toolCalls = None, sd_finishReason = cc_finishReason c,
       sd_usageDetails = cc_usageDetails c, sd_effectiveModelAlias = truthy_str (cc_effectiveModelAlias c),
       sd_systemFingerprint = truthy_str (cc_systemFingerprint c), sd_thinkingContent = truthy_str (cc_thinkingContent c),
       sd_warnings = truthy_list (cc_warnings c)\<rparr>"

definition replay ::
  "cached_chat_response \<Rightarrow> cache_source \<Rightarrow> string \<Rightarrow> string \<Rightarrow> (sse_event \<Rightarrow> 'w \<Rightarrow> 'w) \<Rightarrow> ('w \<Rightarrow> bool) option \<Rightarrow> 'w \<Rightarrow> 'w" where
  "replay c src requestId convId emit shouldAbort w =
     (if aborts shouldAbort w then w
      else case replay_deltas emit shouldAbort (cc_text c) 0 (emit (replay_meta c src requestId convId) w) of
             (True, w1) \<Rightarrow> w1
           | (False, w1) \<Rightarrow> if aborts shouldAbort w1 then w1 else emit (replay_done c) w1)"

section \<open>Lemmas: the wire format\<close>

lemma no_newline_join: "(\<forall>x \<in> set xs. newline \<notin> set x) \<Longrightarrow> newline \<notin> set sep \<Longrightarrow> newline \<notin> set (js_join sep xs)"
  by (induction sep xs rule: js_join.induct) auto

lemma hex_digit_no_newline: "d < 16 \<Longrightarrow> hex_digit d \<noteq> newline"
  using hex_val_digit [of d] by (auto simp: hex_val_def)

lemma escape_no_newline: "newline \<notin> set (json_escape c)"
proof -
  have "(of_char c :: nat) < 256" by simp
  then have "(of_char c :: nat) div 16 < 16" by linarith
  then have "hex_digit (of_char c div 16) \<noteq> newline" "hex_digit (of_char c mod 16) \<noteq> newline"
    by (simp_all add: hex_digit_no_newline)
  then show ?thesis by (auto simp: json_escape_def Let_def)
qed

lemma show_rat_no_newline: "newline \<notin> set (show_rat q)"
proof -
  have nl: "\<not> is_digit newline" by (simp add: is_digit_def)
  have "newline \<notin> set (show_nat n)" for n using show_nat_digits [of n] nl by blast
  moreover have "newline \<notin> set (frac_digits 24 (\<bar>q\<bar> - of_int \<lfloor>\<bar>q\<bar>\<rfloor>))"
    using frac_digits_digits [of "\<bar>q\<bar> - of_int \<lfloor>\<bar>q\<bar>\<rfloor>" 24] nl by (metis frac_def frac_ge_0 frac_lt_1)
  ultimately show ?thesis by (simp add: show_rat_def Let_def)
qed

lemma quote_no_newline: "newline \<notin> set (json_quote s)"
  using escape_no_newline by (auto simp: json_quote_def)

lemma stringify_no_newline: "newline \<notin> set (json_stringify j)"
proof (induction j rule: json_stringify.induct)
  case (3 q)
  then show ?case by (simp add: show_rat_no_newline)
next
  case (4 s)
  then show ?case by (simp add: quote_no_newline)
next
  case (5 vs)
  then show ?case by (simp add: no_newline_join)
next
  case (6 kvs)
  then have "\<forall>x \<in> set (map (\<lambda>kv. json_quote (fst kv) @ '':'' @ json_stringify (snd kv)) kvs). newline \<notin> set x"
    using quote_no_newline by auto
  then have "newline \<notin> set (js_join '','' (map (\<lambda>kv. json_quote (fst kv) @ '':'' @ json_stringify (snd kv)) kvs))"
    by (rule no_newline_join) simp
  then show ?case by simp
qed simp_all

lemma split_lines_append [simp]: "newline \<notin> set a \<Longrightarrow> split_lines (a @ newline # b) = a # split_lines b"
  by (induction a) auto

lemma read_frames_serialize:
  "json_ok (event_data e) \<Longrightarrow>
   read_frames (split_lines (serialize e @ s)) = (event_name e, Inr (event_data e)) # read_frames (split_lines s)"
proof -
  assume ok: "json_ok (event_data e)"
  let ?ev = "''event: '' @ event_name e" and ?da = "''data: '' @ json_stringify (event_data e)"
  have nl: "newline \<notin> set ?ev" "newline \<notin> set ?da" by (cases e; simp) (simp add: stringify_no_newline)
  have "serialize e @ s = ?ev @ newline # ?da @ newline # [] @ newline # s" by (simp add: serialize_def)
  then have "split_lines (serialize e @ s) = ?ev # ?da # [] # split_lines s"
    using nl by (simp only: split_lines_append split_lines.simps append_Nil if_True simp_thms)
  then show ?thesis using json_roundtrip [OF ok] by simp
qed

lemma event_data_ok: "json_ok (event_data e)"
proof -
  have parts: "json_ok (warning_json w)" "json_ok (usage_details_json d)" "json_ok (sse_usage_json u)" "json_ok (tool_call_json t)" for w d u t
    by (simp_all add: warning_json_def usage_details_json_def sse_usage_json_def tool_call_json_def opt_allI)
  show ?thesis
  proof (cases e)
    case (SseMeta m)
    consider "sm_cached m = None" | t src where "sm_cached m = Some (t, src)" by (metis option.exhaust surj_pair)
    then show ?thesis by cases (simp_all add: SseMeta meta_json_def opt_allI)
  next
    case (SseDone d)
    then show ?thesis by (simp add: done_json_def parts opt_allI list_all_iff [of json_ok])
  qed simp
qed

section \<open>Lemmas: replay\<close>

function split_chunks :: "string \<Rightarrow> string list" where
  "split_chunks s = (if s = [] then []
     else take STREAM_CACHE_REPLAY_CHUNK_SIZE s # split_chunks (drop STREAM_CACHE_REPLAY_CHUNK_SIZE s))"
  by pat_completeness auto

termination split_chunks
  by (relation "measure length") (auto simp: STREAM_CACHE_REPLAY_CHUNK_SIZE_def)

declare split_chunks.simps [simp del]

text \<open>The events of an uninterrupted replay.\<close>

definition replay_events :: "cached_chat_response \<Rightarrow> cache_source \<Rightarrow> string \<Rightarrow> string \<Rightarrow> sse_event list" where
  "replay_events c src requestId convId =
     [replay_meta c src requestId convId] @ map SseDelta (split_chunks (cc_text c)) @ [replay_done c]"

lemma split_chunks_Nil [simp]: "split_chunks [] = []"
  by (subst split_chunks.simps) simp

lemma concat_split_chunks [simp]: "concat (split_chunks s) = s"
proof (induction s rule: split_chunks.induct)
  case (1 s)
  then show ?case by (subst split_chunks.simps) simp
qed

lemma split_chunks_sizes: "t \<in> set (split_chunks s) \<Longrightarrow> t \<noteq> [] \<and> length t \<le> 64"
proof (induction s rule: split_chunks.induct)
  case (1 s)
  then show ?case
    by (subst (asm) split_chunks.simps) (auto simp: STREAM_CACHE_REPLAY_CHUNK_SIZE_def split: if_splits)
qed

lemma replay_deltas_events:
  assumes log: "\<And>e w. lg (emit e w) = lg w @ [e]" and run: "replay_deltas emit shouldAbort s i w = (b, w')"
  shows "\<exists>k \<le> length (split_chunks (drop i s)). lg w' = lg w @ take k (map SseDelta (split_chunks (drop i s))) \<and>
      (\<not> b \<longrightarrow> k = length (split_chunks (drop i s))) \<and> (b \<longrightarrow> aborts shouldAbort w')"
  using run
proof (induction "length s - i" arbitrary: i w rule: less_induct)
  case less
  let ?n = STREAM_CACHE_REPLAY_CHUNK_SIZE
  show ?case
  proof (cases "i < length s \<and> \<not> aborts shouldAbort w")
    case False
    then show ?thesis using less.prems by (subst (asm) replay_deltas.simps) (auto split: if_splits)
  next
    case True
    let ?w = "emit (SseDelta (take ?n (drop i s))) w"
    have run: "replay_deltas emit shouldAbort s (i + ?n) ?w = (b, w')"
      using less.prems True by (subst (asm) replay_deltas.simps) simp
    have less': "length s - (i + ?n) < length s - i" using True unfolding STREAM_CACHE_REPLAY_CHUNK_SIZE_def by linarith
    have chunks: "split_chunks (drop i s) = take ?n (drop i s) # split_chunks (drop (i + ?n) s)"
      using True by (subst split_chunks.simps) (simp add: add.commute)
    from less.hyps [OF less' run] obtain k where "k \<le> length (split_chunks (drop (i + ?n) s))"
      "lg w' = lg ?w @ take k (map SseDelta (split_chunks (drop (i + ?n) s)))"
      "\<not> b \<longrightarrow> k = length (split_chunks (drop (i + ?n) s))" "b \<longrightarrow> aborts shouldAbort w'" by blast
    then show ?thesis unfolding chunks by (intro exI [of _ "Suc k"]) (simp add: log)
  qed
qed

lemma replay_log:
  assumes log: "\<And>e w. lg (emit e w) = lg w @ [e]"
  shows "\<exists>k. lg (replay c src rid conv emit shouldAbort w) = lg w @ take k (replay_events c src rid conv) \<and>
    (k < length (replay_events c src rid conv) \<longrightarrow> aborts shouldAbort (replay c src rid conv emit shouldAbort w))"
proof -
  let ?w = "emit (replay_meta c src rid conv) w"
  obtain b w1 where run: "replay_deltas emit shouldAbort (cc_text c) 0 ?w = (b, w1)" by fastforce
  from replay_deltas_events [of lg emit, OF log run] obtain k where
    k: "k \<le> length (split_chunks (cc_text c))" "lg w1 = lg ?w @ take k (map SseDelta (split_chunks (cc_text c)))"
       "\<not> b \<longrightarrow> k = length (split_chunks (cc_text c))" "b \<longrightarrow> aborts shouldAbort w1" by auto
  consider "aborts shouldAbort w" | "\<not> aborts shouldAbort w" "b \<or> aborts shouldAbort w1"
    | "\<not> aborts shouldAbort w" "\<not> b" "\<not> aborts shouldAbort w1" by blast
  then show ?thesis
  proof cases
    case 1
    then show ?thesis by (intro exI [of _ 0]) (simp add: replay_def)
  next
    case 2
    then have "replay c src rid conv emit shouldAbort w = w1" "aborts shouldAbort w1"
      using run k(4) by (auto simp: replay_def split: bool.splits)
    then show ?thesis using k(1,2) by (intro exI [of _ "Suc k"]) (simp add: log replay_events_def)
  next
    case 3
    then have "replay c src rid conv emit shouldAbort w = emit (replay_done c) w1" using run by (simp add: replay_def)
    then show ?thesis using k(2,3) 3 by (intro exI [of _ "length (replay_events c src rid conv)"]) (simp add: log replay_events_def)
  qed
qed

section \<open>Properties\<close>

text \<open>A replayed reply is the cached reply: a client of an uninterrupted replay reads one meta event with its own request and
  conversation ids, then the cached text in non-empty pieces of at most 64 characters, in order and
  complete, then one done event with the cached finish reason; a replay that ends early, because the
  connection was closed, has sent a prefix of that.\<close>

lemma replay_is_faithful:
  assumes "\<And>e w. lg (emit e w) = lg w @ [e]"
  shows "\<exists>es ds k. es = [replay_meta c src rid conv] @ map SseDelta ds @ [replay_done c] \<and>
    delta_text es = cc_text c \<and> (\<forall>d \<in> set ds. d \<noteq> [] \<and> length d \<le> 64) \<and>
    lg (replay c src rid conv emit shouldAbort w) = lg w @ take k es \<and>
    (k < length es \<longrightarrow> aborts shouldAbort (replay c src rid conv emit shouldAbort w))"
proof -
  from replay_log [of lg emit, OF assms] obtain k where
    "lg (replay c src rid conv emit shouldAbort w) = lg w @ take k (replay_events c src rid conv)"
    "k < length (replay_events c src rid conv) \<longrightarrow> aborts shouldAbort (replay c src rid conv emit shouldAbort w)" by blast
  then show ?thesis
    by (intro exI [of _ "replay_events c src rid conv"] exI [of _ "split_chunks (cc_text c)"] exI [of _ k])
      (auto simp: replay_events_def replay_meta_def replay_done_def dest: split_chunks_sizes)
qed

text \<open>The wire format loses nothing: a client that reads the lines written for a list of events, whatever text they carry (newlines and quotes
  included), recovers the name and the data of every event, in order.\<close>

lemma sse_stream_roundtrip:
  "read_frames (split_lines (concat (map serialize es))) = map (\<lambda>e. (event_name e, Inr (event_data e))) es"
  by (induction es) (simp_all add: read_frames_serialize [OF event_data_ok])

end
