(* ===== verification/Observability.thy ===== *)
theory Observability
  imports Request_Policy Errors
begin

text \<open>
  The metrics the chat path depends on: the contexts of \<open>chat/helpers/metrics.ts\<close>, the application metrics
  service with its two backends (Prometheus and no-op), the no-op backend of the AI metrics, and
  \<open>ActiveStreamsTracker\<close>. The Prometheus client is a third-party package: a call on one of its collectors is a
  \<open>prom_sample\<close> given to the parameter \<open>collect\<close>, and \<open>now\<close> is \<open>Date.now()\<close>. The Sentry backend is not modelled; the chat
  service takes any backend of the same type.
\<close>

section \<open>Contexts (chat/helpers/metrics.ts)\<close>

record llm_call_message =
  lm_role :: role
  lm_content :: string
  lm_toolCallId :: "string option"
  lm_toolCallsCount :: "nat option"

definition TOOL_CONTENT_METRICS_MAX :: nat where
  "TOOL_CONTENT_METRICS_MAX = 200"

definition metrics_message :: "chat_message \<Rightarrow> llm_call_message option" where
  "metrics_message m =
     (if isChatUserMessage m then
        Some \<lparr>lm_role = RUser, lm_content = msg_content m, lm_toolCallId = None, lm_toolCallsCount = None\<rparr>
      else if isChatToolMessage m then
        Some \<lparr>lm_role = RTool, lm_content = take TOOL_CONTENT_METRICS_MAX (msg_content m), lm_toolCallId = msg_toolCallId m, lm_toolCallsCount = None\<rparr>
      else if isChatAssistantMessage m then
        Some \<lparr>lm_role = RAssistant, lm_content = msg_content m, lm_toolCallId = None,
          lm_toolCallsCount = map_option length (truthy_list (msg_toolCalls m))\<rparr>
      else None)"

definition toMetricsMessages :: "chat_message list \<Rightarrow> llm_call_message list" where
  "toMetricsMessages ms = List.map_filter metrics_message ms"

record llm_call_context =
  lc_provider :: string
  lc_modelAlias :: string
  lc_modelId :: string
  lc_requestId :: string
  lc_conversationId :: "string option"
  lc_messages :: "llm_call_message list"
  lc_metadata :: "(string \<times> json) list option"

definition buildLlmMetricsContext ::
  "chat_request \<Rightarrow> string \<Rightarrow> string \<Rightarrow> string \<Rightarrow> string \<Rightarrow> llm_call_context result" where
  "buildLlmMetricsContext r provider alias' modelId requestId =
     res_bind (getClientConversationId r) (\<lambda>convId.
       Inr \<lparr>lc_provider = provider, lc_modelAlias = alias', lc_modelId = modelId, lc_requestId = requestId,
            lc_conversationId = convId, lc_messages = toMetricsMessages (messages r), lc_metadata = metadata r\<rparr>)"

datatype request_method = MethodChat | MethodStream

record app_call_context =
  ac_method :: request_method
  ac_provider :: string
  ac_model :: string
  ac_client :: string

definition buildAppProviderMetricsContext :: "request_method \<Rightarrow> string \<Rightarrow> string \<Rightarrow> string \<Rightarrow> app_call_context" where
  "buildAppProviderMetricsContext m providerName alias' clientId =
     \<lparr>ac_method = m, ac_provider = providerName, ac_model = alias', ac_client = clientId\<rparr>"

definition mapProviderResponseToUsage :: "provider_chat_response \<Rightarrow> token_usage option" where
  "mapProviderResponseToUsage r = pr_usage r"

record llm_observation =
  ob_responseModel :: "string option"
  ob_outputText :: "string option"
  ob_usage :: "token_usage option"

definition mapProviderResponseToAiObservation :: "provider_chat_response \<Rightarrow> llm_observation" where
  "mapProviderResponseToAiObservation r =
     \<lparr>ob_responseModel = pr_model r, ob_outputText = truthy_str (Some (pr_text r)), ob_usage = pr_usage r\<rparr>"

section \<open>The backends\<close>

text \<open>A backend observes a provider call by running it, and hands out a scope for a stream.\<close>

record 'w stream_scope =
  sc_end :: "token_usage option \<Rightarrow> 'w \<Rightarrow> 'w"
  sc_fail :: "jserr \<Rightarrow> 'w \<Rightarrow> 'w"

record 'w app_metrics_backend =
  am_observeProviderCall :: "app_call_context \<Rightarrow> ('w, provider_chat_response) io \<Rightarrow>
    (provider_chat_response \<Rightarrow> token_usage option) \<Rightarrow> ('w, provider_chat_response) io"
  am_observeProviderStream :: "app_call_context \<Rightarrow> 'w \<Rightarrow> 'w stream_scope \<times> 'w"

definition NoopAppMetricsAdapter :: "'w app_metrics_backend" where
  "NoopAppMetricsAdapter = \<lparr>am_observeProviderCall = (\<lambda>_ fn _. fn),
     am_observeProviderStream = (\<lambda>_ w. (\<lparr>sc_end = (\<lambda>_ w. w), sc_fail = (\<lambda>_ w. w)\<rparr>, w))\<rparr>"

datatype request_status = StatusSuccess | StatusError

datatype token_direction = DirInput | DirOutput

datatype prom_sample =
    LlmRequestsTotal app_call_context request_status
  | LlmRequestDuration string string rat
  | LlmErrorsTotal string string string
  | LlmTokensTotal string string token_direction int
  | LlmTokensPerRequest string string int

type_synonym 'w recorder = "prom_sample \<Rightarrow> 'w \<Rightarrow> 'w"

definition recordTokens :: "'w recorder \<Rightarrow> string \<Rightarrow> string \<Rightarrow> token_direction \<Rightarrow> int \<Rightarrow> 'w \<Rightarrow> 'w" where
  "recordTokens collect provider model d count w = (if count \<le> 0 then w else collect (LlmTokensTotal provider model d count) w)"

definition recordTokensPerRequest :: "'w recorder \<Rightarrow> string \<Rightarrow> string \<Rightarrow> int \<Rightarrow> 'w \<Rightarrow> 'w" where
  "recordTokensPerRequest collect provider model totalTokens w =
     (if totalTokens \<le> 0 then w else collect (LlmTokensPerRequest provider model totalTokens) w)"

definition recordTokenUsage :: "'w recorder \<Rightarrow> string \<Rightarrow> string \<Rightarrow> token_usage \<Rightarrow> 'w \<Rightarrow> 'w" where
  "recordTokenUsage collect provider model u w =
     recordTokens collect provider model DirOutput (outputTokens u) (recordTokens collect provider model DirInput (inputTokens u) w)"

definition recordProviderSuccess ::
  "'w recorder \<Rightarrow> ('w \<Rightarrow> rat) \<Rightarrow> app_call_context \<Rightarrow> rat \<Rightarrow> token_usage option \<Rightarrow> 'w \<Rightarrow> 'w" where
  "recordProviderSuccess collect now ctx start usage w =
     (let durationSec = (now w - start) / 1000;
          w1 = collect (LlmRequestsTotal ctx StatusSuccess) w;
          w2 = collect (LlmRequestDuration (ac_provider ctx) (ac_model ctx) durationSec) w1
      in case usage of
           None \<Rightarrow> w2
         | Some u \<Rightarrow> recordTokensPerRequest collect (ac_provider ctx) (ac_model ctx) (inputTokens u + outputTokens u)
                       (recordTokenUsage collect (ac_provider ctx) (ac_model ctx) u w2))"

text \<open>\<open>String(error)\<close> of a thrown value that is not an \<open>Error\<close>.\<close>

fun thrown_string :: "jserr \<Rightarrow> string" where
  "thrown_string (ThrownString s) = s"
| "thrown_string (ThrownObject _) = ''[object Object]''"
| "thrown_string _ = ''undefined''"

definition recordProviderFailure ::
  "'w recorder \<Rightarrow> ('w \<Rightarrow> rat) \<Rightarrow> app_call_context \<Rightarrow> rat \<Rightarrow> jserr \<Rightarrow> 'w \<Rightarrow> 'w" where
  "recordProviderFailure collect now ctx start e w =
     (let durationSec = (now w - start) / 1000;
          w1 = collect (LlmRequestsTotal ctx StatusError) w;
          w2 = collect (LlmRequestDuration (ac_provider ctx) (ac_model ctx) durationSec) w1
      in collect (LlmErrorsTotal (ac_provider ctx) (ac_model ctx) (if is_error_instance e then error_message e else thrown_string e)) w2)"

definition prometheus_observeProviderCall ::
  "'w recorder \<Rightarrow> ('w \<Rightarrow> rat) \<Rightarrow> app_call_context \<Rightarrow> ('w, 'a) io \<Rightarrow> ('a \<Rightarrow> token_usage option) \<Rightarrow> ('w, 'a) io" where
  "prometheus_observeProviderCall collect now ctx fn mapUsage =
     io_bind (io_get now) (\<lambda>startTime.
       io_catch
         (io_bind fn (\<lambda>result.
            io_bind (io_update (recordProviderSuccess collect now ctx startTime (mapUsage result))) (\<lambda>_. io_return result)))
         (\<lambda>e. io_bind (io_update (recordProviderFailure collect now ctx startTime e)) (\<lambda>_. io_throw e)))"

definition prometheus_observeProviderStream ::
  "'w recorder \<Rightarrow> ('w \<Rightarrow> rat) \<Rightarrow> app_call_context \<Rightarrow> 'w \<Rightarrow> 'w stream_scope \<times> 'w" where
  "prometheus_observeProviderStream collect now ctx w =
     (let startTime = now w
      in (\<lparr>sc_end = recordProviderSuccess collect now ctx startTime, sc_fail = recordProviderFailure collect now ctx startTime\<rparr>, w))"

definition PrometheusAppMetricsAdapter :: "'w recorder \<Rightarrow> ('w \<Rightarrow> rat) \<Rightarrow> 'w app_metrics_backend" where
  "PrometheusAppMetricsAdapter collect now =
     \<lparr>am_observeProviderCall = prometheus_observeProviderCall collect now,
      am_observeProviderStream = prometheus_observeProviderStream collect now\<rparr>"

section \<open>The cache hit rate (app-metrics.service.ts)\<close>

record pipeline_counts =
  pipelineHits :: "string \<Rightarrow> nat option"
  pipelineTotal :: "string \<Rightarrow> nat option"

definition recordCachePipelineAccess ::
  "(string \<Rightarrow> rat \<Rightarrow> 'w \<Rightarrow> 'w) \<Rightarrow> string \<Rightarrow> bool \<Rightarrow> pipeline_counts \<times> 'w \<Rightarrow> pipeline_counts \<times> 'w" where
  "recordCachePipelineAccess updateCacheHitRate model hit = (\<lambda>(s, w).
     let s1 = s\<lparr>pipelineTotal := (pipelineTotal s)(model \<mapsto> nullish (pipelineTotal s model) 0 + 1)\<rparr>;
         s2 = (if hit then s1\<lparr>pipelineHits := (pipelineHits s1)(model \<mapsto> nullish (pipelineHits s1 model) 0 + 1)\<rparr> else s1);
         total' = nullish (pipelineTotal s2 model) 0;
         hits = nullish (pipelineHits s2 model) 0
     in (s2, updateCacheHitRate model (if total' = 0 then 0 else of_nat hits / of_nat total') w))"

section \<open>Active streams (active-streams.tracker.ts)\<close>

type_synonym stream_counts = "string \<Rightarrow> nat option"

definition increment :: "(string \<Rightarrow> nat \<Rightarrow> 'w \<Rightarrow> 'w) \<Rightarrow> string \<Rightarrow> stream_counts \<times> 'w \<Rightarrow> stream_counts \<times> 'w" where
  "increment setActiveStreams client = (\<lambda>(m, w).
     let next' = nullish (m client) 0 + 1 in (m(client \<mapsto> next'), setActiveStreams client next' w))"

definition decrement :: "(string \<Rightarrow> nat \<Rightarrow> 'w \<Rightarrow> 'w) \<Rightarrow> string \<Rightarrow> stream_counts \<times> 'w \<Rightarrow> stream_counts \<times> 'w" where
  "decrement setActiveStreams client = (\<lambda>(m, w).
     let next' = nat (max 0 (int (nullish (m client) 1) - 1))
     in (if next' = 0 then m(client := None) else m(client \<mapsto> next'), setActiveStreams client next' w))"

text \<open>\<open>try { return await fn() } finally { ... }\<close> between the two.\<close>

definition trackStream ::
  "(string \<Rightarrow> nat \<Rightarrow> 'w \<Rightarrow> 'w) \<Rightarrow> string \<Rightarrow> (stream_counts \<times> 'w, 'a) io \<Rightarrow> (stream_counts \<times> 'w, 'a) io" where
  "trackStream setActiveStreams client fn w =
     (case fn (increment setActiveStreams client w) of (r, w') \<Rightarrow> (r, decrement setActiveStreams client w'))"

section \<open>Lemmas\<close>

text \<open>What the chat path relies on: observing a call neither changes nor swallows what it returns or throws.\<close>

locale call_observer =
  fixes observe :: "app_call_context \<Rightarrow> ('w, provider_chat_response) io \<Rightarrow>
    (provider_chat_response \<Rightarrow> token_usage option) \<Rightarrow> ('w, provider_chat_response) io"
  assumes observed_result: "fst (observe ctx fn mu w) = fst (fn w)"
begin

lemma observed_return: "observe ctx fn mu w = (Inr v, w') \<Longrightarrow> \<exists>w1. fn w = (Inr v, w1)"
  using observed_result by (metis fst_conv prod.collapse)

lemma observed_error: "fn w = (Inl e, w1) \<Longrightarrow> \<exists>w'. observe ctx fn mu w = (Inl e, w')"
  using observed_result by (metis fst_conv prod.collapse)

lemma observed_total: "never_throws fn \<Longrightarrow> never_throws (observe ctx fn mu)"
  unfolding never_throws_def using observed_result by (metis fst_conv prod.collapse)

end

interpretation noop_observer: call_observer "am_observeProviderCall NoopAppMetricsAdapter"
  by unfold_locales (simp add: NoopAppMetricsAdapter_def)

interpretation prometheus_observer: call_observer "am_observeProviderCall (PrometheusAppMetricsAdapter collect now)"
  by unfold_locales
    (auto simp: PrometheusAppMetricsAdapter_def prometheus_observeProviderCall_def io_bind_apply io_catch_apply
      split: prod.splits sum.splits)

text \<open>The counters as functions of the history.\<close>

definition accesses :: "string \<Rightarrow> (string \<times> bool) list \<Rightarrow> nat" where
  "accesses m h = length (filter (\<lambda>a. fst a = m) h)"

definition hits_of :: "string \<Rightarrow> (string \<times> bool) list \<Rightarrow> nat" where
  "hits_of m h = length (filter (\<lambda>a. fst a = m \<and> snd a) h)"

definition after_accesses ::
  "(string \<times> bool) list \<Rightarrow> pipeline_counts \<times> (string \<Rightarrow> rat option) \<Rightarrow> pipeline_counts \<times> (string \<Rightarrow> rat option)" where
  "after_accesses h = fold (\<lambda>a. recordCachePipelineAccess (\<lambda>m q g. g(m \<mapsto> q)) (fst a) (snd a)) h"

definition no_counts :: pipeline_counts where
  "no_counts = \<lparr>pipelineHits = (\<lambda>_. None), pipelineTotal = (\<lambda>_. None)\<rparr>"

lemma after_accesses_counts:
  "after_accesses h (no_counts, \<lambda>_. None) = (s, g) \<Longrightarrow>
     nullish (pipelineTotal s m) 0 = accesses m h \<and> nullish (pipelineHits s m) 0 = hits_of m h \<and>
     g m = (if accesses m h = 0 then None else Some (of_nat (hits_of m h) / of_nat (accesses m h)))"
proof (induction h arbitrary: s g rule: rev_induct)
  case Nil
  then show ?case by (auto simp: after_accesses_def no_counts_def accesses_def hits_of_def)
next
  case (snoc a h)
  obtain s0 g0 where h: "after_accesses h (no_counts, \<lambda>_. None) = (s0, g0)" by fastforce
  obtain m' b where a: "a = (m', b)" by fastforce
  have "recordCachePipelineAccess (\<lambda>m q g. g(m \<mapsto> q)) m' b (s0, g0) = (s, g)"
    using snoc.prems h by (simp add: after_accesses_def a)
  then show ?case using snoc.IH [OF h]
    by (cases b; cases "m = m'") (auto simp: recordCachePipelineAccess_def Let_def accesses_def hits_of_def a split: if_splits)
qed

lemma hits_le_accesses: "hits_of m h \<le> accesses m h"
  by (induction h) (auto simp: hits_of_def accesses_def)

text \<open>Streams of several clients start and end in any order; \<open>live_streams\<close> is the multiset of those that run,
  as a list of their clients.\<close>

type_synonym gauge = "string \<Rightarrow> nat option"

definition set_gauge :: "string \<Rightarrow> nat \<Rightarrow> gauge \<Rightarrow> gauge" where
  "set_gauge c n g = g(c \<mapsto> n)"

inductive tracked :: "string list \<Rightarrow> stream_counts \<times> gauge \<Rightarrow> bool" where
  no_streams: "tracked [] (\<lambda>_. None, \<lambda>_. None)"
| stream_starts: "tracked cs s \<Longrightarrow> tracked (c # cs) (increment set_gauge c s)"
| stream_ends: "tracked cs s \<Longrightarrow> c \<in> set cs \<Longrightarrow> tracked (remove1 c cs) (decrement set_gauge c s)"

lemma tracked_inv:
  "tracked cs (m, g) \<Longrightarrow> m c = (if count_list cs c = 0 then None else Some (count_list cs c)) \<and>
     nullish (g c) 0 = count_list cs c"
proof (induction cs "(m, g)" arbitrary: m g c rule: tracked.induct)
  case (stream_starts cs s d)
  obtain m0 g0 where s: "s = (m0, g0)" by fastforce
  show ?case using stream_starts.hyps(2) [OF s, of c] stream_starts.hyps(2) [OF s, of d] stream_starts.hyps(3)
    by (auto simp: s increment_def Let_def set_gauge_def split: if_splits)
next
  case (stream_ends cs s d)
  obtain m0 g0 where s: "s = (m0, g0)" by fastforce
  have rem: "count_list (remove1 d cs) c = (if c = d then count_list cs c - 1 else count_list cs c)"
    by (induction cs) auto
  have pos: "count_list cs d \<noteq> 0" using stream_ends.hyps(3) by (simp add: count_list_0_iff)
  show ?case using stream_ends.hyps(2) [OF s, of c] stream_ends.hyps(2) [OF s, of d] stream_ends.hyps(4) pos
    unfolding rem by (auto simp: s decrement_def Let_def set_gauge_def split: if_splits)
qed simp

section \<open>Properties\<close>

text \<open>The gauge of active streams is exact: whatever the order in which the streams of all clients start and end, the gauge of a client is the number
  of its streams that run, and a client without one has no entry in the tracker's map (the map does not grow).\<close>

lemma active_streams_exact:
  assumes "tracked live_streams (m, g)"
  shows "nullish (g c) 0 = count_list live_streams c \<and> (m c = None \<longleftrightarrow> c \<notin> set live_streams) \<and>
    (\<forall>fn r m' g'. (\<forall>v. snd (fn v) = v) \<longrightarrow> trackStream set_gauge c fn (m, g) = (r :: 'a result, (m', g')) \<longrightarrow>
       m' = m \<and> nullish (g' c) 0 = nullish (g c) 0)"
proof -
  have restored: "m' = m \<and> nullish (g' c) 0 = nullish (g c) 0"
    if "\<forall>v. snd (fn v) = v" "trackStream set_gauge c fn (m, g) = (r, (m', g'))" for fn r m' g'
  proof -
    have "decrement set_gauge c (increment set_gauge c (m, g)) = (m', g')"
      using that spec [OF that(1), of "increment set_gauge c (m, g)"] by (simp add: trackStream_def case_prod_beta)
    then show ?thesis using tracked_inv [OF assms, of c]
      by (auto simp: increment_def decrement_def Let_def set_gauge_def fun_upd_idem split: if_splits)
  qed
  show ?thesis using tracked_inv [OF assms, of c] restored by (auto simp: count_list_0_iff split: if_splits)
qed

text \<open>The hit-rate gauge of a model is the share of its pipeline accesses that were hits, after any history of
  accesses to all models, and lies between 0 and 1.\<close>

lemma hit_rate_exact:
  assumes "after_accesses h (no_counts, \<lambda>_. None) = (s, g)" and "(m, b) \<in> set h"
  shows "\<exists>q. g m = Some q \<and> q = of_nat (hits_of m h) / of_nat (accesses m h) \<and> 0 \<le> q \<and> q \<le> 1"
proof -
  have "accesses m h \<noteq> 0" using assms(2) by (force simp: accesses_def filter_empty_conv)
  then show ?thesis using after_accesses_counts [OF assms(1), of m] hits_le_accesses [of m h] by (simp add: divide_le_eq_1)
qed

text \<open>Under the Prometheus backend every provider call is counted once: the call's result reaches the caller
  unchanged, exactly one request sample is recorded, with the status of that result, an error sample
  exactly if it failed, and the recorded tokens are those of the usage it reported.\<close>

lemma provider_call_accounted:
  assumes "\<And>x w. lg (collect x w) = lg w @ [x]" and "fn w = (r, w1)" and "\<And>u. r = Inr u \<Longrightarrow> \<exists>i o'. mapUsage u = Some \<lparr>inputTokens = i, outputTokens = o'\<rparr> \<and> 0 < i \<and> 0 < o'"
  shows "\<exists>w'. prometheus_observeProviderCall collect now ctx fn mapUsage w = (r, w') \<and>
    lg w' = lg w1 @ (case r of
        Inl e \<Rightarrow> [LlmRequestsTotal ctx StatusError, LlmRequestDuration (ac_provider ctx) (ac_model ctx) ((now w1 - now w) / 1000),
                   LlmErrorsTotal (ac_provider ctx) (ac_model ctx) (if is_error_instance e then error_message e else thrown_string e)]
      | Inr u \<Rightarrow> [LlmRequestsTotal ctx StatusSuccess, LlmRequestDuration (ac_provider ctx) (ac_model ctx) ((now w1 - now w) / 1000),
                   LlmTokensTotal (ac_provider ctx) (ac_model ctx) DirInput (inputTokens (the (mapUsage u))),
                   LlmTokensTotal (ac_provider ctx) (ac_model ctx) DirOutput (outputTokens (the (mapUsage u))),
                   LlmTokensPerRequest (ac_provider ctx) (ac_model ctx) (inputTokens (the (mapUsage u)) + outputTokens (the (mapUsage u)))])"
proof (cases r)
  case (Inl e)
  then show ?thesis using assms(1,2)
    by (simp add: prometheus_observeProviderCall_def io_bind_apply io_catch_apply recordProviderFailure_def Let_def)
next
  case (Inr u)
  with assms(3) obtain i o' where "mapUsage u = Some \<lparr>inputTokens = i, outputTokens = o'\<rparr>" "0 < i" "0 < o'" by blast
  with Inr show ?thesis using assms(1,2)
    by (simp add: prometheus_observeProviderCall_def io_bind_apply io_catch_apply recordProviderSuccess_def Let_def
        recordTokensPerRequest_def recordTokenUsage_def recordTokens_def)
qed

end
