(* ===== verification/Singleflight.thy ===== *)
theory Singleflight
  imports Prelude
begin

text \<open>
  \<open>chat/helpers/in-process-singleflight.ts\<close>: concurrent callers with one key share one piece of work. A promise is an
  identifier; \<open>work\<close> starts the asynchronous work and returns its promise (or throws before it has one).
  The callback of \<open>finally\<close> is the operation \<open>on_settle\<close>, which the runtime runs once, after the work has settled
  and so after the entry was made.
\<close>

type_synonym in_flight = "string \<Rightarrow> nat option"

definition singleflight ::
  "in_flight \<Rightarrow> string \<Rightarrow> ('w, nat) io \<Rightarrow> 'w \<Rightarrow> nat result \<times> in_flight \<times> 'w" where
  "singleflight inFlight key work w =
     (case inFlight key of
        Some existing \<Rightarrow> (Inr existing, inFlight, w)
      | None \<Rightarrow>
          (case work w of
             (Inl e, w') \<Rightarrow> (Inl e, inFlight, w')
           | (Inr pending, w') \<Rightarrow> (Inr pending, inFlight(key \<mapsto> pending), w')))"

definition on_settle :: "string \<Rightarrow> in_flight \<Rightarrow> in_flight" where
  "on_settle key inFlight = inFlight(key := None)"

section \<open>Interleavings\<close>

text \<open>
  Callers arrive and works settle in any order. \<open>fl_running\<close> are the works that have started and not settled, with their
  keys; \<open>fl_started\<close> all works ever started; \<open>fl_joined\<close> the callers, each with its key and the promise it got.
\<close>

record flights =
  fl_map :: in_flight
  fl_running :: "(nat \<times> string) list"
  fl_started :: "(nat \<times> string) list"
  fl_joined :: "(nat \<times> string \<times> nat) list"
  fl_next :: nat

definition start_work :: "(nat, nat) io" where
  "start_work n = (Inr n, Suc n)"

definition fl_call :: "nat \<Rightarrow> string \<Rightarrow> flights \<Rightarrow> flights" where
  "fl_call caller key s =
     (case singleflight (fl_map s) key start_work (fl_next s) of
        (Inr p, m, n) \<Rightarrow>
          s\<lparr>fl_map := m, fl_next := n, fl_joined := (caller, key, p) # fl_joined s,
            fl_running := (if n = fl_next s then fl_running s else (p, key) # fl_running s),
            fl_started := (if n = fl_next s then fl_started s else (p, key) # fl_started s)\<rparr>
      | (Inl e, m, n) \<Rightarrow> s\<lparr>fl_map := m, fl_next := n\<rparr>)"

definition fl_settle :: "nat \<Rightarrow> string \<Rightarrow> flights \<Rightarrow> flights" where
  "fl_settle p key s = s\<lparr>fl_map := on_settle key (fl_map s), fl_running := remove1 (p, key) (fl_running s)\<rparr>"

inductive flight_reach :: "flights \<Rightarrow> bool" where
  idle: "flight_reach \<lparr>fl_map = (\<lambda>_. None), fl_running = [], fl_started = [], fl_joined = [], fl_next = 0\<rparr>"
| call: "flight_reach s \<Longrightarrow> flight_reach (fl_call caller key s)"
| settle: "flight_reach s \<Longrightarrow> (p, key) \<in> set (fl_running s) \<Longrightarrow> flight_reach (fl_settle p key s)"

section \<open>Lemmas\<close>

lemma fl_call_cases:
  "fl_call c key s = (case fl_map s key of
     Some p \<Rightarrow> s\<lparr>fl_joined := (c, key, p) # fl_joined s\<rparr>
   | None \<Rightarrow> (let p = fl_next s in
       s\<lparr>fl_map := (fl_map s)(key \<mapsto> p), fl_next := Suc p, fl_joined := (c, key, p) # fl_joined s,
         fl_running := (p, key) # fl_running s, fl_started := (p, key) # fl_started s\<rparr>))"
  by (auto simp: fl_call_def singleflight_def start_work_def Let_def split: option.splits)

definition flight_inv :: "flights \<Rightarrow> bool" where
  "flight_inv s \<longleftrightarrow>
     (\<forall>key p. fl_map s key = Some p \<longleftrightarrow> (p, key) \<in> set (fl_running s)) \<and>
     distinct (map snd (fl_running s)) \<and> distinct (map fst (fl_started s)) \<and>
     set (fl_running s) \<subseteq> set (fl_started s) \<and> (\<forall>x \<in> set (fl_started s). fst x < fl_next s) \<and>
     (\<forall>(c, key, p) \<in> set (fl_joined s). (p, key) \<in> set (fl_started s))"

lemma flight_invD: "flight_inv s \<Longrightarrow> (p, key) \<in> set (fl_running s) \<longleftrightarrow> fl_map s key = Some p"
  by (simp add: flight_inv_def)

lemma flight_inv_next: "flight_inv s \<Longrightarrow> fl_next s \<notin> fst ` set (fl_started s)"
  by (auto simp: flight_inv_def)

lemma flight_inv_call:
  assumes "flight_inv s"
  shows "flight_inv (fl_call c key s)"
proof (cases "fl_map s key")
  case (Some p)
  then have "(p, key) \<in> set (fl_running s)" using assms by (simp add: flight_invD)
  then have "(p, key) \<in> set (fl_started s)" using assms by (auto simp: flight_inv_def)
  moreover have "fl_call c key s = s\<lparr>fl_joined := (c, key, p) # fl_joined s\<rparr>" using Some by (simp add: fl_call_cases)
  ultimately show ?thesis using assms by (simp add: flight_inv_def)
next
  case None
  then have fresh: "key \<notin> snd ` set (fl_running s)" using assms by (auto simp: flight_invD)
  have "fl_call c key s = s\<lparr>fl_map := (fl_map s)(key \<mapsto> fl_next s), fl_next := Suc (fl_next s),
      fl_joined := (c, key, fl_next s) # fl_joined s, fl_running := (fl_next s, key) # fl_running s,
      fl_started := (fl_next s, key) # fl_started s\<rparr>"
    using None by (simp add: fl_call_cases Let_def)
  then show ?thesis using assms fresh flight_inv_next [OF assms]
    by (auto simp: flight_inv_def less_Suc_eq rev_image_eqI)
qed

lemma set_remove1_key:
  "distinct (map snd xs) \<Longrightarrow> (p, key) \<in> set xs \<Longrightarrow> set (remove1 (p, key) xs) = {x \<in> set xs. snd x \<noteq> key}"
  by (induction xs) (auto simp: rev_image_eqI)

lemma flight_inv_settle:
  assumes "flight_inv s" and "(p, key) \<in> set (fl_running s)"
  shows "flight_inv (fl_settle p key s)"
proof -
  have d: "distinct (map snd (fl_running s))" using assms by (simp add: flight_inv_def)
  have "distinct (map snd (remove1 (p, key) (fl_running s)))"
    using d by (metis distinct_map distinct_remove1 inj_on_subset set_remove1_subset)
  then show ?thesis using assms set_remove1_key [OF d assms(2)]
    by (auto simp: flight_inv_def fl_settle_def on_settle_def)
qed

lemma flight_reach_inv: "flight_reach s \<Longrightarrow> flight_inv s"
  by (induction rule: flight_reach.induct) (simp add: flight_inv_def, simp_all add: flight_inv_call flight_inv_settle)

section \<open>Properties\<close>

text \<open>C39. In every interleaving of callers and settling works there is at most one running work per key; a caller whose key has a
  running work gets that work's promise and starts nothing; any other caller starts exactly one new work; and
  every promise handed out belongs to a work started for the caller's own key.\<close>

theorem singleflight_one_work_per_key:
  assumes "flight_reach s"
  shows "distinct (map snd (fl_running s)) \<and>
    (\<forall>caller key p. (caller, key, p) \<in> set (fl_joined s) \<longrightarrow> (p, key) \<in> set (fl_started s)) \<and>
    (\<forall>caller key. \<exists>p. fl_joined (fl_call caller key s) = (caller, key, p) # fl_joined s \<and>
       (if \<exists>q. (q, key) \<in> set (fl_running s)
        then (p, key) \<in> set (fl_running s) \<and> fl_started (fl_call caller key s) = fl_started s
        else fl_started (fl_call caller key s) = (p, key) # fl_started s \<and> p \<notin> fst ` set (fl_started s)))"
proof -
  have inv: "flight_inv s" using assms by (rule flight_reach_inv)
  have "\<exists>p. fl_joined (fl_call caller key s) = (caller, key, p) # fl_joined s \<and>
       (if \<exists>q. (q, key) \<in> set (fl_running s)
        then (p, key) \<in> set (fl_running s) \<and> fl_started (fl_call caller key s) = fl_started s
        else fl_started (fl_call caller key s) = (p, key) # fl_started s \<and> p \<notin> fst ` set (fl_started s))" for caller key
  proof (cases "fl_map s key")
    case None
    then have "\<not> (\<exists>q. (q, key) \<in> set (fl_running s))" using inv by (simp add: flight_invD)
    moreover have "fl_next s \<notin> fst ` set (fl_started s)" using inv by (rule flight_inv_next)
    ultimately show ?thesis using None by (simp add: fl_call_cases Let_def)
  next
    case (Some p)
    then have "(p, key) \<in> set (fl_running s)" using inv by (simp add: flight_invD)
    then show ?thesis using Some by (auto simp: fl_call_cases)
  qed
  then show ?thesis using inv by (auto simp: flight_inv_def)
qed

definition two_callers :: flights where
  "two_callers = fl_call 2 ''k'' (fl_call 1 ''k'' \<lparr>fl_map = (\<lambda>_. None), fl_running = [], fl_started = [], fl_joined = [], fl_next = 0\<rparr>)"

theorem singleflight_one_work_per_key_witness:
  "fl_joined two_callers = [(2, ''k'', 0), (1, ''k'', 0)] \<and> fl_started two_callers = [(0, ''k'')] \<and>
   (\<exists>p. fl_joined (fl_call 3 ''j'' two_callers) = (3, ''j'', p) # fl_joined two_callers \<and> p \<noteq> 0)"
proof -
  have r: "flight_reach two_callers" unfolding two_callers_def by (intro flight_reach.intros)
  have s: "fl_joined two_callers = [(2, ''k'', 0), (1, ''k'', 0)]" "fl_started two_callers = [(0, ''k'')]" "fl_running two_callers = [(0, ''k'')]"
    by (simp_all add: two_callers_def fl_call_cases Let_def)
  show ?thesis using singleflight_one_work_per_key [OF r] s by (auto dest!: spec [of _ 3] spec [of _ "''j''"])
qed

end
