(* ===== verification/Chat_Service.thy ===== *)
theory Chat_Service
  imports Cache_Pipeline Response_Builder Observability Singleflight Guards Resilience
begin

text \<open>
  The orchestration of a chat call: \<open>ChatProviderCallService\<close> (one call to a provider) and \<open>ChatService\<close> (preparation, caches,
  coalescing, retry and fallback, streaming), with the two controllers of the native API. An
  adapter is what \<open>AIProvider\<close> promises: a function per method. Its abort signal is part of the deadline, which is
  the parameter \<open>race\<close> of the executor. Local mutable variables that outlive one attempt of a stream are the record
  \<open>stream_locals\<close>, carried beside the world. The runtime's promises are the parameters \<open>ch_spawn\<close> (start work, get its
  promise) and \<open>ch_await\<close>. Log lines are left out.
\<close>

section \<open>Providers (ai-provider.interface.ts)\<close>

text \<open>The text stream of an adapter: chunks, then the end or an exception.\<close>

datatype text_stream = StreamEnd | StreamThrow jserr | StreamChunk string text_stream

record stream_usage =
  stu_tokens :: token_usage
  stu_model :: "string option"

record 'w stream_result =
  sr_textStream :: text_stream
  sr_getUsageMetadata :: "('w, stream_usage option) io"
  sr_getFinalToolCalls :: "('w, gateway_tool_call list option) io option"
  sr_getStopReason :: "('w, stop_reason option) io option"
  sr_getSystemFingerprint :: "('w, string option) io option"
  sr_getThinkingContent :: "('w, string option) io option"
  sr_getUsageDetails :: "('w, usage_details option) io option"

record 'w ai_provider =
  ap_complete :: "provider_chat_input \<Rightarrow> string \<Rightarrow> call_options \<Rightarrow> ('w, provider_chat_response) io"
  ap_stream :: "(provider_chat_input \<Rightarrow> string \<Rightarrow> call_options \<Rightarrow> ('w, 'w stream_result) io) option"

record 'w llm_span =
  sp_withActiveSpan :: "('w, 'w stream_result) io \<Rightarrow> ('w, 'w stream_result) io"
  sp_end :: "llm_observation \<Rightarrow> 'w \<Rightarrow> 'w"
  sp_fail :: "llm_observation option \<Rightarrow> 'w \<Rightarrow> 'w"

record 'w ai_metrics_backend =
  ai_observeLlmCall :: "llm_call_context \<Rightarrow> ('w, provider_chat_response) io \<Rightarrow>
    (provider_chat_response \<Rightarrow> llm_observation) \<Rightarrow> ('w, provider_chat_response) io"
  ai_observeLlmStream :: "llm_call_context \<Rightarrow> 'w \<Rightarrow> 'w llm_span \<times> 'w"

definition NoopAiMetricsAdapter :: "'w ai_metrics_backend" where
  "NoopAiMetricsAdapter = \<lparr>ai_observeLlmCall = (\<lambda>_ fn _. fn),
     ai_observeLlmStream = (\<lambda>_ w. (\<lparr>sp_withActiveSpan = (\<lambda>fn. fn), sp_end = (\<lambda>_ w. w), sp_fail = (\<lambda>_ w. w)\<rparr>, w))\<rparr>"

section \<open>The environment of the service\<close>

record 'w complete_once_result =
  co_response :: provider_chat_response
  co_providerName :: string
  co_modelId :: string
  co_resolved :: "'w ai_provider resolved_provider"

record stream_once_result =
  so_providerName :: string
  so_modelId :: string
  so_assembledText :: string
  so_usageMetadata :: "stream_usage option"
  so_toolCalls :: "gateway_tool_call list option"
  so_stopReason :: "stop_reason option"
  so_systemFingerprint :: "string option"
  so_thinkingContent :: "string option"
  so_usageDetails :: "usage_details option"

record stream_locals =
  metaEmitted :: bool
  assembledText :: string

record 'w chat_env =
  ch_resolvedSystemPrompts :: "resolved_system_prompts option"
  ch_registry :: "'w ai_provider registry"
  ch_limiter :: "'w limiter_env"
  ch_pipeline :: "'w cache_pipeline"
  ch_uuid :: "'w \<Rightarrow> string \<times> 'w"
  ch_appMetrics :: "'w app_metrics_backend"
  ch_aiMetrics :: "'w ai_metrics_backend"
  ch_sleep :: "nat \<Rightarrow> 'w \<Rightarrow> 'w"
  ch_race :: "('w, 'w complete_once_result) race"
  ch_streamRace :: "('w \<times> stream_locals, stream_once_result \<times> 'w ai_provider resolved_provider) race"
  ch_inFlight :: "'w \<Rightarrow> in_flight"
  ch_setInFlight :: "in_flight \<Rightarrow> 'w \<Rightarrow> 'w"
  ch_spawn :: "('w, chat_response_data) io \<Rightarrow> 'w \<Rightarrow> nat \<times> 'w"
  ch_await :: "nat \<Rightarrow> ('w, chat_response_data) io"
  ch_streamCount :: "'w \<Rightarrow> stream_counts"
  ch_setStreamCount :: "stream_counts \<Rightarrow> 'w \<Rightarrow> 'w"

abbreviation ch_gateway :: "'w chat_env \<Rightarrow> gateway_config option" where
  "ch_gateway env \<equiv> pl_gateway (ch_pipeline env)"

abbreviation ch_metric :: "'w chat_env \<Rightarrow> metric_event \<Rightarrow> 'w \<Rightarrow> 'w" where
  "ch_metric env \<equiv> pl_metric (ch_pipeline env)"

text \<open>Code on the world alone, and code with local variables of its own.\<close>

definition on_world :: "('w, 'a) io \<Rightarrow> ('w \<times> 's, 'a) io" where
  "on_world m = (\<lambda>(w, s). case m w of (r, w') \<Rightarrow> (r, (w', s)))"

definition with_locals :: "'s \<Rightarrow> ('w \<times> 's, 'a) io \<Rightarrow> ('w, 'a) io" where
  "with_locals s m = (\<lambda>w. case m (w, s) of (r, (w', _)) \<Rightarrow> (r, w'))"

definition io_state :: "('w \<Rightarrow> 'a \<times> 'w) \<Rightarrow> ('w, 'a) io" where
  "io_state f = (\<lambda>w. case f w of (x, w') \<Rightarrow> (Inr x, w'))"

section \<open>One call to a provider (chat-provider-call.service.ts)\<close>

definition completeOnce ::
  "'w chat_env \<Rightarrow> chat_request \<Rightarrow> string \<Rightarrow> string \<Rightarrow> string \<Rightarrow> resolved_system_prompts \<Rightarrow> ('w, 'w complete_once_result) io" where
  "completeOnce env r alias' requestId clientId prompts =
     io_bind (io_lift (resolve (ch_gateway env) (ch_registry env) alias')) (\<lambda>resolved.
     io_bind (io_lift (resolveProviderCallOptions (rv_params resolved) (params r))) (\<lambda>aliasOptions.
     io_bind (io_lift (buildProviderInputForAlias r alias' prompts)) (\<lambda>providerInput.
     io_bind (io_lift (buildLlmMetricsContext r (rv_providerName resolved) alias' (rv_modelId resolved) requestId)) (\<lambda>aiCtx.
     let appCtx = buildAppProviderMetricsContext MethodChat (rv_providerName resolved) alias' clientId in
     io_bind (am_observeProviderCall (ch_appMetrics env) appCtx
                (ai_observeLlmCall (ch_aiMetrics env) aiCtx
                   (ap_complete (rv_provider resolved) providerInput (rv_modelId resolved) aliasOptions)
                   mapProviderResponseToAiObservation)
                mapProviderResponseToUsage) (\<lambda>response.
       io_return \<lparr>co_response = response, co_providerName = rv_providerName resolved, co_modelId = rv_modelId resolved,
         co_resolved = resolved\<rparr>)))))"

record stream_meta =
  smt_gatewayId :: string
  smt_primaryModelAlias :: string
  smt_responseConversationId :: string

definition call_stream ::
  "'w ai_provider \<Rightarrow> provider_chat_input \<Rightarrow> string \<Rightarrow> call_options \<Rightarrow> ('w, 'w stream_result) io" where
  "call_stream p input modelId options =
     (case ap_stream p of
        Some stream \<Rightarrow> stream input modelId options
      | None \<Rightarrow> io_throw (ErrorInstance NoSdkClass ''TypeError'' ''resolved.provider.stream is not a function'' []))"

definition meta_event :: "stream_meta \<Rightarrow> string \<Rightarrow> string \<Rightarrow> string \<Rightarrow> sse_event" where
  "meta_event meta providerName alias' requestId =
     SseMeta \<lparr>sm_id = smt_gatewayId meta, sm_provider = providerName, sm_model = smt_primaryModelAlias meta,
       sm_effectiveModelAlias = (if alias' \<noteq> smt_primaryModelAlias meta then Some alias' else None),
       sm_requestId = requestId, sm_conversationId = smt_responseConversationId meta, sm_cached = None\<rparr>"

definition emit_meta ::
  "(sse_event \<Rightarrow> 'w \<Rightarrow> 'w) \<Rightarrow> sse_event \<Rightarrow> ('w \<times> stream_locals, unit) io" where
  "emit_meta emit ev = io_update (\<lambda>(w, l). if metaEmitted l then (w, l) else (emit ev w, l\<lparr>metaEmitted := True\<rparr>))"

text \<open>The \<open>for await\<close> loop.\<close>

fun emit_chunks :: "(sse_event \<Rightarrow> 'w \<Rightarrow> 'w) \<Rightarrow> text_stream \<Rightarrow> ('w \<times> stream_locals, unit) io" where
  "emit_chunks emit StreamEnd s = (Inr (), s)"
| "emit_chunks emit (StreamThrow e) s = (Inl e, s)"
| "emit_chunks emit (StreamChunk textChunk rest) (w, l) =
     emit_chunks emit rest (emit (SseDelta textChunk) w, l\<lparr>assembledText := assembledText l @ textChunk\<rparr>)"

definition opt_call :: "('w, 'a option) io option \<Rightarrow> ('w, 'a option) io" where
  "opt_call getter = (case getter of Some m \<Rightarrow> m | None \<Rightarrow> io_return None)"

text \<open>After the last chunk: the getters, with the end of the metrics scopes between them.\<close>

definition stream_finish ::
  "'w stream_scope \<Rightarrow> 'w llm_span \<Rightarrow> 'w ai_provider resolved_provider \<Rightarrow> 'w stream_result \<Rightarrow> ('w \<times> stream_locals, stream_once_result) io" where
  "stream_finish appScope aiSpan resolved streamResult =
     io_bind (on_world (opt_call (sr_getFinalToolCalls streamResult))) (\<lambda>toolCalls.
     io_bind (on_world (opt_call (sr_getStopReason streamResult))) (\<lambda>stopReason.
     io_bind (on_world (sr_getUsageMetadata streamResult)) (\<lambda>usageMetadata.
     io_bind (io_update (\<lambda>(w, l). (sc_end appScope (map_option stu_tokens usageMetadata) w, l))) (\<lambda>_.
     io_bind (io_update (\<lambda>(w, l). (sp_end aiSpan
        \<lparr>ob_responseModel = Option.bind usageMetadata stu_model, ob_outputText = truthy_str (Some (assembledText l)),
         ob_usage = map_option stu_tokens usageMetadata\<rparr> w, l))) (\<lambda>_.
     io_bind (on_world (opt_call (sr_getSystemFingerprint streamResult))) (\<lambda>systemFingerprint.
     io_bind (on_world (opt_call (sr_getThinkingContent streamResult))) (\<lambda>thinkingContent.
     io_bind (on_world (opt_call (sr_getUsageDetails streamResult))) (\<lambda>usageDetails.
     io_get (\<lambda>(w, l).
       \<lparr>so_providerName = rv_providerName resolved, so_modelId = rv_modelId resolved, so_assembledText = assembledText l,
        so_usageMetadata = usageMetadata, so_toolCalls = truthy_list toolCalls, so_stopReason = stopReason,
        so_systemFingerprint = truthy_str systemFingerprint, so_thinkingContent = truthy_str thinkingContent,
        so_usageDetails = usageDetails\<rparr>)))))))))"

definition stream_body ::
  "'w stream_scope \<Rightarrow> 'w llm_span \<Rightarrow> 'w ai_provider resolved_provider \<Rightarrow> provider_chat_input \<Rightarrow> call_options \<Rightarrow>
   (sse_event \<Rightarrow> 'w \<Rightarrow> 'w) \<Rightarrow> sse_event \<Rightarrow> ('w \<times> stream_locals, stream_once_result) io" where
  "stream_body appScope aiSpan resolved providerInput aliasOptions emit metaEvent =
     io_bind (on_world (sp_withActiveSpan aiSpan (call_stream (rv_provider resolved) providerInput (rv_modelId resolved) aliasOptions))) (\<lambda>streamResult.
     io_bind (emit_meta emit metaEvent) (\<lambda>_.
     io_bind (emit_chunks emit (sr_textStream streamResult)) (\<lambda>_.
       stream_finish appScope aiSpan resolved streamResult)))"

definition streamOnce ::
  "'w chat_env \<Rightarrow> chat_request \<Rightarrow> string \<Rightarrow> string \<Rightarrow> string \<Rightarrow> resolved_system_prompts \<Rightarrow> (sse_event \<Rightarrow> 'w \<Rightarrow> 'w) \<Rightarrow>
   stream_meta \<Rightarrow> ('w \<times> stream_locals, stream_once_result) io" where
  "streamOnce env r alias' requestId clientId prompts emit meta =
     io_bind (io_lift (resolve (ch_gateway env) (ch_registry env) alias')) (\<lambda>resolved.
     io_bind (io_lift (resolveProviderCallOptions (rv_params resolved) (params r))) (\<lambda>aliasOptions.
     io_bind (io_lift (buildProviderInputForAlias r alias' prompts)) (\<lambda>providerInput.
     io_bind (io_lift (buildLlmMetricsContext r (rv_providerName resolved) alias' (rv_modelId resolved) requestId)) (\<lambda>aiCtx.
     let appCtx = buildAppProviderMetricsContext MethodStream (rv_providerName resolved) alias' clientId in
     io_bind (on_world (io_state (am_observeProviderStream (ch_appMetrics env) appCtx))) (\<lambda>appScope.
     io_bind (on_world (io_state (ai_observeLlmStream (ch_aiMetrics env) aiCtx))) (\<lambda>aiSpan.
     io_bind (io_update (\<lambda>(w, l). (w, l\<lparr>assembledText := []\<rparr>))) (\<lambda>_.
       io_catch
         (stream_body appScope aiSpan resolved providerInput aliasOptions emit
            (meta_event meta (rv_providerName resolved) alias' requestId))
         (\<lambda>e. io_bind (io_update (\<lambda>(w, l). (sc_fail appScope e w, l))) (\<lambda>_.
              io_bind (io_update (\<lambda>(w, l). (sp_fail aiSpan (Some \<lparr>ob_responseModel = None,
                 ob_outputText = truthy_str (Some (assembledText l)), ob_usage = None\<rparr>) w, l))) (\<lambda>_.
              io_throw e))))))))))"

section \<open>Preparation and stream cache (chat.service.ts)\<close>

record 'w chat_execution_prep =
  pp_primaryResolved :: "'w ai_provider resolved_provider"
  pp_options :: call_options
  pp_responseConversationId :: string
  pp_resolvedPrompts :: resolved_system_prompts

definition prepareRequestForExecution ::
  "'w chat_env \<Rightarrow> chat_request \<Rightarrow> string \<Rightarrow> ingress_profile \<Rightarrow> string \<Rightarrow> ('w, 'w chat_execution_prep) io" where
  "prepareRequestForExecution env r requestId ingressProfile gatewayKey =
     io_bind (io_lift (validateChatIngress r ingressProfile)) (\<lambda>_.
     io_bind (io_lift (res_bind (require_config ''resolvedSystemPrompts'' (ch_resolvedSystemPrompts env))
                (\<lambda>p. getResolvedSystemPrompts (Some p)))) (\<lambda>resolvedPrompts.
     io_bind (getOrCreateConversationIdForResponse (ch_uuid env) r) (\<lambda>responseConversationId.
     io_bind (io_lift (resolve (ch_gateway env) (ch_registry env) (modelAlias r))) (\<lambda>primaryResolved.
     io_bind (io_lift (validateTooling r primaryResolved)) (\<lambda>_.
     io_bind (io_lift (resolveProviderCallOptions (rv_params primaryResolved) (params r))) (\<lambda>options.
     io_bind (io_lift (validateThinking primaryResolved options)) (\<lambda>_.
     io_bind (if gatewayKey \<noteq> []
              then assertNotInCooldown (ch_limiter env) gatewayKey (rv_providerName primaryResolved) requestId
              else io_return ()) (\<lambda>_.
       io_return \<lparr>pp_primaryResolved = primaryResolved, pp_options = options,
         pp_responseConversationId = responseConversationId, pp_resolvedPrompts = resolvedPrompts\<rparr>))))))))"

datatype 'w stream_cache_decision =
    StreamCacheHit "'w chat_execution_prep" cached_chat_response cache_source
  | StreamCacheMiss "'w chat_execution_prep" "semantic_embed_state option"

definition resolveStreamCache ::
  "'w chat_env \<Rightarrow> chat_request \<Rightarrow> string \<Rightarrow> string \<Rightarrow> ingress_profile \<Rightarrow> string \<Rightarrow> ('w, 'w stream_cache_decision) io" where
  "resolveStreamCache env r requestId clientId ingressProfile gatewayKey =
     io_bind (prepareRequestForExecution env r requestId ingressProfile gatewayKey) (\<lambda>prep.
       if gatewayKey = [] then io_return (StreamCacheMiss prep None)
       else io_bind (getCachedIfAllowed (ch_pipeline env) r (pp_options prep) clientId gatewayKey) (\<lambda>lookup.
         case lookup of
           CacheHit cached src \<Rightarrow> io_return (StreamCacheHit prep cached src)
         | CacheMiss embedState \<Rightarrow> io_return (StreamCacheMiss prep embedState)))"

definition replayStreamCacheHit ::
  "'w chat_execution_prep \<Rightarrow> cached_chat_response \<Rightarrow> cache_source \<Rightarrow> string \<Rightarrow> (sse_event \<Rightarrow> 'w \<Rightarrow> 'w) \<Rightarrow>
   ('w \<Rightarrow> bool) option \<Rightarrow> 'w \<Rightarrow> 'w" where
  "replayStreamCacheHit prep cached src requestId emit shouldAbort =
     replay cached src requestId (pp_responseConversationId prep) emit shouldAbort"

section \<open>The JSON call (chat.service.ts)\<close>

definition fallback_of :: "chat_request \<Rightarrow> 'w ai_provider resolved_provider \<Rightarrow> string option" where
  "fallback_of r primaryResolved = (if isToolingRequest r then None else rv_fallbackAlias primaryResolved)"

definition provider_response_of :: "provider_chat_response \<Rightarrow> provider_response" where
  "provider_response_of p =
     \<lparr>prr_text = pr_text p,
      prr_usage = map_option (\<lambda>u. \<lparr>ru_inputTokens = Some (inputTokens u), ru_outputTokens = Some (outputTokens u), ru_totalTokens = None\<rparr>) (pr_usage p),
      prr_toolCalls = pr_toolCalls p, prr_stopReason = pr_stopReason p, prr_usageDetails = pr_usageDetails p,
      prr_systemFingerprint = pr_systemFingerprint p, prr_thinkingContent = pr_thinkingContent p\<rparr>"

definition run_chat ::
  "'w chat_env \<Rightarrow> chat_request \<Rightarrow> string \<Rightarrow> string \<Rightarrow> 'w chat_execution_prep \<Rightarrow> ('w, 'w complete_once_result execution_result) io" where
  "run_chat env r clientId requestId prep =
     executeWithRetryAndFallback (ch_race env) (ch_sleep env) None (modelAlias r) (fallback_of r (pp_primaryResolved prep))
       (buildRetryPolicyFromResolved (rv_policy (pp_primaryResolved prep)))
       (\<lambda>alias' attemptNo. completeOnce env r alias' requestId clientId (pp_resolvedPrompts prep))"

definition completeChatAndStore ::
  "'w chat_env \<Rightarrow> chat_request \<Rightarrow> string \<Rightarrow> string \<Rightarrow> string \<Rightarrow> 'w chat_execution_prep \<Rightarrow> semantic_embed_state option \<Rightarrow>
   ('w, chat_response_data) io" where
  "completeChatAndStore env r clientId requestId gatewayKey prep embedState =
     io_catch
       (io_bind (run_chat env r clientId requestId prep) (\<lambda>result.
          let response = co_response (er_value result); resolved = co_resolved (er_value result) in
          io_bind (io_state (buildChatResponse (ch_uuid env) (provider_response_of response) (rv_providerName resolved)
             (modelAlias r) requestId (pp_responseConversationId prep)
             (if er_didFallback result then Some (er_usedAlias result) else None)
             (Some (pp_options prep)) (Some (rv_providerType resolved)) None)) (\<lambda>chatResult.
          io_bind (if \<not> er_didFallback result
                   then setCachedIfAllowed (ch_pipeline env) r chatResult (pp_options prep) clientId gatewayKey embedState
                   else io_return ()) (\<lambda>_. io_return chatResult))))
       (\<lambda>e. io_bind (handleProviderError (ch_limiter env) e (rv_providerName (pp_primaryResolved prep)) (Some gatewayKey)) (\<lambda>_.
          io_throw e))"

datatype chat_reply =
    LiveReply chat_response_data
  | CachedReply cached_chat_response string cache_source string

definition mayCoalesce :: "'w chat_env \<Rightarrow> chat_request \<Rightarrow> string \<Rightarrow> string \<Rightarrow> bool result" where
  "mayCoalesce env r clientId gatewayKey =
     (if gatewayKey \<noteq> [] \<and> clientId \<noteq> ''unknown'' \<and> \<not> isToolingRequest r
      then res_bind (require_config ''gateway'' (ch_gateway env)) (\<lambda>g. Inr (isCachedChatAllowedForModelAlias (Some g) (modelAlias r)))
      else Inr False)"

text \<open>\<open>singleflightChat(key, work)\<close> on the map the service keeps; the work's \<open>finally\<close> removes the entry.\<close>

definition singleflightChat :: "'w chat_env \<Rightarrow> string \<Rightarrow> ('w, chat_response_data) io \<Rightarrow> ('w, chat_response_data) io" where
  "singleflightChat env key work = (\<lambda>w.
     case singleflight (ch_inFlight env w) key
            (io_state (ch_spawn env (io_finally work
               (io_update (\<lambda>v. ch_setInFlight env (on_settle key (ch_inFlight env v)) v))))) w of
       (Inr p, m, w') \<Rightarrow> ch_await env p (ch_setInFlight env m w')
     | (Inl e, m, w') \<Rightarrow> (Inl e, w'))"

definition executeChat ::
  "'w chat_env \<Rightarrow> chat_request \<Rightarrow> string \<Rightarrow> string \<Rightarrow> string \<Rightarrow> ingress_profile \<Rightarrow> ('w, chat_reply) io" where
  "executeChat env r clientId requestId gatewayKey ingressProfile =
     io_bind (prepareRequestForExecution env r requestId ingressProfile gatewayKey) (\<lambda>prep.
     io_bind (if gatewayKey \<noteq> [] then getCachedIfAllowed (ch_pipeline env) r (pp_options prep) clientId gatewayKey
              else io_return (CacheMiss None)) (\<lambda>lookup.
       case lookup of
         CacheHit cached src \<Rightarrow> io_return (CachedReply cached (pp_responseConversationId prep) src requestId)
       | CacheMiss embedState \<Rightarrow>
           let runMissPath = completeChatAndStore env r clientId requestId gatewayKey prep embedState in
           io_bind (io_lift (mayCoalesce env r clientId gatewayKey)) (\<lambda>coalesce.
             if coalesce
             then io_bind (io_lift (pipeline_buildIdentityKey (ch_pipeline env) r clientId (pp_options prep))) (\<lambda>key.
                    io_map LiveReply (singleflightChat env key
                      (io_bind (io_update (ch_metric env (MPipelineAccess (modelAlias r) False))) (\<lambda>_. runMissPath))))
             else io_map LiveReply runMissPath)))"

section \<open>The streamed call (chat.service.ts)\<close>

definition track_stream :: "'w chat_env \<Rightarrow> string \<Rightarrow> ('w, 'a) io \<Rightarrow> ('w, 'a) io" where
  "track_stream env client fn = (\<lambda>w.
     case trackStream (\<lambda>c n. ch_metric env (MActiveStreams c n)) client
            (\<lambda>(m, v). case fn (ch_setStreamCount env m v) of (r, v') \<Rightarrow> (r, (ch_streamCount env v', v')))
            (ch_streamCount env w, w) of
       (r, (m, w')) \<Rightarrow> (r, ch_setStreamCount env m w'))"

text \<open>The closure \<open>runOnce\<close> of \<open>executeStreamMiss\<close>.\<close>

definition stream_attempt ::
  "'w chat_env \<Rightarrow> chat_request \<Rightarrow> string \<Rightarrow> string \<Rightarrow> (sse_event \<Rightarrow> 'w \<Rightarrow> 'w) \<Rightarrow> 'w chat_execution_prep \<Rightarrow> string \<Rightarrow> string \<Rightarrow>
   ('w \<times> stream_locals, stream_once_result \<times> 'w ai_provider resolved_provider) io" where
  "stream_attempt env r requestId clientId emit prep rid alias' =
     io_bind (streamOnce env r alias' requestId clientId (pp_resolvedPrompts prep) emit
        \<lparr>smt_gatewayId = rid, smt_primaryModelAlias = modelAlias r, smt_responseConversationId = pp_responseConversationId prep\<rparr>) (\<lambda>streamResult.
     io_bind (io_lift (resolve (ch_gateway env) (ch_registry env) alias')) (\<lambda>resolved.
       io_return (streamResult, resolved)))"

definition run_stream ::
  "'w chat_env \<Rightarrow> chat_request \<Rightarrow> string \<Rightarrow> string \<Rightarrow> (sse_event \<Rightarrow> 'w \<Rightarrow> 'w) \<Rightarrow> 'w chat_execution_prep \<Rightarrow> string \<Rightarrow>
   ('w \<times> stream_locals, (stream_once_result \<times> 'w ai_provider resolved_provider) execution_result) io" where
  "run_stream env r requestId clientId emit prep rid =
     executeWithRetryAndFallback (ch_streamRace env) (\<lambda>d (w, l). (ch_sleep env d w, l)) None (modelAlias r)
       (fallback_of r (pp_primaryResolved prep))
       (buildRetryPolicyFromResolved (rv_policy (pp_primaryResolved prep)))
       (\<lambda>alias' attemptNo. stream_attempt env r requestId clientId emit prep rid alias')"

definition done_event :: "'w chat_execution_prep \<Rightarrow> (stream_once_result \<times> 'w ai_provider resolved_provider) execution_result \<Rightarrow> sse_event" where
  "done_event prep result =
     (let v = fst (er_value result); resolved = snd (er_value result)
      in buildStreamDoneEvent (map_option stu_tokens (so_usageMetadata v)) (so_toolCalls v) (so_stopReason v)
           (so_systemFingerprint v) (so_thinkingContent v) (Some (pp_options prep)) (Some (rv_providerType resolved))
           (so_usageDetails v) (if er_didFallback result then Some (er_usedAlias result) else None))"

definition stream_response_of :: "stream_once_result \<Rightarrow> provider_response" where
  "stream_response_of v =
     \<lparr>prr_text = so_assembledText v,
      prr_usage = map_option (\<lambda>u. \<lparr>ru_inputTokens = Some (inputTokens (stu_tokens u)), ru_outputTokens = Some (outputTokens (stu_tokens u)),
        ru_totalTokens = None\<rparr>) (so_usageMetadata v),
      prr_toolCalls = so_toolCalls v, prr_stopReason = so_stopReason v, prr_usageDetails = so_usageDetails v,
      prr_systemFingerprint = so_systemFingerprint v, prr_thinkingContent = so_thinkingContent v\<rparr>"

definition executeStreamMiss ::
  "'w chat_env \<Rightarrow> chat_request \<Rightarrow> string \<Rightarrow> string \<Rightarrow> (sse_event \<Rightarrow> 'w \<Rightarrow> 'w) \<Rightarrow> string \<Rightarrow> 'w chat_execution_prep \<Rightarrow>
   semantic_embed_state option \<Rightarrow> ('w, unit) io" where
  "executeStreamMiss env r requestId clientId emit gatewayKey prep embedState =
     io_bind (io_state (ch_uuid env)) (\<lambda>uuid.
     let rid = ''gw_'' @ uuid in
     io_catch
       (io_bind (track_stream env clientId
           (with_locals \<lparr>metaEmitted = False, assembledText = []\<rparr> (run_stream env r requestId clientId emit prep rid))) (\<lambda>result.
        io_bind (io_update (emit (done_event prep result))) (\<lambda>_.
          if \<not> er_didFallback result
          then io_bind (io_state (buildChatResponse (ch_uuid env) (stream_response_of (fst (er_value result)))
                 (rv_providerName (snd (er_value result))) (modelAlias r) requestId (pp_responseConversationId prep) None
                 (Some (pp_options prep)) (Some (rv_providerType (snd (er_value result)))) (Some rid))) (\<lambda>chatResult.
                 setCachedIfAllowed (ch_pipeline env) r chatResult (pp_options prep) clientId gatewayKey embedState)
          else io_return ())))
       (\<lambda>e. io_bind (handleProviderError (ch_limiter env) e (rv_providerName (pp_primaryResolved prep)) (Some gatewayKey)) (\<lambda>_.
          io_throw e)))"

definition executeStream ::
  "'w chat_env \<Rightarrow> chat_request \<Rightarrow> string \<Rightarrow> string \<Rightarrow> (sse_event \<Rightarrow> 'w \<Rightarrow> 'w) \<Rightarrow> ingress_profile \<Rightarrow> string \<Rightarrow> ('w, unit) io" where
  "executeStream env r requestId clientId emit ingressProfile gatewayKey =
     io_bind (prepareRequestForExecution env r requestId ingressProfile gatewayKey) (\<lambda>prep.
       executeStreamMiss env r requestId clientId emit gatewayKey prep None)"

section \<open>The native controllers (chat.controller.ts, chat-stream.controller.ts)\<close>

definition request_client :: "http_request \<Rightarrow> string" where
  "request_client req = nullish (truthy_str (rq_clientId req)) ''unknown''"

definition ChatController_chat :: "'w chat_env \<Rightarrow> http_request \<Rightarrow> chat_request \<Rightarrow> ('w, chat_response_dto) io" where
  "ChatController_chat env req r =
     io_bind (io_lift (requireClientGatewayKey req)) (\<lambda>gatewayKey.
     io_bind (executeChat env r (request_client req) (rq_requestId req) gatewayKey NativeProfile) (\<lambda>result.
       case result of
         CachedReply cached convId src requestId \<Rightarrow> io_return (toChatResponseDtoFromCache cached convId src requestId)
       | LiveReply d \<Rightarrow> io_return (toChatResponseDto d)))"

text \<open>The response object of the web framework.\<close>

record 'w http_response =
  hr_writableEnded :: "'w \<Rightarrow> bool"
  hr_writeHead :: "nat \<Rightarrow> (string \<times> string) list \<Rightarrow> 'w \<Rightarrow> 'w"
  hr_write :: "string \<Rightarrow> 'w \<Rightarrow> 'w"
  hr_end :: "'w \<Rightarrow> 'w"

definition emit_to :: "'w http_response \<Rightarrow> sse_event \<Rightarrow> 'w \<Rightarrow> 'w" where
  "emit_to res event w = (if \<not> hr_writableEnded res w then hr_write res (serialize event) w else w)"

definition stream_headers :: "(string \<times> string) list" where
  "stream_headers = [(''Content-Type'', ''text/event-stream; charset=utf-8''), (''Cache-Control'', ''no-cache, no-transform''),
     (''Connection'', ''keep-alive'')]"

definition ChatStreamController_streamChat ::
  "'w chat_env \<Rightarrow> 'w http_response \<Rightarrow> http_request \<Rightarrow> chat_request \<Rightarrow> ('w, unit) io" where
  "ChatStreamController_streamChat env res req r =
     io_bind (io_lift (requireClientGatewayKey req)) (\<lambda>gatewayKey.
     io_bind (io_lift (validateForStreaming (ch_gateway env) (ch_registry env) (\<lambda>p. ap_stream p \<noteq> None) (modelAlias r))) (\<lambda>_.
     let requestId = rq_requestId req; clientId = request_client req in
     io_bind (resolveStreamCache env r requestId clientId NativeProfile gatewayKey) (\<lambda>decision.
     io_bind (io_update (hr_writeHead res 200 stream_headers)) (\<lambda>_.
       io_finally
         (case decision of
            StreamCacheHit prep cached src \<Rightarrow>
              io_update (replayStreamCacheHit prep cached src requestId (emit_to res) (Some (hr_writableEnded res)))
          | StreamCacheMiss prep embedState \<Rightarrow>
              executeStreamMiss env r requestId clientId (emit_to res) gatewayKey prep embedState)
         (io_update (hr_end res))))))"

end
