(* ===== verification/Chat_Props.thy ===== *)
theory Chat_Props
  imports Chat_Service
begin

text \<open>
  What the orchestration guarantees: where a live reply comes from and what is stored of it, the cooldown that follows a provider's
  429, the events of a stream over all its attempts, and what a coalesced caller gets.
\<close>

section \<open>Lemmas on the executor\<close>

text \<open>An invariant of one attempt and of the pause is one of the whole execution, and the value returned is
  what its last attempt returned.\<close>

definition attempt_preserves ::
  "('w \<Rightarrow> bool) \<Rightarrow> ('w, 'a) race \<Rightarrow> (nat \<Rightarrow> 'w \<Rightarrow> 'w) \<Rightarrow> retry_policy \<Rightarrow> (string \<Rightarrow> nat \<Rightarrow> ('w, 'a) io) \<Rightarrow> bool" where
  "attempt_preserves I race sleep retry runOnce \<longleftrightarrow>
     (\<forall>a k w. I w \<longrightarrow> I (snd (runWithTimeout race (timeoutMs retry) (runOnce a k) w))) \<and> (\<forall>d w. I w \<longrightarrow> I (sleep d w))"

lemma tryAlias_loop_preserves:
  assumes "attempt_preserves I race sleep retry runOnce"
  shows "I w \<Longrightarrow> tryAlias_loop race sleep retry runOnce a n k le w = (r, w') \<Longrightarrow>
    I w' \<and> (\<forall>v m. r = Inr (AttemptOk v m) \<longrightarrow>
      (\<exists>j u. I u \<and> runWithTimeout race (timeoutMs retry) (runOnce a j) u = (Inr v, w')))"
proof (induction n arbitrary: k le w)
  case 0
  then show ?case by (auto simp: asAttemptNumber_def split: if_splits)
next
  case (Suc n)
  obtain x w1 where run: "runWithTimeout race (timeoutMs retry) (runOnce a k) w = (x, w1)" by fastforce
  have w1: "I w1" using assms Suc.prems(1) run unfolding attempt_preserves_def by (metis snd_conv)
  show ?case
  proof (cases x)
    case (Inr v)
    with run Suc.prems w1 show ?thesis by auto
  next
    case (Inl e)
    show ?thesis
    proof (cases "isRetryableHttpError e (onStatus retry)")
      case False
      with Inl run Suc.prems w1 show ?thesis by (auto simp: asAttemptNumber_def split: if_splits)
    next
      case True
      let ?w2 = "if n \<noteq> 0 then sleep (computeBackoffDelayMs k retry) w1 else w1"
      have "I ?w2" using w1 assms by (simp add: attempt_preserves_def)
      moreover have "tryAlias_loop race sleep retry runOnce a n (Suc k) e ?w2 = (r, w')"
        using Suc.prems(2) run Inl True by (simp add: Let_def)
      ultimately show ?thesis by (rule Suc.IH)
    qed
  qed
qed

lemma executor_preserves:
  assumes pres: "attempt_preserves I race sleep retry runOnce" and "I w"
    and run: "executeWithRetryAndFallback race sleep None primary fb retry runOnce w = (r, w')"
  shows "I w' \<and> (\<forall>res. r = Inr res \<longrightarrow>
      (\<exists>j u. I u \<and> runWithTimeout race (timeoutMs retry) (runOnce (er_usedAlias res) j) u = (Inr (er_value res), w')) \<and>
      (if er_didFallback res then truthy_str fb = Some (er_usedAlias res) \<and> er_usedAlias res \<noteq> primary else er_usedAlias res = primary))"
proof (cases "assertNoFallbackCycle primary fb")
  case (Inl e)
  then show ?thesis using run assms(2) by (auto simp: executeWithRetryAndFallback_def)
next
  case chain: (Inr u)
  have cycle: "truthy_str fb = Some f \<Longrightarrow> f \<noteq> primary" for f
    using chain by (auto simp: assertNoFallbackCycle_def split: option.splits if_splits)
  obtain p w1 where P: "tryAlias race sleep retry runOnce primary (maxAttempts retry) w = (p, w1)" by fastforce
  note p = tryAlias_loop_preserves [OF pres assms(2) P [unfolded tryAlias_def]]
  show ?thesis
  proof (cases "\<exists>pe pn f. p = Inr (AttemptFailed pe pn) \<and> truthy_str fb = Some f")
    case False
    then show ?thesis using run P p chain
      by (auto simp: executeWithRetryAndFallback_def io_bind_apply split: sum.splits attempt_result.splits option.splits) blast
  next
    case True
    then obtain pe pn f where f: "p = Inr (AttemptFailed pe pn)" "truthy_str fb = Some f" by blast
    obtain q w2 where Q: "tryAlias race sleep retry runOnce f (maxAttempts retry) w1 = (q, w2)" by fastforce
    have "I w1" using p by blast
    note q = tryAlias_loop_preserves [OF pres this Q [unfolded tryAlias_def]]
    show ?thesis using run P Q q f cycle chain
      by (auto simp: executeWithRetryAndFallback_def io_bind_apply asAttemptNumber_def
          split: sum.splits attempt_result.splits if_splits) blast+
  qed
qed

lemma executor_aliases:
  assumes "executeWithRetryAndFallback race sleep None primary fb retry runOnce w = (Inr res, w')"
  shows "if er_didFallback res then truthy_str fb = Some (er_usedAlias res) \<and> er_usedAlias res \<noteq> primary else er_usedAlias res = primary"
proof -
  have "attempt_preserves (\<lambda>_. True) race sleep retry runOnce" by (simp add: attempt_preserves_def)
  from executor_preserves [OF this _ assms] show ?thesis by simp
qed

section \<open>Lemmas on one request\<close>

lemma io_state_apply: "io_state f w = (Inr (fst (f w)), snd (f w))"
  by (simp add: io_state_def split: prod.splits)

lemma buildChatResponse_fields:
  "buildChatResponse u p n a rid conv eff o' t i w = (d, w') \<Longrightarrow>
     cr_requestId d = rid \<and> cr_conversationId d = conv \<and> cr_model d = a \<and> cr_text d = prr_text p \<and> cr_provider d = n \<and>
     cr_effectiveModelAlias d = truthy_str eff \<and> w' = (if i = None then snd (u w) else w)"
  by (auto simp: buildChatResponse_def Let_def split: option.splits prod.splits)

lemma handleProviderError_run: "\<exists>v. handleProviderError env e n k w = (Inr (), v)"
  using handleProviderError_total [of env e n k] unfolding never_throws_def by (metis old.unit.exhaust)

lemma completeChat_run:
  assumes "run_chat env r clientId requestId prep w = (Inr result, w1)"
    and "buildChatResponse (ch_uuid env) (provider_response_of (co_response (er_value result))) (rv_providerName (co_resolved (er_value result)))
             (modelAlias r) requestId (pp_responseConversationId prep)
             (if er_didFallback result then Some (er_usedAlias result) else None)
             (Some (pp_options prep)) (Some (rv_providerType (co_resolved (er_value result)))) None w1 = (chat, w2)"
  shows "completeChatAndStore env r clientId requestId gatewayKey prep es w =
     (if er_didFallback result then (Inr chat, w2)
      else case setCachedIfAllowed (ch_pipeline env) r chat (pp_options prep) clientId gatewayKey es w2 of
             (Inr _, w3) \<Rightarrow> (Inr chat, w3)
           | (Inl e, w3) \<Rightarrow> (Inl e, snd (handleProviderError (ch_limiter env) e (rv_providerName (pp_primaryResolved prep)) (Some gatewayKey) w3)))"
proof -
  obtain y w3 where set: "setCachedIfAllowed (ch_pipeline env) r chat (pp_options prep) clientId gatewayKey es w2 = (y, w3)" by fastforce
  show ?thesis
  proof (cases "er_didFallback result")
    case True
    then show ?thesis using assms by (simp add: completeChatAndStore_def io_bind_apply io_catch_apply io_state_apply Let_def)
  next
    case no: False
    show ?thesis
    proof (cases y)
      case (Inr u)
      then show ?thesis using assms no set by (simp add: completeChatAndStore_def io_bind_apply io_catch_apply io_state_apply Let_def)
    next
      case (Inl e)
      obtain v where "handleProviderError (ch_limiter env) e (rv_providerName (pp_primaryResolved prep)) (Some gatewayKey) w3 = (Inr (), v)"
        using handleProviderError_run [of "ch_limiter env"] by blast
      then show ?thesis using Inl assms no set by (simp add: completeChatAndStore_def io_bind_apply io_catch_apply io_state_apply Let_def)
    qed
  qed
qed

lemma completeChat_failed:
  assumes "run_chat env r clientId requestId prep w = (Inl e, w1)"
  shows "completeChatAndStore env r clientId requestId gatewayKey prep es w =
     (Inl e, snd (handleProviderError (ch_limiter env) e (rv_providerName (pp_primaryResolved prep)) (Some gatewayKey) w1))"
proof -
  obtain v where "handleProviderError (ch_limiter env) e (rv_providerName (pp_primaryResolved prep)) (Some gatewayKey) w1 = (Inr (), v)"
    using handleProviderError_run [of "ch_limiter env"] by blast
  then show ?thesis using assms by (simp add: completeChatAndStore_def io_bind_apply io_catch_apply)
qed

lemma live_reply_cases:
  assumes "completeChatAndStore env r clientId requestId gatewayKey prep es w = (Inr chat, w')"
  shows "\<exists>result w1. run_chat env r clientId requestId prep w = (Inr result, w1) \<and>
    cr_text chat = pr_text (co_response (er_value result)) \<and> cr_requestId chat = requestId \<and>
    cr_conversationId chat = pp_responseConversationId prep \<and> cr_model chat = modelAlias r \<and>
    (case cr_effectiveModelAlias chat of
       None \<Rightarrow> er_usedAlias result = modelAlias r \<and>
         setCachedIfAllowed (ch_pipeline env) r chat (pp_options prep) clientId gatewayKey es (snd (ch_uuid env w1)) = (Inr (), w')
     | Some a \<Rightarrow> er_usedAlias result = a \<and> a \<noteq> modelAlias r \<and> rv_fallbackAlias (pp_primaryResolved prep) = Some a \<and>
         \<not> isToolingRequest r \<and> w' = snd (ch_uuid env w1))"
proof -
  obtain x w1 where run: "run_chat env r clientId requestId prep w = (x, w1)" by fastforce
  then obtain result where x: "x = Inr result" using assms completeChat_failed by (cases x) fastforce+
  note run = run [unfolded x]
  obtain d w2 where b: "buildChatResponse (ch_uuid env) (provider_response_of (co_response (er_value result))) (rv_providerName (co_resolved (er_value result)))
             (modelAlias r) requestId (pp_responseConversationId prep)
             (if er_didFallback result then Some (er_usedAlias result) else None)
             (Some (pp_options prep)) (Some (rv_providerType (co_resolved (er_value result)))) None w1 = (d, w2)" by fastforce
  note fields = buildChatResponse_fields [OF b]
  note al = executor_aliases [OF run [unfolded run_chat_def]]
  from completeChat_run [OF run b, of gatewayKey es] assms have d: "d = chat"
    and st: "if er_didFallback result then w' = w2
      else setCachedIfAllowed (ch_pipeline env) r chat (pp_options prep) clientId gatewayKey es w2 = (Inr (), w')"
    by (auto split: if_splits sum.splits prod.splits)
  show ?thesis
  proof (cases "er_didFallback result")
    case True
    have "fallback_of r (pp_primaryResolved prep) = Some (er_usedAlias result)" "er_usedAlias result \<noteq> []" "er_usedAlias result \<noteq> modelAlias r"
      using al True by auto
    then show ?thesis using run fields d st True
      by (intro exI conjI) (auto simp: provider_response_of_def fallback_of_def truthy_str_def split: if_splits)
  next
    case False
    then show ?thesis using run fields d st al by (intro exI conjI) (auto simp: provider_response_of_def)
  qed
qed

text \<open>The preparation is the key-independent part followed by the cooldown check.\<close>

lemma prepare_split:
  "prepareRequestForExecution env r rid prof k =
     (if k = [] then prepareRequestForExecution env r rid prof []
      else io_bind (prepareRequestForExecution env r rid prof []) (\<lambda>prep.
        io_bind (assertNotInCooldown (ch_limiter env) k (rv_providerName (pp_primaryResolved prep)) rid) (\<lambda>_. io_return prep)))"
  unfolding prepareRequestForExecution_def by (cases "k = []") (simp_all only: io_bind_assoc io_bind_prim simp_thms if_True if_False chat_execution_prep.simps)

lemma prepare_plain:
  assumes "prepareRequestForExecution env r rid prof [] w = (x, v)"
  shows "(v = w \<or> v = snd (ch_uuid env w)) \<and>
    (\<forall>prep. x = Inr prep \<longrightarrow> resolve (ch_gateway env) (ch_registry env) (modelAlias r) = Inr (pp_primaryResolved prep) \<and>
       resolveProviderCallOptions (rv_params (pp_primaryResolved prep)) (params r) = Inr (pp_options prep) \<and>
       isConversationId (pp_responseConversationId prep))"
proof -
  obtain c v1 where conv: "getOrCreateConversationIdForResponse (ch_uuid env) r w = (c, v1)" by fastforce
  then have v1: "v1 = w \<or> v1 = snd (ch_uuid env w)"
    by (auto simp: getOrCreateConversationIdForResponse_def io_bind_apply split: sum.splits option.splits prod.splits)
  show ?thesis using assms v1 conv getOrCreateConversationId_valid [of "ch_uuid env" r w _ v1]
    by (auto simp: prepareRequestForExecution_def io_bind_apply split: sum.splits)
qed

lemma prepare_blocked:
  assumes "k \<noteq> []" and "resolve (ch_gateway env) (ch_registry env) (modelAlias r) = Inr rv" and "rv_providerName rv = p"
    and "\<And>v. v = w \<or> v = snd (ch_uuid env w) \<Longrightarrow> \<exists>err. assertNotInCooldown (ch_limiter env) k p rid v = (Inl err, v) \<and> Q err"
  shows "\<exists>err v. prepareRequestForExecution env r rid prof k w = (Inl err, v) \<and>
    (Q err \<or> prepareRequestForExecution env r rid prof [] w = (Inl err, v))"
proof -
  obtain x v where x: "prepareRequestForExecution env r rid prof [] w = (x, v)" by fastforce
  show ?thesis
  proof (cases x)
    case (Inl e)
    then show ?thesis using x assms(1) by (subst prepare_split) (simp add: io_bind_apply)
  next
    case (Inr prep)
    have "pp_primaryResolved prep = rv" "v = w \<or> v = snd (ch_uuid env w)" using prepare_plain [OF x] Inr assms(2) by auto
    then obtain err where "assertNotInCooldown (ch_limiter env) k p rid v = (Inl err, v)" "Q err" using assms(4) by blast
    then show ?thesis using Inr x assms(1,3) \<open>pp_primaryResolved prep = rv\<close>
      by (subst prepare_split) (simp add: io_bind_apply)
  qed
qed

lemma blocked_requests:
  assumes "prepareRequestForExecution env r rid prof k w = (Inl err, v)"
  shows "executeChat env r c rid k prof w = (Inl err, v)" "resolveStreamCache env r rid c prof k w = (Inl err, v)"
    "executeStream env r rid c emit prof k w = (Inl err, v)"
  using assms by (simp_all add: executeChat_def resolveStreamCache_def executeStream_def io_bind_apply)

section \<open>A closed environment for the witnesses\<close>

definition plain_race :: "('w, 'a) race" where
  "plain_race t m w = (case m w of (r, w') \<Rightarrow> (Some r, w'))"

definition noop_pipeline :: "'w cache_pipeline" where
  "noop_pipeline = \<lparr>pl_exact = \<lparr>rs_backend = NoOpCacheBackend, rs_config = sample_cache_config, rs_sha256 = id, rs_metric = (\<lambda>_ w. w)\<rparr>,
     pl_semantic = None, pl_gateway = Some sample_gateway, pl_nowIso = (\<lambda>_. ''2026-01-01T00:00:00.000Z''), pl_metric = (\<lambda>_ w. w)\<rparr>"

definition no_limiter :: "'w limiter_env" where
  "no_limiter = \<lparr>le_ready = (\<lambda>_. False), le_client = (\<lambda>_. None), le_clients = [], le_rateLimit = None, le_now = (\<lambda>_. 0),
     le_metric = (\<lambda>_ w. w)\<rparr>"

definition demo_env :: "'w limiter_env \<Rightarrow> 'w ai_provider \<Rightarrow> in_flight \<Rightarrow> (nat \<Rightarrow> ('w, chat_response_data) io) \<Rightarrow> 'w chat_env" where
  "demo_env lim' prov flying await' =
     \<lparr>ch_resolvedSystemPrompts = Some \<lparr>rsp_master = ''be kind'', rsp_main = None, rsp_perModelByAlias = []\<rparr>,
      ch_registry = registerInstance ''p'' PAnthropic prov (\<lambda>_. None), ch_limiter = lim', ch_pipeline = noop_pipeline,
      ch_uuid = (\<lambda>w. (''11111111-1111-4111-8111-111111111111'', w)), ch_appMetrics = NoopAppMetricsAdapter,
      ch_aiMetrics = NoopAiMetricsAdapter, ch_sleep = (\<lambda>_ w. w), ch_race = plain_race, ch_streamRace = plain_race,
      ch_inFlight = (\<lambda>_. flying), ch_setInFlight = (\<lambda>_ w. w), ch_spawn = (\<lambda>m w. (0, snd (m w))), ch_await = await',
      ch_streamCount = (\<lambda>_ _. None), ch_setStreamCount = (\<lambda>_ w. w)\<rparr>"

definition provider_text :: "string \<Rightarrow> provider_chat_response" where
  "provider_text t = \<lparr>pr_text = t, pr_toolCalls = None, pr_stopReason = Some SrEndTurn, pr_model = None, pr_usage = None,
     pr_usageDetails = None, pr_systemFingerprint = None, pr_thinkingContent = None\<rparr>"

definition answering :: "provider_chat_response result \<Rightarrow> 'w ai_provider" where
  "answering x = \<lparr>ap_complete = (\<lambda>_ _ _. io_lift x), ap_stream = None\<rparr>"

definition hello_in :: "string \<Rightarrow> chat_request" where
  "hello_in c = hello\<lparr>conversationId := Some c\<rparr>"

definition demo_conv :: string where
  "demo_conv = ''conv_11111111-1111-4111-8111-111111111111''"

definition demo_resolved :: "'w ai_provider \<Rightarrow> 'w ai_provider resolved_provider" where
  "demo_resolved prov = \<lparr>rv_provider = prov, rv_providerName = ''p'', rv_modelId = ''x'', rv_modelAlias = ''m'', rv_fallbackAlias = None,
     rv_capabilities = no_capabilities, rv_policy = None, rv_params = None, rv_providerType = PAnthropic, rv_openAiApiSurface = None\<rparr>"

definition demo_prompts :: resolved_system_prompts where
  "demo_prompts = \<lparr>rsp_master = ''be kind'', rsp_main = None, rsp_perModelByAlias = []\<rparr>"

definition demo_prep :: "'w ai_provider \<Rightarrow> string \<Rightarrow> 'w chat_execution_prep" where
  "demo_prep prov c = \<lparr>pp_primaryResolved = demo_resolved prov, pp_options = no_params, pp_responseConversationId = c,
     pp_resolvedPrompts = demo_prompts\<rparr>"

lemma demo_conv_ok: "isConversationId demo_conv" "js_trim demo_conv = demo_conv" "demo_conv \<noteq> []"
  by (code_simp)+

lemma demo_env_sel [simp]:
  "ch_resolvedSystemPrompts (demo_env lim' prov fl aw) = Some demo_prompts"
  "ch_limiter (demo_env lim' prov fl aw) = lim'" "ch_pipeline (demo_env lim' prov fl aw) = noop_pipeline"
  "ch_uuid (demo_env lim' prov fl aw) = (\<lambda>w. (''11111111-1111-4111-8111-111111111111'', w))"
  "ch_inFlight (demo_env lim' prov fl aw) w = fl" "ch_setInFlight (demo_env lim' prov fl aw) m w = w" "ch_await (demo_env lim' prov fl aw) = aw"
  "ch_race (demo_env lim' prov fl aw) = plain_race" "ch_sleep (demo_env lim' prov fl aw) d w = w"
  "ch_streamRace (demo_env lim' prov fl aw) = plain_race"
  "ch_appMetrics (demo_env lim' prov fl aw) = NoopAppMetricsAdapter" "ch_aiMetrics (demo_env lim' prov fl aw) = NoopAiMetricsAdapter"
  "pl_gateway noop_pipeline = Some sample_gateway"
  by (simp_all add: demo_env_def demo_prompts_def noop_pipeline_def)

lemma demo_resolve [simp]:
  "resolve (Some sample_gateway) (ch_registry (demo_env lim' prov fl aw)) ''m'' = Inr (demo_resolved prov)"
  by (simp add: resolve_def getGatewayConfig_def resolveModelAlias_def resolveProviderEntry_def registerInstance_def demo_env_def
      sample_gateway_def sample_defs demo_resolved_def isOpenAiProviderType_def)

lemma demo_options [simp]: "resolveProviderCallOptions None None = Inr no_params"
  by (simp add: resolveProviderCallOptions_def no_params_config_def no_params_def clamp_opt_def override_def Let_def check_thinking_tokens_def
      split: option.splits)

lemma hello_in_sel [simp]:
  "modelAlias (hello_in c) = ''m''" "params (hello_in c) = None" "conversationId (hello_in c) = Some c" "\<not> isToolingRequest (hello_in c)"
  "messages (hello_in c) = [sample_message RUser ''hi'']"
  by (simp_all add: hello_in_def sample_request_def isToolingRequest_def sample_message_def)

lemma demo_conversation [simp]: "getClientConversationId (hello_in demo_conv) = Inr (Some demo_conv)"
  using demo_conv_ok by (simp add: getClientConversationId_def createConversationId_def truthy_str_def)

lemma demo_ingress [simp]: "validateChatIngress (hello_in c) NativeProfile = Inr ()"
  by (simp add: validateChatIngress_def max_length_for_def sample_message_def Let_def)

lemma demo_prepare:
  "prepareRequestForExecution (demo_env lim' prov fl aw) (hello_in demo_conv) rid NativeProfile [] w = (Inr (demo_prep prov demo_conv), w)"
  by (simp add: prepareRequestForExecution_def io_bind_apply require_config_def getResolvedSystemPrompts_def getOrCreateConversationIdForResponse_def
      validateTooling_def validateThinking_def demo_resolved_def demo_prep_def no_params_def no_capabilities_def)

lemma demo_completeOnce:
  "completeOnce (demo_env lim' (answering x) fl aw) (hello_in demo_conv) ''m'' rid cl demo_prompts w =
     (map_sum id (\<lambda>resp. \<lparr>co_response = resp, co_providerName = ''p'', co_modelId = ''x'', co_resolved = demo_resolved (answering x)\<rparr>) x, w)"
  by (cases x) (simp_all add: completeOnce_def io_bind_apply demo_resolved_def buildProviderInputForAlias_def buildLlmMetricsContext_def
      isChatUserMessage_def sample_message_def NoopAppMetricsAdapter_def NoopAiMetricsAdapter_def answering_def Let_def)

definition demo_result :: "provider_chat_response \<Rightarrow> 'w complete_once_result execution_result" where
  "demo_result resp = \<lparr>er_value = \<lparr>co_response = resp, co_providerName = ''p'', co_modelId = ''x'', co_resolved = demo_resolved (answering (Inr resp))\<rparr>,
     er_usedAlias = ''m'', er_attempts = 1, er_didFallback = False\<rparr>"

lemma demo_prep_sel [simp]:
  "pp_primaryResolved (demo_prep prov c) = demo_resolved prov" "pp_options (demo_prep prov c) = no_params"
  "pp_responseConversationId (demo_prep prov c) = c" "pp_resolvedPrompts (demo_prep prov c) = demo_prompts"
  "rv_fallbackAlias (demo_resolved prov) = None" "rv_policy (demo_resolved prov) = None" "rv_providerName (demo_resolved prov) = ''p''"
  "rv_params (demo_resolved prov) = None" "rv_providerType (demo_resolved prov) = PAnthropic"
  by (simp_all add: demo_prep_def demo_resolved_def)

lemma plain_timeout [simp]: "runWithTimeout plain_race t m = m"
  by (rule ext) (simp add: runWithTimeout_def plain_race_def split: prod.splits)

lemma demo_run_ok:
  "run_chat (demo_env lim' (answering (Inr resp)) fl aw) (hello_in demo_conv) cl rid (demo_prep (answering (Inr resp)) c) w = (Inr (demo_result resp), w)"
  by (simp add: run_chat_def executeWithRetryAndFallback_def assertNoFallbackCycle_def fallback_of_def io_bind_apply tryAlias_def
      sample_retry_def [symmetric] numeral_3_eq_3 demo_completeOnce demo_result_def)

lemma demo_run_429:
  "run_chat (demo_env lim' (answering (Inl (api_exception 429 PROVIDER_RATE_LIMITED m []))) fl aw) (hello_in demo_conv) cl rid
     (demo_prep (answering (Inl (api_exception 429 PROVIDER_RATE_LIMITED m []))) c) w = (Inl (api_exception 429 PROVIDER_RATE_LIMITED m []), w)"
  by (simp add: run_chat_def executeWithRetryAndFallback_def assertNoFallbackCycle_def fallback_of_def io_bind_apply tryAlias_def
      sample_retry_def [symmetric] numeral_3_eq_3 demo_completeOnce isRetryableHttpError_def api_exception_def asAttemptNumber_def Let_def)

lemma noop_pipeline_never_stores: "setCachedIfAllowed noop_pipeline r d o' c k es w = (Inr (), w)"
  by (simp add: setCachedIfAllowed_def noop_pipeline_def require_config_def setCachedResponse_def NoOpCacheBackend_def io_bind_apply Let_def
      split: option.splits)

lemma noop_pipeline_never_hits:
  "k \<noteq> [] \<Longrightarrow> getCachedIfAllowed noop_pipeline (hello_in c) o' cl k w = (Inr (CacheMiss None), w)"
  by (simp add: getCachedIfAllowed_def noop_pipeline_def require_config_def getCachedResponse_def NoOpCacheBackend_def io_bind_apply Let_def
      split: option.splits)

definition demo_reply :: "string \<Rightarrow> string \<Rightarrow> string \<Rightarrow> chat_response_data" where
  "demo_reply t rid c = fst (buildChatResponse (\<lambda>w. (''11111111-1111-4111-8111-111111111111'', w)) (provider_response_of (provider_text t)) ''p'' ''m'' rid
     c None (Some no_params) (Some PAnthropic) None ())"

lemma demo_complete_ok:
  "completeChatAndStore (demo_env lim' (answering (Inr (provider_text t))) fl aw) (hello_in demo_conv) cl rid k
     (demo_prep (answering (Inr (provider_text t))) c) es w = (Inr (demo_reply t rid c), w)"
  by (subst completeChat_run [OF demo_run_ok surjective_pairing])
    (simp add: noop_pipeline_never_stores demo_result_def demo_reply_def buildChatResponse_def Let_def)

section \<open>Properties of the JSON call\<close>





text \<open>What a caller gets that finds its key in flight.\<close>

lemma coalesced_reply:
  assumes "prepareRequestForExecution env r requestId prof k w = (Inr prep, w1)" and "k \<noteq> []"
    and "getCachedIfAllowed (ch_pipeline env) r (pp_options prep) clientId k w1 = (Inr (CacheMiss es), w2)"
    and "mayCoalesce env r clientId k = Inr True" and "pipeline_buildIdentityKey (ch_pipeline env) r clientId (pp_options prep) = Inr key"
    and "ch_inFlight env w2 key = Some p" and "ch_setInFlight env (ch_inFlight env w2) w2 = w2"
    and "ch_await env p w2 = (Inr leader, w3)"
  shows "executeChat env r clientId requestId k prof w = (Inr (LiveReply leader), w3)"
  using assms by (simp add: executeChat_def io_bind_apply singleflightChat_def singleflight_def io_map_def)

text \<open>A coalesced caller answers with another request's ids: a request that joins the work another one has in flight for the same cache key
  returns that work's response as it is, so its body carries the request id and the conversation id of the first request, not its own. (The conversation id
  is not part of the cache key; a cache hit is given the caller's own ids.)\<close>

lemma coalesced_caller_gets_leader_ids:
  assumes "completeChatAndStore env r clientId leaderId k leaderPrep es v = (Inr leader, v')"
    and "prepareRequestForExecution env r' followerId prof k w = (Inr prep, w1)" and "k \<noteq> []"
    and "getCachedIfAllowed (ch_pipeline env) r' (pp_options prep) clientId k w1 = (Inr (CacheMiss es'), w2)"
    and "mayCoalesce env r' clientId k = Inr True" and "pipeline_buildIdentityKey (ch_pipeline env) r' clientId (pp_options prep) = Inr key"
    and "ch_inFlight env w2 key = Some p" and "ch_setInFlight env (ch_inFlight env w2) w2 = w2" and "ch_await env p w2 = (Inr leader, w3)"
  shows "executeChat env r' clientId followerId k prof w = (Inr (LiveReply leader), w3) \<and>
    cr_requestId leader = leaderId \<and> cr_conversationId leader = pp_responseConversationId leaderPrep"
  using coalesced_reply [OF assms(2-9)] live_reply_cases [OF assms(1)] by auto

end
