(* ===== verification/Stream_Props.thy ===== *)
theory Stream_Props
  imports Chat_Props
begin

text \<open>
  The events of a streamed call over all its attempts. \<open>lg\<close> reads from the world what the client has been sent. The
  hypotheses say what the surroundings of the chat service do to it: nothing.
\<close>

section \<open>What leaves the client's stream alone\<close>

definition quiet :: "('w \<Rightarrow> sse_event list) \<Rightarrow> ('w, 'a) io \<Rightarrow> bool" where
  "quiet lg m \<longleftrightarrow> (\<forall>w. lg (snd (m w)) = lg w)"

definition quiet_result :: "('w \<Rightarrow> sse_event list) \<Rightarrow> 'w stream_result \<Rightarrow> bool" where
  "quiet_result lg sr \<longleftrightarrow> quiet lg (sr_getUsageMetadata sr) \<and> quiet lg (opt_call (sr_getFinalToolCalls sr)) \<and>
     quiet lg (opt_call (sr_getStopReason sr)) \<and> quiet lg (opt_call (sr_getSystemFingerprint sr)) \<and>
     quiet lg (opt_call (sr_getThinkingContent sr)) \<and> quiet lg (opt_call (sr_getUsageDetails sr))"

definition quiet_scope :: "('w \<Rightarrow> sse_event list) \<Rightarrow> 'w stream_scope \<Rightarrow> bool" where
  "quiet_scope lg sc \<longleftrightarrow> (\<forall>u w. lg (sc_end sc u w) = lg w) \<and> (\<forall>e w. lg (sc_fail sc e w) = lg w)"

definition quiet_span :: "('w \<Rightarrow> sse_event list) \<Rightarrow> 'w ai_provider \<Rightarrow> 'w llm_span \<Rightarrow> bool" where
  "quiet_span lg p sp \<longleftrightarrow> (\<forall>o' w. lg (sp_end sp o' w) = lg w) \<and> (\<forall>o' w. lg (sp_fail sp o' w) = lg w) \<and>
     (\<forall>i m o'. quiet lg (sp_withActiveSpan sp (call_stream p i m o')) \<and>
               returns (sp_withActiveSpan sp (call_stream p i m o')) (quiet_result lg))"

text \<open>Metrics, clock, cache and limiter do not write to the response; neither does a registered adapter.\<close>

definition quiet_env :: "('w \<Rightarrow> sse_event list) \<Rightarrow> 'w chat_env \<Rightarrow> bool" where
  "quiet_env lg env \<longleftrightarrow>
     (\<forall>c w. quiet_scope lg (fst (am_observeProviderStream (ch_appMetrics env) c w)) \<and>
            lg (snd (am_observeProviderStream (ch_appMetrics env) c w)) = lg w) \<and>
     (\<forall>i inst c w. ch_registry env i = Some inst \<longrightarrow> quiet_span lg (ri_provider inst) (fst (ai_observeLlmStream (ch_aiMetrics env) c w))) \<and>
     (\<forall>c w. lg (snd (ai_observeLlmStream (ch_aiMetrics env) c w)) = lg w) \<and>
     (\<forall>d w. lg (ch_sleep env d w) = lg w) \<and> (\<forall>w. lg (snd (ch_uuid env w)) = lg w) \<and>
     (\<forall>m w. lg (ch_setStreamCount env m w) = lg w) \<and> (\<forall>ev w. lg (ch_metric env ev w) = lg w) \<and>
     (\<forall>r d o' c k es. quiet lg (setCachedIfAllowed (ch_pipeline env) r d o' c k es)) \<and>
     (\<forall>e n k. quiet lg (handleProviderError (ch_limiter env) e n k))"

text \<open>The deadline: an attempt that wins the race ran as it is; one that lost was cut after some of the events
  it would have sent, and its flag says whether it had sent any.\<close>

definition race_cuts :: "('w \<Rightarrow> sse_event list) \<Rightarrow> ('w \<times> stream_locals, 'a) race \<Rightarrow> ('w \<times> stream_locals, 'a) io \<Rightarrow> bool" where
  "race_cuts lg race m \<longleftrightarrow> (\<forall>t s.
     (\<forall>r s'. race t m s = (Some r, s') \<longrightarrow> m s = (r, s')) \<and>
     (\<forall>s'. race t m s = (None, s') \<longrightarrow>
        (\<exists>es es'. lg (fst s') = lg (fst s) @ es \<and> lg (fst (snd (m s))) = lg (fst s) @ es @ es' \<and>
           metaEmitted (snd s') = (metaEmitted (snd s) \<or> es \<noteq> []))))"

section \<open>One attempt\<close>

lemma quietD: "quiet lg m \<Longrightarrow> m w = (r, w') \<Longrightarrow> lg w' = lg w"
  unfolding quiet_def by (metis snd_conv)

lemma quiet_on_world: "quiet lg m \<Longrightarrow> on_world m (w, l) = (r, s) \<Longrightarrow> lg (fst s) = lg w \<and> snd s = l"
  unfolding on_world_def by (auto dest: quietD split: prod.splits)

lemma emit_chunks_events:
  assumes "\<And>e w. lg (emit e w) = lg w @ [e]"
  shows "emit_chunks emit ts (w, l) = (r, (w', l')) \<Longrightarrow>
    \<exists>ds. lg w' = lg w @ map SseDelta ds \<and> l' = l\<lparr>assembledText := assembledText l @ concat ds\<rparr>"
proof (induction ts arbitrary: w l)
  case (StreamChunk t ts)
  from StreamChunk.IH [of "emit (SseDelta t) w" "l\<lparr>assembledText := assembledText l @ t\<rparr>"] StreamChunk.prems
  obtain ds where "lg w' = lg (emit (SseDelta t) w) @ map SseDelta ds" "l' = l\<lparr>assembledText := assembledText l @ t @ concat ds\<rparr>" by auto
  then show ?case using assms by (intro exI [of _ "t # ds"]) simp
qed (auto intro: exI [of _ "[]"])

text \<open>What an attempt does to the stream, from the locals \<open>l\<close> on: nothing, or the meta event unless it was sent, then deltas.\<close>

definition attempt_events :: "('w \<Rightarrow> sse_event list) \<Rightarrow> 'w \<times> stream_locals \<Rightarrow> 'w \<times> stream_locals \<Rightarrow> string option \<Rightarrow> bool" where
  "attempt_events lg s s' res \<longleftrightarrow>
     (res = None \<and> lg (fst s') = lg (fst s) \<and> metaEmitted (snd s') = metaEmitted (snd s)) \<or>
     (\<exists>m ds. lg (fst s') = lg (fst s) @ (if metaEmitted (snd s) then [] else [SseMeta m]) @ map SseDelta ds \<and>
        metaEmitted (snd s') \<and> (res = None \<or> res = Some (concat ds)))"

text \<open>Code that leaves stream and locals alone, with what it returns.\<close>

definition settled :: "('w \<Rightarrow> sse_event list) \<Rightarrow> ('w \<times> stream_locals, 'a) io \<Rightarrow> (stream_locals \<Rightarrow> 'a \<Rightarrow> bool) \<Rightarrow> bool" where
  "settled lg m Q \<longleftrightarrow> (\<forall>w l r s. m (w, l) = (r, s) \<longrightarrow> lg (fst s) = lg w \<and> snd s = l \<and> (\<forall>v. r = Inr v \<longrightarrow> Q l v))"

lemma settledD:
  "settled lg m Q \<Longrightarrow> m (w, l) = (r, s) \<Longrightarrow> lg (fst s) = lg w \<and> snd s = l \<and> (\<forall>v. r = Inr v \<longrightarrow> Q l v)"
  unfolding settled_def by blast

lemma settled_on_world: "quiet lg m \<Longrightarrow> settled lg (on_world m) (\<lambda>_ _. True)"
  unfolding settled_def by (auto dest: quiet_on_world)

lemma settled_update: "(\<And>l w. lg (f l w) = lg w) \<Longrightarrow> settled lg (io_update (\<lambda>(w, l). (f l w, l))) (\<lambda>_ _. True)"
  unfolding settled_def by auto

lemma settled_get: "(\<And>w l. Q l (f (w, l))) \<Longrightarrow> settled lg (io_get f) Q"
  unfolding settled_def by auto

lemma settled_bind:
  assumes "settled lg m (\<lambda>_ _. True)" and "\<And>x. settled lg (f x) Q"
  shows "settled lg (io_bind m f) Q"
  unfolding settled_def
proof (intro allI impI)
  fix w l r s assume run: "io_bind m f (w, l) = (r, s)"
  obtain x w1 l1 where m: "m (w, l) = (x, (w1, l1))" by (metis surj_pair)
  note s1 = settledD [OF assms(1) m]
  show "lg (fst s) = lg w \<and> snd s = l \<and> (\<forall>v. r = Inr v \<longrightarrow> Q l v)"
  proof (cases x)
    case (Inl e)
    then show ?thesis using run m s1 by (auto simp: io_bind_apply)
  next
    case (Inr y)
    then have "f y (w1, l1) = (r, s)" using run m by (simp add: io_bind_apply)
    from settledD [OF assms(2) this] s1 show ?thesis by auto
  qed
qed

lemma stream_body_events:
  assumes log: "\<And>e w. lg (emit e w) = lg w @ [e]" and sc: "quiet_scope lg sc" and sp: "quiet_span lg (rv_provider rv) sp"
    and run: "stream_body sc sp rv i o' emit (SseMeta m) (w, l) = (r, s)" and l: "assembledText l = []"
  shows "attempt_events lg (w, l) s (case r of Inr v \<Rightarrow> Some (so_assembledText v) | Inl _ \<Rightarrow> None)"
proof -
  let ?call = "sp_withActiveSpan sp (call_stream (rv_provider rv) i (rv_modelId rv) o')"
  have q: "quiet lg ?call" "returns ?call (quiet_result lg)"
    "\<And>u v. lg (sp_end sp u v) = lg v" "\<And>u v. lg (sc_end sc u v) = lg v"
    using sc sp by (simp_all add: quiet_scope_def quiet_span_def)
  obtain x w1 where c: "?call w = (x, w1)" by fastforce
  have w1: "lg w1 = lg w" using q(1) c by (rule quietD)
  show ?thesis
  proof (cases x)
    case (Inl e)
    then show ?thesis using run c w1 by (auto simp: stream_body_def io_bind_apply on_world_def attempt_events_def)
  next
    case (Inr sr)
    then have sr: "quiet_result lg sr" using returnsD [OF q(2)] c by blast
    let ?w2 = "if metaEmitted l then w1 else emit (SseMeta m) w1"
    obtain y w3 l3 where ch: "emit_chunks emit (sr_textStream sr) (?w2, l\<lparr>metaEmitted := True\<rparr>) = (y, (w3, l3))" by (metis surj_pair)
    from emit_chunks_events [of lg emit, OF log ch] obtain ds where
      ds: "lg w3 = lg ?w2 @ map SseDelta ds" "l3 = l\<lparr>metaEmitted := True, assembledText := concat ds\<rparr>" using l by auto
    have "settled lg (stream_finish sc sp rv sr) (\<lambda>l v. so_assembledText v = assembledText l)"
      unfolding stream_finish_def
      by (intro settled_bind settled_on_world settled_update settled_get) (use sr q(3,4) in \<open>auto simp: quiet_result_def\<close>)
    note tail' = settledD [OF this, of w3 l3 r s]
    have meta: "emit_meta emit (SseMeta m) (w1, l) = (Inr (), (?w2, l\<lparr>metaEmitted := True\<rparr>))"
      by (cases l) (simp add: emit_meta_def)
    have step: "(case y of Inl e \<Rightarrow> (Inl e, (w3, l3)) | Inr _ \<Rightarrow> stream_finish sc sp rv sr (w3, l3)) = (r, s)"
      using run c Inr meta ch unfolding stream_body_def by (simp add: io_bind_apply on_world_def)
    then have "lg (fst s) = lg w3" "metaEmitted (snd s)" "\<And>v. r = Inr v \<Longrightarrow> so_assembledText v = concat ds"
      using tail' ds(2) by (auto split: sum.splits)
    then show ?thesis using ds(1) w1 log by (auto simp: attempt_events_def split: sum.splits)
  qed
qed

lemma streamOnce_events:
  assumes log: "\<And>e w. lg (emit e w) = lg w @ [e]" and env: "quiet_env lg env"
    and run: "streamOnce env r al rid c prompts emit meta (w, l) = (x, s)"
  shows "attempt_events lg (w, l) s (case x of Inr v \<Rightarrow> Some (so_assembledText v) | Inl _ \<Rightarrow> None)"
proof (cases "\<exists>rv o' i ctx. resolve (ch_gateway env) (ch_registry env) al = Inr rv \<and> resolveProviderCallOptions (rv_params rv) (params r) = Inr o' \<and>
    buildProviderInputForAlias r al prompts = Inr i \<and> buildLlmMetricsContext r (rv_providerName rv) al (rv_modelId rv) rid = Inr ctx")
  case False
  then have "s = (w, l) \<and> (\<exists>e. x = Inl e)"
    using run by (auto simp: streamOnce_def io_bind_apply split: sum.splits)
  then show ?thesis by (auto simp: attempt_events_def)
next
  case True
  then obtain rv o' i ctx where ok: "resolve (ch_gateway env) (ch_registry env) al = Inr rv" "resolveProviderCallOptions (rv_params rv) (params r) = Inr o'"
    "buildProviderInputForAlias r al prompts = Inr i" "buildLlmMetricsContext r (rv_providerName rv) al (rv_modelId rv) rid = Inr ctx" by blast
  obtain sc w1 where sc: "am_observeProviderStream (ch_appMetrics env) (buildAppProviderMetricsContext MethodStream (rv_providerName rv) al c) w = (sc, w1)" by fastforce
  obtain sp w2 where sp: "ai_observeLlmStream (ch_aiMetrics env) ctx w1 = (sp, w2)" by fastforce
  have qsc: "quiet_scope lg sc" "lg w1 = lg w" "lg w2 = lg w1"
    using env sc sp unfolding quiet_env_def by (metis fst_conv snd_conv)+
  obtain inst where "ch_registry env (mc_providerInstance (the (map_of (gw_models (the (ch_gateway env))) al))) = Some inst" "ri_provider inst = rv_provider rv"
    using ok(1) by (auto simp: resolve_def getGatewayConfig_def resolveModelAlias_def resolveProviderEntry_def Let_def split: option.splits if_splits)
  then have qsp: "quiet_span lg (rv_provider rv) sp"
    using env sp unfolding quiet_env_def by (metis fst_conv)
  let ?l = "l\<lparr>assembledText := []\<rparr>"
  obtain m where m: "meta_event meta (rv_providerName rv) al rid = SseMeta m" by (auto simp: meta_event_def)
  obtain y w3 l3 where b: "stream_body sc sp rv i o' emit (SseMeta m) (w2, ?l) = (y, (w3, l3))" by (metis surj_pair)
  have ev: "attempt_events lg (w2, ?l) (w3, l3) (case y of Inr v \<Rightarrow> Some (so_assembledText v) | Inl _ \<Rightarrow> None)"
    by (rule stream_body_events [OF log qsc(1) qsp b]) simp
  have "x = y \<and> lg (fst s) = lg w3 \<and> snd s = l3"
    using run ok sc sp b m qsc(1) qsp
    by (cases y) (auto simp: streamOnce_def io_bind_apply io_catch_apply on_world_def io_state_def Let_def quiet_scope_def quiet_span_def)
  then show ?thesis using ev qsc by (cases s) (auto simp: attempt_events_def split: sum.splits)
qed

section \<open>All attempts\<close>

text \<open>\<open>L\<close> is what had been sent before the call.\<close>

definition stream_inv :: "('w \<Rightarrow> sse_event list) \<Rightarrow> sse_event list \<Rightarrow> 'w \<times> stream_locals \<Rightarrow> bool" where
  "stream_inv lg L s \<longleftrightarrow> (if metaEmitted (snd s) then \<exists>m ds. lg (fst s) = L @ SseMeta m # map SseDelta ds else lg (fst s) = L)"

lemma stream_inv_attempt:
  assumes "stream_inv lg L s" and "attempt_events lg s s' res"
  shows "stream_inv lg L s' \<and> (\<forall>t. res = Some t \<longrightarrow> (\<exists>m pre ds. lg (fst s') = L @ SseMeta m # map SseDelta (pre @ ds) \<and> t = concat ds))"
proof -
  from assms(2) consider (silent) "res = None" "lg (fst s') = lg (fst s)" "metaEmitted (snd s') = metaEmitted (snd s)"
    | (events) m ds where "lg (fst s') = lg (fst s) @ (if metaEmitted (snd s) then [] else [SseMeta m]) @ map SseDelta ds"
        "metaEmitted (snd s')" "res = None \<or> res = Some (concat ds)"
    unfolding attempt_events_def by blast
  then show ?thesis
  proof cases
    case silent
    then show ?thesis using assms(1) by (simp add: stream_inv_def)
  next
    case events
    obtain m' pre where "lg (fst s') = L @ SseMeta m' # map SseDelta (pre @ ds)"
    proof (cases "metaEmitted (snd s)")
      case True
      then obtain m' pre where "lg (fst s) = L @ SseMeta m' # map SseDelta pre" using assms(1) by (auto simp: stream_inv_def)
      then show ?thesis using events(1) True that [of m' pre] by simp
    next
      case False
      then show ?thesis using events(1) assms(1) that [of m "[]"] by (simp add: stream_inv_def)
    qed
    then show ?thesis using events(2,3) by (auto simp: stream_inv_def simp del: map_append)
  qed
qed

lemma stream_attempt_events:
  assumes "\<And>e w. lg (emit e w) = lg w @ [e]" and "quiet_env lg env"
    and run: "stream_attempt env r rid c emit prep i al s = (x, s')"
  shows "attempt_events lg s s' (case x of Inr v \<Rightarrow> Some (so_assembledText (fst v)) | Inl _ \<Rightarrow> None)"
proof -
  obtain w l where s: "s = (w, l)" by fastforce
  obtain y s1 where y: "streamOnce env r al rid c (pp_resolvedPrompts prep) emit
     \<lparr>smt_gatewayId = i, smt_primaryModelAlias = modelAlias r, smt_responseConversationId = pp_responseConversationId prep\<rparr> (w, l) = (y, s1)" by (metis surj_pair)
  note ev = streamOnce_events [OF assms(1,2) y]
  have "s' = s1 \<and> (case x of Inr v \<Rightarrow> y = Inr (fst v) | Inl _ \<Rightarrow> True)"
    using run y by (auto simp: s stream_attempt_def io_bind_apply split: sum.splits)
  then show ?thesis using ev s by (cases x) (auto simp: attempt_events_def split: sum.splits)
qed

lemma stream_inv_cut:
  assumes inv: "stream_inv lg L s" and cut: "lg (fst s') = lg (fst s) @ es" "lg (fst s1) = lg (fst s) @ es @ es'"
      "metaEmitted (snd s') = (metaEmitted (snd s) \<or> es \<noteq> [])" and s1: "stream_inv lg L s1"
  shows "stream_inv lg L s'"
proof (cases "metaEmitted (snd s')")
  case False
  then show ?thesis using inv cut by (simp add: stream_inv_def)
next
  case True
  show ?thesis
  proof (cases "metaEmitted (snd s)")
    case True
    then obtain m ds0 where s: "lg (fst s) = L @ SseMeta m # map SseDelta ds0" using inv by (auto simp: stream_inv_def)
    then obtain m' ds where "L @ SseMeta m # map SseDelta ds0 @ es @ es' = L @ SseMeta m' # map SseDelta ds"
      using s1 cut(2) by (cases "metaEmitted (snd s1)") (auto simp: stream_inv_def)
    then have "map SseDelta ds0 @ es @ es' = map SseDelta ds" by simp
    then obtain ds' where "es = map SseDelta ds'" by (metis append_eq_map_conv)
    then show ?thesis using s cut(1) \<open>metaEmitted (snd s')\<close> by (auto simp: stream_inv_def intro: exI [of _ "ds0 @ ds'"])
  next
    case False
    then have s: "lg (fst s) = L" "es \<noteq> []" using inv cut(3) True by (auto simp: stream_inv_def)
    then obtain m ds where "es @ es' = SseMeta m # map SseDelta ds"
      using s1 cut(2) by (cases "metaEmitted (snd s1)") (auto simp: stream_inv_def)
    then obtain t where "es = SseMeta m # t" "t @ es' = map SseDelta ds" using s(2) by (cases es) auto
    then obtain ds' where "es = SseMeta m # map SseDelta ds'" by (metis append_eq_map_conv)
    then show ?thesis using s cut(1) True by (auto simp: stream_inv_def)
  qed
qed

lemma timed_attempt:
  assumes cuts: "race_cuts lg race m" and t: "runWithTimeout race t m u = (y, s')"
  shows "m u = (y, s') \<or> (\<exists>e. y = Inl e) \<and> (\<exists>es es'. lg (fst s') = lg (fst u) @ es \<and> lg (fst (snd (m u))) = lg (fst u) @ es @ es' \<and>
    metaEmitted (snd s') = (metaEmitted (snd u) \<or> es \<noteq> []))"
proof (cases "t = None \<or> t = Some 0")
  case True
  then show ?thesis using t by (simp add: runWithTimeout_def)
next
  case False
  obtain z v where r: "race (the t) m u = (z, v)" by (metis surj_pair)
  show ?thesis
  proof (cases z)
    case None
    then have "s' = v" "\<exists>e. y = Inl e" using t r False by (auto simp: runWithTimeout_def)
    then show ?thesis using cuts r None unfolding race_cuts_def by blast
  next
    case (Some a)
    then have "a = y" "s' = v" using t r False by (auto simp: runWithTimeout_def)
    then show ?thesis using cuts r Some unfolding race_cuts_def by blast
  qed
qed

lemma run_stream_events:
  assumes log: "\<And>e w. lg (emit e w) = lg w @ [e]" and env: "quiet_env lg env"
    and race: "\<And>al. race_cuts lg (ch_streamRace env) (stream_attempt env r rid c emit prep i al)"
    and run: "run_stream env r rid c emit prep i (w, \<lparr>metaEmitted = False, assembledText = []\<rparr>) = (x, s)"
  shows "stream_inv lg (lg w) s \<and>
    (\<forall>res. x = Inr res \<longrightarrow> (\<exists>m pre ds. lg (fst s) = lg w @ SseMeta m # map SseDelta (pre @ ds) \<and> so_assembledText (fst (er_value res)) = concat ds))"
proof -
  let ?m = "\<lambda>al k. stream_attempt env r rid c emit prep i al" and ?L = "lg w"
  let ?retry = "buildRetryPolicyFromResolved (rv_policy (pp_primaryResolved prep))"
  let ?race = "ch_streamRace env" and ?I = "stream_inv lg ?L"
  have one: "?I s' \<and> (\<forall>v. y = Inr v \<longrightarrow> (\<exists>m pre ds. lg (fst s') = ?L @ SseMeta m # map SseDelta (pre @ ds) \<and> so_assembledText (fst v) = concat ds))"
    if "?I u" "?m al k u = (y, s')" for al k u y s'
    using stream_inv_attempt [OF that(1) stream_attempt_events [OF log env that(2)]] by (auto split: sum.splits)
  have timed: "?I s' \<and> (\<forall>v. y = Inr v \<longrightarrow> (\<exists>m pre ds. lg (fst s') = ?L @ SseMeta m # map SseDelta (pre @ ds) \<and> so_assembledText (fst v) = concat ds))"
    if I: "?I u" and t: "runWithTimeout ?race (timeoutMs ?retry) (?m al k) u = (y, s')" for al k u y s'
  proof -
    from timed_attempt [OF race t] consider "?m al k u = (y, s')" | es es' e where "y = Inl e" "lg (fst s') = lg (fst u) @ es"
      "lg (fst (snd (?m al k u))) = lg (fst u) @ es @ es'" "metaEmitted (snd s') = (metaEmitted (snd u) \<or> es \<noteq> [])" by blast
    then show ?thesis
    proof cases
      case 1
      then show ?thesis using one I by blast
    next
      case 2
      have "?I (snd (?m al k u))" using one [OF I surjective_pairing] by blast
      then show ?thesis using stream_inv_cut [OF I 2(2,3,4)] 2(1) by blast
    qed
  qed
  have pres: "attempt_preserves ?I ?race (\<lambda>d (w, l). (ch_sleep env d w, l)) ?retry ?m"
    unfolding attempt_preserves_def
  proof (intro conjI allI impI)
    fix al k u assume "?I u"
    then show "?I (snd (runWithTimeout ?race (timeoutMs ?retry) (?m al k) u))" using timed [OF _ surjective_pairing] by blast
  next
    fix d u assume "?I u"
    then show "?I ((\<lambda>(w, l). (ch_sleep env d w, l)) u)" using env by (auto simp: stream_inv_def quiet_env_def split: prod.splits)
  qed
  have "?I (w, \<lparr>metaEmitted = False, assembledText = []\<rparr>)" by (simp add: stream_inv_def)
  from executor_preserves [OF pres this run [unfolded run_stream_def]] timed show ?thesis by blast
qed

lemma track_stream_quiet:
  assumes env: "quiet_env lg env" and run: "track_stream env c fn w = (r, w')"
  shows "\<exists>v v'. lg v = lg w \<and> fn v = (r, v') \<and> lg w' = lg v'"
proof -
  have q: "lg (ch_setStreamCount env m v) = lg v" "lg (ch_metric env ev v) = lg v" for m ev v
    using env unfolding quiet_env_def by blast+
  obtain m1 w1 where inc: "increment (\<lambda>c n. ch_metric env (MActiveStreams c n)) c (ch_streamCount env w, w) = (m1, w1)" by fastforce
  obtain r1 v' where fn: "fn (ch_setStreamCount env m1 w1) = (r1, v')" by fastforce
  obtain m2 w2 where dec: "decrement (\<lambda>c n. ch_metric env (MActiveStreams c n)) c (ch_streamCount env v', v') = (m2, w2)" by fastforce
  have "lg w1 = lg w" "lg w2 = lg v'" using inc dec q by (auto simp: increment_def decrement_def Let_def)
  moreover have "r = r1" "w' = ch_setStreamCount env m2 w2" using run inc fn dec by (auto simp: track_stream_def trackStream_def)
  ultimately show ?thesis using fn q by (intro exI [of _ "ch_setStreamCount env m1 w1"] exI [of _ v']) simp
qed

text \<open>What the call has sent when it ends: \<open>ds\<close> are the deltas, \<open>pre\<close> those of attempts that failed, \<open>t\<close> the text of the
  last attempt.\<close>

definition stream_sent :: "sse_event list \<Rightarrow> bool \<Rightarrow> string \<Rightarrow> bool" where
  "stream_sent es completed t \<longleftrightarrow>
     (if completed then \<exists>m pre ds d. es = SseMeta m # map SseDelta (pre @ ds) @ [SseDone d] \<and> t = concat ds
      else es = [] \<or> (\<exists>m ds. es = SseMeta m # map SseDelta ds))"

lemma executeStreamMiss_events:
  assumes log: "\<And>e w. lg (emit e w) = lg w @ [e]" and env: "quiet_env lg env"
    and race: "\<And>al i. race_cuts lg (ch_streamRace env) (stream_attempt env r rid c emit prep i al)"
    and run: "executeStreamMiss env r rid c emit k prep es w = (x, w')"
  shows "\<exists>i v y s sent. run_stream env r rid c emit prep i (v, \<lparr>metaEmitted = False, assembledText = []\<rparr>) = (y, s) \<and> lg w' = lg w @ sent \<and>
    stream_sent sent (\<exists>res. y = Inr res) (case y of Inr res \<Rightarrow> so_assembledText (fst (er_value res)) | Inl _ \<Rightarrow> []) \<and>
    (x = Inr () \<longrightarrow> (\<exists>res. y = Inr res))"
proof -
  have q: "lg (snd (ch_uuid env v)) = lg v" "quiet lg (setCachedIfAllowed (ch_pipeline env) r d o' c k es)"
    "quiet lg (handleProviderError (ch_limiter env) e n k')" for v d o' e n k'
    using env unfolding quiet_env_def by blast+
  obtain u w1 where u: "ch_uuid env w = (u, w1)" by fastforce
  then have w1: "lg w1 = lg w" using q(1) [of w] by simp
  let ?run = "run_stream env r rid c emit prep (''gw_'' @ u)" and ?l = "\<lparr>metaEmitted = False, assembledText = []\<rparr>"
  obtain y w2 where tr: "track_stream env c (with_locals ?l ?run) w1 = (y, w2)" by fastforce
  from track_stream_quiet [OF env tr] obtain v v' where v: "lg v = lg w1" "with_locals ?l ?run v = (y, v')" "lg w2 = lg v'" by blast
  obtain s where s: "?run (v, ?l) = (y, s)" "v' = fst s" using v(2) by (auto simp: with_locals_def split: prod.splits)
  note ev = run_stream_events [OF log env race s(1)]
  obtain n where n: "n = rv_providerName (pp_primaryResolved prep)" by blast
  have total: "\<exists>v. handleProviderError (ch_limiter env) e n (Some k) w = (Inr (), v) \<and> lg v = lg w" for e w
    using handleProviderError_run [of "ch_limiter env" e n "Some k" w] q(3) by (metis quietD)
  show ?thesis
  proof (cases y)
    case (Inl e)
    obtain v3 where "handleProviderError (ch_limiter env) e n (Some k) w2 = (Inr (), v3)" "lg v3 = lg w2" using total by blast
    then have "x = Inl e" "lg w' = lg w2" using run u tr Inl
      by (auto simp: executeStreamMiss_def io_bind_apply io_catch_apply io_state_apply Let_def n)
    then show ?thesis using s(1) Inl ev v(1,3) s(2) w1
      by (intro exI [of _ "''gw_'' @ u"] exI [of _ v] exI [of _ y] exI [of _ s]) (auto simp: stream_inv_def stream_sent_def split: if_splits)
  next
    case (Inr res)
    then obtain m pre ds where sent: "lg (fst s) = lg v @ SseMeta m # map SseDelta (pre @ ds)" "so_assembledText (fst (er_value res)) = concat ds"
      using ev by blast
    obtain d where d: "done_event prep res = SseDone d" by (auto simp: done_event_def buildStreamDoneEvent_def Let_def)
    let ?w3 = "emit (SseDone d) w2"
    have "lg w' = lg ?w3"
    proof (cases "er_didFallback res")
      case True
      then show ?thesis using run u tr Inr d
        by (auto simp: executeStreamMiss_def io_bind_apply io_catch_apply io_state_apply Let_def)
    next
      case False
      obtain chat w4 where b: "buildChatResponse (ch_uuid env) (stream_response_of (fst (er_value res))) (rv_providerName (snd (er_value res)))
        (modelAlias r) rid (pp_responseConversationId prep) None (Some (pp_options prep)) (Some (rv_providerType (snd (er_value res))))
        (Some (''gw_'' @ u)) ?w3 = (chat, w4)" by fastforce
      then have w4: "w4 = ?w3" using buildChatResponse_fields by fastforce
      obtain z w5 where set: "setCachedIfAllowed (ch_pipeline env) r chat (pp_options prep) c k es ?w3 = (z, w5)" by fastforce
      then have w5: "lg w5 = lg ?w3" using q(2) by (metis quietD)
      show ?thesis
      proof (cases z)
        case z: (Inl e)
        obtain v3 where "handleProviderError (ch_limiter env) e n (Some k) w5 = (Inr (), v3)" "lg v3 = lg w5" using total by blast
        then show ?thesis using run u tr Inr d False b w4 set z w5
          by (auto simp: executeStreamMiss_def io_bind_apply io_catch_apply io_state_apply Let_def n)
      next
        case z: (Inr _)
        then show ?thesis using run u tr Inr d False b w4 set w5
          by (auto simp: executeStreamMiss_def io_bind_apply io_catch_apply io_state_apply Let_def)
      qed
    qed
    then have "lg w' = lg w @ SseMeta m # map SseDelta (pre @ ds) @ [SseDone d]" using log sent(1) v(1,3) s(2) w1 by simp
    then show ?thesis using s(1) Inr sent(2)
      by (intro exI [of _ "''gw_'' @ u"] exI [of _ v] exI [of _ y] exI [of _ s]) (auto simp: stream_sent_def simp del: map_append)
  qed
qed

section \<open>Properties\<close>


text \<open>A world of sent events and provider calls, and an adapter whose first stream breaks off.\<close>

type_synonym tape = "sse_event list \<times> nat"

definition tape_emit :: "sse_event \<Rightarrow> tape \<Rightarrow> tape" where
  "tape_emit e w = (fst w @ [e], snd w)"

definition plain_stream :: "text_stream \<Rightarrow> 'w stream_result" where
  "plain_stream ts = \<lparr>sr_textStream = ts, sr_getUsageMetadata = io_return None, sr_getFinalToolCalls = None, sr_getStopReason = None,
     sr_getSystemFingerprint = None, sr_getThinkingContent = None, sr_getUsageDetails = None\<rparr>"

definition breaks_once :: "tape ai_provider" where
  "breaks_once = \<lparr>ap_complete = (\<lambda>_ _ _. io_throw ThrownOther),
     ap_stream = Some (\<lambda>_ _ _ w. (Inr (plain_stream (if snd w = 0
        then StreamChunk ''Hel'' (StreamThrow (api_exception 503 PROVIDER_UNAVAILABLE ''reset'' []))
        else StreamChunk ''Hello'' StreamEnd)), (fst w, Suc (snd w))))\<rparr>"

definition tape_env :: "tape chat_env" where
  "tape_env = demo_env no_limiter breaks_once (\<lambda>_. None) (\<lambda>_. io_throw ThrownOther)"

definition tape_meta :: "string \<Rightarrow> string \<Rightarrow> sse_meta" where
  "tape_meta i rid = \<lparr>sm_id = i, sm_provider = ''p'', sm_model = ''m'', sm_effectiveModelAlias = None, sm_requestId = rid,
     sm_conversationId = demo_conv, sm_cached = None\<rparr>"

definition tape_result :: stream_once_result where
  "tape_result = \<lparr>so_providerName = ''p'', so_modelId = ''x'', so_assembledText = ''Hello'', so_usageMetadata = None, so_toolCalls = None,
     so_stopReason = None, so_systemFingerprint = None, so_thinkingContent = None, so_usageDetails = None\<rparr>"

lemma tape_attempt:
  "stream_attempt tape_env (hello_in demo_conv) rid c tape_emit (demo_prep breaks_once demo_conv) i ''m'' ((es, n), l) =
     (if n = 0 then (Inl (api_exception 503 PROVIDER_UNAVAILABLE ''reset'' []),
         ((es @ (if metaEmitted l then [] else [SseMeta (tape_meta i rid)]) @ [SseDelta ''Hel''], 1), \<lparr>metaEmitted = True, assembledText = ''Hel''\<rparr>))
      else (Inr (tape_result, demo_resolved breaks_once),
         ((es @ (if metaEmitted l then [] else [SseMeta (tape_meta i rid)]) @ [SseDelta ''Hello''], Suc n), \<lparr>metaEmitted = True, assembledText = ''Hello''\<rparr>)))"
  by (cases l)
    (simp add: stream_attempt_def streamOnce_def io_bind_apply tape_env_def demo_resolved_def buildProviderInputForAlias_def buildLlmMetricsContext_def
      isChatUserMessage_def sample_message_def NoopAppMetricsAdapter_def NoopAiMetricsAdapter_def on_world_def io_state_def io_catch_apply Let_def
      stream_body_def stream_finish_def call_stream_def breaks_once_def plain_stream_def emit_meta_def tape_emit_def meta_event_def opt_call_def
      tape_meta_def tape_result_def)

lemma tape_run:
  "run_stream tape_env (hello_in demo_conv) rid c tape_emit (demo_prep breaks_once demo_conv) i (([], 0), \<lparr>metaEmitted = False, assembledText = []\<rparr>) =
     (Inr \<lparr>er_value = (tape_result, demo_resolved breaks_once), er_usedAlias = ''m'', er_attempts = 2, er_didFallback = False\<rparr>,
      (([SseMeta (tape_meta i rid), SseDelta ''Hel'', SseDelta ''Hello''], 2), \<lparr>metaEmitted = True, assembledText = ''Hello''\<rparr>))"
proof -
  have "ch_streamRace tape_env = plain_race" "ch_sleep tape_env d w = w" for d w by (simp_all add: tape_env_def)
  then show ?thesis
    by (simp add: run_stream_def executeWithRetryAndFallback_def assertNoFallbackCycle_def fallback_of_def io_bind_apply tryAlias_def
      sample_retry_def [symmetric] numeral_3_eq_3 tape_attempt isRetryableHttpError_def api_exception_def Let_def)
qed

lemma tape_stream:
  "executeStreamMiss tape_env (hello_in demo_conv) ''req'' ''a'' tape_emit ''k'' (demo_prep breaks_once demo_conv) None ([], 0) =
     (Inr (), ([SseMeta (tape_meta ''gw_11111111-1111-4111-8111-111111111111'' ''req''), SseDelta ''Hel'', SseDelta ''Hello'',
        done_event (demo_prep breaks_once demo_conv)
          \<lparr>er_value = (tape_result, demo_resolved breaks_once), er_usedAlias = ''m'', er_attempts = 2, er_didFallback = False\<rparr>], 2))"
proof -
  have env: "ch_uuid tape_env w = (''11111111-1111-4111-8111-111111111111'', w)" "ch_pipeline tape_env = noop_pipeline"
    "ch_setStreamCount tape_env m w = w" "ch_streamCount tape_env w = (\<lambda>_. None)" "pl_metric noop_pipeline ev w = w" for w m ev
    by (simp_all add: tape_env_def demo_env_def noop_pipeline_def)
  show ?thesis
    by (simp add: executeStreamMiss_def io_bind_apply io_catch_apply io_state_apply Let_def env track_stream_def trackStream_def increment_def decrement_def
        with_locals_def tape_run tape_emit_def noop_pipeline_never_stores buildChatResponse_def)
qed

lemma tape_quiet: "quiet_env fst tape_env"
proof -
  have env: "ch_appMetrics tape_env = NoopAppMetricsAdapter" "ch_aiMetrics tape_env = NoopAiMetricsAdapter" "ch_sleep tape_env d w = w"
    "ch_uuid tape_env w = (''11111111-1111-4111-8111-111111111111'', w)" "ch_setStreamCount tape_env m w = w" "ch_pipeline tape_env = noop_pipeline"
    "pl_metric noop_pipeline ev w = w" "ch_limiter tape_env = no_limiter" for w m ev d
    by (simp_all add: tape_env_def demo_env_def noop_pipeline_def)
  have reg: "ri_provider inst = breaks_once" if "ch_registry tape_env i = Some inst" for i inst
    using that by (auto simp: tape_env_def demo_env_def registerInstance_def split: if_splits)
  have span: "quiet_span fst breaks_once (fst (ai_observeLlmStream NoopAiMetricsAdapter c w))" for c w
    by (auto simp: quiet_span_def NoopAiMetricsAdapter_def quiet_def returns_def call_stream_def breaks_once_def quiet_result_def plain_stream_def opt_call_def)
  have err: "quiet (fst :: tape \<Rightarrow> sse_event list) (handleProviderError no_limiter e n k)" for e n k
    by (auto simp: quiet_def handleProviderError_def setCooldown_def no_limiter_def io_bind_apply split: option.splits)
  show ?thesis
    unfolding quiet_env_def env using reg span err
    by (simp add: quiet_scope_def NoopAppMetricsAdapter_def NoopAiMetricsAdapter_def quiet_def [of _ "setCachedIfAllowed _ _ _ _ _ _ _"] noop_pipeline_never_stores)
qed


text \<open>A retry after deltas were sent repeats them to the client: when a provider's stream breaks off with a retryable error after it has sent text, the next attempt
  streams its whole text behind it, in the same response, without a new meta event. Here the provider sends \<open>Hel\<close>, breaks, and then sends \<open>Hello\<close>:
  the call succeeds, the client has read \<open>HelHello\<close>, and \<open>Hello\<close> is what is assembled for the cache.\<close>

lemma stream_retry_duplicates_text:
  "\<exists>es s res. executeStreamMiss tape_env (hello_in demo_conv) ''req'' ''a'' tape_emit ''k'' (demo_prep breaks_once demo_conv) None ([], 0) = (Inr (), (es, 2)) \<and>
     delta_text es = ''HelHello'' \<and>
     run_stream tape_env (hello_in demo_conv) ''req'' ''a'' tape_emit (demo_prep breaks_once demo_conv) i (([], 0), \<lparr>metaEmitted = False, assembledText = []\<rparr>) = (Inr res, s) \<and>
     so_assembledText (fst (er_value res)) = ''Hello''"
  by (simp add: tape_stream tape_run done_event_def buildStreamDoneEvent_def Let_def tape_result_def)

end
