(* ===== verification/OpenAI_Facade.thy ===== *)
theory OpenAI_Facade
  imports Response_Builder
begin

text \<open>
  The OpenAI-compatible facade (\<open>src/integrations/openai\<close>): the mappers from an OpenAI request to a gateway
  request, from a gateway response to an OpenAI completion and from gateway events to OpenAI chunks. A value
  the sources declare \<open>unknown\<close> and then cast is taken at the type of the cast, or as \<open>NotAnObject\<close>. The clock is a
  parameter. The last sections read the answers back the way a client of the protocol does.
\<close>

section \<open>Requests (openai-chat-message.dto.ts, openai-chat-completion-request.dto.ts)\<close>

datatype 'a unknown_item = NotAnObject | AnObject 'a

datatype openai_role = OSystem | OUser | OAssistant | OTool

record openai_function_in =
  ofi_name :: "string option"
  ofi_arguments :: "string option"

record openai_tool_call_in =
  oti_id :: "string option"
  oti_type :: "string option"
  oti_function :: "openai_function_in option"

record openai_chat_message =
  om_role :: openai_role
  om_content :: string
  om_tool_call_id :: "string option"
  om_tool_calls :: "openai_tool_call_in unknown_item list option"

record openai_function_tool_fn =
  oft_name :: "string option"
  oft_description :: "string option"
  oft_parameters :: "json option"

record openai_function_tool =
  oft_type :: "string option"
  oft_function :: "openai_function_tool_fn option"

datatype openai_tool_choice_in =
    ChoiceAbsent
  | ChoiceString string
  | ChoiceObject "string option" "string option option"
  | ChoiceOther

record openai_request =
  or_model :: string
  or_messages :: "openai_chat_message list"
  or_stream :: "bool option"
  or_temperature :: "rat option"
  or_max_tokens :: "rat option"
  or_include_usage :: "bool option"
  or_tools :: "openai_function_tool unknown_item list option"
  or_tool_choice :: openai_tool_choice_in
  or_stream_options_include_usage :: "bool option"
  or_parallel_tool_calls :: "bool option"
  or_top_p :: "rat option"
  or_stop :: "stop_param option"
  or_presence_penalty :: "rat option"
  or_frequency_penalty :: "rat option"
  or_seed :: "rat option"
  or_response_format :: "response_format_type option"
  or_metadata :: "(string \<times> json) list option"
  or_max_completion_tokens :: "rat option"
  or_reasoning_effort :: "thinking_effort option"

text \<open>The content of a message, a string or an array of parts (normalize-openai-content.ts); \<open>None\<close> is \<open>undefined\<close>.\<close>

fun text_item :: "json \<Rightarrow> string option" where
  "text_item (JObj kvs) = (if jget kvs ''type'' = Some (JStr ''text'')
     then (case jget kvs ''text'' of Some (JStr t) \<Rightarrow> Some t | _ \<Rightarrow> None) else None)"
| "text_item _ = None"

fun normalizeOpenAiContent :: "json option \<Rightarrow> string" where
  "normalizeOpenAiContent (Some (JStr s)) = s"
| "normalizeOpenAiContent (Some (JArr vs)) = js_join [newline] (List.map_filter text_item vs)"
| "normalizeOpenAiContent _ = []"

section \<open>Request mappers (openai-messages.mapper.ts, openai-tools.mapper.ts, openai-request.mapper.ts)\<close>

abbreviation bad_request :: "string \<Rightarrow> jserr" where
  "bad_request m \<equiv> api_exception 400 VALIDATION_FAILED m []"

fun mapOpenAiToolCalls :: "openai_tool_call_in unknown_item list \<Rightarrow> gateway_tool_call list" where
  "mapOpenAiToolCalls [] = []"
| "mapOpenAiToolCalls (NotAnObject # raw) = mapOpenAiToolCalls raw"
| "mapOpenAiToolCalls (AnObject call # raw) =
     (case (truthy_str (oti_id call), Option.bind (oti_function call) (\<lambda>f. truthy_str (ofi_name f))) of
        (Some i, Some n) \<Rightarrow>
          if oti_type call = Some ''function''
          then \<lparr>tc_id = i, tc_name = n, tc_arguments = nullish (Option.bind (oti_function call) ofi_arguments) ''{}''\<rparr>
               # mapOpenAiToolCalls raw
          else mapOpenAiToolCalls raw
      | _ \<Rightarrow> mapOpenAiToolCalls raw)"

fun openai_messages :: "openai_chat_message list \<Rightarrow> chat_message list result" where
  "openai_messages [] = Inr []"
| "openai_messages (m # ms) =
     (case om_role m of
        OSystem \<Rightarrow> openai_messages ms
      | OUser \<Rightarrow> res_bind (openai_messages ms) (\<lambda>rest.
          Inr (\<lparr>msg_role = RUser, msg_content = om_content m, msg_toolCallId = None, msg_toolCalls = None\<rparr> # rest))
      | OAssistant \<Rightarrow> res_bind (openai_messages ms) (\<lambda>rest.
          Inr (\<lparr>msg_role = RAssistant, msg_content = om_content m, msg_toolCallId = None,
                msg_toolCalls = truthy_list (map_option mapOpenAiToolCalls (truthy_list (om_tool_calls m)))\<rparr> # rest))
      | OTool \<Rightarrow>
          (case truthy_str (om_tool_call_id m) of
             None \<Rightarrow> Inl (bad_request ''Tool messages must include tool_call_id'')
           | Some i \<Rightarrow> res_bind (openai_messages ms) (\<lambda>rest.
               Inr (\<lparr>msg_role = RTool, msg_content = om_content m, msg_toolCallId = Some i, msg_toolCalls = None\<rparr> # rest))))"

definition mapOpenAiMessagesToGateway :: "openai_chat_message list \<Rightarrow> chat_message list result" where
  "mapOpenAiMessagesToGateway ms =
     res_bind (openai_messages ms) (\<lambda>gatewayMessages.
       if gatewayMessages = []
       then Inl (bad_request ''At least one user, assistant or tool message is required after filtering.'')
       else Inr gatewayMessages)"

fun openai_definitions :: "openai_function_tool unknown_item list \<Rightarrow> gateway_tool_definition list" where
  "openai_definitions [] = []"
| "openai_definitions (NotAnObject # tools) = openai_definitions tools"
| "openai_definitions (AnObject tool # tools) =
     (case oft_function tool of
        Some f \<Rightarrow>
          (case truthy_str (oft_name f) of
             Some n \<Rightarrow>
               if oft_type tool = Some ''function''
               then \<lparr>td_name = n, td_description = truthy_str (oft_description f),
                     td_parameters = nullish (oft_parameters f) (JObj [])\<rparr> # openai_definitions tools
               else openai_definitions tools
           | None \<Rightarrow> openai_definitions tools)
      | None \<Rightarrow> openai_definitions tools)"

definition mapOpenAiToolsToGateway :: "openai_function_tool unknown_item list \<Rightarrow> gateway_tool_definition list result" where
  "mapOpenAiToolsToGateway tools =
     (if tools \<noteq> [] \<and> openai_definitions tools = []
      then Inl (bad_request ''Tools must contain at least one valid function tool'')
      else Inr (openai_definitions tools))"

definition mapOpenAiToolChoice :: "openai_tool_choice_in \<Rightarrow> gateway_tool_choice option result" where
  "mapOpenAiToolChoice c =
     (let invalid = Inl (bad_request ''Invalid tool_choice value'') in
      case c of
        ChoiceAbsent \<Rightarrow> Inr None
      | ChoiceString s \<Rightarrow>
          if s = [] then Inr None
          else if s = ''auto'' then Inr (Some ToolAuto)
          else if s = ''none'' then Inr (Some ToolNone)
          else if s = ''required'' then Inr (Some ToolRequired)
          else invalid
      | ChoiceObject ty f \<Rightarrow>
          (case (ty = Some ''function'', Option.bind f truthy_str) of
             (True, Some n) \<Rightarrow> Inr (Some (ToolFunction n))
           | _ \<Rightarrow> invalid)
      | ChoiceOther \<Rightarrow> invalid)"

definition openai_params :: "openai_request \<Rightarrow> chat_params option" where
  "openai_params body =
     (if or_temperature body \<noteq> None \<or> or_max_tokens body \<noteq> None \<or> or_top_p body \<noteq> None \<or> or_stop body \<noteq> None \<or>
         or_frequency_penalty body \<noteq> None \<or> or_presence_penalty body \<noteq> None \<or> or_seed body \<noteq> None \<or>
         or_response_format body \<noteq> None \<or> or_max_completion_tokens body \<noteq> None \<or> or_reasoning_effort body \<noteq> None \<or>
         or_parallel_tool_calls body \<noteq> None
      then Some
        \<lparr>temperature = or_temperature body,
         maxOutputTokens = (case or_max_completion_tokens body of Some n \<Rightarrow> Some n | None \<Rightarrow> or_max_tokens body),
         topP = or_top_p body, stop = or_stop body,
         frequencyPenalty = or_frequency_penalty body, presencePenalty = or_presence_penalty body, seed = or_seed body,
         responseFormat = map_option (\<lambda>ty. \<lparr>rf_type = ty, rf_jsonSchemaName = None, rf_jsonSchema = None\<rparr>) (or_response_format body),
         topK = None,
         thinkingEnabled = map_option (\<lambda>e. e \<noteq> EffNone) (or_reasoning_effort body),
         thinkingBudget = (case or_reasoning_effort body of
             Some e \<Rightarrow> if e = EffNone then None else Some (Effort e) | None \<Rightarrow> None),
         parallelToolCalls = or_parallel_tool_calls body\<rparr>
      else None)"

definition tooling_of :: "gateway_tool_definition list option \<Rightarrow> gateway_tool_choice option \<Rightarrow> chat_tooling option" where
  "tooling_of defs choice =
     (if truthy_list defs \<noteq> None \<or> choice \<noteq> None then Some \<lparr>definitions = truthy_list defs, toolChoice = choice\<rparr> else None)"

definition mapOpenAiChatRequestToGateway :: "openai_request \<Rightarrow> chat_request result" where
  "mapOpenAiChatRequestToGateway body =
     res_bind (mapOpenAiMessagesToGateway (or_messages body)) (\<lambda>ms.
     res_bind (case truthy_list (or_tools body) of
                 Some tools \<Rightarrow> res_bind (mapOpenAiToolsToGateway tools) (\<lambda>ds. Inr (Some ds)) | None \<Rightarrow> Inr None) (\<lambda>defs.
     res_bind (mapOpenAiToolChoice (or_tool_choice body)) (\<lambda>choice.
       Inr \<lparr>modelAlias = or_model body, messages = ms, params = openai_params body, conversationId = None,
            tooling = tooling_of defs choice, metadata = or_metadata body\<rparr>)))"

section \<open>Responses (openai-response.mapper.ts)\<close>

definition openai_tool_call_json :: "gateway_tool_call \<Rightarrow> (string \<times> json) list" where
  "openai_tool_call_json c = [(''id'', JStr (tc_id c)), (''type'', JStr ''function''),
     (''function'', JObj [(''name'', JStr (tc_name c)), (''arguments'', JStr (tc_arguments c))])]"

definition mapGatewayToolCallsToOpenAi :: "gateway_tool_call list \<Rightarrow> json list" where
  "mapGatewayToolCallsToOpenAi cs = map (\<lambda>c. JObj (openai_tool_call_json c)) cs"

definition mapSystemFingerprintToOpenAi :: "string option \<Rightarrow> (string \<times> json) list" where
  "mapSystemFingerprintToOpenAi fp = opt_prop ''system_fingerprint'' JStr (truthy_str fp)"

fun mapFinishReasontoOpenAI :: "finish_reason option \<Rightarrow> string" where
  "mapFinishReasontoOpenAI (Some FinToolCalls) = ''tool_calls''"
| "mapFinishReasontoOpenAI (Some FinLength) = ''length''"
| "mapFinishReasontoOpenAI (Some FinContentFilter) = ''content_filter''"
| "mapFinishReasontoOpenAI _ = ''stop''"

definition strip_gw :: "string \<Rightarrow> string" where
  "strip_gw i = (if take 3 i = ''gw_'' then drop 3 i else i)"

definition toOpenAiCompletionId :: "string \<Rightarrow> string" where
  "toOpenAiCompletionId gatewayId = ''chatcmpl_'' @ strip_gw gatewayId"

definition openai_usage_json :: "int \<Rightarrow> int \<Rightarrow> int \<Rightarrow> json" where
  "openai_usage_json input output tot = JObj [(''prompt_tokens'', JNum (of_int input)),
     (''completion_tokens'', JNum (of_int output)), (''total_tokens'', JNum (of_int tot))]"

definition mapChatResponseToOpenAi :: "nat \<Rightarrow> chat_response_dto \<Rightarrow> string \<Rightarrow> json" where
  "mapChatResponseToOpenAi created result requestedModel =
     (let input = nullish (Option.bind (dto_usage result) ru_inputTokens) 0;
          output = nullish (Option.bind (dto_usage result) ru_outputTokens) 0;
          toolCalls = nullish (dto_toolCalls result) []
      in JObj
        ([(''id'', JStr (toOpenAiCompletionId (dto_id result))), (''object'', JStr ''chat.completion''),
          (''created'', JNum (of_nat created)), (''model'', JStr requestedModel),
          (''choices'', JArr [JObj
             [(''index'', JNum 0),
              (''message'', JObj
                 ([(''role'', JStr ''assistant''),
                   (''content'', if toolCalls \<noteq> [] \<and> dto_text result = [] then JNull else JStr (dto_text result))] @
                  (if toolCalls \<noteq> [] then [(''tool_calls'', JArr (mapGatewayToolCallsToOpenAi toolCalls))] else []))),
              (''finish_reason'', JStr (mapFinishReasontoOpenAI (dto_finishReason result)))]]),
          (''usage'', openai_usage_json input output (input + output))] @
         mapSystemFingerprintToOpenAi (dto_systemFingerprint result)))"

section \<open>Streams (openai-stream.mapper.ts)\<close>

record openai_stream_state =
  os_completionId :: string
  os_model :: string
  os_roleSent :: bool
  os_includeUsage :: bool
  os_created :: nat

definition createOpenAiStreamState :: "nat \<Rightarrow> string \<Rightarrow> bool \<Rightarrow> openai_stream_state" where
  "createOpenAiStreamState created requestedModel includeUsage =
     \<lparr>os_completionId = [], os_model = requestedModel, os_roleSent = False, os_includeUsage = includeUsage, os_created = created\<rparr>"

fun buildToolCallsDelta :: "nat \<Rightarrow> gateway_tool_call list \<Rightarrow> json list" where
  "buildToolCallsDelta i [] = []"
| "buildToolCallsDelta i (c # cs) = JObj ((''index'', JNum (of_nat i)) # openai_tool_call_json c) # buildToolCallsDelta (Suc i) cs"

definition chunkLine :: "json \<Rightarrow> string" where
  "chunkLine payload = ''data: '' @ json_stringify payload @ [newline, newline]"

definition doneLine :: string where
  "doneLine = ''data: [DONE]'' @ [newline, newline]"

definition baseChunkFields :: "openai_stream_state \<Rightarrow> (string \<times> json) list" where
  "baseChunkFields s = [(''id'', JStr (os_completionId s)), (''object'', JStr ''chat.completion.chunk''),
     (''created'', JNum (of_nat (os_created s))), (''model'', JStr (os_model s))]"

definition choice_json :: "(string \<times> json) list \<Rightarrow> json \<Rightarrow> json" where
  "choice_json delta finish = JArr [JObj [(''index'', JNum 0), (''delta'', JObj delta), (''finish_reason'', finish)]]"

definition chunk :: "openai_stream_state \<Rightarrow> (string \<times> json) list \<Rightarrow> json \<Rightarrow> (string \<times> json) list" where
  "chunk s delta finish = baseChunkFields s @ [(''choices'', choice_json delta finish)]"

definition resolveOpenAiFinishReason :: "sse_done \<Rightarrow> string" where
  "resolveOpenAiFinishReason d =
     (if truthy_list (sd_toolCalls d) \<noteq> None then ''tool_calls'' else mapFinishReasontoOpenAI (Some (sd_finishReason d)))"

definition final_chunk :: "openai_stream_state \<Rightarrow> sse_done \<Rightarrow> (string \<times> json) list" where
  "final_chunk s d = chunk s [] (JStr (resolveOpenAiFinishReason d)) @
     (case (os_includeUsage s, sd_usage d) of
        (True, Some u) \<Rightarrow> [(''usage'', openai_usage_json (su_inputTokens u) (su_outputTokens u) (su_totalTokens u))]
      | _ \<Rightarrow> []) @
     mapSystemFingerprintToOpenAi (sd_systemFingerprint d)"

fun mapSseEventToOpenAi :: "sse_event \<Rightarrow> openai_stream_state \<Rightarrow> string list \<times> openai_stream_state" where
  "mapSseEventToOpenAi (SseMeta m) state =
     (let s = state\<lparr>os_completionId := toOpenAiCompletionId (sm_id m)\<rparr>
      in if os_roleSent s then ([], s)
         else ([chunkLine (JObj (chunk s [(''role'', JStr ''assistant''), (''content'', JStr [])] JNull))], s\<lparr>os_roleSent := True\<rparr>))"
| "mapSseEventToOpenAi (SseDelta t) state =
     ([chunkLine (JObj (chunk state [(''content'', JStr t)] JNull))], state)"
| "mapSseEventToOpenAi (SseDone d) state =
     ((case truthy_list (sd_toolCalls d) of
         Some cs \<Rightarrow> [chunkLine (JObj (chunk state [(''tool_calls'', JArr (buildToolCallsDelta 0 cs))] JNull))]
       | None \<Rightarrow> []) @
      [chunkLine (JObj (final_chunk state d)), doneLine], state)"

text \<open>What a connection is sent for a list of events.\<close>

fun openai_lines :: "sse_event list \<Rightarrow> openai_stream_state \<Rightarrow> string list" where
  "openai_lines [] s = []"
| "openai_lines (e # es) s = (case mapSseEventToOpenAi e s of (ls, s') \<Rightarrow> ls @ openai_lines es s')"

section \<open>A client of the protocol\<close>

text \<open>The chunks of a body that is complete: every line is \<open>data:\<close> with JSON, the last one \<open>[DONE]\<close>.\<close>

fun read_chunks :: "string list \<Rightarrow> json list option" where
  "read_chunks (da # e # ls) =
     (if e \<noteq> [] then None
      else if da = ''data: [DONE]'' then (if ls = [[]] then Some [] else None)
      else if take 6 da = ''data: ''
      then (case json_parse (drop 6 da) of Inr j \<Rightarrow> map_option ((#) j) (read_chunks ls) | Inl _ \<Rightarrow> None)
      else None)"
| "read_chunks _ = None"

record openai_reply =
  oy_id :: string
  oy_model :: string
  oy_text :: string
  oy_toolCalls :: "(string \<times> string \<times> string) list"
  oy_finish :: string

definition client_tool_call :: "json \<Rightarrow> string \<times> string \<times> string" where
  "client_tool_call j = (jstring (jfield ''id'' j), jstring (Option.bind (jfield ''function'' j) (jfield ''name'')),
     jstring (Option.bind (jfield ''function'' j) (jfield ''arguments'')))"

definition first_choice :: "json \<Rightarrow> json" where
  "first_choice j = (case jlist (jfield ''choices'' j) of c # _ \<Rightarrow> c | [] \<Rightarrow> JNull)"

definition client_fields :: "json \<Rightarrow> json option \<Rightarrow> openai_reply" where
  "client_fields j part =
     \<lparr>oy_id = jstring (jfield ''id'' j), oy_model = jstring (jfield ''model'' j),
      oy_text = jstring (Option.bind part (jfield ''content'')),
      oy_toolCalls = map client_tool_call (jlist (Option.bind part (jfield ''tool_calls''))),
      oy_finish = jstring (jfield ''finish_reason'' (first_choice j))\<rparr>"

definition read_completion :: "json \<Rightarrow> openai_reply" where
  "read_completion j = client_fields j (jfield ''message'' (first_choice j))"

definition read_chunk :: "json \<Rightarrow> openai_reply" where
  "read_chunk j = client_fields j (jfield ''delta'' (first_choice j))"

text \<open>Texts and tool calls accumulate; of the other fields the latest that is set counts.\<close>

definition add_chunk :: "openai_reply \<Rightarrow> openai_reply \<Rightarrow> openai_reply" where
  "add_chunk a b =
     \<lparr>oy_id = oy_id b, oy_model = oy_model b, oy_text = oy_text a @ oy_text b, oy_toolCalls = oy_toolCalls a @ oy_toolCalls b,
      oy_finish = (if oy_finish b = [] then oy_finish a else oy_finish b)\<rparr>"

definition assemble :: "json list \<Rightarrow> openai_reply" where
  "assemble js = foldl (\<lambda>a j. add_chunk a (read_chunk j)) \<lparr>oy_id = [], oy_model = [], oy_text = [], oy_toolCalls = [], oy_finish = []\<rparr> js"

definition read_openai_body :: "string \<Rightarrow> openai_reply option" where
  "read_openai_body body = map_option assemble (read_chunks (split_lines body))"

section \<open>Lemmas\<close>

lemma truthy_nonempty [simp]:
  "s \<noteq> [] \<Longrightarrow> truthy_str (Some s) = Some s" "xs \<noteq> [] \<Longrightarrow> truthy_list (Some xs) = Some xs"
  by simp_all

lemma read_chunks_line:
  assumes "json_ok j"
  shows "read_chunks (split_lines (chunkLine j @ s)) = map_option ((#) j) (read_chunks (split_lines s))"
proof -
  let ?da = "''data: '' @ json_stringify j"
  have "newline \<notin> set ?da" by (simp add: stringify_no_newline)
  moreover have "chunkLine j @ s = ?da @ newline # [] @ newline # s" by (simp add: chunkLine_def)
  ultimately have "split_lines (chunkLine j @ s) = ?da # [] # split_lines s"
    by (simp only: split_lines_append split_lines.simps append_Nil if_True simp_thms)
  moreover have "?da \<noteq> ''data: [DONE]''"
  proof
    assume "?da = ''data: [DONE]''"
    then have "json_stringify j = ''[DONE]''" by simp
    then have "json_parse ''[DONE]'' = Inr j" using json_roundtrip [OF assms] by simp
    moreover have "json_parse ''[DONE]'' = Inl syntax_error" by code_simp
    ultimately show False by simp
  qed
  ultimately show ?thesis using json_roundtrip [OF assms] by simp
qed

lemma read_chunks_done [simp]: "read_chunks (split_lines doneLine) = Some []"
  by (simp add: doneLine_def)

lemma tool_calls_delta_ok: "list_all json_ok (buildToolCallsDelta i cs)"
  by (induction i cs rule: buildToolCallsDelta.induct) (simp_all add: openai_tool_call_json_def)

lemma chunk_ok:
  "distinct (map fst delta) \<Longrightarrow> list_all (\<lambda>kv. json_ok (snd kv)) delta \<Longrightarrow> json_ok finish \<Longrightarrow> json_ok (JObj (chunk s delta finish))"
  by (simp add: chunk_def choice_json_def baseChunkFields_def)

lemmas read_chunk_line = read_chunks_line [OF chunk_ok]

lemma final_chunk_ok: "json_ok (JObj (final_chunk s d))"
  by (auto simp: final_chunk_def chunk_def choice_json_def baseChunkFields_def openai_usage_json_def
      mapSystemFingerprintToOpenAi_def opt_prop_def split: option.split bool.split)

lemma read_chunk_chunk:
  "read_chunk (JObj (chunk s delta finish @ ext)) =
     \<lparr>oy_id = os_completionId s, oy_model = os_model s, oy_text = jstring (jget delta ''content''),
      oy_toolCalls = map client_tool_call (jlist (jget delta ''tool_calls'')), oy_finish = jstring (Some finish)\<rparr>"
  by (simp add: read_chunk_def client_fields_def first_choice_def chunk_def choice_json_def baseChunkFields_def)

lemmas read_chunk_plain = read_chunk_chunk [where ext = "[]", simplified]

definition call_triple :: "gateway_tool_call \<Rightarrow> string \<times> string \<times> string" where
  "call_triple c = (tc_id c, tc_name c, tc_arguments c)"

lemma client_reads_tool_calls:
  "map client_tool_call (buildToolCallsDelta i cs) = map call_triple cs"
  "map client_tool_call (mapGatewayToolCallsToOpenAi cs) = map call_triple cs"
  by (induction i cs rule: buildToolCallsDelta.induct)
    (simp_all add: openai_tool_call_json_def mapGatewayToolCallsToOpenAi_def client_tool_call_def call_triple_def)

text \<open>The chunks behind the lines of the text deltas and of the final event.\<close>

definition text_chunks :: "openai_stream_state \<Rightarrow> string list \<Rightarrow> json list" where
  "text_chunks s ts = map (\<lambda>t. JObj (chunk s [(''content'', JStr t)] JNull)) ts"

definition done_chunks :: "openai_stream_state \<Rightarrow> sse_done \<Rightarrow> json list" where
  "done_chunks s d = (case truthy_list (sd_toolCalls d) of
       Some cs \<Rightarrow> [JObj (chunk s [(''tool_calls'', JArr (buildToolCallsDelta 0 cs))] JNull)] | None \<Rightarrow> []) @ [JObj (final_chunk s d)]"

lemma truthy_list_cases [case_names empty filled]:
  obtains "truthy_list x = None" "nullish x [] = []" | cs where "truthy_list x = Some cs" "x = Some cs" "cs \<noteq> []"
  by (cases x; cases "the x") auto

lemma read_done_lines:
  "read_chunks (split_lines (concat (openai_lines [SseDone d] s))) = Some (done_chunks s d)"
  by (cases "sd_toolCalls d" rule: truthy_list_cases)
    (simp_all add: done_chunks_def read_chunk_line read_chunks_line [OF final_chunk_ok] tool_calls_delta_ok del: truthy_eq_None
      truthy_list_eq_Some)

lemma read_delta_lines:
  "read_chunks (split_lines (concat (openai_lines (map SseDelta ts @ [SseDone d]) s))) =
     Some (text_chunks s ts @ done_chunks s d)"
proof (induction ts)
  case Nil
  then show ?case using read_done_lines by (simp add: text_chunks_def)
next
  case (Cons t ts)
  then show ?case by (simp add: text_chunks_def read_chunk_line)
qed

lemma add_chunk_empty [simp]:
  "add_chunk \<lparr>oy_id = i, oy_model = m, oy_text = [], oy_toolCalls = [], oy_finish = []\<rparr> r = r"
  by (simp add: add_chunk_def)

lemma fold_text_chunks:
  "os_completionId s = oy_id a \<Longrightarrow> os_model s = oy_model a \<Longrightarrow>
   foldl (\<lambda>a j. add_chunk a (read_chunk j)) a (text_chunks s ts) = a\<lparr>oy_text := oy_text a @ concat ts\<rparr>"
  by (induction ts arbitrary: a) (simp_all add: text_chunks_def read_chunk_plain add_chunk_def)

lemma fold_done_chunks:
  "os_completionId s = oy_id a \<Longrightarrow> os_model s = oy_model a \<Longrightarrow> oy_finish a = [] \<Longrightarrow>
   foldl (\<lambda>a j. add_chunk a (read_chunk j)) a (done_chunks s d) =
     a\<lparr>oy_toolCalls := oy_toolCalls a @ map call_triple (nullish (sd_toolCalls d) []), oy_finish := resolveOpenAiFinishReason d\<rparr>"
  by (cases "sd_toolCalls d" rule: truthy_list_cases)
    (simp_all add: done_chunks_def final_chunk_def read_chunk_plain read_chunk_chunk add_chunk_def client_reads_tool_calls del: truthy_eq_None
      truthy_list_eq_Some)

text \<open>What a client of the stream reads, for any text, tool calls and end of the reply.\<close>

lemma openai_stream_read:
  "read_openai_body (concat (openai_lines (SseMeta m # map SseDelta ts @ [SseDone d]) (createOpenAiStreamState created model includeUsage))) =
     Some \<lparr>oy_id = toOpenAiCompletionId (sm_id m), oy_model = model, oy_text = concat ts,
           oy_toolCalls = map call_triple (nullish (sd_toolCalls d) []), oy_finish = resolveOpenAiFinishReason d\<rparr>"
  by (simp add: read_openai_body_def createOpenAiStreamState_def read_chunk_line read_delta_lines assemble_def
      read_chunk_plain fold_text_chunks fold_done_chunks)

lemma openai_completion_read:
  "read_completion (mapChatResponseToOpenAi created r model) =
     \<lparr>oy_id = toOpenAiCompletionId (dto_id r), oy_model = model, oy_text = dto_text r,
      oy_toolCalls = map call_triple (nullish (dto_toolCalls r) []), oy_finish = mapFinishReasontoOpenAI (dto_finishReason r)\<rparr>"
  by (simp add: read_completion_def client_fields_def first_choice_def mapChatResponseToOpenAi_def Let_def client_reads_tool_calls)

text \<open>A client answers a tool call by sending it back in an assistant message; the gateway then sees the calls it issued.\<close>

definition echo_call :: "string \<times> string \<times> string \<Rightarrow> openai_tool_call_in unknown_item" where
  "echo_call = (\<lambda>(i, n, a). AnObject \<lparr>oti_id = Some i, oti_type = Some ''function'',
     oti_function = Some \<lparr>ofi_name = Some n, ofi_arguments = Some a\<rparr>\<rparr>)"

lemma tool_calls_echoed:
  "\<forall>c \<in> set cs. tc_id c \<noteq> [] \<and> tc_name c \<noteq> [] \<Longrightarrow> mapOpenAiToolCalls (map (echo_call \<circ> call_triple) cs) = cs"
  by (induction cs) (simp_all add: echo_call_def call_triple_def)

text \<open>The roles of the messages that are not system prompts.\<close>

fun gateway_role :: "openai_role \<Rightarrow> role option" where
  "gateway_role OSystem = None"
| "gateway_role OUser = Some RUser"
| "gateway_role OAssistant = Some RAssistant"
| "gateway_role OTool = Some RTool"

definition lacks_call_id :: "openai_chat_message \<Rightarrow> bool" where
  "lacks_call_id m \<longleftrightarrow> om_role m = OTool \<and> truthy_str (om_tool_call_id m) = None"

lemma openai_messages_exact:
  "case openai_messages ms of
     Inr gs \<Rightarrow> \<not> list_ex lacks_call_id ms \<and>
       map (\<lambda>g. (msg_role g, msg_content g)) gs =
       List.map_filter (\<lambda>m. map_option (\<lambda>r. (r, om_content m)) (gateway_role (om_role m))) ms
   | Inl e \<Rightarrow> list_ex lacks_call_id ms \<and> e = bad_request ''Tool messages must include tool_call_id''"
proof (induction ms)
  case (Cons m ms)
  then show ?case
    by (cases "om_role m"; cases "openai_messages ms"; cases "truthy_str (om_tool_call_id m)")
      (simp_all add: lacks_call_id_def del: truthy_eq_None truthy_str_eq_Some)
qed simp

section \<open>Properties\<close>

text \<open>C19. Streamed or not, a client of the OpenAI facade is told the same: a client that reads the chunks of a streamed reply, split
  into deltas in any way, ends up with the id, model, text and tool calls of the JSON completion for the same
  provider result; the finish reasons agree too, except exactly when tool calls came with a token limit, where the
  JSON completion says \<open>length\<close> and the stream \<open>tool_calls\<close>.\<close>

theorem openai_stream_agrees_with_json:
  "let p = response\<lparr>prr_text := concat ts\<rparr>;
       done = buildStreamDoneEvent usage (prr_toolCalls p) (prr_stopReason p) fp thinking options providerType details eff;
       stream = concat (openai_lines (SseMeta m # map SseDelta ts @ [done]) (createOpenAiStreamState created model includeUsage));
       (data, w') = buildChatResponse uuidv4 p providerName alias' requestId convId eff options providerType (Some (sm_id m)) w;
       completion = read_completion (mapChatResponseToOpenAi created' (toChatResponseDto data) model)
   in \<exists>f. read_openai_body stream = Some (completion\<lparr>oy_finish := f\<rparr>) \<and> oy_text completion = concat ts \<and>
      (if nullish (prr_toolCalls p) [] \<noteq> [] \<and> (prr_stopReason p = Some SrMaxTokens \<or> prr_stopReason p = Some SrLength)
       then f = ''tool_calls'' \<and> oy_finish completion = ''length'' else f = oy_finish completion)"
  by (cases "prr_toolCalls response" rule: truthy_list_cases)
    (simp_all add: Let_def buildStreamDoneEvent_def openai_stream_read buildChatResponse_def toChatResponseDto_def
      openai_completion_read resolveOpenAiFinishReason_def mapStopReasonToFinishReason_def
      del: openai_lines.simps truthy_eq_None truthy_list_eq_Some)

end
