(* ===== verification/Anthropic_Facade.thy ===== *)
theory Anthropic_Facade
  imports OpenAI_Facade
begin

text \<open>
  The Anthropic-compatible facade (\<open>src/integrations/anthropic\<close>): the mappers from an Anthropic request to a gateway
  request, from a gateway response to an Anthropic message and from gateway events to Anthropic events, with the
  state of the stream mapper. The last sections read a streamed message back the way a client of the protocol
  does, by an automaton over the events that accepts only well-nested content blocks with consecutive indices.
\<close>

section \<open>Requests (dtos)\<close>

datatype anthropic_block_type = BText | BImage | BToolUse | BToolResult

record anthropic_content_block =
  ab_type :: anthropic_block_type
  ab_text :: "string option"
  ab_id :: "string option"
  ab_name :: "string option"
  ab_input :: "json option"
  ab_tool_use_id :: "string option"
  ab_content :: "string option"

datatype anthropic_role = AUser | AAssistant

record anthropic_message =
  amsg_role :: anthropic_role
  amsg_content :: "anthropic_content_block list"

record anthropic_tool =
  at_name :: "string option"
  at_description :: "string option"
  at_input_schema :: "json option"

datatype anthropic_tool_choice_in =
    AChoiceAbsent
  | AChoiceObject "string option" "string option"
  | AChoiceOther

datatype anthropic_thinking_type = ThinkEnabled | ThinkDisabled | ThinkAdaptive

record anthropic_thinking =
  ath_type :: "anthropic_thinking_type option"
  ath_budget_tokens :: "rat option"

record anthropic_output_config =
  aoc_format :: "(string \<times> json option) option"
  aoc_effort :: "thinking_effort option"

record anthropic_request =
  ar_model :: string
  ar_messages :: "anthropic_message list"
  ar_stream :: "bool option"
  ar_max_tokens :: "rat option"
  ar_temperature :: "rat option"
  ar_tools :: "anthropic_tool unknown_item list option"
  ar_tool_choice :: anthropic_tool_choice_in
  ar_top_p :: "rat option"
  ar_top_k :: "rat option"
  ar_stop_sequences :: "string list option"
  ar_output_config :: "anthropic_output_config option"
  ar_metadata_user_id :: "string option"
  ar_thinking :: "anthropic_thinking option"

section \<open>Request mappers (anthropic-tools.mapper.ts, anthropic-request.mapper.ts)\<close>

fun mapAnthropicToolsToGateway :: "anthropic_tool unknown_item list \<Rightarrow> gateway_tool_definition list" where
  "mapAnthropicToolsToGateway [] = []"
| "mapAnthropicToolsToGateway (NotAnObject # tools) = mapAnthropicToolsToGateway tools"
| "mapAnthropicToolsToGateway (AnObject tool # tools) =
     (case truthy_str (at_name tool) of
        None \<Rightarrow> mapAnthropicToolsToGateway tools
      | Some n \<Rightarrow> \<lparr>td_name = n, td_description = truthy_str (at_description tool),
                   td_parameters = nullish (at_input_schema tool) (JObj [])\<rparr> # mapAnthropicToolsToGateway tools)"

definition mapAnthropicToolChoice :: "anthropic_tool_choice_in \<Rightarrow> gateway_tool_choice option result" where
  "mapAnthropicToolChoice c =
     (let invalid = Inl (bad_request ''Invalid tool_choice value'') in
      case c of
        AChoiceAbsent \<Rightarrow> Inr None
      | AChoiceObject ty n \<Rightarrow>
          if ty = Some ''auto'' then Inr (Some ToolAuto)
          else if ty = Some ''any'' then Inr (Some ToolRequired)
          else (case (ty = Some ''tool'', truthy_str n) of
                  (True, Some name) \<Rightarrow> Inr (Some (ToolFunction name))
                | _ \<Rightarrow> invalid)
      | AChoiceOther \<Rightarrow> invalid)"

text \<open>The three accumulators of the loop over the blocks: text, tool calls, tool messages.\<close>

fun collect_blocks ::
  "anthropic_content_block list \<Rightarrow> string \<times> gateway_tool_call list \<times> chat_message list" where
  "collect_blocks [] = ([], [], [])"
| "collect_blocks (b # bs) =
     (case collect_blocks bs of (t, calls, results) \<Rightarrow>
        (case (ab_type b, truthy_str (ab_text b), truthy_str (ab_id b), truthy_str (ab_name b), truthy_str (ab_tool_use_id b)) of
           (BText, Some s, _, _, _) \<Rightarrow> (s @ t, calls, results)
         | (BToolUse, _, Some i, Some n, _) \<Rightarrow>
             (t, \<lparr>tc_id = i, tc_name = n, tc_arguments = json_stringify (nullish (ab_input b) (JObj []))\<rparr> # calls, results)
         | (BToolResult, _, _, _, Some i) \<Rightarrow>
             (t, calls, \<lparr>msg_role = RTool, msg_content = nullish (ab_content b) [], msg_toolCallId = Some i, msg_toolCalls = None\<rparr> # results)
         | _ \<Rightarrow> (t, calls, results)))"

definition mapAnthropicContentBlockToGateway ::
  "anthropic_role \<Rightarrow> anthropic_content_block list \<Rightarrow> chat_message list result" where
  "mapAnthropicContentBlockToGateway role blocks =
     (if list_ex (\<lambda>b. ab_type b = BImage) blocks then Inl (bad_request ''Image content block are not supported.'')
      else case collect_blocks blocks of (textContent, toolCalls, toolMessages) \<Rightarrow>
        let messages =
          (if role = AUser \<and> textContent \<noteq> []
           then [\<lparr>msg_role = RUser, msg_content = textContent, msg_toolCallId = None, msg_toolCalls = None\<rparr>] else []) @
          (if role = AAssistant
           then [\<lparr>msg_role = RAssistant, msg_content = textContent, msg_toolCallId = None,
                  msg_toolCalls = truthy_list (Some toolCalls)\<rparr>] else []) @ toolMessages
        in if messages = []
           then Inl (bad_request ''Each message must have at least one supported content block.'')
           else Inr messages)"

fun anthropic_messages :: "anthropic_message list \<Rightarrow> chat_message list result" where
  "anthropic_messages [] = Inr []"
| "anthropic_messages (m # ms) =
     res_bind (mapAnthropicContentBlockToGateway (amsg_role m) (amsg_content m)) (\<lambda>mapped.
     res_bind (anthropic_messages ms) (\<lambda>rest. Inr (mapped @ rest)))"

definition anthropic_thinking_budget :: "anthropic_request \<Rightarrow> thinking_budget option" where
  "anthropic_thinking_budget body =
     (case ar_thinking body of
        Some th \<Rightarrow>
          (case (ath_type th = Some ThinkEnabled, ath_budget_tokens th) of
             (True, Some n) \<Rightarrow> if n = 0 then None else Some (BudgetTokens n)
           | _ \<Rightarrow> None)
      | None \<Rightarrow> map_option Effort (Option.bind (ar_output_config body) aoc_effort))"

definition anthropic_params :: "anthropic_request \<Rightarrow> chat_params option" where
  "anthropic_params body =
     (if ar_temperature body \<noteq> None \<or> ar_max_tokens body \<noteq> None \<or> ar_top_p body \<noteq> None \<or> ar_top_k body \<noteq> None \<or>
         ar_stop_sequences body \<noteq> None \<or> ar_output_config body \<noteq> None \<or> ar_thinking body \<noteq> None
      then Some
        \<lparr>temperature = ar_temperature body, maxOutputTokens = ar_max_tokens body, topP = ar_top_p body,
         stop = map_option StopMany (ar_stop_sequences body), frequencyPenalty = None, presencePenalty = None, seed = None,
         responseFormat = map_option (\<lambda>oc.
             \<lparr>rf_type = (case aoc_format oc of Some (ty, _) \<Rightarrow> if ty = ''json_schema'' then RfJsonObject else RfText | None \<Rightarrow> RfText),
              rf_jsonSchemaName = None, rf_jsonSchema = Option.bind (aoc_format oc) snd\<rparr>) (ar_output_config body),
         topK = ar_top_k body,
         thinkingEnabled = (case ar_thinking body of
             Some th \<Rightarrow> if ath_type th \<noteq> Some ThinkDisabled then Some True else None | None \<Rightarrow> None),
         thinkingBudget = anthropic_thinking_budget body,
         parallelToolCalls = None\<rparr>
      else None)"

definition mapAnthropicRequestToGateway :: "anthropic_request \<Rightarrow> chat_request result" where
  "mapAnthropicRequestToGateway body =
     res_bind (anthropic_messages (ar_messages body)) (\<lambda>gatewayMessages.
       if gatewayMessages = [] then Inl (bad_request ''At least one message is required.'')
       else res_bind (mapAnthropicToolChoice (ar_tool_choice body)) (\<lambda>choice.
         Inr \<lparr>modelAlias = ar_model body, messages = gatewayMessages, params = anthropic_params body, conversationId = None,
              tooling = tooling_of (map_option mapAnthropicToolsToGateway (truthy_list (ar_tools body))) choice,
              metadata = map_option (\<lambda>u. [(''userId'', JStr u)]) (truthy_str (ar_metadata_user_id body))\<rparr>))"

section \<open>Responses (anthropic-response.mapper.ts, anthropic-stop-reason.mapper.ts, anthropic-usage.mapper.ts)\<close>

definition tool_input :: "gateway_tool_call \<Rightarrow> (string \<times> json) list" where
  "tool_input c = parseJsonObject (if tc_arguments c = [] then ''{}'' else tc_arguments c)"

fun mapGatewayFinishReasonToAnthropicStopReason :: "finish_reason option \<Rightarrow> string" where
  "mapGatewayFinishReasonToAnthropicStopReason (Some FinToolCalls) = ''tool_use''"
| "mapGatewayFinishReasonToAnthropicStopReason (Some FinLength) = ''max_tokens''"
| "mapGatewayFinishReasonToAnthropicStopReason (Some FinStop) = ''end_turn''"
| "mapGatewayFinishReasonToAnthropicStopReason (Some FinContentFilter) = ''refusal''"
| "mapGatewayFinishReasonToAnthropicStopReason None = ''end_turn''"

definition opt_num :: "int option \<Rightarrow> json" where
  "opt_num x = (case x of Some n \<Rightarrow> JNum (of_int n) | None \<Rightarrow> JNull)"

definition mapGatewayUsageToAnthropic :: "int option \<Rightarrow> int option \<Rightarrow> usage_details option \<Rightarrow> json" where
  "mapGatewayUsageToAnthropic input output details =
     JObj [(''input_tokens'', JNum (of_int (nullish input 0))), (''output_tokens'', JNum (of_int (nullish output 0))),
       (''cache_creation_input_tokens'', opt_num (Option.bind details promptCacheCreationTokens)),
       (''cache_read_input_tokens'', opt_num (Option.bind details promptCacheHitTokens))]"

definition mapSseDoneUsageToAnthropic :: "sse_done \<Rightarrow> json" where
  "mapSseDoneUsageToAnthropic d =
     mapGatewayUsageToAnthropic (map_option su_inputTokens (sd_usage d)) (map_option su_outputTokens (sd_usage d)) (sd_usageDetails d)"

definition tool_use_block :: "gateway_tool_call \<Rightarrow> (string \<times> json) list \<Rightarrow> json" where
  "tool_use_block c input = JObj [(''type'', JStr ''tool_use''), (''id'', JStr (tc_id c)), (''name'', JStr (tc_name c)), (''input'', JObj input)]"

definition mapGatewayToolCallsToAnthropic :: "gateway_tool_call list \<Rightarrow> json list" where
  "mapGatewayToolCallsToAnthropic cs = map (\<lambda>c. tool_use_block c (tool_input c)) cs"

definition mapGatewayResponseToAnthropicFormat :: "chat_response_dto \<Rightarrow> string \<Rightarrow> json" where
  "mapGatewayResponseToAnthropicFormat result requestedModel =
     (let content =
        (case truthy_str (dto_thinkingContent result) of
           Some th \<Rightarrow> [JObj [(''type'', JStr ''thinking''), (''thinking'', JStr th)]] | None \<Rightarrow> []) @
        (if dto_text result \<noteq> [] then [JObj [(''type'', JStr ''text''), (''text'', JStr (dto_text result))]] else []) @
        (case truthy_list (dto_toolCalls result) of Some cs \<Rightarrow> mapGatewayToolCallsToAnthropic cs | None \<Rightarrow> [])
      in JObj [(''id'', JStr (''msg_'' @ strip_gw (dto_id result))), (''type'', JStr ''message''), (''role'', JStr ''assistant''),
           (''content'', JArr content), (''model'', JStr requestedModel),
           (''stop_reason'', JStr (mapGatewayFinishReasonToAnthropicStopReason (dto_finishReason result))),
           (''stop_sequence'', JNull),
           (''usage'', mapGatewayUsageToAnthropic (Option.bind (dto_usage result) ru_inputTokens)
              (Option.bind (dto_usage result) ru_outputTokens) (dto_usageDetails result))])"

section \<open>Streams (anthropic-stream.mapper.ts)\<close>

record anthropic_stream_state =
  as_messageId :: string
  as_model :: string
  as_messageSent :: bool
  as_textBlockStarted :: bool
  as_blockIndex :: nat
  as_activeToolBlockIndex :: "nat option"
  as_thinkingBlockEmitted :: bool

definition createAnthropicStreamState :: "string \<Rightarrow> anthropic_stream_state" where
  "createAnthropicStreamState model =
     \<lparr>as_messageId = [], as_model = model, as_messageSent = False, as_textBlockStarted = False, as_blockIndex = 0,
      as_activeToolBlockIndex = None, as_thinkingBlockEmitted = False\<rparr>"

text \<open>An event is its name and its data; \<open>eventLine\<close> writes it.\<close>

type_synonym wire_event = "string \<times> (string \<times> json) list"

definition eventLine :: "wire_event \<Rightarrow> string" where
  "eventLine = (\<lambda>(event, data). ''event: '' @ event @ [newline] @ ''data: '' @ json_stringify (JObj data) @ [newline, newline])"

definition block_start :: "nat \<Rightarrow> json \<Rightarrow> wire_event" where
  "block_start i content_block = (''content_block_start'', [(''type'', JStr ''content_block_start''), (''index'', JNum (of_nat i)),
     (''content_block'', content_block)])"

definition block_delta :: "nat \<Rightarrow> json \<Rightarrow> wire_event" where
  "block_delta i delta = (''content_block_delta'', [(''type'', JStr ''content_block_delta''), (''index'', JNum (of_nat i)), (''delta'', delta)])"

definition block_stop :: "nat \<Rightarrow> wire_event" where
  "block_stop i = (''content_block_stop'', [(''type'', JStr ''content_block_stop''), (''index'', JNum (of_nat i))])"

text \<open>\<open>textBlockStarted ? ++blockIndex : blockIndex++\<close>\<close>

definition nextToolBlockIndex :: "anthropic_stream_state \<Rightarrow> nat \<times> anthropic_stream_state" where
  "nextToolBlockIndex s = (if as_textBlockStarted s then as_blockIndex s + 1 else as_blockIndex s, s\<lparr>as_blockIndex := as_blockIndex s + 1\<rparr>)"

definition emitThinkingBlock :: "anthropic_stream_state \<Rightarrow> string \<Rightarrow> wire_event list \<times> anthropic_stream_state" where
  "emitThinkingBlock state thinking =
     (case nextToolBlockIndex state of (i, s) \<Rightarrow>
        ([block_start i (JObj [(''type'', JStr ''thinking''), (''thinking'', JStr [])]),
          block_delta i (JObj [(''type'', JStr ''thinking_delta''), (''thinking'', JStr thinking)]),
          block_stop i], s\<lparr>as_thinkingBlockEmitted := True\<rparr>))"

definition emit_tool_block :: "anthropic_stream_state \<Rightarrow> gateway_tool_call \<Rightarrow> wire_event list \<times> anthropic_stream_state" where
  "emit_tool_block state c =
     (case nextToolBlockIndex state of (i, s) \<Rightarrow>
        ([block_start i (tool_use_block c []),
          block_delta i (JObj [(''type'', JStr ''input_json_delta''), (''partial_json'', JStr (tc_arguments c))]),
          block_stop i], s\<lparr>as_activeToolBlockIndex := Some i\<rparr>))"

fun emit_tool_blocks :: "anthropic_stream_state \<Rightarrow> gateway_tool_call list \<Rightarrow> wire_event list \<times> anthropic_stream_state" where
  "emit_tool_blocks s [] = ([], s\<lparr>as_activeToolBlockIndex := None\<rparr>)"
| "emit_tool_blocks s (c # cs) =
     (case emit_tool_block s c of (es, s1) \<Rightarrow> case emit_tool_blocks s1 cs of (es', s2) \<Rightarrow> (es @ es', s2))"

definition message_start :: "anthropic_stream_state \<Rightarrow> wire_event" where
  "message_start s = (''message_start'', [(''type'', JStr ''message_start''), (''message'', JObj
     [(''id'', JStr (as_messageId s)), (''type'', JStr ''message''), (''role'', JStr ''assistant''), (''content'', JArr []),
      (''model'', JStr (as_model s)), (''usage'', JObj [(''input_tokens'', JNum 0), (''output_tokens'', JNum 0)])])])"

definition message_delta :: "sse_done \<Rightarrow> wire_event" where
  "message_delta d = (''message_delta'', [(''type'', JStr ''message_delta''),
     (''delta'', JObj [(''stop_reason'', JStr (mapGatewayFinishReasonToAnthropicStopReason (Some (sd_finishReason d)))), (''stop_sequence'', JNull)]),
     (''usage'', mapSseDoneUsageToAnthropic d)])"

definition message_stop :: wire_event where
  "message_stop = (''message_stop'', [(''type'', JStr ''message_stop'')])"

definition done_thinking :: "anthropic_stream_state \<Rightarrow> sse_done \<Rightarrow> wire_event list \<times> anthropic_stream_state" where
  "done_thinking s d = (case truthy_str (sd_thinkingContent d) of
     Some th \<Rightarrow> if as_thinkingBlockEmitted s then ([], s) else emitThinkingBlock s th
   | None \<Rightarrow> ([], s))"

definition done_tools :: "anthropic_stream_state \<Rightarrow> sse_done \<Rightarrow> wire_event list \<times> anthropic_stream_state" where
  "done_tools s d = (case truthy_list (sd_toolCalls d) of Some cs \<Rightarrow> emit_tool_blocks s cs | None \<Rightarrow> ([], s))"

fun anthropic_step :: "sse_event \<Rightarrow> anthropic_stream_state \<Rightarrow> wire_event list \<times> anthropic_stream_state" where
  "anthropic_step (SseMeta m) state =
     (let s = state\<lparr>as_messageId := ''msg_'' @ strip_gw (sm_id m)\<rparr>
      in if as_messageSent s then ([], s) else ([message_start s], s\<lparr>as_messageSent := True\<rparr>))"
| "anthropic_step (SseDelta t) s =
     ((if \<not> as_textBlockStarted s then [block_start (as_blockIndex s) (JObj [(''type'', JStr ''text''), (''text'', JStr [])])] else []) @
      [block_delta (as_blockIndex s) (JObj [(''type'', JStr ''text_delta''), (''text'', JStr t)])],
      s\<lparr>as_textBlockStarted := True\<rparr>)"
| "anthropic_step (SseDone d) s =
     (case done_thinking s d of (thinking, s1) \<Rightarrow> case done_tools s1 d of (tools, s2) \<Rightarrow>
        ((if as_textBlockStarted s then [block_stop (as_blockIndex s)] else []) @ thinking @ tools @ [message_delta d, message_stop], s2))"

definition mapSseEventToAnthropic :: "sse_event \<Rightarrow> anthropic_stream_state \<Rightarrow> string list \<times> anthropic_stream_state" where
  "mapSseEventToAnthropic e s = (case anthropic_step e s of (ws, s') \<Rightarrow> (map eventLine ws, s'))"

text \<open>What a connection is sent for a list of events.\<close>

fun anthropic_lines :: "sse_event list \<Rightarrow> anthropic_stream_state \<Rightarrow> string list" where
  "anthropic_lines [] s = []"
| "anthropic_lines (e # es) s = (case mapSseEventToAnthropic e s of (ls, s') \<Rightarrow> ls @ anthropic_lines es s')"

section \<open>A client of the protocol\<close>

datatype client_block = CText string | CThinking string | CTool string string string

record anthropic_reply =
  ay_id :: string
  ay_model :: string
  ay_blocks :: "client_block list"
  ay_stop :: string
  ay_usage :: "json option"

datatype client_phase = AwaitStart | Between nat | InBlock nat client_block | AwaitStop | Finished

definition open_block :: "json option \<Rightarrow> client_block option" where
  "open_block j = (case j of None \<Rightarrow> None | Some b \<Rightarrow>
     (let ty = jstring (jfield ''type'' b) in
      if ty = ''text'' then Some (CText [])
      else if ty = ''thinking'' then Some (CThinking [])
      else if ty = ''tool_use'' then Some (CTool (jstring (jfield ''id'' b)) (jstring (jfield ''name'' b)) [])
      else None))"

fun extend_block :: "json option \<Rightarrow> client_block \<Rightarrow> client_block option" where
  "extend_block (Some d) (CText t) =
     (if jfield ''type'' d = Some (JStr ''text_delta'') then Some (CText (t @ jstring (jfield ''text'' d))) else None)"
| "extend_block (Some d) (CThinking t) =
     (if jfield ''type'' d = Some (JStr ''thinking_delta'') then Some (CThinking (t @ jstring (jfield ''thinking'' d))) else None)"
| "extend_block (Some d) (CTool i n a) =
     (if jfield ''type'' d = Some (JStr ''input_json_delta'') then Some (CTool i n (a @ jstring (jfield ''partial_json'' d))) else None)"
| "extend_block None _ = None"

definition has_index :: "nat \<Rightarrow> json \<Rightarrow> bool" where
  "has_index n j \<longleftrightarrow> jfield ''index'' j = Some (JNum (of_nat n))"

text \<open>One event: any event out of place, or with another index than the block's own, is an error.\<close>

fun client_step :: "client_phase \<times> anthropic_reply \<Rightarrow> string \<times> json \<Rightarrow> (client_phase \<times> anthropic_reply) option" where
  "client_step (AwaitStart, r) (ev, j) =
     (if ev = ''message_start''
      then Some (Between 0, r\<lparr>ay_id := jstring (Option.bind (jfield ''message'' j) (jfield ''id'')),
                             ay_model := jstring (Option.bind (jfield ''message'' j) (jfield ''model''))\<rparr>) else None)"
| "client_step (Between n, r) (ev, j) =
     (if ev = ''content_block_start'' \<and> has_index n j
      then map_option (\<lambda>b. (InBlock n b, r)) (open_block (jfield ''content_block'' j))
      else if ev = ''message_delta''
      then Some (AwaitStop, r\<lparr>ay_stop := jstring (Option.bind (jfield ''delta'' j) (jfield ''stop_reason'')), ay_usage := jfield ''usage'' j\<rparr>)
      else None)"
| "client_step (InBlock n b, r) (ev, j) =
     (if \<not> has_index n j then None
      else if ev = ''content_block_delta'' then map_option (\<lambda>b'. (InBlock n b', r)) (extend_block (jfield ''delta'' j) b)
      else if ev = ''content_block_stop'' then Some (Between (n + 1), r\<lparr>ay_blocks := ay_blocks r @ [b]\<rparr>)
      else None)"
| "client_step (AwaitStop, r) (ev, j) = (if ev = ''message_stop'' then Some (Finished, r) else None)"
| "client_step (Finished, r) _ = None"

fun client_run :: "client_phase \<times> anthropic_reply \<Rightarrow> (string \<times> json result) list \<Rightarrow> (client_phase \<times> anthropic_reply) option" where
  "client_run s [] = Some s"
| "client_run s ((ev, j) # fs) = (case j of Inl _ \<Rightarrow> None | Inr v \<Rightarrow> Option.bind (client_step s (ev, v)) (\<lambda>s'. client_run s' fs))"

definition read_anthropic_body :: "string \<Rightarrow> anthropic_reply option" where
  "read_anthropic_body body =
     (case client_run (AwaitStart, \<lparr>ay_id = [], ay_model = [], ay_blocks = [], ay_stop = [], ay_usage = None\<rparr>) (read_frames (split_lines body)) of
        Some (Finished, r) \<Rightarrow> Some r | _ \<Rightarrow> None)"

text \<open>The same view of a JSON message; the input of a tool is compared as the JSON object it stands for.\<close>

definition json_block :: "json \<Rightarrow> client_block" where
  "json_block j =
     (let ty = jstring (jfield ''type'' j) in
      if ty = ''text'' then CText (jstring (jfield ''text'' j))
      else if ty = ''thinking'' then CThinking (jstring (jfield ''thinking'' j))
      else CTool (jstring (jfield ''id'' j)) (jstring (jfield ''name'' j)) (json_stringify (nullish (jfield ''input'' j) JNull)))"

definition read_message :: "json \<Rightarrow> anthropic_reply" where
  "read_message j = \<lparr>ay_id = jstring (jfield ''id'' j), ay_model = jstring (jfield ''model'' j),
     ay_blocks = map json_block (jlist (jfield ''content'' j)), ay_stop = jstring (jfield ''stop_reason'' j), ay_usage = jfield ''usage'' j\<rparr>"

fun normal_block :: "client_block \<Rightarrow> client_block" where
  "normal_block (CTool i n a) = CTool i n (json_stringify (JObj (parseJsonObject a)))"
| "normal_block b = b"

section \<open>Lemmas\<close>

lemma client_run_append: "client_run s (fs @ gs) = Option.bind (client_run s fs) (\<lambda>s'. client_run s' gs)"
  by (induction s fs rule: client_run.induct) (auto split: sum.split option.split bind_split)

abbreviation frames :: "wire_event list \<Rightarrow> (string \<times> json result) list" where
  "frames ws \<equiv> map (\<lambda>(ev, d). (ev, Inr (JObj d))) ws"

definition wire_ok :: "wire_event \<Rightarrow> bool" where
  "wire_ok = (\<lambda>(ev, d). newline \<notin> set ev \<and> json_ok (JObj d))"

lemma read_frames_lines:
  "list_all wire_ok ws \<Longrightarrow> read_frames (split_lines (concat (map eventLine ws) @ s)) = frames ws @ read_frames (split_lines s)"
proof (induction ws)
  case (Cons w ws)
  obtain ev d where w: "w = (ev, d)" by fastforce
  let ?ev = "''event: '' @ ev" and ?da = "''data: '' @ json_stringify (JObj d)"
  let ?s = "concat (map eventLine ws) @ s"
  have nl: "newline \<notin> set ?ev" "newline \<notin> set ?da" and ok: "json_ok (JObj d)"
    using Cons.prems stringify_no_newline [of "JObj d"] by (auto simp: w wire_ok_def)
  have "eventLine w @ ?s = ?ev @ newline # ?da @ newline # [] @ newline # ?s" by (simp add: w eventLine_def)
  then have "split_lines (eventLine w @ ?s) = ?ev # ?da # [] # split_lines ?s"
    using nl by (simp only: split_lines_append split_lines.simps append_Nil if_True simp_thms)
  with Cons json_roundtrip [OF ok] show ?case by (simp add: w)
qed simp

lemma wire_ok_blocks:
  "wire_ok (block_start i j) \<longleftrightarrow> json_ok j" "wire_ok (block_delta i j) \<longleftrightarrow> json_ok j" "wire_ok (block_stop i)"
  "wire_ok message_stop" "wire_ok (message_start s)" "wire_ok (message_delta d)"
  by (simp_all add: wire_ok_def block_start_def block_delta_def block_stop_def message_stop_def message_start_def message_delta_def
      mapSseDoneUsageToAnthropic_def mapGatewayUsageToAnthropic_def opt_num_def split: option.split)

lemma tool_blocks_ok: "list_all wire_ok (fst (emit_tool_blocks s cs))"
  by (induction s cs rule: emit_tool_blocks.induct)
    (auto simp: emit_tool_block_def nextToolBlockIndex_def wire_ok_blocks tool_use_block_def split: prod.splits)

lemma tool_blocks_ok': "emit_tool_blocks s cs = (es, s') \<Longrightarrow> list_all wire_ok es"
  by (metis fst_conv tool_blocks_ok)

lemma anthropic_step_ok: "list_all wire_ok (fst (anthropic_step e s))"
  by (cases e) (auto simp: wire_ok_blocks Let_def done_thinking_def done_tools_def emitThinkingBlock_def nextToolBlockIndex_def dest: tool_blocks_ok'
      split: prod.splits option.splits bool.splits if_splits)

lemma anthropic_read_lines:
  "read_frames (split_lines (concat (anthropic_lines (e # es) s))) =
     frames (fst (anthropic_step e s)) @ read_frames (split_lines (concat (anthropic_lines es (snd (anthropic_step e s)))))"
  by (simp add: mapSseEventToAnthropic_def read_frames_lines [OF anthropic_step_ok] split_beta)

text \<open>The client accepts a block that is opened with the next free index.\<close>

lemma client_run_block:
  assumes "open_block (Some b) = Some c0" and "extend_block (Some d) c0 = Some c"
  shows "client_run (Between n, r) (frames [block_start n b, block_delta n d, block_stop n] @ fs) =
    client_run (Between (n + 1), r\<lparr>ay_blocks := ay_blocks r @ [c]\<rparr>) fs"
  using assms by (simp add: block_start_def block_delta_def block_stop_def has_index_def)

definition next_index :: "anthropic_stream_state \<Rightarrow> nat" where
  "next_index s = (if as_textBlockStarted s then as_blockIndex s + 1 else as_blockIndex s)"

lemma nextToolBlockIndex_next:
  "nextToolBlockIndex s = (next_index s, s\<lparr>as_blockIndex := as_blockIndex s + 1\<rparr>)"
  "next_index (s\<lparr>as_blockIndex := Suc (as_blockIndex s)\<rparr>) = Suc (next_index s)"
  "next_index (s\<lparr>as_activeToolBlockIndex := a\<rparr>) = next_index s"
  "next_index (s\<lparr>as_thinkingBlockEmitted := t\<rparr>) = next_index s"
  by (simp_all add: nextToolBlockIndex_def next_index_def)

definition call_block :: "gateway_tool_call \<Rightarrow> client_block" where
  "call_block c = CTool (tc_id c) (tc_name c) (tc_arguments c)"

lemma client_run_tools:
  "client_run (Between (next_index s), r) (frames (fst (emit_tool_blocks s cs)) @ fs) =
     client_run (Between (next_index s + length cs), r\<lparr>ay_blocks := ay_blocks r @ map call_block cs\<rparr>) fs"
proof (induction cs arbitrary: s r)
  case (Cons c cs)
  let ?s = "s\<lparr>as_blockIndex := as_blockIndex s + 1, as_activeToolBlockIndex := Some (next_index s)\<rparr>"
  have n: "next_index ?s = next_index s + 1" by (simp add: next_index_def)
  have o: "open_block (Some (tool_use_block c [])) = Some (CTool (tc_id c) (tc_name c) [])"
    by (simp add: open_block_def tool_use_block_def)
  have e: "fst (emit_tool_blocks s (c # cs)) = [block_start (next_index s) (tool_use_block c []),
      block_delta (next_index s) (JObj [(''type'', JStr ''input_json_delta''), (''partial_json'', JStr (tc_arguments c))]),
      block_stop (next_index s)] @ fst (emit_tool_blocks ?s cs)"
    by (simp add: emit_tool_block_def nextToolBlockIndex_next split: prod.splits)
  have "client_run (Between (next_index s), r) (frames (fst (emit_tool_blocks s (c # cs))) @ fs) =
      client_run (Between (next_index ?s), r\<lparr>ay_blocks := ay_blocks r @ [call_block c]\<rparr>) (frames (fst (emit_tool_blocks ?s cs)) @ fs)"
    unfolding e n map_append append_assoc
    by (rule client_run_block [OF o]) (simp add: call_block_def)
  also have "\<dots> = client_run (Between (next_index s + length (c # cs)), r\<lparr>ay_blocks := ay_blocks r @ map call_block (c # cs)\<rparr>) fs"
    by (subst Cons.IH) (simp add: next_index_def)
  finally show ?case .
qed simp

lemma client_run_deltas:
  "as_textBlockStarted s \<Longrightarrow>
   client_run (InBlock (as_blockIndex s) (CText t), r) (read_frames (split_lines (concat (anthropic_lines (map SseDelta ts @ es) s)))) =
   client_run (InBlock (as_blockIndex s) (CText (t @ concat ts)), r) (read_frames (split_lines (concat (anthropic_lines es s))))"
proof (induction ts arbitrary: t)
  case (Cons x ts)
  have "snd (anthropic_step (SseDelta x) s) = s" "fst (anthropic_step (SseDelta x) s) =
      [block_delta (as_blockIndex s) (JObj [(''type'', JStr ''text_delta''), (''text'', JStr x)])]"
    using Cons.prems by (cases s; simp)+
  then have "read_frames (split_lines (concat (anthropic_lines (map SseDelta (x # ts) @ es) s))) =
      frames [block_delta (as_blockIndex s) (JObj [(''type'', JStr ''text_delta''), (''text'', JStr x)])] @
      read_frames (split_lines (concat (anthropic_lines (map SseDelta ts @ es) s)))"
    by (simp only: anthropic_read_lines list.map append_Cons)
  with Cons.IH [OF Cons.prems] show ?case
    by (simp add: block_delta_def has_index_def)
qed simp

text \<open>The end of a stream, from the state after the last delta.\<close>

definition thinking_blocks :: "string option \<Rightarrow> client_block list" where
  "thinking_blocks th = (case truthy_str th of Some t \<Rightarrow> [CThinking t] | None \<Rightarrow> [])"

lemma client_run_done:
  assumes "\<not> as_thinkingBlockEmitted s"
    and "(if as_textBlockStarted s then InBlock (as_blockIndex s) b else Between (as_blockIndex s)) = ph"
  shows "client_run (ph, r) (read_frames (split_lines (concat (anthropic_lines [SseDone d] s)))) =
    Some (Finished, r\<lparr>ay_blocks := ay_blocks r @ (if as_textBlockStarted s then [b] else []) @ thinking_blocks (sd_thinkingContent d) @
        map call_block (nullish (sd_toolCalls d) []),
      ay_stop := mapGatewayFinishReasonToAnthropicStopReason (Some (sd_finishReason d)), ay_usage := Some (mapSseDoneUsageToAnthropic d)\<rparr>)"
proof -
  let ?r = "r\<lparr>ay_blocks := ay_blocks r @ (if as_textBlockStarted s then [b] else [])\<rparr>"
  let ?r2 = "?r\<lparr>ay_blocks := ay_blocks ?r @ thinking_blocks (sd_thinkingContent d)\<rparr>"
  let ?tail = "[message_delta d, message_stop]"
  have fin: "client_run (Between n, x) (frames ?tail) = Some (Finished, x\<lparr>ay_stop := mapGatewayFinishReasonToAnthropicStopReason (Some (sd_finishReason d)),
      ay_usage := Some (mapSseDoneUsageToAnthropic d)\<rparr>)" for n x
    by (simp add: message_delta_def message_stop_def)
  obtain th s1 where th: "done_thinking s d = (th, s1)" by fastforce
  obtain tools s2 where tools: "done_tools s1 d = (tools, s2)" by fastforce
  have step: "read_frames (split_lines (concat (anthropic_lines [SseDone d] s))) =
      frames ((if as_textBlockStarted s then [block_stop (as_blockIndex s)] else []) @ th @ tools @ ?tail)"
    by (simp add: anthropic_read_lines th tools del: anthropic_lines.simps(2))
  have close: "client_run (ph, r) (frames (if as_textBlockStarted s then [block_stop (as_blockIndex s)] else []) @ fs) =
      client_run (Between (next_index s), ?r) fs" for fs
    using assms(2) by (auto simp: block_stop_def has_index_def next_index_def)
  have think: "client_run (Between (next_index s), ?r) (frames th @ fs) = client_run (Between (next_index s1), ?r2) fs" for fs
  proof (cases "truthy_str (sd_thinkingContent d)")
    case None
    then show ?thesis using th by (auto simp: thinking_blocks_def done_thinking_def)
  next
    case (Some t)
    then have e: "th = [block_start (next_index s) (JObj [(''type'', JStr ''thinking''), (''thinking'', JStr [])]),
          block_delta (next_index s) (JObj [(''type'', JStr ''thinking_delta''), (''thinking'', JStr t)]), block_stop (next_index s)]"
      and n: "next_index s1 = next_index s + 1"
      using th assms(1) by (auto simp: done_thinking_def emitThinkingBlock_def nextToolBlockIndex_next)
    from Some have tb: "thinking_blocks (sd_thinkingContent d) = [CThinking t]" by (simp add: thinking_blocks_def)
    show ?thesis unfolding e n tb
      by (rule client_run_block [where ?c0.0 = "CThinking []"]) (simp_all add: open_block_def)
  qed
  have tool: "client_run (Between (next_index s1), ?r2) (frames tools @ fs) =
      client_run (Between (next_index s1 + length (nullish (sd_toolCalls d) [])), ?r2\<lparr>ay_blocks := ay_blocks ?r2 @ map call_block (nullish (sd_toolCalls d) [])\<rparr>) fs" for fs
    using tools client_run_tools [of s1 ?r2 "nullish (sd_toolCalls d) []" fs]
    by (cases "sd_toolCalls d" rule: truthy_list_cases) (simp_all add: done_tools_def del: truthy_eq_None truthy_list_eq_Some)
  show ?thesis unfolding step map_append close think tool fin by simp
qed

text \<open>What a client of the stream reads, for any text, thinking, tool calls and end of the reply.\<close>

definition text_blocks :: "string list \<Rightarrow> client_block list" where
  "text_blocks ts = (if ts = [] then [] else [CText (concat ts)])"

lemma anthropic_stream_read:
  "read_anthropic_body (concat (anthropic_lines (SseMeta m # map SseDelta ts @ [SseDone d]) (createAnthropicStreamState model))) =
     Some \<lparr>ay_id = ''msg_'' @ strip_gw (sm_id m), ay_model = model,
           ay_blocks = text_blocks ts @ thinking_blocks (sd_thinkingContent d) @ map call_block (nullish (sd_toolCalls d) []),
           ay_stop = mapGatewayFinishReasonToAnthropicStopReason (Some (sd_finishReason d)),
           ay_usage = Some (mapSseDoneUsageToAnthropic d)\<rparr>"
proof -
  define s where "s = (createAnthropicStreamState model)\<lparr>as_messageId := ''msg_'' @ strip_gw (sm_id m), as_messageSent := True\<rparr>"
  let ?r = "\<lparr>ay_id = ''msg_'' @ strip_gw (sm_id m), ay_model = model, ay_blocks = [], ay_stop = [], ay_usage = None\<rparr>"
  have s: "as_blockIndex s = 0" "\<not> as_textBlockStarted s" "\<not> as_thinkingBlockEmitted s"
    by (simp_all add: s_def createAnthropicStreamState_def)
  have start: "snd (anthropic_step (SseMeta m) (createAnthropicStreamState model)) = s"
    "fst (anthropic_step (SseMeta m) (createAnthropicStreamState model)) = [message_start s]"
    by (simp_all add: s_def createAnthropicStreamState_def Let_def message_start_def)
  have run: "client_run (AwaitStart, \<lparr>ay_id = [], ay_model = [], ay_blocks = [], ay_stop = [], ay_usage = None\<rparr>)
      (read_frames (split_lines (concat (anthropic_lines (SseMeta m # es) (createAnthropicStreamState model))))) =
      client_run (Between 0, ?r) (read_frames (split_lines (concat (anthropic_lines es s))))" for es
    unfolding anthropic_read_lines start by (simp add: message_start_def) (simp add: s_def createAnthropicStreamState_def)
  show ?thesis
  proof (cases ts)
    case Nil
    show ?thesis
      using client_run_done [OF s(3), of "CText []" "Between 0" ?r d] s(1,2)
      by (simp add: read_anthropic_body_def run Nil text_blocks_def del: anthropic_lines.simps)
  next
    case (Cons t us)
    let ?s = "s\<lparr>as_textBlockStarted := True\<rparr>"
    have first: "fst (anthropic_step (SseDelta t) s) = [block_start 0 (JObj [(''type'', JStr ''text''), (''text'', JStr [])]),
        block_delta 0 (JObj [(''type'', JStr ''text_delta''), (''text'', JStr t)])]" "snd (anthropic_step (SseDelta t) s) = ?s"
      using s(1,2) by simp_all
    have "client_run (Between 0, ?r) (read_frames (split_lines (concat (anthropic_lines (SseDelta t # map SseDelta us @ [SseDone d]) s)))) =
        client_run (InBlock 0 (CText t), ?r) (read_frames (split_lines (concat (anthropic_lines (map SseDelta us @ [SseDone d]) ?s))))"
      unfolding anthropic_read_lines first by (simp add: block_start_def block_delta_def has_index_def open_block_def)
    also have "\<dots> = client_run (InBlock 0 (CText (t @ concat us)), ?r) (read_frames (split_lines (concat (anthropic_lines [SseDone d] ?s))))"
      using client_run_deltas [of ?s t ?r us "[SseDone d]"] s(1) by simp
    finally show ?thesis
      using client_run_done [of ?s "CText (t @ concat us)" "InBlock 0 (CText (t @ concat us))" ?r d] s(1,3)
      by (simp add: read_anthropic_body_def run Cons text_blocks_def del: anthropic_lines.simps)
  qed
qed

lemma nullish_truthy [simp]: "nullish (truthy_list x) [] = nullish x []"
  by (simp add: truthy_list_def split: option.split)

lemma json_block_simps:
  "json_block (JObj [(''type'', JStr ''thinking''), (''thinking'', JStr th)]) = CThinking th"
  "json_block (JObj [(''type'', JStr ''text''), (''text'', JStr t)]) = CText t"
  "json_block (tool_use_block c kvs) = CTool (tc_id c) (tc_name c) (json_stringify (JObj kvs))"
  by (simp_all add: json_block_def Let_def tool_use_block_def)

lemma tool_input_args: "tool_input c = parseJsonObject (tc_arguments c)"
proof -
  have "json_parse ''{}'' = Inr (JObj [])" "json_parse [] = Inl syntax_error" by code_simp+
  then show ?thesis by (simp add: tool_input_def parseJsonObject_def)
qed

lemma read_message_blocks:
  "read_message (mapGatewayResponseToAnthropicFormat r model) =
     \<lparr>ay_id = ''msg_'' @ strip_gw (dto_id r), ay_model = model,
      ay_blocks = thinking_blocks (dto_thinkingContent r) @ (if dto_text r \<noteq> [] then [CText (dto_text r)] else []) @
        map (normal_block \<circ> call_block) (nullish (dto_toolCalls r) []),
      ay_stop = mapGatewayFinishReasonToAnthropicStopReason (dto_finishReason r),
      ay_usage = Some (mapGatewayUsageToAnthropic (Option.bind (dto_usage r) ru_inputTokens)
        (Option.bind (dto_usage r) ru_outputTokens) (dto_usageDetails r))\<rparr>"
proof -
  have calls: "map json_block (case truthy_list x of Some cs \<Rightarrow> mapGatewayToolCallsToAnthropic cs | None \<Rightarrow> []) =
      map (normal_block \<circ> call_block) (nullish x [])" for x
    by (cases x rule: truthy_list_cases)
      (simp_all add: mapGatewayToolCallsToAnthropic_def json_block_simps tool_input_args call_block_def del: truthy_eq_None truthy_list_eq_Some)
  have th: "map json_block (case truthy_str x of Some th \<Rightarrow> [JObj [(''type'', JStr ''thinking''), (''thinking'', JStr th)]] | None \<Rightarrow> []) =
      thinking_blocks x" for x by (simp add: thinking_blocks_def json_block_simps split: option.split)
  show ?thesis
    by (simp add: read_message_def mapGatewayResponseToAnthropicFormat_def Let_def calls th json_block_simps)
qed

text \<open>The blocks of a user turn are regrouped: the text goes in front of the tool results, even of those it followed, so the
  results no longer come right after the assistant's tool calls they answer.\<close>

lemma text_overtakes_tool_results:
  assumes "ab_type b = BToolResult" "ab_tool_use_id b = Some i" "i \<noteq> []" "ab_type c = BText" "ab_text c = Some t" "t \<noteq> []"
  shows "\<exists>u v. mapAnthropicContentBlockToGateway AUser [b, c] = Inr [u, v] \<and> msg_role u = RUser \<and> msg_content u = t \<and>
    msg_role v = RTool \<and> msg_toolCallId v = Some i"
  using assms by (simp add: mapAnthropicContentBlockToGateway_def Let_def)

section \<open>Properties\<close>

text \<open>C8. A streamed reply of the Anthropic facade obeys the protocol and says what the JSON message says: a client that insists on the order of events
  and on consecutive block indices accepts the stream of every reply, split into deltas in any way, and reads the id, model,
  stop reason and usage of the JSON message for the same provider result, and its blocks, each tool input as
  the same JSON object. Only the order differs: the JSON message has the thinking before the text, the stream the
  text before the thinking.\<close>

theorem anthropic_stream_agrees_with_json:
  "let p = \<lparr>prr_text = concat ts, prr_usage = map_option (\<lambda>u. \<lparr>ru_inputTokens = Some (inputTokens u),
         ru_outputTokens = Some (outputTokens u), ru_totalTokens = None\<rparr>) usage, prr_toolCalls = calls, prr_stopReason = sr,
         prr_usageDetails = details, prr_systemFingerprint = fp, prr_thinkingContent = thinking\<rparr>;
       done = buildStreamDoneEvent usage calls sr fp thinking options providerType details eff;
       stream = concat (anthropic_lines (SseMeta m # map SseDelta ts @ [done]) (createAnthropicStreamState model));
       (data, w') = buildChatResponse uuidv4 p providerName alias' requestId convId eff options providerType (Some (sm_id m)) w;
       message = read_message (mapGatewayResponseToAnthropicFormat (toChatResponseDto data) model);
       tools = map call_block (nullish calls [])
   in \<exists>s. read_anthropic_body stream = Some s \<and> s\<lparr>ay_blocks := bs\<rparr> = message\<lparr>ay_blocks := bs\<rparr> \<and>
      filter (\<lambda>b. b \<noteq> CText []) (ay_blocks s) = (if concat ts = [] then [] else [CText (concat ts)]) @ thinking_blocks thinking @ tools \<and>
      ay_blocks message = thinking_blocks thinking @ (if concat ts = [] then [] else [CText (concat ts)]) @ map normal_block tools"
proof -
  have "thinking_blocks (truthy_str x) = thinking_blocks x" for x
    by (simp add: thinking_blocks_def truthy_str_def split: option.split)
  moreover have "filter (\<lambda>b. b \<noteq> CText []) (thinking_blocks x) = thinking_blocks x" for x
    by (simp add: thinking_blocks_def split: option.split)
  moreover have "filter (\<lambda>b. b \<noteq> CText []) (map call_block cs) = map call_block cs" for cs
    by (simp add: call_block_def filter_id_conv)
  ultimately show ?thesis
    by (cases usage) (simp_all add: Let_def buildStreamDoneEvent_def anthropic_stream_read buildChatResponse_def toChatResponseDto_def
        read_message_blocks text_blocks_def mapSseDoneUsageToAnthropic_def sse_usage_of_def comp_def del: anthropic_lines.simps)
qed

end
