(* ===== verification/Facade_Controllers.thy ===== *)
theory Facade_Controllers
  imports Anthropic_Facade Chat_Service
begin

text \<open>
  Guards, exception filters and controllers of the two facades, composed with the chat service. The header a guard reads is an
  argument; the state object a stream handler allocates for its mapper is a cell of the world.
\<close>

section \<open>Guards (openai-bearer-auth.guard.ts, anthropic-api-key.guard.ts)\<close>

definition readAuthorizationHeader :: "header_value option \<Rightarrow> string option" where
  "readAuthorizationHeader auth =
     (case auth of
        None \<Rightarrow> None
      | Some (HdrString s) \<Rightarrow> Some (js_trim s)
      | Some (HdrArray entries) \<Rightarrow> map_option js_trim (find (\<lambda>e. e \<noteq> []) entries))"

text \<open>The expression \<open>/^Bearer\s+(.+)$/i\<close>: a dot matches no line terminator.\<close>

definition bearer_match :: "string \<Rightarrow> string option" where
  "bearer_match v =
     (let rest = drop 6 v; token = dropWhile js_whitespace rest in
      if js_lower (take 6 v) = ''bearer'' \<and> rest \<noteq> [] \<and> js_whitespace (hd rest) \<and> token \<noteq> [] \<and>
         CHR 0x0A \<notin> set token \<and> CHR 0x0D \<notin> set token
      then Some token else None)"

definition readBearerToken :: "header_value option \<Rightarrow> string option" where
  "readBearerToken auth =
     (case truthy_str (readAuthorizationHeader auth) of
        None \<Rightarrow> None
      | Some v \<Rightarrow> map_option js_trim (bearer_match v))"

definition readAnthropicApiKey :: "string option \<Rightarrow> header_value option \<Rightarrow> string option" where
  "readAnthropicApiKey xApiKey auth =
     (case truthy_str (map_option js_trim xApiKey) of Some k \<Rightarrow> Some k | None \<Rightarrow> readBearerToken auth)"

definition OpenAiBearerAuthGuard_canActivate ::
  "gateway_key_runtime option \<Rightarrow> header_value option \<Rightarrow> http_request \<Rightarrow> http_request result" where
  "OpenAiBearerAuthGuard_canActivate cfg auth req =
     (let allowed_keys = nullish (map_option allowList cfg) [] in
      if allowed_keys = []
      then Inl (HttpException 500 (JObj [(''statusCode'', JNum 500), (''code'', JStr (code_string GATEWAY_KEY_NOT_CONFIGURED)),
             (''message'', JStr ''Gateway key allowlist is not configured.'')]))
      else case truthy_str (readBearerToken auth) of
          None \<Rightarrow> Inl (api_exception_req 401 GATEWAY_KEY_MISSING ''Missing Authorization: Bearer token.'' (rq_requestId req))
        | Some token \<Rightarrow>
            if token \<notin> set allowed_keys
            then Inl (api_exception_req 403 GATEWAY_KEY_INVALID ''Invalid Authorization: Bearer token.'' (rq_requestId req))
            else Inr (enrichRequestWithClientId req token cfg))"

definition AnthropicApiKeyGuard_canActivate ::
  "gateway_key_runtime option \<Rightarrow> string option \<Rightarrow> header_value option \<Rightarrow> http_request \<Rightarrow> http_request result" where
  "AnthropicApiKeyGuard_canActivate cfg xApiKey auth req =
     (let allowed_keys = nullish (map_option allowList cfg) [] in
      if allowed_keys = []
      then Inl (api_exception_req 500 GATEWAY_KEY_NOT_CONFIGURED ''Gateway key allowlist is not configured.'' (rq_requestId req))
      else case truthy_str (readAnthropicApiKey xApiKey auth) of
          None \<Rightarrow> Inl (api_exception_req 401 GATEWAY_KEY_MISSING ''Missing x-api-key or Authorization header.'' (rq_requestId req))
        | Some key \<Rightarrow>
            if key \<notin> set allowed_keys
            then Inl (api_exception_req 403 GATEWAY_KEY_INVALID ''Invalid API key.'' (rq_requestId req))
            else Inr (enrichRequestWithClientId req key cfg))"

section \<open>Exception filters (openai-exception.filter.ts, anthropic-exception.filter.ts)\<close>

text \<open>\<open>Array.prototype.join\<close> on the elements of a message array.\<close>

fun js_string :: "json \<Rightarrow> string" where
  "js_string JNull = []"
| "js_string (JBool b) = (if b then ''true'' else ''false'')"
| "js_string (JNum q) = show_rat q"
| "js_string (JStr s) = s"
| "js_string (JArr vs) = js_join '','' (map js_string vs)"
| "js_string (JObj kvs) = ''[object Object]''"

definition body_message :: "string \<Rightarrow> json \<Rightarrow> string" where
  "body_message deflt body =
     (case body of
        JStr m \<Rightarrow> m
      | JObj kvs \<Rightarrow> (case jget kvs ''message'' of
            Some (JArr vs) \<Rightarrow> js_join ''; '' (map js_string vs)
          | Some (JStr m) \<Rightarrow> m
          | _ \<Rightarrow> deflt)
      | _ \<Rightarrow> deflt)"

definition body_code :: "json \<Rightarrow> string option" where
  "body_code body = (case body of JObj kvs \<Rightarrow> (case jget kvs ''code'' of Some (JStr c) \<Rightarrow> Some c | _ \<Rightarrow> None) | _ \<Rightarrow> None)"

definition openai_mapType :: "nat \<Rightarrow> string option \<Rightarrow> string" where
  "openai_mapType status code =
     (if code = Some (code_string RATE_LIMITED) \<or> code = Some (code_string PROVIDER_RATE_LIMITED) then ''rate_limit_error''
      else if code = Some (code_string TOOLS_NOT_SUPPORTED) \<or> code = Some (code_string THINKING_NOT_SUPPORTED) then ''invalid_request_error''
      else if status = 401 \<or> status = 403 then ''authentication_error''
      else if status = 400 then ''invalid_request_error''
      else if 500 \<le> status \<and> status \<le> 599 then ''server_error''
      else ''invalid_request_error'')"

definition anthropic_mapType :: "nat \<Rightarrow> string option \<Rightarrow> string" where
  "anthropic_mapType status code =
     (if code = Some (code_string RATE_LIMITED) \<or> code = Some (code_string PROVIDER_RATE_LIMITED) then ''rate_limit_error''
      else if code = Some (code_string TOOLS_NOT_SUPPORTED) \<or> code = Some (code_string THINKING_NOT_SUPPORTED) then ''invalid_request_error''
      else if status = 401 \<or> status = 403 then ''authentication_error''
      else if status = 429 then ''rate_limit_error''
      else if status = 400 then ''invalid_request_error''
      else ''api_error'')"

record facade_error =
  fe_headers :: "(string \<times> string) list"
  fe_status :: nat
  fe_body :: json

definition OpenAiExceptionFilter_catch :: "jserr \<Rightarrow> string option \<Rightarrow> facade_error" where
  "OpenAiExceptionFilter_catch e requestId =
     (let (status, message, type', code) =
        (case e of
           HttpException st body \<Rightarrow>
             (st, body_message ''An unexpected error occurred'' body, openai_mapType st (body_code body), body_code body)
         | _ \<Rightarrow> (500, ''An unexpected error occurred'', ''server_error'', None))
      in \<lparr>fe_headers = (case truthy_str requestId of Some r \<Rightarrow> [(''x-request-id'', r)] | None \<Rightarrow> []), fe_status = status,
          fe_body = JObj [(''error'', JObj [(''message'', JStr message), (''type'', JStr type'), (''param'', JNull),
            (''code'', case code of Some c \<Rightarrow> JStr c | None \<Rightarrow> JNull)])]\<rparr>)"

definition AnthropicExceptionFilter_catch :: "jserr \<Rightarrow> facade_error" where
  "AnthropicExceptionFilter_catch e =
     (let (status, message, type') =
        (case e of
           HttpException st body \<Rightarrow> (st, body_message ''An unexpected error occurred.'' body, anthropic_mapType st (body_code body))
         | _ \<Rightarrow> (500, ''An unexpected error occurred.'', ''api_error''))
      in \<lparr>fe_headers = [], fe_status = status,
          fe_body = JObj [(''type'', JStr ''error''), (''error'', JObj [(''type'', JStr type'), (''message'', JStr message)])]\<rparr>)"

section \<open>Streams of the facades (handleStream)\<close>

record ('w, 's) cell =
  cell_get :: "'w \<Rightarrow> 's"
  cell_set :: "'s \<Rightarrow> 'w \<Rightarrow> 'w"

definition write_line :: "'w http_response \<Rightarrow> string \<Rightarrow> 'w \<Rightarrow> 'w" where
  "write_line res line w = (if \<not> hr_writableEnded res w then hr_write res line w else w)"

definition facade_emit ::
  "(sse_event \<Rightarrow> 's \<Rightarrow> string list \<times> 's) \<Rightarrow> ('w, 's) cell \<Rightarrow> 'w http_response \<Rightarrow> sse_event \<Rightarrow> 'w \<Rightarrow> 'w" where
  "facade_emit mapEvent state res event w =
     (case mapEvent event (cell_get state w) of (lines, s) \<Rightarrow> fold (write_line res) lines (cell_set state s w))"

definition GATEWAY_CACHE_HEADER :: string where
  "GATEWAY_CACHE_HEADER = ''X-Gateway-Cache''"

definition facade_headers :: "(string \<times> string) list \<Rightarrow> http_request \<Rightarrow> 'w stream_cache_decision \<Rightarrow> (string \<times> string) list" where
  "facade_headers base req decision =
     base @ (if rq_requestId req \<noteq> [] then [(''x-request-id'', rq_requestId req)] else []) @
     (case decision of StreamCacheHit prep cached src \<Rightarrow> [(GATEWAY_CACHE_HEADER, cache_source_string src)] | StreamCacheMiss prep es \<Rightarrow> [])"

text \<open>The body of the outer \<open>try\<close>: the cache decision, the headers, then replay or live stream.\<close>

definition serve_stream ::
  "'w chat_env \<Rightarrow> 'w http_response \<Rightarrow> http_request \<Rightarrow> ingress_profile \<Rightarrow> (string \<times> string) list \<Rightarrow> (sse_event \<Rightarrow> 'w \<Rightarrow> 'w) \<Rightarrow>
   string \<Rightarrow> chat_request \<Rightarrow> ('w, unit) io" where
  "serve_stream env res req profile base emit gatewayKey r =
     (let requestId = rq_requestId req; clientId = request_client req in
      io_bind (resolveStreamCache env r requestId clientId profile gatewayKey) (\<lambda>decision.
      io_bind (io_update (hr_writeHead res 200 (facade_headers base req decision))) (\<lambda>_.
        io_finally
          (case decision of
             StreamCacheHit prep cached src \<Rightarrow>
               io_update (replayStreamCacheHit prep cached src requestId emit (Some (hr_writableEnded res)))
           | StreamCacheMiss prep embedState \<Rightarrow>
               executeStreamMiss env r requestId clientId emit gatewayKey prep embedState)
          (io_update (hr_end res)))))"

text \<open>What both handlers do around it: the streaming check, the stream slot, the mapping of the request and, in the
  \<open>finally\<close> clause of the \<open>try\<close> that begins after the mapping, the release of the slot.\<close>

definition facade_handleStream ::
  "'w chat_env \<Rightarrow> http_request \<Rightarrow> string \<Rightarrow> string \<Rightarrow> string \<Rightarrow> chat_request result \<Rightarrow> (chat_request \<Rightarrow> ('w, unit) io) \<Rightarrow> ('w, unit) io" where
  "facade_handleStream env req model limitMessage gatewayKey gatewayRequest serve =
     io_bind (io_lift (validateForStreaming (ch_gateway env) (ch_registry env) (\<lambda>p. ap_stream p \<noteq> None) model)) (\<lambda>_.
     io_bind (checkConcurrentStreams (ch_limiter env) gatewayKey (request_client req)) (\<lambda>streamsCheck.
       if \<not> allowed streamsCheck then io_throw (too_many_requests streamsCheck limitMessage req)
       else io_bind (io_lift gatewayRequest) (\<lambda>r. io_finally (serve r) (releaseStream (ch_limiter env) gatewayKey))))"

definition now_seconds :: "'w chat_env \<Rightarrow> 'w \<Rightarrow> nat" where
  "now_seconds env w = nat (le_now (ch_limiter env) w div 1000)"

definition OpenAi_handleStream ::
  "'w chat_env \<Rightarrow> ('w, openai_stream_state) cell \<Rightarrow> 'w http_response \<Rightarrow> http_request \<Rightarrow> openai_request \<Rightarrow> string \<Rightarrow> ('w, unit) io" where
  "OpenAi_handleStream env state res req body gatewayKey =
     facade_handleStream env req (or_model body) ''Concurrent stream limit exceeded'' gatewayKey (mapOpenAiChatRequestToGateway body) (\<lambda>r.
       io_bind (io_update (\<lambda>w. cell_set state (createOpenAiStreamState (now_seconds env w) (or_model body)
           (or_stream_options_include_usage body = Some True \<or> or_include_usage body = Some True)) w)) (\<lambda>_.
       serve_stream env res req FacadeOpenAi stream_headers (facade_emit mapSseEventToOpenAi state res) gatewayKey r))"

definition Anthropic_handleStream ::
  "'w chat_env \<Rightarrow> ('w, anthropic_stream_state) cell \<Rightarrow> 'w http_response \<Rightarrow> http_request \<Rightarrow> anthropic_request \<Rightarrow> string \<Rightarrow> ('w, unit) io" where
  "Anthropic_handleStream env state res req body gatewayKey =
     facade_handleStream env req (ar_model body) ''Concurrent streams limit exceeded'' gatewayKey (mapAnthropicRequestToGateway body) (\<lambda>r.
       io_bind (io_update (cell_set state (createAnthropicStreamState (ar_model body)))) (\<lambda>_.
       serve_stream env res req FacadeAnthropic
         [(''Content-Type'', ''text/event-stream; charset=utf-8''), (''anthropic-version'', ''2023-06-01''), (''Cache-Control'', ''no-cache'')]
         (facade_emit mapSseEventToAnthropic state res) gatewayKey r))"

section \<open>The endpoints (openai-chat-completions.controller.ts, anthropic-messages.controller.ts)\<close>

datatype facade_answer = JsonAnswer "(string \<times> string) list" json | Streamed

definition reply_dto :: "chat_reply \<Rightarrow> chat_response_dto" where
  "reply_dto result =
     (case result of
        CachedReply cached convId src requestId \<Rightarrow> toChatResponseDtoFromCache cached convId src requestId
      | LiveReply d \<Rightarrow> toChatResponseDto d)"

definition reply_headers :: "chat_reply \<Rightarrow> (string \<times> string) list" where
  "reply_headers result =
     (case result of CachedReply cached convId src requestId \<Rightarrow> [(GATEWAY_CACHE_HEADER, cache_source_string src)] | LiveReply d \<Rightarrow> [])"

definition OpenAi_completions ::
  "'w chat_env \<Rightarrow> ('w, openai_stream_state) cell \<Rightarrow> 'w http_response \<Rightarrow> http_request \<Rightarrow> openai_request \<Rightarrow> ('w, facade_answer) io" where
  "OpenAi_completions env state res req body =
     io_bind (io_lift (requireClientGatewayKey req)) (\<lambda>gatewayKey.
       if or_stream body = Some True
       then io_map (\<lambda>_. Streamed) (OpenAi_handleStream env state res req body gatewayKey)
       else
         io_bind (io_lift (mapOpenAiChatRequestToGateway body)) (\<lambda>r.
         io_bind (executeChat env r (request_client req) (rq_requestId req) gatewayKey FacadeOpenAi) (\<lambda>result.
         io_get (\<lambda>w. JsonAnswer (reply_headers result) (mapChatResponseToOpenAi (now_seconds env w) (reply_dto result) (or_model body))))))"

definition Anthropic_createMessage ::
  "'w chat_env \<Rightarrow> ('w, anthropic_stream_state) cell \<Rightarrow> 'w http_response \<Rightarrow> http_request \<Rightarrow> anthropic_request \<Rightarrow> ('w, facade_answer) io" where
  "Anthropic_createMessage env state res req body =
     io_bind (io_lift (requireClientGatewayKey req)) (\<lambda>gatewayKey.
       if ar_stream body = Some True
       then io_map (\<lambda>_. Streamed) (Anthropic_handleStream env state res req body gatewayKey)
       else
         io_bind (io_lift (mapAnthropicRequestToGateway body)) (\<lambda>r.
         io_bind (executeChat env r (request_client req) (rq_requestId req) gatewayKey FacadeAnthropic) (\<lambda>result.
         io_return (JsonAnswer (reply_headers result) (mapGatewayResponseToAnthropicFormat (reply_dto result) (ar_model body))))))"

end
