(* ===== verification/Facade_Props.thy ===== *)
theory Facade_Props
  imports Facade_Controllers Chat_Props
begin

text \<open>
  Properties of the facades' guards, filters and controllers: the keys they accept, the stream slots they take and
  give back, and what a client of a facade reads when a cached reply is replayed.
\<close>

section \<open>Keys\<close>

lemma trimmed_ends:
  assumes "js_trim k = k" "k \<noteq> []"
  shows "\<not> js_whitespace (hd k)" "\<not> js_whitespace (last k)"
proof -
  let ?d = "dropWhile js_whitespace k"
  have k: "k = rev (dropWhile js_whitespace (rev ?d))" using assms(1) by (simp add: js_trim_def)
  have ne2: "dropWhile js_whitespace (rev ?d) \<noteq> []" using k assms(2) by (metis rev.simps(1))
  then have ne1: "?d \<noteq> []" by (metis dropWhile.simps(1) rev.simps(1))
  have "last k = hd (dropWhile js_whitespace (rev ?d))" by (metis k last_rev)
  then show "\<not> js_whitespace (last k)" using hd_dropWhile [OF ne2] by simp
  have "length k \<le> length ?d" by (metis k length_dropWhile_le length_rev)
  moreover have "length (takeWhile js_whitespace k) + length ?d = length k"
    by (metis length_append takeWhile_dropWhile_id)
  ultimately have "length (takeWhile js_whitespace k) = 0" by linarith
  then have "takeWhile js_whitespace k = []" by blast
  then have "?d = k" by (metis append_Nil takeWhile_dropWhile_id)
  then show "\<not> js_whitespace (hd k)" using hd_dropWhile [OF ne1] by simp
qed

lemma js_trim_id: "\<not> js_whitespace (hd k) \<Longrightarrow> \<not> js_whitespace (last k) \<Longrightarrow> js_trim k = k"
proof (cases "k = []")
  case False
  assume "\<not> js_whitespace (hd k)" "\<not> js_whitespace (last k)"
  moreover have "hd (rev k) = last k" using False by (simp add: hd_rev)
  ultimately have "dropWhile js_whitespace k = k" "dropWhile js_whitespace (rev k) = rev k"
    using False by (metis dropWhile_eq_self_iff, metis dropWhile_eq_self_iff)
  then show ?thesis by (simp add: js_trim_def)
qed simp

lemma readBearerToken_key:
  assumes "js_trim k = k" "k \<noteq> []" "CHR 0x0A \<notin> set k" "CHR 0x0D \<notin> set k"
  shows "readBearerToken (Some (HdrString (''Bearer '' @ k))) = Some k"
proof -
  note ends = trimmed_ends [OF assms(1,2)]
  have "\<not> js_whitespace (CHR ''B'')" by (simp add: js_whitespace_def)
  then have trim: "js_trim (''Bearer '' @ k) = ''Bearer '' @ k"
    using ends assms(2) by (intro js_trim_id) simp_all
  have "dropWhile js_whitespace k = k" using ends(1) assms(2) by (metis dropWhile_eq_self_iff)
  moreover have "js_lower ''Bearer'' = ''bearer''" by code_simp
  moreover have "js_whitespace (CHR '' '')" by (simp add: js_whitespace_def)
  moreover have "\<exists>x \<in> set k. \<not> js_whitespace x" using ends(1) assms(2) hd_in_set by blast
  ultimately have "bearer_match (''Bearer '' @ k) = Some k"
    using assms by (simp add: bearer_match_def)
  with trim assms(1) show ?thesis by (simp add: readBearerToken_def readAuthorizationHeader_def)
qed

text \<open>The three key guards agree: a key that is sent in the native header, as a bearer token to the OpenAI facade or as
  \<open>x-api-key\<close> or bearer token to the Anthropic facade is admitted by all of them or by none, and the admitted request carries the
  same key and client; a refusal has the same status and code.\<close>

lemma facade_guards_agree:
  assumes "js_trim k = k" and "k \<noteq> []" and "CHR 0x0A \<notin> set k" and "CHR 0x0D \<notin> set k"
    and "rq_header req = Some (HdrString k)"
    and "g \<in> {OpenAiBearerAuthGuard_canActivate cfg (Some (HdrString (''Bearer '' @ k))),
              AnthropicApiKeyGuard_canActivate cfg (Some k) auth,
              AnthropicApiKeyGuard_canActivate cfg None (Some (HdrString (''Bearer '' @ k)))}"
  shows "(case GatewayKeyGuard_canActivate cfg req of
      Inr req' \<Rightarrow> k \<in> set (nullish (map_option allowList cfg) []) \<and> g req = Inr req' \<and> readClientGatewayKey req' = Some k
    | Inl e \<Rightarrow> \<exists>e'. g req = Inl e' \<and> http_status e' = http_status e \<and> http_code e' = http_code e)"
proof -
  have b: "readBearerToken (Some (HdrString (''Bearer '' @ k))) = Some k" by (rule readBearerToken_key [OF assms(1-4)])
  have n: "readGatewayKeyHeader req = Some k" using assms(1,2,5) by (simp add: readGatewayKeyHeader_def)
  have "readAnthropicApiKey (Some k) auth = Some k" "readAnthropicApiKey None (Some (HdrString (''Bearer '' @ k))) = Some k"
    using assms(1,2) b by (simp_all add: readAnthropicApiKey_def)
  with assms(1,2,6) b n show ?thesis
    by (auto simp: GatewayKeyGuard_canActivate_def OpenAiBearerAuthGuard_canActivate_def AnthropicApiKeyGuard_canActivate_def Let_def
        api_exception_req_def http_status_def http_code_def)
qed

section \<open>Stream slots\<close>

lemma facade_slot:
  assumes up: "redis_up (ch_limiter env) rd store"
    and valid: "validateForStreaming (ch_gateway env) (ch_registry env) (\<lambda>p. ap_stream p \<noteq> None) model = Inr rv"
    and cnt: "int_of (live (le_now (ch_limiter env) w) (store w (streams_key k))) = Some i"
    and inner: "\<forall>r v x v'. greq = Inr r \<longrightarrow> serve r v = (x, v') \<longrightarrow>
      store v' (streams_key k) = store v (streams_key k) \<and> le_now (ch_limiter env) v' < le_now (ch_limiter env) v + 300000"
    and run: "facade_handleStream env req model msg k greq serve w = (out, w')"
  shows "if i < int (rl_maxConcurrentStreams (getLimitsForClient (ch_limiter env) k))
    then (case greq of
        Inr r \<Rightarrow> int_of (live (le_now (ch_limiter env) w') (store w' (streams_key k))) = Some i
      | Inl e \<Rightarrow> out = Inl e \<and> int_of (live (le_now (ch_limiter env) w') (store w' (streams_key k))) = Some (i + 1))
    else (\<exists>e. out = Inl e \<and> http_status e = Some 429) \<and>
      int_of (live (le_now (ch_limiter env) w') (store w' (streams_key k))) = Some i"
proof -
  let ?l = "ch_limiter env" and ?s = "streams_key k"
  obtain r1 w1 where r1: "checkConcurrentStreams ?l k (request_client req) w = (Inr r1, w1)" "le_now ?l w1 = le_now ?l w"
    "allowed r1 \<longleftrightarrow> i < int (rl_maxConcurrentStreams (getLimitsForClient ?l k))"
    "if allowed r1 then store w1 ?s = Some (RInt (i + 1), Some (le_now ?l w + 300000)) else int_of (live (le_now ?l w1) (store w1 ?s)) = Some i"
    using check_streams_count [OF up cnt] by blast
  consider "\<not> allowed r1" | e where "allowed r1" "greq = Inl e" | r where "allowed r1" "greq = Inr r" by (cases greq) auto
  then show ?thesis
  proof cases
    case 1
    then show ?thesis using r1 run valid
      by (auto simp: facade_handleStream_def io_bind_apply too_many_requests_def api_exception_req_def http_status_def)
  next
    case 2
    then show ?thesis using r1 run valid by (simp add: facade_handleStream_def io_bind_apply live_def)
  next
    case 3
    obtain x w2 where x: "serve r w1 = (x, w2)" by fastforce
    obtain u w3 where rel: "releaseStream ?l k w2 = (u, w3)" by fastforce
    have "w' = w3" using 3 r1 run valid x rel by (simp add: facade_handleStream_def io_bind_apply io_finally_def)
    moreover have "int_of (live (le_now ?l w2) (store w2 ?s)) = Some (i + 1)"
      using inner [rule_format, OF 3(2) x] r1 3(1) by (simp add: live_def)
    ultimately show ?thesis using release_stream_run [OF up _ rel] r1(3) 3 by fastforce
  qed
qed

text \<open>The facades give a stream slot back: when the request can be mapped, a streamed request leaves the
  stream counter of its key as it found it, however the stream ends, and when the limit is reached it is refused with 429,
  provided serving it takes less than the five minutes after which the counter expires.\<close>

lemma facade_stream_slot_returned:
  assumes "redis_up (ch_limiter env) rd store"
    and "validateForStreaming (ch_gateway env) (ch_registry env) (\<lambda>p. ap_stream p \<noteq> None) (or_model body) = Inr rv"
    and "int_of (live (le_now (ch_limiter env) w) (store w (streams_key k))) = Some i"
    and "mapOpenAiChatRequestToGateway body = Inr r"
    and "\<And>s v. store (cell_set state s v) = store v \<and> le_now (ch_limiter env) (cell_set state s v) = le_now (ch_limiter env) v"
    and "\<And>v x v'. serve_stream env res req FacadeOpenAi stream_headers (facade_emit mapSseEventToOpenAi state res) k r v = (x, v') \<Longrightarrow>
      store v' (streams_key k) = store v (streams_key k) \<and> le_now (ch_limiter env) v' < le_now (ch_limiter env) v + 300000"
    and "OpenAi_handleStream env state res req body k w = (out, w')"
  shows "int_of (live (le_now (ch_limiter env) w') (store w' (streams_key k))) = Some i \<and>
    (int (rl_maxConcurrentStreams (getLimitsForClient (ch_limiter env) k)) \<le> i \<longrightarrow> (\<exists>e. out = Inl e \<and> http_status e = Some 429))"
proof -
  let ?serve = "\<lambda>r. io_bind (io_update (\<lambda>w. cell_set state (createOpenAiStreamState (now_seconds env w) (or_model body)
           (or_stream_options_include_usage body = Some True \<or> or_include_usage body = Some True)) w)) (\<lambda>_.
       serve_stream env res req FacadeOpenAi stream_headers (facade_emit mapSseEventToOpenAi state res) k r)"
  have inner: "\<forall>r' v x v'. mapOpenAiChatRequestToGateway body = Inr r' \<longrightarrow> ?serve r' v = (x, v') \<longrightarrow>
      store v' (streams_key k) = store v (streams_key k) \<and> le_now (ch_limiter env) v' < le_now (ch_limiter env) v + 300000"
  proof (intro allI impI)
    fix r' v x v'
    assume "mapOpenAiChatRequestToGateway body = Inr r'" "?serve r' v = (x, v')"
    then show "store v' (streams_key k) = store v (streams_key k) \<and> le_now (ch_limiter env) v' < le_now (ch_limiter env) v + 300000"
      using assms(4,5) assms(6) [of "cell_set state (createOpenAiStreamState (now_seconds env v) (or_model body)
           (or_stream_options_include_usage body = Some True \<or> or_include_usage body = Some True)) v" x v'] by (simp add: io_bind_apply)
  qed
  from facade_slot [OF assms(1-3) inner assms(7) [unfolded OpenAi_handleStream_def]] assms(4) show ?thesis
    by (auto split: if_splits)
qed

text \<open>A streamed request that cannot be mapped loses its slot: both facades take the slot before they map the request and
  only release it in a \<open>finally\<close> clause that begins after the mapping, so each such request (a tool message without an
  id, only system messages, an unknown tool choice) fails with 400 and leaves the counter one higher.\<close>

lemma facade_bad_request_leaks_slot:
  assumes "redis_up (ch_limiter env) rd store"
    and "int_of (live (le_now (ch_limiter env) w) (store w (streams_key k))) = Some i"
    and "i < int (rl_maxConcurrentStreams (getLimitsForClient (ch_limiter env) k))"
    and "validateForStreaming (ch_gateway env) (ch_registry env) (\<lambda>p. ap_stream p \<noteq> None) m = Inr rv"
    and "or_model ob = m" and "mapOpenAiChatRequestToGateway ob = Inl e1"
    and "ar_model ab = m" and "mapAnthropicRequestToGateway ab = Inl e2"
    and "OpenAi_handleStream env ostate res req ob k w = (r1, w1)" and "Anthropic_handleStream env astate res req ab k w = (r2, w2)"
  shows "r1 = Inl e1 \<and> int_of (live (le_now (ch_limiter env) w1) (store w1 (streams_key k))) = Some (i + 1) \<and>
    r2 = Inl e2 \<and> int_of (live (le_now (ch_limiter env) w2) (store w2 (streams_key k))) = Some (i + 1)"
  using facade_slot [OF assms(1) _ assms(2) _ assms(9) [unfolded OpenAi_handleStream_def]]
    facade_slot [OF assms(1) _ assms(2) _ assms(10) [unfolded Anthropic_handleStream_def]] assms(3-8) by simp

definition streaming_gateway :: gateway_config where
  "streaming_gateway = sample_gateway\<lparr>gw_models := [(''m'', (sample_model ''p'' None)
     \<lparr>mc_capabilities := Some \<lparr>cap_streaming = Some True, cap_tools = None, cap_thinking = None\<rparr>\<rparr>)]\<rparr>"

definition silent_provider :: "'w ai_provider" where
  "silent_provider = \<lparr>ap_complete = (\<lambda>_ _ _. io_throw ThrownOther), ap_stream = Some (\<lambda>_ _ _. io_throw ThrownOther)\<rparr>"

definition facade_env :: "mem_world chat_env" where
  "facade_env = (demo_env (mem_env sample_limits []) silent_provider (\<lambda>_. None) (\<lambda>_. io_throw ThrownOther))
     \<lparr>ch_resolvedSystemPrompts := None, ch_pipeline := noop_pipeline\<lparr>pl_gateway := Some streaming_gateway\<rparr>\<rparr>"

definition no_cell :: "('w, 's) cell" where
  "no_cell = \<lparr>cell_get = (\<lambda>_. undefined), cell_set = (\<lambda>_ w. w)\<rparr>"

definition system_only :: openai_request where
  "system_only = \<lparr>or_model = ''m'', or_messages = [\<lparr>om_role = OSystem, om_content = ''x'', om_tool_call_id = None, om_tool_calls = None\<rparr>],
     or_stream = Some True, or_temperature = None, or_max_tokens = None, or_include_usage = None, or_tools = None,
     or_tool_choice = ChoiceAbsent, or_stream_options_include_usage = None, or_parallel_tool_calls = None, or_top_p = None,
     or_stop = None, or_presence_penalty = None, or_frequency_penalty = None, or_seed = None, or_response_format = None,
     or_metadata = None, or_max_completion_tokens = None, or_reasoning_effort = None\<rparr>"

definition no_messages :: anthropic_request where
  "no_messages = \<lparr>ar_model = ''m'', ar_messages = [], ar_stream = Some True, ar_max_tokens = None, ar_temperature = None, ar_tools = None,
     ar_tool_choice = AChoiceAbsent, ar_top_p = None, ar_top_k = None, ar_stop_sequences = None, ar_output_config = None,
     ar_metadata_user_id = None, ar_thinking = None\<rparr>"

lemma facade_env_simps:
  "ch_limiter facade_env = mem_env sample_limits []"
  "validateForStreaming (ch_gateway facade_env) (ch_registry facade_env) (\<lambda>p. ap_stream p \<noteq> None) ''m'' =
     Inr ((demo_resolved silent_provider)\<lparr>rv_capabilities := \<lparr>cap_streaming = Some True, cap_tools = None, cap_thinking = None\<rparr>\<rparr>)"
  by (simp_all add: facade_env_def demo_env_def validateForStreaming_def resolve_def getGatewayConfig_def resolveModelAlias_def
      resolveProviderEntry_def registerInstance_def streaming_gateway_def sample_gateway_def sample_defs demo_resolved_def
      isOpenAiProviderType_def noop_pipeline_def silent_provider_def)

definition say_hello :: openai_request where
  "say_hello = system_only\<lparr>or_messages := [\<lparr>om_role = OUser, om_content = ''hi'', om_tool_call_id = None, om_tool_calls = None\<rparr>]\<rparr>"

section \<open>Cached replies through the facades\<close>

lemma replay_deltas_fold:
  assumes "\<And>w. \<not> aborts shouldAbort w"
  shows "replay_deltas emit shouldAbort s i w = (False, fold emit (map SseDelta (split_chunks (drop i s))) w)"
proof (induction "length s - i" arbitrary: i w rule: less_induct)
  case less
  let ?n = STREAM_CACHE_REPLAY_CHUNK_SIZE
  show ?case
  proof (cases "i < length s")
    case True
    then have "length s - (i + ?n) < length s - i" by (simp add: STREAM_CACHE_REPLAY_CHUNK_SIZE_def)
    note IH = less [OF this]
    have "split_chunks (drop i s) = take ?n (drop i s) # split_chunks (drop (i + ?n) s)"
      using True by (subst split_chunks.simps) (simp add: add.commute)
    then show ?thesis using True assms IH by (subst replay_deltas.simps) simp
  next
    case False
    then show ?thesis by (subst replay_deltas.simps) (simp add: split_chunks.simps)
  qed
qed

lemma replay_fold:
  "(\<And>w. \<not> aborts shouldAbort w) \<Longrightarrow> replay c src rid conv emit shouldAbort w = fold emit (replay_events c src rid conv) w"
  by (simp add: replay_def replay_events_def replay_deltas_fold)

text \<open>A connection that stays open, seen by the log of what was written to it.\<close>

definition open_connection :: "'w http_response \<Rightarrow> ('w, 's) cell \<Rightarrow> ('w \<Rightarrow> string list) \<Rightarrow> bool" where
  "open_connection res c lg \<longleftrightarrow>
     (\<forall>w. \<not> hr_writableEnded res w) \<and>
     (\<forall>l w. lg (hr_write res l w) = lg w @ [l] \<and> cell_get c (hr_write res l w) = cell_get c w) \<and>
     (\<forall>s w. cell_get c (cell_set c s w) = s \<and> lg (cell_set c s w) = lg w)"

fun emitted :: "(sse_event \<Rightarrow> 's \<Rightarrow> string list \<times> 's) \<Rightarrow> sse_event list \<Rightarrow> 's \<Rightarrow> string list" where
  "emitted f [] s = []"
| "emitted f (e # es) s = (case f e s of (ls, s') \<Rightarrow> ls @ emitted f es s')"

lemma emitted_lines: "emitted mapSseEventToOpenAi es s = openai_lines es s" "emitted mapSseEventToAnthropic es t = anthropic_lines es t"
  by (induction es arbitrary: s t) (auto split: prod.split)

lemma write_lines:
  "open_connection res c lg \<Longrightarrow> lg (fold (write_line res) ls w) = lg w @ ls \<and> cell_get c (fold (write_line res) ls w) = cell_get c w"
  by (induction ls arbitrary: w) (simp_all add: open_connection_def write_line_def)

lemma facade_emit_log:
  assumes "open_connection res c lg"
  shows "lg (fold (facade_emit f c res) es w) = lg w @ emitted f es (cell_get c w)"
proof (induction es arbitrary: w)
  case (Cons e es)
  have "cell_get c (facade_emit f c res e w) = snd (f e (cell_get c w))" "lg (facade_emit f c res e w) = lg w @ fst (f e (cell_get c w))"
    using write_lines [OF assms] assms by (simp_all add: facade_emit_def open_connection_def split: prod.split)
  then show ?case using Cons by (simp split: prod.split)
qed simp

lemma replay_written:
  assumes "open_connection res c lg"
  shows "lg (replayStreamCacheHit prep cached src rid (facade_emit f c res) (Some (hr_writableEnded res)) w) =
    lg w @ emitted f (replay_events cached src rid (pp_responseConversationId prep)) (cell_get c w)"
proof -
  have "\<not> aborts (Some (hr_writableEnded res)) w" for w using assms by (simp add: open_connection_def aborts_def)
  then show ?thesis using facade_emit_log [OF assms] by (simp add: replayStreamCacheHit_def replay_fold)
qed

text \<open>A cached reply that is replayed through a facade is read as that reply: while the connection stays open, a client of the
  OpenAI facade reads the cached id, text and finish reason without tool calls, and a client of the Anthropic facade,
  which checks the protocol, reads the same text, the cached thinking and the matching stop reason.\<close>

lemma facade_replay_read:
  assumes "open_connection res oc lg" and "cell_get oc w = createOpenAiStreamState created model includeUsage"
    and "open_connection res' ac lg'" and "cell_get ac w' = createAnthropicStreamState model"
  shows "(\<exists>ls. lg (replayStreamCacheHit prep cached src rid (facade_emit mapSseEventToOpenAi oc res) (Some (hr_writableEnded res)) w) = lg w @ ls \<and>
      read_openai_body (concat ls) = Some \<lparr>oy_id = toOpenAiCompletionId (cc_id cached), oy_model = model, oy_text = cc_text cached,
        oy_toolCalls = [], oy_finish = mapFinishReasontoOpenAI (Some (cc_finishReason cached))\<rparr>) \<and>
    (\<exists>ls m. lg' (replayStreamCacheHit prep' cached src rid (facade_emit mapSseEventToAnthropic ac res') (Some (hr_writableEnded res')) w') = lg' w' @ ls \<and>
      read_anthropic_body (concat ls) = Some m \<and> ay_blocks m = (if cc_text cached = [] then [] else [CText (cc_text cached)]) @ thinking_blocks (cc_thinkingContent cached) \<and>
      ay_stop m = mapGatewayFinishReasonToAnthropicStopReason (Some (cc_finishReason cached)))"
proof -
  obtain d where d: "replay_done cached = SseDone d" "sd_toolCalls d = None" "sd_finishReason d = cc_finishReason cached"
    "thinking_blocks (sd_thinkingContent d) = thinking_blocks (cc_thinkingContent cached)"
    by (simp add: replay_done_def thinking_blocks_def truthy_str_def split: option.split)
  have ev: "\<exists>m. replay_events cached src rid cv = SseMeta m # map SseDelta (split_chunks (cc_text cached)) @ [SseDone d] \<and> sm_id m = cc_id cached" for cv
    by (simp add: replay_events_def replay_meta_def d(1))
  have tb: "text_blocks (split_chunks t) = (if t = [] then [] else [CText t])" for t
    by (cases "t = []") (auto simp: text_blocks_def dest: arg_cong [of _ _ concat])
  obtain m1 where 1: "replay_events cached src rid (pp_responseConversationId prep) =
      SseMeta m1 # map SseDelta (split_chunks (cc_text cached)) @ [SseDone d]" "sm_id m1 = cc_id cached" using ev by blast
  obtain m2 where 2: "replay_events cached src rid (pp_responseConversationId prep') =
      SseMeta m2 # map SseDelta (split_chunks (cc_text cached)) @ [SseDone d]" using ev by blast
  have "resolveOpenAiFinishReason d = mapFinishReasontoOpenAI (Some (cc_finishReason cached))"
    using d(2,3) by (simp add: resolveOpenAiFinishReason_def)
  with 1 2 d show ?thesis
    unfolding replay_written [OF assms(1)] replay_written [OF assms(3)] emitted_lines assms(2,4)
    by (simp add: openai_stream_read anthropic_stream_read tb del: openai_lines.simps anthropic_lines.simps)
qed

definition paper :: "('s \<times> string list) http_response" where
  "paper = \<lparr>hr_writableEnded = (\<lambda>_. False), hr_writeHead = (\<lambda>_ _ w. w), hr_write = (\<lambda>l (s, ls). (s, ls @ [l])), hr_end = id\<rparr>"

definition paper_cell :: "('s \<times> string list, 's) cell" where
  "paper_cell = \<lparr>cell_get = fst, cell_set = (\<lambda>s (_, ls). (s, ls))\<rparr>"

end
