(* ===== verification/Vendor_Requests.thy ===== *)
theory Vendor_Requests
  imports Cache_Identity Request_Policy
begin

text \<open>
  What the vendor adapters send: the mappers from a provider input and call options to the request bodies of OpenAI
  Chat Completions and Responses, Anthropic Messages and Gemini (\<open>providers/openai/mappers\<close>,
  \<open>providers/anthropic\<close>, \<open>providers/google\<close> and the builders of \<open>providers/factories\<close> and
  \<open>providers/openai/adapters\<close>). A body is the JSON object the SDK serialises: a property whose value is \<open>undefined\<close> is
  absent. The abort signal is not part of it. The last sections read a body back as the vendor's
  documentation says and compare it with what the gateway was asked to send.
\<close>

section \<open>Shared pieces\<close>

definition js_starts_with :: "string \<Rightarrow> string \<Rightarrow> bool" where
  "js_starts_with s pre \<longleftrightarrow> take (length pre) s = pre"

definition call_args :: "gateway_tool_call \<Rightarrow> string" where
  "call_args c = (if tc_arguments c = [] then ''{}'' else tc_arguments c)"

definition mapStopSequences :: "stop_param option \<Rightarrow> string list option" where
  "mapStopSequences s = map_option (\<lambda>x. case x of StopOne t \<Rightarrow> [t] | StopMany ts \<Rightarrow> ts) s"

definition js_strings :: "string list \<Rightarrow> json" where
  "js_strings ss = JArr (map JStr ss)"

fun is_tool_turn :: "provider_chat_turn \<Rightarrow> bool" where
  "is_tool_turn (ToolTurn i c) = True"
| "is_tool_turn _ = False"

fun tool_pair :: "provider_chat_turn \<Rightarrow> string \<times> string" where
  "tool_pair (ToolTurn i c) = (i, c)"
| "tool_pair _ = ([], [])"

text \<open>The loop over the turns that the OpenAI and Anthropic mappers share: the inner \<open>while\<close> collects the run of
  tool results that starts at index \<open>i\<close>.\<close>

function walk_turns ::
  "(string \<Rightarrow> json list) \<Rightarrow> (string \<Rightarrow> gateway_tool_call list option \<Rightarrow> json list) \<Rightarrow> ((string \<times> string) list \<Rightarrow> json list) \<Rightarrow>
   provider_chat_turn list \<Rightarrow> json list" where
  "walk_turns user assistant results [] = []"
| "walk_turns user assistant results (UserTurn c # ts) = user c @ walk_turns user assistant results ts"
| "walk_turns user assistant results (AssistantTurn c calls # ts) = assistant c calls @ walk_turns user assistant results ts"
| "walk_turns user assistant results (ToolTurn i c # ts) =
     results ((i, c) # map tool_pair (takeWhile is_tool_turn ts)) @ walk_turns user assistant results (dropWhile is_tool_turn ts)"
  by pat_completeness auto

termination walk_turns
  by (relation "measure (\<lambda>(_, _, _, ts). length ts)") (auto simp: le_imp_less_Suc length_dropWhile_le)

section \<open>OpenAI Chat Completions (openai-messages-provider.mapper.ts, openai-params-provider.mapper.ts, openai-tools-provider.mapper.ts)\<close>

definition mapAssistantTurn_openai :: "string \<Rightarrow> gateway_tool_call list option \<Rightarrow> json list" where
  "mapAssistantTurn_openai content calls =
     (case truthy_list calls of
        None \<Rightarrow> [JObj [(''role'', JStr ''assistant''), (''content'', JStr content)]]
      | Some cs \<Rightarrow>
          [JObj [(''role'', JStr ''assistant''), (''content'', if content = [] then JNull else JStr content),
             (''tool_calls'', JArr (map (\<lambda>c. JObj [(''id'', JStr (tc_id c)), (''type'', JStr ''function''),
                (''function'', JObj [(''name'', JStr (tc_name c)), (''arguments'', JStr (call_args c))])]) cs))]])"

definition mapTurnsToOpenAiMessages :: "provider_chat_turn list \<Rightarrow> string option \<Rightarrow> json list" where
  "mapTurnsToOpenAiMessages turns system =
     (case system of
        Some s \<Rightarrow> if js_trim s \<noteq> [] then [JObj [(''role'', JStr ''system''), (''content'', JStr s)]] else []
      | None \<Rightarrow> []) @
     walk_turns (\<lambda>c. [JObj [(''role'', JStr ''user''), (''content'', JStr c)]]) mapAssistantTurn_openai
       (map (\<lambda>(i, c). JObj [(''role'', JStr ''tool''), (''tool_call_id'', JStr i), (''content'', JStr c)])) turns"

definition js_digit :: "char \<Rightarrow> bool" where
  "js_digit c \<longleftrightarrow> c \<in> set ''0123456789''"

text \<open>The patterns \<open>/^o\d/i\<close>, \<open>/^gpt-5/i\<close>, \<open>/^gpt-4\.1/i\<close> and \<open>/^gpt-4o/i\<close>.\<close>

definition prefersMaxCompletionTokens :: "string \<Rightarrow> bool" where
  "prefersMaxCompletionTokens modelId \<longleftrightarrow>
     (case js_lower modelId of c # d # _ \<Rightarrow> c = CHR ''o'' \<and> js_digit d | _ \<Rightarrow> False) \<or>
     list_ex (js_starts_with (js_lower modelId)) [''gpt-5'', ''gpt-4.1'', ''gpt-4o'']"

definition mapMaxOutputTokensForChatCompletions :: "string \<Rightarrow> rat option \<Rightarrow> (string \<times> json) list" where
  "mapMaxOutputTokensForChatCompletions modelId maxTokens =
     (case maxTokens of
        None \<Rightarrow> []
      | Some n \<Rightarrow> [(if prefersMaxCompletionTokens modelId then ''max_completion_tokens'' else ''max_tokens'', JNum n)])"

definition json_schema_props :: "response_format \<Rightarrow> json \<Rightarrow> (string \<times> json) list" where
  "json_schema_props rf schema =
     [(''name'', JStr (nullish (rf_jsonSchemaName rf) ''gateway_response'')), (''schema'', schema), (''strict'', JBool True)]"

definition mapResponseFormatToChatCompletion :: "response_format \<Rightarrow> json option" where
  "mapResponseFormatToChatCompletion rf =
     (case (rf_type rf, rf_jsonSchema rf) of
        (RfJsonObject, _) \<Rightarrow> Some (JObj [(''type'', JStr ''json_object'')])
      | (RfJsonSchema, Some schema) \<Rightarrow> Some (JObj [(''type'', JStr ''json_schema''), (''json_schema'', JObj (json_schema_props rf schema))])
      | _ \<Rightarrow> None)"

definition mapResponseFormatToResponses :: "response_format \<Rightarrow> json option" where
  "mapResponseFormatToResponses rf =
     (case (rf_type rf, rf_jsonSchema rf) of
        (RfJsonObject, _) \<Rightarrow> Some (JObj [(''format'', JObj [(''type'', JStr ''json_object'')])])
      | (RfJsonSchema, Some schema) \<Rightarrow>
          Some (JObj [(''format'', JObj ((''type'', JStr ''json_schema'') # json_schema_props rf schema))])
      | _ \<Rightarrow> None)"

definition mapThinkingToChatCompletion :: "call_options \<Rightarrow> json" where
  "mapThinkingToChatCompletion options = JObj [(''type'', JStr (if isOpenAiReasoningRequested options then ''enabled'' else ''disabled''))]"

definition mapCallOptionsToChatCompletionParams :: "string \<Rightarrow> call_options \<Rightarrow> (string \<times> json) list" where
  "mapCallOptionsToChatCompletionParams modelId options =
     [(''thinking'', mapThinkingToChatCompletion options)] @
     opt_prop ''temperature'' JNum (temperature options) @
     opt_prop ''top_p'' JNum (topP options) @
     opt_prop ''frequency_penalty'' JNum (frequencyPenalty options) @
     opt_prop ''presence_penalty'' JNum (presencePenalty options) @
     opt_prop ''seed'' JNum (seed options) @
     opt_prop ''stop'' js_strings (mapStopSequences (stop options)) @
     opt_prop ''response_format'' id (Option.bind (responseFormat options) mapResponseFormatToChatCompletion) @
     mapMaxOutputTokensForChatCompletions modelId (maxOutputTokens options)"

definition mapToolsToOpenAi :: "gateway_tool_definition list \<Rightarrow> json" where
  "mapToolsToOpenAi tools = JArr (map (\<lambda>t. JObj [(''type'', JStr ''function''), (''function'',
     JObj ([(''name'', JStr (td_name t))] @ opt_prop ''description'' JStr (truthy_str (td_description t)) @
       [(''parameters'', td_parameters t)]))]) tools)"

fun mapToolChoiceToOpenAi :: "gateway_tool_choice \<Rightarrow> json" where
  "mapToolChoiceToOpenAi ToolAuto = JStr ''auto''"
| "mapToolChoiceToOpenAi ToolNone = JStr ''none''"
| "mapToolChoiceToOpenAi ToolRequired = JStr ''required''"
| "mapToolChoiceToOpenAi (ToolFunction n) = JObj [(''type'', JStr ''function''), (''function'', JObj [(''name'', JStr n)])]"

text \<open>What every builder adds when the input has tools.\<close>

definition tool_params ::
  "provider_chat_input \<Rightarrow> (gateway_tool_definition list \<Rightarrow> json) \<Rightarrow> (gateway_tool_choice \<Rightarrow> json) \<Rightarrow> (string \<times> json) list" where
  "tool_params input mapTools mapChoice =
     (case truthy_list (pi_tools input) of
        Some ts \<Rightarrow> [(''tools'', mapTools ts)] @ opt_prop ''tool_choice'' mapChoice (pi_toolChoice input)
      | None \<Rightarrow> [])"

definition chat_completions_params :: "provider_chat_input \<Rightarrow> string \<Rightarrow> call_options \<Rightarrow> (string \<times> json) list" where
  "chat_completions_params input modelId options =
     [(''model'', JStr modelId), (''messages'', JArr (mapTurnsToOpenAiMessages (pi_messages input) (pi_system input)))] @
     mapCallOptionsToChatCompletionParams modelId options @ tool_params input mapToolsToOpenAi mapToolChoiceToOpenAi"

definition chat_completions_stream_params :: "bool \<Rightarrow> provider_chat_input \<Rightarrow> string \<Rightarrow> call_options \<Rightarrow> (string \<times> json) list" where
  "chat_completions_stream_params includeStreamUsage input modelId options =
     [(''model'', JStr modelId), (''messages'', JArr (mapTurnsToOpenAiMessages (pi_messages input) (pi_system input))),
      (''stream'', JBool True)] @
     (if includeStreamUsage then [(''stream_options'', JObj [(''include_usage'', JBool True)])] else []) @
     mapCallOptionsToChatCompletionParams modelId options @ tool_params input mapToolsToOpenAi mapToolChoiceToOpenAi"

section \<open>OpenAI Responses (openai-responses-input-provider.mapper.ts, responses.adapter.ts)\<close>

definition mapAssistantTurnToResponsesInput :: "string \<Rightarrow> gateway_tool_call list option \<Rightarrow> json list" where
  "mapAssistantTurnToResponsesInput content calls =
     (if content \<noteq> [] then [JObj [(''role'', JStr ''assistant''), (''content'', JStr content)]] else []) @
     map (\<lambda>c. JObj [(''type'', JStr ''function_call''), (''call_id'', JStr (tc_id c)), (''name'', JStr (tc_name c)),
        (''arguments'', JStr (call_args c))]) (nullish calls [])"

definition mapTurnsToResponsesInput :: "provider_chat_turn list \<Rightarrow> json list" where
  "mapTurnsToResponsesInput turns =
     walk_turns (\<lambda>c. [JObj [(''role'', JStr ''user''), (''content'', JStr c)]]) mapAssistantTurnToResponsesInput
       (map (\<lambda>(i, c). JObj [(''type'', JStr ''function_call_output''), (''call_id'', JStr i), (''output'', JStr c)])) turns"

definition mapCallOptionsToResponsesParams :: "call_options \<Rightarrow> (string \<times> json) list" where
  "mapCallOptionsToResponsesParams options =
     opt_prop ''temperature'' JNum (temperature options) @
     opt_prop ''max_output_tokens'' JNum (maxOutputTokens options) @
     opt_prop ''top_p'' JNum (topP options) @
     opt_prop ''text'' id (Option.bind (responseFormat options) mapResponseFormatToResponses) @
     opt_prop ''parallel_tool_calls'' JBool (parallelToolCalls options)"

definition mapToolsToResponses :: "gateway_tool_definition list \<Rightarrow> json" where
  "mapToolsToResponses tools = JArr (map (\<lambda>t. JObj ([(''type'', JStr ''function''), (''name'', JStr (td_name t)),
     (''strict'', JBool False), (''parameters'', td_parameters t)] @ opt_prop ''description'' JStr (truthy_str (td_description t)))) tools)"

fun mapToolChoiceToResponses :: "gateway_tool_choice \<Rightarrow> json" where
  "mapToolChoiceToResponses ToolAuto = JStr ''auto''"
| "mapToolChoiceToResponses ToolNone = JStr ''none''"
| "mapToolChoiceToResponses ToolRequired = JStr ''required''"
| "mapToolChoiceToResponses (ToolFunction n) = JObj [(''type'', JStr ''function''), (''name'', JStr n)]"

text \<open>\<open>String(value)\<close> of a metadata value; metadata values are strings, numbers or booleans.\<close>

fun js_to_string :: "json \<Rightarrow> string" where
  "js_to_string (JStr s) = s"
| "js_to_string (JNum q) = show_rat q"
| "js_to_string (JBool b) = (if b then ''true'' else ''false'')"
| "js_to_string JNull = ''null''"
| "js_to_string (JArr vs) = js_join '','' (map (\<lambda>v. if v = JNull then [] else js_to_string v) vs)"
| "js_to_string (JObj kvs) = ''[object Object]''"

definition mapGatewayMetadataToOpenAi :: "(string \<times> json) list \<Rightarrow> json" where
  "mapGatewayMetadataToOpenAi md = JObj (map (\<lambda>(k, v). (k, JStr (js_to_string v))) md)"

definition trimmed_system :: "string option \<Rightarrow> string option" where
  "trimmed_system s = truthy_str (map_option js_trim s)"

definition buildResponsesCreateParams :: "provider_chat_input \<Rightarrow> string \<Rightarrow> call_options \<Rightarrow> (string \<times> json) list" where
  "buildResponsesCreateParams input modelId options =
     [(''model'', JStr modelId)] @ opt_prop ''instructions'' JStr (trimmed_system (pi_system input)) @
     [(''input'', JArr (mapTurnsToResponsesInput (pi_messages input)))] @
     mapCallOptionsToResponsesParams options @
     opt_prop ''reasoning'' (\<lambda>e. JObj [(''effort'', JStr (effort_string e)), (''summary'', JStr ''auto'')]) (mapThinkingToResponsesReasoning options) @
     opt_prop ''metadata'' mapGatewayMetadataToOpenAi (truthy_list (pi_metadata input)) @
     tool_params input mapToolsToResponses mapToolChoiceToResponses"

section \<open>Anthropic Messages (anthropic-tools.mapper.ts, anthropic-thinking.mapper.ts, create-anthropic-provider.ts)\<close>

definition mapAssistantTurn_anthropic :: "string \<Rightarrow> gateway_tool_call list option \<Rightarrow> json list" where
  "mapAssistantTurn_anthropic content calls =
     (case truthy_list calls of
        None \<Rightarrow> [JObj [(''role'', JStr ''assistant''), (''content'', JStr content)]]
      | Some cs \<Rightarrow>
          [JObj [(''role'', JStr ''assistant''), (''content'', JArr
             ((if content \<noteq> [] then [JObj [(''type'', JStr ''text''), (''text'', JStr content)]] else []) @
              map (\<lambda>c. JObj [(''type'', JStr ''tool_use''), (''id'', JStr (tc_id c)), (''name'', JStr (tc_name c)),
                 (''input'', JObj (parseJsonObject (tc_arguments c)))]) cs))]])"

definition mapTurnsToAnthropicMessages :: "provider_chat_turn list \<Rightarrow> json list" where
  "mapTurnsToAnthropicMessages turns =
     walk_turns (\<lambda>c. [JObj [(''role'', JStr ''user''), (''content'', JStr c)]]) mapAssistantTurn_anthropic
       (\<lambda>rs. [JObj [(''role'', JStr ''user''), (''content'', JArr (map (\<lambda>(i, c).
          JObj [(''type'', JStr ''tool_result''), (''tool_use_id'', JStr i), (''content'', JStr c)]) rs))]]) turns"

text \<open>\<open>toInputSchema\<close> and \<open>toParametersSchema\<close>: parameters that are not yet an object schema become its properties.\<close>

definition toInputSchema :: "json \<Rightarrow> json" where
  "toInputSchema parameters =
     (if jfield ''type'' parameters = Some (JStr ''object'') then parameters
      else JObj [(''type'', JStr ''object''), (''properties'', parameters)])"

definition mapToolsToAnthropic :: "gateway_tool_definition list \<Rightarrow> json" where
  "mapToolsToAnthropic tools = JArr (map (\<lambda>t. JObj ([(''name'', JStr (td_name t))] @
     opt_prop ''description'' JStr (truthy_str (td_description t)) @ [(''input_schema'', toInputSchema (td_parameters t))])) tools)"

fun mapToolChoiceToAnthropic :: "gateway_tool_choice \<Rightarrow> json" where
  "mapToolChoiceToAnthropic ToolAuto = JObj [(''type'', JStr ''auto'')]"
| "mapToolChoiceToAnthropic ToolNone = JObj [(''type'', JStr ''none'')]"
| "mapToolChoiceToAnthropic ToolRequired = JObj [(''type'', JStr ''any'')]"
| "mapToolChoiceToAnthropic (ToolFunction n) = JObj [(''type'', JStr ''tool''), (''name'', JStr n)]"

definition resolveAnthropicSamplingParams :: "call_options \<Rightarrow> (string \<times> json) list" where
  "resolveAnthropicSamplingParams options =
     (if topK options \<noteq> None then opt_prop ''top_k'' JNum (topK options)
      else if topP options \<noteq> None then opt_prop ''top_p'' JNum (topP options)
      else opt_prop ''temperature'' JNum (temperature options))"

definition mapThinkingBudgetToAnthropicEffort :: "thinking_budget option \<Rightarrow> thinking_effort option" where
  "mapThinkingBudgetToAnthropicEffort b =
     (case b of Some (Effort e) \<Rightarrow> if e \<in> {EffLow, EffMedium, EffHigh, EffXHigh, EffMax} then Some e else None | _ \<Rightarrow> None)"

definition MIN_THINKING_BUDGET_TOKENS :: rat where
  "MIN_THINKING_BUDGET_TOKENS = 1024"

definition mapThinkingToAnthropic :: "call_options \<Rightarrow> json option" where
  "mapThinkingToAnthropic options =
     (if thinkingEnabled options \<noteq> Some True then None
      else case thinkingBudget options of
          Some (BudgetTokens n) \<Rightarrow> Some (JObj [(''type'', JStr ''enabled''), (''budget_tokens'', JNum (max MIN_THINKING_BUDGET_TOKENS n)),
            (''display'', JStr ''summarized'')])
        | _ \<Rightarrow> Some (JObj [(''type'', JStr ''adaptive''), (''display'', JStr ''summarized'')]))"

definition resolveAnthropicOutputConfig :: "call_options \<Rightarrow> json option" where
  "resolveAnthropicOutputConfig options =
     (let effort = mapThinkingBudgetToAnthropicEffort (thinkingBudget options);
          format = (case responseFormat options of
              Some rf \<Rightarrow> if rf_type rf = RfJsonObject
                then Some (JObj [(''type'', JStr ''json_schema''), (''schema'', nullish (rf_jsonSchema rf)
                  (JObj [(''type'', JStr ''object''), (''additionalProperties'', JBool True)]))]) else None
            | None \<Rightarrow> None)
      in if format = None \<and> effort = None then None
         else Some (JObj (opt_prop ''format'' id format @ opt_prop ''effort'' (\<lambda>e. JStr (effort_string e)) effort)))"

definition anthropic_base :: "provider_chat_input \<Rightarrow> string \<Rightarrow> call_options \<Rightarrow> (string \<times> json) list" where
  "anthropic_base input modelId options =
     [(''model'', JStr modelId), (''max_tokens'', JNum (nullish (maxOutputTokens options) 1024))] @
     resolveAnthropicSamplingParams options @
     opt_prop ''stop_sequences'' js_strings (mapStopSequences (stop options)) @
     opt_prop ''system'' JStr (pi_system input) @
     [(''messages'', JArr (mapTurnsToAnthropicMessages (pi_messages input)))]"

definition anthropic_rest :: "provider_chat_input \<Rightarrow> call_options \<Rightarrow> (string \<times> json) list" where
  "anthropic_rest input options =
     opt_prop ''output_config'' id (resolveAnthropicOutputConfig options) @
     opt_prop ''thinking'' id (mapThinkingToAnthropic options) @
     opt_prop ''metadata'' (\<lambda>u. JObj [(''user_id'', JStr (js_to_string u))]) (Option.bind (pi_metadata input) (\<lambda>md. jget md ''userId''))"

definition anthropic_params_of :: "provider_chat_input \<Rightarrow> string \<Rightarrow> call_options \<Rightarrow> (string \<times> json) list" where
  "anthropic_params_of input modelId options =
     anthropic_base input modelId options @ anthropic_rest input options @ tool_params input mapToolsToAnthropic mapToolChoiceToAnthropic"

definition anthropic_stream_params :: "provider_chat_input \<Rightarrow> string \<Rightarrow> call_options \<Rightarrow> (string \<times> json) list" where
  "anthropic_stream_params input modelId options =
     anthropic_base input modelId options @ [(''stream'', JBool True)] @
     tool_params input mapToolsToAnthropic mapToolChoiceToAnthropic @ anthropic_rest input options"

section \<open>Gemini (google-tools.mapper.ts, create-google-provider.ts)\<close>

text \<open>What the code takes from \<open>@google/genai\<close>: a helper and the values of two enumerations.\<close>

record genai_lib =
  gl_createPartFromFunctionResponse :: "string \<Rightarrow> string \<Rightarrow> (string \<times> json) list \<Rightarrow> json"
  gl_NONE :: string
  gl_ANY :: string
  gl_AUTO :: string
  gl_thinkingLevel :: "thinking_effort \<Rightarrow> string"

definition mapAssistantTurnToGeminiContent :: "string \<Rightarrow> gateway_tool_call list option \<Rightarrow> json" where
  "mapAssistantTurnToGeminiContent content calls =
     JObj [(''role'', JStr ''model''), (''parts'', JArr
       ((if content \<noteq> [] then [JObj [(''text'', JStr content)]] else []) @
        map (\<lambda>c. JObj [(''functionCall'', JObj [(''id'', JStr (tc_id c)), (''name'', JStr (tc_name c)),
           (''args'', JObj (parseJsonObject (call_args c)))])]) (nullish calls [])))]"

fun gemini_content :: "genai_lib \<Rightarrow> provider_chat_turn \<Rightarrow> json" where
  "gemini_content g (UserTurn c) = JObj [(''role'', JStr ''user''), (''parts'', JArr [JObj [(''text'', JStr c)]])]"
| "gemini_content g (AssistantTurn c calls) = mapAssistantTurnToGeminiContent c calls"
| "gemini_content g (ToolTurn i c) = JObj [(''role'', JStr ''user''), (''parts'', JArr
     [gl_createPartFromFunctionResponse g i i (parseJsonObject (if c = [] then ''{}'' else c))])]"

definition mapTurnsToGeminiContents :: "genai_lib \<Rightarrow> provider_chat_turn list \<Rightarrow> json list" where
  "mapTurnsToGeminiContents g turns = map (gemini_content g) turns"

definition mapToolsToGemini :: "gateway_tool_definition list \<Rightarrow> json" where
  "mapToolsToGemini tools = JArr (map (\<lambda>t. JObj ([(''name'', JStr (td_name t))] @
     opt_prop ''description'' JStr (truthy_str (td_description t)) @ [(''parametersJsonSchema'', toInputSchema (td_parameters t))])) tools)"

fun mapToolChoiceToGemini :: "genai_lib \<Rightarrow> gateway_tool_choice \<Rightarrow> json" where
  "mapToolChoiceToGemini g ToolNone = JObj [(''mode'', JStr (gl_NONE g))]"
| "mapToolChoiceToGemini g ToolRequired = JObj [(''mode'', JStr (gl_ANY g))]"
| "mapToolChoiceToGemini g (ToolFunction n) = JObj [(''mode'', JStr (gl_ANY g)), (''allowedFunctionNames'', js_strings [n])]"
| "mapToolChoiceToGemini g ToolAuto = JObj [(''mode'', JStr (gl_AUTO g))]"

fun mapThinkingBudgetToGeminiLevel :: "thinking_effort \<Rightarrow> thinking_effort" where
  "mapThinkingBudgetToGeminiLevel EffNone = EffMinimal"
| "mapThinkingBudgetToGeminiLevel EffMinimal = EffMinimal"
| "mapThinkingBudgetToGeminiLevel EffLow = EffLow"
| "mapThinkingBudgetToGeminiLevel EffMedium = EffMedium"
| "mapThinkingBudgetToGeminiLevel EffHigh = EffHigh"
| "mapThinkingBudgetToGeminiLevel EffXHigh = EffHigh"
| "mapThinkingBudgetToGeminiLevel EffMax = EffHigh"

definition gemini_thinks :: "call_options \<Rightarrow> string \<Rightarrow> bool" where
  "gemini_thinks options modelId \<longleftrightarrow> thinkingEnabled options = Some True \<and> js_starts_with modelId ''gemini-3''"

definition thinking_config :: "genai_lib \<Rightarrow> call_options \<Rightarrow> json" where
  "thinking_config g options = JObj ([(''includeThoughts'', JBool True)] @
     (case thinkingBudget options of
        Some (BudgetTokens n) \<Rightarrow> [(''thinkingBudget'', JNum n), (''thinkingLevel'', JStr (gl_thinkingLevel g EffHigh))]
      | Some (Effort e) \<Rightarrow> [(''thinkingLevel'', JStr (gl_thinkingLevel g (mapThinkingBudgetToGeminiLevel e)))]
      | None \<Rightarrow> [(''thinkingLevel'', JStr (gl_thinkingLevel g EffHigh))]))"

definition buildGenerationConfig :: "genai_lib \<Rightarrow> call_options \<Rightarrow> string \<Rightarrow> (string \<times> json) list" where
  "buildGenerationConfig g options modelId =
     opt_prop ''temperature'' JNum (temperature options) @
     [(''maxOutputTokens'', JNum (nullish (maxOutputTokens options) 1024))] @
     opt_prop ''topP'' JNum (topP options) @
     opt_prop ''topK'' JNum (topK options) @
     opt_prop ''stopSequences'' js_strings (mapStopSequences (stop options)) @
     opt_prop ''seed'' JNum (seed options) @
     (case responseFormat options of
        Some rf \<Rightarrow> (if rf_type rf = RfJsonObject then [(''response_format'', JStr ''application/json'')] else []) @
          opt_prop ''response_schema'' id (rf_jsonSchema rf)
      | None \<Rightarrow> []) @
     (if gemini_thinks options modelId then [(''thinkingConfig'', thinking_config g options)] else [])"

definition gemini_params :: "genai_lib \<Rightarrow> provider_chat_input \<Rightarrow> string \<Rightarrow> call_options \<Rightarrow> (string \<times> json) list" where
  "gemini_params g input modelId options =
     [(''model'', JStr modelId), (''contents'', JArr (mapTurnsToGeminiContents g (pi_messages input))),
      (''config'', JObj
        ((case pi_system input of
            Some s \<Rightarrow> if js_trim s \<noteq> [] then [(''systemInstruction'', JStr s)] else []
          | None \<Rightarrow> []) @
         buildGenerationConfig g options modelId @
         (case truthy_list (pi_tools input) of
            Some ts \<Rightarrow> [(''tools'', JArr [JObj [(''functionDeclarations'', mapToolsToGemini ts)]])] @
              opt_prop ''toolConfig'' (\<lambda>c. JObj [(''functionCallingConfig'', mapToolChoiceToGemini g c)]) (pi_toolChoice input)
          | None \<Rightarrow> [])))]"

section \<open>What a vendor understands\<close>

datatype vendor_event = EvUser string | EvAssistant string | EvCall string string json | EvResult string json

record vendor_view =
  vv_model :: string
  vv_system :: "string option"
  vv_events :: "vendor_event list"
  vv_tools :: "(string \<times> string option \<times> json) list"
  vv_choice :: "gateway_tool_choice option"

text \<open>What the gateway wants to say: the encodings of arguments, results and schemas are the vendor's.\<close>

fun turn_events :: "(string \<Rightarrow> json) \<Rightarrow> (string \<Rightarrow> json) \<Rightarrow> provider_chat_turn \<Rightarrow> vendor_event list" where
  "turn_events args result (UserTurn c) = [EvUser c]"
| "turn_events args result (AssistantTurn c calls) =
     (if c = [] then [] else [EvAssistant c]) @ map (\<lambda>x. EvCall (tc_id x) (tc_name x) (args (tc_arguments x))) (nullish calls [])"
| "turn_events args result (ToolTurn i c) = [EvResult i (result c)]"

definition asked_view ::
  "(string \<Rightarrow> json) \<Rightarrow> (string \<Rightarrow> json) \<Rightarrow> (json \<Rightarrow> json) \<Rightarrow> provider_chat_input \<Rightarrow> string \<Rightarrow> vendor_view" where
  "asked_view args result schema input modelId =
     \<lparr>vv_model = modelId, vv_system = trimmed_system (pi_system input),
      vv_events = concat (map (turn_events args result) (pi_messages input)),
      vv_tools = map (\<lambda>t. (td_name t, truthy_str (td_description t), schema (td_parameters t))) (nullish (pi_tools input) []),
      vv_choice = (if nullish (pi_tools input) [] = [] then None else pi_toolChoice input)\<rparr>"

definition json_or_null :: "json option \<Rightarrow> json" where
  "json_or_null x = nullish x JNull"

definition opt_string :: "json option \<Rightarrow> string option" where
  "opt_string x = (case x of Some (JStr s) \<Rightarrow> Some s | _ \<Rightarrow> None)"

definition said :: "string \<Rightarrow> vendor_event list" where
  "said c = (if c = [] then [] else [EvAssistant c])"

definition read_openai_message :: "json \<Rightarrow> vendor_event list" where
  "read_openai_message j =
     (let role = jstring (jfield ''role'' j) in
      if role = ''user'' then [EvUser (jstring (jfield ''content'' j))]
      else if role = ''assistant'' then
        said (jstring (jfield ''content'' j)) @
        map (\<lambda>c. EvCall (jstring (jfield ''id'' c)) (jstring (Option.bind (jfield ''function'' c) (jfield ''name'')))
          (json_or_null (Option.bind (jfield ''function'' c) (jfield ''arguments'')))) (jlist (jfield ''tool_calls'' j))
      else if role = ''tool'' then [EvResult (jstring (jfield ''tool_call_id'' j)) (json_or_null (jfield ''content'' j))]
      else [])"

definition read_named_choice :: "(json \<Rightarrow> json option) \<Rightarrow> json \<Rightarrow> gateway_tool_choice" where
  "read_named_choice name c =
     (if c = JStr ''auto'' then ToolAuto else if c = JStr ''none'' then ToolNone else if c = JStr ''required'' then ToolRequired
      else ToolFunction (jstring (name c)))"

definition openai_system :: "json list \<Rightarrow> string option" where
  "openai_system ms = trimmed_system (case ms of
     m # _ \<Rightarrow> if jstring (jfield ''role'' m) = ''system'' then opt_string (jfield ''content'' m) else None | [] \<Rightarrow> None)"

definition read_chat_completions :: "(string \<times> json) list \<Rightarrow> vendor_view" where
  "read_chat_completions b =
     \<lparr>vv_model = jstring (jget b ''model''), vv_system = openai_system (jlist (jget b ''messages'')),
      vv_events = concat (map read_openai_message (jlist (jget b ''messages''))),
      vv_tools = map (\<lambda>t. let f = json_or_null (jfield ''function'' t) in
        (jstring (jfield ''name'' f), opt_string (jfield ''description'' f), json_or_null (jfield ''parameters'' f))) (jlist (jget b ''tools'')),
      vv_choice = map_option (read_named_choice (\<lambda>c. Option.bind (jfield ''function'' c) (jfield ''name''))) (jget b ''tool_choice'')\<rparr>"

definition read_responses_item :: "json \<Rightarrow> vendor_event list" where
  "read_responses_item j =
     (if jfield ''type'' j = Some (JStr ''function_call'')
      then [EvCall (jstring (jfield ''call_id'' j)) (jstring (jfield ''name'' j)) (json_or_null (jfield ''arguments'' j))]
      else if jfield ''type'' j = Some (JStr ''function_call_output'')
      then [EvResult (jstring (jfield ''call_id'' j)) (json_or_null (jfield ''output'' j))]
      else if jfield ''role'' j = Some (JStr ''user'') then [EvUser (jstring (jfield ''content'' j))]
      else said (jstring (jfield ''content'' j)))"

definition read_responses :: "(string \<times> json) list \<Rightarrow> vendor_view" where
  "read_responses b =
     \<lparr>vv_model = jstring (jget b ''model''), vv_system = trimmed_system (opt_string (jget b ''instructions'')),
      vv_events = concat (map read_responses_item (jlist (jget b ''input''))),
      vv_tools = map (\<lambda>t. (jstring (jfield ''name'' t), opt_string (jfield ''description'' t), json_or_null (jfield ''parameters'' t)))
        (jlist (jget b ''tools'')),
      vv_choice = map_option (read_named_choice (jfield ''name'')) (jget b ''tool_choice'')\<rparr>"

definition read_anthropic_block :: "bool \<Rightarrow> json \<Rightarrow> vendor_event list" where
  "read_anthropic_block user j =
     (if jfield ''type'' j = Some (JStr ''tool_use'')
      then [EvCall (jstring (jfield ''id'' j)) (jstring (jfield ''name'' j)) (json_or_null (jfield ''input'' j))]
      else if jfield ''type'' j = Some (JStr ''tool_result'')
      then [EvResult (jstring (jfield ''tool_use_id'' j)) (json_or_null (jfield ''content'' j))]
      else if user then [EvUser (jstring (jfield ''text'' j))] else said (jstring (jfield ''text'' j)))"

definition read_anthropic_message :: "json \<Rightarrow> vendor_event list" where
  "read_anthropic_message j =
     (let user = (jfield ''role'' j = Some (JStr ''user'')) in
      case jfield ''content'' j of
        Some (JStr c) \<Rightarrow> if user then [EvUser c] else said c
      | c \<Rightarrow> concat (map (read_anthropic_block user) (jlist c)))"

definition read_anthropic_choice :: "json \<Rightarrow> gateway_tool_choice" where
  "read_anthropic_choice c =
     (let t = jstring (jfield ''type'' c) in
      if t = ''auto'' then ToolAuto else if t = ''none'' then ToolNone else if t = ''any'' then ToolRequired
      else ToolFunction (jstring (jfield ''name'' c)))"

definition read_anthropic :: "(string \<times> json) list \<Rightarrow> vendor_view" where
  "read_anthropic b =
     \<lparr>vv_model = jstring (jget b ''model''), vv_system = trimmed_system (opt_string (jget b ''system'')),
      vv_events = concat (map read_anthropic_message (jlist (jget b ''messages''))),
      vv_tools = map (\<lambda>t. (jstring (jfield ''name'' t), opt_string (jfield ''description'' t), json_or_null (jfield ''input_schema'' t)))
        (jlist (jget b ''tools'')),
      vv_choice = map_option read_anthropic_choice (jget b ''tool_choice'')\<rparr>"

definition read_gemini_part :: "bool \<Rightarrow> json \<Rightarrow> vendor_event list" where
  "read_gemini_part user j =
     (case (jfield ''functionCall'' j, jfield ''functionResponse'' j) of
        (Some f, _) \<Rightarrow> [EvCall (jstring (jfield ''id'' f)) (jstring (jfield ''name'' f)) (json_or_null (jfield ''args'' f))]
      | (None, Some f) \<Rightarrow> [EvResult (jstring (jfield ''id'' f)) (json_or_null (jfield ''response'' f))]
      | (None, None) \<Rightarrow> if user then [EvUser (jstring (jfield ''text'' j))] else said (jstring (jfield ''text'' j)))"

definition read_gemini_content :: "json \<Rightarrow> vendor_event list" where
  "read_gemini_content j = concat (map (read_gemini_part (jfield ''role'' j = Some (JStr ''user''))) (jlist (jfield ''parts'' j)))"

definition read_gemini_choice :: "json \<Rightarrow> gateway_tool_choice" where
  "read_gemini_choice c =
     (let m = jstring (jfield ''mode'' c) in
      if m = ''AUTO'' then ToolAuto else if m = ''NONE'' then ToolNone
      else case jlist (jfield ''allowedFunctionNames'' c) of JStr n # _ \<Rightarrow> ToolFunction n | _ \<Rightarrow> ToolRequired)"

definition read_gemini :: "(string \<times> json) list \<Rightarrow> vendor_view" where
  "read_gemini b =
     (let cfg = json_or_null (jget b ''config'') in
      \<lparr>vv_model = jstring (jget b ''model''), vv_system = trimmed_system (opt_string (jfield ''systemInstruction'' cfg)),
       vv_events = concat (map read_gemini_content (jlist (jget b ''contents''))),
       vv_tools = concat (map (\<lambda>d. map (\<lambda>t. (jstring (jfield ''name'' t), opt_string (jfield ''description'' t),
           json_or_null (jfield ''parametersJsonSchema'' t))) (jlist (jfield ''functionDeclarations'' d))) (jlist (jfield ''tools'' cfg))),
       vv_choice = map_option read_gemini_choice (Option.bind (jfield ''toolConfig'' cfg) (jfield ''functionCallingConfig''))\<rparr>)"

text \<open>The documented behaviour of the names taken from \<open>@google/genai\<close>.\<close>

definition genai_documented :: "genai_lib \<Rightarrow> bool" where
  "genai_documented g \<longleftrightarrow> gl_NONE g = ''NONE'' \<and> gl_ANY g = ''ANY'' \<and> gl_AUTO g = ''AUTO'' \<and>
     (\<forall>i n r. gl_createPartFromFunctionResponse g i n r =
        JObj [(''functionResponse'', JObj [(''id'', JStr i), (''name'', JStr n), (''response'', JObj r)])])"

text \<open>The same, said of the request the gateway received.\<close>

fun message_turn :: "chat_message \<Rightarrow> provider_chat_turn" where
  "message_turn m = (case msg_role m of
     RUser \<Rightarrow> UserTurn (msg_content m)
   | RAssistant \<Rightarrow> AssistantTurn (msg_content m) (msg_toolCalls m)
   | RTool \<Rightarrow> ToolTurn (nullish (msg_toolCallId m) []) (msg_content m))"

definition request_view ::
  "(string \<Rightarrow> json) \<Rightarrow> (string \<Rightarrow> json) \<Rightarrow> (json \<Rightarrow> json) \<Rightarrow> chat_request \<Rightarrow> string \<Rightarrow> string \<Rightarrow> vendor_view" where
  "request_view args result schema r system modelId =
     (let tools = nullish (Option.bind (tooling r) definitions) [] in
      \<lparr>vv_model = modelId, vv_system = trimmed_system (Some system),
       vv_events = concat (map (\<lambda>m. turn_events args result (message_turn m)) (messages r)),
       vv_tools = map (\<lambda>t. (td_name t, truthy_str (td_description t), schema (td_parameters t))) tools,
       vv_choice = (if tools = [] then None else Option.bind (tooling r) toolChoice)\<rparr>)"

lemma request_turn_events:
  "toProviderTurns ms = Inr ts \<Longrightarrow> concat (map (turn_events args result) ts) = concat (map (\<lambda>m. turn_events args result (message_turn m)) ms)"
proof (induction ms arbitrary: ts)
  case (Cons m ms)
  have "nullish (truthy_list x) [] = nullish x []" for x :: "gateway_tool_call list option"
    by (simp add: truthy_list_def split: option.split)
  with Cons show ?case
    by (auto simp: isChatUserMessage_def isChatAssistantMessage_def isChatToolMessage_def split: role.split if_splits)
qed simp

lemma asked_of_request:
  assumes "buildProviderInputForAlias r alias' prompts = Inr input"
  shows "asked_view args result schema input modelId = request_view args result schema r (composeSystemPrompt prompts alias') modelId"
proof -
  obtain ts where "toProviderTurns (messages r) = Inr ts" using assms by (auto simp: buildProviderInputForAlias_def)
  from assms request_turn_events [OF this] this show ?thesis
    by (auto simp: asked_view_def request_view_def buildProviderInputForAlias_def truthy_list_def Let_def split: option.splits if_splits)
qed

locale vendor_request =
  fixes build :: "provider_chat_input \<Rightarrow> string \<Rightarrow> call_options \<Rightarrow> (string \<times> json) list"
    and read :: "(string \<times> json) list \<Rightarrow> vendor_view"
    and args :: "string \<Rightarrow> json" and result :: "string \<Rightarrow> json" and schema :: "json \<Rightarrow> json"
  assumes read_build: "read (build input modelId options) = asked_view args result schema input modelId"
begin

text \<open>The vendor is asked what the gateway was asked, whatever the generation parameters.\<close>

lemma read_request:
  "buildProviderInputForAlias r alias' prompts = Inr input \<Longrightarrow>
   read (build input modelId options) = request_view args result schema r (composeSystemPrompt prompts alias') modelId"
  by (simp add: read_build asked_of_request)

end

section \<open>The four request builders meet the contract\<close>

lemma tool_run_events:
  "concat (map (turn_events args result) (takeWhile is_tool_turn ts)) =
     map (\<lambda>(i, c). EvResult i (result c)) (map tool_pair (takeWhile is_tool_turn ts))"
proof (induction ts)
  case (Cons t ts)
  then show ?case by (cases t) simp_all
qed simp

lemma walk_turns_read:
  assumes "\<And>c. concat (map rd (user c)) = [EvUser c]"
    and "\<And>c calls. concat (map rd (assistant c calls)) = turn_events args result (AssistantTurn c calls)"
    and "\<And>rs. concat (map rd (results rs)) = map (\<lambda>(i, c). EvResult i (result c)) rs"
  shows "concat (map rd (walk_turns user assistant results ts)) = concat (map (turn_events args result) ts)"
  using assms
proof (induction user assistant results ts rule: walk_turns.induct)
  case (4 user assistant results i c ts)
  have "concat (map (turn_events args result) ts) =
      concat (map (turn_events args result) (takeWhile is_tool_turn ts)) @ concat (map (turn_events args result) (dropWhile is_tool_turn ts))"
    by (metis concat_append map_append takeWhile_dropWhile_id)
  with 4 show ?case by (simp add: tool_run_events)
qed simp_all

lemma jget_opt [simp]: "jget (opt_prop k f x) k' = (if k' = k then map_option f x else None)"
  by (cases x) (simp_all add: opt_prop_def)

lemma jget_tool_params [simp]:
  "jget (tool_params input mapTools mapChoice) k =
     (if nullish (pi_tools input) [] = [] then None
      else if k = ''tools'' then map_option mapTools (pi_tools input)
      else if k = ''tool_choice'' then map_option mapChoice (pi_toolChoice input) else None)"
  by (cases "pi_tools input") (auto simp: tool_params_def truthy_list_def opt_prop_def split: option.split)

lemma trimmed_system_simps [simp]:
  "trimmed_system (trimmed_system x) = trimmed_system x" "trimmed_system None = None"
  "trimmed_system (Some s) = (if js_trim s = [] then None else Some (js_trim s))"
  by (cases x; auto simp: trimmed_system_def truthy_str_def)+

lemma jfield_opt_string [simp]: "opt_string (map_option JStr x) = x" "opt_string None = None" "opt_string (Some (JStr s)) = Some s"
  by (cases x) (simp_all add: opt_string_def)

lemma json_or_null_simps [simp]: "json_or_null (Some v) = v" "json_or_null None = JNull"
  by (simp_all add: json_or_null_def)

lemma jget_max_tokens [simp]:
  "jget (mapMaxOutputTokensForChatCompletions modelId x) k =
     (if k = (if prefersMaxCompletionTokens modelId then ''max_completion_tokens'' else ''max_tokens'') then map_option JNum x else None)"
  by (cases x) (simp_all add: mapMaxOutputTokensForChatCompletions_def)

lemma map_concat_single: "concat (map (\<lambda>x. [f x]) xs) = map f xs"
  by (induction xs) simp_all

definition text_args :: "string \<Rightarrow> json" where
  "text_args a = JStr (if a = [] then ''{}'' else a)"

definition object_args :: "string \<Rightarrow> json" where
  "object_args a = JObj (parseJsonObject (if a = [] then ''{}'' else a))"

lemma openai_events:
  "concat (map read_openai_message (mapTurnsToOpenAiMessages ts system)) = concat (map (turn_events text_args JStr) ts)"
proof -
  let ?user = "\<lambda>c. [JObj [(''role'', JStr ''user''), (''content'', JStr c)]]"
  let ?results = "map (\<lambda>(i, c). JObj [(''role'', JStr ''tool''), (''tool_call_id'', JStr i), (''content'', JStr c)])"
  have "concat (map read_openai_message (walk_turns ?user mapAssistantTurn_openai ?results ts)) = concat (map (turn_events text_args JStr) ts)"
  proof (rule walk_turns_read)
    fix c calls
    show "concat (map read_openai_message (mapAssistantTurn_openai c calls)) = turn_events text_args JStr (AssistantTurn c calls)"
      by (cases calls rule: option.exhaust) (auto simp: mapAssistantTurn_openai_def read_openai_message_def said_def truthy_list_def
          text_args_def call_args_def)
  next
    fix rs :: "(string \<times> string) list"
    show "concat (map read_openai_message (?results rs)) = map (\<lambda>(i, c). EvResult i (JStr c)) rs"
      by (induction rs) (auto simp: read_openai_message_def)
  qed (simp add: read_openai_message_def)
  then show ?thesis by (auto simp: mapTurnsToOpenAiMessages_def read_openai_message_def split: option.split)
qed

lemma responses_events: "concat (map read_responses_item (mapTurnsToResponsesInput ts)) = concat (map (turn_events text_args JStr) ts)"
  unfolding mapTurnsToResponsesInput_def
proof (rule walk_turns_read)
  fix c calls
  show "concat (map read_responses_item (mapAssistantTurnToResponsesInput c calls)) = turn_events text_args JStr (AssistantTurn c calls)"
    by (auto simp: mapAssistantTurnToResponsesInput_def read_responses_item_def said_def text_args_def call_args_def map_concat_single comp_def
        cong: if_cong)
next
  fix rs :: "(string \<times> string) list"
  show "concat (map read_responses_item (map (\<lambda>(i, c). JObj [(''type'', JStr ''function_call_output''), (''call_id'', JStr i), (''output'', JStr c)]) rs)) =
      map (\<lambda>(i, c). EvResult i (JStr c)) rs"
    by (induction rs) (auto simp: read_responses_item_def)
qed (simp add: read_responses_item_def)

lemma anthropic_events:
  "concat (map read_anthropic_message (mapTurnsToAnthropicMessages ts)) = concat (map (turn_events (\<lambda>a. JObj (parseJsonObject a)) JStr) ts)"
  unfolding mapTurnsToAnthropicMessages_def
proof (rule walk_turns_read)
  fix c calls
  show "concat (map read_anthropic_message (mapAssistantTurn_anthropic c calls)) = turn_events (\<lambda>a. JObj (parseJsonObject a)) JStr (AssistantTurn c calls)"
    by (cases calls rule: option.exhaust) (auto simp: mapAssistantTurn_anthropic_def read_anthropic_message_def read_anthropic_block_def said_def
        truthy_list_def map_concat_single comp_def)
next
  fix rs :: "(string \<times> string) list"
  have "concat (map (read_anthropic_block True) (map (\<lambda>(i, c). JObj [(''type'', JStr ''tool_result''), (''tool_use_id'', JStr i), (''content'', JStr c)]) rs)) =
      map (\<lambda>(i, c). EvResult i (JStr c)) rs"
    by (induction rs) (auto simp: read_anthropic_block_def)
  then show "concat (map read_anthropic_message [JObj [(''role'', JStr ''user''), (''content'', JArr (map (\<lambda>(i, c).
      JObj [(''type'', JStr ''tool_result''), (''tool_use_id'', JStr i), (''content'', JStr c)]) rs))]]) = map (\<lambda>(i, c). EvResult i (JStr c)) rs"
    by (simp add: read_anthropic_message_def)
qed (simp add: read_anthropic_message_def)

lemma gemini_events:
  assumes "genai_documented g"
  shows "concat (map read_gemini_content (mapTurnsToGeminiContents g ts)) = concat (map (turn_events object_args object_args) ts)"
proof (induction ts)
  case (Cons t ts)
  have "read_gemini_content (gemini_content g t) = turn_events object_args object_args t"
    using assms by (cases t) (auto simp: read_gemini_content_def read_gemini_part_def mapAssistantTurnToGeminiContent_def said_def object_args_def
        call_args_def genai_documented_def map_concat_single comp_def cong: if_cong)
  with Cons show ?case by (simp add: mapTurnsToGeminiContents_def)
qed (simp add: mapTurnsToGeminiContents_def)

lemma walk_turns_all:
  assumes "\<And>c. list_all P (user c)" "\<And>c calls. list_all P (assistant c calls)" "\<And>rs. list_all P (results rs)"
  shows "list_all P (walk_turns user assistant results ts)"
  using assms by (induction user assistant results ts rule: walk_turns.induct) simp_all

lemma openai_system_read: "openai_system (mapTurnsToOpenAiMessages ts system) = trimmed_system system"
proof -
  let ?user = "\<lambda>c. [JObj [(''role'', JStr ''user''), (''content'', JStr c)]]"
  let ?results = "map (\<lambda>(i, c). JObj [(''role'', JStr ''tool''), (''tool_call_id'', JStr i), (''content'', JStr c)])"
  have "list_all (\<lambda>m. jstring (jfield ''role'' m) \<noteq> ''system'') (walk_turns ?user mapAssistantTurn_openai ?results ts)"
    by (rule walk_turns_all) (auto simp: mapAssistantTurn_openai_def list_all_iff split: option.split)
  then have "openai_system (walk_turns ?user mapAssistantTurn_openai ?results ts) = None"
    by (auto simp: openai_system_def split: list.split)
  then show ?thesis
    by (cases system) (simp_all add: mapTurnsToOpenAiMessages_def, simp add: openai_system_def)
qed

lemma tools_nonempty: "nullish x [] = [] \<longleftrightarrow> truthy_list x = None"
  by (cases x) simp_all

lemma choices_read [simp]:
  "read_named_choice (\<lambda>c. Option.bind (jfield ''function'' c) (jfield ''name'')) (mapToolChoiceToOpenAi c) = c"
  "read_named_choice (jfield ''name'') (mapToolChoiceToResponses c) = c"
  "read_anthropic_choice (mapToolChoiceToAnthropic c) = c"
  "genai_documented g \<Longrightarrow> read_gemini_choice (mapToolChoiceToGemini g c) = c"
  by (cases c; simp add: read_named_choice_def read_anthropic_choice_def read_gemini_choice_def genai_documented_def js_strings_def)+

lemma description_read [simp]:
  "k \<noteq> ''description'' \<Longrightarrow> opt_string (case x of None \<Rightarrow> jget [(k, p)] ''description'' | Some y \<Rightarrow> (Some \<circ> JStr) y) = x"
  by (cases x) simp_all

lemma truthy_tools_cases:
  obtains "x = None \<or> x = Some []" "truthy_list x = None" "nullish x [] = []"
  | t ts where "x = Some (t # ts)" "truthy_list x = Some (t # ts)"
  by (cases x; cases "the x") auto

lemmas request_reading = asked_view_def option.map_comp comp_def option.map_ident id_def

lemma chat_completions_keys:
  "jget (chat_completions_params input modelId options) ''model'' = Some (JStr modelId)"
  "jget (chat_completions_params input modelId options) ''messages'' = Some (JArr (mapTurnsToOpenAiMessages (pi_messages input) (pi_system input)))"
  "jget (chat_completions_params input modelId options) ''tools'' = map_option mapToolsToOpenAi (truthy_list (pi_tools input))"
  "jget (chat_completions_params input modelId options) ''tool_choice'' =
     (if truthy_list (pi_tools input) = None then None else map_option mapToolChoiceToOpenAi (pi_toolChoice input))"
  by (cases "pi_tools input"; simp add: chat_completions_params_def mapCallOptionsToChatCompletionParams_def truthy_list_def)+

interpretation chat_completions: vendor_request chat_completions_params read_chat_completions text_args JStr id
proof
  show "read_chat_completions (chat_completions_params input modelId options) = asked_view text_args JStr id input modelId"
    for input modelId options
    by (cases "pi_tools input") (simp_all add: read_chat_completions_def chat_completions_keys openai_events openai_system_read
        mapToolsToOpenAi_def truthy_list_def request_reading)
qed

lemma responses_keys:
  "jget (buildResponsesCreateParams input modelId options) ''model'' = Some (JStr modelId)"
  "jget (buildResponsesCreateParams input modelId options) ''instructions'' = map_option JStr (trimmed_system (pi_system input))"
  "jget (buildResponsesCreateParams input modelId options) ''input'' = Some (JArr (mapTurnsToResponsesInput (pi_messages input)))"
  "jget (buildResponsesCreateParams input modelId options) ''tools'' = map_option mapToolsToResponses (truthy_list (pi_tools input))"
  "jget (buildResponsesCreateParams input modelId options) ''tool_choice'' =
     (if truthy_list (pi_tools input) = None then None else map_option mapToolChoiceToResponses (pi_toolChoice input))"
  by (cases "pi_tools input"; simp add: buildResponsesCreateParams_def mapCallOptionsToResponsesParams_def truthy_list_def split: option.split)+

interpretation responses: vendor_request buildResponsesCreateParams read_responses text_args JStr id
proof
  show "read_responses (buildResponsesCreateParams input modelId options) = asked_view text_args JStr id input modelId"
    for input modelId options
    by (cases "pi_tools input") (simp_all add: read_responses_def responses_keys responses_events mapToolsToResponses_def truthy_list_def request_reading)
qed

lemma jget_sampling [simp]: "k \<notin> {''top_k'', ''top_p'', ''temperature''} \<Longrightarrow> jget (resolveAnthropicSamplingParams options) k = None"
  by (simp add: resolveAnthropicSamplingParams_def)

lemma anthropic_keys:
  "jget (anthropic_params_of input modelId options) ''model'' = Some (JStr modelId)"
  "jget (anthropic_params_of input modelId options) ''system'' = map_option JStr (pi_system input)"
  "jget (anthropic_params_of input modelId options) ''messages'' = Some (JArr (mapTurnsToAnthropicMessages (pi_messages input)))"
  "jget (anthropic_params_of input modelId options) ''tools'' = map_option mapToolsToAnthropic (truthy_list (pi_tools input))"
  "jget (anthropic_params_of input modelId options) ''tool_choice'' =
     (if truthy_list (pi_tools input) = None then None else map_option mapToolChoiceToAnthropic (pi_toolChoice input))"
  by (cases "pi_tools input"; simp add: anthropic_params_of_def anthropic_base_def anthropic_rest_def truthy_list_def split: option.split)+

interpretation anthropic_messages_api: vendor_request anthropic_params_of read_anthropic "\<lambda>a. JObj (parseJsonObject a)" JStr toInputSchema
proof
  show "read_anthropic (anthropic_params_of input modelId options) = asked_view (\<lambda>a. JObj (parseJsonObject a)) JStr toInputSchema input modelId"
    for input modelId options
    by (cases "pi_tools input") (simp_all add: read_anthropic_def anthropic_keys anthropic_events mapToolsToAnthropic_def truthy_list_def request_reading)
qed

lemma jget_None_iff: "jget kvs k = None \<longleftrightarrow> k \<notin> fst ` set kvs"
  by (induction kvs k rule: jget.induct) auto

lemma set_opt_prop: "set (opt_prop k f x) = (\<lambda>v. (k, f v)) ` set_option x"
  by (cases x) (simp_all add: opt_prop_def)

lemma jget_generation_config:
  assumes "k \<in> {''systemInstruction'', ''tools'', ''toolConfig''}"
  shows "jget (buildGenerationConfig g options modelId) k = None"
proof -
  have "k \<notin> fst ` set (case responseFormat options of
        Some rf \<Rightarrow> (if rf_type rf = RfJsonObject then [(''response_format'', JStr ''application/json'')] else []) @
          opt_prop ''response_schema'' id (rf_jsonSchema rf)
      | None \<Rightarrow> [])" using assms by (auto simp: set_opt_prop split: option.split)
  with assms show ?thesis
    unfolding jget_None_iff buildGenerationConfig_def by (auto simp: set_opt_prop image_Un image_image)
qed

lemma gemini_config:
  obtains cfg where "jget (gemini_params g input modelId options) ''config'' = Some cfg"
    "trimmed_system (opt_string (jfield ''systemInstruction'' cfg)) = trimmed_system (pi_system input)"
    "jfield ''tools'' cfg = map_option (\<lambda>ts. JArr [JObj [(''functionDeclarations'', mapToolsToGemini ts)]]) (truthy_list (pi_tools input))"
    "jfield ''toolConfig'' cfg = (if truthy_list (pi_tools input) = None then None
      else map_option (\<lambda>c. JObj [(''functionCallingConfig'', mapToolChoiceToGemini g c)]) (pi_toolChoice input))"
proof -
  let ?sys = "case pi_system input of Some s \<Rightarrow> if js_trim s \<noteq> [] then [(''systemInstruction'', JStr s)] else [] | None \<Rightarrow> []"
  let ?tools = "case truthy_list (pi_tools input) of
            Some ts \<Rightarrow> [(''tools'', JArr [JObj [(''functionDeclarations'', mapToolsToGemini ts)]])] @
              opt_prop ''toolConfig'' (\<lambda>c. JObj [(''functionCallingConfig'', mapToolChoiceToGemini g c)]) (pi_toolChoice input)
          | None \<Rightarrow> []"
  have "jget ?sys k = None" if "k \<noteq> ''systemInstruction''" for k using that by (simp split: option.split)
  moreover have "jget ?sys ''systemInstruction'' = (case pi_system input of Some s \<Rightarrow> if js_trim s \<noteq> [] then Some (JStr s) else None | None \<Rightarrow> None)"
    by (simp split: option.split)
  moreover have "jget ?tools ''systemInstruction'' = None" by (cases "pi_tools input" rule: truthy_tools_cases) auto
  moreover have "jget ?tools ''tools'' = map_option (\<lambda>ts. JArr [JObj [(''functionDeclarations'', mapToolsToGemini ts)]]) (truthy_list (pi_tools input))"
    by (cases "pi_tools input" rule: truthy_tools_cases) auto
  moreover have "jget ?tools ''toolConfig'' = (if truthy_list (pi_tools input) = None then None
      else map_option (\<lambda>c. JObj [(''functionCallingConfig'', mapToolChoiceToGemini g c)]) (pi_toolChoice input))"
    by (cases "pi_tools input" rule: truthy_tools_cases) auto
  ultimately show ?thesis
    by (intro that [of "JObj (?sys @ buildGenerationConfig g options modelId @ ?tools)"])
      (simp_all add: gemini_params_def jget_generation_config split: option.split)
qed

lemma gemini_view:
  assumes "genai_documented g"
  shows "read_gemini (gemini_params g input modelId options) = asked_view object_args object_args toInputSchema input modelId"
proof -
  obtain cfg where "jget (gemini_params g input modelId options) ''config'' = Some cfg"
    "trimmed_system (opt_string (jfield ''systemInstruction'' cfg)) = trimmed_system (pi_system input)"
    "jfield ''tools'' cfg = map_option (\<lambda>ts. JArr [JObj [(''functionDeclarations'', mapToolsToGemini ts)]]) (truthy_list (pi_tools input))"
    "jfield ''toolConfig'' cfg = (if truthy_list (pi_tools input) = None then None
      else map_option (\<lambda>c. JObj [(''functionCallingConfig'', mapToolChoiceToGemini g c)]) (pi_toolChoice input))"
    by (rule gemini_config)
  moreover have "jget (gemini_params g input modelId options) ''model'' = Some (JStr modelId)"
    "jget (gemini_params g input modelId options) ''contents'' = Some (JArr (mapTurnsToGeminiContents g (pi_messages input)))"
    by (simp_all add: gemini_params_def)
  ultimately show ?thesis
    by (cases "pi_tools input" rule: truthy_tools_cases; cases "pi_toolChoice input") (auto simp: read_gemini_def gemini_events [OF assms]
        choices_read(4) [OF assms] mapToolsToGemini_def request_reading Let_def)
qed


definition documented_genai :: genai_lib where
  "documented_genai = \<lparr>gl_createPartFromFunctionResponse = (\<lambda>i n r. JObj [(''functionResponse'', JObj [(''id'', JStr i), (''name'', JStr n), (''response'', JObj r)])]),
     gl_NONE = ''NONE'', gl_ANY = ''ANY'', gl_AUTO = ''AUTO'', gl_thinkingLevel = effort_string\<rparr>"

definition weather_chat :: chat_request where
  "weather_chat = \<lparr>modelAlias = ''m'', messages =
     [\<lparr>msg_role = RUser, msg_content = ''Weather?'', msg_toolCallId = None, msg_toolCalls = None\<rparr>,
      \<lparr>msg_role = RAssistant, msg_content = [], msg_toolCallId = None, msg_toolCalls = Some [\<lparr>tc_id = ''c1'', tc_name = ''weather'', tc_arguments = []\<rparr>]\<rparr>,
      \<lparr>msg_role = RTool, msg_content = ''sunny'', msg_toolCallId = Some ''c1'', msg_toolCalls = None\<rparr>],
     params = None, conversationId = None, tooling = None, metadata = None\<rparr>"

definition plain_prompts :: resolved_system_prompts where
  "plain_prompts = \<lparr>rsp_master = ''Be brief.'', rsp_main = None, rsp_perModelByAlias = []\<rparr>"

lemma documented_genai_ok: "genai_documented documented_genai"
  by (simp add: genai_documented_def documented_genai_def)


text \<open>A tool result that is not the text of a JSON object does not reach Gemini, and it is given the call's id as the name of the function.\<close>

lemma gemini_loses_text_results:
  assumes "genai_documented g"
  shows "read_gemini_content (gemini_content g (ToolTurn ''c1'' ''sunny'')) = [EvResult ''c1'' (JObj [])]"
    and "jfield ''name'' (json_or_null (jfield ''functionResponse'' (hd (jlist (jfield ''parts'' (gemini_content g (ToolTurn i c))))))) = Some (JStr i)"
proof -
  have "parseJsonObject ''sunny'' = []" by code_simp
  then show "read_gemini_content (gemini_content g (ToolTurn ''c1'' ''sunny'')) = [EvResult ''c1'' (JObj [])]"
    using gemini_events [OF assms, of "[ToolTurn ''c1'' ''sunny'']"] by (simp add: mapTurnsToGeminiContents_def object_args_def)
qed (use assms in \<open>simp add: genai_documented_def\<close>)

section \<open>Parameters a vendor does not get\<close>

datatype gen_param = GTemperature | GMaxOutputTokens | GTopP | GTopK | GStop | GFrequencyPenalty | GPresencePenalty | GSeed

fun param_value :: "call_options \<Rightarrow> gen_param \<Rightarrow> json option" where
  "param_value o' GTemperature = map_option JNum (temperature o')"
| "param_value o' GMaxOutputTokens = map_option JNum (maxOutputTokens o')"
| "param_value o' GTopP = map_option JNum (topP o')"
| "param_value o' GTopK = map_option JNum (topK o')"
| "param_value o' GStop = map_option js_strings (mapStopSequences (stop o'))"
| "param_value o' GFrequencyPenalty = map_option JNum (frequencyPenalty o')"
| "param_value o' GPresencePenalty = map_option JNum (presencePenalty o')"
| "param_value o' GSeed = map_option JNum (seed o')"

fun param_field :: "gen_param \<Rightarrow> string" where
  "param_field GTemperature = ''params.temperature''"
| "param_field GMaxOutputTokens = ''params.maxOutputTokens''"
| "param_field GTopP = ''params.topP''"
| "param_field GTopK = ''params.topK''"
| "param_field GStop = ''params.stop''"
| "param_field GFrequencyPenalty = ''params.frequencyPenalty''"
| "param_field GPresencePenalty = ''params.presencePenalty''"
| "param_field GSeed = ''params.seed''"

text \<open>The documented name of a parameter in the snake case of OpenAI and Anthropic, and in Gemini's configuration.\<close>

fun param_names :: "provider_type \<Rightarrow> gen_param \<Rightarrow> string list" where
  "param_names PGoogle GTemperature = [''temperature'']"
| "param_names PGoogle GMaxOutputTokens = [''maxOutputTokens'']"
| "param_names PGoogle GTopP = [''topP'']"
| "param_names PGoogle GTopK = [''topK'']"
| "param_names PGoogle GStop = [''stopSequences'']"
| "param_names PGoogle GFrequencyPenalty = [''frequencyPenalty'']"
| "param_names PGoogle GPresencePenalty = [''presencePenalty'']"
| "param_names PGoogle GSeed = [''seed'']"
| "param_names t GTemperature = [''temperature'']"
| "param_names t GMaxOutputTokens = [''max_tokens'', ''max_completion_tokens'', ''max_output_tokens'']"
| "param_names t GTopP = [''top_p'']"
| "param_names t GTopK = [''top_k'']"
| "param_names t GStop = [''stop'', ''stop_sequences'']"
| "param_names t GFrequencyPenalty = [''frequency_penalty'']"
| "param_names t GPresencePenalty = [''presence_penalty'']"
| "param_names t GSeed = [''seed'']"

definition request_body :: "genai_lib \<Rightarrow> provider_type \<Rightarrow> provider_chat_input \<Rightarrow> string \<Rightarrow> call_options \<Rightarrow> (string \<times> json) list" where
  "request_body g t input modelId options =
     (case t of
        PAnthropic \<Rightarrow> anthropic_params_of input modelId options
      | PGoogle \<Rightarrow> (case jget (gemini_params g input modelId options) ''config'' of Some (JObj cfg) \<Rightarrow> cfg | _ \<Rightarrow> [])
      | POpenAI \<Rightarrow> buildResponsesCreateParams input modelId options
      | POpenAICompatible \<Rightarrow> chat_completions_params input modelId options)"

definition carried :: "genai_lib \<Rightarrow> provider_type \<Rightarrow> provider_chat_input \<Rightarrow> string \<Rightarrow> call_options \<Rightarrow> gen_param \<Rightarrow> bool" where
  "carried g t input modelId options p \<longleftrightarrow>
     list_ex (\<lambda>k. jget (request_body g t input modelId options) k = param_value options p) (param_names t p)"

definition warned :: "provider_type \<Rightarrow> call_options \<Rightarrow> gen_param \<Rightarrow> bool" where
  "warned t options p \<longleftrightarrow> list_ex (\<lambda>w. warn_field w = Some (param_field p)) (buildGenerationWarnings options t)"

definition overruled :: "provider_type \<Rightarrow> call_options \<Rightarrow> gen_param \<Rightarrow> bool" where
  "overruled t options p \<longleftrightarrow> t = PAnthropic \<and>
     (p = GTemperature \<and> (topP options \<noteq> None \<or> topK options \<noteq> None) \<or> p = GTopP \<and> topK options \<noteq> None)"

lemma gemini_config_keys:
  "k \<notin> {''systemInstruction'', ''tools'', ''toolConfig''} \<Longrightarrow>
   jget (request_body g PGoogle input modelId options) k = jget (buildGenerationConfig g options modelId) k"
  by (cases "pi_tools input" rule: truthy_tools_cases; cases "pi_system input")
    (auto simp: request_body_def gemini_params_def split: option.split)

lemma param_present: "param_value options p = Some v \<Longrightarrow> carried g t input modelId options p \<longleftrightarrow>
     list_ex (\<lambda>k. jget (request_body g t input modelId options) k = Some v) (param_names t p)"
  by (simp add: carried_def)

lemma stop_value: "map_option js_strings (mapStopSequences (stop options)) = Some v \<Longrightarrow> stop options \<noteq> None"
  by (auto simp: mapStopSequences_def)

text \<open>Rules that find a key in a body piece by piece.\<close>

lemma jget_pieces:
  "jget (opt_prop k f x @ r) k' = (if k' = k \<and> x \<noteq> None then map_option f x else jget r k')"
  "jget a k' = None \<Longrightarrow> jget (a @ b) k' = jget b k'"
  "jget a k' = Some v \<Longrightarrow> jget (a @ b) k' = Some v"
  by (cases x; simp add: opt_prop_def)+

lemma chat_completions_values:
  "jget (chat_completions_params input modelId options) ''temperature'' = map_option JNum (temperature options)"
  "jget (chat_completions_params input modelId options) ''top_p'' = map_option JNum (topP options)"
  "jget (chat_completions_params input modelId options) ''top_k'' = None"
  "jget (chat_completions_params input modelId options) ''frequency_penalty'' = map_option JNum (frequencyPenalty options)"
  "jget (chat_completions_params input modelId options) ''presence_penalty'' = map_option JNum (presencePenalty options)"
  "jget (chat_completions_params input modelId options) ''seed'' = map_option JNum (seed options)"
  "jget (chat_completions_params input modelId options) ''stop'' = map_option js_strings (mapStopSequences (stop options))"
  by (simp_all add: chat_completions_params_def mapCallOptionsToChatCompletionParams_def jget_pieces del: jget_append)

lemma chat_completions_max_tokens:
  "jget (chat_completions_params input modelId options) (if prefersMaxCompletionTokens modelId then ''max_completion_tokens'' else ''max_tokens'') =
     map_option JNum (maxOutputTokens options)"
  by (cases "maxOutputTokens options") (simp_all add: chat_completions_params_def mapCallOptionsToChatCompletionParams_def jget_pieces del: jget_append)

lemma responses_values:
  "jget (buildResponsesCreateParams input modelId options) ''temperature'' = map_option JNum (temperature options)"
  "jget (buildResponsesCreateParams input modelId options) ''top_p'' = map_option JNum (topP options)"
  "jget (buildResponsesCreateParams input modelId options) ''max_output_tokens'' = map_option JNum (maxOutputTokens options)"
  by (simp_all add: buildResponsesCreateParams_def mapCallOptionsToResponsesParams_def jget_pieces del: jget_append)

lemma responses_absent:
  "k \<in> {''top_k'', ''frequency_penalty'', ''presence_penalty'', ''seed'', ''stop'', ''stop_sequences''} \<Longrightarrow>
   jget (buildResponsesCreateParams input modelId options) k = None"
  by (elim insertE; simp add: buildResponsesCreateParams_def mapCallOptionsToResponsesParams_def jget_pieces del: jget_append)

lemma anthropic_values:
  "jget (anthropic_params_of input modelId options) ''max_tokens'' = Some (JNum (nullish (maxOutputTokens options) 1024))"
  "jget (anthropic_params_of input modelId options) ''stop_sequences'' = map_option js_strings (mapStopSequences (stop options))"
  "jget (anthropic_params_of input modelId options) ''top_k'' = map_option JNum (topK options)"
  "jget (anthropic_params_of input modelId options) ''top_p'' = (if topK options = None then map_option JNum (topP options) else None)"
  "jget (anthropic_params_of input modelId options) ''temperature'' =
     (if topK options = None \<and> topP options = None then map_option JNum (temperature options) else None)"
  by (simp_all add: anthropic_params_of_def anthropic_base_def anthropic_rest_def resolveAnthropicSamplingParams_def jget_pieces del: jget_append)

lemma anthropic_absent:
  "k \<in> {''frequency_penalty'', ''presence_penalty'', ''seed''} \<Longrightarrow> jget (anthropic_params_of input modelId options) k = None"
  by (elim insertE; simp add: anthropic_params_of_def anthropic_base_def anthropic_rest_def jget_pieces del: jget_append)

lemma gemini_values:
  "jget (request_body g PGoogle input modelId options) ''temperature'' = map_option JNum (temperature options)"
  "jget (request_body g PGoogle input modelId options) ''maxOutputTokens'' = Some (JNum (nullish (maxOutputTokens options) 1024))"
  "jget (request_body g PGoogle input modelId options) ''topP'' = map_option JNum (topP options)"
  "jget (request_body g PGoogle input modelId options) ''topK'' = map_option JNum (topK options)"
  "jget (request_body g PGoogle input modelId options) ''stopSequences'' = map_option js_strings (mapStopSequences (stop options))"
  "jget (request_body g PGoogle input modelId options) ''seed'' = map_option JNum (seed options)"
  "jget (request_body g PGoogle input modelId options) ''frequencyPenalty'' = None"
  "jget (request_body g PGoogle input modelId options) ''presencePenalty'' = None"
  by (simp_all add: gemini_config_keys buildGenerationConfig_def jget_pieces del: jget_append split: option.split)

lemmas request_values = responses_values responses_absent anthropic_values anthropic_absent gemini_values

lemma carried_exact:
  assumes "param_value options p = Some v"
  shows "carried g t input modelId options p \<longleftrightarrow>
    (case t of
       PAnthropic \<Rightarrow> p \<in> {GTemperature, GMaxOutputTokens, GTopP, GTopK, GStop} \<and> \<not> overruled t options p
     | PGoogle \<Rightarrow> p \<notin> {GFrequencyPenalty, GPresencePenalty}
     | POpenAI \<Rightarrow> p \<in> {GTemperature, GMaxOutputTokens, GTopP}
     | POpenAICompatible \<Rightarrow> p \<noteq> GTopK)"
proof (cases t)
  case POpenAICompatible
  then show ?thesis using assms chat_completions_max_tokens [of input modelId options]
    by (cases p) (auto simp: carried_def request_body_def chat_completions_values split: if_splits)
qed (use assms in \<open>cases p; auto simp: carried_def request_values overruled_def request_body_def [of _ PAnthropic] request_body_def [of _ POpenAI]\<close>)+

lemma warned_exact:
  assumes "param_value options p = Some v"
  shows "warned t options p \<longleftrightarrow>
    (case t of
       PAnthropic \<Rightarrow> p \<in> {GFrequencyPenalty, GPresencePenalty, GSeed}
     | PGoogle \<Rightarrow> p \<in> {GFrequencyPenalty, GPresencePenalty}
     | POpenAI \<Rightarrow> p \<in> {GTopK, GStop, GFrequencyPenalty, GPresencePenalty, GSeed}
     | POpenAICompatible \<Rightarrow> p = GTopK)"
  using assms by (cases t; cases p) (auto simp: warned_def buildGenerationWarnings_def ignored_warning_def mapStopSequences_def)



text \<open>The warning that thinking was ignored by an OpenAI-compatible provider goes with a request that asks for it.\<close>

lemma ignored_thinking_is_sent:
  assumes "isOpenAiReasoningRequested options"
  shows "jget (chat_completions_params input modelId options) ''thinking'' = Some (JObj [(''type'', JStr ''enabled'')]) \<and>
    (\<exists>w \<in> set (buildGenerationWarnings options POpenAICompatible). warn_field w = Some ''params.thinkingEnabled'')"
  using assms by (simp add: chat_completions_params_def mapCallOptionsToChatCompletionParams_def mapThinkingToChatCompletion_def
      buildGenerationWarnings_def ignored_warning_def)

end
