(* ===== verification/Vendor_Adapters.thy ===== *)
theory Vendor_Adapters
  imports Vendor_Requests Chat_Service "HOL-Library.AList"
begin

text \<open>
  The vendor adapters (\<open>providers/openai/adapters\<close>, \<open>providers/factories\<close>): how the answers and streams of the
  vendor SDKs become provider responses. An SDK client is a parameter: what it answers to a request body, or the error it throws; a
  stream is the list of its events and the error it may break off with. The generator of an adapter asks the
  SDK when the first chunk is read; the getters of its result are read after the last chunk, so each is a function of the
  events consumed. JavaScript \<open>Map\<close> objects, which keep the order of insertion, are association lists with \<open>AList.update\<close>.
\<close>

section \<open>SDK streams\<close>

type_synonym 'e vendor_stream = "'e list \<times> jserr option"

fun text_stream_of :: "string list \<Rightarrow> jserr option \<Rightarrow> text_stream" where
  "text_stream_of [] None = StreamEnd"
| "text_stream_of [] (Some e) = StreamThrow e"
| "text_stream_of (t # ts) e = StreamChunk t (text_stream_of ts e)"

text \<open>The generator and the closures around it: \<open>yields\<close> is what the loop yields for an event, \<open>wrap\<close> the \<open>catch\<close> clause,
  \<open>result\<close> the object that is returned, given the text stream and the consumed events.\<close>

definition adapter_stream ::
  "('w, 'e vendor_stream) io \<Rightarrow> ('e \<Rightarrow> string list) \<Rightarrow> (jserr \<Rightarrow> jserr) \<Rightarrow> (text_stream \<Rightarrow> 'e list \<Rightarrow> 'r) \<Rightarrow> ('w, 'r) io" where
  "adapter_stream ask yields wrap result =
     io_catch (io_map (\<lambda>(es, e). result (text_stream_of (concat (map yields es)) (map_option wrap e)) es) ask)
       (\<lambda>e. io_return (result (StreamThrow (wrap e)) []))"

section \<open>OpenAI Chat Completions (openai-tools-provider.mapper.ts, openai-stream-provider.mapper.ts, chat-completions.adapter.ts)\<close>

record openai_raw_call =
  orc_type :: string
  orc_id :: string
  orc_name :: string
  orc_arguments :: "string option"

record openai_raw_message =
  orm_content :: "string option"
  orm_reasoning_content :: "json option"
  orm_tool_calls :: "openai_raw_call list option"

record openai_raw_usage =
  oru_prompt_tokens :: "int option"
  oru_completion_tokens :: "int option"

record openai_completion =
  occ_choices :: "(openai_raw_message option \<times> string option) list"
  occ_model :: string
  occ_usage :: "openai_raw_usage option"
  occ_system_fingerprint :: "string option"

fun mapOpenAiFinishReason :: "string option \<Rightarrow> stop_reason" where
  "mapOpenAiFinishReason (Some r) =
     (if r = ''length'' then SrLength else if r = ''tool_calls'' then SrToolCalls
      else if r = ''content_filter'' then SrContentFilter else SrStop)"
| "mapOpenAiFinishReason None = SrStop"

definition readOpenAiReasoningContent :: "openai_raw_message option \<Rightarrow> string option" where
  "readOpenAiReasoningContent message =
     (case Option.bind message orm_reasoning_content of
        Some (JStr s) \<Rightarrow> if js_trim s \<noteq> [] then Some s else None
      | _ \<Rightarrow> None)"

definition mapOpenAiToolCalls :: "openai_raw_call list \<Rightarrow> gateway_tool_call list" where
  "mapOpenAiToolCalls raw = map (\<lambda>c. \<lparr>tc_id = orc_id c, tc_name = orc_name c, tc_arguments = nullish (orc_arguments c) ''{}''\<rparr>)
     (filter (\<lambda>c. orc_type c = ''function'') raw)"

definition openai_usage_of :: "openai_raw_usage \<Rightarrow> token_usage" where
  "openai_usage_of u = \<lparr>inputTokens = nullish (oru_prompt_tokens u) 0, outputTokens = nullish (oru_completion_tokens u) 0\<rparr>"

definition js_first :: "'a list \<Rightarrow> 'a option" where
  "js_first xs = (case xs of [] \<Rightarrow> None | x # _ \<Rightarrow> Some x)"

definition parseOpenAiCompletionWithTools :: "openai_completion \<Rightarrow> provider_chat_response" where
  "parseOpenAiCompletionWithTools response =
     (let choice = js_first (occ_choices response); message = Option.bind choice fst in
      \<lparr>pr_text = nullish (Option.bind message orm_content) [],
       pr_toolCalls = truthy_list (map_option mapOpenAiToolCalls (truthy_list (Option.bind message orm_tool_calls))),
       pr_stopReason = Some (mapOpenAiFinishReason (Option.bind choice snd)),
       pr_model = Some (occ_model response),
       pr_usage = map_option openai_usage_of (occ_usage response),
       pr_usageDetails = None,
       pr_systemFingerprint = truthy_str (occ_system_fingerprint response),
       pr_thinkingContent = readOpenAiReasoningContent message\<rparr>)"

record openai_call_delta =
  ocd_index :: nat
  ocd_id :: "string option"
  ocd_name :: "string option"
  ocd_arguments :: "string option"

record openai_chunk_choice =
  occh_content :: "string option"
  occh_tool_calls :: "openai_call_delta list option"
  occh_finish_reason :: "string option"

record openai_chunk =
  ock_choices :: "openai_chunk_choice list"
  ock_model :: "string option"
  ock_usage :: "openai_raw_usage option"
  ock_system_fingerprint :: "string option"

record pending_call =
  pc_id :: "string option"
  pc_name :: string
  pc_arguments :: string

type_synonym tool_call_accumulator = "(nat \<times> pending_call) list"

definition extractOpenAiStreamDeltaText :: "openai_chunk \<Rightarrow> string" where
  "extractOpenAiStreamDeltaText chunk = nullish (Option.bind (js_first (ock_choices chunk)) occh_content) []"

definition accumulate_delta :: "openai_call_delta \<Rightarrow> tool_call_accumulator \<Rightarrow> tool_call_accumulator" where
  "accumulate_delta d acc =
     (let existing = nullish (map_of acc (ocd_index d)) \<lparr>pc_id = None, pc_name = [], pc_arguments = []\<rparr>
      in AList.update (ocd_index d)
           \<lparr>pc_id = (case ocd_id d of Some i \<Rightarrow> Some i | None \<Rightarrow> pc_id existing), pc_name = nullish (ocd_name d) (pc_name existing),
            pc_arguments = pc_arguments existing @ nullish (ocd_arguments d) []\<rparr> acc)"

definition accumulateOpenAiStreamToolCallDeltas :: "openai_chunk \<Rightarrow> tool_call_accumulator \<Rightarrow> tool_call_accumulator" where
  "accumulateOpenAiStreamToolCallDeltas chunk acc =
     fold accumulate_delta (nullish (Option.bind (js_first (ock_choices chunk)) occh_tool_calls) []) acc"

definition finalizeOpenAiStreamToolCalls :: "tool_call_accumulator \<Rightarrow> gateway_tool_call list" where
  "finalizeOpenAiStreamToolCalls acc =
     map (\<lambda>c. \<lparr>tc_id = the (pc_id c), tc_name = pc_name c, tc_arguments = (if pc_arguments c = [] then ''{}'' else pc_arguments c)\<rparr>)
       (filter (\<lambda>c. truthy_str (pc_id c) \<noteq> None \<and> pc_name c \<noteq> []) (map snd acc))"

definition js_last :: "'a list \<Rightarrow> 'a option" where
  "js_last xs = (if xs = [] then None else Some (last xs))"

record 'w chat_client =
  oai_chatCreate :: "(string \<times> json) list \<Rightarrow> ('w, openai_completion) io"
  oai_chatStream :: "(string \<times> json) list \<Rightarrow> ('w, openai_chunk vendor_stream) io"

definition openai_wrap :: "jserr \<Rightarrow> jserr" where
  "openai_wrap e = toHttpException (mapOpenAiSdkError e)"

definition chat_complete :: "'w chat_client \<Rightarrow> provider_chat_input \<Rightarrow> string \<Rightarrow> call_options \<Rightarrow> ('w, provider_chat_response) io" where
  "chat_complete client input modelId options =
     io_catch (io_map parseOpenAiCompletionWithTools (oai_chatCreate client (chat_completions_params input modelId options)))
       (\<lambda>e. io_throw (openai_wrap e))"

definition yield_text :: "string \<Rightarrow> string list" where
  "yield_text t = (if t \<noteq> [] then [t] else [])"

definition chat_stream_result :: "string \<Rightarrow> text_stream \<Rightarrow> openai_chunk list \<Rightarrow> 'w stream_result" where
  "chat_stream_result modelId textStream chunks =
     (let finalChunk = js_last chunks; calls = finalizeOpenAiStreamToolCalls (fold accumulateOpenAiStreamToolCallDeltas chunks []) in
      \<lparr>sr_textStream = textStream,
       sr_getUsageMetadata = io_return (map_option (\<lambda>u. \<lparr>stu_tokens = openai_usage_of u,
         stu_model = Some (nullish (Option.bind finalChunk ock_model) modelId)\<rparr>) (Option.bind finalChunk ock_usage)),
       sr_getFinalToolCalls = Some (io_return (truthy_list (Some calls))),
       sr_getStopReason = Some (io_return (Some (mapOpenAiFinishReason
         (Option.bind (Option.bind finalChunk (\<lambda>c. js_first (ock_choices c))) occh_finish_reason)))),
       sr_getSystemFingerprint = Some (io_return (truthy_str (Option.bind finalChunk ock_system_fingerprint))),
       sr_getThinkingContent = None, sr_getUsageDetails = None\<rparr>)"

definition chat_stream ::
  "'w chat_client \<Rightarrow> bool \<Rightarrow> provider_chat_input \<Rightarrow> string \<Rightarrow> call_options \<Rightarrow> ('w, 'w stream_result) io" where
  "chat_stream client includeStreamUsage input modelId options =
     adapter_stream (oai_chatStream client (chat_completions_stream_params includeStreamUsage input modelId options))
       (\<lambda>c. yield_text (extractOpenAiStreamDeltaText c)) openai_wrap (chat_stream_result modelId)"

definition createChatCompletionsAdapter :: "'w chat_client \<Rightarrow> bool \<Rightarrow> 'w ai_provider" where
  "createChatCompletionsAdapter client includeStreamUsage =
     \<lparr>ap_complete = chat_complete client, ap_stream = Some (chat_stream client includeStreamUsage)\<rparr>"

section \<open>OpenAI Responses (openai-responses-provider.mapper.ts and its companions, responses.adapter.ts)\<close>

datatype responses_item =
    ItemFunctionCall "string option" string string string
  | ItemReasoning "(string \<times> string) list option"
  | ItemOther

record responses_response =
  rs_output :: "responses_item list option"
  rs_output_text :: "string option"
  rs_status :: "string option"
  rs_incomplete_reason :: "string option"
  rs_model :: "string option"
  rs_usage :: "openai_raw_usage option"

fun is_function_call :: "responses_item \<Rightarrow> bool" where
  "is_function_call (ItemFunctionCall i c n a) = True"
| "is_function_call _ = False"

fun extractResponsesOutputItemToolCall :: "responses_item \<Rightarrow> gateway_tool_call option" where
  "extractResponsesOutputItemToolCall (ItemFunctionCall i c n a) = Some \<lparr>tc_id = c, tc_name = n, tc_arguments = (if a = [] then ''{}'' else a)\<rparr>"
| "extractResponsesOutputItemToolCall _ = None"

definition extractResponsesToolCalls :: "responses_item list option \<Rightarrow> gateway_tool_call list option" where
  "extractResponsesToolCalls output = truthy_list (Some (List.map_filter extractResponsesOutputItemToolCall (nullish output [])))"

definition mapResponsesStopReason :: "responses_response \<Rightarrow> stop_reason" where
  "mapResponsesStopReason response =
     (if list_ex is_function_call (nullish (rs_output response) []) then SrToolCalls
      else if rs_status response = Some ''incomplete'' \<and> rs_incomplete_reason response = Some ''max_output_tokens'' then SrLength
      else if rs_status response = Some ''incomplete'' \<and> rs_incomplete_reason response = Some ''content_filter'' then SrContentFilter
      else SrStop)"

fun item_summary :: "responses_item \<Rightarrow> string list" where
  "item_summary (ItemReasoning parts) = map snd (filter (\<lambda>(ty, _). ty = ''summary_text'') (nullish parts []))"
| "item_summary _ = []"

definition extractResponsesReasoningSummaryText :: "responses_item list option \<Rightarrow> string option" where
  "extractResponsesReasoningSummaryText output =
     truthy_str (Some (js_join [] (filter (\<lambda>t. t \<noteq> []) (concat (map item_summary (nullish output []))))))"

definition parseOpenAiResponse :: "responses_response \<Rightarrow> string \<Rightarrow> provider_chat_response" where
  "parseOpenAiResponse response modelId =
     \<lparr>pr_text = nullish (rs_output_text response) [], pr_toolCalls = extractResponsesToolCalls (rs_output response),
      pr_stopReason = Some (mapResponsesStopReason response), pr_model = Some (nullish (rs_model response) modelId),
      pr_usage = map_option openai_usage_of (rs_usage response), pr_usageDetails = None, pr_systemFingerprint = None,
      pr_thinkingContent = None\<rparr>"

datatype responses_event =
    RevReasoningDelta string
  | RevReasoningDone string
  | RevCompleted responses_response
  | RevItemAdded responses_item
  | RevArgumentsDone string string string
  | RevItemDone responses_item
  | RevTextDelta string
  | RevOther

record responses_stream_state =
  rst_finalResponse :: "responses_response option"
  rst_reasoning :: string
  rst_itemIdToCallId :: "(string \<times> string) list"
  rst_toolCalls :: "(string \<times> string \<times> string) list"

definition initial_responses_state :: responses_stream_state where
  "initial_responses_state = \<lparr>rst_finalResponse = None, rst_reasoning = [], rst_itemIdToCallId = [], rst_toolCalls = []\<rparr>"

fun registerResponsesFunctionCallItemId :: "responses_item \<Rightarrow> (string \<times> string) list \<Rightarrow> (string \<times> string) list" where
  "registerResponsesFunctionCallItemId (ItemFunctionCall i c n a) registry =
     (case truthy_str i of Some id' \<Rightarrow> if c \<noteq> [] then AList.update id' c registry else registry | None \<Rightarrow> registry)"
| "registerResponsesFunctionCallItemId _ registry = registry"

definition extractResponsesStreamToolCallDone :: "string \<Rightarrow> string \<Rightarrow> string \<Rightarrow> (string \<times> string) list \<Rightarrow> gateway_tool_call" where
  "extractResponsesStreamToolCallDone item_id name arguments callByItemId =
     \<lparr>tc_id = nullish (map_of callByItemId item_id) item_id, tc_name = name, tc_arguments = (if arguments = [] then ''{}'' else arguments)\<rparr>"

definition put_call :: "gateway_tool_call \<Rightarrow> responses_stream_state \<Rightarrow> responses_stream_state" where
  "put_call c s = s\<lparr>rst_toolCalls := AList.update (tc_id c) (tc_name c, tc_arguments c) (rst_toolCalls s)\<rparr>"

text \<open>The body of the \<open>for await\<close> loop; \<open>accumulateResponsesReasoningDelta\<close> is its first two equations.\<close>

fun responses_step :: "responses_event \<Rightarrow> responses_stream_state \<Rightarrow> responses_stream_state" where
  "responses_step (RevReasoningDelta d) s = s\<lparr>rst_reasoning := rst_reasoning s @ d\<rparr>"
| "responses_step (RevReasoningDone t) s = s\<lparr>rst_reasoning := t\<rparr>"
| "responses_step (RevCompleted r) s = s\<lparr>rst_finalResponse := Some r\<rparr>"
| "responses_step (RevItemAdded item) s = s\<lparr>rst_itemIdToCallId := registerResponsesFunctionCallItemId item (rst_itemIdToCallId s)\<rparr>"
| "responses_step (RevArgumentsDone i n a) s = put_call (extractResponsesStreamToolCallDone i n a (rst_itemIdToCallId s)) s"
| "responses_step (RevItemDone item) s =
     (let s' = s\<lparr>rst_itemIdToCallId := registerResponsesFunctionCallItemId item (rst_itemIdToCallId s)\<rparr>
      in case extractResponsesOutputItemToolCall item of Some c \<Rightarrow> put_call c s' | None \<Rightarrow> s')"
| "responses_step (RevTextDelta d) s = s"
| "responses_step RevOther s = s"

fun responses_yield :: "responses_event \<Rightarrow> string list" where
  "responses_yield (RevTextDelta d) = [d]"
| "responses_yield _ = []"

definition responses_stream_result :: "string \<Rightarrow> text_stream \<Rightarrow> responses_event list \<Rightarrow> 'w stream_result" where
  "responses_stream_result modelId textStream events =
     (let s = fold responses_step events initial_responses_state; finalResponse = rst_finalResponse s in
      \<lparr>sr_textStream = textStream,
       sr_getUsageMetadata = io_return (map_option (\<lambda>u. \<lparr>stu_tokens = openai_usage_of u,
         stu_model = Some (nullish (Option.bind finalResponse rs_model) modelId)\<rparr>) (Option.bind finalResponse rs_usage)),
       sr_getFinalToolCalls = Some (io_return (truthy_list (Some (map (\<lambda>(i, n, a).
         \<lparr>tc_id = i, tc_name = n, tc_arguments = (if a = [] then ''{}'' else a)\<rparr>) (rst_toolCalls s))))),
       sr_getStopReason = Some (io_return (Some (if rst_toolCalls s \<noteq> [] then SrToolCalls
         else case finalResponse of None \<Rightarrow> SrStop | Some r \<Rightarrow> mapResponsesStopReason r))),
       sr_getSystemFingerprint = None,
       sr_getThinkingContent = Some (io_return
         (case extractResponsesReasoningSummaryText (Option.bind finalResponse rs_output) of
            Some t \<Rightarrow> Some t | None \<Rightarrow> truthy_str (Some (rst_reasoning s)))),
       sr_getUsageDetails = None\<rparr>)"

record 'w responses_client =
  oai_responsesCreate :: "(string \<times> json) list \<Rightarrow> ('w, responses_response) io"
  oai_responsesStream :: "(string \<times> json) list \<Rightarrow> ('w, responses_event vendor_stream) io"

definition responses_complete ::
  "'w responses_client \<Rightarrow> provider_chat_input \<Rightarrow> string \<Rightarrow> call_options \<Rightarrow> ('w, provider_chat_response) io" where
  "responses_complete client input modelId options =
     io_catch (io_map (\<lambda>response. (parseOpenAiResponse response modelId)
         \<lparr>pr_thinkingContent := extractResponsesReasoningSummaryText (rs_output response)\<rparr>)
       (oai_responsesCreate client (buildResponsesCreateParams input modelId options)))
       (\<lambda>e. io_throw (openai_wrap e))"

definition responses_stream ::
  "'w responses_client \<Rightarrow> provider_chat_input \<Rightarrow> string \<Rightarrow> call_options \<Rightarrow> ('w, 'w stream_result) io" where
  "responses_stream client input modelId options =
     adapter_stream (oai_responsesStream client (buildResponsesCreateParams input modelId options @ [(''stream'', JBool True)]))
       responses_yield openai_wrap (responses_stream_result modelId)"

definition createResponsesAdapter :: "'w responses_client \<Rightarrow> 'w ai_provider" where
  "createResponsesAdapter client = \<lparr>ap_complete = responses_complete client, ap_stream = Some (responses_stream client)\<rparr>"

section \<open>Anthropic (anthropic-tools.mapper.ts, anthropic-thinking.mapper.ts, create-anthropic-provider.ts)\<close>

datatype anthropic_block =
    BlockText string
  | BlockToolUse string string json
  | BlockThinking "string option"
  | BlockOther

record anthropic_raw_message =
  arm_content :: "anthropic_block list"
  arm_model :: string
  arm_stop_reason :: "string option"
  arm_input_tokens :: int
  arm_output_tokens :: int
  arm_cache_read :: "int option"
  arm_cache_creation :: "int option"

definition STOP_REASON_MAP :: "(string \<times> stop_reason) list" where
  "STOP_REASON_MAP = [(''end_turn'', SrEndTurn), (''tool_use'', SrToolUse), (''max_tokens'', SrMaxTokens),
     (''stop_sequence'', SrStopSequence), (''pause_turn'', SrPauseTurn), (''refusal'', SrRefusal)]"

fun stringifyToolInput :: "json \<Rightarrow> string" where
  "stringifyToolInput (JStr s) = s"
| "stringifyToolInput JNull = json_stringify (JObj [])"
| "stringifyToolInput v = json_stringify v"

fun block_text :: "anthropic_block \<Rightarrow> string" where
  "block_text (BlockText t) = t"
| "block_text _ = []"

fun block_call :: "anthropic_block \<Rightarrow> gateway_tool_call option" where
  "block_call (BlockToolUse i n input) = Some \<lparr>tc_id = i, tc_name = n, tc_arguments = stringifyToolInput input\<rparr>"
| "block_call _ = None"

fun block_thinking :: "anthropic_block \<Rightarrow> string" where
  "block_thinking (BlockThinking t) = nullish t []"
| "block_thinking _ = []"

definition extractAnthropicThinkingContent :: "anthropic_block list \<Rightarrow> string option" where
  "extractAnthropicThinkingContent content = truthy_str (Some (concat (map block_thinking content)))"

definition anthropic_usage_details :: "anthropic_raw_message \<Rightarrow> usage_details option" where
  "anthropic_usage_details m =
     (if arm_cache_read m = None \<and> arm_cache_creation m = None then None
      else Some \<lparr>promptCacheHitTokens = arm_cache_read m, promptCacheCreationTokens = arm_cache_creation m\<rparr>)"

definition anthropic_usage :: "anthropic_raw_message \<Rightarrow> token_usage" where
  "anthropic_usage m = \<lparr>inputTokens = arm_input_tokens m, outputTokens = arm_output_tokens m\<rparr>"

definition parseAnthropicResponseWithTools :: "anthropic_raw_message \<Rightarrow> provider_chat_response" where
  "parseAnthropicResponseWithTools response =
     \<lparr>pr_text = concat (map block_text (arm_content response)),
      pr_toolCalls = truthy_list (Some (List.map_filter block_call (arm_content response))),
      pr_stopReason = Option.bind (truthy_str (arm_stop_reason response)) (map_of STOP_REASON_MAP),
      pr_model = Some (arm_model response), pr_usage = Some (anthropic_usage response),
      pr_usageDetails = anthropic_usage_details response, pr_systemFingerprint = None,
      pr_thinkingContent = extractAnthropicThinkingContent (arm_content response)\<rparr>"

text \<open>The branch without tools builds its answer itself.\<close>

definition anthropic_plain_response :: "anthropic_raw_message \<Rightarrow> provider_chat_response" where
  "anthropic_plain_response response =
     \<lparr>pr_text = concat (map block_text (arm_content response)), pr_toolCalls = None, pr_stopReason = None,
      pr_model = Some (arm_model response), pr_usage = Some (anthropic_usage response), pr_usageDetails = None,
      pr_systemFingerprint = None, pr_thinkingContent = extractAnthropicThinkingContent (arm_content response)\<rparr>"

datatype anthropic_event = AevTextDelta string | AevOther

record 'w anthropic_client =
  acl_create :: "(string \<times> json) list \<Rightarrow> ('w, anthropic_raw_message) io"
  acl_stream :: "(string \<times> json) list \<Rightarrow> ('w, anthropic_event vendor_stream \<times> ('w, anthropic_raw_message) io) io"

definition anthropic_wrap :: "jserr \<Rightarrow> jserr" where
  "anthropic_wrap e = toHttpException (mapAnthropicSdkError e)"

definition anthropic_complete ::
  "'w anthropic_client \<Rightarrow> provider_chat_input \<Rightarrow> string \<Rightarrow> call_options \<Rightarrow> ('w, provider_chat_response) io" where
  "anthropic_complete client input modelId options =
     io_catch (io_map (if truthy_list (pi_tools input) \<noteq> None then parseAnthropicResponseWithTools else anthropic_plain_response)
         (acl_create client (anthropic_params_of input modelId options)))
       (\<lambda>e. io_throw (anthropic_wrap e))"

fun anthropic_yield :: "anthropic_event \<Rightarrow> string list" where
  "anthropic_yield (AevTextDelta t) = [t]"
| "anthropic_yield AevOther = []"

text \<open>\<open>resolveStreamFinalMessage\<close> and what a getter reads from the message; two of the getters swallow its failure. Without a
  stream object they yield \<open>undefined\<close>.\<close>

definition on_final :: "('w, anthropic_raw_message) io option \<Rightarrow> (anthropic_raw_message \<Rightarrow> 'a option) \<Rightarrow> ('w, 'a option) io" where
  "on_final finalMessage f = (case finalMessage of None \<Rightarrow> io_return None | Some m \<Rightarrow> io_map f m)"

definition anthropic_stream_result :: "('w, anthropic_raw_message) io option \<Rightarrow> text_stream \<Rightarrow> 'w stream_result" where
  "anthropic_stream_result finalMessage textStream =
     \<lparr>sr_textStream = textStream,
      sr_getUsageMetadata = io_catch (on_final finalMessage (\<lambda>m. Some \<lparr>stu_tokens = anthropic_usage m, stu_model = Some (arm_model m)\<rparr>))
        (\<lambda>_. io_return None),
      sr_getFinalToolCalls = Some (on_final finalMessage (\<lambda>m. pr_toolCalls (parseAnthropicResponseWithTools m))),
      sr_getStopReason = Some (on_final finalMessage (\<lambda>m. pr_stopReason (parseAnthropicResponseWithTools m))),
      sr_getSystemFingerprint = None,
      sr_getThinkingContent = Some (on_final finalMessage (\<lambda>m. extractAnthropicThinkingContent (arm_content m))),
      sr_getUsageDetails = Some (io_catch (on_final finalMessage (\<lambda>m. pr_usageDetails (parseAnthropicResponseWithTools m))) (\<lambda>_. io_return None))\<rparr>"

definition anthropic_stream ::
  "'w anthropic_client \<Rightarrow> provider_chat_input \<Rightarrow> string \<Rightarrow> call_options \<Rightarrow> ('w, 'w stream_result) io" where
  "anthropic_stream client input modelId options =
     io_catch (io_map (\<lambda>((es, e), finalMessage). anthropic_stream_result (Some finalMessage)
         (text_stream_of (concat (map anthropic_yield es)) (map_option anthropic_wrap e)))
         (acl_stream client (anthropic_stream_params input modelId options)))
       (\<lambda>e. io_return (anthropic_stream_result None (StreamThrow (anthropic_wrap e))))"

definition AnthropicProvider :: "'w anthropic_client \<Rightarrow> 'w ai_provider" where
  "AnthropicProvider client = \<lparr>ap_complete = anthropic_complete client, ap_stream = Some (anthropic_stream client)\<rparr>"

definition createAnthropicProvider :: "(string \<Rightarrow> 'w anthropic_client result) \<Rightarrow> string \<Rightarrow> 'w ai_provider result" where
  "createAnthropicProvider newAnthropic apiKey =
     (if apiKey = [] then Inl (plain_error ''[createAnthropicProvider] API key is required.'')
      else res_bind (newAnthropic apiKey) (\<lambda>client. Inr (AnthropicProvider client)))"

section \<open>Gemini (google-tools.mapper.ts, create-google-provider.ts)\<close>

record gemini_function_call =
  gfc_id :: "string option"
  gfc_name :: "string option"
  gfc_args :: "json option"

datatype thought_value = ThoughtOne string | ThoughtMany "string list"

record gemini_response =
  gr_text :: "string option"
  gr_functionCalls :: "gemini_function_call list option"
  gr_modelVersion :: "string option"
  gr_usageMetadata :: "openai_raw_usage option"
  gr_thoughts :: "thought_value option"
  gr_thinkingContent :: "thought_value option"
  gr_parts :: "(bool \<times> string option) list option"

text \<open>\<open>gr_parts\<close> is \<open>candidates?.[0]?.content?.parts\<close>: the thought flag and the text of each part. The usage has the two counts of
  \<open>usageMetadata\<close>. The finish reason of a candidate is not read by the code and has no field.\<close>

fun normalizeThoughtValue :: "thought_value \<Rightarrow> string" where
  "normalizeThoughtValue (ThoughtMany ts) = js_join [newline] ts"
| "normalizeThoughtValue (ThoughtOne t) = t"

definition extractFromLegacyFields :: "gemini_response \<Rightarrow> string option" where
  "extractFromLegacyFields response =
     (case (case gr_thoughts response of Some t \<Rightarrow> Some t | None \<Rightarrow> gr_thinkingContent response) of
        None \<Rightarrow> None
      | Some raw \<Rightarrow> if raw = ThoughtOne [] then None else Some (normalizeThoughtValue raw))"

definition extractFromThoughtParts :: "(bool \<times> string option) list option \<Rightarrow> string option" where
  "extractFromThoughtParts parts =
     (let texts = List.map_filter (\<lambda>(thought, t). if thought then t else None) (nullish parts [])
      in if texts \<noteq> [] then Some (js_join [newline] texts) else None)"

definition extractGeminiThinkingContent :: "gemini_response \<Rightarrow> string option" where
  "extractGeminiThinkingContent response =
     (case truthy_str (extractFromLegacyFields response) of
        Some t \<Rightarrow> Some t | None \<Rightarrow> extractFromThoughtParts (gr_parts response))"

definition gemini_call :: "gemini_function_call \<Rightarrow> gateway_tool_call option" where
  "gemini_call f =
     (case truthy_str (gfc_name f) of
        None \<Rightarrow> None
      | Some n \<Rightarrow> Some \<lparr>tc_id = nullish (gfc_id f) (''call_'' @ n), tc_name = n,
          tc_arguments = json_stringify (nullish (gfc_args f) (JObj []))\<rparr>)"

definition parseGeminiResponseWithTools :: "gemini_response \<Rightarrow> string \<Rightarrow> provider_chat_response" where
  "parseGeminiResponseWithTools response modelId =
     (let toolCalls = List.map_filter gemini_call (nullish (gr_functionCalls response) []) in
      \<lparr>pr_text = nullish (gr_text response) [], pr_toolCalls = truthy_list (Some toolCalls),
       pr_stopReason = Some (if toolCalls \<noteq> [] then SrToolUse else SrEndTurn),
       pr_model = Some (nullish (gr_modelVersion response) modelId),
       pr_usage = map_option openai_usage_of (gr_usageMetadata response),
       pr_usageDetails = None, pr_systemFingerprint = None, pr_thinkingContent = None\<rparr>)"

definition gemini_thoughts :: "call_options \<Rightarrow> string \<Rightarrow> gemini_response \<Rightarrow> string option" where
  "gemini_thoughts options modelId response =
     (if gemini_thinks options modelId then extractGeminiThinkingContent response else None)"

record 'w gemini_client =
  gcl_generate :: "(string \<times> json) list \<Rightarrow> ('w, gemini_response) io"
  gcl_stream :: "(string \<times> json) list \<Rightarrow> ('w, gemini_response vendor_stream) io"

definition gemini_wrap :: "jserr \<Rightarrow> jserr" where
  "gemini_wrap e = toHttpException (mapGoogleGenAiError e)"

definition gemini_answer :: "provider_chat_input \<Rightarrow> string \<Rightarrow> call_options \<Rightarrow> gemini_response \<Rightarrow> provider_chat_response" where
  "gemini_answer input modelId options response =
     (let parsed = parseGeminiResponseWithTools response modelId; thinking = truthy_str (gemini_thoughts options modelId response) in
      if truthy_list (pi_tools input) \<noteq> None then parsed\<lparr>pr_thinkingContent := thinking\<rparr>
      else parsed\<lparr>pr_toolCalls := None, pr_stopReason := None, pr_thinkingContent := thinking\<rparr>)"

definition gemini_complete ::
  "genai_lib \<Rightarrow> 'w gemini_client \<Rightarrow> provider_chat_input \<Rightarrow> string \<Rightarrow> call_options \<Rightarrow> ('w, provider_chat_response) io" where
  "gemini_complete g client input modelId options =
     io_catch (io_map (gemini_answer input modelId options) (gcl_generate client (gemini_params g input modelId options)))
       (\<lambda>e. io_throw (gemini_wrap e))"

definition gemini_stream_result :: "string \<Rightarrow> call_options \<Rightarrow> text_stream \<Rightarrow> gemini_response list \<Rightarrow> 'w stream_result" where
  "gemini_stream_result modelId options textStream events =
     (let lastChunk = js_last events;
          accumulated = List.map_filter (\<lambda>e. truthy_str (gemini_thoughts options modelId e)) events in
      \<lparr>sr_textStream = textStream,
       sr_getUsageMetadata = io_return (Option.bind lastChunk (\<lambda>c. map_option (\<lambda>u. \<lparr>stu_tokens = openai_usage_of u,
         stu_model = Some (nullish (gr_modelVersion c) modelId)\<rparr>) (gr_usageMetadata c))),
       sr_getFinalToolCalls = Some (io_return (Option.bind lastChunk (\<lambda>c. pr_toolCalls (parseGeminiResponseWithTools c modelId)))),
       sr_getStopReason = Some (io_return (Option.bind lastChunk (\<lambda>c. pr_stopReason (parseGeminiResponseWithTools c modelId)))),
       sr_getSystemFingerprint = None,
       sr_getThinkingContent = Some (io_return (if gemini_thinks options modelId \<and> accumulated \<noteq> [] then Some (js_join [newline] accumulated) else None)),
       sr_getUsageDetails = None\<rparr>)"

definition gemini_stream ::
  "genai_lib \<Rightarrow> 'w gemini_client \<Rightarrow> provider_chat_input \<Rightarrow> string \<Rightarrow> call_options \<Rightarrow> ('w, 'w stream_result) io" where
  "gemini_stream g client input modelId options =
     adapter_stream (gcl_stream client (gemini_params g input modelId options)) (\<lambda>e. yield_text (nullish (gr_text e) []))
       gemini_wrap (gemini_stream_result modelId options)"

definition GoogleProvider :: "genai_lib \<Rightarrow> 'w gemini_client \<Rightarrow> 'w ai_provider" where
  "GoogleProvider g client = \<lparr>ap_complete = gemini_complete g client, ap_stream = Some (gemini_stream g client)\<rparr>"

definition createGoogleProvider :: "genai_lib \<Rightarrow> (string \<Rightarrow> 'w gemini_client result) \<Rightarrow> string \<Rightarrow> 'w ai_provider result" where
  "createGoogleProvider g newGoogle apiKey =
     (if apiKey = [] then Inl (plain_error ''[createGoogleProvider] API key is required.'')
      else res_bind (newGoogle apiKey) (\<lambda>client. Inr (GoogleProvider g client)))"

end
