(* ===== verification/Vendor_Props.thy ===== *)
theory Vendor_Props
  imports Vendor_Adapters
begin

text \<open>
  What the adapters guarantee: their errors are those of the gateway's table, the stream of an answer says what the
  complete answer says, and where a cut-off answer is taken for a finished one. The events a vendor documents for an answer are
  built from a record of that answer.
\<close>

section \<open>Errors\<close>

fun stream_error :: "text_stream \<Rightarrow> jserr option" where
  "stream_error StreamEnd = None"
| "stream_error (StreamThrow e) = Some e"
| "stream_error (StreamChunk t rest) = stream_error rest"

fun stream_text :: "text_stream \<Rightarrow> string" where
  "stream_text StreamEnd = []"
| "stream_text (StreamThrow e) = []"
| "stream_text (StreamChunk t rest) = t @ stream_text rest"

lemma text_stream_of_reads [simp]:
  "stream_error (text_stream_of ts e) = e" "stream_text (text_stream_of ts e) = concat ts"
  by (induction ts e rule: text_stream_of.induct) simp_all

definition normal_error :: "jserr \<Rightarrow> bool" where
  "normal_error e \<longleftrightarrow> (\<exists>st c. http_status e = Some st \<and> provider_status_code st = Some c \<and> http_code e = Some (code_string c))"

definition normal_provider :: "'w ai_provider \<Rightarrow> bool" where
  "normal_provider p \<longleftrightarrow> (\<forall>input modelId options w.
     (\<forall>e w'. ap_complete p input modelId options w = (Inl e, w') \<longrightarrow> normal_error e) \<and>
     (\<exists>sr w'. call_stream p input modelId options w = (Inr sr, w') \<and> (\<forall>e. stream_error (sr_textStream sr) = Some e \<longrightarrow> normal_error e)))"

text \<open>The contract of an adapter over the contract of its error mapper.\<close>

locale vendor_adapter = provider_error_mapper mapError for mapError +
  fixes provider :: "'w ai_provider"
  assumes complete_wraps: "ap_complete provider input modelId options w = (Inl e, w') \<Longrightarrow> \<exists>e0. e = toHttpException (mapError e0)"
    and stream_offered: "\<exists>s. ap_stream provider = Some s \<and> (\<forall>input modelId options w. \<exists>sr w'. s input modelId options w = (Inr sr, w') \<and>
      (\<forall>e. stream_error (sr_textStream sr) = Some e \<longrightarrow> (\<exists>e0. e = toHttpException (mapError e0))))"
begin

lemma wrapped_normal: "normal_error (toHttpException (mapError e0))"
  using mapped_in_table [of e0] by (auto simp: normal_error_def toHttpException_def http_status_def http_code_def api_payload_def)

lemma provider_normal: "normal_provider provider"
  unfolding normal_provider_def
proof (intro allI conjI impI)
  fix input modelId options w
  show "normal_error e" if "ap_complete provider input modelId options w = (Inl e, w')" for e w'
    using complete_wraps [OF that] wrapped_normal by blast
  obtain s where "ap_stream provider = Some s" and s: "\<And>input modelId options w. \<exists>sr w'. s input modelId options w = (Inr sr, w') \<and>
      (\<forall>e. stream_error (sr_textStream sr) = Some e \<longrightarrow> (\<exists>e0. e = toHttpException (mapError e0)))" using stream_offered by blast
  moreover obtain sr w2 where "s input modelId options w = (Inr sr, w2)" "\<forall>e. stream_error (sr_textStream sr) = Some e \<longrightarrow> normal_error e"
    using s [of input modelId options w] wrapped_normal by blast
  ultimately show "\<exists>sr w'. call_stream provider input modelId options w = (Inr sr, w') \<and> (\<forall>e. stream_error (sr_textStream sr) = Some e \<longrightarrow> normal_error e)"
    by (simp add: call_stream_def)
qed

end

lemma catch_throws:
  "io_catch m (\<lambda>e. io_throw (wrap e)) w = (Inl e, w') \<Longrightarrow> \<exists>e0. e = wrap e0"
  by (auto simp: io_catch_apply split: prod.splits sum.splits)

lemma io_map_apply: "io_map f m w = (case m w of (Inl e, w') \<Rightarrow> (Inl e, w') | (Inr x, w') \<Rightarrow> (Inr (f x), w'))"
  by (simp add: io_map_def io_bind_apply split: prod.split sum.split)

lemma adapter_stream_offered:
  assumes "ap_stream provider = Some s"
    and "\<And>i m o'. s i m o' = adapter_stream (ask i m o') yields (\<lambda>e. toHttpException (mapError e)) (result m o')"
    and "\<And>m o' ts es. sr_textStream (result m o' ts es) = ts"
  shows "\<exists>s. ap_stream provider = Some s \<and> (\<forall>input modelId options w. \<exists>sr w'. s input modelId options w = (Inr sr, w') \<and>
    (\<forall>e. stream_error (sr_textStream sr) = Some e \<longrightarrow> (\<exists>e0. e = toHttpException (mapError e0))))"
  by (intro exI [of _ s] conjI assms(1)) (auto simp: assms(2,3) adapter_stream_def io_catch_apply io_map_apply split: prod.split sum.split)

interpretation chat_completions_adapter: vendor_adapter mapOpenAiSdkError "createChatCompletionsAdapter client usage" for client usage
proof
  show "\<exists>e0. e = toHttpException (mapOpenAiSdkError e0)"
    if "ap_complete (createChatCompletionsAdapter client usage) input modelId options w = (Inl e, w')" for input modelId options w e w'
    using that catch_throws by (fastforce simp: createChatCompletionsAdapter_def chat_complete_def openai_wrap_def)
qed (rule adapter_stream_offered [where s = "chat_stream client usage" and result = "\<lambda>m _. chat_stream_result m"
      and ask = "\<lambda>i m o'. oai_chatStream client (chat_completions_stream_params usage i m o')"
      and yields = "\<lambda>c. yield_text (extractOpenAiStreamDeltaText c)"],
    simp_all add: createChatCompletionsAdapter_def chat_stream_def openai_wrap_def [abs_def] chat_stream_result_def Let_def)

interpretation responses_adapter: vendor_adapter mapOpenAiSdkError "createResponsesAdapter client" for client
proof
  show "\<exists>e0. e = toHttpException (mapOpenAiSdkError e0)"
    if "ap_complete (createResponsesAdapter client) input modelId options w = (Inl e, w')" for input modelId options w e w'
    using that catch_throws by (fastforce simp: createResponsesAdapter_def responses_complete_def openai_wrap_def)
qed (rule adapter_stream_offered [where s = "responses_stream client" and result = "\<lambda>m _. responses_stream_result m"
      and ask = "\<lambda>i m o'. oai_responsesStream client (buildResponsesCreateParams i m o' @ [(''stream'', JBool True)])" and yields = responses_yield],
    simp_all add: createResponsesAdapter_def responses_stream_def openai_wrap_def [abs_def] responses_stream_result_def Let_def)

interpretation google_adapter: vendor_adapter mapGoogleGenAiError "GoogleProvider g client" for g client
proof
  show "\<exists>e0. e = toHttpException (mapGoogleGenAiError e0)"
    if "ap_complete (GoogleProvider g client) input modelId options w = (Inl e, w')" for input modelId options w e w'
    using that catch_throws by (fastforce simp: GoogleProvider_def gemini_complete_def gemini_wrap_def)
qed (rule adapter_stream_offered [where s = "gemini_stream g client" and result = gemini_stream_result
      and ask = "\<lambda>i m o'. gcl_stream client (gemini_params g i m o')" and yields = "\<lambda>e. yield_text (nullish (gr_text e) [])"],
    simp_all add: GoogleProvider_def gemini_stream_def gemini_wrap_def [abs_def] gemini_stream_result_def Let_def)

interpretation anthropic_adapter: vendor_adapter mapAnthropicSdkError "AnthropicProvider client" for client
proof
  show "\<exists>e0. e = toHttpException (mapAnthropicSdkError e0)"
    if "ap_complete (AnthropicProvider client) input modelId options w = (Inl e, w')" for input modelId options w e w'
    using that catch_throws by (fastforce simp: AnthropicProvider_def anthropic_complete_def anthropic_wrap_def)
qed (auto simp: AnthropicProvider_def anthropic_stream_def anthropic_wrap_def anthropic_stream_result_def io_catch_apply io_map_apply
    split: prod.split sum.split)

text \<open>C18. Adapters throw only errors of the gateway's table: whatever an SDK throws, a completion through any of the four adapters
  fails with an HTTP exception whose status and code belong together in the table, and opening a stream never fails: its errors come
  out of the text stream, normalised in the same way.\<close>

theorem adapter_errors_normalised:
  "normal_provider (createChatCompletionsAdapter chatClient usage) \<and> normal_provider (createResponsesAdapter responsesClient) \<and>
   normal_provider (AnthropicProvider anthropicClient) \<and> normal_provider (GoogleProvider g geminiClient)"
  by (intro conjI chat_completions_adapter.provider_normal responses_adapter.provider_normal anthropic_adapter.provider_normal
      google_adapter.provider_normal)

section \<open>Streams of OpenAI-compatible vendors\<close>

text \<open>An answer, with the pieces its text and its arguments are streamed in.\<close>

record vendor_answer =
  va_model :: string
  va_texts :: "string list"
  va_calls :: "(string \<times> string \<times> string list) list"
  va_finish :: string
  va_usage :: openai_raw_usage
  va_fingerprint :: "string option"

definition answer_ok :: "vendor_answer \<Rightarrow> bool" where
  "answer_ok a \<longleftrightarrow> list_all (\<lambda>(i, n, ps). i \<noteq> [] \<and> n \<noteq> [] \<and> concat ps \<noteq> []) (va_calls a)"

definition documented_completion :: "vendor_answer \<Rightarrow> openai_completion" where
  "documented_completion a =
     \<lparr>occ_choices = [(Some \<lparr>orm_content = Some (concat (va_texts a)), orm_reasoning_content = None,
          orm_tool_calls = Some (map (\<lambda>(i, n, ps). \<lparr>orc_type = ''function'', orc_id = i, orc_name = n, orc_arguments = Some (concat ps)\<rparr>) (va_calls a))\<rparr>,
        Some (va_finish a))],
      occ_model = va_model a, occ_usage = Some (va_usage a), occ_system_fingerprint = va_fingerprint a\<rparr>"

definition answer_chunk :: "vendor_answer \<Rightarrow> openai_chunk_choice \<Rightarrow> openai_chunk" where
  "answer_chunk a c = \<lparr>ock_choices = [c], ock_model = Some (va_model a), ock_usage = None, ock_system_fingerprint = va_fingerprint a\<rparr>"

fun call_deltas :: "nat \<Rightarrow> (string \<times> string \<times> string list) list \<Rightarrow> openai_call_delta list" where
  "call_deltas k [] = []"
| "call_deltas k ((i, n, ps) # cs) =
     \<lparr>ocd_index = k, ocd_id = Some i, ocd_name = Some n, ocd_arguments = None\<rparr> #
     map (\<lambda>p. \<lparr>ocd_index = k, ocd_id = None, ocd_name = None, ocd_arguments = Some p\<rparr>) ps @ call_deltas (Suc k) cs"

text \<open>The chunks OpenAI documents for a stream with \<open>include_usage\<close>: the last one has the usage and no choice.\<close>

definition documented_chunks :: "vendor_answer \<Rightarrow> openai_chunk list" where
  "documented_chunks a =
     map (\<lambda>t. answer_chunk a \<lparr>occh_content = Some t, occh_tool_calls = None, occh_finish_reason = None\<rparr>) (va_texts a) @
     map (\<lambda>d. answer_chunk a \<lparr>occh_content = None, occh_tool_calls = Some [d], occh_finish_reason = None\<rparr>) (call_deltas 0 (va_calls a)) @
     [answer_chunk a \<lparr>occh_content = None, occh_tool_calls = None, occh_finish_reason = Some (va_finish a)\<rparr>,
      \<lparr>ock_choices = [], ock_model = Some (va_model a), ock_usage = Some (va_usage a), ock_system_fingerprint = va_fingerprint a\<rparr>]"

lemma update_fresh: "k \<notin> fst ` set al \<Longrightarrow> AList.update k v (al @ [(k, u)]) = al @ [(k, v)]" "k \<notin> fst ` set al \<Longrightarrow> AList.update k v al = al @ [(k, v)]"
  by (induction al) auto

lemma map_of_fresh: "k \<notin> fst ` set al \<Longrightarrow> map_of (al @ r) k = map_of r k"
  by (induction al) auto

lemma accumulate_first:
  "k \<notin> fst ` set acc \<Longrightarrow> accumulate_delta \<lparr>ocd_index = k, ocd_id = Some i, ocd_name = Some n, ocd_arguments = None\<rparr> acc =
     acc @ [(k, \<lparr>pc_id = Some i, pc_name = n, pc_arguments = []\<rparr>)]"
  using map_of_fresh [of k acc "[]"] by (simp add: accumulate_delta_def Let_def update_fresh(2))

lemma accumulate_piece:
  "k \<notin> fst ` set acc \<Longrightarrow> accumulate_delta \<lparr>ocd_index = k, ocd_id = None, ocd_name = None, ocd_arguments = Some p\<rparr>
     (acc @ [(k, \<lparr>pc_id = i, pc_name = n, pc_arguments = s\<rparr>)]) = acc @ [(k, \<lparr>pc_id = i, pc_name = n, pc_arguments = s @ p\<rparr>)]"
  using map_of_fresh [of k acc "[(k, \<lparr>pc_id = i, pc_name = n, pc_arguments = s\<rparr>)]"]
  by (simp add: accumulate_delta_def Let_def update_fresh(1) del: map_of_append)

lemma fold_argument_pieces:
  assumes "k \<notin> fst ` set acc"
  shows "fold accumulate_delta (map (\<lambda>p. \<lparr>ocd_index = k, ocd_id = None, ocd_name = None, ocd_arguments = Some p\<rparr>) ps)
      (acc @ [(k, \<lparr>pc_id = i, pc_name = n, pc_arguments = s\<rparr>)]) = acc @ [(k, \<lparr>pc_id = i, pc_name = n, pc_arguments = s @ concat ps\<rparr>)]"
  by (induction ps arbitrary: s) (simp_all add: accumulate_piece [OF assms])

lemma fold_call_deltas:
  assumes "\<forall>x \<in> fst ` set acc. x < k"
  shows "\<exists>ks. length ks = length cs \<and> fold accumulate_delta (call_deltas k cs) acc =
    acc @ zip ks (map (\<lambda>(i, n, ps). \<lparr>pc_id = Some i, pc_name = n, pc_arguments = concat ps\<rparr>) cs)"
  using assms
proof (induction k cs arbitrary: acc rule: call_deltas.induct)
  case (2 k i n ps cs)
  let ?c = "\<lparr>pc_id = Some i, pc_name = n, pc_arguments = concat ps\<rparr>"
  have fresh: "k \<notin> fst ` set acc" using 2 by blast
  have "\<forall>x \<in> fst ` set (acc @ [(k, ?c)]). x < Suc k" using 2(2) by auto
  from 2(1) [OF this] obtain ks where "length ks = length cs" "fold accumulate_delta (call_deltas (Suc k) cs) (acc @ [(k, ?c)]) =
      (acc @ [(k, ?c)]) @ zip ks (map (\<lambda>(i, n, ps). \<lparr>pc_id = Some i, pc_name = n, pc_arguments = concat ps\<rparr>) cs)" by blast
  with fresh show ?case
    by (intro exI [of _ "k # ks"]) (simp add: accumulate_first fold_argument_pieces)
qed simp

lemma fold_text_chunks_id:
  "fold accumulateOpenAiStreamToolCallDeltas
     (map (\<lambda>t. answer_chunk a \<lparr>occh_content = Some t, occh_tool_calls = None, occh_finish_reason = None\<rparr>) ts) acc = acc"
  by (induction ts) (simp_all add: accumulateOpenAiStreamToolCallDeltas_def answer_chunk_def js_first_def)

lemma fold_delta_chunks:
  "fold accumulateOpenAiStreamToolCallDeltas
     (map (\<lambda>d. answer_chunk a \<lparr>occh_content = None, occh_tool_calls = Some [d], occh_finish_reason = None\<rparr>) ds) acc = fold accumulate_delta ds acc"
  by (induction ds arbitrary: acc) (simp_all add: accumulateOpenAiStreamToolCallDeltas_def answer_chunk_def js_first_def)

definition answer_calls :: "vendor_answer \<Rightarrow> gateway_tool_call list" where
  "answer_calls a = map (\<lambda>(i, n, ps). \<lparr>tc_id = i, tc_name = n, tc_arguments = concat ps\<rparr>) (va_calls a)"

lemma streamed_calls:
  assumes "answer_ok a"
  shows "finalizeOpenAiStreamToolCalls (fold accumulateOpenAiStreamToolCallDeltas (documented_chunks a) []) = answer_calls a"
proof -
  let ?pend = "\<lambda>(i, n, ps). \<lparr>pc_id = Some i, pc_name = n, pc_arguments = concat ps\<rparr>"
  obtain ks where ks: "length ks = length (va_calls a)" "fold accumulate_delta (call_deltas 0 (va_calls a)) [] = zip ks (map ?pend (va_calls a))"
    using fold_call_deltas [of "[]" 0 "va_calls a"] by auto
  have "fold accumulateOpenAiStreamToolCallDeltas (documented_chunks a) [] = fold accumulate_delta (call_deltas 0 (va_calls a)) []"
    by (simp add: documented_chunks_def fold_text_chunks_id fold_delta_chunks, simp add: accumulateOpenAiStreamToolCallDeltas_def answer_chunk_def js_first_def)
  then have "map snd (fold accumulateOpenAiStreamToolCallDeltas (documented_chunks a) []) = map ?pend (va_calls a)"
    using ks by simp
  moreover have "filter (\<lambda>c. truthy_str (pc_id c) \<noteq> None \<and> pc_name c \<noteq> []) (map ?pend (va_calls a)) = map ?pend (va_calls a)"
    using assms by (auto simp: answer_ok_def list_all_iff filter_id_conv)
  ultimately show ?thesis using assms
    by (auto simp: finalizeOpenAiStreamToolCalls_def answer_calls_def answer_ok_def list_all_iff)
qed

lemma streamed_text: "concat (concat (map (\<lambda>c. yield_text (extractOpenAiStreamDeltaText c)) (documented_chunks a))) = concat (va_texts a)"
proof -
  have "concat (concat (map ((\<lambda>c. yield_text (extractOpenAiStreamDeltaText c)) \<circ> (\<lambda>t. answer_chunk a \<lparr>occh_content = Some t, occh_tool_calls = None,
      occh_finish_reason = None\<rparr>)) ts)) = concat ts" for ts
    by (induction ts) (simp_all add: answer_chunk_def extractOpenAiStreamDeltaText_def js_first_def yield_text_def)
  then show ?thesis
    by (simp add: documented_chunks_def answer_chunk_def extractOpenAiStreamDeltaText_def js_first_def yield_text_def comp_def)
qed

lemma completion_calls: "answer_ok a \<Longrightarrow> pr_toolCalls (parseOpenAiCompletionWithTools (documented_completion a)) = truthy_list (Some (answer_calls a))"
  by (cases "va_calls a") (auto simp: parseOpenAiCompletionWithTools_def documented_completion_def js_first_def mapOpenAiToolCalls_def answer_calls_def comp_def
      filter_map split_beta)


definition cut_answer :: vendor_answer where
  "cut_answer = \<lparr>va_model = ''m'', va_texts = [''Once '', ''upon''], va_calls = [], va_finish = ''length'',
     va_usage = \<lparr>oru_prompt_tokens = Some 3, oru_completion_tokens = Some 2\<rparr>, va_fingerprint = None\<rparr>"

definition cut_client :: "unit chat_client" where
  "cut_client = \<lparr>oai_chatCreate = (\<lambda>_. io_return (documented_completion cut_answer)), oai_chatStream = (\<lambda>_. io_return (documented_chunks cut_answer, None))\<rparr>"

definition ask_hi :: provider_chat_input where
  "ask_hi = \<lparr>pi_system = None, pi_messages = [UserTurn ''hi''], pi_tools = None, pi_toolChoice = None, pi_metadata = None\<rparr>"


section \<open>Streams of the Responses API\<close>

text \<open>The items of an answer: a message in text deltas, a function call, a reasoning item with its summary parts.\<close>

datatype answer_item = AnsText "string list" | AnsCall string string string string | AnsReasoning "string list"

fun item_of :: "answer_item \<Rightarrow> responses_item" where
  "item_of (AnsText ts) = ItemOther"
| "item_of (AnsCall i c n a) = ItemFunctionCall (Some i) c n a"
| "item_of (AnsReasoning ps) = ItemReasoning (Some (map (\<lambda>p. (''summary_text'', p)) ps))"

fun item_texts :: "answer_item \<Rightarrow> string list" where
  "item_texts (AnsText ts) = ts"
| "item_texts _ = []"

fun item_events :: "answer_item \<Rightarrow> responses_event list" where
  "item_events (AnsText ts) = RevItemAdded ItemOther # map RevTextDelta ts @ [RevItemDone ItemOther]"
| "item_events (AnsCall i c n a) =
     [RevItemAdded (ItemFunctionCall (Some i) c n []), RevOther, RevArgumentsDone i n a, RevItemDone (ItemFunctionCall (Some i) c n a)]"
| "item_events (AnsReasoning ps) = RevItemAdded (ItemReasoning (Some [])) #
     concat (map (\<lambda>p. [RevReasoningDelta p, RevReasoningDone p]) ps) @ [RevItemDone (item_of (AnsReasoning ps))]"

fun item_call :: "answer_item \<Rightarrow> (string \<times> string \<times> string) option" where
  "item_call (AnsCall i c n a) = Some (c, n, if a = [] then ''{}'' else a)"
| "item_call _ = None"

definition items_ok :: "answer_item list \<Rightarrow> bool" where
  "items_ok its \<longleftrightarrow> distinct (map fst (List.map_filter item_call its)) \<and>
     list_all (\<lambda>x. case x of AnsCall i c n a \<Rightarrow> i \<noteq> [] \<and> c \<noteq> [] | _ \<Rightarrow> True) its"

definition documented_response :: "responses_response \<Rightarrow> answer_item list \<Rightarrow> responses_response" where
  "documented_response r its = r\<lparr>rs_output := Some (map item_of its), rs_output_text := Some (concat (concat (map item_texts its)))\<rparr>"

definition documented_events :: "responses_response \<Rightarrow> answer_item list \<Rightarrow> responses_event list" where
  "documented_events r its = concat (map item_events its) @ [RevCompleted (documented_response r its)]"

lemma text_deltas_keep: "fold responses_step (map RevTextDelta ts) s = s"
  by (induction ts) simp_all

lemma reasoning_keeps:
  "rst_toolCalls (fold responses_step (concat (map (\<lambda>p. [RevReasoningDelta p, RevReasoningDone p]) ps)) s) = rst_toolCalls s"
  "rst_finalResponse (fold responses_step (concat (map (\<lambda>p. [RevReasoningDelta p, RevReasoningDone p]) ps)) s) = rst_finalResponse s"
  "rst_reasoning (fold responses_step (concat (map (\<lambda>p. [RevReasoningDelta p, RevReasoningDone p]) ps)) s) = last (rst_reasoning s # ps)"
  by (induction ps arbitrary: s) simp_all

lemma call_item_step:
  assumes "i \<noteq> []" "c \<noteq> []" "c \<notin> fst ` set (rst_toolCalls s)"
  shows "rst_toolCalls (fold responses_step (item_events (AnsCall i c n a)) s) = rst_toolCalls s @ [(c, n, if a = [] then ''{}'' else a)]"
  using assms by (cases i) (simp_all add: put_call_def extractResponsesStreamToolCallDone_def update_fresh update_conv Let_def)

fun item_parts :: "answer_item \<Rightarrow> string list" where
  "item_parts (AnsReasoning ps) = ps"
| "item_parts _ = []"

lemma items_reasoning: "rst_reasoning (fold responses_step (concat (map item_events its)) s) = last (rst_reasoning s # concat (map item_parts its))"
proof (induction its arbitrary: s)
  case (Cons x its)
  have "rst_reasoning (fold responses_step (item_events x) s) = last (rst_reasoning s # item_parts x)"
    by (cases x) (simp_all add: text_deltas_keep reasoning_keeps put_call_def Let_def)
  with Cons show ?case by (simp add: last_append)
qed simp

lemma items_calls:
  assumes "items_ok its" "fst ` set (rst_toolCalls s) \<inter> fst ` set (List.map_filter item_call its) = {}"
  shows "rst_toolCalls (fold responses_step (concat (map item_events its)) s) = rst_toolCalls s @ List.map_filter item_call its"
  using assms
proof (induction its arbitrary: s)
  case (Cons x its)
  have ok: "items_ok its" using Cons(2) by (cases x) (simp_all add: items_ok_def List.map_filter_simps)
  show ?case
  proof (cases x)
    case (AnsCall i c n a)
    define s1 where "s1 = fold responses_step (item_events x) s"
    have "i \<noteq> []" "c \<noteq> []" "c \<notin> fst ` set (rst_toolCalls s)" using Cons(2,3) AnsCall by (auto simp: items_ok_def List.map_filter_simps)
    then have s1: "rst_toolCalls s1 = rst_toolCalls s @ [(c, n, if a = [] then ''{}'' else a)]" using call_item_step AnsCall s1_def by blast
    have "fst ` set (rst_toolCalls s1) \<inter> fst ` set (List.map_filter item_call its) = {}"
      using Cons(2,3) AnsCall by (auto simp: s1 items_ok_def List.map_filter_simps)
    from Cons(1) [OF ok this] have "rst_toolCalls (fold responses_step (concat (map item_events its)) s1) =
        rst_toolCalls s @ List.map_filter item_call (x # its)" using AnsCall s1 by (simp add: List.map_filter_simps)
    then show ?thesis unfolding s1_def by (simp only: list.map concat.simps fold_append comp_apply)
  qed (use Cons(1) [OF ok] Cons(3) in \<open>simp_all add: text_deltas_keep reasoning_keeps Let_def List.map_filter_simps\<close>)
qed (simp add: List.map_filter_simps)

lemma js_join_Nil: "js_join [] xs = concat xs"
  by (induction "[] :: string" xs rule: js_join.induct) simp_all

lemma documented_reads:
  "concat (map responses_yield (documented_events r its)) = concat (map item_texts its)"
  "List.map_filter extractResponsesOutputItemToolCall (map item_of its) =
     map (\<lambda>(c, n, a). \<lparr>tc_id = c, tc_name = n, tc_arguments = a\<rparr>) (List.map_filter item_call its)"
  "list_ex is_function_call (map item_of its) \<longleftrightarrow> List.map_filter item_call its \<noteq> []"
  "concat (map item_summary (map item_of its)) = concat (map item_parts its)"
proof -
  have y: "concat (map responses_yield (item_events x)) = item_texts x" for x
  proof (cases x)
    case (AnsText ts)
    have "concat (map responses_yield (map RevTextDelta ts)) = ts" by (induction ts) simp_all
    with AnsText show ?thesis by simp
  next
    case (AnsReasoning ps)
    have "concat (map responses_yield (concat (map (\<lambda>p. [RevReasoningDelta p, RevReasoningDone p]) ps))) = []" by (induction ps) simp_all
    with AnsReasoning show ?thesis by simp
  qed simp
  have "concat (map responses_yield (concat (map item_events its))) = concat (map item_texts its)" by (induction its) (simp_all add: y)
  then show "concat (map responses_yield (documented_events r its)) = concat (map item_texts its)" by (simp add: documented_events_def)
  have m: "filter (\<lambda>(ty, _). ty = ''summary_text'') (map (\<lambda>p. (''summary_text'', p)) ps) = map (\<lambda>p. (''summary_text'', p)) ps" for ps :: "string list"
    by (induction ps) simp_all
  show "List.map_filter extractResponsesOutputItemToolCall (map item_of its) =
     map (\<lambda>(c, n, a). \<lparr>tc_id = c, tc_name = n, tc_arguments = a\<rparr>) (List.map_filter item_call its)"
    by (induction its) (auto simp: List.map_filter_simps split: option.split elim: item_call.elims item_of.elims)
  show "list_ex is_function_call (map item_of its) \<longleftrightarrow> List.map_filter item_call its \<noteq> []"
    by (induction its) (auto simp: List.map_filter_simps split: option.split elim: item_call.elims item_of.elims)
  have "item_summary (item_of x) = item_parts x" for x by (cases x) (simp_all add: m comp_def)
  then show "concat (map item_summary (map item_of its)) = concat (map item_parts its)" by (induction its) simp_all
qed

lemma summary_or_buffer:
  "(case truthy_str (Some (concat (filter (\<lambda>t. t \<noteq> []) ps))) of Some t \<Rightarrow> Some t | None \<Rightarrow> truthy_str (Some (last ([] # ps)))) =
   truthy_str (Some (concat (filter (\<lambda>t. t \<noteq> []) ps)))" for ps :: "string list"
proof (cases "concat (filter (\<lambda>t. t \<noteq> []) ps) = []")
  case True
  then have "\<forall>p \<in> set ps. p = []" by auto
  then have "last ([] # ps) = []" by (metis last.simps last_in_set)
  with True show ?thesis by simp
qed (simp add: truthy_str_def)

lemma item_calls_args: "(c, n, a) \<in> set (List.map_filter item_call its) \<Longrightarrow> a \<noteq> []"
  by (induction its) (auto simp: List.map_filter_simps split: option.splits if_splits elim!: item_call.elims)

lemma responses_final_state:
  assumes "items_ok its"
  shows "rst_toolCalls (fold responses_step (documented_events r its) initial_responses_state) = List.map_filter item_call its"
    and "rst_finalResponse (fold responses_step (documented_events r its) initial_responses_state) = Some (documented_response r its)"
    and "rst_reasoning (fold responses_step (documented_events r its) initial_responses_state) = last ([] # concat (map item_parts its))"
  using items_calls [OF assms, of initial_responses_state] items_reasoning [of its initial_responses_state]
  by (simp_all add: documented_events_def initial_responses_state_def)


definition blank_response :: responses_response where
  "blank_response = \<lparr>rs_output = None, rs_output_text = None, rs_status = Some ''completed'', rs_incomplete_reason = None, rs_model = None, rs_usage = None\<rparr>"

definition tool_answer :: "answer_item list" where
  "tool_answer = [AnsReasoning [''Think.''], AnsText [''Let me '', ''check.''], AnsCall ''fc_1'' ''call_1'' ''weather'' []]"

definition tool_client :: "unit responses_client" where
  "tool_client = \<lparr>oai_responsesCreate = (\<lambda>_. io_return (documented_response blank_response tool_answer)),
     oai_responsesStream = (\<lambda>_. io_return (documented_events blank_response tool_answer, None))\<rparr>"


section \<open>Cut-off answers\<close>

text \<open>Three paths take a cut-off answer for a finished one: an Anthropic completion without tools, a Gemini completion and the stream of an
  OpenAI-compatible vendor report no length limit although the vendor stopped at one (for the last two, whatever reason the vendor gave), so the gateway's finish reason is
  \<open>stop\<close>, with which replies are cached. The Anthropic stream of the same message does report it.\<close>

lemma cut_off_answers_look_finished:
  assumes "truthy_list (pi_tools input) = None" and "arm_stop_reason m = Some ''max_tokens''"
    and "acl_create ac (anthropic_params_of input modelId options) w = (Inr m, w1)"
    and "gcl_generate gc (gemini_params g input modelId options) w = (Inr resp, w2)"
    and "answer_ok a" and "va_calls a = []"
    and "oai_chatStream cc (chat_completions_stream_params True input modelId options) w = (Inr (documented_chunks a, None), w3)"
  shows "(\<exists>p. anthropic_complete ac input modelId options w = (Inr p, w1) \<and> mapStopReasonToFinishReason (pr_stopReason p) (pr_toolCalls p) = FinStop) \<and>
    (\<exists>p. gemini_complete g gc input modelId options w = (Inr p, w2) \<and> mapStopReasonToFinishReason (pr_stopReason p) (pr_toolCalls p) = FinStop) \<and>
    (\<exists>sr. chat_stream cc True input modelId options w = (Inr sr, w3) \<and> sr_getFinalToolCalls sr = Some (io_return None) \<and>
       sr_getStopReason sr = Some (io_return (Some SrStop)) \<and> mapStopReasonToFinishReason (Some SrStop) None = FinStop) \<and>
    mapStopReasonToFinishReason (pr_stopReason (parseAnthropicResponseWithTools m)) (pr_toolCalls (parseAnthropicResponseWithTools m)) = FinLength"
proof (intro conjI)
  show "\<exists>p. anthropic_complete ac input modelId options w = (Inr p, w1) \<and> mapStopReasonToFinishReason (pr_stopReason p) (pr_toolCalls p) = FinStop"
    using assms(1,3) by (simp add: anthropic_complete_def io_catch_apply io_map_apply anthropic_plain_response_def mapStopReasonToFinishReason_def
        del: truthy_eq_None)
  show "\<exists>p. gemini_complete g gc input modelId options w = (Inr p, w2) \<and> mapStopReasonToFinishReason (pr_stopReason p) (pr_toolCalls p) = FinStop"
    using assms(1,4) by (simp add: gemini_complete_def io_catch_apply io_map_apply gemini_answer_def mapStopReasonToFinishReason_def Let_def
        del: truthy_eq_None)
  have "js_last (documented_chunks a) =
      Some \<lparr>ock_choices = [], ock_model = Some (va_model a), ock_usage = Some (va_usage a), ock_system_fingerprint = va_fingerprint a\<rparr>"
    by (simp add: js_last_def documented_chunks_def)
  then show "\<exists>sr. chat_stream cc True input modelId options w = (Inr sr, w3) \<and> sr_getFinalToolCalls sr = Some (io_return None) \<and>
       sr_getStopReason sr = Some (io_return (Some SrStop)) \<and> mapStopReasonToFinishReason (Some SrStop) None = FinStop"
    using assms(6,7) streamed_calls [OF assms(5)]
    by (simp add: chat_stream_def adapter_stream_def io_catch_apply io_map_apply chat_stream_result_def answer_calls_def js_first_def Let_def
        mapStopReasonToFinishReason_def)
  show "mapStopReasonToFinishReason (pr_stopReason (parseAnthropicResponseWithTools m)) (pr_toolCalls (parseAnthropicResponseWithTools m)) = FinLength"
    using assms(2) by (simp add: parseAnthropicResponseWithTools_def STOP_REASON_MAP_def mapStopReasonToFinishReason_def)
qed

definition cut_message :: anthropic_raw_message where
  "cut_message = \<lparr>arm_content = [BlockText ''Once upon''], arm_model = ''claude'', arm_stop_reason = Some ''max_tokens'', arm_input_tokens = 3,
     arm_output_tokens = 2, arm_cache_read = None, arm_cache_creation = None\<rparr>"

definition cut_anthropic :: "unit anthropic_client" where
  "cut_anthropic = \<lparr>acl_create = (\<lambda>_. io_return cut_message), acl_stream = (\<lambda>_. io_return (([], None), io_return cut_message))\<rparr>"

definition cut_gemini :: "unit gemini_client" where
  "cut_gemini = \<lparr>gcl_generate = (\<lambda>_. io_return \<lparr>gr_text = Some ''Once upon'', gr_functionCalls = None, gr_modelVersion = None, gr_usageMetadata = None,
     gr_thoughts = None, gr_thinkingContent = None, gr_parts = None\<rparr>), gcl_stream = (\<lambda>_. io_return ([], None))\<rparr>"

end
