(* ===== verification/Provider_Bootstrap.thy ===== *)
theory Provider_Bootstrap
  imports Vendor_Props
begin

text \<open>
  Start-up of the providers: the runtime rows of \<open>buildAppConfiguration\<close> (\<open>config/configuration.ts\<close>), the factories
  (\<open>providers/factories\<close>) and \<open>ProviderInstancesBootstrap\<close>, which fills the registry. The constructors of the vendor SDKs
  are the parameter \<open>sdk\<close>. The property composes start-up with routing: what the configuration promises can be called.
\<close>

section \<open>Runtime rows (configuration.ts)\<close>

record provider_instance_runtime =
  pir_type :: provider_type
  pir_apiKeyRef :: string
  pir_apiKey :: string
  pir_baseUrlRef :: "string option"
  pir_baseUrl :: "string option"
  pir_apiSurface :: "openai_api_surface option"

definition runtime_row ::
  "(string \<Rightarrow> string option) \<Rightarrow> (string \<Rightarrow> string option) \<Rightarrow> provider_instance_config \<Rightarrow> provider_instance_runtime" where
  "runtime_row urlProtocol env row =
     (let base = \<lparr>pir_type = pic_type row, pir_apiKeyRef = pic_apiKeyRef row, pir_apiKey = env_value env (pic_apiKeyRef row),
          pir_baseUrlRef = None, pir_baseUrl = None, pir_apiSurface = None\<rparr>
      in if isOpenAiProviderType (pic_type row)
         then base\<lparr>pir_baseUrlRef := pic_baseUrlRef row, pir_baseUrl := Some (resolveBaseUrlFromEnv urlProtocol (pic_baseUrlRef row) env),
           pir_apiSurface := (if pic_type row = POpenAICompatible then Some (nullish (pic_apiSurface row) SurfaceChatCompletions) else None)\<rparr>
         else base)"

definition providersByInstance ::
  "(string \<Rightarrow> string option) \<Rightarrow> (string \<Rightarrow> string option) \<Rightarrow> gateway_config \<Rightarrow> (string \<times> provider_instance_runtime) list" where
  "providersByInstance urlProtocol env cfg = map (\<lambda>(i, row). (i, runtime_row urlProtocol env row)) (gw_providers cfg)"

section \<open>Factories (providers/factories)\<close>

record 'w vendor_sdks =
  sdk_openai :: "string \<Rightarrow> string \<Rightarrow> ('w chat_client \<times> 'w responses_client) result"
  sdk_anthropic :: "string \<Rightarrow> 'w anthropic_client result"
  sdk_google :: "string \<Rightarrow> 'w gemini_client result"
  sdk_genai :: genai_lib

record provider_factory_context =
  fc_instanceId :: string
  fc_type :: provider_type
  fc_apiKeyRef :: string
  fc_apiKey :: string
  fc_baseUrlRef :: "string option"
  fc_baseUrl :: "string option"
  fc_apiSurface :: "openai_api_surface option"

definition assertOpenAiProviderType :: "provider_type \<Rightarrow> unit result" where
  "assertOpenAiProviderType t =
     (if \<not> isOpenAiProviderType t
      then Inl (plain_error (''[OpenAiProvider] Unsupported provider type \"'' @ provider_type_string t @
        ''\". Only \"openai\" and \"openai-compatible\" are allowed.''))
      else Inr ())"

definition OpenAiProviderCore :: "provider_type \<Rightarrow> 'w chat_client \<Rightarrow> 'w responses_client \<Rightarrow> 'w ai_provider" where
  "OpenAiProviderCore providerType chatClient responsesClient =
     \<lparr>ap_complete = (\<lambda>input modelId options.
        if providerType = POpenAI then responses_complete responsesClient input modelId options
        else chat_complete chatClient input modelId options),
      ap_stream = Some (\<lambda>input modelId options.
        if providerType = POpenAI then responses_stream responsesClient input modelId options
        else chat_stream chatClient (providerType = POpenAICompatible) input modelId options)\<rparr>"

definition createOpenAiProviderCore :: "'w vendor_sdks \<Rightarrow> provider_type \<Rightarrow> string \<Rightarrow> string \<Rightarrow> 'w ai_provider result" where
  "createOpenAiProviderCore sdk providerType apiKey baseUrl =
     res_bind (assertOpenAiProviderType providerType) (\<lambda>_.
     res_bind (sdk_openai sdk apiKey baseUrl) (\<lambda>(chatClient, responsesClient).
       Inr (OpenAiProviderCore providerType chatClient responsesClient)))"

text \<open>\<open>createOpenAiProvider\<close> and \<open>createOpenAiCompatibleProviderInstance\<close> differ in the type they expect and in the name in their messages.\<close>

definition openai_factory :: "string \<Rightarrow> provider_type \<Rightarrow> 'w vendor_sdks \<Rightarrow> provider_factory_context \<Rightarrow> 'w ai_provider result" where
  "openai_factory name expected sdk config =
     (if fc_type config \<noteq> expected
      then Inl (plain_error (''['' @ name @ ''] Expected type \"'' @ provider_type_string expected @ ''\", got '' @ provider_type_string (fc_type config)))
      else case truthy_str (fc_baseUrl config) of
          None \<Rightarrow> Inl (plain_error (''['' @ name @ ''] Missing baseUrl for instance '' @ fc_instanceId config))
        | Some url \<Rightarrow> createOpenAiProviderCore sdk (fc_type config) (fc_apiKey config) url)"

definition createOpenAiProvider :: "'w vendor_sdks \<Rightarrow> provider_factory_context \<Rightarrow> 'w ai_provider result" where
  "createOpenAiProvider = openai_factory ''createOpenAiProvider'' POpenAI"

definition createOpenAiCompatibleProviderInstance :: "'w vendor_sdks \<Rightarrow> provider_factory_context \<Rightarrow> 'w ai_provider result" where
  "createOpenAiCompatibleProviderInstance = openai_factory ''createOpenAiCompatibleProviderInstance'' POpenAICompatible"

definition adaptApiKeyProviderFactory ::
  "('w vendor_sdks \<Rightarrow> string \<Rightarrow> 'w ai_provider result) \<Rightarrow> 'w vendor_sdks \<Rightarrow> provider_factory_context \<Rightarrow> 'w ai_provider result" where
  "adaptApiKeyProviderFactory apiKeyFactory sdk ctx = apiKeyFactory sdk (fc_apiKey ctx)"

fun FACTORIES :: "provider_type \<Rightarrow> 'w vendor_sdks \<Rightarrow> provider_factory_context \<Rightarrow> 'w ai_provider result" where
  "FACTORIES PAnthropic = adaptApiKeyProviderFactory (\<lambda>sdk. createAnthropicProvider (sdk_anthropic sdk))"
| "FACTORIES PGoogle = adaptApiKeyProviderFactory (\<lambda>sdk. createGoogleProvider (sdk_genai sdk) (sdk_google sdk))"
| "FACTORIES POpenAI = createOpenAiProvider"
| "FACTORIES POpenAICompatible = createOpenAiCompatibleProviderInstance"

section \<open>Registration (provider-instances.bootstrap.ts)\<close>

definition buildFactoryContext :: "string \<Rightarrow> provider_instance_config \<Rightarrow> provider_instance_runtime \<Rightarrow> provider_factory_context" where
  "buildFactoryContext instanceId row runtime =
     (let base = \<lparr>fc_instanceId = instanceId, fc_type = pic_type row, fc_apiKeyRef = pic_apiKeyRef row, fc_apiKey = js_trim (pir_apiKey runtime),
          fc_baseUrlRef = None, fc_baseUrl = None, fc_apiSurface = None\<rparr>
      in if \<not> isOpenAiProviderType (pic_type row) then base
         else base\<lparr>fc_baseUrlRef := pic_baseUrlRef row, fc_baseUrl := pir_baseUrl runtime,
           fc_apiSurface := (if pic_type row = POpenAICompatible then pir_apiSurface runtime else None)\<rparr>)"

definition bootstrap_error :: "string \<Rightarrow> jserr" where
  "bootstrap_error m = plain_error (''[ProviderInstancesBootstrap] '' @ m)"

fun register_instances ::
  "'w vendor_sdks \<Rightarrow> (string \<times> provider_instance_runtime) list \<Rightarrow> (string \<times> provider_instance_config) list \<Rightarrow>
   'w ai_provider registry \<Rightarrow> 'w ai_provider registry result" where
  "register_instances sdk byInstance [] reg = Inr reg"
| "register_instances sdk byInstance ((i, row) # rows) reg =
     (if \<not> pic_enabled row then register_instances sdk byInstance rows reg
      else case map_of byInstance i of
          None \<Rightarrow> Inl (bootstrap_error (''Missing runtime config for instance '' @ i))
        | Some runtime \<Rightarrow>
            (if isApiKeyRequiredForProviderType (pic_type row) \<and> js_trim (pir_apiKey runtime) = []
             then Inl (bootstrap_error (''Missing API key for instance '' @ i))
             else res_bind (FACTORIES (pic_type row) sdk (buildFactoryContext i row runtime)) (\<lambda>provider.
               register_instances sdk byInstance rows (registerInstance i (pic_type row) provider reg))))"

definition onApplicationBootstrap ::
  "'w vendor_sdks \<Rightarrow> gateway_config \<Rightarrow> (string \<times> provider_instance_runtime) list \<Rightarrow> 'w ai_provider registry result" where
  "onApplicationBootstrap sdk gateway byInstance = register_instances sdk byInstance (gw_providers gateway) (\<lambda>_. None)"

section \<open>Start-up and routing\<close>

text \<open>The SDK constructors accept a key that is not empty; the one of OpenAI accepts any.\<close>

definition sdks_construct :: "'w vendor_sdks \<Rightarrow> bool" where
  "sdks_construct sdk \<longleftrightarrow> (\<forall>k u. \<exists>c. sdk_openai sdk k u = Inr c) \<and>
     (\<forall>k. k \<noteq> [] \<longrightarrow> (\<exists>c. sdk_anthropic sdk k = Inr c) \<and> (\<exists>c. sdk_google sdk k = Inr c))"

lemma openai_core_normal: "normal_provider (OpenAiProviderCore t chatClient responsesClient)"
proof (cases "t = POpenAI")
  case True
  then have "OpenAiProviderCore t chatClient responsesClient = createResponsesAdapter responsesClient"
    by (simp add: OpenAiProviderCore_def createResponsesAdapter_def)
  then show ?thesis by (simp add: responses_adapter.provider_normal)
next
  case False
  then have "OpenAiProviderCore t chatClient responsesClient = createChatCompletionsAdapter chatClient (t = POpenAICompatible)"
    by (simp add: OpenAiProviderCore_def createChatCompletionsAdapter_def)
  then show ?thesis by (simp add: chat_completions_adapter.provider_normal)
qed

lemma schema_base_url:
  "provider_row_issues refs ps = [] \<Longrightarrow> (i, row) \<in> set ps \<Longrightarrow> isOpenAiProviderType (pic_type row) \<Longrightarrow>
   truthy_str (map_option js_trim (pic_baseUrlRef row)) \<noteq> None"
  by (induction refs ps rule: provider_row_issues.induct) (auto split: if_splits simp del: truthy_eq_None)

definition startable :: "(string \<Rightarrow> string option) \<Rightarrow> (string \<Rightarrow> string option) \<Rightarrow> provider_instance_config \<Rightarrow> bool" where
  "startable urlProtocol env row \<longleftrightarrow>
     (if isOpenAiProviderType (pic_type row) then resolveBaseUrlFromEnv urlProtocol (pic_baseUrlRef row) env \<noteq> []
      else env_value env (pic_apiKeyRef row) \<noteq> [])"

lemma openai_factory_starts:
  assumes "sdks_construct sdk" "fc_type ctx = t" "isOpenAiProviderType t" "fc_baseUrl ctx = Some u" "u \<noteq> []"
  shows "\<exists>p. openai_factory name t sdk ctx = Inr p \<and> normal_provider p"
proof -
  obtain c r where "sdk_openai sdk (fc_apiKey ctx) u = Inr (c, r)" using assms(1) unfolding sdks_construct_def by (metis prod.exhaust)
  then have "openai_factory name t sdk ctx = Inr (OpenAiProviderCore t c r)"
    using assms(2-5) by (simp add: openai_factory_def createOpenAiProviderCore_def assertOpenAiProviderType_def truthy_str_def)
  then show ?thesis using openai_core_normal by blast
qed

lemma openai_context:
  "isOpenAiProviderType (pic_type row) \<Longrightarrow> fc_type (buildFactoryContext i row (runtime_row urlProtocol env row)) = pic_type row \<and>
   fc_baseUrl (buildFactoryContext i row (runtime_row urlProtocol env row)) = Some (resolveBaseUrlFromEnv urlProtocol (pic_baseUrlRef row) env)"
  by (simp add: buildFactoryContext_def runtime_row_def Let_def)

lemma factory_starts:
  assumes "sdks_construct sdk" "startable urlProtocol env row"
  shows "\<exists>p. FACTORIES (pic_type row) sdk (buildFactoryContext i row (runtime_row urlProtocol env row)) = Inr p \<and> normal_provider p"
proof (cases "pic_type row")
  case PAnthropic
  moreover from this obtain c where "sdk_anthropic sdk (env_value env (pic_apiKeyRef row)) = Inr c" "env_value env (pic_apiKeyRef row) \<noteq> []"
    using assms by (auto simp: sdks_construct_def startable_def isOpenAiProviderType_def)
  ultimately show ?thesis using anthropic_adapter.provider_normal [of c]
    by (simp add: isOpenAiProviderType_def adaptApiKeyProviderFactory_def createAnthropicProvider_def buildFactoryContext_def runtime_row_def env_value_def)
next
  case PGoogle
  moreover from this obtain c where "sdk_google sdk (env_value env (pic_apiKeyRef row)) = Inr c" "env_value env (pic_apiKeyRef row) \<noteq> []"
    using assms by (auto simp: sdks_construct_def startable_def isOpenAiProviderType_def)
  ultimately show ?thesis using google_adapter.provider_normal [of "sdk_genai sdk" c]
    by (simp add: isOpenAiProviderType_def adaptApiKeyProviderFactory_def createGoogleProvider_def buildFactoryContext_def runtime_row_def env_value_def)
next
  case POpenAI
  with assms show ?thesis using openai_context [of row] openai_factory_starts [OF assms(1)]
    by (simp add: startable_def isOpenAiProviderType_def createOpenAiProvider_def)
next
  case POpenAICompatible
  with assms show ?thesis using openai_context [of row] openai_factory_starts [OF assms(1)]
    by (simp add: startable_def isOpenAiProviderType_def createOpenAiCompatibleProviderInstance_def)
qed

lemma register_instances_run:
  assumes "sdks_construct sdk" "\<forall>(i, row) \<in> set rows. pic_enabled row \<and> startable urlProtocol env row \<and>
      map_of by i = Some (runtime_row urlProtocol env row)"
    and "distinct (map fst rows)" "registry_ok reg"
  shows "\<exists>reg'. register_instances sdk by rows reg = Inr reg' \<and> registry_ok reg' \<and> (\<forall>i. i \<notin> fst ` set rows \<longrightarrow> reg' i = reg i) \<and>
    (\<forall>(i, row) \<in> set rows. \<exists>p. reg' i = Some \<lparr>ri_instanceId = i, ri_type = pic_type row, ri_provider = p\<rparr> \<and> normal_provider p)"
  using assms(2-4)
proof (induction rows arbitrary: reg)
  case (Cons x rows)
  obtain i row where x: "x = (i, row)" by fastforce
  with Cons have row: "pic_enabled row" "startable urlProtocol env row" "map_of by i = Some (runtime_row urlProtocol env row)" by auto
  obtain p where p: "FACTORIES (pic_type row) sdk (buildFactoryContext i row (runtime_row urlProtocol env row)) = Inr p" "normal_provider p"
    using factory_starts [OF assms(1) row(2)] by blast
  let ?reg = "registerInstance i (pic_type row) p reg"
  have key: "\<not> (isApiKeyRequiredForProviderType (pic_type row) \<and> js_trim (pir_apiKey (runtime_row urlProtocol env row)) = [])"
    using row(2) by (auto simp: startable_def isApiKeyRequiredForProviderType_def runtime_row_def env_value_def Let_def split: if_splits)
  obtain reg' where reg': "register_instances sdk by rows ?reg = Inr reg'" "registry_ok reg'" "\<forall>j. j \<notin> fst ` set rows \<longrightarrow> reg' j = ?reg j"
    "\<forall>(i, row) \<in> set rows. \<exists>p. reg' i = Some \<lparr>ri_instanceId = i, ri_type = pic_type row, ri_provider = p\<rparr> \<and> normal_provider p"
    using Cons(1) [of ?reg] Cons(2-4) registry_ok_register [of reg i] x by auto
  have "reg' i = Some \<lparr>ri_instanceId = i, ri_type = pic_type row, ri_provider = p\<rparr>"
    using reg'(3) Cons(3) x by (auto simp: registerInstance_def)
  moreover have "register_instances sdk by (x # rows) reg = Inr reg'" using x row key p reg'(1) by simp
  moreover have "\<forall>j. j \<notin> fst ` set (x # rows) \<longrightarrow> reg' j = reg j" using reg'(3) x by (auto simp: registerInstance_def)
  ultimately show ?case using reg' x p by auto
qed simp

lemma effective_rows_startable:
  assumes "buildEffectiveGatewayConfig urlProtocol env False raw = Inr cfg" "schema_issues raw = []" "(i, row) \<in> set (gw_providers cfg)"
  shows "pic_enabled row \<and> startable urlProtocol env row"
proof -
  have cfg: "(i, row) \<in> set (gw_providers raw)" "pic_enabled row" "assertEnabledProviderSecretsPresent urlProtocol env raw = Inr ()"
    using assms(1,3) by (auto simp: buildEffectiveGatewayConfig_def Let_def enabled_providers_def split: if_splits)
  have "truthy_str (map_option js_trim (pic_baseUrlRef row)) \<noteq> None" if "isOpenAiProviderType (pic_type row)"
    using schema_base_url [OF _ cfg(1) that] assms(2) by (auto simp: schema_issues_def simp del: truthy_eq_None)
  with cfg show ?thesis
    by (auto simp: startable_def secrets_defs filter_empty_conv split: list.splits if_splits simp del: truthy_eq_None)
qed


definition idle_sdks :: "unit vendor_sdks" where
  "idle_sdks = \<lparr>sdk_openai = (\<lambda>_ _. Inr (cut_client, tool_client)), sdk_anthropic = (\<lambda>_. Inr cut_anthropic), sdk_google = (\<lambda>_. Inr cut_gemini),
     sdk_genai = documented_genai\<rparr>"


end
