(* ===== verification/Models_Catalog.thy ===== *)
theory Models_Catalog
  imports Provider_Bootstrap Facade_Controllers
begin

text \<open>
  The models endpoints: the catalogue of the configured aliases
  (\<open>models/services/gateway-models-catalog.service.ts\<close>) behind the native controller and the controllers of the two facades, with
  their mappers. The clock is an argument: the seconds since the epoch for OpenAI, the ISO text for Anthropic.

  The catalogue looks an alias up with \<open>gateway.models[alias]\<close>, which also finds what every object inherits; the names of
  \<open>Object.prototype\<close> are therefore part of the model. A value found that way is a function or an object without the fields of a
  model, so its fields read as undefined.
\<close>

section \<open>The catalogue (gateway-models-catalog.service.ts)\<close>

definition object_prototype_names :: "string list" where
  "object_prototype_names = [''constructor'', ''__proto__'', ''hasOwnProperty'', ''isPrototypeOf'', ''propertyIsEnumerable'', ''toLocaleString'',
     ''toString'', ''valueOf'', ''__defineGetter__'', ''__defineSetter__'', ''__lookupGetter__'', ''__lookupSetter__'']"

datatype 'v js_property = Own 'v | Inherited | Absent

definition js_property :: "(string \<times> 'v) list \<Rightarrow> string \<Rightarrow> 'v js_property" where
  "js_property obj k = (case map_of obj k of Some v \<Rightarrow> Own v | None \<Rightarrow> if k \<in> set object_prototype_names then Inherited else Absent)"

record gateway_model_dto =
  gm_modelAlias :: string
  gm_providerInstance :: "string option"
  gm_providerType :: string
  gm_modelId :: "string option"
  gm_capabilities :: "capabilities option"
  gm_fallback :: "string option"

definition getAppConfigOrThrow :: "string \<Rightarrow> 'c option \<Rightarrow> 'c result" where
  "getAppConfigOrThrow key config = (case config of None \<Rightarrow> Inl (plain_error (''Missing config key: '' @ key)) | Some c \<Rightarrow> Inr c)"

text \<open>A provider row that is only inherited has no \<open>type\<close> either.\<close>

definition resolveProviderType :: "gateway_config \<Rightarrow> string \<Rightarrow> string" where
  "resolveProviderType gateway providerInstance =
     (case js_property (gw_providers gateway) providerInstance of Own row \<Rightarrow> provider_type_string (pic_type row) | _ \<Rightarrow> ''gateway'')"

definition toDto :: "gateway_config \<Rightarrow> string \<Rightarrow> gateway_model_dto" where
  "toDto gateway alias' =
     (case js_property (gw_models gateway) alias' of
        Own m \<Rightarrow> \<lparr>gm_modelAlias = alias', gm_providerInstance = Some (mc_providerInstance m),
          gm_providerType = resolveProviderType gateway (mc_providerInstance m), gm_modelId = Some (mc_modelId m),
          gm_capabilities = mc_capabilities m, gm_fallback = mc_fallback m\<rparr>
      | _ \<Rightarrow> \<lparr>gm_modelAlias = alias', gm_providerInstance = None, gm_providerType = resolveProviderType gateway ''undefined'',
          gm_modelId = None, gm_capabilities = None, gm_fallback = None\<rparr>)"

definition catalog_list :: "gateway_config option \<Rightarrow> gateway_model_dto list result" where
  "catalog_list config = res_bind (getAppConfigOrThrow ''gateway'' config) (\<lambda>gateway. Inr (map (toDto gateway) (map fst (gw_models gateway))))"

definition catalog_getOne :: "gateway_config option \<Rightarrow> string \<Rightarrow> gateway_model_dto option result" where
  "catalog_getOne config alias' = res_bind (getAppConfigOrThrow ''gateway'' config) (\<lambda>gateway.
     Inr (if js_property (gw_models gateway) alias' = Absent then None else Some (toDto gateway alias')))"

section \<open>The three controllers\<close>

definition Models_list :: "gateway_config option \<Rightarrow> gateway_model_dto list result" where
  "Models_list config = catalog_list config"

definition Models_getOne :: "gateway_config option \<Rightarrow> string \<Rightarrow> gateway_model_dto result" where
  "Models_getOne config alias' = res_bind (catalog_getOne config alias') (\<lambda>model. case model of
     None \<Rightarrow> Inl (api_exception 404 MODEL_ALIAS_NOT_FOUND (''Model alias '' @ alias' @ '' not found in config'') [])
   | Some m \<Rightarrow> Inr m)"

definition mapGatewayModelToOpenAi :: "nat \<Rightarrow> gateway_model_dto \<Rightarrow> json" where
  "mapGatewayModelToOpenAi seconds model = JObj [(''id'', JStr (gm_modelAlias model)), (''object'', JStr ''model''),
     (''created'', JNum (of_nat seconds)), (''owned_by'', JStr (gm_providerType model))]"

definition mapGatewayModelsListToOpenAi :: "nat \<Rightarrow> gateway_model_dto list \<Rightarrow> json" where
  "mapGatewayModelsListToOpenAi seconds models = JObj [(''object'', JStr ''list''), (''data'', JArr (map (mapGatewayModelToOpenAi seconds) models))]"

definition OpenAiModels_list :: "nat \<Rightarrow> gateway_config option \<Rightarrow> json result" where
  "OpenAiModels_list seconds config = res_bind (catalog_list config) (\<lambda>models. Inr (mapGatewayModelsListToOpenAi seconds models))"

definition OpenAiModels_getOne :: "nat \<Rightarrow> gateway_config option \<Rightarrow> string \<Rightarrow> json result" where
  "OpenAiModels_getOne seconds config model = res_bind (catalog_getOne config model) (\<lambda>found. case found of
     None \<Rightarrow> Inl (HttpException 404 (JObj [(''message'', JStr (''Model '' @ model @ '' does not exist.''))]))
   | Some m \<Rightarrow> Inr (mapGatewayModelToOpenAi seconds m))"

text \<open>\<open>split(/[-_]/)\<close> and the capital of each non-empty part.\<close>

fun split_on :: "(char \<Rightarrow> bool) \<Rightarrow> string \<Rightarrow> string list" where
  "split_on P [] = [[]]"
| "split_on P (c # s) = (if P c then [] # split_on P s else (case split_on P s of [] \<Rightarrow> [[c]] | p # ps \<Rightarrow> (c # p) # ps))"

definition js_upper_char :: "char \<Rightarrow> char" where
  "js_upper_char c =
     (let n = of_char c :: nat
      in if (97 \<le> n \<and> n \<le> 122) \<or> (224 \<le> n \<and> n \<le> 254 \<and> n \<noteq> 247) then char_of (n - 32) else c)"

definition toDisplayName :: "string \<Rightarrow> string" where
  "toDisplayName alias' =
     js_join '' '' (map (\<lambda>part. js_upper_char (hd part) # tl part)
       (filter (\<lambda>part. part \<noteq> []) (split_on (\<lambda>c. c = CHR ''-'' \<or> c = CHR ''_'') alias')))"

definition mapGatewayModelToAnthropic :: "string \<Rightarrow> gateway_model_dto \<Rightarrow> json" where
  "mapGatewayModelToAnthropic now model = JObj [(''type'', JStr ''model''), (''id'', JStr (gm_modelAlias model)),
     (''display_name'', JStr (toDisplayName (gm_modelAlias model))), (''created_at'', JStr now)]"

definition mapGatewayModelsListToAnthropic :: "string \<Rightarrow> gateway_model_dto list \<Rightarrow> json" where
  "mapGatewayModelsListToAnthropic now models =
     JObj [(''data'', JArr (map (mapGatewayModelToAnthropic now) models)),
       (''first_id'', JStr (nullish (map_option gm_modelAlias (js_first models)) [])),
       (''last_id'', JStr (nullish (map_option gm_modelAlias (js_last models)) [])), (''has_more'', JBool False)]"

definition AnthropicModels_list :: "string \<Rightarrow> gateway_config option \<Rightarrow> json result" where
  "AnthropicModels_list now config = res_bind (catalog_list config) (\<lambda>models. Inr (mapGatewayModelsListToAnthropic now models))"

definition AnthropicModels_getOne :: "string \<Rightarrow> gateway_config option \<Rightarrow> string \<Rightarrow> json result" where
  "AnthropicModels_getOne now config model = res_bind (catalog_getOne config model) (\<lambda>found. case found of
     None \<Rightarrow> Inl (HttpException 404 (JObj [(''message'', JStr (''model '' @ model @ '' not found.''))]))
   | Some m \<Rightarrow> Inr (mapGatewayModelToAnthropic now m))"

section \<open>What the endpoints say\<close>

text \<open>A client's reading of the list answers, and of the status of a refusal.\<close>

definition listed :: "json \<Rightarrow> json list" where
  "listed body = jlist (jfield ''data'' body)"

definition model_id :: "json \<Rightarrow> string" where
  "model_id m = jstring (jfield ''id'' m)"

fun not_found :: "'a result \<Rightarrow> bool" where
  "not_found (Inl (HttpException st _)) = (st = 404)"
| "not_found _ = False"

lemma property_configured: "map_of obj k = Some v \<Longrightarrow> js_property obj k = Own v"
  by (simp add: js_property_def)

lemma property_absent: "k \<notin> set object_prototype_names \<Longrightarrow> js_property obj k = Absent \<longleftrightarrow> k \<notin> fst ` set obj"
  by (auto simp: js_property_def map_of_eq_None_iff [symmetric] split: option.splits)

lemma toDto_alias [simp]: "gm_modelAlias (toDto gateway alias') = alias'"
  by (simp add: toDto_def split: js_property.split)

lemmas catalog_defs = catalog_list_def catalog_getOne_def getAppConfigOrThrow_def Models_list_def Models_getOne_def OpenAiModels_list_def
  OpenAiModels_getOne_def AnthropicModels_list_def AnthropicModels_getOne_def

lemma listed_simps [simp]:
  "listed (mapGatewayModelsListToOpenAi s models) = map (mapGatewayModelToOpenAi s) models"
  "listed (mapGatewayModelsListToAnthropic now models) = map (mapGatewayModelToAnthropic now) models"
  "model_id (mapGatewayModelToOpenAi s m) = gm_modelAlias m" "model_id (mapGatewayModelToAnthropic now m) = gm_modelAlias m"
  by (simp_all add: listed_def model_id_def mapGatewayModelsListToOpenAi_def mapGatewayModelsListToAnthropic_def mapGatewayModelToOpenAi_def
      mapGatewayModelToAnthropic_def)

lemma catalog_getOne_configured:
  "k \<notin> set object_prototype_names \<Longrightarrow>
   catalog_getOne (Some cfg) k = Inr (if k \<in> fst ` set (gw_models cfg) then Some (toDto cfg k) else None)"
  by (simp add: catalog_defs property_absent)

lemma toDto_resolved:
  assumes "resolve (Some cfg) reg alias' = Inr rv" and "registry_ok reg"
  shows "gm_modelId (toDto cfg alias') = Some (rv_modelId rv) \<and> gm_providerInstance (toDto cfg alias') = Some (rv_providerName rv) \<and>
    gm_providerType (toDto cfg alias') = provider_type_string (rv_providerType rv)"
  using assms by (auto simp: resolve_def getGatewayConfig_def resolveModelAlias_def resolveProviderEntry_def Let_def registry_ok_def toDto_def
      resolveProviderType_def property_configured split: option.splits if_splits)



text \<open>A name that every object inherits is reported as a model although it is not configured, not listed and cannot be called.\<close>

lemma inherited_name_reported_as_model:
  assumes "alias' \<in> set object_prototype_names" and "alias' \<notin> fst ` set (gw_models cfg)"
  shows "\<exists>d. Models_getOne (Some cfg) alias' = Inr d \<and> gm_modelId d = None"
    and "\<exists>m. OpenAiModels_getOne s (Some cfg) alias' = Inr m \<and> model_id m = alias'"
    and "resolve (Some cfg) reg alias' \<noteq> Inr rv"
proof -
  have "map_of (gw_models cfg) alias' = None" using assms(2) by (simp add: map_of_eq_None_iff)
  then have p: "js_property (gw_models cfg) alias' = Inherited" using assms(1) by (simp add: js_property_def)
  then have one: "catalog_getOne (Some cfg) alias' = Inr (Some (toDto cfg alias'))" by (simp add: catalog_defs)
  show "\<exists>d. Models_getOne (Some cfg) alias' = Inr d \<and> gm_modelId d = None"
    by (simp add: Models_getOne_def one) (simp add: toDto_def p)
  show "\<exists>m. OpenAiModels_getOne s (Some cfg) alias' = Inr m \<and> model_id m = alias'"
    by (simp add: OpenAiModels_getOne_def one)
  show "resolve (Some cfg) reg alias' \<noteq> Inr rv"
    using resolve_Inr_iff [of cfg reg alias' rv] \<open>map_of (gw_models cfg) alias' = None\<close> by auto
qed

end
