(* ===== verification/Node_Files.thy ===== *)
theory Node_Files
  imports Config Vector_Store
begin

text \<open>
  The part of the Node runtime the configuration code and the command line tools work on: files, \<open>process.env\<close> and the clock.
  Paths are relative to the working directory of the process (every caller passes \<open>process.cwd()\<close> as \<open>cwd\<close>). A file is its text; directories are not
  represented, so \<open>mkdir\<close> only succeeds or fails. Any operation on a path may be denied, for the whole run of a command
  (\<open>nw_denied\<close>); a denied write leaves the file as it was. \<open>nw_reads\<close> counts the readings of the clock.
\<close>

section \<open>State and operations of the runtime\<close>

datatype fs_op = FsRead string | FsWrite string | FsUnlink string | FsMkdir string

record node_world =
  nw_files :: "string \<Rightarrow> string option"
  nw_env :: "string \<Rightarrow> string option"
  nw_denied :: "fs_op \<Rightarrow> bool"
  nw_reads :: nat

definition errno_error :: "string \<Rightarrow> string \<Rightarrow> jserr" where
  "errno_error code path = ErrorInstance NoSdkClass ''Error'' (code @ '': '' @ path) [(''code'', JStr code)]"

text \<open>\<open>'code' in error && error.code === 'ENOENT'\<close>.\<close>

fun is_enoent :: "jserr \<Rightarrow> bool" where
  "is_enoent (ErrorInstance _ _ _ own) = (jget own ''code'' = Some (JStr ''ENOENT''))"
| "is_enoent (ThrownObject own) = (jget own ''code'' = Some (JStr ''ENOENT''))"
| "is_enoent _ = False"

definition fs_readFile :: "string \<Rightarrow> (node_world, string) io" where
  "fs_readFile p = (\<lambda>w. (if nw_denied w (FsRead p) then Inl (errno_error ''EACCES'' p)
     else case nw_files w p of None \<Rightarrow> Inl (errno_error ''ENOENT'' p) | Some c \<Rightarrow> Inr c, w))"

definition fs_writeFile :: "string \<Rightarrow> string \<Rightarrow> (node_world, unit) io" where
  "fs_writeFile p c = (\<lambda>w. if nw_denied w (FsWrite p) then (Inl (errno_error ''EACCES'' p), w)
     else (Inr (), w\<lparr>nw_files := (nw_files w)(p \<mapsto> c)\<rparr>))"

definition fs_copyFile :: "string \<Rightarrow> string \<Rightarrow> (node_world, unit) io" where
  "fs_copyFile p q = io_bind (fs_readFile p) (\<lambda>c. fs_writeFile q c)"

definition fs_unlink :: "string \<Rightarrow> (node_world, unit) io" where
  "fs_unlink p = (\<lambda>w. if nw_denied w (FsUnlink p) then (Inl (errno_error ''EACCES'' p), w)
     else if nw_files w p = None then (Inl (errno_error ''ENOENT'' p), w) else (Inr (), w\<lparr>nw_files := (nw_files w)(p := None)\<rparr>))"

definition fs_mkdir :: "string \<Rightarrow> (node_world, unit) io" where
  "fs_mkdir p = (\<lambda>w. (if nw_denied w (FsMkdir p) then Inl (errno_error ''EACCES'' p) else Inr (), w))"

definition fs_exists :: "string \<Rightarrow> (node_world, bool) io" where
  "fs_exists p = io_get (\<lambda>w. nw_files w p \<noteq> None)"

definition read_clock :: "(nat \<Rightarrow> string) \<Rightarrow> (node_world, string) io" where
  "read_clock timestamp = (\<lambda>w. (Inr (timestamp (nw_reads w)), w\<lparr>nw_reads := Suc (nw_reads w)\<rparr>))"

section \<open>Third-party readers and printers\<close>

text \<open>
  js-yaml, dotenv, the URL parser and the colours of chalk. \<open>nl_decode\<close> is \<open>yaml.load\<close> followed by the decoding of the types and defaults of the
  configuration schema; the value rules of the schema are modelled. \<open>nl_render\<close> is the wording of a headline and its details; \<open>nl_dotenv\<close> gives the
  pairs of a \<open>.env\<close> text; \<open>nl_timestamp\<close> the text of the n-th clock reading.
\<close>

datatype decoded = YamlSyntax string | WrongTypes "string list" | Typed gateway_config

record node_lib =
  nl_dump :: "gateway_config \<Rightarrow> string"
  nl_decode :: "string \<Rightarrow> decoded"
  nl_dotenv :: "string \<Rightarrow> (string \<times> string) list"
  nl_urlProtocol :: "string \<Rightarrow> string option"
  nl_render :: "string \<Rightarrow> string list \<Rightarrow> string"
  nl_timestamp :: "nat \<Rightarrow> string"

text \<open>\<open>dotenv.config\<close> sets the variables of the file that the process does not have yet, and never throws.\<close>

definition dotenvConfig :: "node_lib \<Rightarrow> (node_world, unit) io" where
  "dotenvConfig lib = io_update (\<lambda>w.
     if nw_denied w (FsRead ''.env'') then w
     else case nw_files w ''.env'' of
         None \<Rightarrow> w
       | Some c \<Rightarrow> w\<lparr>nw_env := (\<lambda>k. case nw_env w k of Some v \<Rightarrow> Some v | None \<Rightarrow> map_of (rev (nl_dotenv lib c)) k)\<rparr>)"

section \<open>Frame rules\<close>

named_theorems node_simps \<open>effects of the operations of the runtime\<close>

lemma fs_apply [node_simps]:
  "fs_readFile p w = (if nw_denied w (FsRead p) then Inl (errno_error ''EACCES'' p)
     else case nw_files w p of None \<Rightarrow> Inl (errno_error ''ENOENT'' p) | Some c \<Rightarrow> Inr c, w)"
  "fs_writeFile p c w = (if nw_denied w (FsWrite p) then (Inl (errno_error ''EACCES'' p), w)
     else (Inr (), w\<lparr>nw_files := (nw_files w)(p \<mapsto> c)\<rparr>))"
  "fs_unlink p w = (if nw_denied w (FsUnlink p) then (Inl (errno_error ''EACCES'' p), w)
     else if nw_files w p = None then (Inl (errno_error ''ENOENT'' p), w) else (Inr (), w\<lparr>nw_files := (nw_files w)(p := None)\<rparr>))"
  "fs_mkdir p w = (if nw_denied w (FsMkdir p) then Inl (errno_error ''EACCES'' p) else Inr (), w)"
  "fs_exists p w = (Inr (nw_files w p \<noteq> None), w)"
  "read_clock ts w = (Inr (ts (nw_reads w)), w\<lparr>nw_reads := Suc (nw_reads w)\<rparr>)"
  by (simp_all add: fs_readFile_def fs_writeFile_def fs_unlink_def fs_mkdir_def fs_exists_def read_clock_def)

lemma is_enoent_errno [simp]: "is_enoent (errno_error code p) \<longleftrightarrow> code = ''ENOENT''"
  by (simp add: errno_error_def)

text \<open>\<open>touches m F\<close>: the code changes no file outside \<open>F\<close> and never which operations are denied.\<close>

definition kept_outside :: "string set \<Rightarrow> node_world \<Rightarrow> node_world \<Rightarrow> bool" where
  "kept_outside F w w' \<longleftrightarrow> (\<forall>p. p \<notin> F \<longrightarrow> nw_files w' p = nw_files w p) \<and> nw_denied w' = nw_denied w"

lemma kept_outside_refl [simp]: "kept_outside F w w"
  by (simp add: kept_outside_def)

lemma kept_outside_trans: "kept_outside F w w1 \<Longrightarrow> kept_outside F w1 w2 \<Longrightarrow> kept_outside F w w2"
  by (simp add: kept_outside_def)

definition touches :: "(node_world, 'a) io \<Rightarrow> string set \<Rightarrow> bool" where
  "touches m F \<longleftrightarrow> (\<forall>w r w'. m w = (r, w') \<longrightarrow> kept_outside F w w')"

named_theorems touches_intros \<open>introduction rules for \<open>touches\<close>\<close>

lemma touchesD:
  assumes "touches m F" and "m w = (r, w')"
  shows "p \<notin> F \<Longrightarrow> nw_files w' p = nw_files w p" and "nw_denied w' = nw_denied w"
  using assms unfolding touches_def kept_outside_def by blast+

lemma touches_prim [touches_intros]:
  "touches (io_return x) F" "touches (io_throw e) F" "touches (io_lift r) F" "touches (io_get g) F" "touches (fs_readFile p) F"
  "touches (fs_exists p) F" "touches (fs_mkdir p) F" "touches (read_clock ts) F" "touches (dotenvConfig lib) F"
  by (auto simp: touches_def node_simps dotenvConfig_def kept_outside_def split: option.split)

lemma touches_write [touches_intros]:
  "p \<in> F \<Longrightarrow> touches (fs_writeFile p c) F" "p \<in> F \<Longrightarrow> touches (fs_unlink p) F"
  by (auto simp: touches_def node_simps kept_outside_def split: if_splits)

lemma touches_bind [touches_intros]:
  assumes "touches m F" and "\<And>x. touches (f x) F"
  shows "touches (io_bind m f) F"
  unfolding touches_def
proof (intro allI impI)
  fix w r w'
  assume "io_bind m f w = (r, w')"
  then show "kept_outside F w w'"
    using assms unfolding touches_def io_bind_def by (auto split: prod.splits sum.splits) (blast intro: kept_outside_trans)
qed

lemma touches_catch [touches_intros]:
  assumes "touches m F" and "\<And>e. touches (h e) F"
  shows "touches (io_catch m h) F"
  unfolding touches_def
proof (intro allI impI)
  fix w r w'
  assume "io_catch m h w = (r, w')"
  then show "kept_outside F w w'"
    using assms unfolding touches_def io_catch_def by (auto split: prod.splits sum.splits) (blast intro: kept_outside_trans)
qed

lemma touches_map [touches_intros]: "touches m F \<Longrightarrow> touches (io_map f m) F"
  unfolding io_map_def by (intro touches_intros)

lemma touches_if [touches_intros]: "(b \<Longrightarrow> touches m F) \<Longrightarrow> (\<not> b \<Longrightarrow> touches n F) \<Longrightarrow> touches (if b then m else n) F"
  by simp

lemma touches_option [touches_intros]:
  "(x = None \<Longrightarrow> touches m F) \<Longrightarrow> (\<And>y. x = Some y \<Longrightarrow> touches (f y) F) \<Longrightarrow> touches (case x of None \<Rightarrow> m | Some y \<Rightarrow> f y) F"
  by (cases x) simp_all

lemma touches_sum [touches_intros]:
  "(\<And>a. x = Inl a \<Longrightarrow> touches (f a) F) \<Longrightarrow> (\<And>b. x = Inr b \<Longrightarrow> touches (g b) F) \<Longrightarrow> touches (case x of Inl a \<Rightarrow> f a | Inr b \<Rightarrow> g b) F"
  by (cases x) simp_all

lemma touches_mono: "touches m F \<Longrightarrow> F \<subseteq> G \<Longrightarrow> touches m G"
  unfolding touches_def kept_outside_def by blast

lemma touches_copy [touches_intros]: "q \<in> F \<Longrightarrow> touches (fs_copyFile p q) F"
  unfolding fs_copyFile_def by (intro touches_intros)

end
