(* ===== verification/Env_File.thy ===== *)
theory Env_File
  imports Node_Files
begin

text \<open>
  The command line tools' access to files: \<open>cli/services/env-patch.service.ts\<close>, which edits single variables of the \<open>.env\<close> file, and
  \<open>cli/services/file-manager.service.ts\<close>. The locale \<open>variable_file\<close> is what the managers of providers and clients rely on, interpreted on
  the text operations of the patch service.
\<close>

section \<open>Editing the variables of .env (env-patch.service.ts)\<close>

definition LF :: char where "LF = CHR 0x0A"
definition CR :: char where "CR = CHR 0x0D"

text \<open>\<open>split(/\r?\n/)\<close>: a carriage return right before a line feed belongs to the separator.\<close>

fun split_lines :: "string \<Rightarrow> string list" where
  "split_lines [] = [[]]"
| "split_lines (c # s) =
     (if c = LF then [] # split_lines s
      else case s of
          d # s' \<Rightarrow> (if c = CR \<and> d = LF then [] # split_lines s'
            else (case split_lines s of [] \<Rightarrow> [[c]] | l # ls \<Rightarrow> (c # l) # ls))
        | [] \<Rightarrow> [[c]])"

definition env_lines :: "string \<Rightarrow> string list" where
  "env_lines raw = filter (\<lambda>l. l \<noteq> []) (split_lines raw)"

definition env_text :: "string list \<Rightarrow> string" where
  "env_text ls = js_join [LF] ls @ [LF]"

definition var_line :: "string \<Rightarrow> string \<Rightarrow> string" where
  "var_line key v = key @ ''='' @ v"

definition of_var :: "string \<Rightarrow> string \<Rightarrow> bool" where
  "of_var key line = starts_with (key @ ''='') line"

definition find_var :: "string \<Rightarrow> string list \<Rightarrow> string option" where
  "find_var key ls = map_option (drop (Suc (length key))) (find (of_var key) ls)"

definition set_lines :: "string \<Rightarrow> string \<Rightarrow> string list \<Rightarrow> string list" where
  "set_lines key v ls =
     map (\<lambda>l. if of_var key l then var_line key v else l) ls @ (if list_ex (of_var key) ls then [] else [var_line key v])"

definition remove_lines :: "string \<Rightarrow> string list \<Rightarrow> string list" where
  "remove_lines key ls = filter (\<lambda>l. \<not> of_var key l) ls"

definition readLines :: "(node_world, string list) io" where
  "readLines = io_catch (io_map env_lines (fs_readFile ''.env'')) (\<lambda>_. io_return [])"

definition getVar :: "string \<Rightarrow> (node_world, string option) io" where
  "getVar key = io_map (find_var key) readLines"

definition setVar :: "string \<Rightarrow> string \<Rightarrow> (node_world, unit) io" where
  "setVar key v = io_bind readLines (\<lambda>ls. fs_writeFile ''.env'' (env_text (set_lines key v ls)))"

definition removeVar :: "string \<Rightarrow> (node_world, unit) io" where
  "removeVar key = io_bind readLines (\<lambda>ls. fs_writeFile ''.env'' (env_text (remove_lines key ls)))"

definition isVarNonEmpty :: "string \<Rightarrow> (node_world, bool) io" where
  "isVarNonEmpty key = io_map (\<lambda>v. js_trim (nullish v []) \<noteq> []) (getVar key)"

definition ensureVarExists :: "string \<Rightarrow> string \<Rightarrow> (node_world, unit) io" where
  "ensureVarExists key v = io_bind (getVar key) (\<lambda>existing. if existing = None then setVar key v else io_return ())"

section \<open>Files (file-manager.service.ts)\<close>

definition base_name :: "string \<Rightarrow> string" where
  "base_name p = rev (takeWhile (\<lambda>c. c \<noteq> CHR ''/'') (rev p))"

definition backup_path :: "string \<Rightarrow> string \<Rightarrow> string" where
  "backup_path p timestamp = ''backup/'' @ base_name p @ ''.backup-'' @ timestamp"

definition ensureDir :: "string \<Rightarrow> (node_world, unit) io" where
  "ensureDir p = fs_mkdir p"

definition backupFile :: "node_lib \<Rightarrow> string \<Rightarrow> (node_world, string) io" where
  "backupFile lib p =
     io_bind (read_clock (nl_timestamp lib)) (\<lambda>timestamp.
     io_bind (ensureDir ''backup'') (\<lambda>_.
     io_bind (fs_copyFile p (backup_path p timestamp)) (\<lambda>_. io_return (backup_path p timestamp))))"

definition writeYaml :: "node_lib \<Rightarrow> string \<Rightarrow> gateway_config \<Rightarrow> (node_world, unit) io" where
  "writeYaml lib p data = fs_writeFile p (nl_dump lib data)"

definition writeEnv :: "string \<Rightarrow> (string \<times> string) list \<Rightarrow> (node_world, unit) io" where
  "writeEnv p data = fs_writeFile p (env_text (map (\<lambda>(k, v). var_line k v) data))"

definition deleteFile :: "string \<Rightarrow> (node_world, bool) io" where
  "deleteFile p = io_bind (fs_exists p) (\<lambda>there. if \<not> there then io_return False else io_bind (fs_unlink p) (\<lambda>_. io_return True))"

section \<open>Lines survive writing and reading\<close>

definition line_ok :: "string \<Rightarrow> bool" where
  "line_ok l \<longleftrightarrow> l \<noteq> [] \<and> LF \<notin> set l \<and> last l \<noteq> CR"

lemma split_lines_nonempty [simp]: "split_lines s \<noteq> []"
  by (cases s) (auto split: list.split)

lemma split_lines_char:
  assumes "c \<noteq> LF" and "c = CR \<Longrightarrow> s = [] \<or> hd s \<noteq> LF"
  shows "split_lines (c # s) = (c # hd (split_lines s)) # tl (split_lines s)"
proof (cases s)
  case (Cons d s')
  then have "split_lines (c # s) = (case split_lines s of [] \<Rightarrow> [[c]] | l # ls \<Rightarrow> (c # l) # ls)"
    using assms by (auto simp: split_lines.simps(2) [of c])
  then show ?thesis by (cases "split_lines s") simp_all
qed (use assms in simp)

lemma split_lines_sep: "split_lines (LF # s) = [] # split_lines s" "split_lines (CR # LF # s) = [] # split_lines s"
  by (simp_all add: LF_def CR_def)

lemmas split_lines_simps = split_lines.simps(1) split_lines_sep split_lines_char
declare split_lines.simps(2) [simp del]

lemma split_lines_line:
  "LF \<notin> set l \<Longrightarrow> l = [] \<or> last l \<noteq> CR \<Longrightarrow> split_lines (l @ LF # s) = l # split_lines s"
proof (induction l)
  case (Cons c l)
  then have "split_lines (l @ LF # s) = l # split_lines s" by (cases l) auto
  moreover have "split_lines (c # l @ LF # s) = (c # hd (split_lines (l @ LF # s))) # tl (split_lines (l @ LF # s))"
    using Cons.prems by (intro split_lines_char) (auto simp: hd_append split: if_splits dest: hd_in_set)
  ultimately show ?case by simp
qed (simp add: split_lines_sep)

lemma split_lines_join: "\<forall>l \<in> set ls. line_ok l \<Longrightarrow> split_lines (js_join [LF] ls @ [LF]) = (if ls = [] then [[]] else ls) @ [[]]"
  by (induction ls rule: induct_list012) (simp_all add: split_lines_line split_lines_sep line_ok_def)

lemma env_lines_text [simp]: "\<forall>l \<in> set ls. line_ok l \<Longrightarrow> env_lines (env_text ls) = ls"
  by (auto simp: env_lines_def env_text_def split_lines_join line_ok_def filter_empty_conv)

lemma split_lines_no_LF: "l \<in> set (split_lines s) \<Longrightarrow> LF \<notin> set l"
proof (induction s arbitrary: l rule: length_induct)
  case (1 s)
  show ?case
  proof (cases s)
    case (Cons c s')
    consider "c = LF" | s'' where "c = CR" "s' = LF # s''" | "c \<noteq> LF" "c = CR \<Longrightarrow> s' = [] \<or> hd s' \<noteq> LF"
      by (cases s') auto
    then show ?thesis
    proof cases
      case (2 s'')
      then have "l = [] \<or> l \<in> set (split_lines s'')" and "length s'' < length s" using 1(2) Cons by (auto simp: split_lines_sep)
      then show ?thesis using 1(1) by auto
    next
      case 3
      then have "l = c # hd (split_lines s') \<or> l \<in> set (tl (split_lines s'))" using 1(2) Cons by (auto simp: split_lines_char)
      moreover have "hd (split_lines s') \<in> set (split_lines s')" by (rule hd_in_set) simp
      ultimately show ?thesis using 1(1) Cons 3(1) by (auto dest: list.set_sel(2) [OF split_lines_nonempty])
    qed (use 1 Cons in \<open>auto simp: split_lines_sep\<close>)
  qed (use 1 in simp)
qed

lemma env_lines_nonempty: "l \<in> set (env_lines s) \<Longrightarrow> l \<noteq> [] \<and> LF \<notin> set l"
  by (auto simp: env_lines_def split_lines_no_LF)

lemma env_lines_Nil [simp]: "env_lines [] = []"
  by (simp add: env_lines_def)

section \<open>Variables\<close>

definition key_ok :: "string \<Rightarrow> bool" where
  "key_ok k \<longleftrightarrow> LF \<notin> set k \<and> CHR ''='' \<notin> set k"

definition value_ok :: "string \<Rightarrow> bool" where
  "value_ok v \<longleftrightarrow> LF \<notin> set v \<and> (v = [] \<or> last v \<noteq> CR)"

definition env_ok :: "string \<Rightarrow> bool" where
  "env_ok t \<longleftrightarrow> (\<forall>l \<in> set (env_lines t). line_ok l)"

definition env_lookup :: "string \<Rightarrow> string \<Rightarrow> string option" where
  "env_lookup t k = find_var k (env_lines t)"

definition env_put :: "string \<Rightarrow> string \<Rightarrow> string \<Rightarrow> string" where
  "env_put k v t = env_text (set_lines k v (env_lines t))"

definition env_drop :: "string \<Rightarrow> string \<Rightarrow> string" where
  "env_drop k t = env_text (remove_lines k (env_lines t))"

lemma starts_with_append [simp]: "starts_with p (p @ t)"
  by (induction p) simp_all

lemma starts_with_iff: "starts_with p s \<longleftrightarrow> (\<exists>t. s = p @ t)"
  by (induction p s rule: starts_with.induct) auto

lemma drop_var_line [simp]: "drop (Suc (length k)) (var_line k v) = v"
  by (simp add: var_line_def)

lemma of_var_line [simp]: "of_var k (var_line k v)"
  using starts_with_append [of "k @ ''=''" v] by (simp add: of_var_def var_line_def)

lemma takeWhile_until: "x \<notin> set k \<Longrightarrow> takeWhile (\<lambda>c. c \<noteq> x) (k @ x # t) = k"
  by (induction k) auto

lemma of_var_unique:
  assumes "key_ok k" "key_ok k'" "of_var k l" "of_var k' l"
  shows "k = k'"
proof -
  obtain t where "l = k @ CHR ''='' # t" using assms(3) by (auto simp: of_var_def starts_with_iff)
  moreover obtain t' where "l = k' @ CHR ''='' # t'" using assms(4) by (auto simp: of_var_def starts_with_iff)
  ultimately show ?thesis
    using assms(1,2) takeWhile_until [of "CHR ''=''" k t] takeWhile_until [of "CHR ''=''" k' t'] by (simp add: key_ok_def)
qed

lemma of_var_other [simp]: "key_ok k \<Longrightarrow> key_ok k' \<Longrightarrow> k \<noteq> k' \<Longrightarrow> \<not> of_var k' (var_line k v)"
  using of_var_unique of_var_line by blast

lemma find_var_none: "find_var k ls = None \<longleftrightarrow> \<not> list_ex (of_var k) ls"
  by (auto simp: find_var_def find_None_iff list_ex_iff)

lemma find_var_Cons [simp]: "find_var k (l # ls) = (if of_var k l then Some (drop (Suc (length k)) l) else find_var k ls)"
  by (simp add: find_var_def)

lemma find_var_Nil [simp]: "find_var k [] = None"
  by (simp add: find_var_def)

lemma find_set_same: "find_var k (set_lines k v ls) = Some v"
proof (induction ls)
  case (Cons l ls)
  then show ?case by (cases "of_var k l") (auto simp: set_lines_def)
qed (simp add: set_lines_def)

lemma find_append: "find_var k (ls @ ls') = (case find_var k ls of None \<Rightarrow> find_var k ls' | Some v \<Rightarrow> Some v)"
  by (induction ls) simp_all

lemma find_set_other:
  assumes "key_ok k" "key_ok k'" "k \<noteq> k'"
  shows "find_var k' (set_lines k v ls) = find_var k' ls"
proof -
  have "find_var k' (map (\<lambda>l. if of_var k l then var_line k v else l) ls) = find_var k' ls"
  proof (induction ls)
    case (Cons l ls)
    then show ?case using assms of_var_unique [OF assms(1,2), of l] by auto
  qed simp
  with assms show ?thesis by (simp add: set_lines_def find_append split: option.split)
qed

lemma find_remove:
  assumes "key_ok k" "key_ok k'"
  shows "find_var k' (remove_lines k ls) = (if k' = k then None else find_var k' ls)"
  using of_var_unique [OF assms] by (induction ls) (auto simp: remove_lines_def)

lemma line_ok_var: "key_ok k \<Longrightarrow> value_ok v \<Longrightarrow> line_ok (var_line k v)"
  by (auto simp: line_ok_def var_line_def key_ok_def value_ok_def LF_def CR_def)

lemma set_lines_ok: "\<forall>l \<in> set ls. line_ok l \<Longrightarrow> key_ok k \<Longrightarrow> value_ok v \<Longrightarrow> \<forall>l \<in> set (set_lines k v ls). line_ok l"
  by (auto simp: set_lines_def line_ok_var)

text \<open>A file of variables: what a lookup sees after a change, for well-formed names and values. A change that is taken back leaves every other
  variable alone, and the changed one too if it was not set before.\<close>

locale variable_file =
  fixes lookup :: "'s \<Rightarrow> string \<Rightarrow> string option"
    and put :: "string \<Rightarrow> string \<Rightarrow> 's \<Rightarrow> 's"
    and drop_var :: "string \<Rightarrow> 's \<Rightarrow> 's"
    and valid :: "'s \<Rightarrow> bool"
    and name_ok :: "string \<Rightarrow> bool"
    and val_ok :: "string \<Rightarrow> bool"
  assumes lookup_put: "valid s \<Longrightarrow> name_ok k \<Longrightarrow> val_ok v \<Longrightarrow> name_ok k' \<Longrightarrow> lookup (put k v s) k' = (if k' = k then Some v else lookup s k')"
    and lookup_drop: "valid s \<Longrightarrow> name_ok k \<Longrightarrow> name_ok k' \<Longrightarrow> lookup (drop_var k s) k' = (if k' = k then None else lookup s k')"
    and valid_put: "valid s \<Longrightarrow> name_ok k \<Longrightarrow> val_ok v \<Longrightarrow> valid (put k v s)"
    and valid_drop: "valid s \<Longrightarrow> name_ok k \<Longrightarrow> valid (drop_var k s)"
begin

lemma lookup_drop_put:
  "valid s \<Longrightarrow> name_ok k \<Longrightarrow> val_ok v \<Longrightarrow> name_ok k' \<Longrightarrow> lookup (drop_var k (put k v s)) k' = (if k' = k then None else lookup s k')"
  by (simp add: lookup_put lookup_drop valid_put)

lemma undone:
  "valid s \<Longrightarrow> name_ok k \<Longrightarrow> val_ok v \<Longrightarrow> name_ok k' \<Longrightarrow> lookup s k = None \<Longrightarrow> lookup (drop_var k (put k v s)) k' = lookup s k'"
  by (simp add: lookup_drop_put)

definition put_optional :: "string option \<Rightarrow> string \<Rightarrow> 's \<Rightarrow> 's" where
  "put_optional ref v s = (case ref of None \<Rightarrow> s | Some k \<Rightarrow> put k v s)"

definition drop_optional :: "string option \<Rightarrow> 's \<Rightarrow> 's" where
  "drop_optional ref s = (case ref of None \<Rightarrow> s | Some k \<Rightarrow> drop_var k s)"

lemma undone_two:
  assumes "valid s" "name_ok k" "val_ok v" "val_ok v2" "name_ok k'" "\<And>k2. ref = Some k2 \<Longrightarrow> name_ok k2"
  shows "lookup (drop_optional ref (drop_var k (put_optional ref v2 (put k v s)))) k' = (if k' = k \<or> Some k' = ref then None else lookup s k')"
  using assms by (cases ref) (auto simp: put_optional_def drop_optional_def lookup_put lookup_drop valid_put valid_drop)

end

interpretation env_file: variable_file env_lookup env_put env_drop env_ok key_ok value_ok
proof
  show "env_lookup (env_put k v s) k' = (if k' = k then Some v else env_lookup s k')"
    if "env_ok s" "key_ok k" "value_ok v" "key_ok k'" for s k v k'
    using that set_lines_ok [of "env_lines s" k v] by (auto simp: env_lookup_def env_put_def env_ok_def find_set_same find_set_other)
  show "env_lookup (env_drop k s) k' = (if k' = k then None else env_lookup s k')" if "env_ok s" "key_ok k" "key_ok k'" for s k k'
  proof -
    have "\<forall>l \<in> set (remove_lines k (env_lines s)). line_ok l" using that(1) by (auto simp: env_ok_def remove_lines_def)
    then show ?thesis using that by (simp add: env_lookup_def env_drop_def find_remove)
  qed
  show "env_ok (env_put k v s)" if "env_ok s" "key_ok k" "value_ok v" for s k v
    using that set_lines_ok [of "env_lines s" k v] by (simp add: env_ok_def env_put_def)
  show "env_ok (env_drop k s)" if "env_ok s" "key_ok k" for s k
  proof -
    have "\<forall>l \<in> set (remove_lines k (env_lines s)). line_ok l" using that(1) by (auto simp: env_ok_def remove_lines_def)
    then show ?thesis by (simp add: env_ok_def env_drop_def)
  qed
qed

end
