(* ===== verification/App_Configuration.thy ===== *)
theory App_Configuration
  imports Provider_Bootstrap Env_File
begin

text \<open>
  What the process starts from: the value rules of the YAML schema (\<open>config/gateway-config.schema.ts\<close>), the validated environment
  (\<open>config/env.validation.ts\<close>), the system prompts, \<open>buildAppConfiguration\<close> of \<open>config/configuration.ts\<close>, and the validator the command
  line runs before a start (\<open>config/config-validator.ts\<close>). The property says that the validator predicts the start.

  Numbers of the configuration that the schema restricts to integers are natural numbers already; the texts of the messages of zod and
  class-validator are replaced by the names of the fields they complain about.
\<close>

section \<open>Value rules of the schema (gateway-config.schema.ts)\<close>

definition GATEWAY_CLIENT_TYPES :: "string list" where
  "GATEWAY_CLIENT_TYPES = [''webapp'', ''ide'', ''cli'', ''service'', ''backend'', ''automation'']"

definition bad :: "bool \<Rightarrow> string \<Rightarrow> string list" where
  "bad b path = (if b then [path] else [])"

definition outside :: "rat option \<Rightarrow> rat \<Rightarrow> rat \<Rightarrow> bool" where
  "outside v lo hi = (case v of None \<Rightarrow> False | Some x \<Rightarrow> x < lo \<or> hi < x)"

definition not_integer :: "rat option \<Rightarrow> bool" where
  "not_integer v = (case v of None \<Rightarrow> False | Some x \<Rightarrow> of_int \<lfloor>x\<rfloor> \<noteq> x)"

definition below :: "'a :: linorder option \<Rightarrow> 'a \<Rightarrow> bool" where
  "below v lo = (case v of None \<Rightarrow> False | Some x \<Rightarrow> x < lo)"

definition defaults_issues :: "param_defaults \<Rightarrow> string list" where
  "defaults_issues d =
     bad (outside (def_temperature d) 0 2) ''temperature'' @
     bad (not_integer (def_maxOutputTokens d) \<or> below (def_maxOutputTokens d) 1) ''maxOutputTokens'' @
     bad (outside (def_topP d) 0 1) ''topP'' @
     bad (outside (def_frequencyPenalty d) (- 2) 2) ''frequencyPenalty'' @
     bad (outside (def_presencePenalty d) (- 2) 2) ''presencePenalty'' @
     bad (not_integer (def_seed d)) ''seed''"

definition bounds_issues :: "param_bounds \<Rightarrow> string list" where
  "bounds_issues b =
     (case bnd_temperature b of None \<Rightarrow> [] | Some (lo, hi) \<Rightarrow> bad (lo < 0 \<or> 2 < hi) ''bounds.temperature'') @
     (case bnd_maxOutputTokens b of None \<Rightarrow> [] | Some (lo, hi) \<Rightarrow> bad (lo < 1 \<or> 8192 < hi) ''bounds.maxOutputTokens'')"

definition policy_issues :: "policy_config \<Rightarrow> string list" where
  "policy_issues p =
     bad (below (pol_timeoutMs p) 1) ''timeoutMs'' @
     (case pol_retry p of None \<Rightarrow> [] | Some r \<Rightarrow>
        bad (case rc_maxAttempts r of None \<Rightarrow> False | Some n \<Rightarrow> n < 1 \<or> 5 < n) ''maxAttempts'' @
        bad (case rc_onStatus r of None \<Rightarrow> False | Some ss \<Rightarrow> list_ex (\<lambda>st. st < 1) ss) ''onStatus'') @
     (case pol_params p of None \<Rightarrow> [] | Some ps \<Rightarrow> defaults_issues (defaults ps) @ bounds_issues (bounds ps))"

definition model_value_issues :: "string \<times> model_config \<Rightarrow> string list" where
  "model_value_issues = (\<lambda>(a, m).
     bad (\<not> isRedisSearchTagSafeId a) (''models.'' @ a) @ bad (mc_fallback m = Some []) ''fallback'' @
     (case mc_policy m of None \<Rightarrow> [] | Some p \<Rightarrow> policy_issues p))"

definition client_value_issues :: "string \<times> client_config \<Rightarrow> string list" where
  "client_value_issues = (\<lambda>(c, row).
     bad (\<not> isRedisSearchTagSafeId c) (''clients.'' @ c) @ bad (cc_name row = []) ''name'' @
     bad (cc_type row \<notin> set GATEWAY_CLIENT_TYPES) ''type'' @ bad (cc_gatewayKeyRef row = []) ''gatewayKeyRef'' @
     (case cc_rateLimit row of None \<Rightarrow> [] | Some r \<Rightarrow>
        bad (rl_rps r < 1) ''rps'' @ bad (rl_burst r < 1) ''burst'' @ bad (rl_maxConcurrentStreams r < 1) ''maxConcurrentStreams''))"

definition provider_value_issues :: "string \<times> provider_instance_config \<Rightarrow> string list" where
  "provider_value_issues = (\<lambda>(i, row). bad (pic_apiKeyRef row = []) ''apiKeyRef'' @ bad (pic_baseUrlRef row = Some []) ''baseUrlRef'')"

definition value_issues :: "gateway_config \<Rightarrow> string list" where
  "value_issues cfg =
     bad (schemaVersion cfg < 1) ''schemaVersion'' @ bad (masterKeyRef cfg = []) ''masterKeyRef'' @
     concat (map provider_value_issues (gw_providers cfg)) @ concat (map client_value_issues (gw_clients cfg)) @
     concat (map model_value_issues (gw_models cfg))"

definition config_issues :: "gateway_config \<Rightarrow> string list" where
  "config_issues cfg = value_issues cfg @ schema_issues cfg"

section \<open>The validated environment (env.validation.ts)\<close>

text \<open>\<open>parseInt(s, 10)\<close>; \<open>None\<close> is \<open>NaN\<close>. \<open>Number(s)\<close> is \<open>js_number\<close>, for decimal notation.\<close>

definition js_parse_int :: "string \<Rightarrow> int option" where
  "js_parse_int s0 =
     (let s = dropWhile js_whitespace s0;
          neg = (case s of c # _ \<Rightarrow> c = CHR ''-'' | [] \<Rightarrow> False);
          s1 = (case s of c # r \<Rightarrow> if c = CHR ''-'' \<or> c = CHR ''+'' then r else s | [] \<Rightarrow> []);
          ds = takeWhile is_digit s1
      in if ds = [] then None else Some (if neg then - int (nat_val 0 ds) else int (nat_val 0 ds)))"

type_synonym env_vars = "string \<Rightarrow> string option"

definition toBoolean :: "env_vars \<Rightarrow> string \<Rightarrow> bool" where
  "toBoolean env k = (env k = Some ''true'')"

definition toInt :: "env_vars \<Rightarrow> string \<Rightarrow> int \<Rightarrow> int option" where
  "toInt env k d = (case env k of None \<Rightarrow> Some d | Some s \<Rightarrow> js_parse_int s)"

definition toNumber :: "env_vars \<Rightarrow> string \<Rightarrow> rat \<Rightarrow> rat option" where
  "toNumber env k d = (case env k of None \<Rightarrow> Some d | Some s \<Rightarrow> js_number (RespStr s))"

text \<open>The class \<open>EnvironmentVariables\<close> after \<open>plainToInstance\<close>: a variable that is not set keeps the default of its field. Plain text fields that
  the rest of the configuration does not read have no field here: they cannot fail.\<close>

record environment_variables =
  CACHE_ENABLED :: bool
  CACHE_BACKEND :: string
  CACHE_TTL :: "int option"
  CACHE_KEY_PREFIX :: string
  REDIS_HOST :: string
  REDIS_PORT :: "int option"
  REDIS_PASSWORD :: string
  REDIS_DB :: "int option"
  REDIS_KEY_PREFIX :: string
  RATE_LIMIT_SMART_ENABLED :: bool
  RATE_LIMIT_RPS_PER_KEY :: "int option"
  RATE_LIMIT_BURST_PER_KEY :: "int option"
  RATE_LIMIT_STREAMS_CONCURRENT :: "int option"
  RATE_LIMIT_COOLDOWN_AFTER_429 :: "int option"
  SENTRY_TRACES_SAMPLE_RATE :: "rat option"
  METRICS_BACKEND :: string
  AI_METRICS_BACKEND :: string
  SEMANTIC_CACHE_ENABLED :: bool
  EMBEDDING_BASE_URL :: string
  EMBEDDING_MODEL :: string
  EMBEDDING_DIM :: "int option"
  EMBEDDING_TIMEOUT_MS :: "int option"
  SEMANTIC_CACHE_MIN_SIMILARITY :: "rat option"
  SEMANTIC_CACHE_TTL :: "int option"
  SEMANTIC_CACHE_K :: "int option"

definition EnvironmentVariables :: "env_vars \<Rightarrow> environment_variables" where
  "EnvironmentVariables env =
     \<lparr>CACHE_ENABLED = toBoolean env ''CACHE_ENABLED'', CACHE_BACKEND = nullish (env ''CACHE_BACKEND'') ''noop'',
      CACHE_TTL = toInt env ''CACHE_TTL'' 3600, CACHE_KEY_PREFIX = nullish (env ''CACHE_KEY_PREFIX'') ''aigw:'',
      REDIS_HOST = nullish (env ''REDIS_HOST'') ''localhost'', REDIS_PORT = toInt env ''REDIS_PORT'' 6379,
      REDIS_PASSWORD = nullish (env ''REDIS_PASSWORD'') [], REDIS_DB = toInt env ''REDIS_DB'' 0,
      REDIS_KEY_PREFIX = nullish (env ''REDIS_KEY_PREFIX'') ''aigw:'',
      RATE_LIMIT_SMART_ENABLED = toBoolean env ''RATE_LIMIT_SMART_ENABLED'', RATE_LIMIT_RPS_PER_KEY = toInt env ''RATE_LIMIT_RPS_PER_KEY'' 10,
      RATE_LIMIT_BURST_PER_KEY = toInt env ''RATE_LIMIT_BURST_PER_KEY'' 20,
      RATE_LIMIT_STREAMS_CONCURRENT = toInt env ''RATE_LIMIT_STREAMS_CONCURRENT'' 3,
      RATE_LIMIT_COOLDOWN_AFTER_429 = toInt env ''RATE_LIMIT_COOLDOWN_AFTER_429'' 60,
      SENTRY_TRACES_SAMPLE_RATE = toNumber env ''SENTRY_TRACES_SAMPLE_RATE'' (1 / 10),
      METRICS_BACKEND = nullish (env ''METRICS_BACKEND'') ''noop'', AI_METRICS_BACKEND = nullish (env ''AI_METRICS_BACKEND'') ''noop'',
      SEMANTIC_CACHE_ENABLED = toBoolean env ''SEMANTIC_CACHE_ENABLED'',
      EMBEDDING_BASE_URL = nullish (env ''EMBEDDING_BASE_URL'') ''http://localhost:11435'',
      EMBEDDING_MODEL = nullish (env ''EMBEDDING_MODEL'') ''qwen3-embedding:0.6b'', EMBEDDING_DIM = toInt env ''EMBEDDING_DIM'' 1024,
      EMBEDDING_TIMEOUT_MS = toInt env ''EMBEDDING_TIMEOUT_MS'' 5000,
      SEMANTIC_CACHE_MIN_SIMILARITY = toNumber env ''SEMANTIC_CACHE_MIN_SIMILARITY'' (85 / 100),
      SEMANTIC_CACHE_TTL = toInt env ''SEMANTIC_CACHE_TTL'' 3600, SEMANTIC_CACHE_K = toInt env ''SEMANTIC_CACHE_K'' 3\<rparr>"

definition isRedisInfrastructureRequired :: "environment_variables \<Rightarrow> bool" where
  "isRedisInfrastructureRequired e \<longleftrightarrow>
     CACHE_ENABLED e \<and> js_lower (CACHE_BACKEND e) = ''redis'' \<or> RATE_LIMIT_SMART_ENABLED e \<or> SEMANTIC_CACHE_ENABLED e"

text \<open>\<open>@IsInt() @Min(n)\<close>: \<open>NaN\<close> is not an integer.\<close>

definition int_min :: "int option \<Rightarrow> int \<Rightarrow> bool" where
  "int_min v n = (case v of None \<Rightarrow> False | Some i \<Rightarrow> n \<le> i)"

definition env_errors :: "environment_variables \<Rightarrow> string list" where
  "env_errors e =
     bad (CACHE_BACKEND e \<notin> {''noop'', ''redis''}) ''CACHE_BACKEND'' @
     bad (\<not> int_min (CACHE_TTL e) 1) ''CACHE_TTL'' @
     bad (isRedisInfrastructureRequired e \<and> \<not> int_min (REDIS_PORT e) 1) ''REDIS_PORT'' @
     bad (isRedisInfrastructureRequired e \<and> \<not> int_min (REDIS_DB e) 0) ''REDIS_DB'' @
     bad (\<not> int_min (RATE_LIMIT_RPS_PER_KEY e) 1) ''RATE_LIMIT_RPS_PER_KEY'' @
     bad (\<not> int_min (RATE_LIMIT_BURST_PER_KEY e) 1) ''RATE_LIMIT_BURST_PER_KEY'' @
     bad (RATE_LIMIT_STREAMS_CONCURRENT e = None) ''RATE_LIMIT_STREAMS_CONCURRENT'' @
     bad (\<not> int_min (RATE_LIMIT_COOLDOWN_AFTER_429 e) 0) ''RATE_LIMIT_COOLDOWN_AFTER_429'' @
     bad (SENTRY_TRACES_SAMPLE_RATE e = None) ''SENTRY_TRACES_SAMPLE_RATE'' @
     bad (METRICS_BACKEND e \<notin> {''prometheus'', ''noop''}) ''METRICS_BACKEND'' @
     bad (AI_METRICS_BACKEND e \<notin> {''sentry'', ''noop''}) ''AI_METRICS_BACKEND'' @
     bad (\<not> int_min (EMBEDDING_DIM e) 1) ''EMBEDDING_DIM'' @
     bad (\<not> int_min (EMBEDDING_TIMEOUT_MS e) 1) ''EMBEDDING_TIMEOUT_MS'' @
     bad (case SEMANTIC_CACHE_MIN_SIMILARITY e of None \<Rightarrow> True | Some q \<Rightarrow> q < 0 \<or> 1 < q) ''SEMANTIC_CACHE_MIN_SIMILARITY'' @
     bad (\<not> int_min (SEMANTIC_CACHE_TTL e) 1) ''SEMANTIC_CACHE_TTL'' @
     bad (\<not> int_min (SEMANTIC_CACHE_K e) 1) ''SEMANTIC_CACHE_K''"

definition validateEnvironment :: "env_vars \<Rightarrow> environment_variables result" where
  "validateEnvironment env =
     (let e = EnvironmentVariables env in
      if env_errors e \<noteq> [] then Inl (plain_error (''Config validation error: '' @ js_join '','' (env_errors e))) else Inr e)"

definition parseCacheBackend :: "string option \<Rightarrow> bool \<Rightarrow> string" where
  "parseCacheBackend raw enabled =
     (if \<not> enabled then ''noop''
      else let normalized = js_lower (nullish raw ''noop'') in if normalized \<in> {''noop'', ''redis''} then normalized else ''noop'')"

section \<open>Who needs Redis (cache/should-include-redis-stack.ts)\<close>

datatype redis_consumer = ConsumerCache | ConsumerRateLimit | ConsumerSemanticCache

record redis_requirement =
  rq_cacheEnabled :: bool
  rq_cacheBackend :: "string option"
  rq_rateLimitSmartEnabled :: bool
  rq_semanticCacheEnabled :: bool

definition getRedisConsumers :: "redis_requirement \<Rightarrow> redis_consumer list" where
  "getRedisConsumers input =
     (let backend = (if rq_cacheEnabled input then parseCacheBackend (Some (js_lower (nullish (rq_cacheBackend input) ''noop''))) True else ''noop'') in
      (if rq_cacheEnabled input \<and> backend = ''redis'' then [ConsumerCache] else []) @
      (if rq_rateLimitSmartEnabled input then [ConsumerRateLimit] else []) @
      (if rq_semanticCacheEnabled input then [ConsumerSemanticCache] else []))"

definition isRedisRequired :: "redis_requirement \<Rightarrow> bool" where
  "isRedisRequired input \<longleftrightarrow> getRedisConsumers input \<noteq> []"

definition isRedisRequiredFromEnv :: "env_vars \<Rightarrow> bool" where
  "isRedisRequiredFromEnv env =
     (let cacheEnabled = (env ''CACHE_ENABLED'' = Some ''true'') in
      isRedisRequired \<lparr>rq_cacheEnabled = cacheEnabled, rq_cacheBackend = Some (parseCacheBackend (env ''CACHE_BACKEND'') cacheEnabled),
        rq_rateLimitSmartEnabled = (env ''RATE_LIMIT_SMART_ENABLED'' = Some ''true''),
        rq_semanticCacheEnabled = (env ''SEMANTIC_CACHE_ENABLED'' = Some ''true'')\<rparr>)"

section \<open>System prompts (configuration.helpers.ts)\<close>

definition MASTER_PROMPT :: string where
  "MASTER_PROMPT = ''src/config/system-prompt/MASTER_SYSTEM_PROMPT.md''"

definition MAIN_PROMPT :: string where
  "MAIN_PROMPT = ''src/config/system-prompt/MAIN_SYSTEM_PROMPT.md''"

definition model_prompt_path :: "string \<Rightarrow> string" where
  "model_prompt_path alias' = ''src/config/system-prompt/models/'' @ alias' @ ''.md''"

definition readRequiredPrompt :: "string \<Rightarrow> string \<Rightarrow> (node_world, string) io" where
  "readRequiredPrompt label path =
     io_bind (io_catch (fs_readFile path) (\<lambda>e.
         if is_enoent e then io_throw (plain_error (''[SystemPrompts] '' @ label @ '' missing: '' @ path)) else io_throw e)) (\<lambda>raw.
       if js_trim raw = [] then io_throw (plain_error (''[SystemPrompts] '' @ label @ '' empty after trim: '' @ path)) else io_return (js_trim raw))"

text \<open>\<open>raw.replace(/<!--[\s\S]*?-->/g, '').trim()\<close>: \<open>after_close\<close> is what follows the first \<open>-->\<close>.\<close>

fun after_close :: "string \<Rightarrow> string option" where
  "after_close [] = None"
| "after_close (c # s) = (if starts_with ''-->'' (c # s) then Some (drop 2 s) else after_close s)"

lemma after_close_length: "after_close s = Some r \<Longrightarrow> length r \<le> length s"
  by (induction s) (auto split: if_splits)

function remove_comments :: "string \<Rightarrow> string" where
  "remove_comments [] = []"
| "remove_comments (c # s) =
     (case (if starts_with ''<!--'' (c # s) then after_close (drop 3 s) else None) of
        Some r \<Rightarrow> remove_comments r | None \<Rightarrow> c # remove_comments s)"
  by pat_completeness auto

termination remove_comments
  by (relation "measure length") (auto split: if_splits dest: after_close_length)

definition stripHtmlComments :: "string \<Rightarrow> string" where
  "stripHtmlComments raw = js_trim (remove_comments raw)"

definition tryReadOptionalPrompts :: "string \<Rightarrow> (node_world, string option) io" where
  "tryReadOptionalPrompts path =
     io_catch (io_map (\<lambda>raw. truthy_str (Some (stripHtmlComments raw))) (fs_readFile path)) (\<lambda>e. if is_enoent e then io_return None else io_throw e)"

fun readModelPrompts :: "string list \<Rightarrow> (node_world, (string \<times> string) list) io" where
  "readModelPrompts [] = io_return []"
| "readModelPrompts (a # as) =
     io_bind (tryReadOptionalPrompts (model_prompt_path a)) (\<lambda>content.
     io_bind (readModelPrompts as) (\<lambda>rest. io_return (case content of Some c \<Rightarrow> (a, c) # rest | None \<Rightarrow> rest)))"

section \<open>The configuration of the process (configuration.ts)\<close>

text \<open>\<open>memo\<close> is the module's \<open>gatewayConfigCache\<close>.\<close>

definition loadGatewayConfigFromFile :: "node_lib \<Rightarrow> gateway_config option \<Rightarrow> (node_world, gateway_config) io" where
  "loadGatewayConfigFromFile lib memo =
     (case memo of
        Some c \<Rightarrow> io_return c
      | None \<Rightarrow>
          io_catch
            (io_bind (fs_readFile ''gateway.config.yaml'') (\<lambda>content.
               case nl_decode lib content of
                 YamlSyntax m \<Rightarrow> io_throw (plain_error m)
               | WrongTypes issues \<Rightarrow> io_throw (plain_error ''Invalid configuration file'')
               | Typed raw \<Rightarrow>
                   if config_issues raw \<noteq> [] then io_throw (plain_error ''Invalid configuration file'')
                   else io_bind (io_get nw_env) (\<lambda>env. io_lift (buildEffectiveGatewayConfig (nl_urlProtocol lib) env False raw))))
            (\<lambda>e. if is_enoent e then io_throw (plain_error ''Configuration file not found.'') else io_throw e))"

record redis_runtime =
  rr_host :: string
  rr_port :: int
  rr_password :: string
  rr_db :: int
  rr_keyPrefix :: string

record app_configuration =
  ac_gateway :: gateway_config
  ac_gatewayKey :: gateway_key_runtime
  ac_port :: "int option"
  ac_nodeEnv :: string
  ac_providers :: "(string \<times> provider_instance_runtime) list"
  ac_resolvedSystemPrompts :: resolved_system_prompts
  ac_cacheEnabled :: bool
  ac_cacheBackend :: string
  ac_cacheTtl :: int
  ac_cacheKeyPrefix :: string
  ac_redis :: redis_runtime
  ac_semanticCache :: semantic_config
  ac_embeddingBaseUrl :: string
  ac_RATE_LIMIT_SMART_ENABLED :: bool
  ac_rateLimit :: rate_limit_row
  ac_cooldownAfter429 :: int

definition redis_runtime_of :: "environment_variables \<Rightarrow> redis_runtime" where
  "redis_runtime_of env =
     (if isRedisRequired \<lparr>rq_cacheEnabled = CACHE_ENABLED env, rq_cacheBackend = Some (parseCacheBackend (Some (CACHE_BACKEND env)) (CACHE_ENABLED env)),
          rq_rateLimitSmartEnabled = RATE_LIMIT_SMART_ENABLED env, rq_semanticCacheEnabled = SEMANTIC_CACHE_ENABLED env\<rparr>
      then \<lparr>rr_host = REDIS_HOST env, rr_port = nullish (REDIS_PORT env) 6379, rr_password = REDIS_PASSWORD env, rr_db = nullish (REDIS_DB env) 0,
            rr_keyPrefix = REDIS_KEY_PREFIX env\<rparr>
      else \<lparr>rr_host = ''localhost'', rr_port = 6379, rr_password = [], rr_db = 0, rr_keyPrefix = ''aigw:''\<rparr>)"

definition semantic_config_of :: "environment_variables \<Rightarrow> semantic_config" where
  "semantic_config_of env =
     \<lparr>sc_enabled = SEMANTIC_CACHE_ENABLED env, sc_embeddingModel = EMBEDDING_MODEL env, sc_embeddingDim = nat (nullish (EMBEDDING_DIM env) 1024),
      sc_embeddingTimeoutMs = nullish (EMBEDDING_TIMEOUT_MS env) 5000, sc_minSimilarity = nullish (SEMANTIC_CACHE_MIN_SIMILARITY env) (85 / 100),
      sc_ttl = nat (nullish (CACHE_TTL env) 3600), sc_k = nat (nullish (SEMANTIC_CACHE_K env) 3)\<rparr>"

definition buildAppConfiguration :: "node_lib \<Rightarrow> gateway_config option \<Rightarrow> env_vars \<Rightarrow> (node_world, app_configuration) io" where
  "buildAppConfiguration lib memo rawEnv =
     io_bind (io_lift (validateEnvironment rawEnv)) (\<lambda>env.
     io_bind (loadGatewayConfigFromFile lib memo) (\<lambda>gatewayConfig.
     io_bind (io_lift (buildGatewayKeyRuntime rawEnv gatewayConfig)) (\<lambda>gatewayKey.
     io_bind (readRequiredPrompt ''MASTER_SYSTEM_PROMPT'' MASTER_PROMPT) (\<lambda>master.
     io_bind (tryReadOptionalPrompts MAIN_PROMPT) (\<lambda>main.
     io_bind (readModelPrompts (map fst (gw_models gatewayConfig))) (\<lambda>perModelByAlias.
       io_return
         \<lparr>ac_gateway = gatewayConfig, ac_gatewayKey = gatewayKey,
          ac_port = js_parse_int (nullish (truthy_str (rawEnv ''PORT'')) ''3000''),
          ac_nodeEnv = nullish (truthy_str (rawEnv ''NODE_ENV'')) ''development'',
          ac_providers = providersByInstance (nl_urlProtocol lib) rawEnv gatewayConfig,
          ac_resolvedSystemPrompts = \<lparr>rsp_master = master, rsp_main = main, rsp_perModelByAlias = perModelByAlias\<rparr>,
          ac_cacheEnabled = CACHE_ENABLED env, ac_cacheBackend = parseCacheBackend (Some (CACHE_BACKEND env)) (CACHE_ENABLED env),
          ac_cacheTtl = nullish (CACHE_TTL env) 3600, ac_cacheKeyPrefix = CACHE_KEY_PREFIX env,
          ac_redis = redis_runtime_of env, ac_semanticCache = semantic_config_of env, ac_embeddingBaseUrl = EMBEDDING_BASE_URL env,
          ac_RATE_LIMIT_SMART_ENABLED = RATE_LIMIT_SMART_ENABLED env,
          ac_rateLimit = \<lparr>rl_rps = nat (nullish (RATE_LIMIT_RPS_PER_KEY env) 10), rl_burst = nat (nullish (RATE_LIMIT_BURST_PER_KEY env) 20),
            rl_maxConcurrentStreams = nat (nullish (RATE_LIMIT_STREAMS_CONCURRENT env) 3)\<rparr>,
          ac_cooldownAfter429 = nullish (RATE_LIMIT_COOLDOWN_AFTER_429 env) 60\<rparr>))))))"

text \<open>\<open>isRedisRequiredFromConfig\<close> reads the configuration service; the natural number of the stream limit is exact for limits the validation lets through
  that are not negative.\<close>

definition isRedisRequiredFromConfig :: "app_configuration \<Rightarrow> bool" where
  "isRedisRequiredFromConfig ac =
     isRedisRequired \<lparr>rq_cacheEnabled = ac_cacheEnabled ac, rq_cacheBackend = Some (ac_cacheBackend ac),
       rq_rateLimitSmartEnabled = ac_RATE_LIMIT_SMART_ENABLED ac, rq_semanticCacheEnabled = sc_enabled (ac_semanticCache ac)\<rparr>"

section \<open>The validator (config-validator.ts, cli-gateway-validator.service.ts)\<close>

record validation_result =
  vr_success :: bool
  vr_effectiveConfig :: "gateway_config option"
  vr_errors :: "string list"
  vr_warnings :: "string list"

definition failed_validation :: "string list \<Rightarrow> string list \<Rightarrow> validation_result" where
  "failed_validation errors warnings = \<lparr>vr_success = False, vr_effectiveConfig = None, vr_errors = map (\<lambda>m. ''ERROR: '' @ m) errors, vr_warnings = warnings\<rparr>"

definition EXPECTED_SCHEMA_VERSION :: nat where
  "EXPECTED_SCHEMA_VERSION = 1"

definition collectInactiveProviderWarnings :: "gateway_config \<Rightarrow> string list" where
  "collectInactiveProviderWarnings raw =
     map (\<lambda>(i, row). ''WARN: Provider instance \"'' @ i @ ''\" is defined but disabled (enabled:false)'')
       (filter (\<lambda>(i, row). \<not> pic_enabled row) (gw_providers raw))"

definition client_key_warnings :: "env_vars \<Rightarrow> gateway_config \<Rightarrow> string list" where
  "client_key_warnings env raw =
     map (\<lambda>(i, row). ''WARN: Client \"'' @ i @ ''\" has no gateway key (expected non-empty env '' @ cc_gatewayKeyRef row @ '')'')
       (filter (\<lambda>(i, row). env_value env (cc_gatewayKeyRef row) = []) (gw_clients raw))"

definition semantic_warnings :: "env_vars \<Rightarrow> string list" where
  "semantic_warnings env =
     (case env ''SEMANTIC_CACHE_MIN_SIMILARITY'' of
        None \<Rightarrow> []
      | Some s \<Rightarrow> (case js_number (RespStr s) of
            Some q \<Rightarrow> if js_trim s \<noteq> [] \<and> q < 85 / 100 then [''WARN: SEMANTIC_CACHE_MIN_SIMILARITY='' @ show_rat q @
              '' is below 0.85''] else []
          | None \<Rightarrow> [])) @
     (case env ''SEMANTIC_CACHE_TTL'' of
        None \<Rightarrow> []
      | Some s \<Rightarrow> if js_trim s \<noteq> [] then [''WARN: SEMANTIC_CACHE_TTL is deprecated and ignored''] else [])"

definition validate_parsed :: "node_lib \<Rightarrow> bool \<Rightarrow> env_vars \<Rightarrow> gateway_config \<Rightarrow> validation_result" where
  "validate_parsed lib allowMissingProviderSecrets env parsed =
     (let warnings = (if schemaVersion parsed < EXPECTED_SCHEMA_VERSION
        then [''WARN: [schemaVersion]: '' @ show_nat (schemaVersion parsed) @ '' is older than expected.''] else []) in
      case assertMasterKeyPresent env parsed of
        Inl e \<Rightarrow> failed_validation [error_message e] warnings
      | Inr _ \<Rightarrow>
          (case buildEffectiveGatewayConfig (nl_urlProtocol lib) env allowMissingProviderSecrets parsed of
             Inl e \<Rightarrow> failed_validation [error_message e] warnings
           | Inr effective \<Rightarrow>
               \<lparr>vr_success = True, vr_effectiveConfig = Some effective, vr_errors = [],
                vr_warnings = warnings @ client_key_warnings env parsed @ collectInactiveProviderWarnings parsed @ semantic_warnings env\<rparr>))"

definition validateGatewayConfig :: "node_lib \<Rightarrow> bool \<Rightarrow> env_vars \<Rightarrow> (node_world, validation_result) io" where
  "validateGatewayConfig lib allowMissingProviderSecrets env =
     io_catch
       (io_bind (fs_readFile ''gateway.config.yaml'') (\<lambda>content.
          io_return (case nl_decode lib content of
              YamlSyntax m \<Rightarrow> failed_validation [''Failed to read or parse YAML: '' @ m] []
            | WrongTypes issues \<Rightarrow> failed_validation issues []
            | Typed parsed \<Rightarrow>
                if config_issues parsed \<noteq> [] then failed_validation (config_issues parsed) []
                else validate_parsed lib allowMissingProviderSecrets env parsed)))
       (\<lambda>e. io_return (failed_validation [if is_enoent e then ''Configuration file not found: gateway.config.yaml''
          else ''Failed to read or parse YAML: '' @ error_message e] []))"

text \<open>The explanations after the facts of the two warnings on the semantic cache are left out.

  \<open>CliGatewayValidatorService.validate\<close> with the default paths and \<open>validateEnvFormat\<close> as every command calls it.\<close>

definition gateway_validate :: "node_lib \<Rightarrow> bool \<Rightarrow> (node_world, validation_result) io" where
  "gateway_validate lib allowMissingProviderSecrets =
     io_bind (dotenvConfig lib) (\<lambda>_.
     io_bind (io_get nw_env) (\<lambda>env.
     io_bind (validateGatewayConfig lib allowMissingProviderSecrets env) (\<lambda>result.
       if \<not> vr_success result then io_return result
       else case validateEnvironment env of
           Inr _ \<Rightarrow> io_return result
         | Inl e \<Rightarrow> io_return (result\<lparr>vr_success := False, vr_errors := vr_errors result @ [''ERROR: '' @ error_message e]\<rparr>))))"

section \<open>The validator predicts the start\<close>

definition usable_config :: "node_lib \<Rightarrow> node_world \<Rightarrow> gateway_config \<Rightarrow> bool" where
  "usable_config lib w cfg \<longleftrightarrow> \<not> nw_denied w (FsRead ''gateway.config.yaml'') \<and>
     (\<exists>content raw. nw_files w ''gateway.config.yaml'' = Some content \<and> nl_decode lib content = Typed raw \<and> config_issues raw = [] \<and>
        buildEffectiveGatewayConfig (nl_urlProtocol lib) (nw_env w) False raw = Inr cfg)"

definition prompts_ok :: "node_world \<Rightarrow> string list \<Rightarrow> bool" where
  "prompts_ok w aliases \<longleftrightarrow> \<not> nw_denied w (FsRead MASTER_PROMPT) \<and> (\<exists>c. nw_files w MASTER_PROMPT = Some c \<and> js_trim c \<noteq> []) \<and>
     \<not> nw_denied w (FsRead MAIN_PROMPT) \<and> (\<forall>a \<in> set aliases. \<not> nw_denied w (FsRead (model_prompt_path a)))"

lemma load_iff: "loadGatewayConfigFromFile lib None w = (Inr cfg, w') \<longleftrightarrow> w' = w \<and> usable_config lib w cfg"
proof (cases "nw_denied w (FsRead ''gateway.config.yaml'') \<or> nw_files w ''gateway.config.yaml'' = None")
  case True
  then show ?thesis
    by (auto simp: loadGatewayConfigFromFile_def io_catch_apply io_bind_apply node_simps usable_config_def split: option.split)
next
  case False
  then obtain content where c: "nw_files w ''gateway.config.yaml'' = Some content" "\<not> nw_denied w (FsRead ''gateway.config.yaml'')" by auto
  then show ?thesis
    by (auto simp: loadGatewayConfigFromFile_def io_catch_apply io_bind_apply node_simps usable_config_def split: decoded.split sum.split)
qed

lemma effective_master_key:
  "buildEffectiveGatewayConfig u env am raw = Inr cfg \<Longrightarrow> masterKeyRef cfg = masterKeyRef raw"
  by (auto simp: buildEffectiveGatewayConfig_def Let_def split: if_splits)

lemma validate_success_iff:
  "\<exists>r. validateGatewayConfig lib False (nw_env w) w = (Inr r, w) \<and>
     (\<forall>cfg. vr_success r \<and> vr_effectiveConfig r = Some cfg \<longleftrightarrow> usable_config lib w cfg \<and> assertMasterKeyPresent (nw_env w) cfg = Inr ()) \<and>
     (vr_success r \<longrightarrow> vr_effectiveConfig r \<noteq> None)"
proof -
  have parsed: "(\<forall>cfg. vr_success (validate_parsed lib False (nw_env w) raw) \<and> vr_effectiveConfig (validate_parsed lib False (nw_env w) raw) = Some cfg \<longleftrightarrow>
      buildEffectiveGatewayConfig (nl_urlProtocol lib) (nw_env w) False raw = Inr cfg \<and> assertMasterKeyPresent (nw_env w) cfg = Inr ()) \<and>
      (vr_success (validate_parsed lib False (nw_env w) raw) \<longrightarrow> vr_effectiveConfig (validate_parsed lib False (nw_env w) raw) \<noteq> None)" for raw
    by (auto simp: validate_parsed_def failed_validation_def assertMasterKeyPresent_def Let_def dest: effective_master_key split: sum.splits)
  show ?thesis
  proof (cases "nw_denied w (FsRead ''gateway.config.yaml'') \<or> nw_files w ''gateway.config.yaml'' = None")
    case True
    then show ?thesis
      by (auto simp: validateGatewayConfig_def io_catch_apply io_bind_apply node_simps usable_config_def failed_validation_def split: option.split)
  next
    case False
    then obtain content where c: "nw_files w ''gateway.config.yaml'' = Some content" "\<not> nw_denied w (FsRead ''gateway.config.yaml'')" by auto
    then show ?thesis
      using parsed by (auto simp: validateGatewayConfig_def io_catch_apply io_bind_apply node_simps usable_config_def failed_validation_def split: decoded.split)
  qed
qed

lemma optional_prompt_iff: "(\<exists>x. tryReadOptionalPrompts p w = (Inr x, w')) \<longleftrightarrow> w' = w \<and> \<not> nw_denied w (FsRead p)"
  by (auto simp: tryReadOptionalPrompts_def io_catch_apply io_map_def io_bind_apply node_simps split: option.split)

lemma model_prompts_iff: "(\<exists>x. readModelPrompts as w = (Inr x, w')) \<longleftrightarrow> w' = w \<and> (\<forall>a \<in> set as. \<not> nw_denied w (FsRead (model_prompt_path a)))"
proof (induction as)
  case (Cons a as)
  have "(\<exists>x. readModelPrompts (a # as) w = (Inr x, w')) \<longleftrightarrow>
      (\<exists>w1. (\<exists>c. tryReadOptionalPrompts (model_prompt_path a) w = (Inr c, w1)) \<and> (\<exists>x. readModelPrompts as w1 = (Inr x, w')))"
    by (auto simp: io_bind_Inr)
  then show ?case using Cons.IH by (auto simp: optional_prompt_iff)
qed auto

lemma required_prompt_iff:
  "(\<exists>x. readRequiredPrompt l p w = (Inr x, w')) \<longleftrightarrow> w' = w \<and> \<not> nw_denied w (FsRead p) \<and> (\<exists>c. nw_files w p = Some c \<and> js_trim c \<noteq> [])"
  by (auto simp: readRequiredPrompt_def io_catch_apply io_bind_apply node_simps split: option.split)

lemma key_runtime_iff: "(\<exists>k. buildGatewayKeyRuntime env cfg = Inr k) \<longleftrightarrow> assertMasterKeyPresent env cfg = Inr ()"
  by (auto simp: buildGatewayKeyRuntime_def Let_def)

lemma start_iff:
  "(\<exists>ac w'. buildAppConfiguration lib None (nw_env w) w = (Inr ac, w')) \<longleftrightarrow>
     (\<exists>e. validateEnvironment (nw_env w) = Inr e) \<and>
     (\<exists>cfg. usable_config lib w cfg \<and> assertMasterKeyPresent (nw_env w) cfg = Inr () \<and> prompts_ok w (map fst (gw_models cfg)))"
  (is "?run \<longleftrightarrow> _")
proof -
  have "?run \<longleftrightarrow> (\<exists>e cfg. validateEnvironment (nw_env w) = Inr e \<and> usable_config lib w cfg \<and> (\<exists>k. buildGatewayKeyRuntime (nw_env w) cfg = Inr k) \<and>
      (\<exists>w1. (\<exists>x. readRequiredPrompt ''MASTER_SYSTEM_PROMPT'' MASTER_PROMPT w = (Inr x, w1)) \<and>
        (\<exists>w2. (\<exists>x. tryReadOptionalPrompts MAIN_PROMPT w1 = (Inr x, w2)) \<and>
          (\<exists>w3. (\<exists>x. readModelPrompts (map fst (gw_models cfg)) w2 = (Inr x, w3))))))"
    by (auto simp: buildAppConfiguration_def io_bind_Inr load_iff) blast+
  then show ?thesis
    by (auto simp: key_runtime_iff required_prompt_iff optional_prompt_iff model_prompts_iff prompts_ok_def)
qed

lemma start_gateway: "buildAppConfiguration lib None (nw_env w) w = (Inr ac, w') \<Longrightarrow> usable_config lib w (ac_gateway ac)"
  by (auto simp: buildAppConfiguration_def io_bind_Inr load_iff)

lemma usable_unique: "usable_config lib w a \<Longrightarrow> usable_config lib w b \<Longrightarrow> a = b"
  by (auto simp: usable_config_def)

definition sample_lib :: "gateway_config \<Rightarrow> node_lib" where
  "sample_lib cfg = \<lparr>nl_dump = (\<lambda>_. ''yaml''), nl_decode = (\<lambda>c. if c = ''yaml'' then Typed cfg else YamlSyntax ''bad''), nl_dotenv = (\<lambda>_. []),
     nl_urlProtocol = (\<lambda>_. None), nl_render = (\<lambda>h ds. h), nl_timestamp = show_nat\<rparr>"

definition sample_env :: env_vars where
  "sample_env = (\<lambda>k. if k = ''MK'' \<or> k = ''K1'' then Some ''k'' else None)"

definition sample_world :: node_world where
  "sample_world = \<lparr>nw_files = [''gateway.config.yaml'' \<mapsto> ''yaml'', MASTER_PROMPT \<mapsto> ''Be brief.''], nw_env = sample_env, nw_denied = (\<lambda>_. False), nw_reads = 0\<rparr>"

definition starts :: "node_lib \<Rightarrow> node_world \<Rightarrow> bool" where
  "starts lib w = (case fst (buildAppConfiguration lib None (nw_env w) w) of Inr _ \<Rightarrow> True | Inl _ \<Rightarrow> False)"

lemma starts_iff: "starts lib w \<longleftrightarrow> (\<exists>ac w'. buildAppConfiguration lib None (nw_env w) w = (Inr ac, w'))"
  by (cases "buildAppConfiguration lib None (nw_env w) w") (auto simp: starts_def split: sum.split)

lemmas tag_eval = isRedisSearchTagSafeId_def tag_id_forbidden_def tag_special_def

lemma sample_config_ok: "value_issues sample_schema_config = []" "config_issues sample_schema_config = []"
proof -
  show "value_issues sample_schema_config = []"
    by (simp add: value_issues_def sample_schema_config_def tag_eval model_value_issues_def provider_value_issues_def bad_def)
  then show "config_issues sample_schema_config = []"
    by (simp add: config_issues_def schema_issues_def)
      (simp add: sample_schema_config_def isOpenAiProviderType_def fallback_issues_def model_provider_issues_def unknown_provider_issues_def)
qed

lemma sample_effective: "env ''K1'' = Some ''k'' \<Longrightarrow> buildEffectiveGatewayConfig u env False sample_schema_config = Inr sample_schema_config"
  by (simp add: buildEffectiveGatewayConfig_def sample_schema_config_def enabled_providers_def active_models_def model_is_active_def
      assertEnabledProviderSecretsPresent_def assertEnabledProviderApiKeysPresent_def assertEnabledProviderBaseUrlPresent_def
      collectMissingEnabledProviderApiKeyErrors_def collectMissingBaseUrlErrors_def env_value_def isOpenAiProviderType_def Let_def js_trim_def js_whitespace_def)

lemma sample_dotenv_none: "dotenvConfig (sample_lib sample_schema_config) sample_world = (Inr (), sample_world)"
  by (simp add: dotenvConfig_def sample_world_def MASTER_PROMPT_def)

lemma sample_starts: "starts (sample_lib sample_schema_config) sample_world"
  unfolding starts_iff start_iff
proof (intro conjI exI)
  show "validateEnvironment (nw_env sample_world) = Inr (EnvironmentVariables sample_env)"
    by (simp add: sample_world_def validateEnvironment_def EnvironmentVariables_def sample_env_def env_errors_def toInt_def toNumber_def toBoolean_def Let_def bad_def
        int_min_def isRedisInfrastructureRequired_def)
  show "usable_config (sample_lib sample_schema_config) sample_world sample_schema_config"
    using sample_effective [of sample_env "\<lambda>_. None"]
    by (simp add: usable_config_def sample_world_def sample_lib_def sample_config_ok sample_env_def MASTER_PROMPT_def)
  show "assertMasterKeyPresent (nw_env sample_world) sample_schema_config = Inr ()"
    by (simp add: assertMasterKeyPresent_def env_value_def sample_world_def sample_schema_config_def sample_env_def js_trim_def js_whitespace_def)
  show "prompts_ok sample_world (map fst (gw_models sample_schema_config))"
    by (simp add: prompts_ok_def sample_world_def js_trim_def js_whitespace_def)
qed

text \<open>C14. The validator predicts the start: after the check that \<open>gateway config:validate\<close> runs, in the environment it leaves, the configuration of
  the process can be built exactly if the check succeeded and the prompt files can be read (the master prompt exists and is not blank),
  and then the process runs with the effective configuration the check reported.\<close>

theorem validator_predicts_start:
  "\<exists>r w1. gateway_validate lib False w = (Inr r, w1) \<and>
     ((\<exists>ac w2. buildAppConfiguration lib None (nw_env w1) w1 = (Inr ac, w2)) \<longleftrightarrow>
        vr_success r \<and> (\<exists>cfg. vr_effectiveConfig r = Some cfg \<and> prompts_ok w1 (map fst (gw_models cfg)))) \<and>
     (\<forall>ac w2. buildAppConfiguration lib None (nw_env w1) w1 = (Inr ac, w2) \<longrightarrow> vr_effectiveConfig r = Some (ac_gateway ac))"
proof -
  define w1 where "w1 = snd (dotenvConfig lib w)"
  then have d: "dotenvConfig lib w = (Inr (), w1)" by (simp add: dotenvConfig_def)
  obtain r where r: "validateGatewayConfig lib False (nw_env w1) w1 = (Inr r, w1)"
    "\<And>cfg. vr_success r \<and> vr_effectiveConfig r = Some cfg \<longleftrightarrow> usable_config lib w1 cfg \<and> assertMasterKeyPresent (nw_env w1) cfg = Inr ()"
    "vr_success r \<Longrightarrow> vr_effectiveConfig r \<noteq> None"
    using validate_success_iff [of lib w1] by blast
  let ?r = "if vr_success r then case validateEnvironment (nw_env w1) of Inr _ \<Rightarrow> r
      | Inl e \<Rightarrow> r\<lparr>vr_success := False, vr_errors := vr_errors r @ [''ERROR: '' @ error_message e]\<rparr> else r"
  have g: "gateway_validate lib False w = (Inr ?r, w1)"
    by (simp add: gateway_validate_def io_bind_apply d r(1) split: sum.split)
  have succ: "vr_success ?r \<longleftrightarrow> vr_success r \<and> (\<exists>e. validateEnvironment (nw_env w1) = Inr e)" by (auto split: sum.split)
  have eff: "vr_effectiveConfig ?r = vr_effectiveConfig r" by (auto split: sum.split)
  have start: "(\<exists>ac w2. buildAppConfiguration lib None (nw_env w1) w1 = (Inr ac, w2)) \<longleftrightarrow>
      vr_success ?r \<and> (\<exists>cfg. vr_effectiveConfig ?r = Some cfg \<and> prompts_ok w1 (map fst (gw_models cfg)))"
    unfolding start_iff succ eff using r(2) by blast
  have "vr_effectiveConfig ?r = Some (ac_gateway ac)" if run: "buildAppConfiguration lib None (nw_env w1) w1 = (Inr ac, w2)" for ac w2
  proof -
    have "vr_success r" using run start succ by blast
    then obtain cfg where cfg: "vr_effectiveConfig r = Some cfg" using r(3) by blast
    then have "usable_config lib w1 cfg" using r(2) \<open>vr_success r\<close> by blast
    with start_gateway [OF run] cfg eff show ?thesis using usable_unique by metis
  qed
  with g start show ?thesis by blast
qed

theorem validator_predicts_start_witness:
  "\<exists>r w1. gateway_validate (sample_lib sample_schema_config) False sample_world = (Inr r, w1) \<and> vr_success r"
proof -
  note d = sample_dotenv_none
  have kept: "w1 = sample_world" if "gateway_validate (sample_lib sample_schema_config) False sample_world = (Inr r, w1)" for r w1
    using that validate_success_iff [of "sample_lib sample_schema_config" sample_world]
    by (auto simp: gateway_validate_def io_bind_apply d split: if_splits sum.splits)
  show ?thesis
    using validator_predicts_start [of "sample_lib sample_schema_config" sample_world] sample_starts kept unfolding starts_iff by blast
qed

text \<open>Module wiring and configuration agree on Redis: when the process configuration can be built, the modules imported by the raw environment
  (\<open>isRedisRequiredFromEnv\<close>) include the Redis stack exactly if the validation of the environment demanded its settings and the services that use it
  find it required by the configuration.\<close>

lemma redis_requirement_agrees:
  assumes "buildAppConfiguration lib memo env w = (Inr ac, w')"
  shows "(isRedisRequiredFromEnv env \<longleftrightarrow> isRedisRequiredFromConfig ac) \<and>
    (isRedisRequiredFromConfig ac \<longleftrightarrow> isRedisInfrastructureRequired (EnvironmentVariables env))"
proof -
  obtain e where e: "validateEnvironment env = Inr e" and ac: "ac_cacheEnabled ac = CACHE_ENABLED e"
    "ac_cacheBackend ac = parseCacheBackend (Some (CACHE_BACKEND e)) (CACHE_ENABLED e)"
    "ac_RATE_LIMIT_SMART_ENABLED ac = RATE_LIMIT_SMART_ENABLED e" "sc_enabled (ac_semanticCache ac) = SEMANTIC_CACHE_ENABLED e"
    using assms by (auto simp: buildAppConfiguration_def io_bind_Inr semantic_config_of_def)
  have e': "e = EnvironmentVariables env" "CACHE_BACKEND e = ''noop'' \<or> CACHE_BACKEND e = ''redis''"
    using e by (auto simp: validateEnvironment_def Let_def env_errors_def bad_def split: if_splits)
  have low: "js_lower ''noop'' = ''noop''" "js_lower ''redis'' = ''redis''" by code_simp+
  have "isRedisRequiredFromEnv env \<longleftrightarrow> isRedisRequiredFromConfig ac"
    using e'(2) unfolding isRedisRequiredFromEnv_def isRedisRequiredFromConfig_def ac
    by (auto simp: e'(1) EnvironmentVariables_def toBoolean_def isRedisRequired_def getRedisConsumers_def parseCacheBackend_def low nullish_def Let_def
        split: option.splits if_splits)
  moreover have "isRedisRequiredFromConfig ac \<longleftrightarrow> isRedisInfrastructureRequired (EnvironmentVariables env)"
    using e'(2) unfolding isRedisRequiredFromConfig_def ac e'(1)
    by (auto simp: isRedisInfrastructureRequired_def isRedisRequired_def getRedisConsumers_def parseCacheBackend_def low Let_def)
  ultimately show ?thesis by blast
qed

end
