(* ===== verification/Redis_Connection.thy ===== *)
theory Redis_Connection
  imports App_Configuration
begin

text \<open>
  The shared Redis connection (\<open>cache/adapters/redis-cache/redis-connection.service.ts\<close>). The service is a state machine: its
  methods run to their next \<open>await\<close> without interruption, and between two such segments any other method may run, the client may
  change its status, and time may pass. Each segment is a function on the state; \<open>conn_step\<close> interleaves them.

  \<open>cn_open\<close> lists the clients that were constructed and neither disconnected nor quit, \<open>cn_lastFailure\<close> the time of the last failed
  attempt since the last success; the code keeps neither, the properties are about them. Of ioredis the model assumes that \<open>disconnect\<close>
  closes the connection and does not throw, and that the constructor, which does not connect (\<open>lazyConnect\<close>), does not throw.
\<close>

section \<open>State and segments\<close>

record redis_options =
  ro_host :: string
  ro_port :: int
  ro_password :: "string option"
  ro_db :: int

record redis_client =
  cl_id :: nat
  cl_options :: redis_options
  cl_status :: string

datatype connect_phase = AwaitConnect | AwaitPing | Settled

record redis_conn =
  cn_client :: "redis_client option"
  cn_connectInFlight :: "connect_phase option"
  cn_nextRetryAtMs :: int
  cn_closed :: bool
  cn_quitting :: "nat list"
  cn_now :: int
  cn_created :: nat
  cn_open :: "nat list"
  cn_lastFailure :: "int option"

definition RECONNECT_COOLDOWN_MS :: int where
  "RECONNECT_COOLDOWN_MS = 2000"

definition retryStrategy :: "nat \<Rightarrow> nat" where
  "retryStrategy tries = min (tries * 100) 3000"

definition RedisConnectionService :: "int \<Rightarrow> redis_conn" where
  "RedisConnectionService now =
     \<lparr>cn_client = None, cn_connectInFlight = None, cn_nextRetryAtMs = 0, cn_closed = False, cn_quitting = [], cn_now = now,
      cn_created = 0, cn_open = [], cn_lastFailure = None\<rparr>"

definition redis_options_of :: "redis_runtime \<Rightarrow> redis_options" where
  "redis_options_of r =
     \<lparr>ro_host = rr_host r, ro_port = rr_port r, ro_password = (if js_trim (rr_password r) \<noteq> [] then Some (rr_password r) else None), ro_db = rr_db r\<rparr>"

definition disposeClient :: "redis_conn \<Rightarrow> redis_conn" where
  "disposeClient s = (case cn_client s of None \<Rightarrow> s | Some c \<Rightarrow> s\<lparr>cn_client := None, cn_open := removeAll (cl_id c) (cn_open s)\<rparr>)"

text \<open>\<open>establishConnection\<close>: up to \<open>await this.client.connect()\<close>, its \<open>catch\<close> block, and what follows each of its two awaits. The last segment leaves the
  promise settled; the \<open>finally\<close> of \<open>ensureConnected\<close> clears \<open>connectInFlight\<close> in a later step.\<close>

definition establish_start :: "app_configuration \<Rightarrow> redis_conn \<Rightarrow> redis_conn" where
  "establish_start ac s0 =
     (let s = disposeClient s0 in
      s\<lparr>cn_client := Some \<lparr>cl_id = cn_created s, cl_options = redis_options_of (ac_redis ac), cl_status = ''connecting''\<rparr>,
        cn_created := Suc (cn_created s), cn_open := cn_created s # cn_open s, cn_connectInFlight := Some AwaitConnect\<rparr>)"

definition establish_failed :: "redis_conn \<Rightarrow> redis_conn" where
  "establish_failed s0 =
     (let s = disposeClient s0 in
      s\<lparr>cn_nextRetryAtMs := cn_now s + RECONNECT_COOLDOWN_MS, cn_connectInFlight := Some Settled, cn_lastFailure := Some (cn_now s)\<rparr>)"

definition connect_settled :: "bool \<Rightarrow> redis_conn \<Rightarrow> redis_conn" where
  "connect_settled ok s = (if \<not> ok \<or> cn_client s = None then establish_failed s else s\<lparr>cn_connectInFlight := Some AwaitPing\<rparr>)"

definition ping_settled :: "bool \<Rightarrow> redis_conn \<Rightarrow> redis_conn" where
  "ping_settled ok s = (if \<not> ok then establish_failed s
     else s\<lparr>cn_nextRetryAtMs := 0, cn_connectInFlight := Some Settled, cn_lastFailure := None\<rparr>)"

definition ensureConnected :: "app_configuration \<Rightarrow> redis_conn \<Rightarrow> redis_conn" where
  "ensureConnected ac s =
     (let status = map_option cl_status (cn_client s) in
      if cn_closed s \<or> \<not> isRedisRequiredFromConfig ac then s
      else if status = Some ''ready'' then s
      else if status \<in> {Some ''connecting'', Some ''reconnecting'', Some ''wait''} then s
      else if cn_connectInFlight s \<noteq> None then s
      else if cn_now s < cn_nextRetryAtMs s then s
      else establish_start ac s)"

definition redis_onModuleInit :: "app_configuration \<Rightarrow> redis_conn \<Rightarrow> redis_conn" where
  "redis_onModuleInit ac s = (if \<not> isRedisRequiredFromConfig ac then s else ensureConnected ac s)"

definition getClient :: "app_configuration \<Rightarrow> redis_conn \<Rightarrow> redis_client option \<times> redis_conn" where
  "getClient ac s =
     (if cn_closed s \<or> \<not> isRedisRequiredFromConfig ac then (None, s)
      else case cn_client s of Some c \<Rightarrow> (Some c, s) | None \<Rightarrow> (None, ensureConnected ac s))"

definition isReady :: "app_configuration \<Rightarrow> redis_conn \<Rightarrow> bool \<times> redis_conn" where
  "isReady ac s =
     (if cn_closed s \<or> \<not> isRedisRequiredFromConfig ac then (False, s)
      else case cn_client s of
          Some c \<Rightarrow> (cl_status c = ''ready'', s)
        | None \<Rightarrow> (False, ensureConnected ac s))"

text \<open>\<open>ping\<close> with what the client answers, if it is asked; the state may change while it waits, which its result does not depend on.\<close>

definition ping :: "app_configuration \<Rightarrow> string result \<Rightarrow> redis_conn \<Rightarrow> bool \<times> redis_conn" where
  "ping ac answer s =
     (let (ready, s1) = isReady ac s in
      if \<not> ready \<or> cn_client s1 = None then (False, s1)
      else (case answer of Inr result \<Rightarrow> result = ''PONG'' | Inl _ \<Rightarrow> False, s1))"

text \<open>\<open>onModuleDestroy\<close> up to \<open>await this.client.quit()\<close>, and from there: in \<open>catch\<close> and \<open>finally\<close> the code reads \<open>this.client\<close> again.\<close>

definition onModuleDestroy :: "redis_conn \<Rightarrow> redis_conn" where
  "onModuleDestroy s = (let s1 = s\<lparr>cn_closed := True\<rparr> in case cn_client s1 of None \<Rightarrow> s1 | Some c \<Rightarrow> s1\<lparr>cn_quitting := cl_id c # cn_quitting s1\<rparr>)"

definition quit_settled :: "bool \<Rightarrow> nat \<Rightarrow> redis_conn \<Rightarrow> unit result \<times> redis_conn" where
  "quit_settled ok i s0 =
     (let s = s0\<lparr>cn_quitting := remove1 i (cn_quitting s0), cn_open := (if ok then removeAll i (cn_open s0) else cn_open s0)\<rparr> in
      case cn_client s of
        None \<Rightarrow> (Inl (plain_error ''Cannot read properties of null''), s)
      | Some c \<Rightarrow> (Inr (), s\<lparr>cn_client := None, cn_open := (if ok then cn_open s else removeAll (cl_id c) (cn_open s))\<rparr>))"

section \<open>Interleavings\<close>

inductive conn_step :: "app_configuration \<Rightarrow> redis_conn \<Rightarrow> redis_conn \<Rightarrow> bool" for ac where
  tick: "cn_now s \<le> t \<Longrightarrow> conn_step ac s (s\<lparr>cn_now := t\<rparr>)"
| status: "cn_client s = Some c \<Longrightarrow> conn_step ac s (s\<lparr>cn_client := Some (c\<lparr>cl_status := st\<rparr>)\<rparr>)"
| init: "conn_step ac s (redis_onModuleInit ac s)"
| client: "conn_step ac s (snd (getClient ac s))"
| ready: "conn_step ac s (snd (isReady ac s))"
| pinged: "conn_step ac s (snd (ping ac answer s))"
| ensure: "conn_step ac s (ensureConnected ac s)"
| connected: "cn_connectInFlight s = Some AwaitConnect \<Longrightarrow> conn_step ac s (connect_settled ok s)"
| first_ping: "cn_connectInFlight s = Some AwaitPing \<Longrightarrow> conn_step ac s (ping_settled ok s)"
| finished: "cn_connectInFlight s = Some Settled \<Longrightarrow> conn_step ac s (s\<lparr>cn_connectInFlight := None\<rparr>)"
| destroy: "conn_step ac s (onModuleDestroy s)"
| quit: "i \<in> set (cn_quitting s) \<Longrightarrow> conn_step ac s (snd (quit_settled ok i s))"

definition conn_reachable :: "app_configuration \<Rightarrow> redis_conn \<Rightarrow> bool" where
  "conn_reachable ac s \<longleftrightarrow> (\<exists>now. (conn_step ac)\<^sup>*\<^sup>* (RedisConnectionService now) s)"

lemma conn_reachable_step: "conn_reachable ac s \<Longrightarrow> conn_step ac s s' \<Longrightarrow> conn_reachable ac s'"
  unfolding conn_reachable_def by (meson rtranclp.rtrancl_into_rtrancl)

section \<open>The invariant\<close>

definition conn_ok :: "redis_conn \<Rightarrow> bool" where
  "conn_ok s \<longleftrightarrow>
     cn_open s = (case cn_client s of None \<Rightarrow> [] | Some c \<Rightarrow> [cl_id c]) \<and>
     (\<forall>c. cn_client s = Some c \<longrightarrow> (\<forall>i \<in> set (cn_quitting s). i = cl_id c) \<and> (cn_closed s \<longrightarrow> cn_quitting s \<noteq> [])) \<and>
     (cn_quitting s \<noteq> [] \<longrightarrow> cn_closed s) \<and>
     (\<forall>t. cn_lastFailure s = Some t \<longrightarrow> cn_nextRetryAtMs s = t + RECONNECT_COOLDOWN_MS)"

lemma conn_ok_None:
  "cn_client s = None \<Longrightarrow> conn_ok s \<longleftrightarrow> cn_open s = [] \<and> (cn_quitting s \<noteq> [] \<longrightarrow> cn_closed s) \<and>
     (\<forall>t. cn_lastFailure s = Some t \<longrightarrow> cn_nextRetryAtMs s = t + RECONNECT_COOLDOWN_MS)"
  by (simp add: conn_ok_def)

lemma conn_ok_Some:
  "cn_client s = Some c \<Longrightarrow> conn_ok s \<longleftrightarrow> cn_open s = [cl_id c] \<and> (\<forall>i \<in> set (cn_quitting s). i = cl_id c) \<and> (cn_closed s \<longleftrightarrow> cn_quitting s \<noteq> []) \<and>
     (\<forall>t. cn_lastFailure s = Some t \<longrightarrow> cn_nextRetryAtMs s = t + RECONNECT_COOLDOWN_MS)"
  by (auto simp: conn_ok_def)

lemmas conn_segments = establish_start_def establish_failed_def disposeClient_def onModuleDestroy_def quit_settled_def Let_def

lemma conn_ok_start: "conn_ok s \<Longrightarrow> \<not> cn_closed s \<Longrightarrow> conn_ok (establish_start ac s)"
  by (cases "cn_client s") (auto simp: conn_segments conn_ok_None conn_ok_Some)

lemma conn_ok_failed: "conn_ok s \<Longrightarrow> conn_ok (establish_failed s)"
  by (cases "cn_client s") (auto simp: conn_segments conn_ok_None conn_ok_Some)

lemma conn_ok_ensure: "conn_ok s \<Longrightarrow> conn_ok (ensureConnected ac s)"
  using conn_ok_start [of s ac] by (simp add: ensureConnected_def Let_def)

lemma conn_ok_destroy: "conn_ok s \<Longrightarrow> conn_ok (onModuleDestroy s)"
  by (cases "cn_client s") (auto simp: conn_segments conn_ok_None conn_ok_Some)

lemma conn_ok_quit:
  assumes "conn_ok s" "i \<in> set (cn_quitting s)"
  shows "conn_ok (snd (quit_settled ok i s))"
proof (cases "cn_client s")
  case None
  with assms show ?thesis by (auto simp: conn_segments conn_ok_None)
next
  case (Some c)
  moreover from this have "cl_id c = i" "cn_closed s" using assms by (auto simp: conn_ok_Some)
  ultimately show ?thesis using assms(1) by (simp add: conn_segments conn_ok_None conn_ok_Some)
qed

lemma snd_reads:
  "snd (getClient ac s) = s \<or> snd (getClient ac s) = ensureConnected ac s" "snd (isReady ac s) = s \<or> snd (isReady ac s) = ensureConnected ac s"
  "snd (ping ac answer s) = snd (isReady ac s)" "redis_onModuleInit ac s = s \<or> redis_onModuleInit ac s = ensureConnected ac s"
  by (simp_all add: getClient_def isReady_def ping_def redis_onModuleInit_def split: option.split prod.split)

lemma conn_ok_reads:
  assumes "conn_ok s"
  shows "conn_ok (snd (getClient ac s))" "conn_ok (snd (isReady ac s))" "conn_ok (snd (ping ac answer s))" "conn_ok (redis_onModuleInit ac s)"
proof -
  have e: "conn_ok (ensureConnected ac s)" using assms by (rule conn_ok_ensure)
  show "conn_ok (snd (getClient ac s))" using snd_reads(1) [of ac s] e assms by auto
  show r: "conn_ok (snd (isReady ac s))" using snd_reads(2) [of ac s] e assms by auto
  show "conn_ok (snd (ping ac answer s))" using r by (simp only: snd_reads(3))
  show "conn_ok (redis_onModuleInit ac s)" using snd_reads(4) [where ac = ac and s = s] e assms by auto
qed

lemma conn_ok_frame [simp]:
  "conn_ok (s\<lparr>cn_now := t\<rparr>) = conn_ok s" "conn_ok (s\<lparr>cn_connectInFlight := p\<rparr>) = conn_ok s"
  by (simp_all add: conn_ok_def)

lemma conn_ok_status: "conn_ok s \<Longrightarrow> cn_client s = Some c \<Longrightarrow> conn_ok (s\<lparr>cn_client := Some (c\<lparr>cl_status := st\<rparr>)\<rparr>)"
  by (simp add: conn_ok_def)

lemma conn_ok_connected: "conn_ok s \<Longrightarrow> conn_ok (connect_settled ok s)"
  by (simp add: connect_settled_def conn_ok_failed)

lemma conn_ok_first_ping: "conn_ok s \<Longrightarrow> conn_ok (ping_settled ok s)"
  by (cases ok; cases "cn_client s") (simp_all add: ping_settled_def conn_ok_failed conn_ok_None conn_ok_Some)

lemma conn_ok_step: "conn_step ac s s' \<Longrightarrow> conn_ok s \<Longrightarrow> conn_ok s'"
  by (induction rule: conn_step.induct)
    (simp_all only: conn_ok_frame conn_ok_status conn_ok_reads conn_ok_ensure conn_ok_connected conn_ok_first_ping conn_ok_destroy conn_ok_quit)

lemma conn_ok_init: "conn_ok (RedisConnectionService now)"
  by (simp add: conn_ok_def RedisConnectionService_def)

lemma reachable_conn_ok:
  assumes "conn_reachable ac s"
  shows "conn_ok s"
proof -
  obtain now where "(conn_step ac)\<^sup>*\<^sup>* (RedisConnectionService now) s" using assms unfolding conn_reachable_def by blast
  then show ?thesis by (induction rule: rtranclp_induct) (blast intro: conn_ok_init conn_ok_step)+
qed

section \<open>Properties\<close>

lemma start_attempt:
  assumes "cn_created (ensureConnected ac s) \<noteq> cn_created s"
  shows "cn_nextRetryAtMs s \<le> cn_now s" and "\<not> cn_closed s" and "isRedisRequiredFromConfig ac" and "cn_connectInFlight s = None"
  using assms by (auto simp: ensureConnected_def Let_def split: if_splits)

lemma created_other:
  "cn_created (establish_failed s) = cn_created s" "cn_created (onModuleDestroy s) = cn_created s" "cn_created (snd (quit_settled ok i s)) = cn_created s"
  by (cases "cn_client s"; simp add: conn_segments)+

lemma created_step:
  assumes "conn_step ac s s'" and "cn_created s' \<noteq> cn_created s"
  shows "s' = ensureConnected ac s"
  using assms(1)
proof (cases rule: conn_step.cases)
  case (connected ok)
  with assms(2) show ?thesis by (simp add: connect_settled_def created_other split: if_splits)
next
  case (first_ping ok)
  with assms(2) show ?thesis by (simp add: ping_settled_def created_other split: if_splits)
qed (use assms(2) snd_reads(1,2,4) [where ac = ac and s = s] in \<open>auto simp: created_other snd_reads(3)\<close>)

text \<open>C15. Whatever the order of calls, connection attempts, failures and shut-downs, at most one Redis connection is open, it is the service's client, and
  none is left once the service is closed and no shut-down waits; and a step opens a connection only while the service is open, Redis is
  required, no other attempt is in flight, and at least two seconds have passed since the last failed attempt.\<close>

theorem redis_single_connection:
  assumes "conn_reachable ac s"
  shows "length (cn_open s) \<le> 1 \<and> set (cn_open s) = cl_id ` set_option (cn_client s) \<and> (cn_closed s \<and> cn_quitting s = [] \<longrightarrow> cn_open s = []) \<and>
     (\<forall>s'. conn_step ac s s' \<and> cn_created s' \<noteq> cn_created s \<longrightarrow>
        \<not> cn_closed s \<and> isRedisRequiredFromConfig ac \<and> cn_connectInFlight s = None \<and>
        (\<forall>t. cn_lastFailure s = Some t \<longrightarrow> t + 2000 \<le> cn_now s))"
proof -
  have ok: "conn_ok s" using assms by (rule reachable_conn_ok)
  then have "length (cn_open s) \<le> 1" "set (cn_open s) = cl_id ` set_option (cn_client s)" "cn_closed s \<and> cn_quitting s = [] \<longrightarrow> cn_open s = []"
    by (cases "cn_client s"; simp add: conn_ok_None conn_ok_Some)+
  moreover have "\<forall>t. cn_lastFailure s = Some t \<longrightarrow> cn_nextRetryAtMs s = t + 2000"
    using ok by (cases "cn_client s") (simp_all add: conn_ok_None conn_ok_Some RECONNECT_COOLDOWN_MS_def)
  moreover from this have "\<not> cn_closed s \<and> isRedisRequiredFromConfig ac \<and> cn_connectInFlight s = None \<and> (\<forall>t. cn_lastFailure s = Some t \<longrightarrow> t + 2000 \<le> cn_now s)"
    if "conn_step ac s s'" "cn_created s' \<noteq> cn_created s" for s'
    using start_attempt [of ac s] created_step [OF that] that(2) by auto
  ultimately show ?thesis by blast
qed

definition redis_app :: app_configuration where
  "redis_app =
     \<lparr>ac_gateway = sample_schema_config, ac_gatewayKey = sample_keys, ac_port = Some 3000, ac_nodeEnv = ''production'', ac_providers = [],
      ac_resolvedSystemPrompts = \<lparr>rsp_master = ''Be brief.'', rsp_main = None, rsp_perModelByAlias = []\<rparr>, ac_cacheEnabled = True,
      ac_cacheBackend = ''redis'', ac_cacheTtl = 3600, ac_cacheKeyPrefix = ''aigw:'',
      ac_redis = \<lparr>rr_host = ''localhost'', rr_port = 6379, rr_password = [], rr_db = 0, rr_keyPrefix = ''aigw:''\<rparr>,
      ac_semanticCache = semantic_config_of (EnvironmentVariables sample_env), ac_embeddingBaseUrl = ''http://localhost:11435'',
      ac_RATE_LIMIT_SMART_ENABLED = False, ac_rateLimit = \<lparr>rl_rps = 10, rl_burst = 20, rl_maxConcurrentStreams = 3\<rparr>, ac_cooldownAfter429 = 60\<rparr>"

lemma redis_app_required: "isRedisRequiredFromConfig redis_app"
  by (simp add: isRedisRequiredFromConfig_def redis_app_def isRedisRequired_def getRedisConsumers_def parseCacheBackend_def js_lower_def js_lower_char_def js_trim_def js_whitespace_def)

definition connecting :: redis_conn where
  "connecting = ensureConnected redis_app (RedisConnectionService 0)"

lemma connecting_reachable: "conn_reachable redis_app connecting"
  unfolding connecting_def
  by (rule conn_reachable_step [OF _ conn_step.ensure]) (unfold conn_reachable_def, blast)

lemma connecting_state: "cn_connectInFlight connecting = Some AwaitConnect \<and> map_option cl_id (cn_client connecting) = Some 0 \<and> \<not> cn_closed connecting"
  using redis_app_required
  by (simp add: connecting_def ensureConnected_def establish_start_def disposeClient_def RedisConnectionService_def Let_def)

theorem redis_single_connection_witness:
  "conn_reachable redis_app connecting \<and> length (cn_open connecting) \<le> 1 \<and> cn_open connecting = [0]"
proof -
  have "set (cn_open connecting) = {0}" "length (cn_open connecting) \<le> 1"
    using redis_single_connection [OF connecting_reachable] connecting_state by (auto simp: set_eq_iff)
  then show ?thesis using connecting_reachable by (cases "cn_open connecting") auto
qed

text \<open>A shut-down that meets a failing connection attempt rejects: the attempt has already set the client to null when \<open>quit\<close> settles, and the handler
  reads the client again.\<close>

lemma shutdown_may_reject:
  "\<exists>s i e. conn_reachable redis_app s \<and> i \<in> set (cn_quitting s) \<and> fst (quit_settled False i s) = Inl e"
proof -
  let ?s1 = "onModuleDestroy connecting" and ?s2 = "connect_settled False (onModuleDestroy connecting)"
  obtain c where c: "cn_client connecting = Some c" "cl_id c = 0" using connecting_state by (cases "cn_client connecting") auto
  have s1: "cn_connectInFlight ?s1 = Some AwaitConnect" "cn_quitting ?s1 = 0 # cn_quitting connecting" "cn_client ?s1 = Some c"
    using connecting_state c by (simp_all add: onModuleDestroy_def Let_def)
  have "conn_reachable redis_app ?s2"
    by (rule conn_reachable_step [OF conn_reachable_step [OF connecting_reachable conn_step.destroy] conn_step.connected]) (rule s1(1))
  moreover have "0 \<in> set (cn_quitting ?s2)" "cn_client ?s2 = None"
    using s1 by (simp_all add: connect_settled_def establish_failed_def disposeClient_def Let_def)
  then have "0 \<in> set (cn_quitting ?s2) \<and> fst (quit_settled False 0 ?s2) = Inl (plain_error ''Cannot read properties of null'')"
    by (simp add: quit_settled_def Let_def)
  ultimately show ?thesis by blast
qed

end
