(* ===== verification/Health.thy ===== *)
theory Health
  imports Redis_Connection Semantic_Cache Models_Catalog
begin

text \<open>
  The health endpoints: \<open>health/health.service.ts\<close>, \<open>health/health.controller.ts\<close>, the probe of the vector index
  (\<open>redis-vector-store.adapter.ts\<close>) and the gauges the readiness feeds (\<open>prometheus-app-metrics.adapter.ts\<close>). What the service is given by
  the container is \<open>health_env\<close>. The state is the service's own record beside the rest of the world, which the probes act on
  (\<open>outside\<close>); a pending promise of another caller is the result it will settle with, the caller's own is set and cleared within its call.
\<close>

section \<open>The probe of the vector index\<close>

record vector_store_probe =
  vp_available :: bool
  vp_message :: string

definition probeIndex :: "'w vector_store_env \<Rightarrow> ('w, vector_store_probe) io" where
  "probeIndex env =
     io_bind (io_get (ve_getClient env)) (\<lambda>redisClient.
       case redisClient of
         None \<Rightarrow> io_return \<lparr>vp_available = False, vp_message = ''Redis client unavailable for vector index probe''\<rparr>
       | Some c \<Rightarrow>
           io_catch
             (io_bind (ensureIndex env) (\<lambda>_.
              io_bind (io_lift (indexName env)) (\<lambda>index.
              io_bind (sc_ft_info c index) (\<lambda>_.
                io_return \<lparr>vp_available = True, vp_message = ''Redis Search index available''\<rparr>))))
             (\<lambda>err. io_return
                (if isRedisSearchModuleMissingError err
                 then \<lparr>vp_available = False, vp_message = ''Redis Search module unavailable (FT.* commands missing -- use Redis Stack)''\<rparr>
                 else \<lparr>vp_available = False, vp_message = ''Vector index unavailable: '' @ redisSearchErrorMessage err\<rparr>)))"

section \<open>Checks\<close>

datatype health_status = Healthy | Degraded | Unhealthy

record health_check =
  hc_status :: health_status
  hc_message :: string

record redis_check = health_check +
  hc_required :: bool
  hc_consumers :: "redis_consumer list"

record readiness_checks =
  rd_config :: health_check
  rd_cache :: health_check
  rd_redis :: "redis_check option"
  rd_embeddings :: "health_check option"
  rd_vectorStore :: "health_check option"

record readiness =
  rd_ready :: bool
  rd_timestamp :: string
  rd_version :: string
  rd_uptime :: int
  rd_checks :: readiness_checks

datatype health_component = CompConfig | CompCache | CompRedis | CompEmbeddings | CompVectorStore

record health_snapshot =
  hm_ready :: bool
  hm_components :: "(health_component \<times> health_status) list"

text \<open>A memo of a probe: the last result with its time.\<close>

record health_state =
  hs_lastReady :: "bool option"
  hs_lastScrapeRefreshAt :: int
  hs_embeddings :: "(int \<times> health_check) option"
  hs_vectorStore :: "(int \<times> health_check) option"
  hs_embeddingsInFlight :: "health_check option"
  hs_vectorStoreInFlight :: "health_check option"
  hs_scrapeInFlight :: "unit result option"

definition HealthService :: health_state where
  "HealthService = \<lparr>hs_lastReady = None, hs_lastScrapeRefreshAt = 0, hs_embeddings = None, hs_vectorStore = None, hs_embeddingsInFlight = None,
     hs_vectorStoreInFlight = None, hs_scrapeInFlight = None\<rparr>"

type_synonym 'w health_world = "health_state \<times> 'w"

definition outside :: "('w, 'a) io \<Rightarrow> ('w health_world, 'a) io" where
  "outside m = (\<lambda>(s, w). case m w of (r, w') \<Rightarrow> (r, (s, w')))"

definition PROBE_REFRESH_MS :: int where "PROBE_REFRESH_MS = 5000"
definition SCRAPE_REFRESH_MS :: int where "SCRAPE_REFRESH_MS = 5000"

record 'w health_env =
  he_gateway :: "gateway_config option"
  he_prompts :: "resolved_system_prompts option"
  he_cache :: "(bool \<times> string) option"
  he_smartRateLimit :: bool
  he_semantic :: "semantic_config option"
  he_ping :: "('w, bool) io option"
  he_isReady :: "('w, bool) io"
  he_semanticCache :: "'w semantic_service option"
  he_vectorStore :: "'w vector_store_env option"
  he_now :: "'w \<Rightarrow> int"
  he_uptime :: "'w \<Rightarrow> rat"
  he_iso :: "int \<Rightarrow> string"
  he_version :: "string option"
  he_gauges :: "health_snapshot \<Rightarrow> int \<Rightarrow> 'w \<Rightarrow> 'w"

definition redis_required_by :: "'w health_env \<Rightarrow> redis_requirement" where
  "redis_required_by h =
     \<lparr>rq_cacheEnabled = (case he_cache h of Some (en, _) \<Rightarrow> en | None \<Rightarrow> False), rq_cacheBackend = map_option snd (he_cache h),
      rq_rateLimitSmartEnabled = he_smartRateLimit h, rq_semanticCacheEnabled = (case he_semantic h of Some c \<Rightarrow> sc_enabled c | None \<Rightarrow> False)\<rparr>"

definition healthy :: "string \<Rightarrow> health_check" where
  "healthy m = \<lparr>hc_status = Healthy, hc_message = m\<rparr>"

definition degraded :: "string \<Rightarrow> health_check" where
  "degraded m = \<lparr>hc_status = Degraded, hc_message = m\<rparr>"

definition checkConfig :: "'w health_env \<Rightarrow> health_check" where
  "checkConfig h =
     (if he_gateway h \<noteq> None \<and> he_prompts h \<noteq> None then healthy ''Config is loaded''
      else \<lparr>hc_status = Unhealthy, hc_message = ''Config is missing or incomplete.''\<rparr>)"

definition show_flag :: "bool \<Rightarrow> string" where
  "show_flag b = (if b then ''true'' else ''false'')"

definition checkCache :: "'w health_env \<Rightarrow> health_status option \<Rightarrow> health_status option \<Rightarrow> health_status option \<Rightarrow> health_check" where
  "checkCache h redisCheck embeddingsCheck vectorStoreCheck =
     (let semanticEnabled = rq_semanticCacheEnabled (redis_required_by h);
          backendId = js_lower (nullish (map_option snd (he_cache h)) ''noop'');
          exactEnabled = (rq_cacheEnabled (redis_required_by h) \<and> backendId = ''redis'');
          failed = (if exactEnabled \<and> redisCheck \<noteq> Some Healthy then [''exact-redis''] else []) @
            (if semanticEnabled \<and> embeddingsCheck \<noteq> Some Healthy then [''embeddings''] else []) @
            (if semanticEnabled \<and> vectorStoreCheck \<noteq> Some Healthy then [''vectorStore''] else [])
      in if \<not> exactEnabled \<and> \<not> semanticEnabled then healthy ''Cache disabled (noop)''
         else if failed = [] then healthy (''Cache pipeline healthy (exact='' @ show_flag exactEnabled @ '', semantic='' @ show_flag semanticEnabled @ '')'')
         else degraded (''Cache pipeline degraded ('' @ js_join '', '' failed @ '')''))"

text \<open>\<open>checkEmbeddings\<close> and \<open>checkVectorStore\<close> after their guards: the memo, the probe another caller waits for, or a new probe.\<close>

definition memo_probe ::
  "'w health_env \<Rightarrow> (health_state \<Rightarrow> (int \<times> health_check) option) \<Rightarrow> ((int \<times> health_check) \<Rightarrow> health_state \<Rightarrow> health_state) \<Rightarrow>
   (health_state \<Rightarrow> health_check option) \<Rightarrow> ('w, health_check) io \<Rightarrow> ('w health_world, health_check) io" where
  "memo_probe h memo setMemo inFlight probe = (\<lambda>(s, w).
     let fresh = (case memo s of None \<Rightarrow> None | Some (t, c) \<Rightarrow> if he_now h w - t < PROBE_REFRESH_MS then Some c else None) in
     case fresh of
       Some c \<Rightarrow> (Inr c, (s, w))
     | None \<Rightarrow> (case inFlight s of
           Some c \<Rightarrow> (Inr c, (s, w))
         | None \<Rightarrow> io_bind (outside probe) (\<lambda>c. io_bind (io_update (\<lambda>(s, w). (setMemo (he_now h w, c) s, w))) (\<lambda>_. io_return c)) (s, w)))"

definition checkEmbeddings :: "'w health_env \<Rightarrow> ('w health_world, health_check option) io" where
  "checkEmbeddings h =
     io_bind (io_lift (require_config ''semanticCache'' (he_semantic h))) (\<lambda>cfg.
       if \<not> sc_enabled cfg then io_return None
       else case he_semanticCache h of
           None \<Rightarrow> io_return (Some (degraded ''Embedding service unavailable''))
         | Some svc \<Rightarrow>
             io_map Some (memo_probe h hs_embeddings (\<lambda>m s. s\<lparr>hs_embeddings := Some m\<rparr>) hs_embeddingsInFlight
               (io_map (\<lambda>available. if available then healthy ''Embedding service available'' else degraded ''Embedding service unavailable'')
                  (probeEmbedding svc))))"

definition checkVectorStore :: "'w health_env \<Rightarrow> ('w health_world, health_check option) io" where
  "checkVectorStore h =
     io_bind (io_lift (require_config ''semanticCache'' (he_semantic h))) (\<lambda>cfg.
       if \<not> sc_enabled cfg then io_return None
       else case he_vectorStore h of
           None \<Rightarrow> io_return (Some (degraded ''Vector store unavailable''))
         | Some store \<Rightarrow>
             io_map Some (memo_probe h hs_vectorStore (\<lambda>m s. s\<lparr>hs_vectorStore := Some m\<rparr>) hs_vectorStoreInFlight
               (io_map (\<lambda>p. if vp_available p then healthy (vp_message p) else degraded (vp_message p)) (probeIndex store))))"

definition redis_result :: "'w health_env \<Rightarrow> health_check \<Rightarrow> redis_check" where
  "redis_result h c = health_check.extend c \<lparr>hc_required = True, hc_consumers = getRedisConsumers (redis_required_by h)\<rparr>"

definition checkRedis :: "'w health_env \<Rightarrow> ('w health_world, redis_check) io" where
  "checkRedis h =
     (case he_ping h of
        None \<Rightarrow> io_return (redis_result h (degraded ''Redis required but unavailable''))
      | Some pingRedis \<Rightarrow>
          io_bind (outside pingRedis) (\<lambda>pingOk.
            if pingOk then io_return (redis_result h (healthy ''Redis available''))
            else io_bind (outside (he_isReady h)) (\<lambda>ready.
              io_return (redis_result h (degraded (if ready then ''Redis connected but ping failed'' else ''Redis required but unavailable''))))))"

section \<open>Readiness\<close>

definition not_unhealthy :: "health_status \<Rightarrow> bool" where
  "not_unhealthy st \<longleftrightarrow> st = Healthy \<or> st = Degraded"

definition evaluateReadiness :: "'w health_env \<Rightarrow> ('w health_world, readiness) io" where
  "evaluateReadiness h =
     io_bind (if isRedisRequired (redis_required_by h) then io_map Some (checkRedis h) else io_return None) (\<lambda>redisCheck.
     io_bind (checkEmbeddings h) (\<lambda>embeddingsCheck.
     io_bind (checkVectorStore h) (\<lambda>vectorStoreCheck.
       let configCheck = checkConfig h;
           cacheCheck = checkCache h (map_option hc_status redisCheck) (map_option hc_status embeddingsCheck) (map_option hc_status vectorStoreCheck);
           statuses = [hc_status configCheck, hc_status cacheCheck] @ (case redisCheck of None \<Rightarrow> [] | Some c \<Rightarrow> [hc_status c]) @
             (case embeddingsCheck of None \<Rightarrow> [] | Some c \<Rightarrow> [hc_status c]) @ (case vectorStoreCheck of None \<Rightarrow> [] | Some c \<Rightarrow> [hc_status c])
       in io_get (\<lambda>(s, w). \<lparr>rd_ready = list_all not_unhealthy statuses, rd_timestamp = he_iso h (he_now h w),
            rd_version = nullish (truthy_str (he_version h)) ''1.0.0'', rd_uptime = \<lfloor>he_uptime h w\<rfloor>,
            rd_checks = \<lparr>rd_config = configCheck, rd_cache = cacheCheck, rd_redis = redisCheck, rd_embeddings = embeddingsCheck,
              rd_vectorStore = vectorStoreCheck\<rparr>\<rparr>))))"

definition health_components :: "readiness_checks \<Rightarrow> (health_component \<times> health_status) list" where
  "health_components ch =
     [(CompConfig, hc_status (rd_config ch)), (CompCache, hc_status (rd_cache ch))] @
     (case rd_redis ch of None \<Rightarrow> [] | Some c \<Rightarrow> [(CompRedis, hc_status c)]) @
     (case rd_embeddings ch of None \<Rightarrow> [] | Some c \<Rightarrow> [(CompEmbeddings, hc_status c)]) @
     (case rd_vectorStore ch of None \<Rightarrow> [] | Some c \<Rightarrow> [(CompVectorStore, hc_status c)])"

definition publishMetrics :: "'w health_env \<Rightarrow> readiness \<Rightarrow> ('w health_world, unit) io" where
  "publishMetrics h r =
     io_update (\<lambda>(s, w).
       (if hs_lastReady s \<noteq> Some (rd_ready r) then s\<lparr>hs_lastReady := Some (rd_ready r)\<rparr> else s,
        he_gauges h \<lparr>hm_ready = rd_ready r, hm_components = health_components (rd_checks r)\<rparr> (rd_uptime r) w))"

definition getReadiness :: "'w health_env \<Rightarrow> ('w health_world, readiness) io" where
  "getReadiness h = io_bind (evaluateReadiness h) (\<lambda>r. io_bind (publishMetrics h r) (\<lambda>_. io_return r))"

definition runScrapeRefresh :: "'w health_env \<Rightarrow> ('w health_world, unit) io" where
  "runScrapeRefresh h = io_bind (evaluateReadiness h) (publishMetrics h)"

text \<open>The \<open>finally\<close> of the refresh stamps its time whether it succeeded or not.\<close>

definition stamp_scrape :: "'w health_env \<Rightarrow> ('w health_world, unit) io" where
  "stamp_scrape h = io_update (\<lambda>(s, w). (s\<lparr>hs_lastScrapeRefreshAt := he_now h w\<rparr>, w))"

definition refreshMetricsForScrape :: "'w health_env \<Rightarrow> ('w health_world, unit) io" where
  "refreshMetricsForScrape h = (\<lambda>(s, w).
     case hs_scrapeInFlight s of
       Some r \<Rightarrow> (r, (s, w))
     | None \<Rightarrow>
         if he_now h w - hs_lastScrapeRefreshAt s < SCRAPE_REFRESH_MS then (Inr (), (s, w))
         else io_bind (io_catch (runScrapeRefresh h) (\<lambda>e. io_bind (stamp_scrape h) (\<lambda>_. io_throw e))) (\<lambda>_. stamp_scrape h) (s, w))"

section \<open>Gauges (prometheus-app-metrics.adapter.ts)\<close>

fun healthStatusToGaugeValue :: "health_status \<Rightarrow> rat" where
  "healthStatusToGaugeValue Unhealthy = 0"
| "healthStatusToGaugeValue Degraded = 1 / 2"
| "healthStatusToGaugeValue Healthy = 1"

definition setComponentHealth :: "(health_component \<Rightarrow> rat \<Rightarrow> 'w \<Rightarrow> 'w) \<Rightarrow> health_component \<Rightarrow> health_status \<Rightarrow> 'w \<Rightarrow> 'w" where
  "setComponentHealth setGauge component st = setGauge component (healthStatusToGaugeValue st)"

definition syncHealthMetrics ::
  "(rat \<Rightarrow> 'w \<Rightarrow> 'w) \<Rightarrow> (health_component \<Rightarrow> rat \<Rightarrow> 'w \<Rightarrow> 'w) \<Rightarrow> health_snapshot \<Rightarrow> 'w \<Rightarrow> 'w" where
  "syncHealthMetrics setReady setGauge snapshot w =
     fold (\<lambda>(component, st). setComponentHealth setGauge component st) (hm_components snapshot) (setReady (if hm_ready snapshot then 1 else 0) w)"

definition setProcessUpTime :: "(int \<Rightarrow> 'w \<Rightarrow> 'w) \<Rightarrow> int \<Rightarrow> 'w \<Rightarrow> 'w" where
  "setProcessUpTime setUptime seconds = setUptime seconds"

section \<open>Readiness follows the configuration\<close>

lemma probeIndex_total: "never_throws (probeIndex env)"
  unfolding never_throws_def probeIndex_def
  by (auto simp: io_bind_apply io_catch_apply split: option.split prod.split sum.split)

lemma probeEmbedding_total:
  assumes "ss_config svc \<noteq> None"
  shows "never_throws (probeEmbedding svc)"
proof -
  obtain cfg where "ss_config svc = Some cfg" using assms by auto
  then show ?thesis unfolding probeEmbedding_def require_config_def by simp (intro total_intros)
qed

definition checks_ok :: "health_state \<Rightarrow> bool" where
  "checks_ok s \<longleftrightarrow>
     (\<forall>t c. hs_embeddings s = Some (t, c) \<or> hs_vectorStore s = Some (t, c) \<longrightarrow> hc_status c \<noteq> Unhealthy) \<and>
     (\<forall>c. hs_embeddingsInFlight s = Some c \<or> hs_vectorStoreInFlight s = Some c \<longrightarrow> hc_status c \<noteq> Unhealthy)"

definition healthy_run :: "('w health_world, 'a) io \<Rightarrow> ('a \<Rightarrow> bool) \<Rightarrow> bool" where
  "healthy_run m Q \<longleftrightarrow> (\<forall>s w. checks_ok s \<longrightarrow> (\<exists>x s' w'. m (s, w) = (Inr x, (s', w')) \<and> checks_ok s' \<and> Q x))"

lemma healthy_run_return: "Q x \<Longrightarrow> healthy_run (io_return x) Q"
  by (simp add: healthy_run_def)

lemma healthy_run_bind: "healthy_run m P \<Longrightarrow> (\<And>x. P x \<Longrightarrow> healthy_run (f x) Q) \<Longrightarrow> healthy_run (io_bind m f) Q"
  unfolding healthy_run_def io_bind_apply by (metis (mono_tags, lifting) old.prod.case old.sum.simps(6))

lemma healthy_run_outside: "never_throws m \<Longrightarrow> healthy_run (outside m) (\<lambda>_. True)"
  unfolding healthy_run_def outside_def never_throws_def by (auto split: prod.split) (metis prod.inject)

lemma healthy_run_map: "healthy_run m P \<Longrightarrow> (\<And>x. P x \<Longrightarrow> Q (f x)) \<Longrightarrow> healthy_run (io_map f m) Q"
  unfolding io_map_def by (rule healthy_run_bind [where P = P]) (auto intro: healthy_run_return)

lemma healthy_run_weaken: "healthy_run m P \<Longrightarrow> (\<And>x. P x \<Longrightarrow> Q x) \<Longrightarrow> healthy_run m Q"
  unfolding healthy_run_def by blast

lemma healthy_run_if: "(b \<Longrightarrow> healthy_run m Q) \<Longrightarrow> (\<not> b \<Longrightarrow> healthy_run n Q) \<Longrightarrow> healthy_run (if b then m else n) Q"
  by simp

abbreviation fine :: "('a health_check_scheme) \<Rightarrow> bool" where
  "fine c \<equiv> hc_status c \<noteq> Unhealthy"

lemma fine_simps [simp]:
  "fine (healthy m)" "fine (degraded m)" "hc_status (redis_result h c) = hc_status c" "not_unhealthy st \<longleftrightarrow> st \<noteq> Unhealthy"
  by (simp_all add: healthy_def degraded_def redis_result_def health_check.defs not_unhealthy_def) (metis health_status.exhaust health_status.distinct)

lemma healthy_run_memo:
  assumes probe: "never_throws probe" and fine: "returns probe fine"
    and memo: "\<And>s t c. checks_ok s \<Longrightarrow> memo s = Some (t, c) \<Longrightarrow> fine c" and flight: "\<And>s c. checks_ok s \<Longrightarrow> inFlight s = Some c \<Longrightarrow> fine c"
    and set: "\<And>s t c. checks_ok s \<Longrightarrow> fine c \<Longrightarrow> checks_ok (setMemo (t, c) s)"
  shows "healthy_run (memo_probe h memo setMemo inFlight probe) fine"
  unfolding healthy_run_def
proof (intro allI impI)
  fix s :: health_state and w
  assume ok: "checks_ok s"
  obtain c w' where p: "probe w = (Inr c, w')" using probe unfolding never_throws_def by blast
  then have "fine c" using fine unfolding returns_def by blast
  with p ok memo flight set show "\<exists>x s' w'. memo_probe h memo setMemo inFlight probe (s, w) = (Inr x, (s', w')) \<and> checks_ok s' \<and> fine x"
    by (auto simp: memo_probe_def outside_def io_bind_apply Let_def split: option.split)
qed

lemma checkEmbeddings_fine:
  assumes "he_semantic h = Some cfg" "\<And>svc. he_semanticCache h = Some svc \<Longrightarrow> ss_config svc \<noteq> None"
  shows "healthy_run (checkEmbeddings h) (\<lambda>r. (r \<noteq> None \<longleftrightarrow> sc_enabled cfg) \<and> (\<forall>c. r = Some c \<longrightarrow> fine c))"
proof (cases "sc_enabled cfg")
  case True
  have "healthy_run (memo_probe h hs_embeddings (\<lambda>m s. s\<lparr>hs_embeddings := Some m\<rparr>) hs_embeddingsInFlight
      (io_map (\<lambda>available. if available then healthy ''Embedding service available'' else degraded ''Embedding service unavailable'') (probeEmbedding svc))) fine"
    if "he_semanticCache h = Some svc" for svc
    using assms(2) [OF that]
    by (intro healthy_run_memo total_intros probeEmbedding_total) (auto simp: io_map_def checks_ok_def intro!: returns_intros split: if_splits)
  with True assms(1) show ?thesis
    by (auto simp: checkEmbeddings_def require_config_def intro!: healthy_run_return healthy_run_map [where P = fine] split: option.split)
qed (use assms(1) in \<open>simp add: checkEmbeddings_def require_config_def healthy_run_def\<close>)

lemma checkVectorStore_fine:
  assumes "he_semantic h = Some cfg"
  shows "healthy_run (checkVectorStore h) (\<lambda>r. (r \<noteq> None \<longleftrightarrow> sc_enabled cfg) \<and> (\<forall>c. r = Some c \<longrightarrow> fine c))"
proof (cases "sc_enabled cfg")
  case True
  have "healthy_run (memo_probe h hs_vectorStore (\<lambda>m s. s\<lparr>hs_vectorStore := Some m\<rparr>) hs_vectorStoreInFlight
      (io_map (\<lambda>p. if vp_available p then healthy (vp_message p) else degraded (vp_message p)) (probeIndex store))) fine" for store
    by (intro healthy_run_memo total_intros probeIndex_total) (auto simp: io_map_def checks_ok_def intro!: returns_intros split: if_splits)
  with True assms show ?thesis
    by (auto simp: checkVectorStore_def require_config_def intro!: healthy_run_return healthy_run_map [where P = fine] split: option.split)
qed (use assms in \<open>simp add: checkVectorStore_def require_config_def healthy_run_def\<close>)

lemma checkRedis_fine:
  assumes "\<And>p. he_ping h = Some p \<Longrightarrow> never_throws p" "never_throws (he_isReady h)"
  shows "healthy_run (checkRedis h) fine"
proof (cases "he_ping h")
  case (Some p)
  have "healthy_run (outside p) (\<lambda>_. True)" "healthy_run (outside (he_isReady h)) (\<lambda>_. True)"
    using assms Some by (auto intro: healthy_run_outside)
  then show ?thesis
    unfolding checkRedis_def Some by (auto intro!: healthy_run_bind [where P = "\<lambda>_. True"] healthy_run_if healthy_run_return)
qed (simp add: checkRedis_def healthy_run_return)

lemma checkCache_fine: "fine (checkCache h a b c)"
  by (simp add: checkCache_def Let_def)

lemma checkCache_healthy:
  "hc_status (checkCache h a b c) = Healthy \<longleftrightarrow>
     (rq_cacheEnabled (redis_required_by h) \<and> js_lower (nullish (map_option snd (he_cache h)) ''noop'') = ''redis'' \<longrightarrow> a = Some Healthy) \<and>
     (rq_semanticCacheEnabled (redis_required_by h) \<longrightarrow> b = Some Healthy \<and> c = Some Healthy)"
  by (auto simp: checkCache_def Let_def healthy_def degraded_def)

definition readiness_right :: "'w health_env \<Rightarrow> readiness \<Rightarrow> bool" where
  "readiness_right h r \<longleftrightarrow>
     (rd_ready r \<longleftrightarrow> he_gateway h \<noteq> None \<and> he_prompts h \<noteq> None) \<and>
     (rd_redis (rd_checks r) \<noteq> None \<longleftrightarrow> isRedisRequired (redis_required_by h)) \<and>
     (hc_status (rd_cache (rd_checks r)) = Healthy \<longleftrightarrow>
        (rq_cacheEnabled (redis_required_by h) \<and> js_lower (nullish (map_option snd (he_cache h)) ''noop'') = ''redis'' \<longrightarrow>
           map_option hc_status (rd_redis (rd_checks r)) = Some Healthy) \<and>
        (rq_semanticCacheEnabled (redis_required_by h) \<longrightarrow>
           map_option hc_status (rd_embeddings (rd_checks r)) = Some Healthy \<and> map_option hc_status (rd_vectorStore (rd_checks r)) = Some Healthy))"

lemma healthy_run_get: "(\<And>s w. Q (f (s, w))) \<Longrightarrow> healthy_run (io_get f) Q"
  by (simp add: healthy_run_def)

lemma checkConfig_fine: "fine (checkConfig h) \<longleftrightarrow> he_gateway h \<noteq> None \<and> he_prompts h \<noteq> None"
  by (auto simp: checkConfig_def healthy_def)

lemma evaluateReadiness_right:
  assumes "he_semantic h = Some cfg" "\<And>svc. he_semanticCache h = Some svc \<Longrightarrow> ss_config svc \<noteq> None"
    "\<And>p. he_ping h = Some p \<Longrightarrow> never_throws p" "never_throws (he_isReady h)"
  shows "healthy_run (evaluateReadiness h) (readiness_right h)"
proof -
  have redis: "healthy_run (if isRedisRequired (redis_required_by h) then io_map Some (checkRedis h) else io_return None)
      (\<lambda>r. (r \<noteq> None \<longleftrightarrow> isRedisRequired (redis_required_by h)) \<and> (\<forall>c. r = Some c \<longrightarrow> fine c))"
    using checkRedis_fine [OF assms(3,4)] by (auto intro: healthy_run_return elim: healthy_run_map)
  show ?thesis
    unfolding evaluateReadiness_def
    apply (rule healthy_run_bind [OF redis])
    apply (rule healthy_run_bind [OF checkEmbeddings_fine [OF assms(1,2)]], assumption)
    apply (rule healthy_run_bind [OF checkVectorStore_fine [OF assms(1)]])
    apply (unfold Let_def)
    apply (rule healthy_run_get)
    apply (auto simp: readiness_right_def checkCache_fine checkCache_healthy checkConfig_fine split: option.splits)
    done
qed


text \<open>A gateway with the exact cache in Redis whose Redis client never becomes ready, over the connection service.\<close>

definition redis_down_env :: "redis_conn health_env" where
  "redis_down_env =
     \<lparr>he_gateway = Some sample_schema_config, he_prompts = Some (ac_resolvedSystemPrompts redis_app), he_cache = Some (True, ''redis''),
      he_smartRateLimit = False, he_semantic = Some (ac_semanticCache redis_app),
      he_ping = Some (\<lambda>c. apfst Inr (ping redis_app (Inr ''PONG'') c)), he_isReady = (\<lambda>c. apfst Inr (isReady redis_app c)),
      he_semanticCache = None, he_vectorStore = None, he_now = cn_now, he_uptime = (\<lambda>_. 1), he_iso = (\<lambda>_. ''now''), he_version = None,
      he_gauges = (\<lambda>_ _ c. c)\<rparr>"


text \<open>Within five seconds of a probe its result is reused: the world is not touched.\<close>

lemma probe_memo:
  "hs_embeddings s = Some (t, c) \<Longrightarrow> he_now h w - t < PROBE_REFRESH_MS \<Longrightarrow> he_semantic h = Some cfg \<Longrightarrow> sc_enabled cfg \<Longrightarrow> he_semanticCache h = Some svc \<Longrightarrow>
   checkEmbeddings h (s, w) = (Inr (Some c), (s, w))"
  by (simp add: checkEmbeddings_def require_config_def io_map_def io_bind_apply memo_probe_def)

text \<open>The readiness gauge and the component gauges after a synchronisation: each present component has its value, an absent one keeps the old.\<close>

lemma sync_health_gauges:
  assumes "distinct (map fst (hm_components snap))"
  shows "snd (syncHealthMetrics (\<lambda>v (_, g). (v, g)) (\<lambda>c v (rdy, g). (rdy, g(c := v))) snap (r0, g0)) k =
     (case map_of (hm_components snap) k of Some st \<Rightarrow> healthStatusToGaugeValue st | None \<Rightarrow> g0 k)"
proof -
  have "snd (fold (\<lambda>(c, st). setComponentHealth (\<lambda>c v (rdy, g). (rdy, g(c := v))) c st) cs (r, g)) k =
      (case map_of cs k of Some st \<Rightarrow> healthStatusToGaugeValue st | None \<Rightarrow> g k)" if "distinct (map fst cs)" for cs g and r :: rat
    using that
  proof (induction cs arbitrary: r g)
    case (Cons x cs)
    then show ?case by (cases x) (force simp: setComponentHealth_def map_of_eq_None_iff split: option.split dest: map_of_SomeD)
  qed simp
  with assms show ?thesis by (simp add: syncHealthMetrics_def)
qed

end
