(* ===== verification/Cli_Config.thy ===== *)
theory Cli_Config
  imports App_Configuration Models_Catalog
begin

text \<open>
  What the commands of the \<open>gateway\<close> command line share: names derived from identifiers, validators of single answers, the default policy
  of a model (\<open>cli/utils\<close>, \<open>cli/constants\<close>), loading and persisting the configuration
  (\<open>cli-config-loader.service.ts\<close>, \<open>config-persistence.service.ts\<close>), the prompt files, and the agent mode (\<open>cli/agent\<close>). Files, environment and clock are
  those of \<open>Node_Files\<close>; random text is an argument.

  A validator answers \<open>None\<close> for \<open>true\<close> and \<open>Some\<close> with the message otherwise. The texts on the terminal are left out.
\<close>

section \<open>Names and answers (provider-id.util.ts, api-key-validation.util.ts, provider-base-url.cli.util.ts)\<close>

definition js_upper :: "string \<Rightarrow> string" where
  "js_upper = map js_upper_char"

definition char_between :: "char \<Rightarrow> char \<Rightarrow> char \<Rightarrow> bool" where
  "char_between lo hi c \<longleftrightarrow> of_char lo \<le> (of_char c :: nat) \<and> of_char c \<le> (of_char hi :: nat)"

definition env_slug :: "string \<Rightarrow> string" where
  "env_slug instanceId = map (\<lambda>c. if char_between (CHR ''A'') (CHR ''Z'') c \<or> is_digit c then c else CHR ''_'') (js_upper (js_trim instanceId))"

definition deriveApiKeyRef :: "string \<Rightarrow> string" where
  "deriveApiKeyRef instanceId = env_slug instanceId @ ''_API_KEY''"

definition deriveBaseUrlRef :: "string \<Rightarrow> string" where
  "deriveBaseUrlRef instanceId = env_slug instanceId @ ''_BASE_URL''"

definition defaultProviderInstanceId :: "provider_type \<Rightarrow> string" where
  "defaultProviderInstanceId t = provider_type_string t @ ''-primary''"

definition deriveGatewayKeyRef :: "string \<Rightarrow> string" where
  "deriveGatewayKeyRef clientId = ''GATEWAY_KEY_'' @ map (\<lambda>c. if c = CHR ''-'' then CHR ''_'' else c) (js_upper (js_trim clientId))"

definition validateProviderApiKey :: "provider_type \<Rightarrow> string \<Rightarrow> string option" where
  "validateProviderApiKey t v =
     (let trimmed = js_trim v in
      if trimmed = [] then (if isApiKeyRequiredForProviderType t then Some ''API key is required.'' else None)
      else if t = PAnthropic \<and> \<not> starts_with ''sk-ant-'' trimmed then Some ''ANTHROPIC_API_KEY must start with \"sk-ant-\"''
      else if t = PGoogle \<and> \<not> (starts_with ''AIza'' trimmed \<or> starts_with ''AQ.'' trimmed)
        then Some ''GOOGLE_API_KEY must start with \"AIza\" or \"AQ.\"''
      else None)"

definition validateCliProviderBaseUrl :: "(string \<Rightarrow> string option) \<Rightarrow> string \<Rightarrow> string option" where
  "validateCliProviderBaseUrl urlProtocol input =
     (case urlProtocol (js_trim input) of
        None \<Rightarrow> Some ''Enter a valid URL''
      | Some p \<Rightarrow> if p \<noteq> ''http:'' \<and> p \<noteq> ''https:'' then Some ''URL must use http or https'' else None)"

definition normalizeCliProviderBaseUrl :: "string \<Rightarrow> string" where
  "normalizeCliProviderBaseUrl input = strip_slash (js_trim input)"

definition defaultBaseUrlForOpenAiProviderType :: "provider_type \<Rightarrow> string" where
  "defaultBaseUrlForOpenAiProviderType t = (if t = POpenAI then ''https://api.openai.com/v1'' else ''http://localhost:11434/v1'')"

text \<open>The key generator (key-generator.service.ts); \<open>random\<close> is the base64url text of 24 random bytes.\<close>

definition generateMasterKey :: "string \<Rightarrow> string" where
  "generateMasterKey random = ''gw_mk_'' @ random"

definition generateGatewayClientKey :: "string \<Rightarrow> string \<Rightarrow> string" where
  "generateGatewayClientKey random clientId =
     ''gw_'' @ map (\<lambda>c. if char_between (CHR ''a'') (CHR ''z'') c \<or> is_digit c then c else CHR ''_'') (js_lower (js_trim clientId)) @ ''_'' @ random"

section \<open>Rate limits of a client (client-rate-limit.util.ts)\<close>

record cli_rate_limit =
  crl_rps :: nat
  crl_burst :: nat
  crl_maxConcurrentStreams :: "nat option"

definition DEFAULT_CLIENT_MAX_CONCURRENT_STREAMS :: nat where
  "DEFAULT_CLIENT_MAX_CONCURRENT_STREAMS = 3"

definition buildClientRateLimitConfig :: "cli_rate_limit \<Rightarrow> rate_limit_row" where
  "buildClientRateLimitConfig r =
     \<lparr>rl_rps = crl_rps r, rl_burst = crl_burst r,
      rl_maxConcurrentStreams = (case crl_maxConcurrentStreams r of
          Some n \<Rightarrow> if n > 0 then n else DEFAULT_CLIENT_MAX_CONCURRENT_STREAMS | None \<Rightarrow> DEFAULT_CLIENT_MAX_CONCURRENT_STREAMS)\<rparr>"

section \<open>Default policy of a model (thinking-capable-models.ts, anthropic-sampling-params.util.ts, default-model-policy.util.ts)\<close>

text \<open>An anchored pattern is a list of character tests that the start of the lower-cased model id must pass.\<close>

fun matches_prefix :: "(char \<Rightarrow> bool) list \<Rightarrow> string \<Rightarrow> bool" where
  "matches_prefix [] s = True"
| "matches_prefix (p # ps) [] = False"
| "matches_prefix (p # ps) (c # s) = (p c \<and> matches_prefix ps s)"

definition lit :: "string \<Rightarrow> (char \<Rightarrow> bool) list" where
  "lit = map (=)"

definition digit_from :: "char \<Rightarrow> char \<Rightarrow> bool" where
  "digit_from d c \<longleftrightarrow> char_between d (CHR ''9'') c"

definition THINKING_CAPABLE_MODEL_PATTERNS :: "provider_type \<Rightarrow> (char \<Rightarrow> bool) list list" where
  "THINKING_CAPABLE_MODEL_PATTERNS t =
     (case t of
        PAnthropic \<Rightarrow> [lit ''claude-opus-4-'', lit ''claude-sonnet-4-'' @ [digit_from (CHR ''5'')], lit ''claude-sonnet-4-'' @ [is_digit, is_digit],
          lit ''claude-sonnet-'' @ [digit_from (CHR ''5'')] @ lit ''-'']
      | PGoogle \<Rightarrow> [lit ''gemini-3.'', lit ''gemini-'' @ [digit_from (CHR ''4'')] @ lit ''.'']
      | POpenAI \<Rightarrow> [lit ''o'' @ [is_digit], lit ''gpt-5'']
      | POpenAICompatible \<Rightarrow> [])"

definition isThinkingCapableModel :: "string \<Rightarrow> provider_type \<Rightarrow> bool" where
  "isThinkingCapableModel modelId t = list_ex (\<lambda>p. matches_prefix p (js_lower modelId)) (THINKING_CAPABLE_MODEL_PATTERNS t)"

definition getRecommendedMaxOutputTokens :: "string \<Rightarrow> provider_type \<Rightarrow> rat" where
  "getRecommendedMaxOutputTokens modelId t = (if isThinkingCapableModel modelId t then 8192 else 1024)"

definition ANTHROPIC_NO_SAMPLING_PARAMS_PATTERNS :: "(char \<Rightarrow> bool) list list" where
  "ANTHROPIC_NO_SAMPLING_PARAMS_PATTERNS =
     [lit ''claude-opus-4-'' @ [digit_from (CHR ''7'')], lit ''claude-opus-4-'' @ [is_digit, is_digit], lit ''claude-sonnet-5'',
      lit ''claude-sonnet-'' @ [digit_from (CHR ''5'')] @ lit ''-'']"

definition anthropicModelRejectsSamplingParams :: "string \<Rightarrow> bool" where
  "anthropicModelRejectsSamplingParams modelId = list_ex (\<lambda>p. matches_prefix p (js_lower modelId)) ANTHROPIC_NO_SAMPLING_PARAMS_PATTERNS"

definition providerModelRejectsSamplingParams :: "string \<Rightarrow> provider_type \<Rightarrow> bool" where
  "providerModelRejectsSamplingParams modelId t = (if t \<noteq> PAnthropic then False else anthropicModelRejectsSamplingParams modelId)"

definition DEFAULT_MODELS :: "provider_type \<Rightarrow> string" where
  "DEFAULT_MODELS t = (case t of PAnthropic \<Rightarrow> ''claude-sonnet-4-5-20250929'' | PGoogle \<Rightarrow> ''gemini-2.5-flash'' | POpenAI \<Rightarrow> ''gpt-4o''
     | POpenAICompatible \<Rightarrow> ''llama3.2'')"

definition DEFAULT_MODEL_ALLOW_OVERRIDES :: "string list" where
  "DEFAULT_MODEL_ALLOW_OVERRIDES =
     [''temperature'', ''maxOutputTokens'', ''topP'', ''topK'', ''stop'', ''frequencyPenalty'', ''presencePenalty'', ''seed'', ''responseFormat'',
      ''thinkingEnabled'', ''thinkingBudget'']"

definition SAMPLING_OVERRIDE_KEYS :: "string list" where
  "SAMPLING_OVERRIDE_KEYS = [''temperature'', ''topP'', ''topK'']"

definition getMaxOutputTokensBound :: "string \<Rightarrow> provider_type \<Rightarrow> rat" where
  "getMaxOutputTokensBound modelId t = (if isThinkingCapableModel modelId t then 8192 else 1024)"

definition buildDefaultModelCapabilities :: "string \<Rightarrow> provider_type \<Rightarrow> capabilities" where
  "buildDefaultModelCapabilities modelId t =
     \<lparr>cap_streaming = Some True, cap_tools = Some True, cap_thinking = (if isThinkingCapableModel modelId t then Some True else None)\<rparr>"

definition buildDefaultModelPolicy :: "string \<Rightarrow> provider_type \<Rightarrow> policy_config" where
  "buildDefaultModelPolicy modelId t =
     (let supportsThinking = isThinkingCapableModel modelId t; rejectsSampling = providerModelRejectsSamplingParams modelId t in
      \<lparr>pol_timeoutMs = Some 30000, pol_retry = Some \<lparr>rc_maxAttempts = Some 3, rc_onStatus = Some [429, 500, 502, 503, 504]\<rparr>,
       pol_params = Some
         \<lparr>defaults = \<lparr>def_temperature = (if rejectsSampling then None else Some (7 / 10)), def_maxOutputTokens = Some (getRecommendedMaxOutputTokens modelId t),
            def_topP = None, def_frequencyPenalty = None, def_presencePenalty = None, def_seed = None,
            def_thinkingEnabled = (if supportsThinking then Some False else None)\<rparr>,
          allowOverrides = filter (\<lambda>k. \<not> rejectsSampling \<or> k \<notin> set SAMPLING_OVERRIDE_KEYS) DEFAULT_MODEL_ALLOW_OVERRIDES,
          bounds = \<lparr>bnd_temperature = (if rejectsSampling then None else Some (0, 2)), bnd_maxOutputTokens = Some (1, getMaxOutputTokensBound modelId t),
            bnd_topP = (if rejectsSampling then None else Some (0, 1)), bnd_frequencyPenalty = Some (- 2, 2), bnd_presencePenalty = Some (- 2, 2)\<rparr>\<rparr>\<rparr>)"

definition opt_or :: "'a option \<Rightarrow> 'a option \<Rightarrow> 'a option" where
  "opt_or x y = (case x of None \<Rightarrow> y | Some _ \<Rightarrow> x)"

definition params_of :: "policy_config \<Rightarrow> params_config" where
  "params_of p = nullish (pol_params p) no_params_config"

definition retry_of :: "policy_config \<Rightarrow> retry_config" where
  "retry_of p = nullish (pol_retry p) \<lparr>rc_maxAttempts = None, rc_onStatus = None\<rparr>"

definition syncPolicySamplingForModel :: "policy_config option \<Rightarrow> string \<Rightarrow> provider_type \<Rightarrow> policy_config" where
  "syncPolicySamplingForModel policy modelId t =
     (let fresh = buildDefaultModelPolicy modelId t; existing = nullish policy fresh;
          rejectsSampling = providerModelRejectsSamplingParams modelId t;
          ed = defaults (params_of existing); fd = defaults (params_of fresh);
          d = fd\<lparr>def_maxOutputTokens := opt_or (def_maxOutputTokens ed) (def_maxOutputTokens fd),
            def_thinkingEnabled := (if def_thinkingEnabled ed \<noteq> None \<and> def_thinkingEnabled fd \<noteq> None then def_thinkingEnabled ed else def_thinkingEnabled fd),
            def_temperature := (if \<not> rejectsSampling \<and> def_temperature ed \<noteq> None then def_temperature ed else def_temperature fd)\<rparr>
      in \<lparr>pol_timeoutMs = opt_or (pol_timeoutMs existing) (pol_timeoutMs fresh),
          pol_retry = Some \<lparr>rc_maxAttempts = opt_or (rc_maxAttempts (retry_of existing)) (rc_maxAttempts (retry_of fresh)),
            rc_onStatus = opt_or (rc_onStatus (retry_of existing)) (rc_onStatus (retry_of fresh))\<rparr>,
          pol_params = Some \<lparr>defaults = d, allowOverrides = allowOverrides (params_of fresh),
            bounds = (bounds (params_of fresh))\<lparr>bnd_maxOutputTokens :=
              opt_or (bnd_maxOutputTokens (bounds (params_of existing))) (bnd_maxOutputTokens (bounds (params_of fresh)))\<rparr>\<rparr>\<rparr>)"

section \<open>Consequences of a change (effective-config-preview.util.ts)\<close>

definition countActiveModelsAfterProviderChange :: "gateway_config \<Rightarrow> string list \<Rightarrow> string list \<Rightarrow> nat" where
  "countActiveModelsAfterProviderChange cfg disabledInstanceIds removedInstanceIds =
     length (filter (\<lambda>(a, m). mc_providerInstance m \<notin> set removedInstanceIds \<and>
       (case map_of (gw_providers cfg) (mc_providerInstance m) of
          None \<Rightarrow> False | Some p \<Rightarrow> mc_providerInstance m \<notin> set disabledInstanceIds \<and> pic_enabled p)) (gw_models cfg))"

definition isLastModelInConfig :: "gateway_config \<Rightarrow> string \<Rightarrow> bool" where
  "isLastModelInConfig cfg a \<longleftrightarrow> length (gw_models cfg) = 1 \<and> map_of (gw_models cfg) a \<noteq> None"

definition countModelsForInstance :: "gateway_config \<Rightarrow> string \<Rightarrow> nat" where
  "countModelsForInstance cfg i = length (filter (\<lambda>(a, m). mc_providerInstance m = i) (gw_models cfg))"

definition isLastModelForEnabledProvider :: "gateway_config \<Rightarrow> string \<Rightarrow> bool" where
  "isLastModelForEnabledProvider cfg a =
     (case map_of (gw_models cfg) a of
        None \<Rightarrow> False
      | Some m \<Rightarrow> (case map_of (gw_providers cfg) (mc_providerInstance m) of
          None \<Rightarrow> False
        | Some p \<Rightarrow> pic_enabled p \<and> countModelsForInstance cfg (mc_providerInstance m) = 1))"

section \<open>Persisting (config-persistence.service.ts)\<close>

definition normalizeGatewayConfigForWrite :: "gateway_config \<Rightarrow> gateway_config" where
  "normalizeGatewayConfigForWrite cfg = cfg\<lparr>gw_providers := map (\<lambda>(i, row). (i, row\<lparr>pic_enabled := (pic_enabled row \<noteq> False)\<rparr>)) (gw_providers cfg)\<rparr>"

definition effective_check :: "node_lib \<Rightarrow> bool \<Rightarrow> gateway_config \<Rightarrow> (node_world, unit) io" where
  "effective_check lib allowMissingProviderSecrets cfg =
     io_bind (dotenvConfig lib) (\<lambda>_.
     io_bind (io_get nw_env) (\<lambda>env.
       case buildEffectiveGatewayConfig (nl_urlProtocol lib) env allowMissingProviderSecrets cfg of
         Inr _ \<Rightarrow> io_return ()
       | Inl e \<Rightarrow> io_throw (plain_error (nl_render lib ''Configuration would fail at application startup:'' [error_message e]))))"

definition persistConfig :: "node_lib \<Rightarrow> bool \<Rightarrow> bool \<Rightarrow> gateway_config \<Rightarrow> (node_world, gateway_config) io" where
  "persistConfig lib skipEffectiveCheck allowMissingProviderSecrets cfg =
     (if config_issues cfg \<noteq> [] then io_throw (plain_error (nl_render lib ''Configuration validation failed:'' (config_issues cfg)))
      else io_bind (if skipEffectiveCheck then io_return () else effective_check lib allowMissingProviderSecrets cfg) (\<lambda>_.
           io_bind (backupFile lib ''gateway.config.yaml'') (\<lambda>_.
           io_bind (writeYaml lib ''gateway.config.yaml'' (normalizeGatewayConfigForWrite cfg)) (\<lambda>_.
             io_return (normalizeGatewayConfigForWrite cfg)))))"

section \<open>Loading (cli-config-loader.service.ts)\<close>

definition loadRawConfig :: "node_lib \<Rightarrow> (node_world, gateway_config) io" where
  "loadRawConfig lib =
     io_bind (fs_exists ''gateway.config.yaml'') (\<lambda>there.
       if \<not> there then io_throw (plain_error (''Configuration file not found: gateway.config.yaml Run \"gateway config:init\" to create it.''))
       else io_catch
         (io_bind (fs_readFile ''gateway.config.yaml'') (\<lambda>content.
            case nl_decode lib content of
              YamlSyntax m \<Rightarrow> io_throw (plain_error m)
            | WrongTypes issues \<Rightarrow> io_throw (plain_error (''Configuration validation failed:'' @ js_join '', '' issues))
            | Typed cfg \<Rightarrow>
                if config_issues cfg \<noteq> [] then io_throw (plain_error (''Configuration validation failed:'' @ js_join '', '' (config_issues cfg)))
                else io_return cfg))
         (\<lambda>e. if js_includes ''validation failed'' (error_message e) then io_throw e
              else io_throw (plain_error (''Failed to parse configuration file: '' @ error_message e))))"

definition isBoilerplateConfig :: "node_lib \<Rightarrow> (node_world, bool) io" where
  "isBoilerplateConfig lib =
     io_catch
       (io_map (\<lambda>cfg.
            js_includes ''PLACEHOLDER'' (masterKeyRef cfg) \<or> js_includes ''placeholder'' (masterKeyRef cfg) \<or>
            list_ex (\<lambda>(i, _). js_includes ''placeholder'' i) (gw_providers cfg) \<or> list_ex (\<lambda>(i, _). js_includes ''placeholder'' i) (gw_clients cfg))
          (loadRawConfig lib))
       (\<lambda>_. io_return False)"

definition missing_env :: "env_vars \<Rightarrow> string \<Rightarrow> string list" where
  "missing_env env r = (if env_value env r = [] then [r] else [])"

definition provider_missing :: "env_vars \<Rightarrow> string \<times> provider_instance_config \<Rightarrow> string list" where
  "provider_missing env = (\<lambda>(i, p).
     if \<not> pic_enabled p then []
     else (if isApiKeyRequiredForProviderType (pic_type p) then missing_env env (pic_apiKeyRef p) else []) @
       (case truthy_str (pic_baseUrlRef p) of Some r \<Rightarrow> if isOpenAiProviderType (pic_type p) then missing_env env r else [] | None \<Rightarrow> []))"

definition loadWithEnvCheck :: "node_lib \<Rightarrow> (node_world, gateway_config \<times> string list) io" where
  "loadWithEnvCheck lib =
     io_bind (loadRawConfig lib) (\<lambda>cfg.
     io_bind (io_get nw_env) (\<lambda>env.
       io_return (cfg, missing_env env (masterKeyRef cfg) @ concat (map (provider_missing env) (gw_providers cfg)) @
         concat (map (\<lambda>(i, c). missing_env env (cc_gatewayKeyRef c)) (gw_clients cfg)))))"

section \<open>Prompt files (config-generator.service.ts)\<close>

definition generateModelPromptTemplate :: "string \<Rightarrow> string" where
  "generateModelPromptTemplate modelAlias' = js_join [LF]
     [''# Model-specific prompt: '' @ modelAlias',
      ''  '',
      ''  This prompt is specific to the \"'' @ modelAlias' @ ''\" model.'',
      ''  '',
      ''  ## Model Configuration'',
      ''  '',
      ''  [TODO: Add model-specific instructions here]'',
      ''  '',
      ''  ## Use Cases'',
      ''  '',
      ''  [TODO: Describe when this model should be used]'',
      ''  '',
      ''  ## Special Considerations'',
      ''  '',
      ''  [TODO: Add any special handling for this model]'',
      ''  '',
      ''  ---'',
      ''  '',
      ''  *This is a boilerplate. Edit this file to customize the prompt for the \"'' @ modelAlias' @ ''\" model.*'',
      ''  '']"

text \<open>A file that exists is kept.\<close>

definition generateModelPrompt :: "string \<Rightarrow> (node_world, string option) io" where
  "generateModelPrompt modelAlias' =
     io_bind (ensureDir ''src/config/system-prompt/models'') (\<lambda>_.
     io_bind (fs_exists (model_prompt_path modelAlias')) (\<lambda>there.
       if there then io_return None
       else io_bind (fs_writeFile (model_prompt_path modelAlias') (generateModelPromptTemplate modelAlias')) (\<lambda>_. io_return (Some (model_prompt_path modelAlias')))))"

section \<open>Agent mode (cli/agent)\<close>

record cli_mode_flags =
  fl_agent :: "bool option"
  fl_answers :: "string option"
  fl_json :: "bool option"
  fl_deferSecrets :: "bool option"
  fl_force :: "bool option"
  fl_yes :: "bool option"

record cli_mode =
  cm_isAgent :: bool
  cm_json :: bool
  cm_deferSecrets :: bool
  cm_force :: bool
  cm_answersPath :: "string option"

definition resolveCliMode :: "cli_mode_flags \<Rightarrow> cli_mode" where
  "resolveCliMode f =
     \<lparr>cm_isAgent = (fl_agent f = Some True), cm_json = (fl_json f = Some True),
      cm_deferSecrets = (if fl_agent f = Some True then fl_deferSecrets f \<noteq> Some False else fl_deferSecrets f = Some True),
      cm_force = (fl_force f = Some True \<or> fl_yes f = Some True), cm_answersPath = truthy_str (map_option js_trim (fl_answers f))\<rparr>"

definition markAgentRuntime :: "cli_mode \<Rightarrow> (node_world, unit) io" where
  "markAgentRuntime m = io_update (\<lambda>w. if cm_isAgent m then w\<lparr>nw_env := (nw_env w)(''GATEWAY_CLI_AGENT'' \<mapsto> ''1'')\<rparr> else w)"

definition assertAgentHasAnswers :: "cli_mode \<Rightarrow> string \<Rightarrow> unit result" where
  "assertAgentHasAnswers m command =
     (if cm_isAgent m \<and> cm_answersPath m = None
      then Inl (plain_error (''[AGENT] '' @ command @ '' requires --answers <path> (or omit --agent for interactive mode).'')) else Inr ())"

text \<open>The default argument of \<open>assertInteractiveAllowed\<close> is never an agent mode, so the variable decides.\<close>

definition assertInteractiveAllowed :: "string \<Rightarrow> (node_world, unit) io" where
  "assertInteractiveAllowed context' =
     io_bind (io_get nw_env) (\<lambda>env.
       if env ''GATEWAY_CLI_AGENT'' = Some ''1''
       then io_throw (plain_error (''[AGENT] Refusing interactive prompt in agent mode ('' @ context' @ ''). Use --answers instead.'')) else io_return ())"

datatype agent_status = StatusSuccess | StatusAwaitingSecrets | StatusError

datatype secret_reason = ReasonProviderApiKey | ReasonProviderBaseUrl | ReasonSentryDsn | ReasonMasterKey | ReasonClientGatewayKey

record pending_secret =
  ps_envRef :: string
  ps_reason :: secret_reason
  ps_providerInstance :: "string option"
  ps_clientId :: "string option"

record agent_report =
  ar_ok :: bool
  ar_status :: agent_status
  ar_command :: string
  ar_files :: "string list"
  ar_pendingSecrets :: "pending_secret list"
  ar_generatedKeyRefs :: "string list"
  ar_errors :: "string list"

definition exitCodeForReport :: "agent_report \<Rightarrow> nat" where
  "exitCodeForReport r = (if ar_status r = StatusAwaitingSecrets then 2 else if ar_status r = StatusError \<or> \<not> ar_ok r then 1 else 0)"

definition pending_for :: "secret_reason \<Rightarrow> string option \<Rightarrow> string option \<Rightarrow> string \<Rightarrow> (node_world, pending_secret list) io" where
  "pending_for why inst cl r =
     io_map (\<lambda>v. if js_trim (nullish v []) = [] then [\<lparr>ps_envRef = r, ps_reason = why, ps_providerInstance = inst, ps_clientId = cl\<rparr>] else []) (getVar r)"

fun pending_all :: "(node_world, pending_secret list) io list \<Rightarrow> (node_world, pending_secret list) io" where
  "pending_all [] = io_return []"
| "pending_all (m # ms) = io_bind m (\<lambda>p. io_bind (pending_all ms) (\<lambda>ps. io_return (p @ ps)))"

definition provider_pending :: "string \<times> provider_instance_config \<Rightarrow> (node_world, pending_secret list) io list" where
  "provider_pending = (\<lambda>(i, p).
     if \<not> pic_enabled p then []
     else (if isApiKeyRequiredForProviderType (pic_type p) then [pending_for ReasonProviderApiKey (Some i) None (pic_apiKeyRef p)] else []) @
       (case truthy_str (pic_baseUrlRef p) of
          Some r \<Rightarrow> if isOpenAiProviderType (pic_type p) then [pending_for ReasonProviderBaseUrl (Some i) None r] else [] | None \<Rightarrow> []))"

definition sentry_pending :: "(node_world, pending_secret list) io" where
  "sentry_pending =
     io_bind (getVar ''SENTRY_ENABLED'') (\<lambda>v.
       if js_lower (js_trim (nullish v [])) \<in> {''true'', ''1''} then pending_for ReasonSentryDsn None None ''SENTRY_DSN'' else io_return [])"

definition collectPendingSecrets :: "bool \<Rightarrow> bool \<Rightarrow> bool \<Rightarrow> gateway_config \<Rightarrow> (node_world, pending_secret list) io" where
  "collectPendingSecrets includeClientKeys includeMasterKey includeOperatorEnv cfg =
     pending_all
       ((if includeMasterKey then [pending_for ReasonMasterKey None None (masterKeyRef cfg)] else []) @
        concat (map provider_pending (gw_providers cfg)) @
        (if includeClientKeys then map (\<lambda>(i, c). pending_for ReasonClientGatewayKey None (Some i) (cc_gatewayKeyRef c)) (gw_clients cfg) else []) @
        (if includeOperatorEnv then [sentry_pending] else []))"

section \<open>Policies satisfy the schema\<close>

lemmas name_eval = deriveApiKeyRef_def deriveBaseUrlRef_def deriveGatewayKeyRef_def env_slug_def js_trim_def js_whitespace_def js_upper_def js_upper_char_def
  char_between_def is_digit_def

lemmas rejects_eval = providerModelRejectsSamplingParams_def anthropicModelRejectsSamplingParams_def ANTHROPIC_NO_SAMPLING_PARAMS_PATTERNS_def lit_def digit_from_def
  char_between_def js_lower_def js_lower_char_def js_trim_def js_whitespace_def

lemmas policy_defs = buildDefaultModelPolicy_def syncPolicySamplingForModel_def params_of_def retry_of_def no_params_config_def Let_def

lemma max_tokens_bounds: "getRecommendedMaxOutputTokens m t = getMaxOutputTokensBound m t" "getMaxOutputTokensBound m t \<in> {1024, 8192}"
  by (simp_all add: getRecommendedMaxOutputTokens_def getMaxOutputTokensBound_def)

lemma bad_Nil [simp]: "bad b p = [] \<longleftrightarrow> \<not> b"
  by (simp add: bad_def)

definition samples_nothing :: "policy_config \<Rightarrow> bool" where
  "samples_nothing p \<longleftrightarrow>
     def_temperature (defaults (params_of p)) = None \<and> def_topP (defaults (params_of p)) = None \<and>
     bnd_temperature (bounds (params_of p)) = None \<and> bnd_topP (bounds (params_of p)) = None \<and>
     set (allowOverrides (params_of p)) \<inter> set SAMPLING_OVERRIDE_KEYS = {}"

definition opt_ok :: "('a \<Rightarrow> bool) \<Rightarrow> 'a option \<Rightarrow> bool" where
  "opt_ok P x \<longleftrightarrow> (case x of None \<Rightarrow> True | Some v \<Rightarrow> P v)"

lemma opt_ok_simps [simp]: "opt_ok P None" "opt_ok P (Some v) = P v"
  by (simp_all add: opt_ok_def)

lemma opt_ok_or: "opt_ok P x \<Longrightarrow> opt_ok P y \<Longrightarrow> opt_ok P (opt_or x y)"
  by (cases x) (simp_all add: opt_or_def)

lemma opt_or_idem [simp]: "opt_or (opt_or x y) y = opt_or x y" "opt_or (Some v) y = Some v" "opt_or None y = y"
  by (cases x; cases y; simp add: opt_or_def) (simp_all add: opt_or_def)

lemma policy_ok_iff:
  "policy_issues p = [] \<longleftrightarrow> opt_ok (\<lambda>n. 1 \<le> n) (pol_timeoutMs p) \<and> opt_ok (\<lambda>n. 1 \<le> n \<and> n \<le> 5) (rc_maxAttempts (retry_of p)) \<and>
     opt_ok (list_all (\<lambda>n. 1 \<le> n)) (rc_onStatus (retry_of p)) \<and> defaults_issues (defaults (params_of p)) = [] \<and> bounds_issues (bounds (params_of p)) = []"
proof -
  have "defaults_issues (defaults no_params_config) = []" "bounds_issues (bounds no_params_config) = []"
    by (simp_all add: no_params_config_def defaults_issues_def bounds_issues_def outside_def not_integer_def below_def)
  then show ?thesis
    by (cases "pol_timeoutMs p"; cases "pol_retry p"; cases "pol_params p")
      (auto simp: policy_issues_def retry_of_def params_of_def below_def opt_ok_def list_ex_iff list_all_iff not_less Suc_le_eq intro!: gr0I split: option.split)
qed

lemma defaults_ok_iff:
  "defaults_issues d = [] \<longleftrightarrow> opt_ok (\<lambda>x. 0 \<le> x \<and> x \<le> 2) (def_temperature d) \<and> opt_ok (\<lambda>x. of_int \<lfloor>x\<rfloor> = x \<and> 1 \<le> x) (def_maxOutputTokens d) \<and>
     opt_ok (\<lambda>x. 0 \<le> x \<and> x \<le> 1) (def_topP d) \<and> opt_ok (\<lambda>x. - 2 \<le> x \<and> x \<le> 2) (def_frequencyPenalty d) \<and>
     opt_ok (\<lambda>x. - 2 \<le> x \<and> x \<le> 2) (def_presencePenalty d) \<and> opt_ok (\<lambda>x. of_int \<lfloor>x\<rfloor> = x) (def_seed d)"
proof -
  have "\<not> outside v lo hi \<longleftrightarrow> opt_ok (\<lambda>x. lo \<le> x \<and> x \<le> hi) v" "\<not> not_integer v \<longleftrightarrow> opt_ok (\<lambda>x. of_int \<lfloor>x\<rfloor> = x) v"
    "\<not> (not_integer v \<or> below v 1) \<longleftrightarrow> opt_ok (\<lambda>x. of_int \<lfloor>x\<rfloor> = x \<and> 1 \<le> x) v" for v lo hi
    by (cases v; auto simp: outside_def not_integer_def below_def)+
  then show ?thesis unfolding defaults_issues_def append_is_Nil_conv bad_Nil by (simp only:)
qed

lemma bounds_ok_iff:
  "bounds_issues b = [] \<longleftrightarrow> opt_ok (\<lambda>(lo, hi). 0 \<le> lo \<and> hi \<le> 2) (bnd_temperature b) \<and> opt_ok (\<lambda>(lo, hi). 1 \<le> lo \<and> hi \<le> 8192) (bnd_maxOutputTokens b)"
  by (cases "bnd_temperature b"; cases "bnd_maxOutputTokens b") (auto simp: bounds_issues_def not_less)

lemma default_fields:
  "pol_timeoutMs (buildDefaultModelPolicy m t) = Some 30000" "rc_maxAttempts (retry_of (buildDefaultModelPolicy m t)) = Some 3"
  "rc_onStatus (retry_of (buildDefaultModelPolicy m t)) = Some [429, 500, 502, 503, 504]"
  by (simp_all add: policy_defs)

lemma default_policy_ok: "policy_issues (buildDefaultModelPolicy m t) = []"
proof -
  have "defaults_issues (defaults (params_of (buildDefaultModelPolicy m t))) = []"
    by (simp add: defaults_ok_iff policy_defs getRecommendedMaxOutputTokens_def)
  moreover have "bounds_issues (bounds (params_of (buildDefaultModelPolicy m t))) = []"
    by (simp add: bounds_ok_iff policy_defs getMaxOutputTokensBound_def)
  ultimately show ?thesis by (simp add: policy_ok_iff default_fields)
qed

lemma sync_none [simp]: "syncPolicySamplingForModel None m t = syncPolicySamplingForModel (Some (buildDefaultModelPolicy m t)) m t"
  by (simp add: syncPolicySamplingForModel_def Let_def)

lemma sync_fields:
  fixes m t p
  defines "s \<equiv> syncPolicySamplingForModel (Some p) m t" and "f \<equiv> buildDefaultModelPolicy m t"
  shows "pol_timeoutMs s = opt_or (pol_timeoutMs p) (pol_timeoutMs f)" "rc_maxAttempts (retry_of s) = opt_or (rc_maxAttempts (retry_of p)) (rc_maxAttempts (retry_of f))"
    "rc_onStatus (retry_of s) = opt_or (rc_onStatus (retry_of p)) (rc_onStatus (retry_of f))"
    "allowOverrides (params_of s) = allowOverrides (params_of f)"
    "bounds (params_of s) = (bounds (params_of f))\<lparr>bnd_maxOutputTokens := opt_or (bnd_maxOutputTokens (bounds (params_of p))) (bnd_maxOutputTokens (bounds (params_of f)))\<rparr>"
    "defaults (params_of s) = (let ed = defaults (params_of p); fd = defaults (params_of f) in
       fd\<lparr>def_maxOutputTokens := opt_or (def_maxOutputTokens ed) (def_maxOutputTokens fd),
          def_thinkingEnabled := (if def_thinkingEnabled ed \<noteq> None \<and> def_thinkingEnabled fd \<noteq> None then def_thinkingEnabled ed else def_thinkingEnabled fd),
          def_temperature := (if \<not> providerModelRejectsSamplingParams m t \<and> def_temperature ed \<noteq> None then def_temperature ed else def_temperature fd)\<rparr>)"
  unfolding s_def f_def syncPolicySamplingForModel_def Let_def nullish_simps by (simp_all add: retry_of_def params_of_def)

lemma sync_policy_ok:
  assumes "policy_issues p = []"
  shows "policy_issues (syncPolicySamplingForModel (Some p) m t) = []"
proof -
  have p: "defaults_issues (defaults (params_of p)) = []" "bounds_issues (bounds (params_of p)) = []" using assms by (simp_all add: policy_ok_iff)
  have f: "defaults_issues (defaults (params_of (buildDefaultModelPolicy m t))) = []" "bounds_issues (bounds (params_of (buildDefaultModelPolicy m t))) = []"
    using default_policy_ok [of m t] by (simp_all add: policy_ok_iff)
  have "defaults_issues (defaults (params_of (syncPolicySamplingForModel (Some p) m t))) = []"
    using p(1) f(1) by (simp add: sync_fields Let_def defaults_ok_iff opt_ok_or)
  moreover have "bounds_issues (bounds (params_of (syncPolicySamplingForModel (Some p) m t))) = []"
    using p(2) f(2) by (simp add: sync_fields bounds_ok_iff opt_ok_or)
  ultimately show ?thesis
    using assms default_policy_ok [of m t] unfolding policy_ok_iff by (simp add: sync_fields opt_ok_or)
qed

lemma policy_eqI:
  assumes "pol_timeoutMs a = pol_timeoutMs b" "pol_retry a = pol_retry b" "pol_params a = pol_params b"
  shows "a = (b :: policy_config)"
  using assms by simp

lemma sync_some: "pol_retry (syncPolicySamplingForModel p m t) = Some (retry_of (syncPolicySamplingForModel p m t))"
  "pol_params (syncPolicySamplingForModel p m t) = Some (params_of (syncPolicySamplingForModel p m t))"
  by (simp_all add: syncPolicySamplingForModel_def Let_def retry_of_def params_of_def)

lemma sync_idem: "syncPolicySamplingForModel (Some (syncPolicySamplingForModel (Some p) m t)) m t = syncPolicySamplingForModel (Some p) m t"
proof (rule policy_eqI)
  show "pol_timeoutMs (syncPolicySamplingForModel (Some (syncPolicySamplingForModel (Some p) m t)) m t) = pol_timeoutMs (syncPolicySamplingForModel (Some p) m t)"
    by (simp add: sync_fields)
  show "pol_retry (syncPolicySamplingForModel (Some (syncPolicySamplingForModel (Some p) m t)) m t) = pol_retry (syncPolicySamplingForModel (Some p) m t)"
    unfolding sync_some by (simp add: sync_fields retry_config.equality)
  show "pol_params (syncPolicySamplingForModel (Some (syncPolicySamplingForModel (Some p) m t)) m t) = pol_params (syncPolicySamplingForModel (Some p) m t)"
    unfolding sync_some by (rule arg_cong [of _ _ Some], rule params_config.equality) (simp_all add: sync_fields Let_def)
qed

lemma sync_rejects: "providerModelRejectsSamplingParams m t \<Longrightarrow> samples_nothing (syncPolicySamplingForModel (Some p) m t)"
  by (auto simp: samples_nothing_def policy_defs)

text \<open>C32. The policies the command line writes are well formed: the default policy of every model satisfies the value rules of the schema, adapting an
  existing policy to a model keeps them satisfied and is idempotent, and for a model that rejects sampling parameters nothing of them is left in
  defaults, bounds or permitted overrides.\<close>

theorem policies_satisfy_schema:
  assumes "\<forall>p. policy = Some p \<longrightarrow> policy_issues p = []"
  shows "policy_issues (buildDefaultModelPolicy m t) = [] \<and> policy_issues (syncPolicySamplingForModel policy m t) = [] \<and>
    syncPolicySamplingForModel (Some (syncPolicySamplingForModel policy m t)) m t = syncPolicySamplingForModel policy m t \<and>
    (providerModelRejectsSamplingParams m t \<longrightarrow> samples_nothing (syncPolicySamplingForModel policy m t))"
proof (cases policy)
  case None
  then show ?thesis by (simp add: default_policy_ok sync_policy_ok sync_idem sync_rejects)
next
  case (Some p)
  then show ?thesis using assms by (simp add: default_policy_ok sync_policy_ok sync_idem sync_rejects)
qed

theorem policies_satisfy_schema_witness:
  "providerModelRejectsSamplingParams ''claude-opus-4-7'' PAnthropic \<and>
   samples_nothing (syncPolicySamplingForModel (Some (buildDefaultModelPolicy ''gemini-2.5-flash'' PGoogle)) ''claude-opus-4-7'' PAnthropic)"
proof -
  have "providerModelRejectsSamplingParams ''claude-opus-4-7'' PAnthropic" by (simp add: rejects_eval)
  then show ?thesis
    using policies_satisfy_schema [of "Some (buildDefaultModelPolicy ''gemini-2.5-flash'' PGoogle)" "''claude-opus-4-7''" PAnthropic]
    by (simp add: default_policy_ok)
qed

section \<open>Persisting is all or nothing\<close>

lemma normalize_id [simp]: "normalizeGatewayConfigForWrite cfg = cfg"
  by (simp add: normalizeGatewayConfigForWrite_def case_prod_unfold)

lemma backup_path_other: "p \<noteq> [] \<Longrightarrow> hd p \<noteq> CHR ''b'' \<Longrightarrow> backup_path q t \<noteq> p"
  by (auto simp: backup_path_def)

definition backups :: "string \<Rightarrow> string set" where
  "backups p = range (backup_path p)"

lemma touches_backup [touches_intros]: "backups p \<subseteq> F \<Longrightarrow> touches (backupFile lib p) F"
  unfolding backupFile_def ensureDir_def by (intro touches_intros) (auto simp: backups_def)

lemma touches_effective [touches_intros]: "touches (effective_check lib am cfg) F"
  unfolding effective_check_def by (intro touches_intros)

lemma touches_persist [touches_intros]:
  "insert ''gateway.config.yaml'' (backups ''gateway.config.yaml'') \<subseteq> F \<Longrightarrow> touches (persistConfig lib skip am cfg) F"
  unfolding persistConfig_def writeYaml_def by (intro touches_intros) auto

lemma effective_check_Inr:
  "effective_check lib am cfg w = (Inr (), w1) \<Longrightarrow>
     nw_files w1 = nw_files w \<and> nw_denied w1 = nw_denied w \<and> (\<exists>eff. buildEffectiveGatewayConfig (nl_urlProtocol lib) (nw_env w1) am cfg = Inr eff)"
  by (auto simp: effective_check_def dotenvConfig_def io_bind_apply split: sum.splits if_splits option.splits)

lemma backup_Inr:
  assumes "backupFile lib p w = (Inr b, w1)"
  shows "b = backup_path p (nl_timestamp lib (nw_reads w))" and "nw_files w1 = (nw_files w)(b := nw_files w p)" and "nw_env w1 = nw_env w"
    and "nw_denied w1 = nw_denied w" and "nw_files w p \<noteq> None"
  using assms
  by (auto simp: backupFile_def ensureDir_def fs_copyFile_def io_bind_apply node_simps split: if_splits option.splits)

lemma persist_Inr:
  assumes "persistConfig lib skip am cfg w = (Inr c, w')"
  shows "c = cfg" and "config_issues cfg = []" and "nw_files w' ''gateway.config.yaml'' = Some (nl_dump lib cfg)" and "nw_denied w' = nw_denied w"
    and "\<not> skip \<Longrightarrow> \<exists>eff. buildEffectiveGatewayConfig (nl_urlProtocol lib) (nw_env w') am cfg = Inr eff"
    and "\<exists>b \<in> backups ''gateway.config.yaml''. nw_files w' b = nw_files w ''gateway.config.yaml'' \<and> nw_files w' b \<noteq> None"
proof -
  obtain w1 b w2 where issues: "config_issues cfg = []"
    and w1: "(if skip then io_return () else effective_check lib am cfg) w = (Inr (), w1)"
    and b: "backupFile lib ''gateway.config.yaml'' w1 = (Inr b, w2)"
    and w': "c = cfg" "w' = w2\<lparr>nw_files := (nw_files w2)(''gateway.config.yaml'' \<mapsto> nl_dump lib cfg)\<rparr>"
    using assms by (auto simp: persistConfig_def writeYaml_def io_bind_Inr node_simps split: if_splits)
  have files: "nw_files w1 = nw_files w \<and> nw_denied w1 = nw_denied w" using w1 effective_check_Inr [of lib am cfg w w1] by (cases skip) auto
  have b_in: "b \<in> backups ''gateway.config.yaml''" "b \<noteq> ''gateway.config.yaml''"
    using backup_Inr(1) [OF b] by (auto simp: backups_def backup_path_def)
  show "c = cfg" "config_issues cfg = []" "nw_files w' ''gateway.config.yaml'' = Some (nl_dump lib cfg)" "nw_denied w' = nw_denied w"
    using issues w' files backup_Inr(4) [OF b] by simp_all
  show "\<exists>b \<in> backups ''gateway.config.yaml''. nw_files w' b = nw_files w ''gateway.config.yaml'' \<and> nw_files w' b \<noteq> None"
    using b_in backup_Inr(2,5) [OF b] files by (auto simp: w'(2) intro!: bexI [of _ b])
  show "\<exists>eff. buildEffectiveGatewayConfig (nl_urlProtocol lib) (nw_env w') am cfg = Inr eff" if "\<not> skip"
    using that w1 effective_check_Inr [of lib am cfg w w1] backup_Inr(3) [OF b] by (simp add: w'(2))
qed

lemma persist_Inl:
  assumes "persistConfig lib skip am cfg w = (Inl e, w')"
  shows "nw_files w' ''gateway.config.yaml'' = nw_files w ''gateway.config.yaml''"
proof -
  have before: "touches (io_bind (if skip then io_return () else effective_check lib am cfg) (\<lambda>_. backupFile lib ''gateway.config.yaml''))
      (backups ''gateway.config.yaml'')"
    by (intro touches_intros order_refl)
  consider "w' = w" | e' where "io_bind (if skip then io_return () else effective_check lib am cfg) (\<lambda>_. backupFile lib ''gateway.config.yaml'') w = (Inl e', w')"
    | b where "io_bind (if skip then io_return () else effective_check lib am cfg) (\<lambda>_. backupFile lib ''gateway.config.yaml'') w = (Inr b, w')"
    using assms by (auto simp: persistConfig_def writeYaml_def io_bind_apply node_simps split: if_splits prod.splits sum.splits)
  moreover have "''gateway.config.yaml'' \<notin> backups ''gateway.config.yaml''" by (auto simp: backups_def backup_path_def)
  ultimately show ?thesis using touchesD(1) [OF before] by cases auto
qed

text \<open>C28. Persisting a configuration is all or nothing. If it succeeds, the file holds the configuration, which satisfies the schema, the previous file has
  been kept as a backup, and, unless the check of the effective configuration was skipped or softened, a gateway started from the file in that environment
  gets an effective configuration (js-yaml reading back what it wrote, and the file readable). If it fails, the file is unchanged.\<close>

theorem persist_all_or_nothing:
  assumes "nl_decode lib (nl_dump lib cfg) = Typed cfg" and "\<not> nw_denied w (FsRead ''gateway.config.yaml'')"
  shows "case persistConfig lib skip am cfg w of
      (Inr c, w') \<Rightarrow> c = cfg \<and> nw_files w' ''gateway.config.yaml'' = Some (nl_dump lib cfg) \<and> config_issues cfg = [] \<and>
        (\<exists>b \<in> backups ''gateway.config.yaml''. nw_files w' b = nw_files w ''gateway.config.yaml'' \<and> nw_files w' b \<noteq> None) \<and>
        (\<not> skip \<and> \<not> am \<longrightarrow> (\<exists>eff. loadGatewayConfigFromFile lib None w' = (Inr eff, w')))
    | (Inl _, w') \<Rightarrow> nw_files w' ''gateway.config.yaml'' = nw_files w ''gateway.config.yaml''"
proof (cases "persistConfig lib skip am cfg w")
  case (Pair r w')
  show ?thesis
  proof (cases r)
    case (Inl e)
    then show ?thesis using Pair persist_Inl by simp
  next
    case (Inr c)
    note p = persist_Inr [OF Pair [unfolded Inr]]
    have "\<exists>eff. loadGatewayConfigFromFile lib None w' = (Inr eff, w')" if "\<not> skip" "\<not> am"
      using p(2,3,4) p(5) [OF that(1)] that(2) assms by (auto simp: load_iff usable_config_def)
    with p(1,2,3,6) Pair Inr show ?thesis by simp
  qed
qed

theorem persist_all_or_nothing_witness:
  "\<exists>w' eff. persistConfig (sample_lib sample_schema_config) False False sample_schema_config sample_world = (Inr sample_schema_config, w') \<and>
     loadGatewayConfigFromFile (sample_lib sample_schema_config) None w' = (Inr eff, w')"
proof -
  let ?lib = "sample_lib sample_schema_config"
  have "(case fst (persistConfig ?lib False False sample_schema_config sample_world) of Inr _ \<Rightarrow> True | Inl _ \<Rightarrow> False)"
    using sample_effective [of sample_env "\<lambda>_. None"]
    by (simp add: persistConfig_def sample_config_ok effective_check_def effect_simps sample_dotenv_none)
      (simp add: sample_lib_def sample_world_def effect_simps node_simps sample_env_def backupFile_def fs_copyFile_def writeYaml_def ensureDir_def MASTER_PROMPT_def)
  then obtain c w' where run: "persistConfig ?lib False False sample_schema_config sample_world = (Inr c, w')"
    by (cases "persistConfig ?lib False False sample_schema_config sample_world") (auto split: sum.splits)
  then show ?thesis
    using persist_all_or_nothing [of ?lib sample_schema_config sample_world False False] by (auto simp: sample_lib_def sample_world_def)
qed

end
