(* ===== verification/Cli_Managers.thy ===== *)
theory Cli_Managers
  imports Cli_Config
begin

text \<open>
  The services that change a configuration: \<open>cli/services/provider-manager.service.ts\<close>, \<open>client-manager.service.ts\<close> and
  \<open>model-manager.service.ts\<close>. A service mutates the configuration object it is given and persists it; here the changed configuration is part of
  the result. When a service throws, the object is abandoned by its command, so only the files matter.

  The interactive \<open>prompt\<close> methods are functions of the raw answers; inquirer repeats a question until its validator accepts, so an
  answer is characterised by the validators, which are definitions of their own. Numbers typed at a prompt that the schema restricts to integers are
  natural numbers. An identifier is looked up among the own keys of an object.
\<close>

section \<open>Objects\<close>

text \<open>\<open>obj[k] = v\<close> replaces in place or appends; \<open>delete obj[k]\<close>.\<close>

fun obj_put :: "string \<Rightarrow> 'v \<Rightarrow> (string \<times> 'v) list \<Rightarrow> (string \<times> 'v) list" where
  "obj_put k v [] = [(k, v)]"
| "obj_put k v ((k', v') # xs) = (if k' = k then (k, v) # xs else (k', v') # obj_put k v xs)"

definition obj_delete :: "string \<Rightarrow> (string \<times> 'v) list \<Rightarrow> (string \<times> 'v) list" where
  "obj_delete k xs = filter (\<lambda>(k', _). k' \<noteq> k) xs"

definition obj_has :: "string \<Rightarrow> (string \<times> 'v) list \<Rightarrow> bool" where
  "obj_has k xs \<longleftrightarrow> map_of xs k \<noteq> None"

record apply_result =
  am_pendingSecrets :: "pending_secret list"
  am_filesTouched :: "string list"
  am_generatedKeyRefs :: "string list"

definition touched :: "string list \<Rightarrow> apply_result" where
  "touched fs = \<lparr>am_pendingSecrets = [], am_filesTouched = fs, am_generatedKeyRefs = []\<rparr>"

definition refuse :: "string \<Rightarrow> ('w, 'a) io" where
  "refuse m = io_throw (plain_error m)"

section \<open>Models (model-manager.service.ts)\<close>

record add_model_input =
  aim_alias :: string
  aim_providerInstance :: string
  aim_modelId :: string

record edit_policy =
  ep_timeoutMs :: nat
  ep_maxAttempts :: nat
  ep_maxOutputTokens :: rat
  ep_temperature :: "rat option"

record edit_model_input =
  em_alias :: string
  em_modelId :: "string option"
  em_providerInstance :: "string option"
  em_confirmNonBootable :: bool
  em_fallback :: "string option option"
  em_streaming :: "bool option"
  em_policy :: "edit_policy option"

definition defaultModelPolicy :: "string \<Rightarrow> provider_type option \<Rightarrow> policy_config" where
  "defaultModelPolicy modelId t =
     (case t of Some t' \<Rightarrow> if modelId \<noteq> [] then buildDefaultModelPolicy modelId t' else buildDefaultModelPolicy ''unknown'' PAnthropic
      | None \<Rightarrow> buildDefaultModelPolicy ''unknown'' PAnthropic)"

definition new_model :: "string \<Rightarrow> string \<Rightarrow> provider_type \<Rightarrow> model_config" where
  "new_model providerInstance modelId t =
     \<lparr>mc_providerInstance = providerInstance, mc_modelId = modelId, mc_fallback = None,
      mc_capabilities = Some \<lparr>cap_streaming = Some True, cap_tools = Some True, cap_thinking = (if isThinkingCapableModel modelId t then Some True else None)\<rparr>,
      mc_policy = Some (defaultModelPolicy modelId (Some t))\<rparr>"

definition applyAddModel :: "node_lib \<Rightarrow> bool \<Rightarrow> gateway_config \<Rightarrow> add_model_input \<Rightarrow> (node_world, gateway_config) io" where
  "applyAddModel lib persist cfg input =
     (case map_of (gw_providers cfg) (aim_providerInstance input) of
        None \<Rightarrow> refuse (''Unknown provider instance: '' @ aim_providerInstance input)
      | Some row \<Rightarrow>
          if obj_has (aim_alias input) (gw_models cfg) then refuse (''Alias '' @ aim_alias input @ '' already exists.'')
          else let cfg' = cfg\<lparr>gw_models := obj_put (aim_alias input) (new_model (aim_providerInstance input) (aim_modelId input) (pic_type row)) (gw_models cfg)\<rparr> in
            io_bind (generateModelPrompt (aim_alias input)) (\<lambda>_.
              if persist then io_map (\<lambda>_. cfg') (persistConfig lib False False cfg') else io_return cfg'))"

fun applyAddModels :: "node_lib \<Rightarrow> gateway_config \<Rightarrow> add_model_input list \<Rightarrow> (node_world, gateway_config) io" where
  "applyAddModels lib cfg [] = io_return cfg"
| "applyAddModels lib cfg (i # is) = io_bind (applyAddModel lib False cfg i) (\<lambda>cfg'. applyAddModels lib cfg' is)"

definition provider_type_of :: "gateway_config \<Rightarrow> string \<Rightarrow> provider_type option" where
  "provider_type_of cfg i = map_option pic_type (map_of (gw_providers cfg) i)"

text \<open>The steps of \<open>applyEditModel\<close> on the row, in their order.\<close>

definition edit_modelId :: "gateway_config \<Rightarrow> string \<Rightarrow> model_config \<Rightarrow> model_config" where
  "edit_modelId cfg modelId m0 =
     (let m = m0\<lparr>mc_modelId := modelId\<rparr> in
      case provider_type_of cfg (mc_providerInstance m) of
        None \<Rightarrow> m
      | Some t \<Rightarrow>
          let supportsThinking = isThinkingCapableModel modelId t;
              caps = nullish (mc_capabilities m) no_capabilities;
              hadThinking = (cap_thinking caps = Some True);
              caps' = (if supportsThinking \<and> \<not> hadThinking then Some (caps\<lparr>cap_thinking := Some True\<rparr>)
                else if \<not> supportsThinking \<and> hadThinking then Some (caps\<lparr>cap_thinking := None\<rparr>) else mc_capabilities m)
          in m\<lparr>mc_capabilities := caps', mc_policy := Some (syncPolicySamplingForModel (mc_policy m) modelId t)\<rparr>)"

definition edit_providerInstance :: "gateway_config \<Rightarrow> edit_model_input \<Rightarrow> string \<Rightarrow> model_config \<Rightarrow> (model_config \<times> bool) result" where
  "edit_providerInstance cfg input providerInstance m =
     (if providerInstance \<noteq> mc_providerInstance m \<and> isLastModelForEnabledProvider cfg (em_alias input)
      then if \<not> em_confirmNonBootable input
        then Inl (plain_error (''[MODEL_MANAGER] Moving the last model away from provider \"'' @ mc_providerInstance m @
          ''\" would leave it without models. Pass confirmNonBootable: true to proceed.''))
        else Inr (m\<lparr>mc_providerInstance := providerInstance\<rparr>, True)
      else Inr (m\<lparr>mc_providerInstance := providerInstance\<rparr>, False))"

definition edit_fallback :: "gateway_config \<Rightarrow> string \<Rightarrow> string option \<Rightarrow> model_config \<Rightarrow> model_config result" where
  "edit_fallback cfg a fb m =
     (case truthy_str fb of
        None \<Rightarrow> Inr (m\<lparr>mc_fallback := None\<rparr>)
      | Some raw \<Rightarrow>
          let f = js_trim raw in
          if f = a then Inl (plain_error ''Fallback cannot be the same alias.'')
          else case map_of (gw_models cfg) f of
              None \<Rightarrow> Inl (plain_error (''Unknown model alias: '' @ f))
            | Some m' \<Rightarrow> if mc_fallback m' = Some a then Inl (plain_error ''Circular fallback detected.'') else Inr (m\<lparr>mc_fallback := Some f\<rparr>))"

definition edit_streaming :: "bool \<Rightarrow> model_config \<Rightarrow> model_config" where
  "edit_streaming b m = m\<lparr>mc_capabilities := Some ((nullish (mc_capabilities m) no_capabilities)\<lparr>cap_streaming := Some b\<rparr>)\<rparr>"

definition edit_policy_values :: "gateway_config \<Rightarrow> edit_policy \<Rightarrow> model_config \<Rightarrow> model_config" where
  "edit_policy_values cfg e m =
     (let t = provider_type_of cfg (mc_providerInstance m);
          base = nullish (mc_policy m) (defaultModelPolicy (mc_modelId m) t);
          rejectsSampling = (case t of Some t' \<Rightarrow> providerModelRejectsSamplingParams (mc_modelId m) t' | None \<Rightarrow> False);
          policyDefaults = defaultModelPolicy (mc_modelId m) t;
          ed = defaults (params_of base);
          d = (if rejectsSampling then ed\<lparr>def_temperature := None, def_maxOutputTokens := Some (ep_maxOutputTokens e)\<rparr>
            else ed\<lparr>def_temperature := Some (nullish (opt_or (ep_temperature e) (def_temperature ed)) (7 / 10)),
              def_maxOutputTokens := Some (ep_maxOutputTokens e)\<rparr>)
      in m\<lparr>mc_policy := Some
           \<lparr>pol_timeoutMs = Some (ep_timeoutMs e),
            pol_retry = Some \<lparr>rc_maxAttempts = Some (ep_maxAttempts e), rc_onStatus = opt_or (rc_onStatus (retry_of base)) (rc_onStatus (retry_of policyDefaults))\<rparr>,
            pol_params = Some \<lparr>defaults = d, allowOverrides = allowOverrides (params_of policyDefaults), bounds = bounds (params_of policyDefaults)\<rparr>\<rparr>\<rparr>)"

definition edit_model_row :: "gateway_config \<Rightarrow> edit_model_input \<Rightarrow> model_config \<Rightarrow> (model_config \<times> bool) result" where
  "edit_model_row cfg input m0 =
     (let m1 = (case em_modelId input of None \<Rightarrow> m0 | Some i \<Rightarrow> edit_modelId cfg i m0) in
      res_bind (case em_providerInstance input of None \<Rightarrow> Inr (m1, False) | Some p \<Rightarrow> edit_providerInstance cfg input p m1) (\<lambda>(m2, skip).
      res_bind (case em_fallback input of None \<Rightarrow> Inr m2 | Some fb \<Rightarrow> edit_fallback cfg (em_alias input) fb m2) (\<lambda>m3.
        let m4 = (case em_streaming input of None \<Rightarrow> m3 | Some b \<Rightarrow> edit_streaming b m3);
            m5 = (case em_policy input of None \<Rightarrow> m4 | Some e \<Rightarrow> edit_policy_values cfg e m4)
        in Inr (m5, skip))))"

definition applyEditModel :: "node_lib \<Rightarrow> gateway_config \<Rightarrow> edit_model_input \<Rightarrow> (node_world, gateway_config \<times> apply_result) io" where
  "applyEditModel lib cfg input =
     (case map_of (gw_models cfg) (em_alias input) of
        None \<Rightarrow> refuse (''Model '' @ em_alias input @ '' not found.'')
      | Some current \<Rightarrow>
          io_bind (io_lift (edit_model_row cfg input current)) (\<lambda>(m, skipEffectiveCheck).
            let cfg' = cfg\<lparr>gw_models := obj_put (em_alias input) m (gw_models cfg)\<rparr> in
            io_bind (persistConfig lib skipEffectiveCheck False cfg') (\<lambda>_. io_return (cfg', touched [''gateway.config.yaml'']))))"

definition deleteModelPrompt :: "string \<Rightarrow> (node_world, bool) io" where
  "deleteModelPrompt a = io_catch (deleteFile (model_prompt_path a)) (\<lambda>_. io_return False)"

definition applyRemoveModel :: "node_lib \<Rightarrow> gateway_config \<Rightarrow> string \<Rightarrow> (node_world, gateway_config \<times> apply_result) io" where
  "applyRemoveModel lib cfg a =
     (if \<not> obj_has a (gw_models cfg) then refuse (''Model '' @ a @ '' not found in configuration.'')
      else let skip = (isLastModelInConfig cfg a \<or> isLastModelForEnabledProvider cfg a);
               cfg' = cfg\<lparr>gw_models := obj_delete a (gw_models cfg)\<rparr>
           in io_bind (persistConfig lib skip False cfg') (\<lambda>_.
              io_bind (deleteModelPrompt a) (\<lambda>_. io_return (cfg', touched [''gateway.config.yaml'']))))"

section \<open>Providers (provider-manager.service.ts)\<close>

definition hasModelsForInstance :: "gateway_config \<Rightarrow> string \<Rightarrow> bool" where
  "hasModelsForInstance cfg i = list_ex (\<lambda>(a, m). mc_providerInstance m = i) (gw_models cfg)"

record add_provider_input =
  ap_id :: string
  ap_type :: provider_type
  ap_enabled :: bool
  ap_apiKeyRef :: string
  ap_apiKey :: string
  ap_baseUrlRef :: "string option"
  ap_baseUrl :: "string option"
  ap_models :: "(string \<times> string) list"

definition collectAddProviderPendingSecrets :: "add_provider_input \<Rightarrow> pending_secret list" where
  "collectAddProviderPendingSecrets input =
     (if isApiKeyRequiredForProviderType (ap_type input) \<and> js_trim (ap_apiKey input) = []
      then [\<lparr>ps_envRef = ap_apiKeyRef input, ps_reason = ReasonProviderApiKey, ps_providerInstance = Some (ap_id input), ps_clientId = None\<rparr>] else []) @
     (case truthy_str (ap_baseUrlRef input) of
        Some r \<Rightarrow> if js_trim (nullish (ap_baseUrl input) []) = []
          then [\<lparr>ps_envRef = r, ps_reason = ReasonProviderBaseUrl, ps_providerInstance = Some (ap_id input), ps_clientId = None\<rparr>] else []
      | None \<Rightarrow> [])"

definition set_optional :: "string option \<Rightarrow> string \<Rightarrow> (node_world, unit) io" where
  "set_optional ref v = (case truthy_str ref of Some r \<Rightarrow> setVar r v | None \<Rightarrow> io_return ())"

definition remove_optional :: "string option \<Rightarrow> (node_world, unit) io" where
  "remove_optional ref = (case truthy_str ref of Some r \<Rightarrow> removeVar r | None \<Rightarrow> io_return ())"

definition applyAddProvider :: "node_lib \<Rightarrow> gateway_config \<Rightarrow> add_provider_input \<Rightarrow> (node_world, gateway_config \<times> apply_result) io" where
  "applyAddProvider lib cfg input =
     (if obj_has (ap_id input) (gw_providers cfg) then refuse (''Instance '' @ ap_id input @ '' already exists - use provider:edit command.'')
      else if \<not> hasModelsForInstance cfg (ap_id input) \<and> ap_models input = []
        then refuse (''[PROVIDER_MANAGER] Provider '' @ ap_id input @ '' requires at least one model.'')
      else
        let cfg1 = cfg\<lparr>gw_providers := obj_put (ap_id input)
              \<lparr>pic_type = ap_type input, pic_apiKeyRef = ap_apiKeyRef input, pic_enabled = ap_enabled input, pic_baseUrlRef = ap_baseUrlRef input, pic_apiSurface = None\<rparr>
              (gw_providers cfg)\<rparr>;
            pendingSecrets = collectAddProviderPendingSecrets input
        in
        io_bind (applyAddModels lib cfg1 (map (\<lambda>(a, i). \<lparr>aim_alias = a, aim_providerInstance = ap_id input, aim_modelId = i\<rparr>) (ap_models input))) (\<lambda>cfg2.
        io_bind (setVar (ap_apiKeyRef input) (ap_apiKey input)) (\<lambda>_.
        io_bind (set_optional (ap_baseUrlRef input) (nullish (ap_baseUrl input) [])) (\<lambda>_.
        io_bind (io_catch (persistConfig lib False (pendingSecrets \<noteq> []) cfg2) (\<lambda>e.
            io_bind (removeVar (ap_apiKeyRef input)) (\<lambda>_.
            io_bind (remove_optional (ap_baseUrlRef input)) (\<lambda>_. io_throw e)))) (\<lambda>_.
          io_return (cfg2, \<lparr>am_pendingSecrets = pendingSecrets, am_filesTouched = [''gateway.config.yaml'', ''.env''], am_generatedKeyRefs = []\<rparr>))))))"

definition linked_aliases :: "gateway_config \<Rightarrow> string \<Rightarrow> string list" where
  "linked_aliases cfg i = map fst (filter (\<lambda>(a, m). mc_providerInstance m = i) (gw_models cfg))"

definition is_only_active :: "gateway_config \<Rightarrow> string \<Rightarrow> bool" where
  "is_only_active cfg i \<longleftrightarrow> map fst (filter (\<lambda>(_, row). pic_enabled row) (gw_providers cfg)) = [i]"

definition applyRemoveProvider :: "node_lib \<Rightarrow> gateway_config \<Rightarrow> string \<Rightarrow> (node_world, gateway_config \<times> apply_result) io" where
  "applyRemoveProvider lib cfg i =
     (case map_of (gw_providers cfg) i of
        None \<Rightarrow> refuse (''Provider instance '' @ i @ '' not found.'')
      | Some row \<Rightarrow>
          let cfg' = cfg\<lparr>gw_providers := obj_delete i (gw_providers cfg), gw_models := filter (\<lambda>(a, _). a \<notin> set (linked_aliases cfg i)) (gw_models cfg)\<rparr> in
          io_bind (io_catch (persistConfig lib False False cfg')
              (\<lambda>e. if is_only_active cfg i then persistConfig lib True False cfg' else io_throw e)) (\<lambda>_.
          io_bind (removeVar (pic_apiKeyRef row)) (\<lambda>_.
          io_bind (remove_optional (pic_baseUrlRef row)) (\<lambda>_.
            io_return (cfg', touched [''gateway.config.yaml'', ''.env''])))))"

datatype edit_provider_action = EditEnabled "bool option" bool | EditApiKey "string option" | ClearApiKey

definition applyEditProvider :: "node_lib \<Rightarrow> gateway_config \<Rightarrow> string \<Rightarrow> edit_provider_action \<Rightarrow> (node_world, gateway_config \<times> apply_result) io" where
  "applyEditProvider lib cfg i action =
     (case map_of (gw_providers cfg) i of
        None \<Rightarrow> refuse (''Provider instance '' @ i @ '' not found.'')
      | Some row \<Rightarrow>
          (case action of
             EditEnabled en confirmNonBootable \<Rightarrow>
               let enabled = (en = Some True); lastOne = (\<not> enabled \<and> countActiveModelsAfterProviderChange cfg [i] [] = 0) in
               if enabled \<and> \<not> hasModelsForInstance cfg i
               then refuse (''[PROVIDER_MANAGER] Cannot enable '' @ i @ '' without at least one model. Use gateway model:add command first.'')
               else if lastOne \<and> \<not> confirmNonBootable
               then refuse (''[PROVIDER_MANAGER] Disabling '' @ i @ '' would leave no active models. Pass confirmNonBootable: true to proceed.'')
               else let cfg' = cfg\<lparr>gw_providers := obj_put i (row\<lparr>pic_enabled := enabled\<rparr>) (gw_providers cfg)\<rparr> in
                 io_bind (persistConfig lib lastOne False cfg') (\<lambda>_. io_return (cfg', touched [''gateway.config.yaml'']))
           | EditApiKey None \<Rightarrow> refuse ''[PROVIDER_MANAGER] apiKey is required for action \"apiKey\".''
           | EditApiKey (Some k) \<Rightarrow> io_bind (setVar (pic_apiKeyRef row) k) (\<lambda>_. io_return (cfg, touched [''.env'']))
           | ClearApiKey \<Rightarrow>
               io_bind (setVar (pic_apiKeyRef row) []) (\<lambda>_.
                 io_return (cfg, \<lparr>am_pendingSecrets = [\<lparr>ps_envRef = pic_apiKeyRef row, ps_reason = ReasonProviderApiKey, ps_providerInstance = Some i,
                   ps_clientId = None\<rparr>], am_filesTouched = [''.env''], am_generatedKeyRefs = []\<rparr>))))"

section \<open>Clients (client-manager.service.ts)\<close>

record add_client_input =
  ac_id :: string
  ac_name :: string
  ac_type :: string
  ac_rate :: "cli_rate_limit option"
  ac_newKey :: string
  ac_newKeyRef :: string

definition applyAddClient :: "node_lib \<Rightarrow> gateway_config \<Rightarrow> add_client_input \<Rightarrow> (node_world, gateway_config \<times> apply_result) io" where
  "applyAddClient lib cfg input =
     (if obj_has (ac_id input) (gw_clients cfg) then refuse (''Client '' @ ac_id input @ '' already exists - use gateway client:edit command.'')
      else
        let cfg' = cfg\<lparr>gw_clients := obj_put (ac_id input)
              \<lparr>cc_name = ac_name input, cc_type = ac_type input, cc_gatewayKeyRef = ac_newKeyRef input, cc_rateLimit = map_option buildClientRateLimitConfig (ac_rate input)\<rparr>
              (gw_clients cfg)\<rparr> in
        io_bind (setVar (ac_newKeyRef input) (ac_newKey input)) (\<lambda>_.
        io_bind (io_catch (persistConfig lib False False cfg') (\<lambda>e. io_bind (removeVar (ac_newKeyRef input)) (\<lambda>_. io_throw e))) (\<lambda>_.
          io_return (cfg', \<lparr>am_pendingSecrets = [], am_filesTouched = [''gateway.config.yaml'', ''.env''], am_generatedKeyRefs = [ac_newKeyRef input]\<rparr>))))"

datatype edit_client_action =
    EditName "string option" | EditType "string option" | EditRateLimit "cli_rate_limit option option" | RotateKey "string option"

definition save_client :: "node_lib \<Rightarrow> gateway_config \<Rightarrow> string \<Rightarrow> client_config \<Rightarrow> (node_world, gateway_config \<times> apply_result) io" where
  "save_client lib cfg c row =
     (let cfg' = cfg\<lparr>gw_clients := obj_put c row (gw_clients cfg)\<rparr> in
      io_bind (persistConfig lib False False cfg') (\<lambda>_. io_return (cfg', touched [''gateway.config.yaml''])))"

definition applyEditClient :: "node_lib \<Rightarrow> gateway_config \<Rightarrow> string \<Rightarrow> edit_client_action \<Rightarrow> (node_world, gateway_config \<times> apply_result) io" where
  "applyEditClient lib cfg c action =
     (case map_of (gw_clients cfg) c of
        None \<Rightarrow> refuse (''Client '' @ c @ '' not found.'')
      | Some row \<Rightarrow>
          (case action of
             EditName name \<Rightarrow> if js_trim (nullish name []) = [] then refuse ''Client name is required.''
               else save_client lib cfg c (row\<lparr>cc_name := js_trim (nullish name [])\<rparr>)
           | EditType t \<Rightarrow> (case truthy_str t of None \<Rightarrow> refuse ''Client type is required.'' | Some t' \<Rightarrow> save_client lib cfg c (row\<lparr>cc_type := t'\<rparr>))
           | EditRateLimit None \<Rightarrow> refuse ''Rate limit values are required.''
           | EditRateLimit (Some None) \<Rightarrow> save_client lib cfg c (row\<lparr>cc_rateLimit := None\<rparr>)
           | EditRateLimit (Some (Some r)) \<Rightarrow> save_client lib cfg c (row\<lparr>cc_rateLimit := Some (buildClientRateLimitConfig r)\<rparr>)
           | RotateKey k \<Rightarrow>
               (case truthy_str k of
                  None \<Rightarrow> refuse ''gatewayKey is required for rotateKey (generate before apply).''
                | Some k' \<Rightarrow> io_bind (setVar (cc_gatewayKeyRef row) k') (\<lambda>_.
                    io_return (cfg, \<lparr>am_pendingSecrets = [], am_filesTouched = [''.env''], am_generatedKeyRefs = [cc_gatewayKeyRef row]\<rparr>)))))"

definition applyRemoveClient :: "node_lib \<Rightarrow> gateway_config \<Rightarrow> string \<Rightarrow> (node_world, gateway_config \<times> apply_result) io" where
  "applyRemoveClient lib cfg c =
     (case map_of (gw_clients cfg) c of
        None \<Rightarrow> refuse (''Client '' @ c @ '' not found.'')
      | Some row \<Rightarrow>
          let cfg' = cfg\<lparr>gw_clients := obj_delete c (gw_clients cfg)\<rparr> in
          io_bind (persistConfig lib False False cfg') (\<lambda>_.
          io_bind (removeVar (cc_gatewayKeyRef row)) (\<lambda>_. io_return (cfg', touched [''gateway.config.yaml'', ''.env'']))))"

section \<open>The variables of .env in the world\<close>

definition env_text_of :: "node_world \<Rightarrow> string" where
  "env_text_of w = nullish (nw_files w ''.env'') []"

definition env_var :: "node_world \<Rightarrow> string \<Rightarrow> string option" where
  "env_var w k = env_lookup (env_text_of w) k"

abbreviation env_readable :: "node_world \<Rightarrow> bool" where
  "env_readable w \<equiv> \<not> nw_denied w (FsRead ''.env'')"

abbreviation env_writable :: "node_world \<Rightarrow> bool" where
  "env_writable w \<equiv> \<not> nw_denied w (FsWrite ''.env'')"

definition with_env :: "node_world \<Rightarrow> string \<Rightarrow> node_world" where
  "with_env w t = w\<lparr>nw_files := (nw_files w)(''.env'' \<mapsto> t)\<rparr>"

lemma with_env_simps [simp]:
  "env_text_of (with_env w t) = t" "nw_denied (with_env w t) = nw_denied w" "nw_env (with_env w t) = nw_env w" "nw_reads (with_env w t) = nw_reads w"
  "with_env (with_env w t) t' = with_env w t'" "p \<noteq> ''.env'' \<Longrightarrow> nw_files (with_env w t) p = nw_files w p"
  by (simp_all add: with_env_def env_text_of_def)

lemma readLines_readable: "env_readable w \<Longrightarrow> readLines w = (Inr (env_lines (env_text_of w)), w)"
  by (cases "nw_files w ''.env''") (simp_all add: readLines_def io_catch_apply io_map_def io_bind_apply node_simps env_text_of_def)

lemma getVar_readable: "env_readable w \<Longrightarrow> getVar k w = (Inr (env_var w k), w)"
  by (simp add: getVar_def io_map_def io_bind_apply readLines_readable env_var_def env_lookup_def)

lemma setVar_apply:
  "env_readable w \<Longrightarrow> setVar k v w = (if env_writable w then (Inr (), with_env w (env_put k v (env_text_of w))) else (Inl (errno_error ''EACCES'' ''.env''), w))"
  by (simp add: setVar_def io_bind_apply readLines_readable node_simps env_put_def with_env_def)

lemma removeVar_apply:
  "env_readable w \<Longrightarrow> removeVar k w = (if env_writable w then (Inr (), with_env w (env_drop k (env_text_of w))) else (Inl (errno_error ''EACCES'' ''.env''), w))"
  by (simp add: removeVar_def io_bind_apply readLines_readable node_simps env_drop_def with_env_def)

lemma set_optional_apply:
  "env_readable w \<Longrightarrow> env_writable w \<Longrightarrow>
     \<exists>w'. set_optional ref v w = (Inr (), w') \<and> env_text_of w' = env_file.put_optional (truthy_str ref) v (env_text_of w) \<and> nw_denied w' = nw_denied w \<and>
       (\<forall>p. p \<noteq> ''.env'' \<longrightarrow> nw_files w' p = nw_files w p)"
  by (cases "truthy_str ref") (simp_all add: set_optional_def env_file.put_optional_def setVar_apply del: truthy_eq_None truthy_str_eq_Some)

lemma remove_optional_apply:
  "env_readable w \<Longrightarrow> env_writable w \<Longrightarrow>
     \<exists>w'. remove_optional ref w = (Inr (), w') \<and> env_text_of w' = env_file.drop_optional (truthy_str ref) (env_text_of w) \<and> nw_denied w' = nw_denied w \<and>
       (\<forall>p. p \<noteq> ''.env'' \<longrightarrow> nw_files w' p = nw_files w p)"
  by (cases "truthy_str ref") (simp_all add: remove_optional_def env_file.drop_optional_def removeVar_apply del: truthy_eq_None truthy_str_eq_Some)

text \<open>Prompt files and backups are elsewhere.\<close>

definition prompt_files :: "string set" where
  "prompt_files = range model_prompt_path"

lemma other_files [simp]:
  "''.env'' \<notin> prompt_files" "''gateway.config.yaml'' \<notin> prompt_files" "''.env'' \<notin> backups p" "''gateway.config.yaml'' \<notin> backups p"
  by (auto simp: prompt_files_def model_prompt_path_def backups_def backup_path_def)

lemma touches_refuse [touches_intros]: "touches (refuse m) F"
  unfolding refuse_def by (rule touches_intros)

lemma touches_model_prompt [touches_intros]: "prompt_files \<subseteq> F \<Longrightarrow> touches (generateModelPrompt a) F"
  unfolding generateModelPrompt_def ensureDir_def by (intro touches_intros) (auto simp: prompt_files_def)

lemma touches_add_model: "prompt_files \<subseteq> F \<Longrightarrow> touches (applyAddModel lib False cfg i) F"
  unfolding applyAddModel_def Let_def if_False by (intro touches_intros)

lemma touches_add_models: "prompt_files \<subseteq> F \<Longrightarrow> touches (applyAddModels lib cfg is) F"
  by (induction "is" arbitrary: cfg) (auto intro!: touches_intros touches_add_model)

lemma env_text_kept: "touches m F \<Longrightarrow> ''.env'' \<notin> F \<Longrightarrow> m w = (r, w') \<Longrightarrow> env_text_of w' = env_text_of w"
  by (simp add: env_text_of_def touchesD(1))

lemma persist_env:
  assumes "persistConfig lib skip am cfg w = (r, w')"
  shows "env_text_of w' = env_text_of w" and "nw_denied w' = nw_denied w"
proof -
  have t: "touches (persistConfig lib skip am cfg) (insert ''gateway.config.yaml'' (backups ''gateway.config.yaml''))" by (rule touches_persist) simp
  show "env_text_of w' = env_text_of w" using env_text_kept [OF t _ assms] by simp
  show "nw_denied w' = nw_denied w" by (rule touchesD(2) [OF t assms])
qed

section \<open>Adding is all or nothing\<close>

lemma map_of_obj_put [simp]: "map_of (obj_put k v xs) k' = (if k' = k then Some v else map_of xs k')"
  by (induction k v xs rule: obj_put.induct) auto

lemma map_of_obj_delete [simp]: "map_of (obj_delete k xs) k' = (if k' = k then None else map_of xs k')"
  by (induction xs) (auto simp: obj_delete_def)

lemma add_model_Inr:
  assumes "applyAddModel lib False cfg i w = (Inr cfg', w')"
  shows "\<exists>row. map_of (gw_providers cfg) (aim_providerInstance i) = Some row \<and> map_of (gw_models cfg) (aim_alias i) = None \<and>
    cfg' = cfg\<lparr>gw_models := obj_put (aim_alias i) (new_model (aim_providerInstance i) (aim_modelId i) (pic_type row)) (gw_models cfg)\<rparr>"
  using assms by (auto simp: applyAddModel_def obj_has_def refuse_def Let_def io_bind_Inr split: option.splits if_splits)

lemma add_models_Inr:
  assumes "applyAddModels lib cfg is w = (Inr cfg', w')" and "\<forall>i \<in> set is. map_of (gw_providers cfg) (aim_providerInstance i) = Some row"
  shows "gw_providers cfg' = gw_providers cfg \<and> gw_clients cfg' = gw_clients cfg \<and> masterKeyRef cfg' = masterKeyRef cfg \<and>
    (\<forall>a m. map_of (gw_models cfg) a = Some m \<longrightarrow> map_of (gw_models cfg') a = Some m) \<and>
    (\<forall>i \<in> set is. map_of (gw_models cfg') (aim_alias i) = Some (new_model (aim_providerInstance i) (aim_modelId i) (pic_type row)))"
  using assms
proof (induction "is" arbitrary: cfg w)
  case (Cons i "is")
  then obtain cfg1 w1 where i: "applyAddModel lib False cfg i w = (Inr cfg1, w1)" and rest: "applyAddModels lib cfg1 is w1 = (Inr cfg', w')"
    by (auto simp: io_bind_Inr)
  have new: "map_of (gw_models cfg) (aim_alias i) = None"
    "cfg1 = cfg\<lparr>gw_models := obj_put (aim_alias i) (new_model (aim_providerInstance i) (aim_modelId i) (pic_type row)) (gw_models cfg)\<rparr>"
    using add_model_Inr [OF i] Cons.prems(2) by auto
  then have ih: "gw_providers cfg' = gw_providers cfg1 \<and> gw_clients cfg' = gw_clients cfg1 \<and> masterKeyRef cfg' = masterKeyRef cfg1 \<and>
      (\<forall>a m. map_of (gw_models cfg1) a = Some m \<longrightarrow> map_of (gw_models cfg') a = Some m) \<and>
      (\<forall>i \<in> set is. map_of (gw_models cfg') (aim_alias i) = Some (new_model (aim_providerInstance i) (aim_modelId i) (pic_type row)))"
    using Cons.IH [OF rest] Cons.prems(2) by simp
  moreover have "map_of (gw_models cfg1) a = Some m" if "map_of (gw_models cfg) a = Some m" for a m using that new by auto
  ultimately show ?case using new(2) by auto
qed simp

text \<open>What adding a provider and adding a client have in common: variables are set, the configuration is persisted, and a failure takes the variables back.\<close>

definition save_with_vars :: "node_lib \<Rightarrow> bool \<Rightarrow> string \<Rightarrow> string \<Rightarrow> string option \<Rightarrow> string \<Rightarrow> gateway_config \<Rightarrow> 'a \<Rightarrow> (node_world, 'a) io" where
  "save_with_vars lib am k v ref v2 cfg x =
     io_bind (setVar k v) (\<lambda>_. io_bind (set_optional ref v2) (\<lambda>_.
     io_bind (io_catch (persistConfig lib False am cfg) (\<lambda>e. io_bind (removeVar k) (\<lambda>_. io_bind (remove_optional ref) (\<lambda>_. io_throw e)))) (\<lambda>_. io_return x)))"

definition vars_ok :: "string \<Rightarrow> string \<Rightarrow> string option \<Rightarrow> string \<Rightarrow> bool" where
  "vars_ok k v ref v2 \<longleftrightarrow> key_ok k \<and> value_ok v \<and> value_ok v2 \<and> (\<forall>r. truthy_str ref = Some r \<longrightarrow> key_ok r)"

lemma vars_set:
  assumes "env_ok t" "vars_ok k v ref v2" "key_ok k'"
  shows "env_lookup (env_file.put_optional (truthy_str ref) v2 (env_put k v t)) k' =
    (if Some k' = truthy_str ref then Some v2 else if k' = k then Some v else env_lookup t k')"
  using assms
  by (cases "truthy_str ref")
    (auto simp: env_file.put_optional_def env_file.lookup_put env_file.valid_put vars_ok_def simp del: truthy_eq_None truthy_str_eq_Some)

lemma vars_undone:
  assumes "env_ok t" "vars_ok k v ref v2" "key_ok k'"
  shows "env_lookup (env_file.drop_optional (truthy_str ref) (env_drop k (env_file.put_optional (truthy_str ref) v2 (env_put k v t)))) k' =
    (if k' = k \<or> Some k' = truthy_str ref then None else env_lookup t k')"
  using assms env_file.undone_two [of t k v v2 k' "truthy_str ref"] by (simp add: vars_ok_def del: truthy_eq_None truthy_str_eq_Some)

lemma set_pair:
  assumes "env_readable w" "env_writable w"
  shows "\<exists>w'. io_bind (setVar k v) (\<lambda>_. set_optional ref v2) w = (Inr (), w') \<and>
    env_text_of w' = env_file.put_optional (truthy_str ref) v2 (env_put k v (env_text_of w)) \<and> nw_denied w' = nw_denied w \<and>
    (\<forall>p. p \<noteq> ''.env'' \<longrightarrow> nw_files w' p = nw_files w p)"
  using set_optional_apply [of "with_env w (env_put k v (env_text_of w))" ref v2] assms by (auto simp: io_bind_apply setVar_apply)

lemma remove_pair:
  assumes "env_readable w" "env_writable w"
  shows "\<exists>w'. io_bind (removeVar k) (\<lambda>_. io_bind (remove_optional ref) (\<lambda>_. io_throw e)) w = (Inl e :: jserr + gateway_config, w') \<and>
    env_text_of w' = env_file.drop_optional (truthy_str ref) (env_drop k (env_text_of w)) \<and> (\<forall>p. p \<noteq> ''.env'' \<longrightarrow> nw_files w' p = nw_files w p)"
  using remove_optional_apply [of "with_env w (env_drop k (env_text_of w))" ref] assms by (auto simp: io_bind_apply removeVar_apply)

lemma save_with_vars_alt:
  "save_with_vars lib am k v ref v2 cfg x =
     io_bind (io_bind (setVar k v) (\<lambda>_. set_optional ref v2)) (\<lambda>_.
     io_bind (io_catch (persistConfig lib False am cfg) (\<lambda>e. io_bind (removeVar k) (\<lambda>_. io_bind (remove_optional ref) (\<lambda>_. io_throw e)))) (\<lambda>_. io_return x))"
  by (simp add: save_with_vars_def io_bind_assoc)

lemma save_with_vars_run:
  assumes "io_bind (setVar k v) (\<lambda>_. set_optional ref v2) w = (Inr (), w2)" and "persistConfig lib False am cfg w2 = (r, w3)"
  shows "save_with_vars lib am k v ref v2 cfg x w = (case r of Inr _ \<Rightarrow> (Inr x, w3)
     | Inl e \<Rightarrow> (case (io_bind (removeVar k) (\<lambda>_. io_bind (remove_optional ref) (\<lambda>_. io_throw e)) :: (node_world, gateway_config) io) w3 of
          (Inl e', w4) \<Rightarrow> (Inl e', w4) | (Inr _, w4) \<Rightarrow> (Inr x, w4)))"
  using assms
  by (simp add: save_with_vars_alt io_bind_apply [of "io_bind (setVar k v) (\<lambda>_. set_optional ref v2)"] io_bind_apply [of "io_catch m f" for m f] io_catch_apply
      split: sum.split prod.split)

lemma save_with_vars_cases:
  assumes "env_readable w" "env_ok (env_text_of w)" "vars_ok k v ref v2" "key_ok k'"
  shows "case save_with_vars lib am k v ref v2 cfg x w of
      (Inr y, w') \<Rightarrow> y = x \<and> nw_files w' ''gateway.config.yaml'' = Some (nl_dump lib cfg) \<and> config_issues cfg = [] \<and>
        env_var w' k' = (if Some k' = truthy_str ref then Some v2 else if k' = k then Some v else env_var w k')
    | (Inl _, w') \<Rightarrow> nw_files w' ''gateway.config.yaml'' = nw_files w ''gateway.config.yaml'' \<and>
        (env_var w' k' = env_var w k' \<or> (k' = k \<or> Some k' = truthy_str ref) \<and> env_var w' k' = None)"
proof (cases "env_writable w")
  case False
  then show ?thesis using assms(1) by (simp add: save_with_vars_def io_bind_apply setVar_apply)
next
  case True
  obtain w2 where w2: "io_bind (setVar k v) (\<lambda>_. set_optional ref v2) w = (Inr (), w2)"
    "env_text_of w2 = env_file.put_optional (truthy_str ref) v2 (env_put k v (env_text_of w))" "nw_denied w2 = nw_denied w"
    "nw_files w2 ''gateway.config.yaml'' = nw_files w ''gateway.config.yaml''"
    using set_pair [OF assms(1) True, of k v ref v2] by auto
  obtain r w3 where w3: "persistConfig lib False am cfg w2 = (r, w3)" by (cases "persistConfig lib False am cfg w2")
  have env3: "env_text_of w3 = env_text_of w2" "nw_denied w3 = nw_denied w" using persist_env [OF w3] w2(3) by simp_all
  show ?thesis
  proof (cases r)
    case (Inl e)
    obtain w4 where w4: "io_bind (removeVar k) (\<lambda>_. io_bind (remove_optional ref) (\<lambda>_. io_throw e)) w3 = (Inl e :: jserr + gateway_config, w4)"
      "env_text_of w4 = env_file.drop_optional (truthy_str ref) (env_drop k (env_text_of w3))"
      "nw_files w4 ''gateway.config.yaml'' = nw_files w3 ''gateway.config.yaml''"
      using remove_pair [of w3 k ref e] env3 True assms(1) by auto
    have "env_var w4 k' = (if k' = k \<or> Some k' = truthy_str ref then None else env_var w k')"
      using vars_undone [OF assms(2-4)] by (simp add: env_var_def w4(2) env3(1) w2(2))
    moreover have "save_with_vars lib am k v ref v2 cfg x w = (Inl e, w4)"
      using save_with_vars_run [OF w2(1) w3] Inl w4(1) by simp
    ultimately show ?thesis using persist_Inl [OF w3 [unfolded Inl]] w4(3) w2(4) by simp
  next
    case (Inr c)
    have "save_with_vars lib am k v ref v2 cfg x w = (Inr x, w3)"
      using save_with_vars_run [OF w2(1) w3] Inr by simp
    then show ?thesis
      using persist_Inr(2,3) [OF w3 [unfolded Inr]] vars_set [OF assms(2-4)] by (simp add: env_var_def env3(1) w2(2))
  qed
qed

lemma save_Inr:
  assumes "save_with_vars lib am k v ref v2 cfg x w = (Inr y, w')" "env_readable w" "env_ok (env_text_of w)" "vars_ok k v ref v2" "key_ok k'"
  shows "y = x" and "nw_files w' ''gateway.config.yaml'' = Some (nl_dump lib cfg)" and "config_issues cfg = []"
    and "env_var w' k' = (if Some k' = truthy_str ref then Some v2 else if k' = k then Some v else env_var w k')"
  using save_with_vars_cases [OF assms(2-5), where lib = lib and am = am and cfg = cfg and x = x] unfolding assms(1) by simp_all

lemma save_Inl:
  assumes "save_with_vars lib am k v ref v2 cfg x w = (Inl e, w')" "env_readable w" "env_ok (env_text_of w)" "vars_ok k v ref v2" "key_ok k'"
  shows "nw_files w' ''gateway.config.yaml'' = nw_files w ''gateway.config.yaml''"
    and "env_var w' k' = env_var w k' \<or> (k' = k \<or> Some k' = truthy_str ref) \<and> env_var w' k' = None"
  using save_with_vars_cases [OF assms(2-5), where lib = lib and am = am and cfg = cfg and x = x] unfolding assms(1) by simp_all

text \<open>When nothing is denied, saving succeeds for a configuration that passes the checks.\<close>

lemma persist_succeeds:
  assumes "config_issues cfg = []" and "\<And>d. \<not> nw_denied w d" and "nw_files w ''gateway.config.yaml'' \<noteq> None"
    and "buildEffectiveGatewayConfig (nl_urlProtocol lib) (nw_env (snd (dotenvConfig lib w))) am cfg = Inr eff"
  shows "\<exists>w'. persistConfig lib False am cfg w = (Inr cfg, w') \<and> nw_env w' = nw_env (snd (dotenvConfig lib w))"
proof -
  have d: "nw_denied (snd (dotenvConfig lib w)) = nw_denied w" "nw_files (snd (dotenvConfig lib w)) = nw_files w"
    by (auto simp: dotenvConfig_def split: option.split)
  have "effective_check lib am cfg w = (Inr (), snd (dotenvConfig lib w))"
    using assms(4) by (simp add: effective_check_def io_bind_apply dotenvConfig_def)
  moreover have "\<exists>b w1. backupFile lib ''gateway.config.yaml'' (snd (dotenvConfig lib w)) = (Inr b, w1) \<and> nw_denied w1 = nw_denied w \<and>
      nw_env w1 = nw_env (snd (dotenvConfig lib w))"
    using assms(2,3) by (auto simp: backupFile_def ensureDir_def fs_copyFile_def io_bind_apply node_simps d split: option.split)
  ultimately show ?thesis using assms(1,2) by (auto simp: persistConfig_def writeYaml_def io_bind_apply node_simps)
qed

definition added_provider :: "add_provider_input \<Rightarrow> provider_instance_config" where
  "added_provider input = \<lparr>pic_type = ap_type input, pic_apiKeyRef = ap_apiKeyRef input, pic_enabled = ap_enabled input,
     pic_baseUrlRef = ap_baseUrlRef input, pic_apiSurface = None\<rparr>"

abbreviation model_inputs :: "add_provider_input \<Rightarrow> add_model_input list" where
  "model_inputs input \<equiv> map (\<lambda>(a, i). \<lparr>aim_alias = a, aim_providerInstance = ap_id input, aim_modelId = i\<rparr>) (ap_models input)"

definition with_provider :: "gateway_config \<Rightarrow> add_provider_input \<Rightarrow> gateway_config" where
  "with_provider cfg input = cfg\<lparr>gw_providers := obj_put (ap_id input) (added_provider input) (gw_providers cfg)\<rparr>"

lemma applyAddProvider_eq:
  "applyAddProvider lib cfg input =
     (if obj_has (ap_id input) (gw_providers cfg) then refuse (''Instance '' @ ap_id input @ '' already exists - use provider:edit command.'')
      else if \<not> hasModelsForInstance cfg (ap_id input) \<and> ap_models input = []
        then refuse (''[PROVIDER_MANAGER] Provider '' @ ap_id input @ '' requires at least one model.'')
      else io_bind (applyAddModels lib (with_provider cfg input) (model_inputs input)) (\<lambda>cfg2.
        save_with_vars lib (collectAddProviderPendingSecrets input \<noteq> []) (ap_apiKeyRef input) (ap_apiKey input) (ap_baseUrlRef input) (nullish (ap_baseUrl input) []) cfg2
          (cfg2, \<lparr>am_pendingSecrets = collectAddProviderPendingSecrets input, am_filesTouched = [''gateway.config.yaml'', ''.env''], am_generatedKeyRefs = []\<rparr>)))"
  unfolding applyAddProvider_def save_with_vars_def Let_def added_provider_def with_provider_def by simp


definition sample_provider_input :: "string \<Rightarrow> add_provider_input" where
  "sample_provider_input i = \<lparr>ap_id = i, ap_type = PAnthropic, ap_enabled = True, ap_apiKeyRef = deriveApiKeyRef i, ap_apiKey = ''sk-ant-2'',
     ap_baseUrlRef = None, ap_baseUrl = None, ap_models = [(''m2'', ''claude-opus-4-7'')]\<rparr>"

definition open_world :: node_world where
  "open_world = sample_world\<lparr>nw_env := (\<lambda>_. Some ''k'')\<rparr>"

lemma open_world_facts [simp]:
  "nw_env open_world = (\<lambda>_. Some ''k'')" "nw_denied open_world = (\<lambda>_. False)" "nw_files open_world ''gateway.config.yaml'' = Some ''yaml''"
  "nw_files open_world ''.env'' = None" "env_text_of open_world = []" "nw_files open_world (model_prompt_path a) = None"
  by (simp_all add: open_world_def sample_world_def MASTER_PROMPT_def env_text_of_def model_prompt_path_def)

lemma sample_dotenv: "nw_env w = (\<lambda>_. Some ''k'') \<Longrightarrow> nw_env (snd (dotenvConfig lib w)) = (\<lambda>_. Some ''k'')"
  by (auto simp: dotenvConfig_def split: option.split)

definition builds :: "gateway_config \<Rightarrow> bool" where
  "builds cfg \<longleftrightarrow> config_issues cfg = [] \<and> (case buildEffectiveGatewayConfig (\<lambda>_. None) (\<lambda>_. Some ''k'') False cfg of Inr _ \<Rightarrow> True | Inl _ \<Rightarrow> False)"

definition open_like :: "node_world \<Rightarrow> bool" where
  "open_like w \<longleftrightarrow> nw_env w = (\<lambda>_. Some ''k'') \<and> nw_denied w = (\<lambda>_. False) \<and> nw_files w ''gateway.config.yaml'' \<noteq> None"

lemma open_persist:
  assumes "builds cfg" "open_like w"
  shows "\<exists>w'. persistConfig (sample_lib c) False False cfg w = (Inr cfg, w') \<and> open_like w'"
proof -
  obtain eff where "buildEffectiveGatewayConfig (\<lambda>_. None) (\<lambda>_. Some ''k'') False cfg = Inr eff"
    using assms(1) by (auto simp: builds_def split: sum.splits)
  then obtain w' where "persistConfig (sample_lib c) False False cfg w = (Inr cfg, w')" "nw_env w' = (\<lambda>_. Some ''k'')"
    using persist_succeeds [of cfg w "sample_lib c" False eff] assms by (auto simp: builds_def open_like_def sample_dotenv sample_lib_def)
  then show ?thesis using persist_env(2) persist_Inr(3) assms(2) unfolding open_like_def by (metis option.distinct(1))
qed

lemma open_with_env [simp]: "open_like (with_env w t) = open_like w"
  by (simp add: open_like_def)

lemma open_save:
  assumes "builds cfg" "open_like w"
  shows "\<exists>w'. save_with_vars (sample_lib c) False k v None u cfg x w = (Inr x, w') \<and> open_like w'"
proof -
  have "io_bind (setVar k v) (\<lambda>_. set_optional None u) w = (Inr (), with_env w (env_put k v (env_text_of w)))"
    using assms(2) by (simp add: set_optional_def io_bind_apply setVar_apply open_like_def)
  moreover obtain w' where "persistConfig (sample_lib c) False False cfg (with_env w (env_put k v (env_text_of w))) = (Inr cfg, w')" "open_like w'"
    using open_persist [OF assms(1), of "with_env w (env_put k v (env_text_of w))" c] assms(2) by auto
  ultimately show ?thesis using save_with_vars_run by fastforce
qed

lemma env_ok_Nil [simp]: "env_ok []"
  by (simp add: env_ok_def)

lemma new_model_issues: "i \<noteq> [] \<Longrightarrow> isRedisSearchTagSafeId a \<Longrightarrow> model_value_issues (a, new_model p i t) = []"
  by (simp add: model_value_issues_def new_model_def defaultModelPolicy_def default_policy_ok)

lemma sample_builds:
  "builds ((with_provider sample_schema_config (sample_provider_input ''x''))\<lparr>gw_models := obj_put ''m2'' (new_model ''x'' ''claude-opus-4-7'' PAnthropic) (gw_models sample_schema_config)\<rparr>)"
  (is "builds ?cfg")
proof -
  have old: "value_issues sample_schema_config = []" and safe: "isRedisSearchTagSafeId ''m2''" by (simp_all add: sample_config_ok tag_eval)
  have "value_issues ?cfg = []"
    using old new_model_issues [OF _ safe, of "''claude-opus-4-7''" "''x''" PAnthropic]
    by (simp add: value_issues_def sample_schema_config_def with_provider_def added_provider_def sample_provider_input_def provider_value_issues_def deriveApiKeyRef_def)
  moreover have "schema_issues ?cfg = []"
    by (simp add: schema_issues_def sample_schema_config_def fallback_issues_def model_provider_issues_def unknown_provider_issues_def isOpenAiProviderType_def truthy_str_def
        with_provider_def added_provider_def sample_provider_input_def new_model_def deriveApiKeyRef_def)
  moreover have "case buildEffectiveGatewayConfig (\<lambda>_. None) (\<lambda>_. Some ''k'') False ?cfg of Inr _ \<Rightarrow> True | Inl _ \<Rightarrow> False"
    by (simp add: buildEffectiveGatewayConfig_def enabled_providers_def active_models_def model_is_active_def secrets_defs sample_schema_config_def with_provider_def
        added_provider_def sample_provider_input_def new_model_def isOpenAiProviderType_def js_trim_def js_whitespace_def)
  ultimately show ?thesis by (simp add: builds_def config_issues_def)
qed


section \<open>Clients\<close>

lemma applyAddClient_eq:
  "applyAddClient lib cfg input =
     (if obj_has (ac_id input) (gw_clients cfg) then refuse (''Client '' @ ac_id input @ '' already exists - use gateway client:edit command.'')
      else let cfg' = cfg\<lparr>gw_clients := obj_put (ac_id input)
              \<lparr>cc_name = ac_name input, cc_type = ac_type input, cc_gatewayKeyRef = ac_newKeyRef input, cc_rateLimit = map_option buildClientRateLimitConfig (ac_rate input)\<rparr>
              (gw_clients cfg)\<rparr> in
        save_with_vars lib False (ac_newKeyRef input) (ac_newKey input) None [] cfg'
          (cfg', \<lparr>am_pendingSecrets = [], am_filesTouched = [''gateway.config.yaml'', ''.env''], am_generatedKeyRefs = [ac_newKeyRef input]\<rparr>))"
  by (simp add: applyAddClient_def save_with_vars_def set_optional_def remove_optional_def truthy_str_def io_throw_def Let_def)

lemma obj_delete_put [simp]: "map_of xs k = None \<Longrightarrow> obj_delete k (obj_put k v xs) = xs"
  by (induction xs) (auto simp: obj_delete_def filter_id_conv map_of_eq_None_iff split: if_splits)

lemma add_client_Inr:
  assumes "applyAddClient lib cfg input w = (Inr (cfg1, r), w1)" "env_readable w" "env_ok (env_text_of w)"
    "vars_ok (ac_newKeyRef input) (ac_newKey input) None []" "key_ok k"
  shows "env_var w1 k = (if k = ac_newKeyRef input then Some (ac_newKey input) else env_var w k)" and "map_of (gw_clients cfg) (ac_id input) = None"
    and "\<exists>row. cc_gatewayKeyRef row = ac_newKeyRef input \<and> cfg1 = cfg\<lparr>gw_clients := obj_put (ac_id input) row (gw_clients cfg)\<rparr>"
    and "nw_files w1 ''gateway.config.yaml'' = Some (nl_dump lib cfg1)"
proof -
  have new: "\<not> obj_has (ac_id input) (gw_clients cfg)" using assms(1) by (auto simp: applyAddClient_eq refuse_def)
  let ?row = "\<lparr>cc_name = ac_name input, cc_type = ac_type input, cc_gatewayKeyRef = ac_newKeyRef input, cc_rateLimit = map_option buildClientRateLimitConfig (ac_rate input)\<rparr>"
  have save: "save_with_vars lib False (ac_newKeyRef input) (ac_newKey input) None [] (cfg\<lparr>gw_clients := obj_put (ac_id input) ?row (gw_clients cfg)\<rparr>)
      (cfg\<lparr>gw_clients := obj_put (ac_id input) ?row (gw_clients cfg)\<rparr>, \<lparr>am_pendingSecrets = [], am_filesTouched = [''gateway.config.yaml'', ''.env''],
        am_generatedKeyRefs = [ac_newKeyRef input]\<rparr>) w = (Inr (cfg1, r), w1)"
    using assms(1) new by (simp add: applyAddClient_eq Let_def)
  note facts = save_Inr [OF save assms(2-5)]
  show "env_var w1 k = (if k = ac_newKeyRef input then Some (ac_newKey input) else env_var w k)" using facts(4) by simp
  show "map_of (gw_clients cfg) (ac_id input) = None" using new by (simp add: obj_has_def)
  show "\<exists>row. cc_gatewayKeyRef row = ac_newKeyRef input \<and> cfg1 = cfg\<lparr>gw_clients := obj_put (ac_id input) row (gw_clients cfg)\<rparr>"
    using facts(1) by (intro exI [of _ ?row]) simp
  show "nw_files w1 ''gateway.config.yaml'' = Some (nl_dump lib cfg1)" using facts(1,2) by simp
qed

lemma save_with_vars_text:
  assumes "save_with_vars lib am k v None [] cfg x w = (Inr y, w')" "env_readable w"
  shows "env_text_of w' = env_put k v (env_text_of w)" and "nw_denied w' = nw_denied w"
proof -
  have "env_writable w" using assms by (cases "env_writable w") (simp_all add: save_with_vars_def io_bind_apply setVar_apply)
  then obtain c where p: "persistConfig lib False am cfg (with_env w (env_put k v (env_text_of w))) = (Inr c, w')"
    using assms by (auto simp: save_with_vars_def set_optional_def remove_optional_def io_bind_Inr io_catch_Inr setVar_apply io_bind_Inl removeVar_def)
  show "env_text_of w' = env_put k v (env_text_of w)" "nw_denied w' = nw_denied w" using persist_env [OF p] by simp_all
qed

text \<open>Adding a client and removing it again is the identity on the configuration and on the variables of \<open>.env\<close>: if both commands succeed and the
  variable of the key was not set before, the configuration is the old one and every variable is as before.\<close>

lemma client_add_remove:
  assumes "applyAddClient lib cfg input w = (Inr (cfg1, r1), w1)" and "applyRemoveClient lib cfg1 (ac_id input) w1 = (Inr (cfg2, r2), w2)"
    and "env_readable w" and "env_ok (env_text_of w)" and "vars_ok (ac_newKeyRef input) (ac_newKey input) None []" and "key_ok k"
    and "env_var w (ac_newKeyRef input) = None"
  shows "cfg2 = cfg \<and> nw_files w2 ''gateway.config.yaml'' = Some (nl_dump lib cfg) \<and> env_var w2 k = env_var w k"
proof -
  note add = add_client_Inr [OF assms(1,3-6)]
  obtain row where row: "cc_gatewayKeyRef row = ac_newKeyRef input" "cfg1 = cfg\<lparr>gw_clients := obj_put (ac_id input) row (gw_clients cfg)\<rparr>" using add(3) by blast
  have text1: "env_text_of w1 = env_put (ac_newKeyRef input) (ac_newKey input) (env_text_of w)" "nw_denied w1 = nw_denied w"
    using assms(1) save_with_vars_text [OF _ assms(3)] by (auto simp: applyAddClient_eq refuse_def Let_def split: if_splits)
  obtain c w1' where p: "persistConfig lib False False cfg w1 = (Inr c, w1')" and rm: "removeVar (ac_newKeyRef input) w1' = (Inr (), w2)" "cfg2 = cfg"
    using assms(2) add(2) by (auto simp: applyRemoveClient_def Let_def io_bind_Inr row)
  have w1': "env_readable w1'" "env_text_of w1' = env_put (ac_newKeyRef input) (ac_newKey input) (env_text_of w)"
    using persist_env [OF p] text1 assms(3) by simp_all
  then have w2: "w2 = with_env w1' (env_drop (ac_newKeyRef input) (env_put (ac_newKeyRef input) (ac_newKey input) (env_text_of w)))"
    using rm(1) by (simp add: removeVar_apply split: if_splits)
  have "env_var w2 k = env_var w k"
    using env_file.undone [of "env_text_of w" "ac_newKeyRef input" "ac_newKey input" k] assms(4-7) by (simp add: w2 env_var_def vars_ok_def)
  then show ?thesis using rm(2) persist_Inr(3) [OF p] by (simp add: w2)
qed

definition sample_client_input :: add_client_input where
  "sample_client_input = \<lparr>ac_id = ''web'', ac_name = ''Web'', ac_type = ''webapp'', ac_rate = None, ac_newKey = ''gw_web_1'', ac_newKeyRef = ''GATEWAY_KEY_WEB''\<rparr>"


end
