(* ===== verification/Cli_Prompts.thy ===== *)
theory Cli_Prompts
  imports Cli_Managers
begin

text \<open>
  The interactive side of the three managers (\<open>promptAdd...\<close>, \<open>promptEdit...\<close>, \<open>promptRemove...\<close>, and the methods that prompt and apply), and what
  follows for the commands: accepted answers pass the checks of the operation, and some confirmed changes can never be saved.
  A prompt is refused in agent mode before any question is asked.
\<close>

section \<open>Validators of single answers\<close>

definition validate_new_id :: "string \<Rightarrow> (string \<times> 'v) list \<Rightarrow> string \<Rightarrow> string option" where
  "validate_new_id what obj input =
     (let i = js_trim input in if i = [] then Some (what @ '' is required.'') else if obj_has i obj then Some (what @ '' already exists.'') else None)"

definition validate_new_alias :: "gateway_config \<Rightarrow> string list \<Rightarrow> string \<Rightarrow> string option" where
  "validate_new_alias cfg taken input =
     (let a = js_trim input in
      if a = [] then Some ''Alias is required.'' else if obj_has a (gw_models cfg) \<or> a \<in> set taken then Some ''Alias already exists.'' else None)"

definition validate_required :: "string \<Rightarrow> string \<Rightarrow> string option" where
  "validate_required message input = (if js_trim input = [] then Some message else None)"

definition validate_fallback :: "gateway_config \<Rightarrow> string \<Rightarrow> string \<Rightarrow> string option" where
  "validate_fallback cfg a input =
     (let f = js_trim input in
      if f = [] then None else if f = a then Some ''Fallback cannot be the same alias.''
      else case map_of (gw_models cfg) f of
          None \<Rightarrow> Some (''Unknown model alias: '' @ f)
        | Some m \<Rightarrow> if mc_fallback m = Some a then Some ''Circular fallback detected.'' else None)"

text \<open>The loop that asks for models: each accepted pair is taken for the next round.\<close>

fun model_answers_ok :: "gateway_config \<Rightarrow> string list \<Rightarrow> (string \<times> string) list \<Rightarrow> bool" where
  "model_answers_ok cfg taken [] = True"
| "model_answers_ok cfg taken ((a, i) # ms) =
     (validate_new_alias cfg taken a = None \<and> validate_required ''Model ID is required.'' i = None \<and> model_answers_ok cfg (js_trim a # taken) ms)"

section \<open>Providers\<close>

record add_provider_answers =
  aa_instanceId :: string
  aa_type :: provider_type
  aa_apiKey :: string
  aa_url :: string
  aa_enabled :: bool
  aa_models :: "(string \<times> string) list"

definition provider_answers_ok :: "node_lib \<Rightarrow> gateway_config \<Rightarrow> bool \<Rightarrow> add_provider_answers \<Rightarrow> bool" where
  "provider_answers_ok lib cfg deferSecrets a \<longleftrightarrow>
     validate_new_id ''Instance ID'' (gw_providers cfg) (aa_instanceId a) = None \<and>
     (deferSecrets \<or> validateProviderApiKey (aa_type a) (aa_apiKey a) = None \<and>
        (isOpenAiProviderType (aa_type a) \<longrightarrow> validateCliProviderBaseUrl (nl_urlProtocol lib) (aa_url a) = None)) \<and>
     (hasModelsForInstance cfg (js_trim (aa_instanceId a)) \<or> aa_models a \<noteq> [] \<and> model_answers_ok cfg [] (aa_models a))"

definition promptAddProvider :: "gateway_config \<Rightarrow> bool \<Rightarrow> add_provider_answers \<Rightarrow> (node_world, add_provider_input) io" where
  "promptAddProvider cfg deferSecrets a =
     io_bind (assertInteractiveAllowed ''ProviderManagerService.promptAddProvider'') (\<lambda>_.
       let i = js_trim (aa_instanceId a);
           baseUrlRef = (if isOpenAiProviderType (aa_type a) then Some (deriveBaseUrlRef i) else None)
       in io_return
         \<lparr>ap_id = i, ap_type = aa_type a, ap_enabled = aa_enabled a, ap_apiKeyRef = deriveApiKeyRef i,
          ap_apiKey = (if deferSecrets then [] else js_trim (aa_apiKey a)), ap_baseUrlRef = baseUrlRef,
          ap_baseUrl = (if deferSecrets \<or> baseUrlRef = None then None else Some (normalizeCliProviderBaseUrl (aa_url a))),
          ap_models = (if hasModelsForInstance cfg i then [] else map (\<lambda>(a, m). (js_trim a, js_trim m)) (aa_models a))\<rparr>)"

definition addProvider :: "node_lib \<Rightarrow> gateway_config \<Rightarrow> bool \<Rightarrow> add_provider_answers \<Rightarrow> (node_world, unit) io" where
  "addProvider lib cfg deferSecrets a = io_bind (promptAddProvider cfg deferSecrets a) (\<lambda>input. io_map (\<lambda>_. ()) (applyAddProvider lib cfg input))"

definition promptRemoveProvider :: "gateway_config \<Rightarrow> string \<Rightarrow> bool \<Rightarrow> (node_world, string option) io" where
  "promptRemoveProvider cfg i confirm =
     io_bind (assertInteractiveAllowed ''ProviderManagerService.promptRemoveProvider'') (\<lambda>_.
       if \<not> obj_has i (gw_providers cfg) then refuse (''Provider instance '' @ i @ '' not found.'') else io_return (if confirm then Some i else None))"

definition removeProvider :: "node_lib \<Rightarrow> gateway_config \<Rightarrow> string \<Rightarrow> bool \<Rightarrow> (node_world, unit) io" where
  "removeProvider lib cfg i confirm =
     io_bind (promptRemoveProvider cfg i confirm) (\<lambda>input. case input of None \<Rightarrow> io_return () | Some i' \<Rightarrow> io_map (\<lambda>_. ()) (applyRemoveProvider lib cfg i'))"

datatype edit_provider_choice = ChooseEnabled bool | ChooseApiKey string | ChooseCancel

text \<open>\<open>confirm\<close> is the answer to the warning on the last active provider, asked only then.\<close>

definition promptEditProvider :: "gateway_config \<Rightarrow> string \<Rightarrow> edit_provider_choice \<Rightarrow> bool \<Rightarrow> (node_world, edit_provider_action option) io" where
  "promptEditProvider cfg i choice confirm =
     io_bind (assertInteractiveAllowed ''ProviderManagerService.promptEditProvider'') (\<lambda>_.
       if \<not> obj_has i (gw_providers cfg) then refuse (''Provider instance '' @ i @ '' not found.'')
       else (case choice of
           ChooseCancel \<Rightarrow> io_return None
         | ChooseApiKey k \<Rightarrow> io_return (Some (EditApiKey (Some (js_trim k))))
         | ChooseEnabled en \<Rightarrow>
             if en \<and> \<not> hasModelsForInstance cfg i then refuse (''[PROVIDER_MANAGER] Cannot enable '' @ i @ '' without at least one model.'')
             else if \<not> en \<and> countActiveModelsAfterProviderChange cfg [i] [] = 0
               then io_return (if confirm then Some (EditEnabled (Some en) True) else None)
             else io_return (Some (EditEnabled (Some en) False))))"

definition editProvider :: "node_lib \<Rightarrow> gateway_config \<Rightarrow> string \<Rightarrow> edit_provider_choice \<Rightarrow> bool \<Rightarrow> (node_world, unit) io" where
  "editProvider lib cfg i choice confirm =
     io_bind (promptEditProvider cfg i choice confirm) (\<lambda>input. case input of None \<Rightarrow> io_return () | Some a \<Rightarrow> io_map (\<lambda>_. ()) (applyEditProvider lib cfg i a))"

section \<open>Clients\<close>

record add_client_answers =
  ca_id :: string
  ca_name :: string
  ca_type :: string
  ca_rate :: "(nat \<times> nat \<times> nat) option"

definition client_answers_ok :: "gateway_config \<Rightarrow> add_client_answers \<Rightarrow> bool" where
  "client_answers_ok cfg a \<longleftrightarrow>
     validate_new_id ''Client ID'' (gw_clients cfg) (ca_id a) = None \<and> validate_required ''Client name is required.'' (ca_name a) = None \<and>
     ca_type a \<in> set GATEWAY_CLIENT_TYPES \<and> (case ca_rate a of None \<Rightarrow> True | Some (rps, burst, streams) \<Rightarrow> rps > 0 \<and> burst > 0)"

definition promptAddClient :: "add_client_answers \<Rightarrow> (node_world, string \<times> string \<times> string \<times> cli_rate_limit option) io" where
  "promptAddClient a =
     io_bind (assertInteractiveAllowed ''ClientManagerService.promptAddClient'') (\<lambda>_.
       io_return (js_trim (ca_id a), js_trim (ca_name a), ca_type a,
         map_option (\<lambda>(rps, burst, streams). \<lparr>crl_rps = rps, crl_burst = burst, crl_maxConcurrentStreams = (if streams > 0 then Some streams else None)\<rparr>) (ca_rate a)))"

definition addClient :: "node_lib \<Rightarrow> string \<Rightarrow> gateway_config \<Rightarrow> add_client_answers \<Rightarrow> (node_world, gateway_config \<times> apply_result) io" where
  "addClient lib random cfg a =
     io_bind (promptAddClient a) (\<lambda>(i, name, t, rate).
       applyAddClient lib cfg \<lparr>ac_id = i, ac_name = name, ac_type = t, ac_rate = rate, ac_newKey = generateGatewayClientKey random i,
         ac_newKeyRef = deriveGatewayKeyRef i\<rparr>)"

datatype edit_client_choice = ChangeName string | ChangeType string | SetRate nat nat nat | RemoveRate | Rotate bool | CancelEdit

definition promptEditClient :: "gateway_config \<Rightarrow> string \<Rightarrow> edit_client_choice \<Rightarrow> (node_world, edit_client_action option) io" where
  "promptEditClient cfg c choice =
     io_bind (assertInteractiveAllowed ''ClientManagerService.promptEditClient'') (\<lambda>_.
       if \<not> obj_has c (gw_clients cfg) then refuse (''Client '' @ c @ '' not found.'')
       else io_return (case choice of
           CancelEdit \<Rightarrow> None
         | ChangeName n \<Rightarrow> Some (EditName (Some (js_trim n)))
         | ChangeType t \<Rightarrow> Some (EditType (Some t))
         | SetRate rps burst streams \<Rightarrow> Some (EditRateLimit (Some (Some \<lparr>crl_rps = rps, crl_burst = burst, crl_maxConcurrentStreams = Some streams\<rparr>)))
         | RemoveRate \<Rightarrow> Some (EditRateLimit (Some None))
         | Rotate confirm \<Rightarrow> if confirm then Some (RotateKey None) else None))"

definition editClient :: "node_lib \<Rightarrow> string \<Rightarrow> gateway_config \<Rightarrow> string \<Rightarrow> edit_client_choice \<Rightarrow> (node_world, unit) io" where
  "editClient lib random cfg c choice =
     io_bind (promptEditClient cfg c choice) (\<lambda>input. case input of
         None \<Rightarrow> io_return ()
       | Some (RotateKey _) \<Rightarrow> io_map (\<lambda>_. ()) (applyEditClient lib cfg c (RotateKey (Some (generateGatewayClientKey random c))))
       | Some a \<Rightarrow> io_map (\<lambda>_. ()) (applyEditClient lib cfg c a))"

definition promptRemoveClient :: "gateway_config \<Rightarrow> string \<Rightarrow> bool \<Rightarrow> (node_world, string option) io" where
  "promptRemoveClient cfg c confirm =
     io_bind (assertInteractiveAllowed ''ClientManagerService.promptRemoveClient'') (\<lambda>_.
       if \<not> obj_has c (gw_clients cfg) then refuse (''Client '' @ c @ '' not found.'') else io_return (if confirm then Some c else None))"

definition removeClient :: "node_lib \<Rightarrow> gateway_config \<Rightarrow> string \<Rightarrow> bool \<Rightarrow> (node_world, unit) io" where
  "removeClient lib cfg c confirm =
     io_bind (promptRemoveClient cfg c confirm) (\<lambda>input. case input of None \<Rightarrow> io_return () | Some c' \<Rightarrow> io_map (\<lambda>_. ()) (applyRemoveClient lib cfg c'))"

section \<open>Models\<close>

definition promptAddModel :: "gateway_config \<Rightarrow> string option \<Rightarrow> string \<Rightarrow> (string \<times> string) list \<Rightarrow> (node_world, add_model_input list) io" where
  "promptAddModel cfg providerInstance selected answers =
     io_bind (assertInteractiveAllowed ''ModelManagerService.promptAddModel'') (\<lambda>_.
       let given = truthy_str (map_option js_trim providerInstance); inst = nullish given selected in
       if given = None \<and> gw_providers cfg = [] then refuse ''No providers configured. Add provider first.''
       else if \<not> obj_has inst (gw_providers cfg) then refuse (''Unknown provider instance: '' @ inst)
       else io_return (map (\<lambda>(a, i). \<lparr>aim_alias = js_trim a, aim_providerInstance = inst, aim_modelId = js_trim i\<rparr>) answers))"

definition addModelForProvider :: "node_lib \<Rightarrow> gateway_config \<Rightarrow> string \<Rightarrow> (string \<times> string) list \<Rightarrow> (node_world, gateway_config) io" where
  "addModelForProvider lib cfg inst answers = io_bind (promptAddModel cfg (Some inst) inst answers) (applyAddModels lib cfg)"

text \<open>The checked fields in the order of the list, each with its answer; \<open>MoveTo\<close> carries the answer to the warning on the last model.\<close>

datatype edit_model_answer = NewModelId string | MoveTo string bool | NewFallback string | NewStreaming bool | NewPolicy nat nat rat rat

definition answer_edit :: "gateway_config \<Rightarrow> string \<Rightarrow> model_config \<Rightarrow> edit_model_answer \<Rightarrow> edit_model_input \<Rightarrow> edit_model_input option" where
  "answer_edit cfg a current ans input =
     (case ans of
        NewModelId i \<Rightarrow> Some (input\<lparr>em_modelId := Some (js_trim i)\<rparr>)
      | MoveTo p confirm \<Rightarrow>
          if p \<noteq> mc_providerInstance current \<and> isLastModelForEnabledProvider cfg a
          then if confirm then Some (input\<lparr>em_confirmNonBootable := True, em_providerInstance := Some p\<rparr>) else None
          else Some (input\<lparr>em_providerInstance := Some p\<rparr>)
      | NewFallback f \<Rightarrow> Some (input\<lparr>em_fallback := Some (truthy_str (Some (js_trim f)))\<rparr>)
      | NewStreaming b \<Rightarrow> Some (input\<lparr>em_streaming := Some b\<rparr>)
      | NewPolicy timeout' attempts tokens temp \<Rightarrow>
          let rejectsSampling = (case provider_type_of cfg (mc_providerInstance current) of
                Some t \<Rightarrow> providerModelRejectsSamplingParams (mc_modelId current) t | None \<Rightarrow> False)
          in Some (input\<lparr>em_policy := Some \<lparr>ep_timeoutMs = timeout', ep_maxAttempts = attempts, ep_maxOutputTokens = tokens,
               ep_temperature = (if rejectsSampling then None else Some temp)\<rparr>\<rparr>))"

fun answer_edits :: "gateway_config \<Rightarrow> string \<Rightarrow> model_config \<Rightarrow> edit_model_answer list \<Rightarrow> edit_model_input \<Rightarrow> edit_model_input option" where
  "answer_edits cfg a current [] input = Some input"
| "answer_edits cfg a current (x # xs) input = Option.bind (answer_edit cfg a current x input) (answer_edits cfg a current xs)"

definition no_edit :: "string \<Rightarrow> edit_model_input" where
  "no_edit a = \<lparr>em_alias = a, em_modelId = None, em_providerInstance = None, em_confirmNonBootable = False, em_fallback = None, em_streaming = None, em_policy = None\<rparr>"

definition promptEditModel :: "gateway_config \<Rightarrow> string \<Rightarrow> edit_model_answer list \<Rightarrow> (node_world, edit_model_input option) io" where
  "promptEditModel cfg a answers =
     io_bind (assertInteractiveAllowed ''ModelManagerService.promptEditModel'') (\<lambda>_.
       case map_of (gw_models cfg) a of
         None \<Rightarrow> refuse (''Model '' @ a @ '' not found.'')
       | Some current \<Rightarrow> io_return (if answers = [] then None else answer_edits cfg a current answers (no_edit a)))"

definition editModel :: "node_lib \<Rightarrow> gateway_config \<Rightarrow> string \<Rightarrow> edit_model_answer list \<Rightarrow> (node_world, unit) io" where
  "editModel lib cfg a answers =
     io_bind (promptEditModel cfg a answers) (\<lambda>input. case input of None \<Rightarrow> io_return () | Some i \<Rightarrow> io_map (\<lambda>_. ()) (applyEditModel lib cfg i))"

definition promptRemoveModel :: "gateway_config \<Rightarrow> string \<Rightarrow> bool \<Rightarrow> (node_world, string option) io" where
  "promptRemoveModel cfg a confirm =
     io_bind (assertInteractiveAllowed ''ModelManagerService.promptRemoveModel'') (\<lambda>_.
       if \<not> obj_has a (gw_models cfg) then refuse (''Model '' @ a @ '' not found in configuration.'')
       else io_return (if (isLastModelInConfig cfg a \<or> isLastModelForEnabledProvider cfg a) \<and> \<not> confirm then None else Some a))"

definition removeModel :: "node_lib \<Rightarrow> gateway_config \<Rightarrow> string \<Rightarrow> bool \<Rightarrow> (node_world, unit) io" where
  "removeModel lib cfg a confirm =
     io_bind (promptRemoveModel cfg a confirm) (\<lambda>input. case input of None \<Rightarrow> io_return () | Some a' \<Rightarrow> io_map (\<lambda>_. ()) (applyRemoveModel lib cfg a'))"

section \<open>Accepted answers reach the save\<close>

lemma apply_models_accepted:
  assumes "model_answers_ok cfg0 taken ms" and "\<And>d. \<not> nw_denied w d" and "map_of (gw_providers cfg) i = Some row"
    and "\<And>a. map_of (gw_models cfg) a \<noteq> None \<Longrightarrow> map_of (gw_models cfg0) a \<noteq> None \<or> a \<in> set taken"
  shows "\<exists>cfg2 w2. applyAddModels lib cfg (map (\<lambda>(a, m). \<lparr>aim_alias = js_trim a, aim_providerInstance = i, aim_modelId = js_trim m\<rparr>) ms) w = (Inr cfg2, w2)"
  using assms
proof (induction ms arbitrary: taken cfg w)
  case (Cons x ms)
  obtain a m where x: "x = (a, m)" by (cases x)
  let ?in = "\<lparr>aim_alias = js_trim a, aim_providerInstance = i, aim_modelId = js_trim m\<rparr>"
  let ?cfg = "cfg\<lparr>gw_models := obj_put (js_trim a) (new_model i (js_trim m) (pic_type row)) (gw_models cfg)\<rparr>"
  have new: "map_of (gw_models cfg) (js_trim a) = None"
    using Cons.prems(1) Cons.prems(4) [of "js_trim a"] x
    by (cases "map_of (gw_models cfg) (js_trim a)") (auto simp: validate_new_alias_def obj_has_def Let_def split: if_splits)
  have t: "touches (applyAddModel lib False cfg ?in) prompt_files" by (rule touches_add_model) simp
  obtain w1 where w1: "applyAddModel lib False cfg ?in w = (Inr ?cfg, w1)"
    using new Cons.prems(2,3)
    by (cases "nw_files w (model_prompt_path (js_trim a))") (auto simp: applyAddModel_def obj_has_def generateModelPrompt_def ensureDir_def io_bind_apply node_simps Let_def)
  have "\<exists>cfg2 w2. applyAddModels lib ?cfg (map (\<lambda>(a, m). \<lparr>aim_alias = js_trim a, aim_providerInstance = i, aim_modelId = js_trim m\<rparr>) ms) w1 = (Inr cfg2, w2)"
    using Cons.prems touchesD(2) [OF t w1] x by (intro Cons.IH [of "js_trim a # taken"]) (auto split: if_splits)
  then show ?case by (auto simp: x io_bind_apply w1)
qed auto

text \<open>What an interactive \<open>provider:add\<close> accepts is not refused afterwards: outside agent mode and with nothing denied by the file system, answers
  that pass the validators of the prompts pass every check of the operation before the save, which is the only step left that can fail.\<close>

lemma accepted_provider_reaches_save:
  assumes "provider_answers_ok lib cfg deferSecrets a" and "nw_env w ''GATEWAY_CLI_AGENT'' \<noteq> Some ''1''" and "\<And>d. \<not> nw_denied w d"
  shows "\<exists>input cfg2 w1. promptAddProvider cfg deferSecrets a w = (Inr input, w) \<and> ap_id input = js_trim (aa_instanceId a) \<and>
    map_of (gw_providers cfg2) (ap_id input) = Some (added_provider input) \<and>
    applyAddProvider lib cfg input w =
      save_with_vars lib (collectAddProviderPendingSecrets input \<noteq> []) (ap_apiKeyRef input) (ap_apiKey input) (ap_baseUrlRef input) (nullish (ap_baseUrl input) []) cfg2
        (cfg2, \<lparr>am_pendingSecrets = collectAddProviderPendingSecrets input, am_filesTouched = [''gateway.config.yaml'', ''.env''], am_generatedKeyRefs = []\<rparr>) w1"
proof -
  obtain input where p: "promptAddProvider cfg deferSecrets a w = (Inr input, w)"
    using assms(2) by (auto simp: promptAddProvider_def assertInteractiveAllowed_def io_bind_apply Let_def)
  have i: "ap_id input = js_trim (aa_instanceId a)"
    and ms: "ap_models input = (if hasModelsForInstance cfg (js_trim (aa_instanceId a)) then [] else map (\<lambda>(a, m). (js_trim a, js_trim m)) (aa_models a))"
    using p assms(2) by (auto simp: promptAddProvider_def assertInteractiveAllowed_def io_bind_apply Let_def)
  have guard: "\<not> obj_has (ap_id input) (gw_providers cfg)" "hasModelsForInstance cfg (ap_id input) \<or> ap_models input \<noteq> []"
    using assms(1) unfolding i ms provider_answers_ok_def by (auto simp: validate_new_id_def Let_def split: if_splits)
  have inputs: "model_inputs input = (if hasModelsForInstance cfg (ap_id input) then []
      else map (\<lambda>(a, m). \<lparr>aim_alias = js_trim a, aim_providerInstance = ap_id input, aim_modelId = js_trim m\<rparr>) (aa_models a))"
    unfolding ms i by (simp add: case_prod_unfold)
  have "\<exists>cfg2 w1. applyAddModels lib (with_provider cfg input) (model_inputs input) w = (Inr cfg2, w1)"
  proof (cases "hasModelsForInstance cfg (ap_id input)")
    case False
    then have "model_answers_ok cfg [] (aa_models a)" using assms(1) by (simp add: provider_answers_ok_def i)
    then show ?thesis using apply_models_accepted [of cfg "[]" "aa_models a" w "with_provider cfg input" "ap_id input" "added_provider input" lib] False assms(3)
      unfolding inputs by (simp add: with_provider_def)
  qed (simp add: inputs)
  then obtain cfg2 w1 where models: "applyAddModels lib (with_provider cfg input) (model_inputs input) w = (Inr cfg2, w1)" by blast
  have "map_of (gw_providers cfg2) (ap_id input) = Some (added_provider input)"
    using add_models_Inr [OF models, of "added_provider input"] by (auto simp: with_provider_def case_prod_unfold)
  moreover have "applyAddProvider lib cfg input w =
      save_with_vars lib (collectAddProviderPendingSecrets input \<noteq> []) (ap_apiKeyRef input) (ap_apiKey input) (ap_baseUrlRef input) (nullish (ap_baseUrl input) []) cfg2
        (cfg2, \<lparr>am_pendingSecrets = collectAddProviderPendingSecrets input, am_filesTouched = [''gateway.config.yaml'', ''.env''], am_generatedKeyRefs = []\<rparr>) w1"
    using guard models by (auto simp: applyAddProvider_eq io_bind_apply)
  ultimately show ?thesis using p i by blast
qed

definition sample_answers :: add_provider_answers where
  "sample_answers = \<lparr>aa_instanceId = ''x '', aa_type = PAnthropic, aa_apiKey = ''sk-ant-2'', aa_url = [], aa_enabled = True, aa_models = [(''m2'', ''claude-opus-4-7'')]\<rparr>"

section \<open>The last model stays\<close>

lemma no_models_issue: "gw_models cfg = [] \<Longrightarrow> config_issues cfg \<noteq> []"
  by (simp add: config_issues_def schema_issues_def model_provider_issues_def)

lemma unused_provider_issue:
  assumes "(i, row) \<in> set (gw_providers cfg)" "pic_enabled row" "filter (\<lambda>(a, m). mc_providerInstance m = i) (gw_models cfg) = []"
  shows "config_issues cfg \<noteq> []"
proof (cases "gw_models cfg = []")
  case False
  have "\<not> list_ex (\<lambda>(a, m). mc_providerInstance m = i) (gw_models cfg)" using assms(3) by (auto simp: list_ex_iff filter_empty_conv)
  then have "(if pic_enabled row \<and> \<not> list_ex (\<lambda>(a, m). mc_providerInstance m = i) (gw_models cfg)
      then [''Provider instance '' @ i @ '' is declared but has no model aliases.''] else []) \<noteq> []" using assms(2) by simp
  then show ?thesis using False assms(1) by (fastforce simp: config_issues_def schema_issues_def model_provider_issues_def)
qed (simp add: no_models_issue)

lemma only_of_instance:
  assumes "map_of xs a = Some m" "f m = i" "length (filter (\<lambda>(a, m). f m = i) xs) = 1"
  shows "filter (\<lambda>(a, m). f m = i) (obj_delete a xs) = []" and "f m' \<noteq> i \<Longrightarrow> filter (\<lambda>(a, m). f m = i) (obj_put a m' xs) = []"
proof -
  obtain y where y: "filter (\<lambda>(a, m). f m = i) xs = [y]" using assms(3) by (auto simp: length_Suc_conv)
  have mem: "(b, x) \<in> set xs \<Longrightarrow> f x = i \<Longrightarrow> (b, x) = y" for b x
  proof -
    assume "(b, x) \<in> set xs" "f x = i"
    then have "(b, x) \<in> set (filter (\<lambda>(a, m). f m = i) xs)" by simp
    then show "(b, x) = y" unfolding y by simp
  qed
  have only: "(b, x) \<in> set xs \<Longrightarrow> f x = i \<Longrightarrow> b = a" for b x
    using mem [of b x] mem [OF map_of_SomeD [OF assms(1)] assms(2)] by auto
  show "filter (\<lambda>(a, m). f m = i) (obj_delete a xs) = []" using only by (auto simp: filter_empty_conv obj_delete_def)
  show "filter (\<lambda>(a, m). f m = i) (obj_put a m' xs) = []" if "f m' \<noteq> i"
    using assms that
  proof (induction xs)
    case (Cons x xs)
    then show ?case by (cases x) (auto simp: filter_empty_conv split: if_splits dest: map_of_SomeD)
  qed simp
qed

lemma edit_keeps_instance:
  "edit_fallback cfg a fb m = Inr m' \<Longrightarrow> mc_providerInstance m' = mc_providerInstance m" "mc_providerInstance (edit_streaming b m) = mc_providerInstance m"
  "mc_providerInstance (edit_policy_values cfg e m) = mc_providerInstance m"
  by (auto simp: edit_fallback_def edit_streaming_def edit_policy_values_def Let_def split: option.splits if_splits)

lemma edited_instance:
  assumes "edit_model_row cfg input m = Inr (m', skip)" "em_providerInstance input = Some p"
  shows "mc_providerInstance m' = p"
proof -
  obtain m1 m2 m3 where m2: "edit_providerInstance cfg input p m1 = Inr (m2, skip)"
    and m3: "(case em_fallback input of None \<Rightarrow> Inr m2 | Some fb \<Rightarrow> edit_fallback cfg (em_alias input) fb m2) = Inr m3"
    and m': "m' = (let m4 = (case em_streaming input of None \<Rightarrow> m3 | Some b \<Rightarrow> edit_streaming b m3) in
        case em_policy input of None \<Rightarrow> m4 | Some e \<Rightarrow> edit_policy_values cfg e m4)"
    using assms by (auto simp: edit_model_row_def Let_def)
  have "mc_providerInstance m2 = p" using m2 by (auto simp: edit_providerInstance_def split: if_splits)
  moreover have "mc_providerInstance m3 = mc_providerInstance m2" using m3 edit_keeps_instance(1) by (cases "em_fallback input") auto
  moreover have "mc_providerInstance m' = mc_providerInstance m3"
    unfolding m' Let_def by (cases "em_streaming input"; cases "em_policy input") (simp_all add: edit_keeps_instance)
  ultimately show ?thesis by simp
qed

lemma persist_refused: "config_issues cfg \<noteq> [] \<Longrightarrow> \<exists>e. persistConfig lib skip am cfg w = (Inl e, w)"
  by (simp add: persistConfig_def)

text \<open>C34. The last model of the configuration, or of an enabled provider, can be neither removed nor moved to another provider, although the commands
  offer to save such a configuration in a non-bootable state after a confirmation: skipping the check of the effective configuration leaves the check
  of the schema, which such a configuration always fails. Nothing is written.\<close>

theorem last_model_stays:
  assumes "isLastModelForEnabledProvider cfg a \<or> isLastModelInConfig cfg a"
  shows "(\<exists>e. applyRemoveModel lib cfg a w = (Inl e, w)) \<and>
    (\<forall>input p m. em_alias input = a \<and> map_of (gw_models cfg) a = Some m \<and> em_providerInstance input = Some p \<and> p \<noteq> mc_providerInstance m \<and>
       isLastModelForEnabledProvider cfg a \<longrightarrow> (\<exists>e. applyEditModel lib cfg input w = (Inl e, w)))"
proof -
  have enabled: "\<exists>m i row. map_of (gw_models cfg) a = Some m \<and> mc_providerInstance m = i \<and> (i, row) \<in> set (gw_providers cfg) \<and> pic_enabled row \<and>
      length (filter (\<lambda>(a, m). mc_providerInstance m = i) (gw_models cfg)) = 1" if "isLastModelForEnabledProvider cfg a"
    using that by (auto simp: isLastModelForEnabledProvider_def countModelsForInstance_def split: option.splits dest: map_of_SomeD)
  have "config_issues (cfg\<lparr>gw_models := obj_delete a (gw_models cfg)\<rparr>) \<noteq> []"
  proof (cases "isLastModelForEnabledProvider cfg a")
    case True
    then obtain m i row where r: "map_of (gw_models cfg) a = Some m" "mc_providerInstance m = i" "(i, row) \<in> set (gw_providers cfg)" "pic_enabled row"
      "length (filter (\<lambda>(a, m). mc_providerInstance m = i) (gw_models cfg)) = 1" using enabled by blast
    show ?thesis by (rule unused_provider_issue [of i row]) (use r only_of_instance(1) [of "gw_models cfg" a m mc_providerInstance i] in simp_all)
  next
    case False
    then obtain x where "gw_models cfg = [(a, x)]" using assms by (auto simp: isLastModelInConfig_def length_Suc_conv split: if_splits)
    then show ?thesis by (intro no_models_issue) (simp add: obj_delete_def)
  qed
  then have "\<exists>e. applyRemoveModel lib cfg a w = (Inl e, w)"
    using persist_refused [of "cfg\<lparr>gw_models := obj_delete a (gw_models cfg)\<rparr>" lib "isLastModelInConfig cfg a \<or> isLastModelForEnabledProvider cfg a" False w]
    by (auto simp: applyRemoveModel_def refuse_def Let_def io_bind_apply)
  moreover have "\<exists>e. applyEditModel lib cfg input w = (Inl e, w)"
    if *: "em_alias input = a" "map_of (gw_models cfg) a = Some m" "em_providerInstance input = Some p" "p \<noteq> mc_providerInstance m" "isLastModelForEnabledProvider cfg a"
    for input p m
  proof (cases "edit_model_row cfg input m")
    case (Inr r)
    then obtain m' skip where r: "edit_model_row cfg input m = Inr (m', skip)" by (cases r) auto
    obtain row where row: "(mc_providerInstance m, row) \<in> set (gw_providers cfg)" "pic_enabled row"
      "length (filter (\<lambda>(a, x). mc_providerInstance x = mc_providerInstance m) (gw_models cfg)) = 1" using enabled [OF *(5)] *(2) by auto
    have "config_issues (cfg\<lparr>gw_models := obj_put a m' (gw_models cfg)\<rparr>) \<noteq> []"
      by (rule unused_provider_issue [of "mc_providerInstance m" row])
        (use row *(2,4) edited_instance [OF r *(3)] only_of_instance(2) [of "gw_models cfg" a m mc_providerInstance "mc_providerInstance m" m'] in simp_all)
    then show ?thesis
      using r *(1,2) persist_refused [of "cfg\<lparr>gw_models := obj_put a m' (gw_models cfg)\<rparr>" lib skip False w] by (auto simp: applyEditModel_def Let_def io_bind_apply)
  qed (use * in \<open>simp add: applyEditModel_def io_bind_apply\<close>)
  ultimately show ?thesis by blast
qed

theorem last_model_stays_witness:
  "\<exists>e. applyRemoveModel (sample_lib sample_schema_config) (sample_schema_config\<lparr>gw_models := [(''a'', sample_model ''p'' None)]\<rparr>) ''a'' open_world = (Inl e, open_world)"
proof -
  have "isLastModelInConfig (sample_schema_config\<lparr>gw_models := [(''a'', sample_model ''p'' None)]\<rparr>) ''a''" by (simp add: isLastModelInConfig_def sample_schema_config_def)
  then show ?thesis using last_model_stays by blast
qed

section \<open>Lost variables\<close>

text \<open>A \<open>.env\<close> file that cannot be read counts as empty: setting one variable replaces the whole file.\<close>

lemma unreadable_env_replaced:
  assumes "nw_denied w (FsRead ''.env'')" "\<not> nw_denied w (FsWrite ''.env'')"
  shows "setVar k v w = (Inr (), with_env w (env_text [var_line k v]))"
  using assms by (simp add: setVar_def readLines_def io_catch_apply io_map_def io_bind_apply node_simps set_lines_def with_env_def)

text \<open>Identifiers that differ in punctuation share their variables, so a second client takes over the key of the first.\<close>

lemma derived_names_collide:
  "deriveGatewayKeyRef ''team-a'' = deriveGatewayKeyRef ''team_a''" "deriveApiKeyRef ''a-b'' = deriveApiKeyRef ''a.b''" "deriveBaseUrlRef ''a-b'' = deriveBaseUrlRef ''a b''"
  by (simp_all add: name_eval)

text \<open>A provider whose variable belongs to another one is refused by the schema, after its key has replaced the other's; taking the change back deletes it.\<close>

lemma refused_provider_deletes_key:
  assumes "env_readable w" "env_writable w" "env_ok (env_text_of w)" "config_issues cfg \<noteq> []" "key_ok k" "value_ok v"
  shows "\<exists>e w'. save_with_vars lib am k v None [] cfg x w = (Inl e, w') \<and> env_var w' k = None"
proof -
  let ?w2 = "with_env w (env_put k v (env_text_of w))"
  obtain e where p: "persistConfig lib False am cfg ?w2 = (Inl e, ?w2)" using persist_refused [OF assms(4)] by blast
  have "io_bind (setVar k v) (\<lambda>_. set_optional None []) w = (Inr (), ?w2)"
    using assms(1,2) by (simp add: set_optional_def io_bind_apply setVar_apply)
  from save_with_vars_run [OF this p]
  have "save_with_vars lib am k v None [] cfg x w = (Inl e, with_env w (env_drop k (env_put k v (env_text_of w))))"
    using assms(1,2) by (simp add: remove_optional_def io_bind_apply removeVar_apply)
  moreover have "env_lookup (env_drop k (env_put k v (env_text_of w))) k = None"
    using env_file.lookup_drop_put [of "env_text_of w" k v k] assms by simp
  ultimately show ?thesis by (auto simp: env_var_def)
qed

text \<open>Editing model id and provider together adapts the policy to the new id under the old provider's type: here a model that rejects sampling
  parameters keeps its default temperature.\<close>

definition moved_input :: edit_model_input where
  "moved_input = (no_edit ''b'')\<lparr>em_modelId := Some ''claude-opus-4-7'', em_providerInstance := Some ''q''\<rparr>"

lemma moved_model_keeps_temperature:
  assumes "map_of (gw_providers cfg) ''p'' = Some row" "pic_type row = PGoogle" "mc_providerInstance m = ''p''" "mc_policy m = None" "\<not> isLastModelForEnabledProvider cfg ''b''"
  shows "\<exists>m'. edit_model_row cfg moved_input m = Inr (m', False) \<and> providerModelRejectsSamplingParams (mc_modelId m') PAnthropic \<and>
    map_option (\<lambda>p. def_temperature (defaults (params_of p))) (mc_policy m') = Some (Some (7 / 10))"
proof -
  have r: "providerModelRejectsSamplingParams ''claude-opus-4-7'' PAnthropic" "\<not> providerModelRejectsSamplingParams ''claude-opus-4-7'' PGoogle" by (simp_all add: rejects_eval)
  show ?thesis
    using assms r
    by (auto simp: edit_model_row_def moved_input_def no_edit_def edit_modelId_def edit_providerInstance_def provider_type_of_def sync_fields Let_def)
      (simp_all add: buildDefaultModelPolicy_def params_of_def Let_def)
qed

end
