(* ===== verification/Wizard_State.thy ===== *)
theory Wizard_State
  imports Cli_Config Cache_Identity "HOL-Library.Monad_Syntax"
begin

text \<open>
  The progress file of the configuration wizard: the state (\<open>cli/services/cli.services.types.ts\<close>, \<open>cli/constants/wizard-steps.ts\<close>), its schema
  (\<open>cli/schemas/wizard-state.schema.ts\<close>) and the state manager (\<open>cli/services/wizard-state-manager.service.ts\<close>). The file is JSON text; its indentation
  is left out. Numbers of the state are counts; a file with other numbers is outside the model, which treats it as invalid.
\<close>

section \<open>The state\<close>

datatype wizard_step = StepMasterKey | StepProviders | StepModels | StepClients | StepServerConfig | StepWriteFiles | StepComplete

definition WIZARD_STEPS :: "(string \<times> wizard_step) list" where
  "WIZARD_STEPS =
     [(''master-key'', StepMasterKey), (''providers'', StepProviders), (''models'', StepModels), (''clients'', StepClients), (''server-config'', StepServerConfig),
      (''write-files'', StepWriteFiles), (''complete'', StepComplete)]"

definition WIZARD_INIT_STEPS :: "wizard_step list" where
  "WIZARD_INIT_STEPS = [StepMasterKey, StepProviders, StepModels, StepClients, StepServerConfig]"

record cli_ai_provider =
  wp_id :: string
  wp_type :: provider_type
  wp_apiKeyRef :: string
  wp_apiKey :: string
  wp_enabled :: "bool option"
  wp_baseUrlRef :: "string option"
  wp_baseUrl :: "string option"
  wp_apiSurface :: "string option"

record cli_ai_model =
  wm_alias :: string
  wm_providerInstance :: string
  wm_modelId :: string

record wizard_client =
  wc_id :: string
  wc_name :: string
  wc_type :: string
  wc_gatewayKeyRef :: string
  wc_gatewayKey :: string
  wc_rateLimit :: "cli_rate_limit option"

record server_config =
  sv_port :: nat
  sv_nodeEnv :: string
  sv_swaggerEnabled :: "bool option"
  sv_cacheEnabled :: "bool option"
  sv_cacheBackend :: "string option"
  sv_redisHost :: "string option"
  sv_redisPort :: "nat option"
  sv_redisPassword :: "string option"
  sv_rateLimitSmartEnabled :: "bool option"
  sv_semanticCacheEnabled :: "bool option"
  sv_metricsBackend :: "string option"
  sv_sentryDsn :: "string option"

record wizard_data =
  wd_masterKey :: "string option"
  wd_providers :: "cli_ai_provider list option"
  wd_models :: "cli_ai_model list option"
  wd_clients :: "wizard_client list option"
  wd_serverConfig :: "server_config option"

record wizard_state =
  ws_sessionId :: string
  ws_startedAt :: string
  ws_currentStep :: wizard_step
  ws_completedSteps :: "wizard_step list"
  ws_data :: wizard_data
  ws_created :: "string list"
  ws_backedUp :: "string list"

section \<open>Writing\<close>

definition step_name :: "wizard_step \<Rightarrow> string" where
  "step_name s = fst (the (find (\<lambda>(_, t). t = s) WIZARD_STEPS))"

definition js_count :: "nat \<Rightarrow> json" where
  "js_count n = JNum (of_nat n)"

definition rate_json :: "cli_rate_limit \<Rightarrow> json" where
  "rate_json r = JObj ([(''rps'', js_count (crl_rps r)), (''burst'', js_count (crl_burst r))] @ opt_prop ''maxConcurrentStreams'' js_count (crl_maxConcurrentStreams r))"

definition provider_json :: "cli_ai_provider \<Rightarrow> json" where
  "provider_json p = JObj
     ([(''id'', JStr (wp_id p)), (''type'', JStr (provider_type_string (wp_type p))), (''apiKeyRef'', JStr (wp_apiKeyRef p)), (''apiKey'', JStr (wp_apiKey p))] @
      opt_prop ''enabled'' JBool (wp_enabled p) @ opt_prop ''baseUrlRef'' JStr (wp_baseUrlRef p) @ opt_prop ''baseUrl'' JStr (wp_baseUrl p) @
      opt_prop ''apiSurface'' JStr (wp_apiSurface p))"

definition model_json :: "cli_ai_model \<Rightarrow> json" where
  "model_json m = JObj [(''alias'', JStr (wm_alias m)), (''providerInstance'', JStr (wm_providerInstance m)), (''modelId'', JStr (wm_modelId m))]"

definition client_json :: "wizard_client \<Rightarrow> json" where
  "client_json c = JObj
     ([(''id'', JStr (wc_id c)), (''name'', JStr (wc_name c)), (''type'', JStr (wc_type c)), (''gatewayKeyRef'', JStr (wc_gatewayKeyRef c)),
       (''gatewayKey'', JStr (wc_gatewayKey c))] @ opt_prop ''rateLimit'' rate_json (wc_rateLimit c))"

definition server_json :: "server_config \<Rightarrow> json" where
  "server_json s = JObj
     ([(''port'', js_count (sv_port s)), (''nodeEnv'', JStr (sv_nodeEnv s))] @
      opt_prop ''swaggerEnabled'' JBool (sv_swaggerEnabled s) @ opt_prop ''cacheEnabled'' JBool (sv_cacheEnabled s) @ opt_prop ''cacheBackend'' JStr (sv_cacheBackend s) @
      opt_prop ''redisHost'' JStr (sv_redisHost s) @ opt_prop ''redisPort'' js_count (sv_redisPort s) @ opt_prop ''redisPassword'' JStr (sv_redisPassword s) @
      opt_prop ''rateLimitSmartEnabled'' JBool (sv_rateLimitSmartEnabled s) @ opt_prop ''semanticCacheEnabled'' JBool (sv_semanticCacheEnabled s) @
      opt_prop ''metricsBackend'' JStr (sv_metricsBackend s) @ opt_prop ''sentryDsn'' JStr (sv_sentryDsn s))"

definition json_list :: "('a \<Rightarrow> json) \<Rightarrow> 'a list \<Rightarrow> json" where
  "json_list f xs = JArr (map f xs)"

definition data_json :: "wizard_data \<Rightarrow> json" where
  "data_json d = JObj
     (opt_prop ''masterKey'' JStr (wd_masterKey d) @ opt_prop ''providers'' (json_list provider_json) (wd_providers d) @
      opt_prop ''models'' (json_list model_json) (wd_models d) @ opt_prop ''clients'' (json_list client_json) (wd_clients d) @
      opt_prop ''serverConfig'' server_json (wd_serverConfig d))"

definition wizard_json :: "wizard_state \<Rightarrow> json" where
  "wizard_json s = JObj
     [(''sessionId'', JStr (ws_sessionId s)), (''startedAt'', JStr (ws_startedAt s)), (''currentStep'', JStr (step_name (ws_currentStep s))),
      (''completedSteps'', json_list (\<lambda>t. JStr (step_name t)) (ws_completedSteps s)), (''data'', data_json (ws_data s)),
      (''files'', JObj [(''created'', json_list JStr (ws_created s)), (''backedUp'', json_list JStr (ws_backedUp s))])]"

section \<open>Reading (wizard-state.schema.ts)\<close>

fun read_string :: "json \<Rightarrow> string option" where
  "read_string (JStr s) = Some s" | "read_string _ = None"

fun read_bool :: "json \<Rightarrow> bool option" where
  "read_bool (JBool b) = Some b" | "read_bool _ = None"

fun read_count :: "json \<Rightarrow> nat option" where
  "read_count (JNum q) = (if 0 \<le> q \<and> of_int \<lfloor>q\<rfloor> = q then Some (nat \<lfloor>q\<rfloor>) else None)" | "read_count _ = None"

fun read_array :: "(json \<Rightarrow> 'a option) \<Rightarrow> json \<Rightarrow> 'a list option" where
  "read_array f (JArr vs) = those (map f vs)" | "read_array f _ = None"

fun read_object :: "((string \<times> json) list \<Rightarrow> 'a option) \<Rightarrow> json \<Rightarrow> 'a option" where
  "read_object f (JObj kvs) = f kvs" | "read_object f _ = None"

definition read_enum :: "(string \<times> 'a) list \<Rightarrow> json \<Rightarrow> 'a option" where
  "read_enum options j = Option.bind (read_string j) (map_of options)"

definition field :: "(json \<Rightarrow> 'a option) \<Rightarrow> string \<Rightarrow> (string \<times> json) list \<Rightarrow> 'a option" where
  "field f k kvs = Option.bind (jget kvs k) f"

definition optional :: "(json \<Rightarrow> 'a option) \<Rightarrow> string \<Rightarrow> (string \<times> json) list \<Rightarrow> 'a option option" where
  "optional f k kvs = (case jget kvs k of None \<Rightarrow> Some None | Some j \<Rightarrow> map_option Some (f j))"

definition truthy_count :: "nat option \<Rightarrow> nat option" where
  "truthy_count n = (case n of Some (Suc m) \<Rightarrow> n | _ \<Rightarrow> None)"

definition PROVIDER_TYPES :: "(string \<times> provider_type) list" where
  "PROVIDER_TYPES = map (\<lambda>t. (provider_type_string t, t)) [PAnthropic, PGoogle, POpenAI, POpenAICompatible]"

definition convertRateLimit :: "json \<Rightarrow> cli_rate_limit option" where
  "convertRateLimit = read_object (\<lambda>o'. do {
     rps \<leftarrow> field read_count ''rps'' o'; burst \<leftarrow> field read_count ''burst'' o'; streams \<leftarrow> optional read_count ''maxConcurrentStreams'' o';
     Some \<lparr>crl_rps = rps, crl_burst = burst, crl_maxConcurrentStreams = truthy_count streams\<rparr> })"

definition convertProvider :: "json \<Rightarrow> cli_ai_provider option" where
  "convertProvider = read_object (\<lambda>o'. do {
     i \<leftarrow> field read_string ''id'' o'; t \<leftarrow> field (read_enum PROVIDER_TYPES) ''type'' o'; ref \<leftarrow> field read_string ''apiKeyRef'' o';
     key \<leftarrow> field read_string ''apiKey'' o'; en \<leftarrow> optional read_bool ''enabled'' o'; url_ref \<leftarrow> optional read_string ''baseUrlRef'' o';
     url \<leftarrow> optional read_string ''baseUrl'' o'; surface \<leftarrow> optional (read_enum [(''chat-completions'', ''chat-completions'')]) ''apiSurface'' o';
     Some \<lparr>wp_id = i, wp_type = t, wp_apiKeyRef = ref, wp_apiKey = key, wp_enabled = en, wp_baseUrlRef = truthy_str url_ref, wp_baseUrl = truthy_str url,
       wp_apiSurface = surface\<rparr> })"

definition convertModel :: "json \<Rightarrow> cli_ai_model option" where
  "convertModel = read_object (\<lambda>o'. do {
     a \<leftarrow> field read_string ''alias'' o'; p \<leftarrow> field read_string ''providerInstance'' o'; m \<leftarrow> field read_string ''modelId'' o';
     Some \<lparr>wm_alias = a, wm_providerInstance = p, wm_modelId = m\<rparr> })"

definition convertClient :: "json \<Rightarrow> wizard_client option" where
  "convertClient = read_object (\<lambda>o'. do {
     i \<leftarrow> field read_string ''id'' o'; n \<leftarrow> field read_string ''name'' o'; t \<leftarrow> field (read_enum (map (\<lambda>s. (s, s)) GATEWAY_CLIENT_TYPES)) ''type'' o';
     ref \<leftarrow> field read_string ''gatewayKeyRef'' o'; key \<leftarrow> field read_string ''gatewayKey'' o'; r \<leftarrow> optional convertRateLimit ''rateLimit'' o';
     Some \<lparr>wc_id = i, wc_name = n, wc_type = t, wc_gatewayKeyRef = ref, wc_gatewayKey = key, wc_rateLimit = r\<rparr> })"

definition cache_backends :: "(string \<times> string) list" where
  "cache_backends = [(''redis'', ''redis''), (''noop'', ''noop'')]"

definition metrics_backends :: "(string \<times> string) list" where
  "metrics_backends = [(''sentry'', ''sentry''), (''noop'', ''noop'')]"

definition convertServer :: "json \<Rightarrow> server_config option" where
  "convertServer = read_object (\<lambda>o'. do {
     port' \<leftarrow> field read_count ''port'' o'; env \<leftarrow> field read_string ''nodeEnv'' o'; sw \<leftarrow> optional read_bool ''swaggerEnabled'' o';
     ce \<leftarrow> optional read_bool ''cacheEnabled'' o'; cb \<leftarrow> optional (read_enum cache_backends) ''cacheBackend'' o'; rh \<leftarrow> optional read_string ''redisHost'' o';
     rp \<leftarrow> optional read_count ''redisPort'' o'; pw \<leftarrow> optional read_string ''redisPassword'' o'; rl \<leftarrow> optional read_bool ''rateLimitSmartEnabled'' o';
     se \<leftarrow> optional read_bool ''semanticCacheEnabled'' o'; mb \<leftarrow> optional (read_enum metrics_backends) ''metricsBackend'' o';
     dsn \<leftarrow> optional read_string ''sentryDsn'' o';
     Some \<lparr>sv_port = port', sv_nodeEnv = env, sv_swaggerEnabled = sw, sv_cacheEnabled = ce, sv_cacheBackend = cb, sv_redisHost = rh,
       sv_redisPort = truthy_count rp, sv_redisPassword = pw, sv_rateLimitSmartEnabled = rl, sv_semanticCacheEnabled = se, sv_metricsBackend = mb, sv_sentryDsn = dsn\<rparr> })"

definition convertData :: "json \<Rightarrow> wizard_data option" where
  "convertData = read_object (\<lambda>o'. do {
     mk \<leftarrow> optional read_string ''masterKey'' o'; ps \<leftarrow> optional (read_array convertProvider) ''providers'' o';
     ms \<leftarrow> optional (read_array convertModel) ''models'' o'; cs \<leftarrow> optional (read_array convertClient) ''clients'' o';
     sc \<leftarrow> optional convertServer ''serverConfig'' o';
     Some \<lparr>wd_masterKey = truthy_str mk, wd_providers = ps, wd_models = ms, wd_clients = cs, wd_serverConfig = sc\<rparr> })"

definition parseWizardState :: "json \<Rightarrow> wizard_state option" where
  "parseWizardState = read_object (\<lambda>o'. do {
     sid \<leftarrow> field read_string ''sessionId'' o'; t \<leftarrow> field read_string ''startedAt'' o'; cur \<leftarrow> field (read_enum WIZARD_STEPS) ''currentStep'' o';
     steps \<leftarrow> field (read_array (read_enum WIZARD_STEPS)) ''completedSteps'' o'; d \<leftarrow> field convertData ''data'' o';
     files \<leftarrow> field (read_object (\<lambda>f. do {
        created \<leftarrow> field (read_array read_string) ''created'' f; backedUp \<leftarrow> field (read_array read_string) ''backedUp'' f; Some (created, backedUp) })) ''files'' o';
     Some \<lparr>ws_sessionId = sid, ws_startedAt = t, ws_currentStep = cur, ws_completedSteps = steps, ws_data = d, ws_created = fst files, ws_backedUp = snd files\<rparr> })"

section \<open>The state manager (wizard-state-manager.service.ts)\<close>

definition STATE_FILE :: string where
  "STATE_FILE = ''.gateway-wizard-state.json''"

definition saveState :: "wizard_state \<Rightarrow> (node_world, unit) io" where
  "saveState s = fs_writeFile STATE_FILE (json_stringify (wizard_json s))"

definition loadState :: "(node_world, wizard_state option) io" where
  "loadState =
     io_catch (io_bind (fs_readFile STATE_FILE) (\<lambda>content. io_bind (io_lift (json_parse content)) (\<lambda>raw. io_return (parseWizardState raw))))
       (\<lambda>e. if is_enoent e then io_return None else io_throw e)"

definition clearState :: "(node_world, unit) io" where
  "clearState = io_catch (fs_unlink STATE_FILE) (\<lambda>_. io_return ())"

text \<open>\<open>basename(backupPath).replace(/\.backup-.+$/, '')\<close>: cut at the first \<open>.backup-\<close> that something follows.\<close>

fun cut_backup :: "string \<Rightarrow> string" where
  "cut_backup [] = []"
| "cut_backup (c # s) = (if starts_with ''.backup-'' (c # s) \<and> length (c # s) > 8 then [] else c # cut_backup s)"

definition resolveOriginalPathFromBackup :: "string \<Rightarrow> string" where
  "resolveOriginalPathFromBackup backupPath = cut_backup (base_name backupPath)"

fun remove_created :: "string list \<Rightarrow> (node_world, unit) io" where
  "remove_created [] = io_return ()"
| "remove_created (f # fs) = io_bind (io_catch (fs_unlink f) (\<lambda>_. io_return ())) (\<lambda>_. remove_created fs)"

fun restore_backups :: "string list \<Rightarrow> (node_world, unit) io" where
  "restore_backups [] = io_return ()"
| "restore_backups (b # bs) =
     io_bind (io_catch (io_bind (fs_copyFile b (resolveOriginalPathFromBackup b)) (\<lambda>_. fs_unlink b)) (\<lambda>_. io_return ())) (\<lambda>_. restore_backups bs)"

definition rollback :: "wizard_state \<Rightarrow> (node_world, unit) io" where
  "rollback s = io_bind (remove_created (ws_created s)) (\<lambda>_. io_bind (restore_backups (ws_backedUp s)) (\<lambda>_. clearState))"

section \<open>Round trip\<close>

text \<open>The states the wizard produces: closed sets of words, and no empty text or zero where the reader takes a falsy value for an absent one.\<close>

definition rate_ok :: "cli_rate_limit \<Rightarrow> bool" where
  "rate_ok r \<longleftrightarrow> crl_maxConcurrentStreams r \<noteq> Some 0"

definition provider_ok :: "cli_ai_provider \<Rightarrow> bool" where
  "provider_ok p \<longleftrightarrow> wp_baseUrlRef p \<noteq> Some [] \<and> wp_baseUrl p \<noteq> Some [] \<and> wp_apiSurface p \<in> {None, Some ''chat-completions''}"

definition client_ok :: "wizard_client \<Rightarrow> bool" where
  "client_ok c \<longleftrightarrow> wc_type c \<in> set GATEWAY_CLIENT_TYPES \<and> opt_all rate_ok (wc_rateLimit c)"

definition server_ok :: "server_config \<Rightarrow> bool" where
  "server_ok s \<longleftrightarrow> sv_cacheBackend s \<in> {None, Some ''redis'', Some ''noop''} \<and> sv_metricsBackend s \<in> {None, Some ''sentry'', Some ''noop''} \<and> sv_redisPort s \<noteq> Some 0"

definition data_ok :: "wizard_data \<Rightarrow> bool" where
  "data_ok d \<longleftrightarrow> wd_masterKey d \<noteq> Some [] \<and> opt_all (list_all provider_ok) (wd_providers d) \<and> opt_all (list_all client_ok) (wd_clients d) \<and>
     opt_all server_ok (wd_serverConfig d)"

named_theorems wizard_simps \<open>reading of a printed member\<close>

declare jget_append [simp del] case_map_option [simp del]

lemma jget_opt_member [wizard_simps]: "jget (opt_prop k f x) k' = (if k = k' then map_option f x else None)"
  by (cases x) (simp_all add: opt_prop_def)

lemma jget_opt_append [wizard_simps]:
  "jget rest k = None \<Longrightarrow> jget (opt_prop k f x @ rest) k = map_option f x"
  "k \<noteq> k' \<Longrightarrow> jget (opt_prop k f x @ rest) k' = jget rest k'"
  by (cases x; simp add: opt_prop_def)+

lemma field_Some [wizard_simps]: "jget kvs k = Some j \<Longrightarrow> field f k kvs = f j"
  by (simp add: field_def)

lemma optional_read [wizard_simps]:
  "optional f k kvs = (case jget kvs k of None \<Rightarrow> Some None | Some j \<Rightarrow> map_option Some (f j))"
  "(case map_option g x of None \<Rightarrow> d | Some j \<Rightarrow> h j) = (case x of None \<Rightarrow> d | Some v \<Rightarrow> h (g v))"
  "(case x of None \<Rightarrow> Some None | Some v \<Rightarrow> Some (Some v)) = Some x"
  by (simp_all add: optional_def split: option.splits)

lemma optional_all: "opt_all P x \<Longrightarrow> (\<And>v. P v \<Longrightarrow> f v = Some v) \<Longrightarrow> (case x of None \<Rightarrow> Some None | Some v \<Rightarrow> map_option Some (f v)) = Some x"
  by (cases x) (simp_all add: opt_all_def)

lemma read_count_js [simp]: "read_count (js_count n) = Some n"
  by (simp add: js_count_def)

lemma read_array_list: "(\<And>x. x \<in> set xs \<Longrightarrow> f (g x) = Some x) \<Longrightarrow> read_array f (json_list g xs) = Some xs"
  by (induction xs) (simp_all add: json_list_def)

lemma opt_keys [wizard_simps]:
  "k \<notin> fst ` set rest \<Longrightarrow> distinct (map fst (opt_prop k f x @ rest)) \<longleftrightarrow> distinct (map fst rest)" "distinct (map fst (opt_prop k f x))"
  "k' \<noteq> k \<Longrightarrow> k' \<in> fst ` set (opt_prop k f x @ rest) \<longleftrightarrow> k' \<in> fst ` set rest" "k' \<noteq> k \<Longrightarrow> k' \<notin> fst ` set (opt_prop k f x)"
  by (cases x; auto simp: opt_prop_def)+

lemma opt_values [wizard_simps]: "list_all P (opt_prop k f x) \<longleftrightarrow> opt_all (\<lambda>v. P (k, f v)) x" "opt_all (\<lambda>_. True) y" "list_all (\<lambda>_. True) vs"
  by (auto simp: opt_prop_def opt_all_def list_all_iff split: option.splits)

lemma json_ok_count [simp]: "json_ok (js_count n)"
  by (simp add: js_count_def)

lemma json_ok_list [simp]: "json_ok (json_list f xs) \<longleftrightarrow> list_all (\<lambda>x. json_ok (f x)) xs"
  by (simp add: json_list_def list_all_iff)

lemma truthy_count_id: "n \<noteq> Some 0 \<Longrightarrow> truthy_count n = n"
  by (auto simp: truthy_count_def split: option.splits nat.splits)

lemma truthy_str_id: "s \<noteq> Some [] \<Longrightarrow> truthy_str s = s"
  by (cases s) (auto simp: truthy_str_def)

lemma read_step [simp]: "read_enum WIZARD_STEPS (JStr (step_name s)) = Some s"
  by (cases s) (simp_all add: read_enum_def WIZARD_STEPS_def step_name_def)

lemma read_provider_type [simp]: "read_enum PROVIDER_TYPES (JStr (provider_type_string t)) = Some t"
  by (cases t) (simp_all add: read_enum_def PROVIDER_TYPES_def)

lemma read_surface:
  "x \<in> {None, Some ''chat-completions''} \<Longrightarrow>
     (case x of None \<Rightarrow> Some None | Some v \<Rightarrow> map_option Some (read_enum [(''chat-completions'', ''chat-completions'')] (JStr v))) = Some x"
  by (auto simp: read_enum_def)

lemma optional_plain [wizard_simps]:
  "(case x of None \<Rightarrow> Some None | Some v \<Rightarrow> map_option Some (read_string (JStr v))) = Some x"
  "(case y of None \<Rightarrow> Some None | Some v \<Rightarrow> map_option Some (read_bool (JBool v))) = Some y"
  "(case z of None \<Rightarrow> Some None | Some v \<Rightarrow> map_option Some (read_count (js_count v))) = Some z"
  by (simp_all split: option.splits)

lemma convertRateLimit_json: "rate_ok r \<Longrightarrow> convertRateLimit (rate_json r) = Some r"
  by (simp add: convertRateLimit_def rate_json_def rate_ok_def wizard_simps truthy_count_id)

lemma convertProvider_json: "provider_ok p \<Longrightarrow> convertProvider (provider_json p) = Some p"
  by (simp add: convertProvider_def provider_json_def provider_ok_def wizard_simps truthy_str_id read_surface)

lemma convertModel_json: "convertModel (model_json m) = Some m"
  by (simp add: convertModel_def model_json_def wizard_simps)

lemma read_client_type: "t \<in> set GATEWAY_CLIENT_TYPES \<Longrightarrow> read_enum (map (\<lambda>s. (s, s)) GATEWAY_CLIENT_TYPES) (JStr t) = Some t"
  by (simp add: read_enum_def map_of_map_restrict)

lemma convertClient_json: "client_ok c \<Longrightarrow> convertClient (client_json c) = Some c"
  by (simp add: convertClient_def client_json_def client_ok_def wizard_simps read_client_type optional_all [where P = rate_ok] convertRateLimit_json)

lemma server_words:
  assumes "server_ok s"
  shows "(case sv_cacheBackend s of None \<Rightarrow> Some None | Some v \<Rightarrow> map_option Some (read_enum cache_backends (JStr v))) = Some (sv_cacheBackend s)"
    and "(case sv_metricsBackend s of None \<Rightarrow> Some None | Some v \<Rightarrow> map_option Some (read_enum metrics_backends (JStr v))) = Some (sv_metricsBackend s)"
  using assms by (auto simp: server_ok_def read_enum_def cache_backends_def metrics_backends_def)

lemma convertServer_json: "server_ok s \<Longrightarrow> convertServer (server_json s) = Some s"
  by (simp add: convertServer_def server_json_def wizard_simps server_words truthy_count_id) (simp add: server_ok_def truthy_count_id)

lemma optional_list:
  "opt_all (list_all P) x \<Longrightarrow> (\<And>v. P v \<Longrightarrow> f (g v) = Some v) \<Longrightarrow>
     (case x of None \<Rightarrow> Some None | Some v \<Rightarrow> map_option Some (read_array f (json_list g v))) = Some x"
  by (erule optional_all) (auto simp: list_all_iff intro: read_array_list)

lemma optional_models: "(case x of None \<Rightarrow> Some None | Some v \<Rightarrow> map_option Some (read_array convertModel (json_list model_json v))) = Some x"
  by (cases x) (simp_all add: read_array_list convertModel_json)

lemma convertData_json: "data_ok d \<Longrightarrow> convertData (data_json d) = Some d"
  by (simp add: convertData_def data_json_def data_ok_def wizard_simps truthy_str_id optional_models convertProvider_json convertClient_json convertServer_json
      optional_list [where P = provider_ok] optional_list [where P = client_ok] optional_all [where P = server_ok])

lemma parseWizardState_json: "data_ok (ws_data s) \<Longrightarrow> parseWizardState (wizard_json s) = Some s"
  by (simp add: parseWizardState_def wizard_json_def wizard_simps convertData_json read_array_list)

lemma wizard_json_ok: "json_ok (wizard_json s)"
proof -
  have "json_ok (rate_json r)" for r by (simp add: rate_json_def wizard_simps)
  then have client: "json_ok (client_json c)" for c by (simp add: client_json_def wizard_simps)
  have provider: "json_ok (provider_json p)" for p by (simp add: provider_json_def wizard_simps del: set_append map_append)
  have model: "json_ok (model_json m)" for m by (simp add: model_json_def)
  have server: "json_ok (server_json v)" for v by (simp add: server_json_def wizard_simps del: set_append map_append)
  have "json_ok (data_json d)" for d
    using client provider model server by (simp add: data_json_def wizard_simps del: set_append map_append)
  then show ?thesis by (simp add: wizard_json_def wizard_simps)
qed

declare jget_append [simp] case_map_option [simp]

definition sample_wizard_state :: wizard_state where
  "sample_wizard_state = \<lparr>ws_sessionId = ''1d2f'', ws_startedAt = ''2025-01-01T00:00:00.000Z'', ws_currentStep = StepClients, ws_completedSteps = [StepMasterKey, StepProviders, StepModels],
     ws_data = \<lparr>wd_masterKey = Some ''mk_1'',
       wd_providers = Some [\<lparr>wp_id = ''openai_main'', wp_type = POpenAI, wp_apiKeyRef = ''OPENAI_API_KEY'', wp_apiKey = ''sk-1'', wp_enabled = None, wp_baseUrlRef = None,
         wp_baseUrl = None, wp_apiSurface = None\<rparr>],
       wd_models = Some [\<lparr>wm_alias = ''fast'', wm_providerInstance = ''openai_main'', wm_modelId = ''gpt-4o''\<rparr>],
       wd_clients = None, wd_serverConfig = None\<rparr>,
     ws_created = [], ws_backedUp = [''.env.backup-2025'']\<rparr>"

lemma sample_wizard_state_ok: "data_ok (ws_data sample_wizard_state)"
  by (simp add: sample_wizard_state_def data_ok_def provider_ok_def opt_all_def)

text \<open>
  Interrupting the wizard loses no answer. A state that has been written to the progress file is the state the next run loads, with every step, every
  answer and both lists of files; nothing in the texts of the answers (quotes, line breaks, non-ASCII characters) can damage it.
\<close>

lemma wizard_state_survives_restart:
  assumes "data_ok (ws_data s)"
    and "saveState s w = (Inr (), w1)"
    and "\<not> nw_denied w (FsRead STATE_FILE)"
  shows "loadState w1 = (Inr (Some s), w1)"
  using assms json_roundtrip [OF wizard_json_ok, of s] parseWizardState_json [OF assms(1)]
  by (auto simp: saveState_def loadState_def node_simps effect_simps split: if_splits)

end
