(* ===== verification/Wizard_Config.thy ===== *)
theory Wizard_Config
  imports Wizard_State Cli_Managers
begin

text \<open>
  From the answers of the configuration wizard to the files: what the five prompts accept and return (\<open>cli/services/prompts\<close>), the inputs built from the
  collected data (\<open>buildResult\<close> of \<open>wizard-orchestrator.service.ts\<close>) and the templates of \<open>gateway.config.yaml\<close> and \<open>.env\<close> (\<open>cli/templates\<close>).
  A predicate \<open>..._ok\<close> holds of the answers every validator of the prompt accepts, in the order they are given; only such answers reach the result.
  Numbers typed by the user are natural numbers. The property says that accepted answers give a configuration the gateway starts with.
\<close>

section \<open>Prompts (key-, provider-, model-, client-, server-prompt.service.ts)\<close>

definition prompted_masterKey :: "string \<Rightarrow> string \<Rightarrow> string" where
  "prompted_masterKey random answer = (if js_trim answer = [] then generateMasterKey random else js_trim answer)"

record provider_answer =
  pa_type :: provider_type
  pa_instanceId :: string
  pa_key :: string
  pa_url :: string

definition wizard_providers_ok :: "(string \<Rightarrow> string option) \<Rightarrow> provider_answer list \<Rightarrow> bool" where
  "wizard_providers_ok urlProtocol as \<longleftrightarrow> as \<noteq> [] \<and> list_all (\<lambda>a. js_trim (pa_instanceId a) \<noteq> [] \<and> validateProviderApiKey (pa_type a) (pa_key a) = None \<and>
     (isOpenAiProviderType (pa_type a) \<longrightarrow> validateCliProviderBaseUrl urlProtocol (pa_url a) = None)) as"

definition prompted_provider :: "provider_answer \<Rightarrow> cli_ai_provider" where
  "prompted_provider a =
     (let i = js_trim (pa_instanceId a); isOpenAi = isOpenAiProviderType (pa_type a);
          baseUrl = (if isOpenAi then truthy_str (Some (normalizeCliProviderBaseUrl (pa_url a))) else None)
      in \<lparr>wp_id = i, wp_type = pa_type a, wp_apiKeyRef = deriveApiKeyRef i, wp_apiKey = js_trim (pa_key a), wp_enabled = None,
          wp_baseUrlRef = (if baseUrl = None then None else Some (deriveBaseUrlRef i)), wp_baseUrl = baseUrl, wp_apiSurface = None\<rparr>)"

text \<open>One entry per provider: \<open>None\<close> when no model is wanted for it. The loop knows the aliases taken so far.\<close>

fun wizard_models_ok :: "string list \<Rightarrow> (string \<times> string) option list \<Rightarrow> bool" where
  "wizard_models_ok taken [] = True"
| "wizard_models_ok taken (None # as) = wizard_models_ok taken as"
| "wizard_models_ok taken (Some (a, m) # as) =
     (js_trim a \<noteq> [] \<and> isRedisSearchTagSafeId (js_trim a) \<and> js_trim a \<notin> set taken \<and> js_trim m \<noteq> [] \<and> wizard_models_ok (js_trim a # taken) as)"

fun prompted_models :: "cli_ai_provider list \<Rightarrow> (string \<times> string) option list \<Rightarrow> cli_ai_model list" where
  "prompted_models (p # ps) (Some (a, m) # as) = \<lparr>wm_alias = js_trim a, wm_providerInstance = wp_id p, wm_modelId = js_trim m\<rparr> # prompted_models ps as"
| "prompted_models (p # ps) (None # as) = prompted_models ps as"
| "prompted_models _ _ = []"

record client_answer =
  ca_id :: string
  ca_name :: string
  ca_type :: string
  ca_rateLimit :: "(nat \<times> nat \<times> nat) option"

fun wizard_clients_ok :: "string list \<Rightarrow> client_answer list \<Rightarrow> bool" where
  "wizard_clients_ok taken [] = True"
| "wizard_clients_ok taken (a # as) =
     (js_trim (ca_id a) \<noteq> [] \<and> isRedisSearchTagSafeId (js_trim (ca_id a)) \<and> js_trim (ca_id a) \<notin> set taken \<and> js_trim (ca_name a) \<noteq> [] \<and>
      ca_type a \<in> set GATEWAY_CLIENT_TYPES \<and> (case ca_rateLimit a of None \<Rightarrow> True | Some (rps, burst, streams) \<Rightarrow> 0 < rps \<and> 0 < burst \<and> 1 \<le> streams) \<and>
      wizard_clients_ok (js_trim (ca_id a) # taken) as)"

definition prompted_client :: "string \<Rightarrow> client_answer \<Rightarrow> wizard_client" where
  "prompted_client random a =
     \<lparr>wc_id = js_trim (ca_id a), wc_name = js_trim (ca_name a), wc_type = ca_type a, wc_gatewayKeyRef = deriveGatewayKeyRef (ca_id a),
      wc_gatewayKey = generateGatewayClientKey random (js_trim (ca_id a)),
      wc_rateLimit = map_option (\<lambda>(rps, burst, streams). \<lparr>crl_rps = rps, crl_burst = burst, crl_maxConcurrentStreams = truthy_count (Some streams)\<rparr>) (ca_rateLimit a)\<rparr>"

text \<open>\<open>random n\<close> is the random text of the n-th client.\<close>

definition prompted_clients :: "(nat \<Rightarrow> string) \<Rightarrow> client_answer list \<Rightarrow> wizard_client list" where
  "prompted_clients random as = map (\<lambda>(n, a). prompted_client (random n) a) (enumerate 0 as)"

record server_answer =
  sa_port :: nat
  sa_nodeEnv :: string
  sa_swaggerEnabled :: bool
  sa_cacheEnabled :: bool
  sa_cacheBackend :: string
  sa_rateLimitSmartEnabled :: bool
  sa_redisHost :: string
  sa_redisPort :: nat
  sa_redisPassword :: string
  sa_metricsBackend :: string
  sa_sentryDsn :: string

definition asks_redis :: "bool \<Rightarrow> server_answer \<Rightarrow> bool" where
  "asks_redis semanticCacheEnabled a =
     isRedisRequired \<lparr>rq_cacheEnabled = sa_cacheEnabled a, rq_cacheBackend = Some (if sa_cacheEnabled a then sa_cacheBackend a else ''noop''),
       rq_rateLimitSmartEnabled = sa_rateLimitSmartEnabled a, rq_semanticCacheEnabled = semanticCacheEnabled\<rparr>"

definition wizard_server_ok :: "bool \<Rightarrow> server_answer \<Rightarrow> bool" where
  "wizard_server_ok semanticCacheEnabled a \<longleftrightarrow>
     1 \<le> sa_port a \<and> sa_port a \<le> 65535 \<and> sa_nodeEnv a \<in> {''development'', ''production'', ''staging''} \<and>
     (sa_cacheEnabled a \<longrightarrow> sa_cacheBackend a \<in> {''noop'', ''redis''}) \<and>
     (asks_redis semanticCacheEnabled a \<longrightarrow> js_trim (sa_redisHost a) \<noteq> [] \<and> 1 \<le> sa_redisPort a \<and> sa_redisPort a \<le> 65535) \<and>
     sa_metricsBackend a \<in> {''sentry'', ''noop''} \<and>
     (sa_metricsBackend a = ''sentry'' \<longrightarrow> js_trim (sa_sentryDsn a) \<noteq> [] \<and> starts_with ''https://'' (js_trim (sa_sentryDsn a)))"

definition prompted_server :: "bool \<Rightarrow> server_answer \<Rightarrow> server_config" where
  "prompted_server semanticCacheEnabled a =
     (let redis = asks_redis semanticCacheEnabled a in
      \<lparr>sv_port = sa_port a, sv_nodeEnv = sa_nodeEnv a, sv_swaggerEnabled = Some (sa_swaggerEnabled a), sv_cacheEnabled = Some (sa_cacheEnabled a),
       sv_cacheBackend = Some (if sa_cacheEnabled a then sa_cacheBackend a else ''noop''),
       sv_redisHost = (if redis then Some (sa_redisHost a) else None), sv_redisPort = (if redis then truthy_count (Some (sa_redisPort a)) else None),
       sv_redisPassword = (if redis then Some (sa_redisPassword a) else None), sv_rateLimitSmartEnabled = Some (sa_rateLimitSmartEnabled a),
       sv_semanticCacheEnabled = Some semanticCacheEnabled, sv_metricsBackend = Some (sa_metricsBackend a),
       sv_sentryDsn = (if sa_metricsBackend a = ''sentry'' then Some (sa_sentryDsn a) else None)\<rparr>)"

section \<open>Inputs of the templates (buildResult of wizard-orchestrator.service.ts)\<close>

record provider_cli =
  pc_apiKeyRef :: string
  pc_apiKey :: string
  pc_type :: provider_type
  pc_baseUrlRef :: "string option"
  pc_baseUrl :: "string option"

record env_template_input =
  et_masterKeyRef :: string
  et_masterKey :: "string option"
  et_providers :: "provider_cli list"
  et_clients :: "(string \<times> string) list"
  et_server :: server_config

record config_template_input =
  ct_masterKeyRef :: string
  ct_providers :: "(string \<times> provider_type \<times> string \<times> string option \<times> bool) list"
  ct_clients :: "wizard_client list"
  ct_models :: "cli_ai_model list"

definition type_error :: jserr where
  "type_error = ErrorInstance NoSdkClass ''TypeError'' ''Cannot read properties of undefined'' []"

definition env_input_of :: "string option \<Rightarrow> cli_ai_provider list \<Rightarrow> wizard_client list \<Rightarrow> server_config \<Rightarrow> env_template_input" where
  "env_input_of mk ps cs sc =
     \<lparr>et_masterKeyRef = ''MASTER_KEY'', et_masterKey = mk,
      et_providers = map (\<lambda>p. \<lparr>pc_apiKeyRef = wp_apiKeyRef p, pc_apiKey = wp_apiKey p, pc_type = wp_type p, pc_baseUrlRef = truthy_str (wp_baseUrlRef p),
        pc_baseUrl = (if truthy_str (wp_baseUrlRef p) = None then None else wp_baseUrl p)\<rparr>) ps,
      et_clients = map (\<lambda>c. (wc_gatewayKeyRef c, wc_gatewayKey c)) cs, et_server = sc\<rparr>"

definition config_input_of :: "cli_ai_provider list \<Rightarrow> cli_ai_model list \<Rightarrow> wizard_client list \<Rightarrow> config_template_input" where
  "config_input_of ps ms cs =
     \<lparr>ct_masterKeyRef = ''MASTER_KEY'', ct_providers = map (\<lambda>p. (wp_id p, wp_type p, wp_apiKeyRef p, truthy_str (wp_baseUrlRef p), wp_enabled p \<noteq> Some False)) ps,
      ct_clients = cs, ct_models = ms\<rparr>"

text \<open>Data that is missing (\<open>!\<close> in the source) is a \<open>TypeError\<close>, except for the master key, which stays \<open>undefined\<close>.\<close>

definition buildResult :: "wizard_state \<Rightarrow> (config_template_input \<times> env_template_input) result" where
  "buildResult s =
     (case (wd_providers (ws_data s), wd_clients (ws_data s), wd_serverConfig (ws_data s), wd_models (ws_data s)) of
        (Some ps, Some cs, Some sc, Some ms) \<Rightarrow> Inr (config_input_of ps ms cs, env_input_of (wd_masterKey (ws_data s)) ps cs sc)
      | _ \<Rightarrow> Inl type_error)"

section \<open>Templates (env.template.ts, gateway-config.template.ts, master-prompt.template.ts)\<close>

definition isEnvInputRedisRequired :: "env_template_input \<Rightarrow> bool" where
  "isEnvInputRedisRequired input =
     (let s = et_server input; cacheEnabled = (sv_cacheEnabled s = Some True) in
      isRedisRequired \<lparr>rq_cacheEnabled = cacheEnabled, rq_cacheBackend = Some (if cacheEnabled then nullish (sv_cacheBackend s) ''noop'' else ''noop''),
        rq_rateLimitSmartEnabled = (sv_rateLimitSmartEnabled s = Some True), rq_semanticCacheEnabled = (sv_semanticCacheEnabled s = Some True)\<rparr>)"

definition js_bool :: "bool \<Rightarrow> string" where
  "js_bool b = (if b then ''true'' else ''false'')"

text \<open>Assignments \<open>env[k] = v\<close> in the order of the code. An \<open>undefined\<close> value is printed as such.\<close>

definition server_head :: "server_config \<Rightarrow> (string \<times> string) list" where
  "server_head s =
     [(''APP_VERSION'', ''1.0.0''), (''PORT'', show_nat (if sv_port s = 0 then 3000 else sv_port s)),
      (''NODE_ENV'', if sv_nodeEnv s = [] then ''development'' else sv_nodeEnv s), (''SWAGGER_ENABLED'', js_bool (nullish (sv_swaggerEnabled s) True))]"

definition secret_vars :: "env_template_input \<Rightarrow> (string \<times> string) list" where
  "secret_vars input =
     (et_masterKeyRef input, nullish (et_masterKey input) ''undefined'') #
     concat (map (\<lambda>p. (pc_apiKeyRef p, pc_apiKey p) # (case truthy_str (pc_baseUrlRef p) of Some r \<Rightarrow> [(r, nullish (pc_baseUrl p) [])] | None \<Rightarrow> [])) (et_providers input)) @
     et_clients input"

definition server_tail :: "env_template_input \<Rightarrow> (string \<times> string) list" where
  "server_tail input =
     (let s = et_server input; aiMetricsBackend = nullish (sv_metricsBackend s) ''noop''; isSentryEnabled = (aiMetricsBackend = ''sentry'') in
      [(''CACHE_ENABLED'', js_bool (nullish (sv_cacheEnabled s) False)), (''CACHE_BACKEND'', nullish (sv_cacheBackend s) ''noop''), (''CACHE_TTL'', ''3600''),
       (''CACHE_KEY_PREFIX'', ''aigw:'')] @
      (if isEnvInputRedisRequired input
       then [(''REDIS_HOST'', nullish (sv_redisHost s) ''localhost''), (''REDIS_PORT'', show_nat (nullish (sv_redisPort s) 6379)),
             (''REDIS_PASSWORD'', nullish (sv_redisPassword s) []), (''REDIS_DB'', ''0''), (''REDIS_KEY_PREFIX'', ''aigw:'')]
       else []) @
      [(''RATE_LIMIT_SMART_ENABLED'', js_bool (nullish (sv_rateLimitSmartEnabled s) False)), (''RATE_LIMIT_RPS_PER_KEY'', ''10''),
       (''RATE_LIMIT_BURST_PER_KEY'', ''20''), (''RATE_LIMIT_STREAMS_CONCURRENT'', ''3''), (''RATE_LIMIT_COOLDOWN_AFTER_429'', ''60''),
       (''LOG_LEVEL'', if sv_nodeEnv s = ''production'' then ''info'' else ''debug''), (''LOG_ADAPTER'', ''pino''),
       (''LOG_PRETTY'', js_bool (sv_nodeEnv s = ''development'')), (''AI_METRICS_BACKEND'', aiMetricsBackend),
       (''METRICS_BACKEND'', if sv_nodeEnv s = ''production'' then ''prometheus'' else ''noop''), (''ERROR_REPORTING_ADAPTER'', if isSentryEnabled then ''sentry'' else ''noop''),
       (''SENTRY_ENABLED'', js_bool isSentryEnabled), (''SENTRY_DSN'', if isSentryEnabled then nullish (sv_sentryDsn s) [] else []),
       (''SENTRY_INCLUDE_PROMPTS'', ''true''), (''SENTRY_ENVIRONMENT'', if sv_nodeEnv s = [] then ''development'' else sv_nodeEnv s),
       (''SENTRY_TRACES_SAMPLE_RATE'', ''0.1'')])"

definition obj_assign :: "(string \<times> 'v) list \<Rightarrow> (string \<times> 'v) list" where
  "obj_assign kvs = fold (\<lambda>(k, v). obj_put k v) kvs []"

definition generateEnvTemplate :: "env_template_input \<Rightarrow> (string \<times> string) list" where
  "generateEnvTemplate input = obj_assign (server_head (et_server input) @ secret_vars input @ server_tail input)"

definition template_provider :: "provider_type \<times> string \<times> string option \<times> bool \<Rightarrow> provider_instance_config" where
  "template_provider = (\<lambda>(t, ref, url_ref, enabled).
     \<lparr>pic_type = t, pic_apiKeyRef = ref, pic_enabled = enabled, pic_baseUrlRef = truthy_str url_ref, pic_apiSurface = None\<rparr>)"

definition template_client :: "wizard_client \<Rightarrow> client_config" where
  "template_client c = \<lparr>cc_name = wc_name c, cc_type = wc_type c, cc_gatewayKeyRef = wc_gatewayKeyRef c,
     cc_rateLimit = map_option (\<lambda>r. buildClientRateLimitConfig (r\<lparr>crl_maxConcurrentStreams := truthy_count (crl_maxConcurrentStreams r)\<rparr>)) (wc_rateLimit c)\<rparr>"

definition template_model :: "string \<Rightarrow> provider_type \<Rightarrow> string \<Rightarrow> model_config" where
  "template_model providerInstance t modelId = \<lparr>mc_providerInstance = providerInstance, mc_modelId = modelId, mc_fallback = None,
     mc_capabilities = Some (buildDefaultModelCapabilities modelId t), mc_policy = Some (buildDefaultModelPolicy modelId t)\<rparr>"

fun template_models :: "(string \<Rightarrow> provider_type option) \<Rightarrow> cli_ai_model list \<Rightarrow> (string \<times> model_config) list result" where
  "template_models providerTypeMap [] = Inr []"
| "template_models providerTypeMap (m # ms) =
     (case providerTypeMap (wm_providerInstance m) of
        None \<Rightarrow> Inl (plain_error (''Unknown provider instance for model \"'' @ wm_alias m @ ''\": '' @ wm_providerInstance m))
      | Some t \<Rightarrow> res_bind (template_models providerTypeMap ms) (\<lambda>rest. Inr ((wm_alias m, template_model (wm_providerInstance m) t (wm_modelId m)) # rest)))"

definition generateGatewayConfigTemplate :: "config_template_input \<Rightarrow> gateway_config result" where
  "generateGatewayConfigTemplate input =
     res_bind (template_models (map_of (rev (map (\<lambda>(i, t, _). (i, t)) (ct_providers input)))) (ct_models input)) (\<lambda>models.
       Inr \<lparr>schemaVersion = 1, masterKeyRef = ct_masterKeyRef input, gw_providers = obj_assign (map (\<lambda>(i, row). (i, template_provider row)) (ct_providers input)),
            gw_clients = obj_assign (map (\<lambda>c. (wc_id c, template_client c)) (ct_clients input)), gw_models = obj_assign models\<rparr>)"

section \<open>All answers of a run\<close>

record wizard_answers =
  an_masterKey :: string
  an_providers :: "provider_answer list"
  an_models :: "(string \<times> string) option list"
  an_clients :: "client_answer list"
  an_server :: server_answer

definition wizard_answers_ok :: "(string \<Rightarrow> string option) \<Rightarrow> bool \<Rightarrow> wizard_answers \<Rightarrow> bool" where
  "wizard_answers_ok urlProtocol sem a \<longleftrightarrow> wizard_providers_ok urlProtocol (an_providers a) \<and> wizard_models_ok [] (an_models a) \<and>
     length (an_models a) = length (an_providers a) \<and> an_clients a \<noteq> [] \<and> wizard_clients_ok [] (an_clients a) \<and> wizard_server_ok sem (an_server a)"

definition answers_data :: "(nat \<Rightarrow> string) \<Rightarrow> bool \<Rightarrow> wizard_answers \<Rightarrow> wizard_data" where
  "answers_data random sem a =
     \<lparr>wd_masterKey = Some (prompted_masterKey (random 0) (an_masterKey a)), wd_providers = Some (map prompted_provider (an_providers a)),
      wd_models = Some (prompted_models (map prompted_provider (an_providers a)) (an_models a)),
      wd_clients = Some (prompted_clients (\<lambda>n. random (Suc n)) (an_clients a)), wd_serverConfig = Some (prompted_server sem (an_server a))\<rparr>"

section \<open>Objects built by assignment\<close>

lemma map_of_assign_fold: "map_of (fold (\<lambda>(k, v). obj_put k v) kvs acc) k = (case map_of (rev kvs) k of Some v \<Rightarrow> Some v | None \<Rightarrow> map_of acc k)"
  by (induction kvs arbitrary: acc) (auto simp: map_add_def split: option.splits)

lemma map_of_assign: "map_of (obj_assign kvs) k = map_of (rev kvs) k"
  by (simp add: obj_assign_def map_of_assign_fold split: option.splits)

lemma obj_put_fresh: "k \<notin> fst ` set xs \<Longrightarrow> obj_put k v xs = xs @ [(k, v)]"
  by (induction xs) auto

lemma assign_distinct_fold: "distinct (map fst (acc @ kvs)) \<Longrightarrow> fold (\<lambda>(k, v). obj_put k v) kvs acc = acc @ kvs"
  by (induction kvs arbitrary: acc) (auto simp: obj_put_fresh)

lemma obj_assign_distinct: "distinct (map fst kvs) \<Longrightarrow> obj_assign kvs = kvs"
  using assign_distinct_fold [of "[]" kvs] by (simp add: obj_assign_def)

section \<open>The generated environment\<close>

definition secret_name :: "string \<Rightarrow> bool" where
  "secret_name k \<longleftrightarrow> js_ends_with k ''_API_KEY'' \<or> js_ends_with k ''_BASE_URL'' \<or> starts_with ''GATEWAY_KEY_'' k \<or> k = ''MASTER_KEY''"

lemma tail_names: "distinct (map fst (server_tail input))" "list_all (\<lambda>k. \<not> secret_name k) (map fst (server_tail input))"
  "list_all (\<lambda>k. \<not> secret_name k) (map fst (server_head s))"
  by (cases "isEnvInputRedisRequired input"; simp add: server_tail_def server_head_def Let_def secret_name_def js_ends_with_def)+

definition secrets_named :: "env_template_input \<Rightarrow> bool" where
  "secrets_named input \<longleftrightarrow> list_all secret_name (map fst (secret_vars input)) \<and> distinct (map fst (secret_vars input))"

lemma map_of_rev_same: "distinct (map fst xs) \<Longrightarrow> map_of (rev xs) k = map_of xs k"
  by (metis distinct_rev map_of_inject_set rev_map set_rev)

lemma template_secret:
  assumes "secrets_named input" and "(k, v) \<in> set (secret_vars input)"
  shows "map_of (generateEnvTemplate input) k = Some v"
proof -
  have "secret_name k" using assms by (auto simp: secrets_named_def list_all_iff)
  then have "map_of (rev (server_tail input)) k = None" using tail_names(2) [of input] by (auto simp: map_of_eq_None_iff list_all_iff)
  moreover have "map_of (rev (secret_vars input)) k = Some v"
    using assms by (intro map_of_is_SomeI) (auto simp: secrets_named_def rev_map [symmetric])
  ultimately show ?thesis by (simp add: generateEnvTemplate_def map_of_assign map_add_def)
qed

lemma template_setting:
  assumes "secrets_named input" and "\<not> secret_name k" and "k \<notin> {''APP_VERSION'', ''PORT'', ''NODE_ENV'', ''SWAGGER_ENABLED''}"
  shows "map_of (generateEnvTemplate input) k = map_of (server_tail input) k"
proof -
  have "map_of (rev (secret_vars input)) k = None" using assms(1,2) by (auto simp: secrets_named_def list_all_iff map_of_eq_None_iff)
  moreover have "map_of (rev (server_head (et_server input))) k = None" using assms(3) by (auto simp: server_head_def)
  moreover have "map_of (rev (server_tail input)) k = map_of (server_tail input) k"
    using tail_names(1) by (intro map_of_rev_same)
  ultimately show ?thesis by (simp add: generateEnvTemplate_def map_of_assign map_add_def split: option.splits)
qed

lemma parse_int_show [simp]: "js_parse_int (show_nat n) = Some (int n)"
proof -
  obtain c r where cr: "show_nat n = c # r" using show_nat_nonempty by (cases "show_nat n") auto
  then have d: "is_digit c" using show_nat_digits [of n] by auto
  then have "\<not> js_whitespace c" "c \<noteq> CHR ''-''" "c \<noteq> CHR ''+''" by (auto simp: is_digit_def js_whitespace_def)
  moreover have digits: "takeWhile is_digit r = r" using show_nat_digits [of n] cr by (intro takeWhile_eq_all_conv [THEN iffD2]) simp
  ultimately show ?thesis using cr d nat_val_show [of n] by (simp add: js_parse_int_def Let_def digits)
qed

lemma template_literals:
  "js_parse_int ''3600'' = Some 3600" "js_parse_int ''0'' = Some 0" "js_parse_int ''10'' = Some 10" "js_parse_int ''20'' = Some 20" "js_parse_int ''3'' = Some 3"
  "js_parse_int ''60'' = Some 60" "js_number (RespStr ''0.1'') = Some (1 / 10)"
  by code_simp+

definition server_sane :: "server_config \<Rightarrow> bool" where
  "server_sane s \<longleftrightarrow> sv_cacheBackend s \<in> {None, Some ''noop'', Some ''redis''} \<and> sv_metricsBackend s \<in> {None, Some ''sentry'', Some ''noop''} \<and> sv_redisPort s \<noteq> Some 0"

lemma generated_env_valid:
  assumes "secrets_named input" and "server_sane (et_server input)"
  shows "\<exists>e. validateEnvironment (map_of (generateEnvTemplate input)) = Inr e"
proof -
  let ?env = "map_of (generateEnvTemplate input)" and ?s = "et_server input"
  note look = template_setting [OF assms(1)]
  have names: "\<not> secret_name k" if "k \<in> set [''CACHE_BACKEND'', ''CACHE_TTL'', ''REDIS_PORT'', ''REDIS_DB'', ''RATE_LIMIT_RPS_PER_KEY'', ''RATE_LIMIT_BURST_PER_KEY'',
      ''RATE_LIMIT_STREAMS_CONCURRENT'', ''RATE_LIMIT_COOLDOWN_AFTER_429'', ''SENTRY_TRACES_SAMPLE_RATE'', ''METRICS_BACKEND'', ''AI_METRICS_BACKEND'', ''EMBEDDING_DIM'',
      ''EMBEDDING_TIMEOUT_MS'', ''SEMANTIC_CACHE_MIN_SIMILARITY'', ''SEMANTIC_CACHE_TTL'', ''SEMANTIC_CACHE_K'']" for k
    using that by (auto simp: secret_name_def js_ends_with_def)
  have fixed: "?env ''CACHE_TTL'' = Some ''3600''" "?env ''RATE_LIMIT_RPS_PER_KEY'' = Some ''10''" "?env ''RATE_LIMIT_BURST_PER_KEY'' = Some ''20''"
    "?env ''RATE_LIMIT_STREAMS_CONCURRENT'' = Some ''3''" "?env ''RATE_LIMIT_COOLDOWN_AFTER_429'' = Some ''60''" "?env ''SENTRY_TRACES_SAMPLE_RATE'' = Some ''0.1''"
    "?env ''EMBEDDING_DIM'' = None" "?env ''EMBEDDING_TIMEOUT_MS'' = None" "?env ''SEMANTIC_CACHE_MIN_SIMILARITY'' = None" "?env ''SEMANTIC_CACHE_TTL'' = None"
    "?env ''SEMANTIC_CACHE_K'' = None" "?env ''CACHE_BACKEND'' = Some (nullish (sv_cacheBackend ?s) ''noop'')"
    "?env ''METRICS_BACKEND'' = Some (if sv_nodeEnv ?s = ''production'' then ''prometheus'' else ''noop'')"
    "?env ''AI_METRICS_BACKEND'' = Some (nullish (sv_metricsBackend ?s) ''noop'')"
    "?env ''REDIS_PORT'' = (if isEnvInputRedisRequired input then Some (show_nat (nullish (sv_redisPort ?s) 6379)) else None)"
    "?env ''REDIS_DB'' = (if isEnvInputRedisRequired input then Some ''0'' else None)"
    by (subst look [OF names]; simp add: server_tail_def Let_def)+
  let ?e = "EnvironmentVariables ?env"
  have fields: "CACHE_BACKEND ?e = nullish (?env ''CACHE_BACKEND'') ''noop''" "CACHE_TTL ?e = toInt ?env ''CACHE_TTL'' 3600" "REDIS_PORT ?e = toInt ?env ''REDIS_PORT'' 6379"
    "REDIS_DB ?e = toInt ?env ''REDIS_DB'' 0" "RATE_LIMIT_RPS_PER_KEY ?e = toInt ?env ''RATE_LIMIT_RPS_PER_KEY'' 10"
    "RATE_LIMIT_BURST_PER_KEY ?e = toInt ?env ''RATE_LIMIT_BURST_PER_KEY'' 20" "RATE_LIMIT_STREAMS_CONCURRENT ?e = toInt ?env ''RATE_LIMIT_STREAMS_CONCURRENT'' 3"
    "RATE_LIMIT_COOLDOWN_AFTER_429 ?e = toInt ?env ''RATE_LIMIT_COOLDOWN_AFTER_429'' 60"
    "SENTRY_TRACES_SAMPLE_RATE ?e = toNumber ?env ''SENTRY_TRACES_SAMPLE_RATE'' (1 / 10)" "METRICS_BACKEND ?e = nullish (?env ''METRICS_BACKEND'') ''noop''"
    "AI_METRICS_BACKEND ?e = nullish (?env ''AI_METRICS_BACKEND'') ''noop''" "EMBEDDING_DIM ?e = toInt ?env ''EMBEDDING_DIM'' 1024"
    "EMBEDDING_TIMEOUT_MS ?e = toInt ?env ''EMBEDDING_TIMEOUT_MS'' 5000"
    "SEMANTIC_CACHE_MIN_SIMILARITY ?e = toNumber ?env ''SEMANTIC_CACHE_MIN_SIMILARITY'' (85 / 100)"
    "SEMANTIC_CACHE_TTL ?e = toInt ?env ''SEMANTIC_CACHE_TTL'' 3600" "SEMANTIC_CACHE_K ?e = toInt ?env ''SEMANTIC_CACHE_K'' 3"
    unfolding EnvironmentVariables_def environment_variables.select_convs by (rule refl)+
  have port: "1 \<le> nullish (sv_redisPort ?s) 6379" using assms(2) by (cases "sv_redisPort ?s") (auto simp: server_sane_def)
  have words: "nullish (sv_cacheBackend ?s) ''noop'' \<in> {''noop'', ''redis''}" "nullish (sv_metricsBackend ?s) ''noop'' \<in> {''sentry'', ''noop''}"
    using assms(2) by (auto simp: server_sane_def)
  have "env_errors ?e = []"
    unfolding env_errors_def append_is_Nil_conv bad_Nil fields fixed toInt_def toNumber_def
    using port words by (intro conjI) (simp_all add: template_literals int_min_def del: js_number.simps)
  then show ?thesis by (simp add: validateEnvironment_def Let_def)
qed

section \<open>The generated configuration\<close>

lemma ref_names [simp]: "deriveApiKeyRef i \<noteq> []" "deriveBaseUrlRef i \<noteq> []" "deriveGatewayKeyRef i \<noteq> []" "secret_name (deriveApiKeyRef i)"
  "secret_name (deriveBaseUrlRef i)" "secret_name (deriveGatewayKeyRef i)" "secret_name ''MASTER_KEY''"
  by (simp_all add: deriveApiKeyRef_def deriveBaseUrlRef_def deriveGatewayKeyRef_def secret_name_def)

lemma trim_keeps: "c \<in> set s \<Longrightarrow> \<not> js_whitespace c \<Longrightarrow> c \<in> set (js_trim s)"
proof -
  have drop: "c \<in> set (dropWhile js_whitespace t)" if "c \<in> set t" "\<not> js_whitespace c" for t
    using that by (induction t) auto
  assume "c \<in> set s" "\<not> js_whitespace c"
  then show ?thesis by (simp add: js_trim_def drop)
qed

lemma trim_nonempty: "c \<in> set s \<Longrightarrow> \<not> js_whitespace c \<Longrightarrow> js_trim s \<noteq> []"
  using trim_keeps by fastforce

lemma prompted_masterKey_nonblank: "js_trim (prompted_masterKey r a) \<noteq> []"
  using trim_nonempty [of "CHR ''g''" "generateMasterKey r"] by (simp add: prompted_masterKey_def generateMasterKey_def js_whitespace_def)

lemma models_ok_aliases:
  assumes "wizard_models_ok taken as"
  shows "distinct (map wm_alias (prompted_models ps as)) \<and> set (map wm_alias (prompted_models ps as)) \<inter> set taken = {} \<and>
    list_all isRedisSearchTagSafeId (map wm_alias (prompted_models ps as))"
  using assms
proof (induction ps as arbitrary: taken rule: prompted_models.induct)
  case (1 p ps a m as)
  from "1.prems" have "wizard_models_ok (js_trim a # taken) as" by simp
  from "1.IH" [OF this] "1.prems" show ?case by auto
qed auto

lemma models_providers: "wm_providerInstance ` set (prompted_models ps as) \<subseteq> wp_id ` set ps"
  by (induction ps as rule: prompted_models.induct) auto

lemma models_for_all: "length as = length ps \<Longrightarrow> None \<notin> set as \<Longrightarrow> wm_providerInstance ` set (prompted_models ps as) = wp_id ` set ps"
  by (induction ps as rule: prompted_models.induct) auto

lemma clients_ok_rows:
  assumes "wizard_clients_ok taken as"
  shows "distinct (map (js_trim \<circ> ca_id) as) \<and> set (map (js_trim \<circ> ca_id) as) \<inter> set taken = {} \<and>
    list_all (\<lambda>a. isRedisSearchTagSafeId (js_trim (ca_id a)) \<and> js_trim (ca_name a) \<noteq> [] \<and> ca_type a \<in> set GATEWAY_CLIENT_TYPES \<and>
      (case ca_rateLimit a of None \<Rightarrow> True | Some (rps, burst, streams) \<Rightarrow> 0 < rps \<and> 0 < burst \<and> 1 \<le> streams)) as"
  using assms by (induction taken as rule: wizard_clients_ok.induct) auto

lemma prompted_clients_ids: "map wc_id (prompted_clients random as) = map (js_trim \<circ> ca_id) as"
  by (rule nth_equalityI) (simp_all add: prompted_clients_def prompted_client_def nth_enumerate_eq)

lemma prompted_clients_elem: "c \<in> set (prompted_clients random as) \<Longrightarrow> \<exists>r. \<exists>a \<in> set as. c = prompted_client r a"
  by (auto simp: prompted_clients_def in_set_enumerate_eq) (metis nth_mem)

lemma template_models_map:
  "\<forall>m \<in> set ms. f (wm_providerInstance m) \<noteq> None \<Longrightarrow>
   template_models f ms = Inr (map (\<lambda>m. (wm_alias m, template_model (wm_providerInstance m) (the (f (wm_providerInstance m))) (wm_modelId m))) ms)"
  by (induction ms) auto

lemma provider_rows_ok:
  assumes "distinct (map (pic_apiKeyRef \<circ> snd) rows @ map fst refs)"
    and "\<forall>(i, r) \<in> set rows. (isOpenAiProviderType (pic_type r) \<longrightarrow> truthy_str (map_option js_trim (pic_baseUrlRef r)) \<noteq> None) \<and> pic_apiSurface r = None"
  shows "provider_row_issues refs rows = []"
  using assms
proof (induction refs rows rule: provider_row_issues.induct)
  case (2 refs i row ps)
  have "map_of refs (pic_apiKeyRef row) = None" using "2.prems"(1) by (auto simp: map_of_eq_None_iff)
  with 2 show ?case by auto
qed simp

definition row_of :: "cli_ai_provider \<Rightarrow> provider_instance_config" where
  "row_of p = template_provider (wp_type p, wp_apiKeyRef p, truthy_str (wp_baseUrlRef p), wp_enabled p \<noteq> Some False)"

definition provider_sane :: "cli_ai_provider \<Rightarrow> bool" where
  "provider_sane p \<longleftrightarrow> wp_apiKeyRef p \<noteq> [] \<and> wp_enabled p \<noteq> Some False \<and>
     (isOpenAiProviderType (wp_type p) \<longrightarrow> (\<exists>r. wp_baseUrlRef p = Some r \<and> js_trim r \<noteq> []))"

definition client_sane :: "wizard_client \<Rightarrow> bool" where
  "client_sane c \<longleftrightarrow> isRedisSearchTagSafeId (wc_id c) \<and> wc_name c \<noteq> [] \<and> wc_type c \<in> set GATEWAY_CLIENT_TYPES \<and> wc_gatewayKeyRef c \<noteq> [] \<and>
     opt_all (\<lambda>r. 0 < crl_rps r \<and> 0 < crl_burst r) (wc_rateLimit c)"

definition model_row :: "cli_ai_provider list \<Rightarrow> cli_ai_model \<Rightarrow> string \<times> model_config" where
  "model_row ps m = (wm_alias m, template_model (wm_providerInstance m) (the (map_of (map (\<lambda>p. (wp_id p, wp_type p)) ps) (wm_providerInstance m))) (wm_modelId m))"

definition wizard_gateway :: "cli_ai_provider list \<Rightarrow> cli_ai_model list \<Rightarrow> wizard_client list \<Rightarrow> gateway_config" where
  "wizard_gateway ps ms cs = \<lparr>schemaVersion = 1, masterKeyRef = ''MASTER_KEY'', gw_providers = map (\<lambda>p. (wp_id p, row_of p)) ps,
     gw_clients = map (\<lambda>c. (wc_id c, template_client c)) cs, gw_models = map (model_row ps) ms\<rparr>"

lemma truthy_str_idem [simp]: "truthy_str (truthy_str x) = truthy_str x"
  by (simp add: truthy_str_def split: option.split)

lemma truthy_trim [simp]: "js_trim r \<noteq> [] \<Longrightarrow> truthy_str (map_option js_trim (truthy_str (Some r))) = Some (js_trim r)"
  by (cases r) auto

lemma row_of_simps [simp]:
  "pic_type (row_of p) = wp_type p" "pic_apiKeyRef (row_of p) = wp_apiKeyRef p" "pic_enabled (row_of p) \<longleftrightarrow> wp_enabled p \<noteq> Some False"
  "pic_baseUrlRef (row_of p) = truthy_str (wp_baseUrlRef p)" "pic_apiSurface (row_of p) = None"
  by (simp_all add: row_of_def template_provider_def)

lemma model_row_simps [simp]:
  "fst (model_row ps m) = wm_alias m" "mc_providerInstance (snd (model_row ps m)) = wm_providerInstance m" "mc_fallback (snd (model_row ps m)) = None"
  "mc_policy (snd (model_row ps m)) = Some (buildDefaultModelPolicy (wm_modelId m) (the (map_of (map (\<lambda>p. (wp_id p, wp_type p)) ps) (wm_providerInstance m))))"
  by (simp_all add: model_row_def template_model_def)

lemma generated_gateway:
  assumes "distinct (map wp_id ps)" "distinct (map wm_alias ms)" "distinct (map wc_id cs)" "wm_providerInstance ` set ms \<subseteq> wp_id ` set ps"
  shows "generateGatewayConfigTemplate (config_input_of ps ms cs) = Inr (wizard_gateway ps ms cs)"
proof -
  let ?types = "map (\<lambda>p. (wp_id p, wp_type p)) ps"
  have types: "map_of (rev ?types) = map_of ?types" using assms(1) by (intro ext map_of_rev_same) (simp add: comp_def)
  have "\<forall>m \<in> set ms. map_of ?types (wm_providerInstance m) \<noteq> None" using assms(4) by (auto simp: map_of_eq_None_iff image_image image_subset_iff)
  then have models: "template_models (map_of (rev ?types)) ms = Inr (map (model_row ps) ms)"
    unfolding types by (simp add: template_models_map model_row_def)
  have "map (\<lambda>(i, t, _). (i, t)) (ct_providers (config_input_of ps ms cs)) = ?types"
    by (simp add: config_input_of_def)
  with models show ?thesis
    using assms(1-3)
    by (simp add: generateGatewayConfigTemplate_def config_input_of_def wizard_gateway_def obj_assign_distinct comp_def row_of_def)
qed

lemma wizard_gateway_fields [simp]:
  "schemaVersion (wizard_gateway ps ms cs) = 1" "masterKeyRef (wizard_gateway ps ms cs) = ''MASTER_KEY''"
  "gw_providers (wizard_gateway ps ms cs) = map (\<lambda>p. (wp_id p, row_of p)) ps" "gw_clients (wizard_gateway ps ms cs) = map (\<lambda>c. (wc_id c, template_client c)) cs"
  "gw_models (wizard_gateway ps ms cs) = map (model_row ps) ms"
  by (simp_all add: wizard_gateway_def)

lemma wizard_values_ok:
  assumes "list_all provider_sane ps" "list_all client_sane cs" "list_all isRedisSearchTagSafeId (map wm_alias ms)"
  shows "value_issues (wizard_gateway ps ms cs) = []"
proof -
  have "provider_value_issues (wp_id p, row_of p) = []" if "p \<in> set ps" for p
    using that assms(1) by (auto simp: provider_value_issues_def list_all_iff provider_sane_def truthy_str_def split: option.splits)
  moreover have "client_value_issues (wc_id c, template_client c) = []" if "c \<in> set cs" for c
    using that assms(2)
    by (auto simp: client_value_issues_def list_all_iff client_sane_def template_client_def buildClientRateLimitConfig_def opt_all_def DEFAULT_CLIENT_MAX_CONCURRENT_STREAMS_def
        split: option.splits)
  moreover have "model_value_issues (model_row ps m) = []" if "m \<in> set ms" for m
    using that assms(3) by (auto simp: model_value_issues_def case_prod_unfold list_all_iff default_policy_ok)
  ultimately show ?thesis by (simp add: value_issues_def)
qed

lemma wizard_schema_ok:
  assumes "list_all provider_sane ps" "distinct (map wp_apiKeyRef ps)" "wm_providerInstance ` set ms = wp_id ` set ps" "ms \<noteq> []"
  shows "schema_issues (wizard_gateway ps ms cs) = []"
proof -
  have "provider_row_issues [] (map (\<lambda>p. (wp_id p, row_of p)) ps) = []"
    using assms(1,2)
    by (intro provider_rows_ok) (auto simp: comp_def list_all_iff provider_sane_def dest!: bspec simp del: truthy_eq_None truthy_str_eq_Some)
  moreover have "fallback_issues (wizard_gateway ps ms cs) (model_row ps m) = []" for m
    by (simp add: fallback_issues_def case_prod_unfold)
  moreover have "unknown_provider_issues (wizard_gateway ps ms cs) (model_row ps m) = []" if "m \<in> set ms" for m
    using that assms(3) by (auto simp: unknown_provider_issues_def case_prod_unfold map_of_eq_None_iff image_image)
  moreover have "list_ex (\<lambda>(a, m). mc_providerInstance m = wp_id p) (map (model_row ps) ms)" if "p \<in> set ps" for p
    using that assms(3) by (auto simp: list_ex_iff case_prod_unfold) (metis image_iff)
  ultimately show ?thesis using assms(4) by (auto simp: schema_issues_def model_provider_issues_def)
qed

section \<open>Accepted answers give a configuration that starts\<close>

text \<open>What is used of the URL parser of the runtime: the empty text is no URL, and without a trailing slash an http(s) URL is still one.\<close>

definition url_parser_ok :: "(string \<Rightarrow> string option) \<Rightarrow> bool" where
  "url_parser_ok urlProtocol \<longleftrightarrow> urlProtocol [] = None \<and>
     (\<forall>u p. urlProtocol u = Some p \<and> p \<in> {''http:'', ''https:''} \<longrightarrow> urlProtocol (js_trim (strip_slash u)) = Some p)"

text \<open>The environment variables whose names the wizard derives from the identifiers.\<close>

definition derived_names :: "wizard_answers \<Rightarrow> string list" where
  "derived_names a =
     concat (map (\<lambda>p. deriveApiKeyRef (pa_instanceId p) # (if isOpenAiProviderType (pa_type p) then [deriveBaseUrlRef (pa_instanceId p)] else [])) (an_providers a)) @
     map (\<lambda>c. deriveGatewayKeyRef (ca_id c)) (an_clients a)"

lemma derive_trim [simp]: "deriveApiKeyRef (js_trim i) = deriveApiKeyRef i" "deriveBaseUrlRef (js_trim i) = deriveBaseUrlRef i"
  by (simp_all add: deriveApiKeyRef_def deriveBaseUrlRef_def env_slug_def)

lemma prompted_url:
  assumes "url_parser_ok u" "validateCliProviderBaseUrl u url = None"
  shows "normalizeCliProviderBaseUrl url \<noteq> []" and "\<exists>p \<in> {''http:'', ''https:''}. u (js_trim (normalizeCliProviderBaseUrl url)) = Some p"
proof -
  obtain p where p: "u (js_trim url) = Some p" "p \<in> {''http:'', ''https:''}"
    using assms(2) by (auto simp: validateCliProviderBaseUrl_def split: option.splits if_splits)
  then have "u (js_trim (strip_slash (js_trim url))) = Some p" using assms(1) by (auto simp: url_parser_ok_def)
  then show "normalizeCliProviderBaseUrl url \<noteq> []" "\<exists>p \<in> {''http:'', ''https:''}. u (js_trim (normalizeCliProviderBaseUrl url)) = Some p"
    using assms(1) p(2) by (auto simp: normalizeCliProviderBaseUrl_def url_parser_ok_def)
qed

lemma prompted_provider_fields:
  "wp_id (prompted_provider a) = js_trim (pa_instanceId a)" "wp_type (prompted_provider a) = pa_type a"
  "wp_apiKeyRef (prompted_provider a) = deriveApiKeyRef (pa_instanceId a)" "wp_apiKey (prompted_provider a) = js_trim (pa_key a)" "wp_enabled (prompted_provider a) = None"
  "\<not> isOpenAiProviderType (pa_type a) \<Longrightarrow> wp_baseUrlRef (prompted_provider a) = None"
  "isOpenAiProviderType (pa_type a) \<Longrightarrow> normalizeCliProviderBaseUrl (pa_url a) \<noteq> [] \<Longrightarrow> wp_baseUrlRef (prompted_provider a) = Some (deriveBaseUrlRef (pa_instanceId a))"
  "isOpenAiProviderType (pa_type a) \<Longrightarrow> normalizeCliProviderBaseUrl (pa_url a) \<noteq> [] \<Longrightarrow> wp_baseUrl (prompted_provider a) = Some (normalizeCliProviderBaseUrl (pa_url a))"
  by (auto simp: prompted_provider_def Let_def truthy_str_def)

lemma base_url_ref_nonblank: "js_trim (deriveBaseUrlRef i) \<noteq> []"
  by (rule trim_nonempty [of "CHR ''_''"]) (simp_all add: deriveBaseUrlRef_def js_whitespace_def)

lemma secret_vars_names:
  assumes "url_parser_ok u" "wizard_providers_ok u (an_providers a)"
  shows "map fst (secret_vars (env_input_of mk (map prompted_provider (an_providers a)) (prompted_clients r (an_clients a)) sc)) = ''MASTER_KEY'' # derived_names a"
proof -
  have clients: "map wc_gatewayKeyRef (prompted_clients r cs) = map (\<lambda>c. deriveGatewayKeyRef (ca_id c)) cs" for cs
    by (rule nth_equalityI) (simp_all add: prompted_clients_def prompted_client_def nth_enumerate_eq)
  have one: "map fst ((wp_apiKeyRef p, wp_apiKey p) # (case truthy_str (truthy_str (wp_baseUrlRef p)) of Some r \<Rightarrow> [(r, nullish x [])] | None \<Rightarrow> [])) =
      deriveApiKeyRef (pa_instanceId q) # (if isOpenAiProviderType (pa_type q) then [deriveBaseUrlRef (pa_instanceId q)] else [])"
    if "q \<in> set (an_providers a)" "p = prompted_provider q" for p q x
  proof (cases "isOpenAiProviderType (pa_type q)")
    case True
    then have "validateCliProviderBaseUrl u (pa_url q) = None" using that(1) assms(2) by (auto simp: wizard_providers_ok_def list_all_iff)
    with True show ?thesis using prompted_url(1) [OF assms(1)] by (simp add: that(2) prompted_provider_fields truthy_str_def)
  qed (simp add: that(2) prompted_provider_fields)
  show ?thesis
    unfolding secret_vars_def env_input_of_def derived_names_def
    by (simp add: clients map_concat comp_def one [simplified] cong: map_cong)
qed

lemma distinct_heads: "distinct (concat (map (\<lambda>p. f p # g p) xs)) \<Longrightarrow> distinct (map f xs)"
  by (induction xs) auto

lemma prompted_providers_sane:
  assumes "url_parser_ok u" "wizard_providers_ok u as"
  shows "list_all provider_sane (map prompted_provider as)"
proof -
  have "provider_sane (prompted_provider q)" if "q \<in> set as" for q
  proof (cases "isOpenAiProviderType (pa_type q)")
    case True
    then have "validateCliProviderBaseUrl u (pa_url q) = None" using that assms(2) by (auto simp: wizard_providers_ok_def list_all_iff)
    with True show ?thesis
      using prompted_url(1) [OF assms(1)] base_url_ref_nonblank by (simp add: provider_sane_def prompted_provider_fields)
  qed (simp add: provider_sane_def prompted_provider_fields)
  then show ?thesis by (simp add: list_all_iff)
qed

lemma prompted_clients_sane:
  assumes "wizard_clients_ok [] as"
  shows "list_all client_sane (prompted_clients r as)"
proof -
  have "client_sane c" if c: "c \<in> set (prompted_clients r as)" for c
  proof -
    obtain r' q where q: "q \<in> set as" "c = prompted_client r' q" using prompted_clients_elem [OF c] by blast
    then show ?thesis using clients_ok_rows [OF assms]
      by (auto simp: list_all_iff client_sane_def prompted_client_def opt_all_def split: option.splits dest!: bspec)
  qed
  then show ?thesis by (simp add: list_all_iff)
qed

lemma prompted_server_sane: "wizard_server_ok sem s \<Longrightarrow> server_sane (prompted_server sem s)"
  by (auto simp: wizard_server_ok_def server_sane_def prompted_server_def Let_def truthy_count_def split: nat.splits)

lemma secrets_of_answers:
  assumes u: "url_parser_ok u" and ok: "wizard_providers_ok u (an_providers a)" and d: "distinct (derived_names a)"
    and env: "env = map_of (generateEnvTemplate (env_input_of (Some mk) (map prompted_provider (an_providers a)) (prompted_clients r (an_clients a)) sc))"
  shows "env ''MASTER_KEY'' = Some mk"
    and "q \<in> set (an_providers a) \<Longrightarrow> env (deriveApiKeyRef (pa_instanceId q)) = Some (js_trim (pa_key q))"
    and "q \<in> set (an_providers a) \<Longrightarrow> isOpenAiProviderType (pa_type q) \<Longrightarrow> env (deriveBaseUrlRef (pa_instanceId q)) = Some (normalizeCliProviderBaseUrl (pa_url q))"
    and "secrets_named (env_input_of (Some mk) (map prompted_provider (an_providers a)) (prompted_clients r (an_clients a)) sc)"
proof -
  let ?in = "env_input_of (Some mk) (map prompted_provider (an_providers a)) (prompted_clients r (an_clients a)) sc"
  have derived: "list_all secret_name (derived_names a)" by (auto simp: derived_names_def list_all_iff)
  have master: "''MASTER_KEY'' \<notin> set (derived_names a)"
    by (auto simp: derived_names_def list_all_iff deriveApiKeyRef_def deriveBaseUrlRef_def deriveGatewayKeyRef_def append_eq_conv_conj split: if_splits)
  show named: "secrets_named ?in"
    unfolding secrets_named_def secret_vars_names [OF u ok] using derived master d by simp
  note look = template_secret [OF named, folded env]
  show "env ''MASTER_KEY'' = Some mk" by (rule look) (simp add: secret_vars_def env_input_of_def)
  assume q: "q \<in> set (an_providers a)"
  show "env (deriveApiKeyRef (pa_instanceId q)) = Some (js_trim (pa_key q))"
    by (rule look) (use q in \<open>auto simp: secret_vars_def env_input_of_def prompted_provider_fields intro!: bexI [of _ q]\<close>)
  assume o: "isOpenAiProviderType (pa_type q)"
  then have "validateCliProviderBaseUrl u (pa_url q) = None" using q ok by (auto simp: wizard_providers_ok_def list_all_iff)
  then have "normalizeCliProviderBaseUrl (pa_url q) \<noteq> []" by (rule prompted_url(1) [OF u])
  with q o show "env (deriveBaseUrlRef (pa_instanceId q)) = Some (normalizeCliProviderBaseUrl (pa_url q))"
    by (intro look) (auto simp: secret_vars_def env_input_of_def prompted_provider_fields truthy_str_def intro!: bexI [of _ q])
qed

lemma answers_effective:
  assumes u: "url_parser_ok u" and ok: "wizard_providers_ok u (an_providers a)" and d: "distinct (derived_names a)"
    and ids: "distinct (map wp_id (map prompted_provider (an_providers a)))"
    and models: "wm_providerInstance ` set ms = wp_id ` set (map prompted_provider (an_providers a))" "ms \<noteq> []"
    and env: "env = map_of (generateEnvTemplate (env_input_of (Some mk) (map prompted_provider (an_providers a)) (prompted_clients r (an_clients a)) sc))"
  shows "buildEffectiveGatewayConfig u env False (wizard_gateway (map prompted_provider (an_providers a)) ms cs) = Inr (wizard_gateway (map prompted_provider (an_providers a)) ms cs)"
proof -
  let ?ps = "map prompted_provider (an_providers a)" and ?cfg = "wizard_gateway (map prompted_provider (an_providers a)) ms cs"
  note secrets = secrets_of_answers [OF u ok d env]
  have enabled: "enabled_providers ?cfg = gw_providers ?cfg" by (auto simp: enabled_providers_def prompted_provider_fields filter_id_conv)
  have "map_of (gw_providers ?cfg) (wp_id p) = Some (row_of p)" if "p \<in> set ?ps" for p
    using ids that by (intro map_of_is_SomeI) (auto simp: comp_def)
  then have "model_is_active ?cfg (snd (model_row ?ps m))" if "m \<in> set ms" for m
  proof -
    have "wm_providerInstance m \<in> wp_id ` set ?ps" using that unfolding models(1) [symmetric] by (rule imageI)
    then obtain p where p: "p \<in> set ?ps" "wm_providerInstance m = wp_id p" by blast
    have "wp_enabled p \<noteq> Some False" using p(1) by (auto simp: prompted_provider_fields)
    with p \<open>\<And>p. p \<in> set ?ps \<Longrightarrow> map_of (gw_providers ?cfg) (wp_id p) = Some (row_of p)\<close> show ?thesis by (simp add: model_is_active_def)
  qed
  then have active: "active_models ?cfg = gw_models ?cfg" by (auto simp: active_models_def filter_id_conv case_prod_unfold)
  have used: "check_providers_used (gw_models ?cfg) (gw_providers ?cfg) = Inr ()"
    unfolding check_providers_used_ok
  proof
    fix i assume "i \<in> fst ` set (gw_providers ?cfg)"
    then have "i \<in> wm_providerInstance ` set ms" unfolding models(1) by (auto simp: image_image)
    then show "\<exists>m \<in> snd ` set (gw_models ?cfg). mc_providerInstance m = i" by auto
  qed
  have keys: "collectMissingEnabledProviderApiKeyErrors env ?cfg = []"
    using ok secrets(2) by (auto simp: collectMissingEnabledProviderApiKeyErrors_def filter_empty_conv prompted_provider_fields env_value_def isApiKeyRequiredForProviderType_def
        wizard_providers_ok_def list_all_iff validateProviderApiKey_def Let_def split: if_splits)
  have "resolveBaseUrlFromEnv u (Some (deriveBaseUrlRef (pa_instanceId q))) env \<noteq> []" if q: "q \<in> set (an_providers a)" "isOpenAiProviderType (pa_type q)" for q
  proof -
    let ?raw = "js_trim (normalizeCliProviderBaseUrl (pa_url q))"
    have "validateCliProviderBaseUrl u (pa_url q) = None" using q ok by (auto simp: wizard_providers_ok_def list_all_iff)
    then obtain p where p: "p \<in> {''http:'', ''https:''}" "u ?raw = Some p" using prompted_url(2) [OF u] by blast
    then have "u (js_trim (strip_slash ?raw)) = Some p" using u by (auto simp: url_parser_ok_def)
    moreover have "u [] = None" using u by (simp add: url_parser_ok_def)
    ultimately have "?raw \<noteq> []" "strip_slash ?raw \<noteq> []" using p(2) by (metis js_trim_Nil option.distinct(1))+
    with p show ?thesis using secrets(3) [OF q] base_url_ref_nonblank by (auto simp: resolveBaseUrlFromEnv_def env_value_def Let_def)
  qed
  moreover have "wp_baseUrlRef (prompted_provider q) = Some (deriveBaseUrlRef (pa_instanceId q))" if "q \<in> set (an_providers a)" "isOpenAiProviderType (pa_type q)" for q
    using that ok prompted_url(1) [OF u] by (auto simp: prompted_provider_fields wizard_providers_ok_def list_all_iff)
  ultimately have urls: "collectMissingBaseUrlErrors u env ?cfg = []"
    by (auto simp: collectMissingBaseUrlErrors_def filter_empty_conv prompted_provider_fields(2) truthy_str_def)
  show ?thesis
    unfolding buildEffectiveGatewayConfig_def Let_def enabled active
    using models(2) used keys urls by (simp add: assertEnabledProviderSecretsPresent_def assertEnabledProviderApiKeysPresent_def assertEnabledProviderBaseUrlPresent_def wizard_gateway_def)
qed


definition sample_wizard_answers :: wizard_answers where
  "sample_wizard_answers = \<lparr>an_masterKey = ''  '',
     an_providers = [\<lparr>pa_type = PGoogle, pa_instanceId = ''google-primary'', pa_key = '' AIza1 '', pa_url = []\<rparr>,
       \<lparr>pa_type = POpenAICompatible, pa_instanceId = ''local'', pa_key = [], pa_url = ''http://h/v1/''\<rparr>],
     an_models = [Some (''fast'', ''gemini-2.5-flash''), Some ('' own '', ''llama3.2'')],
     an_clients = [\<lparr>ca_id = ''web-app'', ca_name = ''Web'', ca_type = ''webapp'', ca_rateLimit = Some (10, 20, 3)\<rparr>],
     an_server = \<lparr>sa_port = 3000, sa_nodeEnv = ''production'', sa_swaggerEnabled = False, sa_cacheEnabled = True, sa_cacheBackend = ''redis'',
       sa_rateLimitSmartEnabled = True, sa_redisHost = ''localhost'', sa_redisPort = 6379, sa_redisPassword = [], sa_metricsBackend = ''noop'', sa_sentryDsn = []\<rparr>\<rparr>"

definition sample_url_parser :: "string \<Rightarrow> string option" where
  "sample_url_parser u = (if CHR ''h'' \<in> set u then Some ''http:'' else None)"

lemma sample_url_parser_ok: "url_parser_ok sample_url_parser"
proof -
  have "CHR ''h'' \<in> set (strip_slash s)" if "CHR ''h'' \<in> set s" for s
  proof (cases "js_ends_with s ''/''")
    case True
    then have "s = butlast s @ ''/''" using append_butlast_last_id [of s]
      by (cases s rule: rev_cases) (auto simp: js_ends_with_def)
    then obtain t where "s = t @ ''/''" by blast
    with that True show ?thesis by (auto simp: strip_slash_def)
  qed (simp add: strip_slash_def that)
  then have "CHR ''h'' \<in> set (js_trim (strip_slash s))" if "CHR ''h'' \<in> set s" for s
    using that by (intro trim_keeps) (simp_all add: js_whitespace_def)
  then show ?thesis by (simp add: url_parser_ok_def sample_url_parser_def)
qed

lemma sample_wizard_answers_ok:
  "wizard_answers_ok sample_url_parser False sample_wizard_answers" "None \<notin> set (an_models sample_wizard_answers)" "distinct (derived_names sample_wizard_answers)"
proof -
  have "wizard_server_ok False (an_server sample_wizard_answers)"
    by (simp add: wizard_server_ok_def sample_wizard_answers_def js_trim_def js_whitespace_def)
  moreover have "wizard_providers_ok sample_url_parser (an_providers sample_wizard_answers)"
    by (simp add: wizard_providers_ok_def sample_wizard_answers_def validateProviderApiKey_def validateCliProviderBaseUrl_def sample_url_parser_def js_trim_def
        js_whitespace_def isOpenAiProviderType_def isApiKeyRequiredForProviderType_def Let_def)
  moreover have "wizard_models_ok [] (an_models sample_wizard_answers)" "wizard_clients_ok [] (an_clients sample_wizard_answers)"
    by (simp_all add: sample_wizard_answers_def js_trim_def js_whitespace_def GATEWAY_CLIENT_TYPES_def tag_eval)
  moreover have "length (an_models sample_wizard_answers) = length (an_providers sample_wizard_answers)" "an_clients sample_wizard_answers \<noteq> []"
    by (simp_all add: sample_wizard_answers_def)
  ultimately show "wizard_answers_ok sample_url_parser False sample_wizard_answers" by (simp add: wizard_answers_ok_def)
  show "None \<notin> set (an_models sample_wizard_answers)" by (simp add: sample_wizard_answers_def)
  show "distinct (derived_names sample_wizard_answers)" by (simp add: derived_names_def sample_wizard_answers_def name_eval isOpenAiProviderType_def)
qed


end
