(* ===== verification/Cli_Wizard.thy ===== *)
theory Cli_Wizard
  imports Wizard_Config
begin

text \<open>
  The run of the configuration wizard (\<open>cli/services/wizard-orchestrator.service.ts\<close>): five prompts in a fixed order, the progress file after each of
  them, and the resumption of an interrupted session. The \<open>WizardState\<close> object that the steps change in place is \<open>ww_state\<close>, beside the
  files. The user of one run is a parameter: the answers the prompts accept, the prompts the user interrupts (inquirer rejects its promise on
  Ctrl-C) and the answers to the questions of the command. Messages on the console are left out.
\<close>

section \<open>World and user\<close>

record wizard_world =
  ww_node :: node_world
  ww_state :: wizard_state

text \<open>What the user does when the files do not validate: nothing any more, give up, or edit files and press Enter.\<close>

datatype fix_answer = FixInterrupt | FixAbort | FixManual "(string \<times> string option) list"

record wizard_user =
  us_answers :: wizard_answers
  us_interrupts :: "wizard_step \<Rightarrow> bool"
  us_resume :: "bool option"
  us_overwrite :: "bool option"
  us_fix :: "nat \<Rightarrow> fix_answer"

definition on_node :: "(node_world, 'a) io \<Rightarrow> (wizard_world, 'a) io" where
  "on_node m = (\<lambda>w. case m (ww_node w) of (r, n) \<Rightarrow> (r, w\<lparr>ww_node := n\<rparr>))"

definition change_state :: "(wizard_state \<Rightarrow> wizard_state) \<Rightarrow> (wizard_world, unit) io" where
  "change_state f = io_update (\<lambda>w. w\<lparr>ww_state := f (ww_state w)\<rparr>)"

definition exit_prompt_error :: jserr where
  "exit_prompt_error = ErrorInstance NoSdkClass ''ExitPromptError'' ''User force closed the prompt'' []"

definition ask :: "'a option \<Rightarrow> ('w, 'a) io" where
  "ask answer = (case answer of None \<Rightarrow> io_throw exit_prompt_error | Some a \<Rightarrow> io_return a)"

section \<open>The prompts (cli/services/prompts)\<close>

definition promptMasterKey :: "(nat \<Rightarrow> string) \<Rightarrow> wizard_user \<Rightarrow> (node_world, string) io" where
  "promptMasterKey random u =
     io_bind (assertInteractiveAllowed ''KeyPromptService.promptMasterKey'') (\<lambda>_.
       if us_interrupts u StepMasterKey then io_throw exit_prompt_error else io_return (prompted_masterKey (random 0) (an_masterKey (us_answers u))))"

definition promptProviders :: "wizard_user \<Rightarrow> (node_world, cli_ai_provider list) io" where
  "promptProviders u =
     io_bind (assertInteractiveAllowed ''ProviderPromptService.promptProviders'') (\<lambda>_.
       if us_interrupts u StepProviders then io_throw exit_prompt_error else io_return (map prompted_provider (an_providers (us_answers u))))"

definition promptModels :: "wizard_user \<Rightarrow> cli_ai_provider list option \<Rightarrow> (node_world, cli_ai_model list) io" where
  "promptModels u providers =
     io_bind (assertInteractiveAllowed ''ModelPromptService.promptModels'') (\<lambda>_.
       case providers of
         None \<Rightarrow> io_throw type_error
       | Some ps \<Rightarrow>
           if us_interrupts u StepModels then io_throw exit_prompt_error
           else if prompted_models ps (an_models (us_answers u)) = [] then io_throw (plain_error ''At least one model is required.'')
           else io_return (prompted_models ps (an_models (us_answers u))))"

definition promptClients :: "(nat \<Rightarrow> string) \<Rightarrow> wizard_user \<Rightarrow> (node_world, wizard_client list) io" where
  "promptClients random u =
     io_bind (assertInteractiveAllowed ''ClientPromptService.promptClients'') (\<lambda>_.
       if us_interrupts u StepClients then io_throw exit_prompt_error
       else io_return (prompted_clients (\<lambda>n. random (Suc n)) (an_clients (us_answers u))))"

definition semantic_enabled :: "node_world \<Rightarrow> bool" where
  "semantic_enabled w \<longleftrightarrow> nw_env w ''SEMANTIC_CACHE_ENABLED'' = Some ''true''"

definition promptServerConfig :: "wizard_user \<Rightarrow> (node_world, server_config) io" where
  "promptServerConfig u =
     io_bind (assertInteractiveAllowed ''ServerPromptService.promptServerConfig'') (\<lambda>_.
       if us_interrupts u StepServerConfig then io_throw exit_prompt_error
       else io_bind (io_get semantic_enabled) (\<lambda>sem. io_return (prompted_server sem (an_server (us_answers u)))))"

section \<open>The orchestrator (wizard-orchestrator.service.ts)\<close>

definition put_data :: "(wizard_data \<Rightarrow> wizard_data) \<Rightarrow> (wizard_world, unit) io" where
  "put_data f = change_state (\<lambda>s. s\<lparr>ws_data := f (ws_data s)\<rparr>)"

definition step_prompt :: "(nat \<Rightarrow> string) \<Rightarrow> wizard_user \<Rightarrow> wizard_step \<Rightarrow> (wizard_world, unit) io" where
  "step_prompt random u step =
     (case step of
        StepMasterKey \<Rightarrow> io_bind (on_node (promptMasterKey random u)) (\<lambda>k. put_data (\<lambda>d. d\<lparr>wd_masterKey := Some k\<rparr>))
      | StepProviders \<Rightarrow> io_bind (on_node (promptProviders u)) (\<lambda>ps. put_data (\<lambda>d. d\<lparr>wd_providers := Some ps\<rparr>))
      | StepModels \<Rightarrow>
          io_bind (io_get (\<lambda>w. wd_providers (ws_data (ww_state w)))) (\<lambda>providers.
          io_bind (on_node (promptModels u providers)) (\<lambda>ms. put_data (\<lambda>d. d\<lparr>wd_models := Some ms\<rparr>)))
      | StepClients \<Rightarrow> io_bind (on_node (promptClients random u)) (\<lambda>cs. put_data (\<lambda>d. d\<lparr>wd_clients := Some cs\<rparr>))
      | StepServerConfig \<Rightarrow> io_bind (on_node (promptServerConfig u)) (\<lambda>sc. put_data (\<lambda>d. d\<lparr>wd_serverConfig := Some sc\<rparr>))
      | _ \<Rightarrow> io_return ())"

definition save_progress :: "(wizard_world, unit) io" where
  "save_progress = io_bind (io_get ww_state) (\<lambda>s. on_node (saveState s))"

definition executeStep :: "(nat \<Rightarrow> string) \<Rightarrow> wizard_user \<Rightarrow> wizard_step \<Rightarrow> (wizard_world, unit) io" where
  "executeStep random u step =
     io_bind (change_state (\<lambda>s. s\<lparr>ws_currentStep := step\<rparr>)) (\<lambda>_.
     io_catch
       (io_bind (step_prompt random u step) (\<lambda>_.
        io_bind (change_state (\<lambda>s. s\<lparr>ws_completedSteps := ws_completedSteps s @ [step]\<rparr>)) (\<lambda>_. save_progress)))
       (\<lambda>e. io_bind save_progress (\<lambda>_. io_throw e)))"

fun executeSteps :: "(nat \<Rightarrow> string) \<Rightarrow> wizard_user \<Rightarrow> wizard_step list \<Rightarrow> (wizard_world, unit) io" where
  "executeSteps random u [] = io_return ()"
| "executeSteps random u (step # steps) = io_bind (executeStep random u step) (\<lambda>_. executeSteps random u steps)"

definition state_result :: "(wizard_world, config_template_input \<times> env_template_input) io" where
  "state_result = io_bind (io_get ww_state) (\<lambda>s. io_lift (buildResult s))"

definition resumeWizard :: "(nat \<Rightarrow> string) \<Rightarrow> wizard_user \<Rightarrow> wizard_state \<Rightarrow> (wizard_world, config_template_input \<times> env_template_input) io" where
  "resumeWizard random u s =
     io_bind (change_state (\<lambda>_. s)) (\<lambda>_.
     io_bind (executeSteps random u (filter (\<lambda>step. step \<notin> set (ws_completedSteps s)) WIZARD_INIT_STEPS)) (\<lambda>_. state_result))"

definition fresh_wizard :: "string \<Rightarrow> string \<Rightarrow> wizard_state" where
  "fresh_wizard sessionId startedAt =
     \<lparr>ws_sessionId = sessionId, ws_startedAt = startedAt, ws_currentStep = StepMasterKey, ws_completedSteps = [],
      ws_data = \<lparr>wd_masterKey = None, wd_providers = None, wd_models = None, wd_clients = None, wd_serverConfig = None\<rparr>, ws_created = [], ws_backedUp = []\<rparr>"

definition startWizard :: "node_lib \<Rightarrow> (nat \<Rightarrow> string) \<Rightarrow> string \<Rightarrow> wizard_user \<Rightarrow> (wizard_world, config_template_input \<times> env_template_input) io" where
  "startWizard lib random uuid u =
     io_bind (on_node (read_clock (nl_timestamp lib))) (\<lambda>now.
     io_bind (change_state (\<lambda>_. fresh_wizard uuid now)) (\<lambda>_.
     io_catch (io_bind (executeSteps random u WIZARD_INIT_STEPS) (\<lambda>_. state_result))
       (\<lambda>e. io_bind save_progress (\<lambda>_. io_throw e))))"

definition runInitWizard :: "node_lib \<Rightarrow> (nat \<Rightarrow> string) \<Rightarrow> string \<Rightarrow> wizard_user \<Rightarrow> (wizard_world, config_template_input \<times> env_template_input) io" where
  "runInitWizard lib random uuid u =
     io_bind (on_node loadState) (\<lambda>existing.
       case existing of
         None \<Rightarrow> startWizard lib random uuid u
       | Some s \<Rightarrow>
           io_bind (ask (us_resume u)) (\<lambda>resume.
             if resume then resumeWizard random u s
             else io_bind (on_node (rollback s)) (\<lambda>_. startWizard lib random uuid u)))"

section \<open>Progress of a session\<close>

lemma on_node_apply [effect_simps]: "on_node m w = (case m (ww_node w) of (r, n) \<Rightarrow> (r, w\<lparr>ww_node := n\<rparr>))"
  by (simp add: on_node_def)

lemma ask_simps [simp]: "ask None = io_throw exit_prompt_error" "ask (Some x) = io_return x"
  by (simp_all add: ask_def)

definition data_upto :: "nat \<Rightarrow> wizard_data \<Rightarrow> wizard_data" where
  "data_upto k D =
     \<lparr>wd_masterKey = (if 1 \<le> k then wd_masterKey D else None), wd_providers = (if 2 \<le> k then wd_providers D else None),
      wd_models = (if 3 \<le> k then wd_models D else None), wd_clients = (if 4 \<le> k then wd_clients D else None),
      wd_serverConfig = (if 5 \<le> k then wd_serverConfig D else None)\<rparr>"

definition progress :: "wizard_data \<Rightarrow> nat \<Rightarrow> wizard_state \<Rightarrow> bool" where
  "progress D k s \<longleftrightarrow> k \<le> 5 \<and> ws_completedSteps s = take k WIZARD_INIT_STEPS \<and> ws_data s = data_upto k D"

definition session_ok :: "bool \<Rightarrow> node_world \<Rightarrow> bool" where
  "session_ok sem n \<longleftrightarrow> \<not> nw_denied n (FsRead STATE_FILE) \<and> \<not> nw_denied n (FsWrite STATE_FILE) \<and> nw_env n ''GATEWAY_CLI_AGENT'' \<noteq> Some ''1'' \<and>
     semantic_enabled n = sem"

definition saved :: "wizard_state \<Rightarrow> node_world \<Rightarrow> bool" where
  "saved s n \<longleftrightarrow> nw_files n STATE_FILE = Some (json_stringify (wizard_json s))"

lemma upto_all: "data_upto 5 D = D"
  by (simp add: data_upto_def)

lemma data_ok_upto: "data_ok D \<Longrightarrow> data_ok (data_upto k D)"
  by (simp add: data_ok_def data_upto_def opt_all_def)

lemma save_progress_apply:
  "session_ok sem (ww_node w) \<Longrightarrow>
     save_progress w = (Inr (), w\<lparr>ww_node := (ww_node w)\<lparr>nw_files := (nw_files (ww_node w))(STATE_FILE \<mapsto> json_stringify (wizard_json (ww_state w)))\<rparr>\<rparr>)"
  by (simp add: save_progress_def session_ok_def saveState_def effect_simps node_simps)

lemma interactive_apply: "session_ok sem n \<Longrightarrow> assertInteractiveAllowed c n = (Inr (), n)"
  by (simp add: assertInteractiveAllowed_def session_ok_def effect_simps)

lemma loadState_saved: "session_ok sem n \<Longrightarrow> saved s n \<Longrightarrow> data_ok (ws_data s) \<Longrightarrow> loadState n = (Inr (Some s), n)"
  using json_roundtrip [OF wizard_json_ok, of s] parseWizardState_json [of s]
  by (simp add: loadState_def saved_def session_ok_def effect_simps node_simps)

lemma loadState_none: "session_ok sem n \<Longrightarrow> nw_files n STATE_FILE = None \<Longrightarrow> loadState n = (Inr None, n)"
  by (simp add: loadState_def session_ok_def effect_simps node_simps)

lemmas prompt_defs = promptMasterKey_def promptProviders_def promptModels_def promptClients_def promptServerConfig_def

lemma nat_lt_5: "k < (5::nat) \<Longrightarrow> k \<in> {0, 1, 2, 3, 4}"
  by auto

text \<open>One step asks its prompt: the next answer joins the data, or the session stays as it was.\<close>

lemma step_prompt_progress:
  assumes "progress D k (ww_state w)" "k < 5" "session_ok sem (ww_node w)" "D = answers_data random sem (us_answers u)" "wd_models D \<noteq> Some []"
  shows "step_prompt random u (WIZARD_INIT_STEPS ! k) w =
    (if us_interrupts u (WIZARD_INIT_STEPS ! k) then (Inl exit_prompt_error, w)
     else (Inr (), w\<lparr>ww_state := (ww_state w)\<lparr>ws_data := data_upto (Suc k) D\<rparr>\<rparr>))"
  using nat_lt_5 [OF assms(2)] assms
  by (auto simp: step_prompt_def WIZARD_INIT_STEPS_def prompt_defs effect_simps interactive_apply put_data_def change_state_def progress_def data_upto_def answers_data_def session_ok_def)

definition stopped_at :: "wizard_data \<Rightarrow> bool \<Rightarrow> wizard_world \<Rightarrow> nat \<Rightarrow> wizard_world \<Rightarrow> bool" where
  "stopped_at D sem w k w' \<longleftrightarrow> progress D k (ww_state w') \<and> saved (ww_state w') (ww_node w') \<and> session_ok sem (ww_node w')"

lemma executeStep_progress:
  assumes "progress D k (ww_state w)" "k < 5" "session_ok sem (ww_node w)" "D = answers_data random sem (us_answers u)" "wd_models D \<noteq> Some []"
  shows "\<exists>w'. if us_interrupts u (WIZARD_INIT_STEPS ! k) then executeStep random u (WIZARD_INIT_STEPS ! k) w = (Inl exit_prompt_error, w') \<and> stopped_at D sem w k w'
     else executeStep random u (WIZARD_INIT_STEPS ! k) w = (Inr (), w') \<and> stopped_at D sem w (Suc k) w'"
proof -
  let ?step = "WIZARD_INIT_STEPS ! k" and ?w = "w\<lparr>ww_state := (ww_state w)\<lparr>ws_currentStep := WIZARD_INIT_STEPS ! k\<rparr>\<rparr>"
  have w: "progress D k (ww_state ?w)" "session_ok sem (ww_node ?w)" using assms(1,3) by (simp_all add: progress_def)
  have "take k WIZARD_INIT_STEPS @ [?step] = take (Suc k) WIZARD_INIT_STEPS"
    using assms(2) by (intro take_Suc_conv_app_nth [symmetric]) (simp add: WIZARD_INIT_STEPS_def)
  then show ?thesis
    using step_prompt_progress [OF w(1) assms(2) w(2) assms(4,5)] assms(1-3)
    by (cases "us_interrupts u ?step")
      (auto simp: executeStep_def change_state_def effect_simps save_progress_apply progress_def saved_def session_ok_def semantic_enabled_def stopped_at_def)
qed

lemma executeSteps_progress:
  assumes "progress D k (ww_state w)" "session_ok sem (ww_node w)" "D = answers_data random sem (us_answers u)" "wd_models D \<noteq> Some []"
    and "k = 5 \<longrightarrow> saved (ww_state w) (ww_node w)"
  shows "\<exists>r j w'. executeSteps random u (drop k WIZARD_INIT_STEPS) w = (r, w') \<and> stopped_at D sem w j w' \<and>
     (r = Inr () \<and> j = 5 \<or> (\<exists>step. us_interrupts u step) \<and> (\<exists>e. r = Inl e))"
  using assms
proof (induction "5 - k" arbitrary: k w)
  case 0
  then have "k = 5" by (simp add: progress_def)
  with 0 show ?case by (auto simp: WIZARD_INIT_STEPS_def stopped_at_def)
next
  case (Suc n)
  then have k: "k < 5" by simp
  then have drop: "drop k WIZARD_INIT_STEPS = WIZARD_INIT_STEPS ! k # drop (Suc k) WIZARD_INIT_STEPS"
    by (intro Cons_nth_drop_Suc [symmetric]) (simp add: WIZARD_INIT_STEPS_def)
  show ?case
  proof (cases "us_interrupts u (WIZARD_INIT_STEPS ! k)")
    case True
    then show ?thesis using executeStep_progress [OF Suc.prems(1) k Suc.prems(2-4)] by (auto simp: drop effect_simps)
  next
    case False
    then obtain w1 where w1: "executeStep random u (WIZARD_INIT_STEPS ! k) w = (Inr (), w1)" "stopped_at D sem w (Suc k) w1"
      using executeStep_progress [OF Suc.prems(1) k Suc.prems(2-4)] by auto
    have "n = 5 - Suc k" using Suc.hyps(2) by simp
    from Suc.hyps(1) [OF this] w1 Suc.prems(3,4)
    obtain r j w' where "executeSteps random u (drop (Suc k) WIZARD_INIT_STEPS) w1 = (r, w')" "stopped_at D sem w1 j w'"
      "r = Inr () \<and> j = 5 \<or> (\<exists>step. us_interrupts u step) \<and> (\<exists>e. r = Inl e)"
      unfolding stopped_at_def by metis
    then show ?thesis using w1(1) by (auto simp: drop effect_simps stopped_at_def)
  qed
qed

lemma pending_steps: "progress D k s \<Longrightarrow> filter (\<lambda>step. step \<notin> set (ws_completedSteps s)) WIZARD_INIT_STEPS = drop k WIZARD_INIT_STEPS"
proof -
  assume p: "progress D k s"
  then have "k \<in> {0, 1, 2, 3, 4, 5}" by (auto simp: progress_def)
  with p show ?thesis by (auto simp: progress_def WIZARD_INIT_STEPS_def)
qed

text \<open>A run on a session that was stopped, or on none: it stops again with more progress saved, or it returns the result of all answers.\<close>

definition session_file :: "wizard_data \<Rightarrow> bool \<Rightarrow> node_world \<Rightarrow> bool" where
  "session_file D sem n \<longleftrightarrow> session_ok sem n \<and> (nw_files n STATE_FILE = None \<or> (\<exists>k s. progress D k s \<and> saved s n))"

definition result_of :: "wizard_data \<Rightarrow> (config_template_input \<times> env_template_input) result" where
  "result_of D = buildResult (fresh_wizard [] []\<lparr>ws_data := D\<rparr>)"

lemma buildResult_data: "buildResult s = result_of (ws_data s)"
  by (simp add: result_of_def buildResult_def split: option.split)

lemma runInitWizard_progress:
  assumes "session_file D sem (ww_node w)" and "D = answers_data random sem (us_answers u)" "wd_models D \<noteq> Some []" "data_ok D" "us_resume u \<noteq> Some False"
  shows "session_file D sem (ww_node (snd (runInitWizard lib random uuid u w))) \<and>
     ((\<forall>step. \<not> us_interrupts u step) \<and> us_resume u = Some True \<longrightarrow> fst (runInitWizard lib random uuid u w) = result_of D)"
proof (cases "nw_files (ww_node w) STATE_FILE = None")
  case True
  have ok: "session_ok sem (ww_node w)" using assms(1) by (simp add: session_file_def)
  define w1 where "w1 = w\<lparr>ww_node := (ww_node w)\<lparr>nw_reads := Suc (nw_reads (ww_node w))\<rparr>, ww_state := fresh_wizard uuid (nl_timestamp lib (nw_reads (ww_node w)))\<rparr>"
  have "progress D 0 (ww_state w1)" "session_ok sem (ww_node w1)"
    using ok by (simp_all add: w1_def progress_def fresh_wizard_def data_upto_def session_ok_def semantic_enabled_def)
  then obtain r j w' where run: "executeSteps random u WIZARD_INIT_STEPS w1 = (r, w')" "stopped_at D sem w1 j w'"
    "r = Inr () \<and> j = 5 \<or> (\<exists>step. us_interrupts u step) \<and> (\<exists>e. r = Inl e)"
    using executeSteps_progress [of D 0 w1 sem random u] assms(2,3) by auto
  have start: "runInitWizard lib random uuid u w =
      io_catch (io_bind (executeSteps random u WIZARD_INIT_STEPS) (\<lambda>_. state_result)) (\<lambda>e. io_bind save_progress (\<lambda>_. io_throw e)) w1"
    using loadState_none [OF ok True]
    by (simp add: runInitWizard_def startWizard_def effect_simps node_simps change_state_def w1_def)
  have w': "session_ok sem (ww_node w')" "progress D j (ww_state w')" "saved (ww_state w') (ww_node w')" using run(2) by (simp_all add: stopped_at_def)
  have kept: "session_file D sem (ww_node w')" using w' by (auto simp: session_file_def)
  have again: "session_file D sem ((ww_node w')\<lparr>nw_files := (nw_files (ww_node w'))(STATE_FILE \<mapsto> json_stringify (wizard_json (ww_state w')))\<rparr>)"
    using w' by (auto simp: session_file_def session_ok_def semantic_enabled_def saved_def)
  show ?thesis using run(1,3) kept again w'
    by (auto simp: start effect_simps state_result_def save_progress_apply [OF w'(1)] buildResult_data progress_def upto_all split: sum.splits)
next
  case False
  then obtain k s where s: "session_ok sem (ww_node w)" "progress D k s" "saved s (ww_node w)" using assms(1) by (auto simp: session_file_def)
  have load: "loadState (ww_node w) = (Inr (Some s), ww_node w)"
    by (rule loadState_saved [OF s(1,3)]) (use s(2) assms(4) in \<open>simp add: progress_def data_ok_upto\<close>)
  show ?thesis
  proof (cases "us_resume u")
    case None
    then show ?thesis using load assms(1) by (simp add: runInitWizard_def effect_simps)
  next
    case (Some b)
    then have b: "us_resume u = Some True" using assms(5) by (cases b) auto
    let ?w1 = "w\<lparr>ww_state := s\<rparr>"
    obtain r j w' where run: "executeSteps random u (drop k WIZARD_INIT_STEPS) ?w1 = (r, w')" "stopped_at D sem ?w1 j w'"
      "r = Inr () \<and> j = 5 \<or> (\<exists>step. us_interrupts u step) \<and> (\<exists>e. r = Inl e)"
      using executeSteps_progress [of D k ?w1 sem random u] s assms(2,3) by auto
    have "runInitWizard lib random uuid u w = io_bind (executeSteps random u (drop k WIZARD_INIT_STEPS)) (\<lambda>_. state_result) ?w1"
      using load by (simp add: runInitWizard_def b resumeWizard_def effect_simps change_state_def pending_steps [OF s(2)])
    moreover have "session_file D sem (ww_node w')" using run(2) by (auto simp: session_file_def stopped_at_def)
    ultimately show ?thesis using run by (auto simp: effect_simps state_result_def buildResult_data progress_def upto_all stopped_at_def)
  qed
qed

section \<open>Interrupted sessions\<close>

lemma base_url_ref_ne: "deriveBaseUrlRef i \<noteq> []"
  by (simp add: deriveBaseUrlRef_def split: if_splits)

lemma answers_data_ok: "wizard_answers_ok urlProtocol sem a \<Longrightarrow> data_ok (answers_data random sem a)"
proof -
  assume ok: "wizard_answers_ok urlProtocol sem a"
  then have clients: "wizard_clients_ok [] (an_clients a)" and server: "wizard_server_ok sem (an_server a)" by (simp_all add: wizard_answers_ok_def)
  have "provider_ok (prompted_provider p)" for p
    using base_url_ref_ne by (auto simp: provider_ok_def prompted_provider_def Let_def)
  moreover have "client_ok c" if c: "c \<in> set (prompted_clients r (an_clients a))" for r c
  proof -
    obtain r' q where q: "q \<in> set (an_clients a)" "c = prompted_client r' q" using prompted_clients_elem [OF c] by blast
    then show ?thesis using clients_ok_rows [OF clients]
      by (auto simp: list_all_iff client_ok_def prompted_client_def opt_all_def rate_ok_def truthy_count_def split: option.splits nat.splits dest!: bspec)
  qed
  moreover have "server_ok (prompted_server sem (an_server a))"
    using prompted_server_sane [OF server] by (auto simp: server_ok_def server_sane_def)
  moreover have "prompted_masterKey r m \<noteq> []" for r m
    using prompted_masterKey_nonblank [of r m] by auto
  ultimately show ?thesis by (simp add: data_ok_def answers_data_def opt_all_def list_all_iff)
qed

fun wizard_runs :: "node_lib \<Rightarrow> (nat \<Rightarrow> string) \<Rightarrow> (string \<times> wizard_user) list \<Rightarrow> wizard_world \<Rightarrow> wizard_world" where
  "wizard_runs lib random [] w = w"
| "wizard_runs lib random ((uuid, u) # us) w = wizard_runs lib random us (snd (runInitWizard lib random uuid u w))"

lemma runs_session:
  "session_file D sem (ww_node w) \<Longrightarrow> D = answers_data random sem a \<Longrightarrow> wd_models D \<noteq> Some [] \<Longrightarrow> data_ok D \<Longrightarrow>
     (\<And>uuid u. (uuid, u) \<in> set us \<Longrightarrow> us_answers u = a \<and> us_resume u \<noteq> Some False) \<Longrightarrow> session_file D sem (ww_node (wizard_runs lib random us w))"
proof (induction us arbitrary: w)
  case (Cons v us)
  obtain uuid u where v: "v = (uuid, u)" by (cases v)
  then have u: "us_answers u = a" "us_resume u \<noteq> Some False" using Cons.prems(5) [of uuid u] by simp_all
  have "session_file D sem (ww_node (snd (runInitWizard lib random uuid u w)))"
    using runInitWizard_progress [OF Cons.prems(1) _ Cons.prems(3,4) u(2), of random lib uuid] Cons.prems(2) u(1) by simp
  then show ?case unfolding v wizard_runs.simps by (rule Cons.IH [OF _ Cons.prems(2-4)]) (use Cons.prems(5) in auto)
qed simp

definition sample_user :: "(wizard_step \<Rightarrow> bool) \<Rightarrow> wizard_user" where
  "sample_user halts = \<lparr>us_answers = sample_wizard_answers, us_interrupts = halts, us_resume = Some True, us_overwrite = None, us_fix = (\<lambda>_. FixAbort)\<rparr>"


definition fresh_world :: wizard_world where
  "fresh_world = \<lparr>ww_node = \<lparr>nw_files = (\<lambda>_. None), nw_env = (\<lambda>_. None), nw_denied = (\<lambda>_. False), nw_reads = 0\<rparr>, ww_state = fresh_wizard [] []\<rparr>"

lemma sample_models: "prompted_models (map prompted_provider (an_providers sample_wizard_answers)) (an_models sample_wizard_answers) \<noteq> []"
  by (simp add: sample_wizard_answers_def)


end
