(* ===== verification/Cli_Init.thy ===== *)
theory Cli_Init
  imports Cli_Wizard "HOL-Library.While_Combinator"
begin

text \<open>
  The command \<open>gateway config:init\<close>: the generator that writes the files (\<open>cli/services/config-generator.service.ts\<close>,
  \<open>cli/templates/master-prompt.template.ts\<close>), the answers file of the agent mode (\<open>InitAnswersSchema\<close> of \<open>cli/schemas/agent-answers.schema.ts\<close>,
  \<open>cli/agent/load-answers.ts\<close>), \<open>runFromAnswers\<close> of the orchestrator, and the command itself (\<open>cli/commands/config/config-init.command.ts\<close>).
  Numbers of the answers file are natural numbers; a report is what \<open>exitWithAgentReport\<close> prints before it ends the process, without its
  hints for the next command.
\<close>

section \<open>The generator (config-generator.service.ts)\<close>

definition MASTER_PROMPT_TEMPLATE :: string where
  "MASTER_PROMPT_TEMPLATE = js_join [LF]
     [''# Master System Prompt'', [], ''You are an AI assistant integrated via AI Provider Gateway.'', [], ''## Instructions'', [],
      ''[TODO: Add your core instructions here]'', [], ''## Constraints'', [], ''[TODO: Add constraints and limitations here]'', [],
      ''## Response Format'', [], ''[TODO: Specify expected response format]'', [], ''## Examples'', [], ''[TODO: Add example interactions]'', [], ''---'', [],
      ''*This is a boilerplate. Edit this file to customize the master system prompt for your gateway.*'', []]"

definition push_created :: "string list \<Rightarrow> (wizard_world, unit) io" where
  "push_created fs = change_state (\<lambda>s. s\<lparr>ws_created := ws_created s @ fs\<rparr>)"

definition push_backup :: "string \<Rightarrow> (wizard_world, unit) io" where
  "push_backup p = change_state (\<lambda>s. s\<lparr>ws_backedUp := ws_backedUp s @ [p]\<rparr>)"

definition backup_if :: "node_lib \<Rightarrow> bool \<Rightarrow> string \<Rightarrow> (wizard_world, unit) io" where
  "backup_if lib backup p =
     io_bind (on_node (fs_exists p)) (\<lambda>there. if there \<and> backup then io_bind (on_node (backupFile lib p)) push_backup else io_return ())"

definition generateGatewayConfig :: "node_lib \<Rightarrow> bool \<Rightarrow> config_template_input \<Rightarrow> (wizard_world, string) io" where
  "generateGatewayConfig lib backup input =
     io_bind (backup_if lib backup ''gateway.config.yaml'') (\<lambda>_.
     io_bind (io_lift (generateGatewayConfigTemplate input)) (\<lambda>config.
     io_bind (on_node (writeYaml lib ''gateway.config.yaml'' config)) (\<lambda>_. io_return ''gateway.config.yaml'')))"

definition example_env :: "env_template_input \<Rightarrow> env_template_input" where
  "example_env input =
     (let e = input\<lparr>et_masterKey := Some [],
            et_providers := map (\<lambda>p. p\<lparr>pc_apiKey := [], pc_baseUrl := (if truthy_str (pc_baseUrlRef p) = None then pc_baseUrl p else None)\<rparr>) (et_providers input),
            et_clients := map (\<lambda>(ref, _). (ref, [])) (et_clients input)\<rparr>;
          e1 = (if isEnvInputRedisRequired e
                then e\<lparr>et_server := (et_server e)\<lparr>sv_redisHost := Some [], sv_redisPort := None, sv_redisPassword := Some []\<rparr>\<rparr> else e)
      in if sv_metricsBackend (et_server e1) = Some ''sentry'' then e1\<lparr>et_server := (et_server e1)\<lparr>sv_sentryDsn := Some []\<rparr>\<rparr> else e1)"

definition generateEnvFiles :: "node_lib \<Rightarrow> bool \<Rightarrow> env_template_input \<Rightarrow> (wizard_world, string list) io" where
  "generateEnvFiles lib backup input =
     io_bind (on_node (writeEnv ''.env.example'' (generateEnvTemplate (example_env input)))) (\<lambda>_.
     io_bind (backup_if lib backup ''.env'') (\<lambda>_.
     io_bind (on_node (writeEnv ''.env'' (generateEnvTemplate input))) (\<lambda>_. io_return [''.env.example'', ''.env''])))"

definition generateMasterPrompt :: "(node_world, string option) io" where
  "generateMasterPrompt =
     io_bind (ensureDir ''src/config/system-prompt'') (\<lambda>_.
     io_bind (fs_exists MASTER_PROMPT) (\<lambda>there.
       if there then io_return None else io_bind (fs_writeFile MASTER_PROMPT MASTER_PROMPT_TEMPLATE) (\<lambda>_. io_return (Some MASTER_PROMPT))))"

definition push_optional :: "string option \<Rightarrow> (wizard_world, unit) io" where
  "push_optional p = (case truthy_str p of None \<Rightarrow> io_return () | Some f \<Rightarrow> push_created [f])"

fun generate_model_prompts :: "cli_ai_model list \<Rightarrow> (wizard_world, unit) io" where
  "generate_model_prompts [] = io_return ()"
| "generate_model_prompts (m # ms) =
     io_bind (on_node (generateModelPrompt (wm_alias m))) (\<lambda>p. io_bind (push_optional p) (\<lambda>_. generate_model_prompts ms))"

definition generateFullConfig :: "node_lib \<Rightarrow> bool \<Rightarrow> config_template_input \<Rightarrow> env_template_input \<Rightarrow> (wizard_world, unit) io" where
  "generateFullConfig lib backupExisting configInput envInput =
     io_bind (generateGatewayConfig lib backupExisting configInput) (\<lambda>configPath.
     io_bind (push_created [configPath]) (\<lambda>_.
     io_bind (generateEnvFiles lib backupExisting envInput) (\<lambda>envPaths.
     io_bind (push_created envPaths) (\<lambda>_.
     io_bind (on_node generateMasterPrompt) (\<lambda>masterPath.
     io_bind (push_optional masterPath) (\<lambda>_.
       generate_model_prompts (ct_models configInput)))))))"

section \<open>The validation loop (config-init.command.ts)\<close>

text \<open>The user edits files between two attempts; a path without a text is deleted.\<close>

definition edit_files :: "(string \<times> string option) list \<Rightarrow> node_world \<Rightarrow> node_world" where
  "edit_files edits n = n\<lparr>nw_files := fold (\<lambda>(p, c) f. f(p := c)) edits (nw_files n)\<rparr>"

record fix_loop =
  fx_valid :: bool
  fx_attempts :: nat
  fx_thrown :: "jserr option"
  fx_world :: wizard_world

definition maxAttempts :: nat where
  "maxAttempts = 10"

definition fix_continues :: "fix_loop \<Rightarrow> bool" where
  "fix_continues l \<longleftrightarrow> fx_thrown l = None \<and> \<not> fx_valid l \<and> fx_attempts l < maxAttempts"

definition fix_attempt :: "node_lib \<Rightarrow> wizard_user \<Rightarrow> fix_loop \<Rightarrow> fix_loop" where
  "fix_attempt lib u l =
     (case on_node (gateway_validate lib False) (fx_world l) of
        (Inl e, w) \<Rightarrow> l\<lparr>fx_attempts := Suc (fx_attempts l), fx_thrown := Some e, fx_world := w\<rparr>
      | (Inr result, w) \<Rightarrow>
          if vr_success result then l\<lparr>fx_attempts := Suc (fx_attempts l), fx_valid := True, fx_world := w\<rparr>
          else (case us_fix u (fx_attempts l) of
              FixInterrupt \<Rightarrow> l\<lparr>fx_attempts := Suc (fx_attempts l), fx_thrown := Some exit_prompt_error, fx_world := w\<rparr>
            | FixAbort \<Rightarrow> l\<lparr>fx_attempts := Suc (fx_attempts l), fx_thrown := Some (plain_error ''Wizard aborted by user.''), fx_world := w\<rparr>
            | FixManual edits \<Rightarrow> l\<lparr>fx_attempts := Suc (fx_attempts l), fx_world := w\<lparr>ww_node := edit_files edits (ww_node w)\<rparr>\<rparr>))"

definition fix_start :: "wizard_world \<Rightarrow> fix_loop" where
  "fix_start w = \<lparr>fx_valid = False, fx_attempts = 0, fx_thrown = None, fx_world = w\<rparr>"

definition validateAndFixConfig :: "node_lib \<Rightarrow> wizard_user \<Rightarrow> (wizard_world, unit) io" where
  "validateAndFixConfig lib u = (\<lambda>w.
     let l = while fix_continues (fix_attempt lib u) (fix_start w) in
     (case fx_thrown l of
        Some e \<Rightarrow> Inl e
      | None \<Rightarrow> if fx_valid l then Inr ()
          else Inl (plain_error ''Max validation attempts reached. Please fix errors manually and run: gateway config:validate''), fx_world l))"

section \<open>The interactive command (config-init.command.ts)\<close>

definition configExists :: "(node_world, bool) io" where
  "configExists = fs_exists ''gateway.config.yaml''"

definition configured :: "node_lib \<Rightarrow> (node_world, bool) io" where
  "configured lib = io_bind configExists (\<lambda>there. if there then io_map Not (isBoilerplateConfig lib) else io_return False)"

definition backup_existing :: "node_lib \<Rightarrow> (node_world, unit) io" where
  "backup_existing lib =
     io_bind (backupFile lib ''gateway.config.yaml'') (\<lambda>_.
     io_bind (fs_exists ''.env'') (\<lambda>there. if there then io_map (\<lambda>_. ()) (backupFile lib ''.env'') else io_return ()))"

definition write_and_validate :: "node_lib \<Rightarrow> wizard_user \<Rightarrow> config_template_input \<times> env_template_input \<Rightarrow> (wizard_world, unit) io" where
  "write_and_validate lib u = (\<lambda>(configInput, envInput).
     io_catch
       (io_bind (generateFullConfig lib False configInput envInput) (\<lambda>_.
        io_bind (validateAndFixConfig lib u) (\<lambda>_. on_node clearState)))
       (\<lambda>e. io_bind (io_bind (io_get ww_state) (\<lambda>s. on_node (rollback s))) (\<lambda>_. io_throw e)))"

text \<open>The answer tells whether a configuration was written: a user who does not want to overwrite one cancels the command.\<close>

definition runInteractiveInit :: "node_lib \<Rightarrow> (nat \<Rightarrow> string) \<Rightarrow> string \<Rightarrow> wizard_user \<Rightarrow> (wizard_world, bool) io" where
  "runInteractiveInit lib random uuid u =
     io_bind (on_node (configured lib)) (\<lambda>existing.
     io_bind (if existing then ask (us_overwrite u) else io_return True) (\<lambda>go_on.
       if \<not> go_on then io_return False
       else io_bind (if existing then on_node (backup_existing lib) else io_return ()) (\<lambda>_.
            io_bind (runInitWizard lib random uuid u) (\<lambda>inputs.
            io_bind (write_and_validate lib u inputs) (\<lambda>_. io_return True)))))"

section \<open>The answers file of an agent (agent-answers.schema.ts, load-answers.ts)\<close>

record init_provider =
  ip_id :: string
  ip_type :: provider_type
  ip_enabled :: "bool option"

record init_client =
  ic_id :: string
  ic_name :: string
  ic_type :: string
  ic_rateLimit :: "cli_rate_limit option"

record init_server =
  is_port :: nat
  is_nodeEnv :: string
  is_swaggerEnabled :: "bool option"
  is_cacheEnabled :: "bool option"
  is_cacheBackend :: "string option"
  is_redisHost :: "string option"
  is_redisPort :: "nat option"
  is_rateLimitSmartEnabled :: "bool option"
  is_metricsBackend :: "string option"

record init_answers =
  ia_overwrite :: "bool option"
  ia_providers :: "init_provider list"
  ia_models :: "cli_ai_model list"
  ia_clients :: "init_client list"
  ia_server :: init_server

text \<open>\<open>z.object(...).strict()\<close>: no other keys. The banned secret fields are other keys and are refused by it.\<close>

definition strict_object :: "string list \<Rightarrow> ((string \<times> json) list \<Rightarrow> 'a option) \<Rightarrow> json \<Rightarrow> 'a option" where
  "strict_object ks f = read_object (\<lambda>o'. if list_all (\<lambda>(k, _). k \<in> set ks) o' then f o' else None)"

definition ensure :: "('a \<Rightarrow> bool) \<Rightarrow> (json \<Rightarrow> 'a option) \<Rightarrow> json \<Rightarrow> 'a option" where
  "ensure P f j = (case f j of Some x \<Rightarrow> if P x then Some x else None | None \<Rightarrow> None)"

definition read_positive :: "json \<Rightarrow> nat option" where
  "read_positive = ensure (\<lambda>n. 0 < n) read_count"

definition read_text :: "json \<Rightarrow> string option" where
  "read_text = ensure (\<lambda>s. s \<noteq> []) read_string"

definition read_true :: "json \<Rightarrow> bool option" where
  "read_true = ensure id read_bool"

definition read_some :: "(json \<Rightarrow> 'a option) \<Rightarrow> json \<Rightarrow> 'a list option" where
  "read_some f = ensure (\<lambda>xs. xs \<noteq> []) (read_array f)"

definition read_init_provider :: "json \<Rightarrow> init_provider option" where
  "read_init_provider = strict_object [''id'', ''type'', ''enabled''] (\<lambda>o'. do {
     i \<leftarrow> field read_text ''id'' o'; t \<leftarrow> field (read_enum PROVIDER_TYPES) ''type'' o'; en \<leftarrow> optional read_bool ''enabled'' o';
     Some \<lparr>ip_id = i, ip_type = t, ip_enabled = en\<rparr> })"

definition read_init_model :: "json \<Rightarrow> cli_ai_model option" where
  "read_init_model = strict_object [''alias'', ''providerInstance'', ''modelId''] (\<lambda>o'. do {
     a \<leftarrow> field (ensure isRedisSearchTagSafeId read_string) ''alias'' o'; p \<leftarrow> field read_text ''providerInstance'' o'; m \<leftarrow> field read_text ''modelId'' o';
     Some \<lparr>wm_alias = a, wm_providerInstance = p, wm_modelId = m\<rparr> })"

definition read_init_rate :: "json \<Rightarrow> cli_rate_limit option" where
  "read_init_rate = strict_object [''rps'', ''burst'', ''maxConcurrentStreams''] (\<lambda>o'. do {
     rps \<leftarrow> field read_positive ''rps'' o'; burst \<leftarrow> field read_positive ''burst'' o'; streams \<leftarrow> optional read_positive ''maxConcurrentStreams'' o';
     Some \<lparr>crl_rps = rps, crl_burst = burst, crl_maxConcurrentStreams = streams\<rparr> })"

definition read_init_client :: "json \<Rightarrow> init_client option" where
  "read_init_client = strict_object [''id'', ''name'', ''type'', ''generateKey'', ''rateLimit''] (\<lambda>o'. do {
     i \<leftarrow> field (ensure isRedisSearchTagSafeId read_string) ''id'' o'; n \<leftarrow> field read_text ''name'' o';
     t \<leftarrow> field (read_enum (map (\<lambda>s. (s, s)) GATEWAY_CLIENT_TYPES)) ''type'' o'; _ \<leftarrow> field read_true ''generateKey'' o';
     r \<leftarrow> optional read_init_rate ''rateLimit'' o';
     Some \<lparr>ic_id = i, ic_name = n, ic_type = t, ic_rateLimit = r\<rparr> })"

definition read_init_server :: "json \<Rightarrow> init_server option" where
  "read_init_server = strict_object
     [''port'', ''nodeEnv'', ''swaggerEnabled'', ''cacheEnabled'', ''cacheBackend'', ''redisHost'', ''redisPort'', ''rateLimitSmartEnabled'', ''metricsBackend''] (\<lambda>o'. do {
     port' \<leftarrow> field read_positive ''port'' o'; env \<leftarrow> field read_text ''nodeEnv'' o'; sw \<leftarrow> optional read_bool ''swaggerEnabled'' o';
     ce \<leftarrow> optional read_bool ''cacheEnabled'' o'; cb \<leftarrow> optional (read_enum cache_backends) ''cacheBackend'' o'; rh \<leftarrow> optional read_string ''redisHost'' o';
     rp \<leftarrow> optional read_positive ''redisPort'' o'; rl \<leftarrow> optional read_bool ''rateLimitSmartEnabled'' o';
     mb \<leftarrow> optional (read_enum metrics_backends) ''metricsBackend'' o';
     Some \<lparr>is_port = port', is_nodeEnv = env, is_swaggerEnabled = sw, is_cacheEnabled = ce, is_cacheBackend = cb, is_redisHost = rh, is_redisPort = rp,
       is_rateLimitSmartEnabled = rl, is_metricsBackend = mb\<rparr> })"

definition InitAnswersSchema :: "json \<Rightarrow> init_answers option" where
  "InitAnswersSchema = strict_object [''schemaVersion'', ''overwrite'', ''masterKey'', ''providers'', ''models'', ''clients'', ''server''] (\<lambda>o'. do {
     _ \<leftarrow> field (ensure (\<lambda>n. n = 1) read_count) ''schemaVersion'' o'; ow \<leftarrow> optional read_bool ''overwrite'' o';
     _ \<leftarrow> field (read_object (field read_true ''generate'')) ''masterKey'' o'; ps \<leftarrow> field (read_some read_init_provider) ''providers'' o';
     ms \<leftarrow> field (read_some read_init_model) ''models'' o'; cs \<leftarrow> field (read_some read_init_client) ''clients'' o'; sv \<leftarrow> field read_init_server ''server'' o';
     if list_all (\<lambda>m. wm_providerInstance m \<in> ip_id ` set ps) ms
     then Some \<lparr>ia_overwrite = ow, ia_providers = ps, ia_models = ms, ia_clients = cs, ia_server = sv\<rparr> else None })"

definition loadAnswers :: "(json \<Rightarrow> 'a option) \<Rightarrow> string \<Rightarrow> (node_world, 'a) io" where
  "loadAnswers schema answersPath =
     io_bind (io_catch (io_bind (fs_readFile answersPath) (\<lambda>text. io_lift (json_parse text)))
       (\<lambda>e. io_throw (plain_error (''[AGENT] Failed to read answers file '' @ answersPath @ '': '' @ error_message e)))) (\<lambda>raw.
       case schema raw of Some answers \<Rightarrow> io_return answers | None \<Rightarrow> io_throw (plain_error ''[AGENT] Invalid answers file:''))"

section \<open>The agent path of the orchestrator and of the command\<close>

definition mapServerConfigFromAnswers :: "bool \<Rightarrow> init_server \<Rightarrow> server_config" where
  "mapServerConfigFromAnswers sem s =
     \<lparr>sv_port = is_port s, sv_nodeEnv = is_nodeEnv s, sv_swaggerEnabled = is_swaggerEnabled s, sv_cacheEnabled = is_cacheEnabled s, sv_cacheBackend = is_cacheBackend s,
      sv_redisHost = is_redisHost s, sv_redisPort = is_redisPort s, sv_redisPassword = Some [], sv_rateLimitSmartEnabled = is_rateLimitSmartEnabled s,
      sv_semanticCacheEnabled = Some sem, sv_metricsBackend = is_metricsBackend s, sv_sentryDsn = Some []\<rparr>"

definition agent_provider :: "init_provider \<Rightarrow> cli_ai_provider" where
  "agent_provider p =
     \<lparr>wp_id = ip_id p, wp_type = ip_type p, wp_apiKeyRef = deriveApiKeyRef (ip_id p), wp_apiKey = [], wp_enabled = Some (ip_enabled p \<noteq> Some False),
      wp_baseUrlRef = (if isOpenAiProviderType (ip_type p) then Some (deriveBaseUrlRef (ip_id p)) else None), wp_baseUrl = None, wp_apiSurface = None\<rparr>"

definition agent_client :: "string \<Rightarrow> init_client \<Rightarrow> wizard_client" where
  "agent_client random c =
     \<lparr>wc_id = ic_id c, wc_name = ic_name c, wc_type = ic_type c, wc_gatewayKeyRef = deriveGatewayKeyRef (ic_id c), wc_gatewayKey = generateGatewayClientKey random (ic_id c),
      wc_rateLimit = map_option (\<lambda>r. r\<lparr>crl_maxConcurrentStreams := truthy_count (crl_maxConcurrentStreams r)\<rparr>) (ic_rateLimit c)\<rparr>"

definition agent_data :: "(nat \<Rightarrow> string) \<Rightarrow> bool \<Rightarrow> init_answers \<Rightarrow> wizard_data" where
  "agent_data random sem a =
     \<lparr>wd_masterKey = Some (generateMasterKey (random 0)), wd_providers = Some (map agent_provider (ia_providers a)), wd_models = Some (ia_models a),
      wd_clients = Some (map (\<lambda>(n, c). agent_client (random (Suc n)) c) (enumerate 0 (ia_clients a))),
      wd_serverConfig = Some (mapServerConfigFromAnswers sem (ia_server a))\<rparr>"

definition runFromAnswers :: "node_lib \<Rightarrow> (nat \<Rightarrow> string) \<Rightarrow> string \<Rightarrow> init_answers \<Rightarrow> (wizard_world, config_template_input \<times> env_template_input) io" where
  "runFromAnswers lib random uuid a =
     io_bind (on_node (read_clock (nl_timestamp lib))) (\<lambda>now.
     io_bind (on_node (io_get semantic_enabled)) (\<lambda>sem.
     io_bind (change_state (\<lambda>_. (fresh_wizard uuid now)\<lparr>ws_completedSteps := WIZARD_INIT_STEPS, ws_data := agent_data random sem a\<rparr>)) (\<lambda>_. state_result)))"

definition error_report :: "string list \<Rightarrow> agent_report" where
  "error_report errors = \<lparr>ar_ok = False, ar_status = StatusError, ar_command = ''config:init'', ar_files = [], ar_pendingSecrets = [], ar_generatedKeyRefs = [],
     ar_errors = errors\<rparr>"

definition success_report :: "init_answers \<Rightarrow> pending_secret list \<Rightarrow> agent_report" where
  "success_report answers pending =
     \<lparr>ar_ok = True, ar_status = (if pending \<noteq> [] then StatusAwaitingSecrets else StatusSuccess), ar_command = ''config:init'',
      ar_files = [''gateway.config.yaml'', ''.env'', ''.env.example''], ar_pendingSecrets = pending,
      ar_generatedKeyRefs = ''MASTER_KEY'' # map (\<lambda>c. deriveGatewayKeyRef (ic_id c)) (ia_clients answers), ar_errors = []\<rparr>"

definition agent_write :: "node_lib \<Rightarrow> (nat \<Rightarrow> string) \<Rightarrow> string \<Rightarrow> init_answers \<Rightarrow> (wizard_world, agent_report) io" where
  "agent_write lib random uuid answers =
     io_bind (runFromAnswers lib random uuid answers) (\<lambda>(configInput, envInput).
     io_bind (generateFullConfig lib False configInput envInput) (\<lambda>_.
     io_bind (on_node (gateway_validate lib True)) (\<lambda>structure.
       if \<not> vr_success structure
       then io_bind (io_bind (io_get ww_state) (\<lambda>s. on_node (rollback s))) (\<lambda>_. io_return (error_report (vr_errors structure)))
       else io_bind (on_node clearState) (\<lambda>_.
            io_bind (on_node (loadRawConfig lib)) (\<lambda>cfg.
            io_bind (on_node (collectPendingSecrets True True True cfg)) (\<lambda>pending. io_return (success_report answers pending)))))))"

definition runAgentInit :: "node_lib \<Rightarrow> (nat \<Rightarrow> string) \<Rightarrow> string \<Rightarrow> cli_mode \<Rightarrow> (wizard_world, agent_report) io" where
  "runAgentInit lib random uuid mode =
     (if \<not> cm_deferSecrets mode then io_return (error_report [''Agent mode requires secret deferral (default).''])
      else io_bind (io_lift (assertAgentHasAnswers mode ''config:init'')) (\<lambda>_.
      io_bind (on_node (loadAnswers InitAnswersSchema (nullish (cm_answersPath mode) []))) (\<lambda>answers.
      io_bind (on_node (configured lib)) (\<lambda>existing.
        if existing \<and> \<not> (ia_overwrite answers = Some True \<or> cm_force mode)
        then io_return (error_report [''Configuration already exists. Pass overwrite:true in answers or --force.''])
        else io_bind (if existing then on_node (backup_existing lib) else io_return ()) (\<lambda>_.
             io_bind (on_node loadState) (\<lambda>session.
               if session \<noteq> None \<and> \<not> cm_force mode
               then io_return (error_report [''Incomplete wizard session exists. Re-run with --force to discard, or finish interactively.''])
               else io_bind (case session of Some s \<Rightarrow> on_node (rollback s) | None \<Rightarrow> io_return ()) (\<lambda>_. agent_write lib random uuid answers)))))))"

text \<open>\<open>run\<close>: the exit code of the process, 0 when the command returns.\<close>

definition config_init_run :: "node_lib \<Rightarrow> (nat \<Rightarrow> string) \<Rightarrow> string \<Rightarrow> cli_mode_flags \<Rightarrow> wizard_user \<Rightarrow> (wizard_world, nat) io" where
  "config_init_run lib random uuid flags u =
     (let mode = resolveCliMode flags in
      io_bind (on_node (markAgentRuntime mode)) (\<lambda>_.
      if cm_isAgent mode
      then io_catch (io_map exitCodeForReport (runAgentInit lib random uuid mode)) (\<lambda>e. io_return (exitCodeForReport (error_report [error_message e])))
      else io_catch (io_map (\<lambda>_. 0) (runInteractiveInit lib random uuid u)) (\<lambda>_. io_return 1)))"

section \<open>The validation loop ends\<close>

definition accepts :: "node_lib \<Rightarrow> wizard_world \<Rightarrow> bool" where
  "accepts lib w \<longleftrightarrow> (\<exists>r n. gateway_validate lib False (ww_node w) = (Inr r, n) \<and> vr_success r)"

text \<open>The world before attempt \<open>n\<close>, if the user has edited the files after each earlier one.\<close>

primrec edited_world :: "node_lib \<Rightarrow> wizard_user \<Rightarrow> wizard_world \<Rightarrow> nat \<Rightarrow> wizard_world" where
  "edited_world lib u w 0 = w"
| "edited_world lib u w (Suc n) =
     (let v = snd (on_node (gateway_validate lib False) (edited_world lib u w n)) in
      case us_fix u n of FixManual edits \<Rightarrow> v\<lparr>ww_node := edit_files edits (ww_node v)\<rparr> | _ \<Rightarrow> v)"

definition edits_on :: "wizard_user \<Rightarrow> nat \<Rightarrow> bool" where
  "edits_on u n \<longleftrightarrow> (case us_fix u n of FixManual _ \<Rightarrow> True | _ \<Rightarrow> False)"

lemma gateway_validate_returns: "\<exists>r n. gateway_validate lib am w = (Inr r, n)"
proof -
  have "\<exists>r. validateGatewayConfig lib am env v = (Inr r, v)" for env v
    by (auto simp: validateGatewayConfig_def io_catch_apply io_bind_apply node_simps split: option.split)
  moreover obtain n where d: "dotenvConfig lib w = (Inr (), n)" by (simp add: dotenvConfig_def)
  ultimately obtain r where r: "validateGatewayConfig lib am (nw_env n) n = (Inr r, n)" by blast
  then show ?thesis
    by (cases "vr_success r"; cases "validateEnvironment (nw_env n)") (auto simp: gateway_validate_def io_bind_apply d)
qed

definition reached :: "node_lib \<Rightarrow> wizard_user \<Rightarrow> wizard_world \<Rightarrow> nat \<Rightarrow> fix_loop" where
  "reached lib u w k = \<lparr>fx_valid = False, fx_attempts = k, fx_thrown = None, fx_world = edited_world lib u w k\<rparr>"

lemma attempt_cases:
  obtains v where "accepts lib (edited_world lib u w k)"
      and "fix_attempt lib u (reached lib u w k) = \<lparr>fx_valid = True, fx_attempts = Suc k, fx_thrown = None, fx_world = v\<rparr>"
    | "\<not> accepts lib (edited_world lib u w k)" and "edits_on u k" and "fix_attempt lib u (reached lib u w k) = reached lib u w (Suc k)"
    | v e where "\<not> accepts lib (edited_world lib u w k)" and "\<not> edits_on u k"
      and "fix_attempt lib u (reached lib u w k) = \<lparr>fx_valid = False, fx_attempts = Suc k, fx_thrown = Some e, fx_world = v\<rparr>"
proof -
  let ?w = "edited_world lib u w k"
  obtain r n where run: "gateway_validate lib False (ww_node ?w) = (Inr r, n)" using gateway_validate_returns by blast
  then have a: "accepts lib ?w \<longleftrightarrow> vr_success r" by (auto simp: accepts_def)
  note simps = a run fix_attempt_def reached_def on_node_apply edits_on_def Let_def
  show ?thesis
  proof (cases "vr_success r")
    case True
    then show ?thesis by (intro that(1)) (simp_all add: simps)
  next
    case False
    then show ?thesis
    proof (cases "us_fix u k")
      case (FixManual edits)
      with False show ?thesis by (intro that(2)) (simp_all add: simps)
    qed (rule that(3); simp add: simps)+
  qed
qed

definition accepted_from :: "node_lib \<Rightarrow> wizard_user \<Rightarrow> wizard_world \<Rightarrow> nat \<Rightarrow> bool" where
  "accepted_from lib u w k \<longleftrightarrow> (\<exists>n. k \<le> n \<and> n < maxAttempts \<and> (\<forall>i. k \<le> i \<and> i < n \<longrightarrow> \<not> accepts lib (edited_world lib u w i) \<and> edits_on u i) \<and>
     accepts lib (edited_world lib u w n))"

lemma accepted_from_step:
  "accepted_from lib u w k \<longleftrightarrow> k < maxAttempts \<and> (accepts lib (edited_world lib u w k) \<or> edits_on u k \<and> accepted_from lib u w (Suc k))"
  (is "?l \<longleftrightarrow> ?r")
proof
  assume ?l
  then obtain n where n: "k \<le> n" "n < maxAttempts" "\<forall>i. k \<le> i \<and> i < n \<longrightarrow> \<not> accepts lib (edited_world lib u w i) \<and> edits_on u i" "accepts lib (edited_world lib u w n)"
    by (auto simp: accepted_from_def)
  show ?r
  proof (cases "n = k")
    case False
    with n have "Suc k \<le> n" by simp
    with n show ?thesis by (auto simp: accepted_from_def)
  qed (use n in simp)
next
  assume r: ?r
  show ?l
  proof (cases "accepts lib (edited_world lib u w k)")
    case True
    with r show ?thesis by (auto simp: accepted_from_def)
  next
    case False
    with r obtain n where "Suc k \<le> n" "n < maxAttempts" "\<forall>i. Suc k \<le> i \<and> i < n \<longrightarrow> \<not> accepts lib (edited_world lib u w i) \<and> edits_on u i"
      "accepts lib (edited_world lib u w n)" by (auto simp: accepted_from_def)
    with r False show ?thesis unfolding accepted_from_def by (metis Suc_leD Suc_leI le_neq_implies_less)
  qed
qed

lemma loop_from:
  assumes "k \<le> maxAttempts"
  shows "\<exists>l. while_option fix_continues (fix_attempt lib u) (reached lib u w k) = Some l \<and> fx_attempts l \<le> maxAttempts \<and>
     (fx_thrown l = None \<and> fx_valid l \<longleftrightarrow> accepted_from lib u w k)"
  using assms
proof (induction "maxAttempts - k" arbitrary: k)
  case 0
  then have "\<not> fix_continues (reached lib u w k)" "k = maxAttempts" by (simp_all add: fix_continues_def reached_def)
  then show ?case by (subst while_option_unfold) (auto simp: reached_def accepted_from_def)
next
  case (Suc d)
  then have k: "k < maxAttempts" by simp
  have unfold: "while_option fix_continues (fix_attempt lib u) (reached lib u w k) = while_option fix_continues (fix_attempt lib u) (fix_attempt lib u (reached lib u w k))"
    using k by (subst while_option_unfold) (simp add: fix_continues_def reached_def)
  have stop: "while_option fix_continues (fix_attempt lib u) l = Some l" if "fx_valid l \<or> fx_thrown l \<noteq> None" for l
    using that by (subst while_option_unfold) (auto simp: fix_continues_def)
  show ?case
  proof (cases rule: attempt_cases [of lib u w k])
    case (1 v)
    then show ?thesis using k unfolding unfold accepted_from_step [of lib u w k] by (simp add: stop)
  next
    case 2
    then show ?thesis using k Suc.hyps(1) [of "Suc k"] Suc.hyps(2) unfolding unfold accepted_from_step [of lib u w k] by simp
  next
    case (3 v e)
    then show ?thesis using k unfolding unfold accepted_from_step [of lib u w k] by (simp add: stop)
  qed
qed

lemma loop_result:
  obtains l where "while_option fix_continues (fix_attempt lib u) (fix_start w) = Some l" and "fx_attempts l \<le> maxAttempts"
    and "validateAndFixConfig lib u w = (fst (validateAndFixConfig lib u w), fx_world l)" and "fst (validateAndFixConfig lib u w) = Inr () \<longleftrightarrow> accepted_from lib u w 0"
proof -
  have start: "fix_start w = reached lib u w 0" by (simp add: fix_start_def reached_def)
  obtain l where l: "while_option fix_continues (fix_attempt lib u) (fix_start w) = Some l" "fx_attempts l \<le> maxAttempts"
    "fx_thrown l = None \<and> fx_valid l \<longleftrightarrow> accepted_from lib u w 0"
    using loop_from [of 0 lib u w] unfolding start by auto
  then have "while fix_continues (fix_attempt lib u) (fix_start w) = l" by (simp add: while_def)
  with l show ?thesis by (intro that [of l]) (auto simp: validateAndFixConfig_def Let_def split: option.split)
qed

text \<open>
  C13. The validation loop of \<open>config:init\<close> always ends, after at most ten runs of the validator, whatever the user answers and writes into the files. It
  returns normally exactly if one of these ten runs accepts the files and the user has edited them after each earlier one; in every other
  case it throws.
\<close>

theorem validation_loop_ends:
  "\<exists>l. while_option fix_continues (fix_attempt lib u) (fix_start w) = Some l \<and> fx_attempts l \<le> 10 \<and> validateAndFixConfig lib u w = (fst (validateAndFixConfig lib u w), fx_world l) \<and>
     (fst (validateAndFixConfig lib u w) = Inr () \<longleftrightarrow>
        (\<exists>n < 10. (\<forall>i < n. \<not> accepts lib (edited_world lib u w i) \<and> edits_on u i) \<and> accepts lib (edited_world lib u w n)))"
proof -
  obtain l where "while_option fix_continues (fix_attempt lib u) (fix_start w) = Some l" "fx_attempts l \<le> maxAttempts"
    "validateAndFixConfig lib u w = (fst (validateAndFixConfig lib u w), fx_world l)" "fst (validateAndFixConfig lib u w) = Inr () \<longleftrightarrow> accepted_from lib u w 0"
    by (rule loop_result)
  then show ?thesis by (auto simp: accepted_from_def maxAttempts_def)
qed

section \<open>The example file hides the secrets\<close>

text \<open>What may be read off \<open>.env.example\<close>: everything but the values of keys, URLs, the Redis connection and the Sentry DSN.\<close>

definition public_part :: "env_template_input \<Rightarrow> env_template_input" where
  "public_part i = i\<lparr>et_masterKey := None, et_providers := map (\<lambda>p. p\<lparr>pc_apiKey := [], pc_baseUrl := None\<rparr>) (et_providers i),
     et_clients := map (\<lambda>(ref, _). (ref, [])) (et_clients i),
     et_server := (et_server i)\<lparr>sv_redisHost := None, sv_redisPort := None, sv_redisPassword := None, sv_sentryDsn := None\<rparr>\<rparr>"

lemma example_server:
  "et_server (example_env i) =
     (let s = et_server i; s1 = (if isEnvInputRedisRequired i then s\<lparr>sv_redisHost := Some [], sv_redisPort := None, sv_redisPassword := Some []\<rparr> else s)
      in if sv_metricsBackend s = Some ''sentry'' then s1\<lparr>sv_sentryDsn := Some []\<rparr> else s1)"
  by (simp add: example_env_def isEnvInputRedisRequired_def Let_def)

lemma redis_required_public: "isEnvInputRedisRequired (example_env i) = isEnvInputRedisRequired i" "isEnvInputRedisRequired (public_part i) = isEnvInputRedisRequired i"
  by (simp_all add: isEnvInputRedisRequired_def example_server public_part_def Let_def)

lemma public_server: "et_server (public_part i) = (et_server i)\<lparr>sv_redisHost := None, sv_redisPort := None, sv_redisPassword := None, sv_sentryDsn := None\<rparr>"
  by (simp add: public_part_def)

lemma nullish_eq_Some: "d \<noteq> v \<Longrightarrow> nullish x d = v \<longleftrightarrow> x = Some v"
  by (cases x) auto

lemma example_public_secrets: "secret_vars (example_env (public_part i)) = secret_vars (example_env i)" "list_all (\<lambda>(k, v). v = []) (secret_vars (example_env i))"
  by (auto simp: secret_vars_def example_env_def public_part_def Let_def list_all_iff comp_def case_prod_unfold truthy_str_def split: option.splits
      intro!: arg_cong [where f = concat])

lemma example_public_server: "server_tail (example_env (public_part i)) = server_tail (example_env i)"
  "server_head (et_server (example_env (public_part i))) = server_head (et_server (example_env i))"
proof -
  show "server_tail (example_env (public_part i)) = server_tail (example_env i)"
    unfolding server_tail_def Let_def redis_required_public
    by (cases "isEnvInputRedisRequired i"; cases "sv_metricsBackend (et_server i) = Some ''sentry''")
      (simp_all add: example_server redis_required_public Let_def nullish_eq_Some public_server)
  show "server_head (et_server (example_env (public_part i))) = server_head (et_server (example_env i))"
    by (simp add: server_head_def example_server Let_def public_server)
qed


definition sample_env_input :: "string \<Rightarrow> env_template_input" where
  "sample_env_input secret =
     \<lparr>et_masterKeyRef = ''MASTER_KEY'', et_masterKey = Some secret,
      et_providers = [\<lparr>pc_apiKeyRef = ''OPENAI_API_KEY'', pc_apiKey = secret, pc_type = POpenAI, pc_baseUrlRef = Some ''OPENAI_BASE_URL'', pc_baseUrl = Some secret\<rparr>],
      et_clients = [(''GATEWAY_KEY_WEB'', secret)],
      et_server = (prompted_server False (an_server sample_wizard_answers))\<lparr>sv_redisPassword := Some secret\<rparr>\<rparr>"


section \<open>A failed command\<close>

definition generated_files :: "string set" where
  "generated_files = {''gateway.config.yaml'', ''.env.example'', ''.env''}"

text \<open>Every file that is not recorded is as it was (\<open>f\<close>), and a recorded file outside \<open>generated_files\<close> was not there.\<close>

definition recorded :: "(string \<Rightarrow> string option) \<Rightarrow> wizard_world \<Rightarrow> bool" where
  "recorded f w \<longleftrightarrow> (\<forall>p. p \<notin> set (ws_created (ww_state w)) \<longrightarrow> nw_files (ww_node w) p = f p) \<and> generated_files \<subseteq> set (ws_created (ww_state w)) \<and>
     (\<forall>p \<in> set (ws_created (ww_state w)). p \<notin> generated_files \<longrightarrow> f p = None)"

definition calm :: "wizard_world \<Rightarrow> wizard_world \<Rightarrow> bool" where
  "calm w w' \<longleftrightarrow> nw_denied (ww_node w') = nw_denied (ww_node w) \<and> ws_backedUp (ww_state w') = ws_backedUp (ww_state w)"

lemma gateway_config_run:
  "generateGatewayConfig lib False ci w = (Inr p, w') \<Longrightarrow> p = ''gateway.config.yaml'' \<and> calm w w' \<and> ww_state w' = ww_state w \<and>
     (\<forall>q. q \<noteq> ''gateway.config.yaml'' \<longrightarrow> nw_files (ww_node w') q = nw_files (ww_node w) q)"
  by (auto simp: generateGatewayConfig_def backup_if_def calm_def effect_simps node_simps writeYaml_def split: sum.splits if_splits)

lemma env_files_run:
  "generateEnvFiles lib False ei w = (Inr ps, w') \<Longrightarrow> ps = [''.env.example'', ''.env''] \<and> calm w w' \<and> ww_state w' = ww_state w \<and>
     (\<forall>q. q \<notin> {''.env.example'', ''.env''} \<longrightarrow> nw_files (ww_node w') q = nw_files (ww_node w) q)"
  by (auto simp: generateEnvFiles_def backup_if_def calm_def effect_simps node_simps writeEnv_def split: sum.splits if_splits)

lemma prompt_run:
  assumes "m = on_node generateMasterPrompt \<and> path = MASTER_PROMPT \<or> m = on_node (generateModelPrompt a) \<and> path = model_prompt_path a"
    and "m w = (Inr p, w')"
  shows "calm w w' \<and> ww_state w' = ww_state w \<and>
     (p = None \<and> ww_node w' = ww_node w \<or> p = Some path \<and> nw_files (ww_node w) path = None \<and> (\<forall>q. q \<noteq> path \<longrightarrow> nw_files (ww_node w') q = nw_files (ww_node w) q))"
  using assms
  by (auto simp: generateMasterPrompt_def generateModelPrompt_def ensureDir_def calm_def effect_simps node_simps split: sum.splits if_splits option.splits)

lemma push_optional_run:
  assumes "recorded f w" "ww_state w1 = ww_state w" "calm w w1" "path \<noteq> []" "path \<notin> generated_files"
    and "p = None \<and> ww_node w1 = ww_node w \<or> p = Some path \<and> nw_files (ww_node w) path = None \<and> (\<forall>q. q \<noteq> path \<longrightarrow> nw_files (ww_node w1) q = nw_files (ww_node w) q)"
  shows "\<exists>w'. push_optional p w1 = (Inr (), w') \<and> calm w w' \<and> recorded f w'"
proof (cases "p = None")
  case True
  then show ?thesis using assms by (auto simp: push_optional_def truthy_str_def recorded_def calm_def)
next
  case False
  then have p: "p = Some path" "nw_files (ww_node w) path = None" "\<forall>q. q \<noteq> path \<longrightarrow> nw_files (ww_node w1) q = nw_files (ww_node w) q" using assms(6) by auto
  have "path \<notin> set (ws_created (ww_state w)) \<longrightarrow> f path = None" using assms(1) p(2) by (auto simp: recorded_def)
  then show ?thesis using assms(1-5) p by (auto simp: push_optional_def truthy_str_def push_created_def change_state_def recorded_def calm_def)
qed

lemma prompt_paths: "MASTER_PROMPT \<notin> generated_files" "model_prompt_path a \<notin> generated_files" "MASTER_PROMPT \<noteq> []" "model_prompt_path a \<noteq> []"
  by (auto simp: MASTER_PROMPT_def model_prompt_path_def generated_files_def)

lemma calm_trans: "calm w v \<Longrightarrow> calm v w' \<Longrightarrow> calm w w'"
  by (simp add: calm_def)

lemma model_prompts_run: "generate_model_prompts ms w = (Inr (), w') \<Longrightarrow> recorded f w \<Longrightarrow> calm w w' \<and> recorded f w'"
proof (induction ms arbitrary: w)
  case (Cons m ms)
  then obtain p w1 where p: "on_node (generateModelPrompt (wm_alias m)) w = (Inr p, w1)" by (auto simp: io_bind_Inr)
  note run = prompt_run [OF disjI2 [OF conjI [OF refl refl]] p]
  obtain w2 where w2: "push_optional p w1 = (Inr (), w2)" "calm w w2" "recorded f w2"
    using push_optional_run [OF Cons.prems(2) _ _ prompt_paths(4,2)] run by blast
  with Cons.prems(1) p have "generate_model_prompts ms w2 = (Inr (), w')" by (simp add: io_bind_apply)
  then show ?case using Cons.IH [OF _ w2(3)] w2(2) calm_trans by blast
qed (simp add: calm_def)

lemma generateFullConfig_run:
  assumes "generateFullConfig lib False ci ei w = (Inr (), w')" and "ws_created (ww_state w) = []"
  shows "calm w w' \<and> recorded (nw_files (ww_node w)) w'"
proof -
  let ?f = "nw_files (ww_node w)"
  obtain p w1 where w1: "generateGatewayConfig lib False ci w = (Inr p, w1)" using assms(1) by (auto simp: generateFullConfig_def io_bind_Inr)
  note c = gateway_config_run [OF w1]
  define w2 where "w2 = w1\<lparr>ww_state := (ww_state w1)\<lparr>ws_created := ws_created (ww_state w1) @ [p]\<rparr>\<rparr>"
  obtain ps w3 where w3: "generateEnvFiles lib False ei w2 = (Inr ps, w3)"
    using assms(1) w1 by (auto simp: generateFullConfig_def io_bind_Inr push_created_def change_state_def w2_def)
  note e = env_files_run [OF w3]
  define w4 where "w4 = w3\<lparr>ww_state := (ww_state w3)\<lparr>ws_created := ws_created (ww_state w3) @ ps\<rparr>\<rparr>"
  have created: "ws_created (ww_state w4) = [''gateway.config.yaml'', ''.env.example'', ''.env'']" using c e assms(2) by (simp add: w2_def w4_def)
  have w4: "calm w w4" using c e by (simp add: calm_def w2_def w4_def)
  have r4: "recorded ?f w4" unfolding recorded_def created using c e by (simp add: generated_files_def w2_def w4_def)
  obtain q w5 where w5: "on_node generateMasterPrompt w4 = (Inr q, w5)"
    using assms(1) w1 w3 by (auto simp: generateFullConfig_def io_bind_Inr push_created_def change_state_def w2_def w4_def)
  note m = prompt_run [OF disjI1 [OF conjI [OF refl refl]] w5]
  obtain w6 where w6: "push_optional q w5 = (Inr (), w6)" "calm w4 w6" "recorded ?f w6"
    using push_optional_run [OF r4 _ _ prompt_paths(3,1)] m by blast
  have "generate_model_prompts (ct_models ci) w6 = (Inr (), w')"
    using assms(1) w1 w3 w5 w6(1) by (simp add: generateFullConfig_def io_bind_apply push_created_def change_state_def w2_def w4_def)
  then show ?thesis using model_prompts_run [OF _ w6(3)] w4 w6(2) calm_trans by blast
qed

definition edits_within :: "string set \<Rightarrow> wizard_user \<Rightarrow> bool" where
  "edits_within F u \<longleftrightarrow> (\<forall>n edits. us_fix u n = FixManual edits \<longrightarrow> fst ` set edits \<subseteq> F)"

lemma touches_validate: "touches (gateway_validate lib am) F"
  unfolding gateway_validate_def validateGatewayConfig_def by (intro touches_intros)

lemma edit_files_outside: "p \<notin> fst ` set edits \<Longrightarrow> nw_files (edit_files edits n) p = nw_files n p"
proof -
  have "p \<notin> fst ` set edits \<Longrightarrow> fold (\<lambda>(p, c) f. f(p := c)) edits f p = f p" for f
    by (induction edits arbitrary: f) auto
  then show "p \<notin> fst ` set edits \<Longrightarrow> nw_files (edit_files edits n) p = nw_files n p" by (simp add: edit_files_def)
qed

definition untouched :: "string set \<Rightarrow> wizard_world \<Rightarrow> wizard_world \<Rightarrow> bool" where
  "untouched F w w' \<longleftrightarrow> ww_state w' = ww_state w \<and> kept_outside F (ww_node w) (ww_node w')"

lemma fix_attempt_untouched: "edits_within F u \<Longrightarrow> untouched F w (fx_world l) \<Longrightarrow> untouched F w (fx_world (fix_attempt lib u l))"
proof -
  assume u: "edits_within F u" and l: "untouched F w (fx_world l)"
  obtain r n where run: "gateway_validate lib False (ww_node (fx_world l)) = (Inr r, n)" using gateway_validate_returns by blast
  then have n: "kept_outside F (ww_node (fx_world l)) n" using touches_validate by (auto simp: touches_def)
  have "kept_outside F n (edit_files edits n)" if "us_fix u k = FixManual edits" for k edits
  proof -
    have "fst ` set edits \<subseteq> F" using u that by (auto simp: edits_within_def)
    then have "p \<notin> F \<Longrightarrow> nw_files (edit_files edits n) p = nw_files n p" for p by (intro edit_files_outside) blast
    then show ?thesis by (simp add: kept_outside_def edit_files_def)
  qed
  then show ?thesis using l n
    by (auto simp: fix_attempt_def on_node_apply run untouched_def split: fix_answer.split intro: kept_outside_trans)
qed

lemma loop_untouched:
  assumes "edits_within F u"
  shows "untouched F w (snd (validateAndFixConfig lib u w))"
proof -
  obtain l where l: "while_option fix_continues (fix_attempt lib u) (fix_start w) = Some l" and run: "validateAndFixConfig lib u w = (fst (validateAndFixConfig lib u w), fx_world l)"
    by (rule loop_result)
  have "untouched F w (fx_world l)"
    by (rule while_option_rule [OF _ l, where P = "\<lambda>l. untouched F w (fx_world l)"])
      (use fix_attempt_untouched [OF assms] in \<open>auto simp: untouched_def fix_start_def\<close>)
  then show ?thesis using run by (metis snd_conv)
qed

lemma remove_created_run:
  "(\<And>p. \<not> nw_denied n (FsUnlink p)) \<Longrightarrow> remove_created fs n = (Inr (), n\<lparr>nw_files := (\<lambda>p. if p \<in> set fs then None else nw_files n p)\<rparr>)"
proof (induction fs arbitrary: n)
  case (Cons f fs)
  have "io_catch (fs_unlink f) (\<lambda>_. io_return ()) n = (Inr (), n\<lparr>nw_files := (nw_files n)(f := None)\<rparr>)"
    using Cons.prems by (cases "nw_files n f") (auto simp: effect_simps node_simps fun_upd_idem)
  then show ?case using Cons.IH [of "n\<lparr>nw_files := (nw_files n)(f := None)\<rparr>"] Cons.prems by (auto simp: io_bind_apply fun_eq_iff)
qed simp

lemma rollback_run:
  assumes "\<And>p. \<not> nw_denied n (FsUnlink p)" "ws_backedUp s = []"
  shows "rollback s n = (Inr (), n\<lparr>nw_files := (\<lambda>p. if p = STATE_FILE \<or> p \<in> set (ws_created s) then None else nw_files n p)\<rparr>)"
  using assms remove_created_run [of n "ws_created s"]
  by (auto simp: rollback_def clearState_def effect_simps node_simps fun_eq_iff)

text \<open>
  C31. What a failed \<open>config:init\<close> leaves behind. If the files were generated and the validation then fails or is given up, the command takes back
  what it did: the prompt files it created are gone, prompt files that were there before and every other file are as they were, and
  \<open>gateway.config.yaml\<close>, \<open>.env\<close>, \<open>.env.example\<close> and the progress file do not exist. The last part holds as well when a configuration existed before,
  which is deleted rather than restored.
\<close>

theorem failed_init_removes_files:
  assumes "write_and_validate lib u (ci, ei) w = (Inl e, w')" and "generateFullConfig lib False ci ei w = (Inr (), w1)"
    and "ws_created (ww_state w) = []" and "ws_backedUp (ww_state w) = []" and "\<forall>p. \<not> nw_denied (ww_node w) (FsUnlink p)" and "edits_within generated_files u"
  shows "nw_files (ww_node w') = (\<lambda>p. if p = STATE_FILE \<or> p \<in> generated_files then None else nw_files (ww_node w) p)"
proof -
  let ?f = "nw_files (ww_node w)"
  have gen: "calm w w1" "recorded ?f w1" using generateFullConfig_run [OF assms(2,3)] by simp_all
  obtain r w2 where w2: "validateAndFixConfig lib u w1 = (r, w2)" by (cases "validateAndFixConfig lib u w1")
  have loop: "ww_state w2 = ww_state w1" "nw_denied (ww_node w2) = nw_denied (ww_node w1)" "p \<notin> generated_files \<Longrightarrow> nw_files (ww_node w2) p = nw_files (ww_node w1) p" for p
    using loop_untouched [OF assms(6), of w1 lib] w2 by (simp_all add: untouched_def kept_outside_def)
  have clear: "\<exists>n'. clearState n = (Inr (), n')" for n
    by (simp add: clearState_def effect_simps node_simps)
  have roll: "rollback (ww_state w2) (ww_node w2) =
      (Inr (), (ww_node w2)\<lparr>nw_files := (\<lambda>p. if p = STATE_FILE \<or> p \<in> set (ws_created (ww_state w1)) then None else nw_files (ww_node w2) p)\<rparr>)"
    using rollback_run [of "ww_node w2" "ww_state w2"] loop(1,2) gen(1) assms(4,5) by (simp add: calm_def)
  have "nw_files (ww_node w') = (\<lambda>p. if p = STATE_FILE \<or> p \<in> set (ws_created (ww_state w1)) then None else nw_files (ww_node w2) p)"
  proof (cases r)
    case (Inl e')
    then show ?thesis using assms(1,2) w2 roll by (auto simp: write_and_validate_def effect_simps)
  next
    case (Inr x)
    then show ?thesis using assms(1,2) w2 clear [of "ww_node w2"] by (auto simp: write_and_validate_def effect_simps)
  qed
  then show ?thesis using gen(2) loop(3) by (auto simp: recorded_def fun_eq_iff)
qed

definition sealed_world :: wizard_world where
  "sealed_world = fresh_world\<lparr>ww_node := (ww_node fresh_world)\<lparr>nw_files := [''gateway.config.yaml'' \<mapsto> ''old'', MASTER_PROMPT \<mapsto> ''Be brief.''],
     nw_denied := (\<lambda>op. op = FsRead ''gateway.config.yaml'')\<rparr>\<rparr>"

definition empty_input :: config_template_input where
  "empty_input = \<lparr>ct_masterKeyRef = ''MK'', ct_providers = [], ct_clients = [], ct_models = []\<rparr>"

lemma unreadable_not_accepted: "nw_denied (ww_node w) (FsRead ''gateway.config.yaml'') \<Longrightarrow> \<not> accepts lib w"
  by (auto simp: accepts_def gateway_validate_def validateGatewayConfig_def dotenvConfig_def failed_validation_def effect_simps node_simps split: option.splits if_splits)

theorem validation_loop_ends_witness:
  "\<exists>l. while_option fix_continues (fix_attempt (sample_lib sample_schema_config) (sample_user (\<lambda>_. False))) (fix_start sealed_world) = Some l \<and> fx_attempts l \<le> 10 \<and>
     fst (validateAndFixConfig (sample_lib sample_schema_config) (sample_user (\<lambda>_. False)) sealed_world) \<noteq> Inr ()"
proof -
  let ?lib = "sample_lib sample_schema_config" and ?u = "sample_user (\<lambda>_. False)"
  have "\<not> accepts ?lib (edited_world ?lib ?u sealed_world 0)" by (simp add: unreadable_not_accepted sealed_world_def)
  moreover have "\<not> edits_on ?u 0" by (simp add: edits_on_def sample_user_def)
  ultimately have "\<not> (\<exists>n < 10. (\<forall>i < n. \<not> accepts ?lib (edited_world ?lib ?u sealed_world i) \<and> edits_on ?u i) \<and> accepts ?lib (edited_world ?lib ?u sealed_world n))"
    by (metis gr0I)
  then show ?thesis using validation_loop_ends [of ?lib ?u sealed_world] by blast
qed

theorem failed_init_removes_files_witness:
  "\<exists>e w'. write_and_validate (sample_lib sample_schema_config) (sample_user (\<lambda>_. False)) (empty_input, sample_env_input ''s'') sealed_world = (Inl e, w') \<and>
     nw_files (ww_node w') = (\<lambda>p. if p = STATE_FILE \<or> p \<in> generated_files then None else nw_files (ww_node sealed_world) p)"
proof -
  let ?lib = "sample_lib sample_schema_config" and ?u = "sample_user (\<lambda>_. False)" and ?ei = "sample_env_input ''s''"
  obtain w1 where gen: "generateFullConfig ?lib False empty_input ?ei sealed_world = (Inr (), w1)"
    by (auto simp: generateFullConfig_def generateGatewayConfig_def generateEnvFiles_def generateMasterPrompt_def backup_if_def push_created_def push_optional_def change_state_def
        writeYaml_def writeEnv_def ensureDir_def effect_simps node_simps sealed_world_def fresh_world_def empty_input_def generateGatewayConfigTemplate_def truthy_str_def MASTER_PROMPT_def)
  have files: "ws_created (ww_state sealed_world) = []" "ws_backedUp (ww_state sealed_world) = []" "\<forall>p. \<not> nw_denied (ww_node sealed_world) (FsUnlink p)"
    by (simp_all add: sealed_world_def fresh_world_def fresh_wizard_def)
  have user: "edits_within generated_files ?u" "\<not> edits_on ?u 0" by (simp_all add: edits_within_def edits_on_def sample_user_def)
  have "nw_denied (ww_node w1) (FsRead ''gateway.config.yaml'')"
    using generateFullConfig_run [OF gen files(1)] by (simp add: calm_def sealed_world_def)
  then have "\<not> accepted_from ?lib ?u w1 0" using user(2) unreadable_not_accepted accepted_from_step [of ?lib ?u w1 0] by simp
  then have "fst (validateAndFixConfig ?lib ?u w1) \<noteq> Inr ()" using loop_result [of ?lib ?u w1] by blast
  then obtain e w2 where loop: "validateAndFixConfig ?lib ?u w1 = (Inl e, w2)"
    by (cases "validateAndFixConfig ?lib ?u w1"; cases "fst (validateAndFixConfig ?lib ?u w1)") auto
  then obtain e' w' where run: "write_and_validate ?lib ?u (empty_input, ?ei) sealed_world = (Inl e', w')"
    using gen by (cases "rollback (ww_state w2) (ww_node w2)"; cases "fst (rollback (ww_state w2) (ww_node w2))") (auto simp: write_and_validate_def effect_simps)
  then show ?thesis using failed_init_removes_files [OF run gen files user(1)] by blast
qed

text \<open>A failure between two writes is taken back incompletely: \<open>.env.example\<close> is recorded together with \<open>.env\<close>, after both.\<close>

lemma env_example_left_behind:
  assumes "\<And>op. nw_denied (ww_node w) op \<longleftrightarrow> op = FsWrite ''.env''" and "generateGatewayConfigTemplate ci = Inr cfg"
    and "ws_created (ww_state w) = []" and "ws_backedUp (ww_state w) = []"
  shows "\<exists>e w'. write_and_validate lib u (ci, ei) w = (Inl e, w') \<and> nw_files (ww_node w') ''gateway.config.yaml'' = None \<and> nw_files (ww_node w') ''.env.example'' \<noteq> None"
  using assms rollback_run
  by (auto simp: write_and_validate_def generateFullConfig_def generateGatewayConfig_def generateEnvFiles_def backup_if_def push_created_def change_state_def writeYaml_def writeEnv_def
      effect_simps node_simps rollback_run STATE_FILE_def)

text \<open>In agent mode no value of an operator is ever written: API keys, base URLs, the Redis password and the Sentry DSN are left for a human to fill in.\<close>

lemma agent_operator_values_empty:
  assumes "runFromAnswers lib random uuid a w = (Inr (ci, ei), w')"
  shows "list_all (\<lambda>p. pc_apiKey p = [] \<and> pc_baseUrl p = None) (et_providers ei) \<and> sv_redisPassword (et_server ei) = Some [] \<and> sv_sentryDsn (et_server ei) = Some []"
  using assms
  by (auto simp: runFromAnswers_def state_result_def change_state_def effect_simps node_simps buildResult_def fresh_wizard_def agent_data_def agent_provider_def
      mapServerConfigFromAnswers_def env_input_of_def list_all_iff)

text \<open>An answers file with a member the schema does not name, such as a key in a provider's row, is refused.\<close>

lemma extra_member_refused:
  "k \<notin> {''id'', ''type'', ''enabled''} \<Longrightarrow> (k, v) \<in> set kvs \<Longrightarrow> read_init_provider (JObj kvs) = None"
  "k \<notin> {''id'', ''name'', ''type'', ''generateKey'', ''rateLimit''} \<Longrightarrow> (k, v) \<in> set kvs \<Longrightarrow> read_init_client (JObj kvs) = None"
  by (auto simp: read_init_provider_def read_init_client_def strict_object_def list_all_iff)

end
