(* ===== verification/Cli_Commands.thy ===== *)
theory Cli_Commands
  imports Cli_Prompts Cli_Init
begin

text \<open>
  The commands \<open>provider:*\<close>, \<open>model:*\<close>, \<open>client:*\<close>, \<open>key:generate\<close> and \<open>config:secrets-status\<close> (\<open>cli/commands\<close>): the checks of the configuration, the agent
  mode with its answers files (\<open>cli/schemas/agent-answers.schema.ts\<close>) and reports, and the interactive mode, whose answers are arguments. \<open>raw\<close> is the
  trimmed first parameter. A report is what \<open>exitWithAgentReport\<close> prints before it ends the process, without the hints in \<open>next\<close>; numbers of an answers file are
  natural numbers, except for the temperature.
\<close>

section \<open>How a command ends\<close>

datatype command_end = Finished | Exited nat | Reported agent_report

fun exit_status :: "command_end \<Rightarrow> nat" where
  "exit_status Finished = 0"
| "exit_status (Exited n) = n"
| "exit_status (Reported r) = exitCodeForReport r"

definition failure_report :: "string \<Rightarrow> string list \<Rightarrow> agent_report" where
  "failure_report command errors = \<lparr>ar_ok = False, ar_status = StatusError, ar_command = command, ar_files = [], ar_pendingSecrets = [], ar_generatedKeyRefs = [], ar_errors = errors\<rparr>"

definition done_report :: "string \<Rightarrow> apply_result \<Rightarrow> agent_report" where
  "done_report command r =
     \<lparr>ar_ok = True, ar_status = (if am_pendingSecrets r \<noteq> [] then StatusAwaitingSecrets else StatusSuccess), ar_command = command, ar_files = am_filesTouched r,
      ar_pendingSecrets = am_pendingSecrets r, ar_generatedKeyRefs = am_generatedKeyRefs r, ar_errors = []\<rparr>"

definition fail_with :: "cli_mode \<Rightarrow> string \<Rightarrow> string \<Rightarrow> command_end" where
  "fail_with mode command message = (if cm_isAgent mode then Reported (failure_report command [message]) else Exited 1)"

text \<open>\<open>try ... catch\<close> around the body of every command.\<close>

definition run_command :: "cli_mode_flags \<Rightarrow> string \<Rightarrow> (cli_mode \<Rightarrow> (node_world, command_end) io) \<Rightarrow> (node_world, command_end) io" where
  "run_command flags command body =
     (let mode = resolveCliMode flags in
      io_bind (markAgentRuntime mode) (\<lambda>_. io_catch (body mode) (\<lambda>e. io_return (fail_with mode command (error_message e)))))"

definition check_exists :: "cli_mode \<Rightarrow> string \<Rightarrow> (node_world, command_end) io \<Rightarrow> (node_world, command_end) io" where
  "check_exists mode command body =
     io_bind configExists (\<lambda>there. if there then body else io_return (fail_with mode command ''Configuration not found. Run gateway config:init first.''))"

text \<open>In interactive mode some commands only warn about a boilerplate configuration and return.\<close>

definition check_boilerplate :: "node_lib \<Rightarrow> bool \<Rightarrow> cli_mode \<Rightarrow> string \<Rightarrow> (node_world, command_end) io \<Rightarrow> (node_world, command_end) io" where
  "check_boilerplate lib only_warns mode command body =
     io_bind (isBoilerplateConfig lib) (\<lambda>boilerplate.
       if \<not> boilerplate then body
       else io_return (if \<not> cm_isAgent mode \<and> only_warns then Finished
         else fail_with mode command ''Boilerplate configuration detected. Run gateway config:init to create a full configuration.''))"

definition with_config :: "node_lib \<Rightarrow> bool \<Rightarrow> cli_mode \<Rightarrow> string \<Rightarrow> (gateway_config \<Rightarrow> (node_world, command_end) io) \<Rightarrow> (node_world, command_end) io" where
  "with_config lib only_warns mode command body =
     check_exists mode command (check_boilerplate lib only_warns mode command (io_bind (loadRawConfig lib) body))"

definition answers_for :: "cli_mode \<Rightarrow> string \<Rightarrow> (json \<Rightarrow> 'a option) \<Rightarrow> (node_world, 'a) io" where
  "answers_for mode command schema =
     io_bind (io_lift (assertAgentHasAnswers mode command)) (\<lambda>_. loadAnswers schema (nullish (cm_answersPath mode) []))"

definition report_of :: "string \<Rightarrow> (node_world, gateway_config \<times> apply_result) io \<Rightarrow> (node_world, command_end) io" where
  "report_of command m = io_map (\<lambda>(_, r). Reported (done_report command r)) m"

definition finish :: "(node_world, 'a) io \<Rightarrow> (node_world, command_end) io" where
  "finish m = io_map (\<lambda>_. Finished) m"

section \<open>Answers files (agent-answers.schema.ts)\<close>

definition version_ok :: "(string \<times> json) list \<Rightarrow> nat option" where
  "version_ok = field (ensure (\<lambda>n. n = 1) read_count) ''schemaVersion''"

definition ProviderAddAnswersSchema :: "json \<Rightarrow> (init_provider \<times> string \<times> string) option" where
  "ProviderAddAnswersSchema = strict_object [''schemaVersion'', ''id'', ''type'', ''enabled'', ''deferSecret'', ''ensureModel''] (\<lambda>o'. do {
     _ \<leftarrow> version_ok o'; i \<leftarrow> field read_text ''id'' o'; t \<leftarrow> field (read_enum PROVIDER_TYPES) ''type'' o'; en \<leftarrow> optional read_bool ''enabled'' o';
     _ \<leftarrow> field read_true ''deferSecret'' o';
     m \<leftarrow> field (strict_object [''alias'', ''modelId''] (\<lambda>o'. do {
       a \<leftarrow> field (ensure isRedisSearchTagSafeId read_string) ''alias'' o'; m \<leftarrow> field read_text ''modelId'' o'; Some (a, m) })) ''ensureModel'' o';
     Some (\<lparr>ip_id = i, ip_type = t, ip_enabled = en\<rparr>, m) })"

record provider_edit_answers =
  pe_id :: string
  pe_enabled :: "bool option"
  pe_rotateSecret :: "bool option"
  pe_confirmNonBootable :: "bool option"

definition ProviderEditAnswersSchema :: "json \<Rightarrow> provider_edit_answers option" where
  "ProviderEditAnswersSchema = strict_object [''schemaVersion'', ''id'', ''enabled'', ''rotateSecret'', ''confirmNonBootable''] (\<lambda>o'. do {
     _ \<leftarrow> version_ok o'; i \<leftarrow> field read_text ''id'' o'; en \<leftarrow> optional read_bool ''enabled'' o'; rot \<leftarrow> optional read_bool ''rotateSecret'' o';
     c \<leftarrow> optional read_bool ''confirmNonBootable'' o';
     Some \<lparr>pe_id = i, pe_enabled = en, pe_rotateSecret = rot, pe_confirmNonBootable = c\<rparr> })"

text \<open>\<open>ProviderRemoveAnswersSchema\<close>, \<open>ModelRemoveAnswersSchema\<close> and \<open>ClientRemoveAnswersSchema\<close> differ in the name of the identifier.\<close>

definition remove_schema :: "string \<Rightarrow> json \<Rightarrow> string option" where
  "remove_schema name = strict_object [''schemaVersion'', name, ''confirm''] (\<lambda>o'. do {
     _ \<leftarrow> version_ok o'; i \<leftarrow> field read_text name o'; _ \<leftarrow> field read_true ''confirm'' o'; Some i })"

definition ModelAddAnswersSchema :: "json \<Rightarrow> add_model_input option" where
  "ModelAddAnswersSchema = strict_object [''schemaVersion'', ''alias'', ''providerInstance'', ''modelId''] (\<lambda>o'. do {
     _ \<leftarrow> version_ok o'; a \<leftarrow> field (ensure isRedisSearchTagSafeId read_string) ''alias'' o'; p \<leftarrow> field read_text ''providerInstance'' o';
     m \<leftarrow> field read_text ''modelId'' o';
     Some \<lparr>aim_alias = a, aim_providerInstance = p, aim_modelId = m\<rparr> })"

fun read_number :: "json \<Rightarrow> rat option" where
  "read_number (JNum q) = Some q" | "read_number _ = None"

fun or_null :: "(json \<Rightarrow> 'a option) \<Rightarrow> json \<Rightarrow> 'a option option" where
  "or_null f JNull = Some None"
| "or_null f j = map_option Some (f j)"

definition read_edit_policy :: "json \<Rightarrow> edit_policy option" where
  "read_edit_policy = strict_object [''timeoutMs'', ''maxAttempts'', ''maxOutputTokens'', ''temperature''] (\<lambda>o'. do {
     t \<leftarrow> field read_positive ''timeoutMs'' o'; n \<leftarrow> field read_positive ''maxAttempts'' o'; k \<leftarrow> field read_positive ''maxOutputTokens'' o';
     temp \<leftarrow> optional read_number ''temperature'' o';
     Some \<lparr>ep_timeoutMs = t, ep_maxAttempts = n, ep_maxOutputTokens = of_nat k, ep_temperature = temp\<rparr> })"

definition ModelEditAnswersSchema :: "json \<Rightarrow> edit_model_input option" where
  "ModelEditAnswersSchema = strict_object [''schemaVersion'', ''alias'', ''modelId'', ''providerInstance'', ''confirmNonBootable'', ''fallback'', ''streaming'', ''policy''] (\<lambda>o'. do {
     _ \<leftarrow> version_ok o'; a \<leftarrow> field read_text ''alias'' o'; m \<leftarrow> optional read_text ''modelId'' o'; p \<leftarrow> optional read_text ''providerInstance'' o';
     c \<leftarrow> optional read_bool ''confirmNonBootable'' o'; fb \<leftarrow> optional (or_null read_text) ''fallback'' o'; s \<leftarrow> optional read_bool ''streaming'' o';
     pol \<leftarrow> optional read_edit_policy ''policy'' o';
     if m = None \<and> p = None \<and> fb = None \<and> s = None \<and> pol = None then None
     else Some \<lparr>em_alias = a, em_modelId = m, em_providerInstance = p, em_confirmNonBootable = (c = Some True), em_fallback = fb, em_streaming = s, em_policy = pol\<rparr> })"

definition ClientAddAnswersSchema :: "json \<Rightarrow> init_client option" where
  "ClientAddAnswersSchema = strict_object [''schemaVersion'', ''id'', ''name'', ''type'', ''generateKey'', ''rateLimit''] (\<lambda>o'. do {
     _ \<leftarrow> version_ok o'; i \<leftarrow> field (ensure isRedisSearchTagSafeId read_string) ''id'' o'; n \<leftarrow> field read_text ''name'' o';
     t \<leftarrow> field (read_enum (map (\<lambda>s. (s, s)) GATEWAY_CLIENT_TYPES)) ''type'' o'; _ \<leftarrow> field read_true ''generateKey'' o';
     r \<leftarrow> optional read_init_rate ''rateLimit'' o';
     Some \<lparr>ic_id = i, ic_name = n, ic_type = t, ic_rateLimit = r\<rparr> })"

record client_edit_answers =
  ce_id :: string
  ce_action :: string
  ce_name :: "string option"
  ce_type :: "string option"
  ce_rateLimit :: "cli_rate_limit option option"

definition ClientEditAnswersSchema :: "json \<Rightarrow> client_edit_answers option" where
  "ClientEditAnswersSchema = strict_object [''schemaVersion'', ''id'', ''action'', ''name'', ''type'', ''rateLimit''] (\<lambda>o'. do {
     _ \<leftarrow> version_ok o'; i \<leftarrow> field read_text ''id'' o';
     act \<leftarrow> field (ensure (\<lambda>a. a \<in> {''name'', ''type'', ''rateLimit'', ''rotateKey''}) read_string) ''action'' o'; n \<leftarrow> optional read_text ''name'' o';
     t \<leftarrow> optional (read_enum (map (\<lambda>s. (s, s)) GATEWAY_CLIENT_TYPES)) ''type'' o'; r \<leftarrow> optional (or_null read_init_rate) ''rateLimit'' o';
     if act = ''name'' \<and> js_trim (nullish n []) = [] \<or> act = ''type'' \<and> t = None \<or> act = ''rateLimit'' \<and> r = None then None
     else Some \<lparr>ce_id = i, ce_action = act, ce_name = n, ce_type = t, ce_rateLimit = r\<rparr> })"

section \<open>Providers (cli/commands/provider)\<close>

definition agent_provider_input :: "init_provider \<times> string \<times> string \<Rightarrow> add_provider_input" where
  "agent_provider_input = (\<lambda>(p, m).
     \<lparr>ap_id = ip_id p, ap_type = ip_type p, ap_enabled = (ip_enabled p \<noteq> Some False), ap_apiKeyRef = deriveApiKeyRef (ip_id p), ap_apiKey = [],
      ap_baseUrlRef = (if isOpenAiProviderType (ip_type p) then Some (deriveBaseUrlRef (ip_id p)) else None), ap_baseUrl = None, ap_models = [m]\<rparr>)"

definition provider_add :: "node_lib \<Rightarrow> cli_mode_flags \<Rightarrow> add_provider_answers \<Rightarrow> (node_world, command_end) io" where
  "provider_add lib flags typed = run_command flags ''provider:add'' (\<lambda>mode.
     with_config lib False mode ''provider:add'' (\<lambda>config.
       if \<not> cm_isAgent mode then finish (addProvider lib config (cm_deferSecrets mode) typed)
       else if \<not> cm_deferSecrets mode then io_return (fail_with mode ''provider:add'' ''Agent mode requires secret deferral (default).'')
       else io_bind (answers_for mode ''provider:add'' ProviderAddAnswersSchema) (\<lambda>answers.
            report_of ''provider:add'' (applyAddProvider lib config (agent_provider_input answers)))))"

text \<open>Both edits of one answers file, the second on the configuration the first one left.\<close>

definition agent_edit_provider :: "node_lib \<Rightarrow> gateway_config \<Rightarrow> provider_edit_answers \<Rightarrow> (node_world, gateway_config \<times> apply_result) io" where
  "agent_edit_provider lib config a =
     io_bind (case pe_enabled a of
         Some en \<Rightarrow> applyEditProvider lib config (pe_id a) (EditEnabled (Some en) (pe_confirmNonBootable a = Some True))
       | None \<Rightarrow> io_return (config, touched [])) (\<lambda>(config1, r1).
       if pe_rotateSecret a = Some True
       then io_map (\<lambda>(config2, r2). (config2, r2\<lparr>am_filesTouched := remdups (am_filesTouched r1 @ am_filesTouched r2)\<rparr>)) (applyEditProvider lib config1 (pe_id a) ClearApiKey)
       else io_return (config1, touched (am_filesTouched r1)))"

definition provider_edit :: "node_lib \<Rightarrow> cli_mode_flags \<Rightarrow> string option \<Rightarrow> edit_provider_choice \<Rightarrow> bool \<Rightarrow> (node_world, command_end) io" where
  "provider_edit lib flags raw choice confirm = run_command flags ''provider:edit'' (\<lambda>mode.
     if \<not> cm_isAgent mode \<and> truthy_str raw = None then io_return (Exited 1)
     else with_config lib False mode ''provider:edit'' (\<lambda>config.
       if \<not> cm_isAgent mode then finish (editProvider lib config (nullish raw []) choice confirm)
       else io_bind (answers_for mode ''provider:edit'' ProviderEditAnswersSchema) (\<lambda>a.
         if pe_enabled a = None \<and> pe_rotateSecret a \<noteq> Some True
         then io_return (fail_with mode ''provider:edit'' ''Provider edit requires enabled and/or rotateSecret:true in answers.'')
         else report_of ''provider:edit'' (agent_edit_provider lib config a))))"

text \<open>The identifier of a removal in agent mode: from the answers file, or the parameter with \<open>--force\<close>.\<close>

definition removal_target :: "cli_mode \<Rightarrow> string \<Rightarrow> string option \<Rightarrow> string \<Rightarrow> (node_world, string option) io" where
  "removal_target mode command raw name =
     (case cm_answersPath mode of
        Some path \<Rightarrow> io_map Some (loadAnswers (remove_schema name) path)
      | None \<Rightarrow> if cm_force mode \<and> truthy_str raw \<noteq> None then io_return raw
          else io_bind (io_lift (assertAgentHasAnswers mode command)) (\<lambda>_. io_return None))"

definition remove_by_report :: "string \<Rightarrow> string option \<Rightarrow> (string \<Rightarrow> (node_world, gateway_config \<times> apply_result) io) \<Rightarrow> (node_world, command_end) io" where
  "remove_by_report command target apply_remove = (case target of None \<Rightarrow> io_return Finished | Some i \<Rightarrow> report_of command (apply_remove i))"

definition provider_remove :: "node_lib \<Rightarrow> cli_mode_flags \<Rightarrow> string option \<Rightarrow> bool \<Rightarrow> (node_world, command_end) io" where
  "provider_remove lib flags raw confirm = run_command flags ''provider:remove'' (\<lambda>mode.
     if \<not> cm_isAgent mode \<and> truthy_str raw = None then io_return (Exited 1)
     else with_config lib False mode ''provider:remove'' (\<lambda>config.
       if \<not> cm_isAgent mode then finish (removeProvider lib config (nullish raw []) confirm)
       else io_bind (removal_target mode ''provider:remove'' raw ''id'') (\<lambda>target. remove_by_report ''provider:remove'' target (applyRemoveProvider lib config))))"

section \<open>Models (cli/commands/model)\<close>

definition model_add :: "node_lib \<Rightarrow> cli_mode_flags \<Rightarrow> string \<Rightarrow> (string \<times> string) list \<Rightarrow> (node_world, command_end) io" where
  "model_add lib flags selected typed = run_command flags ''model:add'' (\<lambda>mode.
     with_config lib False mode ''model:add'' (\<lambda>config.
       if \<not> cm_isAgent mode
       then io_bind (promptAddModel config None selected typed) (\<lambda>inputs.
            io_bind (applyAddModels lib config inputs) (\<lambda>config'. finish (persistConfig lib False False config')))
       else io_bind (answers_for mode ''model:add'' ModelAddAnswersSchema) (\<lambda>input.
            report_of ''model:add'' (io_map (\<lambda>c. (c, touched [''gateway.config.yaml''])) (applyAddModel lib True config input)))))"

definition model_edit :: "node_lib \<Rightarrow> cli_mode_flags \<Rightarrow> string option \<Rightarrow> edit_model_answer list \<Rightarrow> (node_world, command_end) io" where
  "model_edit lib flags raw typed = run_command flags ''model:edit'' (\<lambda>mode.
     if \<not> cm_isAgent mode \<and> truthy_str raw = None then io_return (Exited 1)
     else with_config lib False mode ''model:edit'' (\<lambda>config.
       if \<not> cm_isAgent mode then finish (editModel lib config (nullish raw []) typed)
       else io_bind (answers_for mode ''model:edit'' ModelEditAnswersSchema) (\<lambda>input. report_of ''model:edit'' (applyEditModel lib config input))))"

definition model_remove :: "node_lib \<Rightarrow> cli_mode_flags \<Rightarrow> string option \<Rightarrow> bool \<Rightarrow> (node_world, command_end) io" where
  "model_remove lib flags raw confirm = run_command flags ''model:remove'' (\<lambda>mode.
     check_boilerplate lib True mode ''model:remove'' (
     if \<not> cm_isAgent mode \<and> truthy_str raw = None then io_return (Exited 1)
     else check_exists mode ''model:remove'' (io_bind (loadRawConfig lib) (\<lambda>config.
       if \<not> cm_isAgent mode then finish (removeModel lib config (nullish raw []) confirm)
       else io_bind (removal_target mode ''model:remove'' raw ''alias'') (\<lambda>target. remove_by_report ''model:remove'' target (applyRemoveModel lib config))))))"

section \<open>Clients (cli/commands/client)\<close>

definition agent_rate :: "cli_rate_limit \<Rightarrow> cli_rate_limit" where
  "agent_rate r = r\<lparr>crl_maxConcurrentStreams := truthy_count (crl_maxConcurrentStreams r)\<rparr>"

definition client_add :: "node_lib \<Rightarrow> string \<Rightarrow> cli_mode_flags \<Rightarrow> add_client_answers \<Rightarrow> (node_world, command_end) io" where
  "client_add lib random flags typed = run_command flags ''client:add'' (\<lambda>mode.
     with_config lib True mode ''client:add'' (\<lambda>config.
       if \<not> cm_isAgent mode then finish (addClient lib random config typed)
       else io_bind (answers_for mode ''client:add'' ClientAddAnswersSchema) (\<lambda>a.
            report_of ''client:add'' (applyAddClient lib config
              \<lparr>ac_id = ic_id a, ac_name = ic_name a, ac_type = ic_type a, ac_rate = map_option agent_rate (ic_rateLimit a),
               ac_newKey = generateGatewayClientKey random (ic_id a), ac_newKeyRef = deriveGatewayKeyRef (ic_id a)\<rparr>))))"

definition agent_client_action :: "string \<Rightarrow> client_edit_answers \<Rightarrow> edit_client_action" where
  "agent_client_action random a =
     (if ce_action a = ''name'' then EditName (ce_name a) else if ce_action a = ''type'' then EditType (ce_type a)
      else if ce_action a = ''rateLimit'' then EditRateLimit (map_option (map_option agent_rate) (ce_rateLimit a))
      else RotateKey (Some (generateGatewayClientKey random (ce_id a))))"

definition client_edit :: "node_lib \<Rightarrow> string \<Rightarrow> cli_mode_flags \<Rightarrow> string option \<Rightarrow> edit_client_choice \<Rightarrow> (node_world, command_end) io" where
  "client_edit lib random flags raw choice = run_command flags ''client:edit'' (\<lambda>mode.
     if \<not> cm_isAgent mode \<and> truthy_str raw = None then io_return (Exited 1)
     else with_config lib True mode ''client:edit'' (\<lambda>config.
       if \<not> cm_isAgent mode then finish (editClient lib random config (nullish raw []) choice)
       else io_bind (answers_for mode ''client:edit'' ClientEditAnswersSchema) (\<lambda>a.
            report_of ''client:edit'' (applyEditClient lib config (ce_id a) (agent_client_action random a)))))"

definition client_remove :: "node_lib \<Rightarrow> cli_mode_flags \<Rightarrow> string option \<Rightarrow> bool \<Rightarrow> (node_world, command_end) io" where
  "client_remove lib flags raw confirm = run_command flags ''client:remove'' (\<lambda>mode.
     if \<not> cm_isAgent mode \<and> truthy_str raw = None then io_return (Exited 1)
     else with_config lib True mode ''client:remove'' (\<lambda>config.
       if \<not> cm_isAgent mode then finish (removeClient lib config (nullish raw []) confirm)
       else io_bind (removal_target mode ''client:remove'' raw ''id'') (\<lambda>target. remove_by_report ''client:remove'' target (applyRemoveClient lib config))))"

section \<open>Keys and secrets (key-generate.command.ts, config-secrets-status.command.ts)\<close>

text \<open>\<open>type\<close> and \<open>client\<close> are the options, with the parameters as their defaults.\<close>

definition generated_key :: "string \<Rightarrow> string \<Rightarrow> string \<Rightarrow> string \<times> string" where
  "generated_key random type client =
     (if type = ''master'' then (''MASTER_KEY'', generateMasterKey random) else (deriveGatewayKeyRef client, generateGatewayClientKey random client))"

definition key_generate :: "string \<Rightarrow> cli_mode_flags \<Rightarrow> bool \<Rightarrow> string option \<Rightarrow> string option \<Rightarrow> (node_world, command_end) io" where
  "key_generate random flags writeEnv' type client = run_command flags ''key:generate'' (\<lambda>mode.
     if type \<notin> {Some ''master'', Some ''client''} then io_return (fail_with mode ''key:generate'' ''Key type is required (master|client).'')
     else if cm_isAgent mode \<and> \<not> writeEnv' then io_return (fail_with mode ''key:generate'' ''In agent mode use --write-env to save the key without printing it.'')
     else if type = Some ''client'' \<and> truthy_str client = None
       then io_return (fail_with mode ''key:generate'' ''Client ID is required when type is client.'')
     else if cm_isAgent mode
       then (let (ref, key) = generated_key random (the type) (nullish client []) in
         io_map (\<lambda>_. Reported (done_report ''key:generate'' \<lparr>am_pendingSecrets = [], am_filesTouched = [''.env''], am_generatedKeyRefs = [ref]\<rparr>)) (setVar ref key))
     else io_return Finished)"

definition secrets_status :: "node_lib \<Rightarrow> (node_world, agent_report) io" where
  "secrets_status lib =
     io_catch
       (io_bind configExists (\<lambda>there.
        if \<not> there then io_return (failure_report ''config:secrets-status'' [''Configuration file not found.''])
        else io_bind (isBoilerplateConfig lib) (\<lambda>boilerplate.
        if boilerplate then io_return (failure_report ''config:secrets-status'' [''Boilerplate configuration detected.''])
        else io_bind (loadRawConfig lib) (\<lambda>config.
             io_bind (collectPendingSecrets True True True config) (\<lambda>pending.
               io_return (done_report ''config:secrets-status'' \<lparr>am_pendingSecrets = pending, am_filesTouched = [], am_generatedKeyRefs = []\<rparr>))))))
       (\<lambda>e. io_return (failure_report ''config:secrets-status'' [error_message e]))"

section \<open>Failed commands and the configuration\<close>

abbreviation config_of :: "node_world \<Rightarrow> string option" where
  "config_of w \<equiv> nw_files w ''gateway.config.yaml''"

definition side_files :: "string set" where
  "side_files = insert ''.env'' prompt_files"

text \<open>\<open>keeps m\<close>: the configuration is as it was when \<open>m\<close> throws. \<open>safe m\<close>: when \<open>m\<close> throws or ends with exit code 1.\<close>

definition keeps :: "(node_world, 'a) io \<Rightarrow> bool" where
  "keeps m \<longleftrightarrow> (\<forall>w e w'. m w = (Inl e, w') \<longrightarrow> config_of w' = config_of w)"

definition safe :: "(node_world, command_end) io \<Rightarrow> bool" where
  "safe m \<longleftrightarrow> keeps m \<and> (\<forall>w c w'. m w = (Inr c, w') \<and> exit_status c = 1 \<longrightarrow> config_of w' = config_of w)"

named_theorems keeps_intros \<open>introduction rules for \<open>keeps\<close> and \<open>safe\<close>\<close>

lemma config_not_side: "''gateway.config.yaml'' \<notin> side_files"
  by (auto simp: side_files_def prompt_files_def model_prompt_path_def)

lemma touches_env_side [touches_intros]: "touches (setVar k v) side_files" "touches (removeVar k) side_files"
  by (auto simp: setVar_def removeVar_def readLines_def side_files_def intro!: touches_intros)

lemma touches_optional_side [touches_intros]: "touches (set_optional ref v) side_files" "touches (remove_optional ref) side_files"
  unfolding set_optional_def remove_optional_def by (intro touches_intros)+

lemma touches_models_side: "touches (applyAddModels lib cfg is) side_files" "touches (generateModelPrompt a) side_files"
  by (auto intro!: touches_add_models touches_model_prompt simp: side_files_def)

lemma touches_assert [touches_intros]: "touches (assertInteractiveAllowed c) F"
  unfolding assertInteractiveAllowed_def by (intro touches_intros)

lemma touches_load [touches_intros]: "touches (loadRawConfig lib) F" "touches configExists F" "touches (isBoilerplateConfig lib) F" "touches (loadAnswers sch p) F"
  "touches (answers_for mode c sch) F" "touches (markAgentRuntime mode) F"
proof -
  show raw: "touches (loadRawConfig lib) F"
    unfolding loadRawConfig_def by (intro touches_intros) (auto split: decoded.split intro!: touches_intros)
  show "touches configExists F" unfolding configExists_def by (intro touches_intros)
  show "touches (isBoilerplateConfig lib) F" unfolding isBoilerplateConfig_def by (intro touches_intros raw)
  show load: "touches (loadAnswers sch p) F" for sch :: "json \<Rightarrow> 'c option" and p unfolding loadAnswers_def by (intro touches_intros)
  show "touches (answers_for mode c sch) F" unfolding answers_for_def by (intro touches_intros load)
  show "touches (markAgentRuntime mode) F" by (auto simp: markAgentRuntime_def touches_def kept_outside_def)
qed

lemma keeps_touches: "touches m side_files \<Longrightarrow> keeps m"
  using touchesD(1) config_not_side unfolding keeps_def by blast

lemma keeps_env: "keeps (setVar k v)"
  by (intro keeps_touches touches_env_side)

lemma keeps_bind [keeps_intros]: "touches m side_files \<Longrightarrow> (\<And>x. keeps (f x)) \<Longrightarrow> keeps (io_bind m f)"
  using touchesD(1) [OF _ _ config_not_side] unfolding keeps_def io_bind_Inl by metis

lemma keeps_then [keeps_intros]: "keeps m \<Longrightarrow> (\<And>x w. \<exists>y w'. f x w = (Inr y, w')) \<Longrightarrow> keeps (io_bind m f)"
proof -
  assume m: "keeps m" and f: "\<And>x w. \<exists>y w'. f x w = (Inr y, w')"
  have "f x w \<noteq> (Inl e, w')" for x w e w' using f [of x w] by auto
  then show ?thesis using m unfolding keeps_def io_bind_Inl by blast
qed

lemma keeps_map [keeps_intros]: "keeps m \<Longrightarrow> keeps (io_map f m)"
  unfolding io_map_def by (rule keeps_then) auto

lemma keeps_catch [keeps_intros]: "keeps m \<Longrightarrow> (\<And>e. keeps (h e)) \<Longrightarrow> keeps (io_catch m h)"
  unfolding keeps_def io_catch_def by (auto split: prod.splits sum.splits)

lemma keeps_persist [keeps_intros]: "keeps (persistConfig lib skip am cfg)"
  using persist_Inl by (auto simp: keeps_def)

lemma keeps_prim [keeps_intros]: "keeps (io_return x)" "keeps (io_throw e)" "keeps (io_lift r)" "keeps (refuse m)"
  by (simp_all add: keeps_def refuse_def)

lemma safe_bind: "touches m side_files \<Longrightarrow> (\<And>x. safe (f x)) \<Longrightarrow> safe (io_bind m f)"
proof -
  assume m: "touches m side_files" and f: "\<And>x. safe (f x)"
  have "keeps (io_bind m f)" by (rule keeps_bind [OF m]) (use f in \<open>simp add: safe_def\<close>)
  moreover have "config_of w' = config_of w" if "io_bind m f w = (Inr c, w')" "exit_status c = 1" for w c w'
    using that f touchesD(1) [OF m _ config_not_side] unfolding io_bind_Inr safe_def by metis
  ultimately show ?thesis by (auto simp: safe_def)
qed

lemma safe_end: "keeps m \<Longrightarrow> safe (report_of command m)" "keeps n \<Longrightarrow> safe (finish n)" "safe (io_return c)"
proof -
  show "safe (report_of command m)" if m: "keeps m"
    using keeps_map [OF m] by (auto simp: safe_def report_of_def io_map_def io_bind_Inr done_report_def exitCodeForReport_def split: if_splits)
  show "safe (finish n)" if n: "keeps n"
    using keeps_map [OF n] by (auto simp: safe_def finish_def io_map_def io_bind_Inr)
  show "safe (io_return c)" by (simp add: safe_def keeps_prim)
qed

lemma keeps_case [keeps_intros]:
  "(b \<Longrightarrow> keeps m) \<Longrightarrow> (\<not> b \<Longrightarrow> keeps n) \<Longrightarrow> keeps (if b then m else n)"
  "(x = None \<Longrightarrow> keeps m) \<Longrightarrow> (\<And>y. x = Some y \<Longrightarrow> keeps (f y)) \<Longrightarrow> keeps (case x of None \<Rightarrow> m | Some y \<Rightarrow> f y)"
  "(\<And>a c. z = (a, c) \<Longrightarrow> keeps (g a c)) \<Longrightarrow> keeps (case z of (a, c) \<Rightarrow> g a c)"
  by (auto split: option.split prod.split)

lemma keeps_save [keeps_intros]: "keeps (save_client lib cfg c row)"
  unfolding save_client_def Let_def by (intro keeps_intros) auto

text \<open>The operations of the managers whose last step that can fail is the save.\<close>

lemma keeps_apply [keeps_intros]:
  "keeps (applyAddProvider lib cfg ip)" "keeps (applyAddModel lib persist cfg im)" "keeps (applyEditModel lib cfg em)" "keeps (applyRemoveModel lib cfg a)"
  "keeps (applyAddClient lib cfg ic)" "keeps (applyEditClient lib cfg c act)" "keeps (applyEditProvider lib cfg i pact)"
proof -
  note side = touches_models_side touches_env_side touches_optional_side
  show "keeps (applyAddProvider lib cfg ip)"
    unfolding applyAddProvider_def Let_def
    by (intro keeps_case keeps_prim keeps_bind side keeps_then keeps_catch keeps_persist) auto
  show "keeps (applyAddModel lib persist cfg im)"
    unfolding applyAddModel_def Let_def by (intro keeps_case keeps_prim keeps_bind side keeps_map keeps_persist)
  show "keeps (applyEditModel lib cfg em)"
    unfolding applyEditModel_def Let_def by (intro keeps_case keeps_prim keeps_bind touches_intros keeps_then keeps_persist) auto
  show "keeps (applyRemoveModel lib cfg a)"
    unfolding applyRemoveModel_def Let_def
    by (intro keeps_case keeps_prim keeps_then keeps_persist) (auto simp: deleteModelPrompt_def io_catch_apply io_bind_apply split: prod.splits sum.splits)
  show "keeps (applyAddClient lib cfg ic)"
    unfolding applyAddClient_def Let_def by (intro keeps_case keeps_prim keeps_bind side keeps_then keeps_catch keeps_persist) auto
  show "keeps (applyEditClient lib cfg c act)"
    unfolding applyEditClient_def
    by (auto split: option.split edit_client_action.split intro!: keeps_case keeps_prim keeps_bind side keeps_save)
  show "keeps (applyEditProvider lib cfg i pact)"
    unfolding applyEditProvider_def Let_def
    by (auto split: option.split edit_provider_action.split intro!: keeps_case keeps_prim keeps_env keeps_then keeps_persist)
qed

lemma safe_run: "(\<And>mode. safe (body mode)) \<Longrightarrow> run_command flags command body w = (Inr c, w') \<Longrightarrow> exit_status c = 1 \<Longrightarrow> config_of w' = config_of w"
proof -
  assume body: "\<And>mode. safe (body mode)" and run: "run_command flags command body w = (Inr c, w')" and c: "exit_status c = 1"
  let ?mode = "resolveCliMode flags"
  obtain w1 where w1: "markAgentRuntime ?mode w = (Inr (), w1)" by (simp add: markAgentRuntime_def)
  have same: "config_of w1 = config_of w" using w1 by (auto simp: markAgentRuntime_def)
  have "config_of w' = config_of w1"
    using run body [of ?mode] c by (auto simp: run_command_def Let_def io_bind_apply w1 io_catch_apply safe_def keeps_def split: prod.splits sum.splits)
  with same show ?thesis by simp
qed

lemma safe_config: "(\<And>cfg. safe (body cfg)) \<Longrightarrow> safe (with_config lib only_warns mode command body)"
  unfolding with_config_def check_exists_def check_boilerplate_def
  by (intro safe_bind touches_load) (auto intro!: safe_bind safe_end touches_load)

lemma safe_if: "(b \<Longrightarrow> safe m) \<Longrightarrow> (\<not> b \<Longrightarrow> safe n) \<Longrightarrow> safe (if b then m else n)"
  by simp

lemma touches_prompts [touches_intros]:
  "touches (promptAddProvider cfg d a) F" "touches (promptAddClient b) F" "touches (promptEditClient cfg c ch) F" "touches (promptAddModel cfg p sel xs) F"
  "touches (promptEditModel cfg al ys) F" "touches (promptRemoveModel cfg al cf) F"
  unfolding promptAddProvider_def promptAddClient_def promptEditClient_def promptAddModel_def promptEditModel_def promptRemoveModel_def Let_def
  by (intro touches_intros)+

lemma keeps_interactive:
  "keeps (addProvider lib cfg d a)" "keeps (addClient lib rnd cfg b)" "keeps (editClient lib rnd cfg c ch)" "keeps (editModel lib cfg al ys)" "keeps (removeModel lib cfg al cf)"
  unfolding addProvider_def addClient_def editClient_def editModel_def removeModel_def
  by (intro keeps_bind touches_intros; auto split: option.split edit_client_action.split intro!: keeps_intros)+

lemma touches_target: "touches (removal_target mode command raw name) F"
  unfolding removal_target_def by (intro touches_intros)

lemma safe_remove: "(\<And>i. keeps (apply_remove i)) \<Longrightarrow> safe (remove_by_report command target apply_remove)"
  by (auto simp: remove_by_report_def split: option.split intro: safe_end)

definition careful :: "(node_world, command_end) io \<Rightarrow> bool" where
  "careful m \<longleftrightarrow> (\<forall>w. \<exists>c w'. m w = (Inr c, w') \<and> (exit_status c = 1 \<longrightarrow> config_of w' = config_of w))"

lemma careful_run: "(\<And>mode. safe (body mode)) \<Longrightarrow> careful (run_command flags command body)"
proof -
  assume body: "\<And>mode. safe (body mode)"
  have "\<exists>c w'. run_command flags command body w = (Inr c, w')" for w
    by (auto simp: run_command_def Let_def io_bind_apply markAgentRuntime_def io_catch_apply split: prod.split sum.split)
  moreover have "config_of w' = config_of w" if "run_command flags command body w = (Inr c, w')" "exit_status c = 1" for w c w'
    by (rule safe_run [OF body that])
  ultimately show ?thesis unfolding careful_def by blast
qed

lemmas safe_parts = careful_run safe_config safe_if safe_end safe_bind touches_load touches_prompts touches_models_side keeps_apply keeps_interactive keeps_persist keeps_map
  touches_target safe_remove

lemma careful_commands:
  "careful (provider_add lib flags pa)" "careful (model_add lib flags sel xs)" "careful (model_edit lib flags raw ys)" "careful (model_remove lib flags raw confirm)"
  "careful (client_add lib random flags ca)" "careful (client_edit lib random flags raw choice)"
  unfolding provider_add_def model_add_def model_edit_def model_remove_def client_add_def client_edit_def check_exists_def check_boilerplate_def
  by (intro safe_parts)+

text \<open>
  C29. A command that fails changes no configuration. The commands that add a provider, a model or a client, and those that edit or remove a model or edit
  a client, always end, interactively and in agent mode, and when they end with exit code 1 (a refusal, an invalid answers file, a failed check or
  a denied file operation at any point) \<open>gateway.config.yaml\<close> is what it was.
\<close>

theorem failed_command_keeps_configuration:
  assumes "command \<in> {provider_add lib flags pa, model_add lib flags sel xs, model_edit lib flags raw ys, model_remove lib flags raw confirm, client_add lib random flags ca,
    client_edit lib random flags raw choice}"
  shows "\<exists>c w'. command w = (Inr c, w') \<and> (exit_status c = 1 \<longrightarrow> nw_files w' ''gateway.config.yaml'' = nw_files w ''gateway.config.yaml'')"
proof -
  have "careful command" using assms careful_commands by auto
  then show ?thesis by (simp add: careful_def)
qed

definition no_flags :: cli_mode_flags where
  "no_flags = \<lparr>fl_agent = None, fl_answers = None, fl_json = None, fl_deferSecrets = None, fl_force = None, fl_yes = None\<rparr>"

lemma sample_loads: "loadRawConfig (sample_lib sample_schema_config) sample_world = (Inr sample_schema_config, sample_world)"
  by (simp add: loadRawConfig_def effect_simps node_simps sample_world_def sample_lib_def sample_config_ok MASTER_PROMPT_def)

theorem failed_command_keeps_configuration_witness:
  "\<exists>c w'. model_edit (sample_lib sample_schema_config) no_flags (Some ''missing'') [NewStreaming True] sample_world = (Inr c, w') \<and> exit_status c = 1 \<and>
     nw_files w' ''gateway.config.yaml'' = Some ''yaml''"
proof -
  let ?m = "model_edit (sample_lib sample_schema_config) no_flags (Some ''missing'') [NewStreaming True]"
  have world: "config_of sample_world = Some ''yaml''" "nw_env sample_world ''GATEWAY_CLI_AGENT'' = None" by (simp_all add: sample_world_def sample_env_def MASTER_PROMPT_def)
  have "map_of (gw_models sample_schema_config) ''missing'' = None" by (simp add: sample_schema_config_def)
  moreover have "isBoilerplateConfig (sample_lib sample_schema_config) sample_world = (Inr False, sample_world)"
    by (simp add: isBoilerplateConfig_def effect_simps io_map_def sample_loads) (simp add: sample_schema_config_def)
  ultimately have "?m sample_world = (Inr (Exited 1), sample_world)"
    by (simp add: world Let_def model_edit_def run_command_def with_config_def check_exists_def check_boilerplate_def configExists_def markAgentRuntime_def resolveCliMode_def
        no_flags_def effect_simps node_simps io_map_def sample_loads finish_def editModel_def promptEditModel_def assertInteractiveAllowed_def refuse_def fail_with_def truthy_str_def)
  moreover obtain c w' where "?m sample_world = (Inr c, w') \<and> (exit_status c = 1 \<longrightarrow> nw_files w' ''gateway.config.yaml'' = nw_files sample_world ''gateway.config.yaml'')"
    using failed_command_keeps_configuration [of ?m "sample_lib sample_schema_config" no_flags _ _ _ "Some ''missing''" "[NewStreaming True]" _ _ _ _ sample_world] by blast
  ultimately show ?thesis by (simp add: world)
qed

text \<open>The removal of a client or provider is not covered: the variable is removed after the save, so a \<open>.env\<close> that cannot be written makes the command report
  a failure although the client is gone from the configuration.\<close>

lemma removal_reported_as_failure:
  assumes "map_of (gw_clients cfg) c = Some row" and "nw_denied w (FsWrite ''.env'')"
    and "persistConfig lib False False (cfg\<lparr>gw_clients := obj_delete c (gw_clients cfg)\<rparr>) w = (Inr cfg', w1)"
  shows "\<exists>e. applyRemoveClient lib cfg c w = (Inl e, w1) \<and> config_of w1 = Some (nl_dump lib (cfg\<lparr>gw_clients := obj_delete c (gw_clients cfg)\<rparr>))"
proof -
  have "nw_denied w1 (FsWrite ''.env'')" using persist_Inr(4) [OF assms(3)] assms(2) by simp
  then have "\<exists>e. removeVar k w1 = (Inl e, w1)" for k
    by (auto simp: removeVar_def readLines_def io_map_def io_catch_apply io_bind_apply node_simps split: option.split)
  then obtain e where "removeVar (cc_gatewayKeyRef row) w1 = (Inl e, w1)" by blast
  then show ?thesis using assms(1,3) persist_Inr(3) [OF assms(3)] by (simp add: applyRemoveClient_def Let_def io_bind_apply)
qed

end
