(* ===== verification/Spec2Isabelle.thy ===== *)
theory Spec2Isabelle
  imports Prelude Errors Gateway_Types Request_Policy Config Registry Resilience
    Rate_Limit Rate_Limit_Props Guards Json_Codec Cache_Identity Response_Cache Circuit_Breaker Vector_Store
    Semantic_Cache Cache_Pipeline Response_Builder Observability Singleflight Chat_Service Chat_Props Stream_Props
    OpenAI_Facade Anthropic_Facade Facade_Controllers Facade_Props
    Vendor_Requests Vendor_Adapters Vendor_Props Provider_Bootstrap Models_Catalog
    Node_Files Env_File App_Configuration Redis_Connection Health
    Cli_Config Cli_Managers Cli_Prompts Wizard_State Wizard_Config
    Cli_Wizard Cli_Init Cli_Commands
begin

text \<open>
  A verification library for the AI provider gateway, a NestJS service that puts one HTTP interface before several
  vendors of language models. Paths below are relative to the repository's \<open>src/\<close> directory.

  \<^bold>\<open>The program and its parts.\<close> A request for a model alias enters through the native endpoints
  (\<open>chat/chat.controller.ts\<close>, \<open>chat-stream.controller.ts\<close>) or through facades that speak the OpenAI and
  Anthropic protocols (\<open>integrations\<close>). Guards check the gateway key and the rate limits, an interceptor gives
  stream slots back. \<open>chat/chat.service.ts\<close> validates the request, resolves its alias in the provider registry,
  refuses it while the provider cools down for this key, asks the exact and the semantic cache, joins
  equal requests in flight, and otherwise calls the provider through the resilient executor (retry, timeout,
  fallback alias). Replies are stored, measured and turned into a JSON answer or into server-sent events; errors become
  one envelope in the exception filters.

  \<^bold>\<open>Modelling.\<close> Records and datatypes follow the TypeScript types; optional fields are \<open>option\<close>; an
  \<open>unknown\<close> value is a \<open>json\<close> value. Code that may throw returns \<open>jserr + 'a\<close> (\<open>result\<close>); code that also reads or changes the world
  (Redis, clocks, metrics, the response being written) is a function \<open>'w \<Rightarrow> ('a result) \<times> 'w\<close> (\<open>io\<close>) over
  an arbitrary type of worlds, with \<open>io_bind\<close>, \<open>io_catch\<close> and \<open>io_finally\<close> for \<open>await\<close>, \<open>catch\<close> and \<open>finally\<close>. What is
  not in the repository (Redis, vendor SDKs, timers, uuid, hash functions, the embedding service) is a field of an environment
  record; what the theorems need of it is a named predicate, such as \<open>redis_up\<close>, and witnesses instantiate it with an
  in-memory Redis (\<open>mem_redis\<close>). Numbers of the protocols are rational or integer: no arithmetic of the modelled code
  depends on rounding or on the width of a word. Characters are 8-bit.

  \<^bold>\<open>Theories\<close>, in the order of the code's dependencies:

  \<^item> \<open>Prelude\<close>: JavaScript values and string operations, the effect types, \<open>never_throws\<close> and \<open>returns\<close> with
    their rule collections.
  \<^item> \<open>Errors\<close>: \<open>common/errors\<close>, \<open>common/filters\<close>, the three vendor error mappers. The locale
    \<open>provider_error_mapper\<close> is the contract every mapper meets.
  \<^item> \<open>Gateway_Types\<close>: \<open>chat/dto\<close>, \<open>chat/types\<close>, \<open>providers/interfaces\<close>.
  \<^item> \<open>Request_Policy\<close>: \<open>chat/validation\<close> and the request helpers of \<open>chat/helpers\<close>: ingress limits, resolution of
    parameters against a model's policy, the provider input.
  \<^item> \<open>Config\<close>, \<open>Registry\<close>: \<open>config\<close> and \<open>providers/provider-registry.service.ts\<close>: cross-field rules, secrets, the effective
    configuration, gateway keys, alias resolution.
  \<^item> \<open>Resilience\<close>: \<open>chat/resilience\<close>. The inductive relation \<open>execution_trace\<close> is the protocol the executor refines.
  \<^item> \<open>Rate_Limit\<close>, \<open>Rate_Limit_Props\<close>: \<open>rate-limit/smart-rate-limiter.service.ts\<close>: the token bucket script, the stream counter
    as a step relation over interleavings, the cooldown.
  \<^item> \<open>Guards\<close>: \<open>guards\<close>, \<open>common/interceptors\<close>, the cooldown services of \<open>chat/services\<close>.
  \<^item> \<open>Json_Codec\<close>, \<open>Cache_Identity\<close>, \<open>Response_Cache\<close>: the exact cache; \<open>JSON.parse (JSON.stringify v)\<close> is proved to be
    \<open>v\<close>, on which the round trips of the caches and streams rest. The locale \<open>response_cache_backend\<close> is interpreted on both backends.
  \<^item> \<open>Circuit_Breaker\<close>, \<open>Vector_Store\<close>, \<open>Semantic_Cache\<close>: \<open>cache/semantic\<close>; the locale \<open>vector_store_contract\<close>
    is interpreted on the Redis adapter.
  \<^item> \<open>Cache_Pipeline\<close>, \<open>Response_Builder\<close>, \<open>Observability\<close>, \<open>Singleflight\<close>: cache policy and pipeline, replay, answers and
    events, metrics, coalescing.
  \<^item> \<open>Chat_Service\<close>, \<open>Chat_Props\<close>, \<open>Stream_Props\<close>: \<open>chat/chat.service.ts\<close>, \<open>chat-provider-call.service.ts\<close> and the controllers.
  \<^item> \<open>OpenAI_Facade\<close>, \<open>Anthropic_Facade\<close>, \<open>Facade_Controllers\<close>, \<open>Facade_Props\<close>: \<open>integrations\<close>. Readers of both
    wire protocols are written as a client would, and state that streams say what the JSON answers say.
  \<^item> \<open>Vendor_Requests\<close>, \<open>Vendor_Adapters\<close>, \<open>Vendor_Props\<close>: \<open>providers/openai\<close>, \<open>providers/anthropic\<close>, \<open>providers/google\<close> and
    \<open>providers/factories\<close>: the request bodies, and the adapters that read answers and streams of the SDKs. The locales \<open>vendor_request\<close> and \<open>vendor_adapter\<close>
    are interpreted on each vendor.
  \<^item> \<open>Provider_Bootstrap\<close>: \<open>providers/provider-instances.bootstrap.ts\<close> and the runtime rows of \<open>config/configuration.ts\<close>: the factories and the start-up.

  \<^item> \<open>Models_Catalog\<close>: \<open>models\<close> and the model endpoints of the facades.
  \<^item> \<open>Node_Files\<close>, \<open>Env_File\<close>: files, environment and clock of the Node runtime as a record \<open>node_world\<close> in which any operation may be denied (paths are
    relative to the working directory), and the services that edit \<open>.env\<close> and keep backups. The locale \<open>variable_file\<close> is what the managers rely on.
  \<^item> \<open>App_Configuration\<close>: \<open>config/env.validation.ts\<close>, the value rules of the YAML schema, the prompt files, \<open>buildAppConfiguration\<close>, and the validator of
    \<open>config/config-validator.ts\<close>. js-yaml, dotenv and the URL parser are the fields of \<open>node_lib\<close>.
  \<^item> \<open>Redis_Connection\<close>, \<open>Health\<close>: the connection service as a step relation between the awaits of its methods; readiness, its probes and gauges.
  \<^item> \<open>Cli_Config\<close>, \<open>Cli_Managers\<close>, \<open>Cli_Prompts\<close>: the \<open>gateway\<close> command line: loading, persisting, default policies, and the managers of providers, models and
    clients with their prompts. The answers of the user are arguments.
  \<^item> \<open>Wizard_State\<close>, \<open>Wizard_Config\<close>: the progress file of the configuration wizard, its prompts and the templates of the files it writes.
  \<^item> \<open>Cli_Wizard\<close>, \<open>Cli_Init\<close>: the run of the wizard and its resumption, the generator of the files, \<open>config:init\<close> with its validation loop and its agent mode. The user of a run
    is a record of answers, interruptions and edits.
  \<^item> \<open>Cli_Commands\<close>: the commands on providers, models and clients, \<open>key:generate\<close> and \<open>config:secrets-status\<close>, interactively and with an answers file.

  \<^bold>\<open>What the lemmas show.\<close> Admission: the guards admit exactly the configured keys, the bucket bounds the requests in any
  window, open streams stay within the limit and slots come back. Routing and policy: disabled providers are unreachable, parameters stay
  within the policy. Execution: start-up serves every configured alias, every vendor is asked
  what the gateway was asked, the executor follows its protocol, a reply comes from the last response of the
  provider, stream events are ordered. Caching: keys separate clients and requests, what was stored is what is served, only
  servable replies are served, a broken Redis or embedding service never fails a request. Errors: every error has a status and code
  of the table and unknown errors disclose nothing. Operation: the validator predicts the start, at most one Redis connection is open, readiness follows the
  configuration, the commands change configuration and secrets together or not at all, the answers the wizard accepts give a gateway that starts, an interrupted
  wizard resumes without a trace in its result, its validation loop ends, and a command that fails leaves the configuration alone. Some theorems state defects of the code, as their texts say.

  \<^bold>\<open>Bounds and fuel.\<close> Every loop of the code is a total function with its termination proof, except the validation loop of
  \<open>config:init\<close>, which is the \<open>while\<close> combinator with a theorem that it ends after ten turns, and the JSON reader, which runs on fuel
  \<open>2 * length + 1\<close>; each level of the reader consumes a character, and the round trip theorem shows that this fuel is enough for every
  printed value. Fractions are printed with at most 24 digits.

  \<^bold>\<open>Not modelled.\<close> The texts the command line prints, the argument parsing of its commands, its list and show commands and the live test of a provider, logging, dependency injection and start-up, the class-validator
  and OpenAPI decorators, the Sentry adapter, the types (as opposed to the value rules) of the zod schemas, which are part of the reader \<open>nl_decode\<close>.
\<close>

end
